(* ===== verification/LoLa_Prelude.thy ===== *)
theory LoLa_Prelude
  imports Main "HOL-Library.Word"
begin

text \<open>
  Shared vocabulary of the development: the machine integers of the firmware, the byte
  views of \<open>uint16_t\<close> and \<open>uint32_t\<close> that the sources build with \<open>union\<close>s on a
  little-endian core, bytewise stores into fixed arrays, and the three collections of
  rewrite rules the component theories share.
\<close>

unbundle bit_operations_syntax

type_synonym u8 = "8 word"
type_synonym u16 = "16 word"
type_synonym u32 = "32 word"
type_synonym u64 = "64 word"

named_theorems lola_consts \<open>values of the preprocessor constants\<close>
named_theorems lola_frame \<open>fields an operation leaves alone\<close>
named_theorems lola_defs \<open>definitions of small accessors, unfolded by automation\<close>

section \<open>Little-endian byte views\<close>

definition le16_bytes :: "u16 \<Rightarrow> u8 list" where
  "le16_bytes w = [ucast w, ucast (drop_bit 8 w)]"

definition bytes_le16 :: "u8 list \<Rightarrow> u16" where
  "bytes_le16 bs = ucast (bs ! 0) OR push_bit 8 (ucast (bs ! 1))"

definition le32_bytes :: "u32 \<Rightarrow> u8 list" where
  "le32_bytes w = [ucast w, ucast (drop_bit 8 w), ucast (drop_bit 16 w), ucast (drop_bit 24 w)]"

definition bytes_le32 :: "u8 list \<Rightarrow> u32" where
  "bytes_le32 bs = ucast (bs ! 0) OR push_bit 8 (ucast (bs ! 1))
     OR push_bit 16 (ucast (bs ! 2)) OR push_bit 24 (ucast (bs ! 3))"

lemma length_le16_bytes [simp]: "length (le16_bytes w) = 2"
  by (simp add: le16_bytes_def)

lemma length_le32_bytes [simp]: "length (le32_bytes w) = 4"
  by (simp add: le32_bytes_def)

lemma bytes_le16_le16_bytes [simp]: "bytes_le16 (le16_bytes w @ rest) = w"
proof (rule bit_word_eqI)
  fix n assume "n < LENGTH(16)"
  then show "bit (bytes_le16 (le16_bytes w @ rest)) n = bit w n"
    by (auto simp: bytes_le16_def le16_bytes_def bit_simps)
qed

lemma bytes_le32_le32_bytes [simp]: "bytes_le32 (le32_bytes w @ rest) = w"
proof (rule bit_word_eqI)
  fix n assume "n < LENGTH(32)"
  then have "n < 8 \<or> (8 \<le> n \<and> n < 16) \<or> (16 \<le> n \<and> n < 24) \<or> (24 \<le> n \<and> n < 32)" by auto
  then show "bit (bytes_le32 (le32_bytes w @ rest)) n = bit w n"
    by (elim disjE) (auto simp: bytes_le32_def le32_bytes_def bit_simps)
qed

lemmas bytes_le_roundtrip [simp] =
  bytes_le16_le16_bytes [where rest = "[]", simplified]
  bytes_le32_le32_bytes [where rest = "[]", simplified]

lemma le32_bytes_inject: "le32_bytes a = le32_bytes b \<longleftrightarrow> a = b"
  by (metis bytes_le_roundtrip(2))

section \<open>Bytewise stores\<close>

text \<open>
  \<open>store off src dst\<close> is the loop \<open>dst[off + i] = src[i]\<close>; a store outside \<open>dst\<close>
  is dropped here, and every definition that could make one says so itself.
\<close>

fun store :: "nat \<Rightarrow> 'a list \<Rightarrow> 'a list \<Rightarrow> 'a list" where
  "store off [] dst = dst"
| "store off (x # xs) dst = store (Suc off) xs (dst[off := x])"

lemma length_store [simp]: "length (store off src dst) = length dst"
  by (induction off src dst rule: store.induct) auto

lemma store_split:
  "off + length src \<le> length dst \<Longrightarrow>
    store off src dst = take off dst @ src @ drop (off + length src) dst"
proof (induction off src dst rule: store.induct)
  case (1 off dst)
  then show ?case by simp
next
  case (2 off x xs dst)
  then have "store (Suc off) xs (dst[off := x]) =
      take (Suc off) (dst[off := x]) @ xs @ drop (Suc off + length xs) (dst[off := x])"
    by simp
  also have "take (Suc off) (dst[off := x]) = take off dst @ [x]"
    using "2.prems" by (simp add: take_Suc_conv_app_nth)
  finally show ?case using "2.prems" by simp
qed

lemma drop_store [simp]:
  "off + length src \<le> length dst \<Longrightarrow> drop off (store off src dst) = src @ drop (off + length src) dst"
  by (simp add: store_split)

lemma take_drop_store [simp]:
  "off + length src \<le> length dst \<Longrightarrow> take (length src) (drop off (store off src dst)) = src"
  by simp

lemma take_store [simp]:
  "off + length src \<le> length dst \<Longrightarrow> k \<le> off \<Longrightarrow> take k (store off src dst) = take k dst"
  by (simp add: store_split)

lemma store_whole [simp]: "length src = length dst \<Longrightarrow> store 0 src dst = src"
  by (simp add: store_split)

lemma nth_store_before [simp]:
  "off + length src \<le> length dst \<Longrightarrow> i < off \<Longrightarrow> store off src dst ! i = dst ! i"
  by (simp add: store_split nth_append)

lemma filter_update_new:
  "i < length xs \<Longrightarrow> \<not> P (xs ! i) \<Longrightarrow> P y \<Longrightarrow>
    length (filter P (xs[i := y])) = Suc (length (filter P xs))"
proof (induction xs arbitrary: i)
  case Nil
  then show ?case by simp
next
  case (Cons x xs)
  then show ?case by (cases i) auto
qed

section \<open>Arduino arithmetic\<close>

text \<open>
  C division truncates towards zero; \<open>map\<close> and \<open>constrain\<close> are the Arduino core's, over
  \<open>long\<close> values that stay far from overflow here.
\<close>

definition c_div :: "int \<Rightarrow> int \<Rightarrow> int" where
  "c_div a b = sgn a * sgn b * (\<bar>a\<bar> div \<bar>b\<bar>)"

definition arduino_map :: "int \<Rightarrow> int \<Rightarrow> int \<Rightarrow> int \<Rightarrow> int \<Rightarrow> int" where
  "arduino_map x in_min in_max out_min out_max =
     c_div ((x - in_min) * (out_max - out_min)) (in_max - in_min) + out_min"

definition constrain :: "int \<Rightarrow> int \<Rightarrow> int \<Rightarrow> int" where
  "constrain amt low high = (if amt < low then low else if high < amt then high else amt)"

lemma constrain_bounds: "low \<le> high \<Longrightarrow> low \<le> constrain amt low high \<and> constrain amt low high \<le> high"
  by (simp add: constrain_def)

lemma c_div_nonneg: "0 \<le> a \<Longrightarrow> 0 < b \<Longrightarrow> c_div a b = a div b"
  by (auto simp: c_div_def sgn_if)

lemma arduino_map_mono:
  assumes "in_min \<le> x" "x \<le> y" "in_min < in_max" "out_min \<le> out_max"
  shows "arduino_map x in_min in_max out_min out_max \<le> arduino_map y in_min in_max out_min out_max"
  using assms
  by (simp add: arduino_map_def c_div_nonneg zdiv_mono1 mult_right_mono)

lemma arduino_map_range:
  assumes "in_min \<le> x" "x \<le> in_max" "in_min < in_max" "out_min \<le> out_max"
  shows "out_min \<le> arduino_map x in_min in_max out_min out_max"
    and "arduino_map x in_min in_max out_min out_max \<le> out_max"
proof -
  have "arduino_map in_min in_min in_max out_min out_max = out_min"
    by (simp add: arduino_map_def c_div_def)
  then show "out_min \<le> arduino_map x in_min in_max out_min out_max"
    using arduino_map_mono [of in_min in_min x in_max out_min out_max] assms by simp
  have "arduino_map in_max in_min in_max out_min out_max = out_max"
    using assms by (simp add: arduino_map_def c_div_nonneg)
  then show "arduino_map x in_min in_max out_min out_max \<le> out_max"
    using arduino_map_mono [of in_min x in_max in_max out_min out_max] assms by simp
qed

section \<open>Bounds on words\<close>

lemma unat_u8_less [simp]: "unat (w :: u8) < 256"
  by (rule order.strict_trans2 [OF unsigned_less]) simp

lemma unat_ucast_mod: "unat (ucast (x :: 'a::len word) :: 'b::len word) = unat x mod 2 ^ LENGTH('b)"
  by (simp add: unsigned_ucast_eq take_bit_eq_mod)

lemma unat_ucast_up:
  assumes "LENGTH('a) \<le> LENGTH('b)"
  shows "unat (ucast (x :: 'a::len word) :: 'b::len word) = unat x"
proof -
  have "unat x < 2 ^ LENGTH('b)"
    by (rule order.strict_trans2 [OF unsigned_less]) (simp add: assms)
  then show ?thesis by (simp add: unat_ucast_mod)
qed

lemma unat_of_nat_mod: "unat (of_nat n :: 'b::len word) = n mod 2 ^ LENGTH('b)"
  by (simp add: unsigned_of_nat take_bit_eq_mod)

lemma unat_less_imp_word_less:
  "unat a < unat b \<longleftrightarrow> (a :: 'a::len word) < b"
  by (simp add: word_less_nat_alt)

lemma word_mod_less_u32: "0 < m \<Longrightarrow> (x :: u32) mod m < m"
  by (simp add: word_mod_less_divisor)

end
