(* ===== verification/Platform.thy ===== *)
theory Platform
  imports LoLa_Prelude
begin

text \<open>
  Everything the firmware calls that is not in the repository, as one record that every
  definition using it takes as its first argument: the Arduino clock and \<open>random\<close>, the
  STM32 RTC and chip id, FastCRC, Ascon128 and SHA256 of arduinolibs, micro-ecc,
  RingBufCPP, BitTracker and the Si446x radio. The objects of those libraries that keep a state
  (cypher, hasher) are carried as their memory image, a list of bytes; a ring buffer is
  carried as what \<open>peek(0)\<close>, \<open>peek(1)\<close>, ... show, oldest first.

  A value of \<open>platform\<close> is what one run of a callback or handler sees: \<open>millis_now\<close>
  and \<open>micros_now\<close> are the clock while it runs, \<open>millis_later\<close> is the reading taken
  after the slow \<open>SendPacket\<close> call. Each later callback may see another platform value.

  Two fields stand for what the sources leave open: \<open>collision_slot_range\<close> for the macro
  \<open>LOLA_LINK_COLLISION_SLOT_RANGE_MICROS\<close>, which no file defines, and \<open>missing_return\<close> for
  the value a caller sees when a \<open>bool\<close> function ends without \<open>return\<close>.

  The documented behaviour the code relies on is stated as predicates (\<open>ring_ok\<close>,
  \<open>cypher_ok\<close>, \<open>hash_ok\<close>, \<open>ecc_ok\<close>, \<open>tracker_ok\<close>, \<open>random_ok\<close>); they appear as
  hypotheses of the properties that need them, and \<open>sample_platform\<close> is one concrete
  value that meets them all.
\<close>

section \<open>Library interfaces\<close>

record 'a ring_ops =
  ring_add_force :: "'a \<Rightarrow> 'a list \<Rightarrow> 'a list"
  ring_pull :: "'a list \<Rightarrow> ('a \<times> 'a list) option"

record tracker_ops =
  bt_set_bit :: "nat \<Rightarrow> bool list \<Rightarrow> bool list"
  bt_clear_bit :: "nat \<Rightarrow> bool list \<Rightarrow> bool list"
  bt_set_all :: "bool list \<Rightarrow> bool list"
  bt_clear_all :: "bool list \<Rightarrow> bool list"
  bt_has_set :: "bool list \<Rightarrow> bool"
  bt_next_set_index :: "nat \<Rightarrow> bool list \<Rightarrow> nat"

record platform =
  millis_now :: u32
  micros_now :: u32
  millis_later :: u32
  random_between :: "int \<Rightarrow> int \<Rightarrow> int"
  rtc_time :: u32
  chip_id :: "u8 list"
  crc16_modbus :: "u8 list \<Rightarrow> u16"
  crc8_smbus :: "u8 list \<Rightarrow> u8"
  crc8_smbus_upd :: "u8 \<Rightarrow> u8 list \<Rightarrow> u8"
  cypher_clear :: "u8 list \<Rightarrow> u8 list"
  cypher_set_key :: "u8 list \<Rightarrow> u8 list \<Rightarrow> bool \<times> u8 list"
  cypher_set_iv :: "u8 list \<Rightarrow> u8 list \<Rightarrow> bool \<times> u8 list"
  cypher_add_auth :: "u8 list \<Rightarrow> u8 list \<Rightarrow> u8 list"
  cypher_encrypt :: "u8 list \<Rightarrow> u8 list \<Rightarrow> u8 list \<times> u8 list"
  cypher_decrypt :: "u8 list \<Rightarrow> u8 list \<Rightarrow> u8 list \<times> u8 list"
  hash_clear :: "u8 list \<Rightarrow> u8 list"
  hash_update :: "u8 list \<Rightarrow> u8 list \<Rightarrow> u8 list"
  hash_finalize :: "nat \<Rightarrow> u8 list \<Rightarrow> u8 list \<times> u8 list"
  ecc_make_key :: "bool \<times> u8 list \<times> u8 list"
  ecc_compress :: "u8 list \<Rightarrow> u8 list"
  ecc_decompress :: "u8 list \<Rightarrow> u8 list"
  ecc_shared_secret :: "u8 list \<Rightarrow> u8 list \<Rightarrow> u8 list option"
  ring_actions :: "(u8 \<times> u8) ring_ops"
  ring_rssi :: "u8 ring_ops"
  ring_latency :: "u16 ring_ops"
  tracker :: tracker_ops
  radio_tx :: "u8 list \<Rightarrow> u8 \<Rightarrow> u8 \<Rightarrow> bool"
  radio_rx_bytes :: "nat \<Rightarrow> u8 list"
  radio_part :: u16
  collision_slot_range :: int
  missing_return :: bool

section \<open>Documented behaviour\<close>

definition ring_ok :: "nat \<Rightarrow> 'a ring_ops \<Rightarrow> bool" where
  "ring_ok n R \<longleftrightarrow> (\<forall>q. length q \<le> n \<longrightarrow>
      (\<forall>x. ring_add_force R x q = (if length q < n then q @ [x] else tl q @ [x])) \<and>
      ring_pull R q = (case q of [] \<Rightarrow> None | x # xs \<Rightarrow> Some (x, xs)))"

lemma ring_add_force_ok [simp]:
  "ring_ok n R \<Longrightarrow> length q \<le> n \<Longrightarrow>
    ring_add_force R x q = (if length q < n then q @ [x] else tl q @ [x])"
  unfolding ring_ok_def by blast

lemma ring_pull_ok [simp]:
  "ring_ok n R \<Longrightarrow> length q \<le> n \<Longrightarrow>
    ring_pull R q = (case q of [] \<Rightarrow> None | x # xs \<Rightarrow> Some (x, xs))"
  unfolding ring_ok_def by blast

definition cypher_load :: "platform \<Rightarrow> u8 list \<Rightarrow> u8 list \<Rightarrow> u8 list \<Rightarrow> u8 list \<Rightarrow> u8 list" where
  "cypher_load P key iv auth c =
     cypher_add_auth P auth (snd (cypher_set_iv P iv (snd (cypher_set_key P key c))))"

text \<open>
  Ascon128 after \<open>setKey\<close>, \<open>setIV\<close> and \<open>addAuthData\<close>: a stream cypher, so the output
  is as long as the input, and decryption under the same key, IV and authenticated data
  undoes encryption whatever the cypher object held before.
\<close>

definition cypher_ok :: "platform \<Rightarrow> bool" where
  "cypher_ok P \<longleftrightarrow> (\<forall>key iv auth c c' m.
      length (fst (cypher_encrypt P m (cypher_load P key iv auth c))) = length m \<and>
      length (fst (cypher_decrypt P m (cypher_load P key iv auth c))) = length m \<and>
      fst (cypher_decrypt P (fst (cypher_encrypt P m (cypher_load P key iv auth c)))
        (cypher_load P key iv auth c')) = m)"

lemma cypher_ok_decrypt [simp]:
  "cypher_ok P \<Longrightarrow> fst (cypher_decrypt P (fst (cypher_encrypt P m (cypher_load P key iv auth c)))
     (cypher_load P key iv auth c')) = m"
  by (simp add: cypher_ok_def)

lemma cypher_ok_length [simp]:
  "cypher_ok P \<Longrightarrow> length (fst (cypher_encrypt P m (cypher_load P key iv auth c))) = length m"
  "cypher_ok P \<Longrightarrow> length (fst (cypher_decrypt P m (cypher_load P key iv auth c))) = length m"
  by (simp_all add: cypher_ok_def)

text \<open>SHA256: \<open>clear\<close> starts over whatever the object held, \<open>finalize\<close> gives the bytes asked for.\<close>

definition hash_ok :: "platform \<Rightarrow> bool" where
  "hash_ok P \<longleftrightarrow> (\<forall>h h'. hash_clear P h = hash_clear P h') \<and>
     (\<forall>n h. length (fst (hash_finalize P n h)) = n)"

text \<open>micro-ecc: what \<open>uECC_compress\<close> writes has one byte more than the curve size.\<close>

definition ecc_keypair :: "platform \<Rightarrow> u8 list \<Rightarrow> u8 list \<Rightarrow> bool" where
  "ecc_keypair P pub priv \<longleftrightarrow> length (ecc_compress P pub) = 21 \<and>
     ecc_decompress P (ecc_compress P pub) = pub"

definition ecc_ok :: "platform \<Rightarrow> u8 list \<Rightarrow> u8 list \<Rightarrow> u8 list \<Rightarrow> u8 list \<Rightarrow> bool" where
  "ecc_ok P pubA privA pubB privB \<longleftrightarrow> ecc_keypair P pubA privA \<and> ecc_keypair P pubB privB \<and>
     ecc_shared_secret P pubB privA \<noteq> None \<and>
     ecc_shared_secret P pubB privA = ecc_shared_secret P pubA privB"

definition tracker_ok :: "tracker_ops \<Rightarrow> bool" where
  "tracker_ok T \<longleftrightarrow>
     (\<forall>i bs. bt_set_bit T i bs = bs[i := True]) \<and>
     (\<forall>i bs. bt_clear_bit T i bs = bs[i := False]) \<and>
     (\<forall>bs. bt_set_all T bs = replicate (length bs) True) \<and>
     (\<forall>bs. bt_clear_all T bs = replicate (length bs) False) \<and>
     (\<forall>bs. bt_has_set T bs \<longleftrightarrow> True \<in> set bs) \<and>
     (\<forall>i bs. True \<in> set bs \<longrightarrow>
        bt_next_set_index T i bs < length bs \<and> bs ! bt_next_set_index T i bs)"

definition random_ok :: "platform \<Rightarrow> bool" where
  "random_ok P \<longleftrightarrow> (\<forall>lo hi. lo < hi \<longrightarrow> lo \<le> random_between P lo hi \<and> random_between P lo hi < hi)"

section \<open>A concrete platform\<close>

definition sample_ring :: "nat \<Rightarrow> 'a ring_ops" where
  "sample_ring n = \<lparr> ring_add_force = (\<lambda>x q. if length q < n then q @ [x] else tl q @ [x]),
     ring_pull = (\<lambda>q. case q of [] \<Rightarrow> None | x # xs \<Rightarrow> Some (x, xs)) \<rparr>"

fun first_set :: "bool list \<Rightarrow> nat" where
  "first_set [] = 0"
| "first_set (b # bs) = (if b then 0 else Suc (first_set bs))"

definition sample_tracker :: tracker_ops where
  "sample_tracker = \<lparr> bt_set_bit = (\<lambda>i bs. bs[i := True]), bt_clear_bit = (\<lambda>i bs. bs[i := False]),
     bt_set_all = (\<lambda>bs. replicate (length bs) True), bt_clear_all = (\<lambda>bs. replicate (length bs) False),
     bt_has_set = (\<lambda>bs. True \<in> set bs),
     bt_next_set_index = (\<lambda>i bs.
       (if True \<in> set (drop i bs) then i + first_set (drop i bs) else first_set bs)) \<rparr>"

text \<open>
  The cypher of the sample adds the first key byte to every byte; its state is that byte.
  The hasher keeps the bytes it saw; the key exchange multiplies one-byte exponents.
\<close>

definition sample_platform :: platform where
  "sample_platform = \<lparr> millis_now = 0, micros_now = 0, millis_later = 0,
     random_between = (\<lambda>lo hi. lo), rtc_time = 0, chip_id = replicate 12 7,
     crc16_modbus = (\<lambda>bs. foldr (\<lambda>b a. 3 * a + ucast b + 1) bs 0),
     crc8_smbus = (\<lambda>bs. foldr (\<lambda>b a. 3 * a + b + 1) bs 0),
     crc8_smbus_upd = (\<lambda>s bs. foldr (\<lambda>b a. 3 * a + b + 1) bs s),
     cypher_clear = (\<lambda>c. [0]),
     cypher_set_key = (\<lambda>k c. (True, take 1 k)),
     cypher_set_iv = (\<lambda>iv c. (True, c)),
     cypher_add_auth = (\<lambda>a c. c),
     cypher_encrypt = (\<lambda>m c. (map (\<lambda>x. x + sum_list c) m, c)),
     cypher_decrypt = (\<lambda>m c. (map (\<lambda>x. x - sum_list c) m, c)),
     hash_clear = (\<lambda>h. []), hash_update = (\<lambda>bs h. h @ bs),
     hash_finalize = (\<lambda>n h. (take n (h @ replicate n 0), [])),
     ecc_make_key = (True, 3 # replicate 39 0, 3 # replicate 20 0),
     ecc_compress = (\<lambda>pub. take 21 pub), ecc_decompress = (\<lambda>c. c @ replicate 19 0),
     ecc_shared_secret = (\<lambda>pub priv. Some (replicate 20 (hd pub * hd priv))),
     ring_actions = sample_ring 4, ring_rssi = sample_ring 3, ring_latency = sample_ring 3,
     tracker = sample_tracker,
     radio_tx = (\<lambda>raw size channel. True), radio_rx_bytes = (\<lambda>n. replicate n 0),
     radio_part = 17507, collision_slot_range = 2500, missing_return = True \<rparr>"

text \<open>Reading a field of the sample without unfolding the whole record.\<close>

lemma sample_platform_fields [simp]:
  "millis_now sample_platform = 0" "micros_now sample_platform = 0" "millis_later sample_platform = 0"
  "random_between sample_platform lo hi = lo" "rtc_time sample_platform = 0"
  "crc16_modbus sample_platform bs = foldr (\<lambda>b a. 3 * a + ucast b + 1) bs 0"
  "crc8_smbus sample_platform bs = foldr (\<lambda>b a. 3 * a + b + 1) bs 0"
  "crc8_smbus_upd sample_platform x bs = foldr (\<lambda>b a. 3 * a + b + 1) bs x"
  "cypher_clear sample_platform c = [0]"
  "cypher_set_key sample_platform k c = (True, take 1 k)"
  "cypher_set_iv sample_platform k c = (True, c)"
  "cypher_add_auth sample_platform a c = c"
  "cypher_encrypt sample_platform m c = (map (\<lambda>x. x + sum_list c) m, c)"
  "cypher_decrypt sample_platform m c = (map (\<lambda>x. x - sum_list c) m, c)"
  "hash_clear sample_platform h = []" "hash_update sample_platform bs h = h @ bs"
  "hash_finalize sample_platform n h = (take n (h @ replicate n 0), [])"
  "ecc_make_key sample_platform = (True, 3 # replicate 39 0, 3 # replicate 20 0)"
  "ecc_compress sample_platform pub = take 21 pub"
  "ecc_decompress sample_platform cs = cs @ replicate 19 0"
  "ecc_shared_secret sample_platform pub priv = Some (replicate 20 (hd pub * hd priv))"
  "ring_actions sample_platform = sample_ring 4" "ring_rssi sample_platform = sample_ring 3"
  "ring_latency sample_platform = sample_ring 3" "tracker sample_platform = sample_tracker"
  "radio_tx sample_platform raw sz ch = True"
  "radio_rx_bytes sample_platform n = replicate n 0"
  "radio_part sample_platform = 17507" "missing_return sample_platform = True" "collision_slot_range sample_platform = 2500"
  "chip_id sample_platform = replicate 12 7"
  by (simp_all add: sample_platform_def)

lemma ring_ok_sample [simp]: "ring_ok n (sample_ring n)"
  by (simp add: ring_ok_def sample_ring_def)

lemma cypher_ok_sample [simp]: "cypher_ok sample_platform"
  by (simp add: cypher_ok_def cypher_load_def comp_def)

lemma hash_ok_sample [simp]: "hash_ok sample_platform"
  by (auto simp: hash_ok_def)

lemma random_ok_sample [simp]: "random_ok sample_platform"
  by (simp add: random_ok_def)

lemma first_set_found: "True \<in> set bs \<Longrightarrow> first_set bs < length bs \<and> bs ! first_set bs"
  by (induction bs) auto

lemma tracker_ok_sample [simp]: "tracker_ok (tracker sample_platform)"
proof -
  have "bt_next_set_index sample_tracker i bs < length bs \<and> bs ! bt_next_set_index sample_tracker i bs"
    if t: "True \<in> set bs" for i bs
  proof (cases "True \<in> set (drop i bs)")
    case True
    with first_set_found [OF True] show ?thesis
      by (auto simp: sample_tracker_def less_diff_conv add.commute)
  next
    case False
    with first_set_found [OF t] show ?thesis by (simp add: sample_tracker_def)
  qed
  then show ?thesis
    by (simp add: tracker_ok_def) (simp add: sample_tracker_def)
qed

end
