(* ===== verification/LoLa_Constants.thy ===== *)
theory LoLa_Constants
  imports LoLa_Prelude
begin

text \<open>
  The constants of \<open>src/src/LoLaDefinitions.h\<close> that the modelled code reads, each as the
  macro writes it (integer division included) at the width the code uses it. The build
  switches are those of the file as committed: RTC clock source, latency compensation and
  encryption on; token hop, frequency hop and debug off. All are members of
  \<open>lola_consts\<close>, so \<open>simp add: lola_consts\<close> evaluates them.
\<close>

definition LOLA_LINK_DEFAULT_LATENCY_COMPENSATION_MILLIS :: u32 where
  [lola_consts]: "LOLA_LINK_DEFAULT_LATENCY_COMPENSATION_MILLIS = 1"

definition LOLA_PACKET_MAP_TOTAL_SIZE :: nat where
  [lola_consts]: "LOLA_PACKET_MAP_TOTAL_SIZE = 20"

definition PACKET_DEFINITION_ACK_HEADER :: u8 where
  [lola_consts]: "PACKET_DEFINITION_ACK_HEADER = 0"

definition PACKET_DEFINITION_LINK_START_HEADER :: u8 where
  [lola_consts]: "PACKET_DEFINITION_LINK_START_HEADER = PACKET_DEFINITION_ACK_HEADER + 1"

definition PACKET_DEFINITION_USER_HEADERS_START :: u8 where
  [lola_consts]: "PACKET_DEFINITION_USER_HEADERS_START = PACKET_DEFINITION_LINK_START_HEADER + 5"

definition LOLA_LINK_PROTOCOL_VERSION :: u8 where
  [lola_consts]: "LOLA_LINK_PROTOCOL_VERSION = 1"

definition ILOLA_DEFAULT_DUPLEX_PERIOD_MILLIS :: u32 where
  [lola_consts]: "ILOLA_DEFAULT_DUPLEX_PERIOD_MILLIS = 10"

definition LOLA_LINK_UNLINKED_BACK_OFF_DURATION_MILLIS :: u32 where
  [lola_consts]: "LOLA_LINK_UNLINKED_BACK_OFF_DURATION_MILLIS = ILOLA_DEFAULT_DUPLEX_PERIOD_MILLIS div 2"

definition LOLA_LINK_LINKED_BACK_OFF_DURATION_MILLIS :: u32 where
  [lola_consts]: "LOLA_LINK_LINKED_BACK_OFF_DURATION_MILLIS = 1"

definition LOLA_LINK_INFO_MAC_LENGTH :: nat where
  [lola_consts]: "LOLA_LINK_INFO_MAC_LENGTH = 8"

definition RADIO_POWER_BALANCER_RSSI_SAMPLE_COUNT :: nat where
  [lola_consts]: "RADIO_POWER_BALANCER_RSSI_SAMPLE_COUNT = 3"

definition LOLA_LINK_SERVICE_LINKED_TIMED_HOP_PERIOD_MILLIS :: u32 where
  [lola_consts]: "LOLA_LINK_SERVICE_LINKED_TIMED_HOP_PERIOD_MILLIS = 10000"

definition LOLA_LINK_SERVICE_UNLINK_MIN_LATENCY_SAMPLES :: u8 where
  [lola_consts]: "LOLA_LINK_SERVICE_UNLINK_MIN_LATENCY_SAMPLES = 2"

definition LOLA_LINK_SERVICE_UNLINK_MIN_CLOCK_SAMPLES :: u8 where
  [lola_consts]: "LOLA_LINK_SERVICE_UNLINK_MIN_CLOCK_SAMPLES = 2"

definition LOLA_LINK_SERVICE_UNLINK_MAX_BEFORE_PKC_CANCEL :: u32 where
  [lola_consts]: "LOLA_LINK_SERVICE_UNLINK_MAX_BEFORE_PKC_CANCEL = 300"

definition LOLA_LINK_SERVICE_UNLINK_MAX_BEFORE_LINKING_CANCEL :: u32 where
  [lola_consts]: "LOLA_LINK_SERVICE_UNLINK_MAX_BEFORE_LINKING_CANCEL = 200"

definition LOLA_LINK_SERVICE_UNLINK_HOST_MAX_BEFORE_SLEEP :: u32 where
  [lola_consts]: "LOLA_LINK_SERVICE_UNLINK_HOST_MAX_BEFORE_SLEEP = 10000"

definition LOLA_LINK_SERVICE_UNLINK_REMOTE_MAX_BEFORE_SLEEP :: u32 where
  [lola_consts]: "LOLA_LINK_SERVICE_UNLINK_REMOTE_MAX_BEFORE_SLEEP = 30000"

definition LOLA_LINK_SERVICE_UNLINK_HOST_SLEEP_PERIOD :: u32 where
  [lola_consts]: "LOLA_LINK_SERVICE_UNLINK_HOST_SLEEP_PERIOD = 4294967295"

definition LOLA_LINK_SERVICE_UNLINK_REMOTE_SLEEP_PERIOD :: u32 where
  [lola_consts]: "LOLA_LINK_SERVICE_UNLINK_REMOTE_SLEEP_PERIOD = 3000"

definition LOLA_LINK_SERVICE_UNLINK_RESEND_PERIOD :: u32 where
  [lola_consts]: "LOLA_LINK_SERVICE_UNLINK_RESEND_PERIOD = ILOLA_DEFAULT_DUPLEX_PERIOD_MILLIS div 3"

definition LOLA_LINK_SERVICE_UNLINK_PING_RESEND_PERIOD_MAX :: u32 where
  [lola_consts]: "LOLA_LINK_SERVICE_UNLINK_PING_RESEND_PERIOD_MAX = ILOLA_DEFAULT_DUPLEX_PERIOD_MILLIS div 4"

definition LOLA_LINK_SERVICE_UNLINK_RESEND_LONG_PERIOD :: u32 where
  [lola_consts]: "LOLA_LINK_SERVICE_UNLINK_RESEND_LONG_PERIOD = ILOLA_DEFAULT_DUPLEX_PERIOD_MILLIS * 3"

definition LOLA_LINK_SERVICE_UNLINK_BROADCAST_PERIOD :: u32 where
  [lola_consts]: "LOLA_LINK_SERVICE_UNLINK_BROADCAST_PERIOD = ILOLA_DEFAULT_DUPLEX_PERIOD_MILLIS * 5"

definition LOLA_LINK_SERVICE_UNLINK_REMOTE_SEARCH_PERIOD :: u32 where
  [lola_consts]: "LOLA_LINK_SERVICE_UNLINK_REMOTE_SEARCH_PERIOD = ILOLA_DEFAULT_DUPLEX_PERIOD_MILLIS * 7"

definition LOLA_LINK_SERVICE_UNLINK_TRANSACTION_LIFETIME :: u32 where
  [lola_consts]: "LOLA_LINK_SERVICE_UNLINK_TRANSACTION_LIFETIME = LOLA_LINK_SERVICE_UNLINK_MAX_BEFORE_LINKING_CANCEL"

definition LOLA_LINK_SERVICE_UNLINK_MAX_LATENCY_SAMPLES :: nat where
  [lola_consts]: "LOLA_LINK_SERVICE_UNLINK_MAX_LATENCY_SAMPLES = 3"

definition LOLA_LINK_SERVICE_UNLINK_SESSION_LIFETIME :: u32 where
  [lola_consts]: "LOLA_LINK_SERVICE_UNLINK_SESSION_LIFETIME = LOLA_LINK_SERVICE_UNLINK_HOST_MAX_BEFORE_SLEEP div 2"

definition LOLA_LINK_SERVICE_UNLINK_KEY_PAIR_LIFETIME :: u32 where
  [lola_consts]: "LOLA_LINK_SERVICE_UNLINK_KEY_PAIR_LIFETIME = 60000"

definition LOLA_LINK_SERVICE_LINKED_MAX_BEFORE_DISCONNECT :: u32 where
  [lola_consts]: "LOLA_LINK_SERVICE_LINKED_MAX_BEFORE_DISCONNECT = 3000"

definition LOLA_LINK_SERVICE_LINKED_RESEND_PERIOD :: u32 where
  [lola_consts]: "LOLA_LINK_SERVICE_LINKED_RESEND_PERIOD = (ILOLA_DEFAULT_DUPLEX_PERIOD_MILLIS * 2) div 3"

definition LOLA_LINK_SERVICE_LINKED_PERIOD_INTERVENTION :: u32 where
  [lola_consts]: "LOLA_LINK_SERVICE_LINKED_PERIOD_INTERVENTION = (LOLA_LINK_SERVICE_LINKED_MAX_BEFORE_DISCONNECT * 6) div 10"

definition LOLA_LINK_SERVICE_LINKED_MAX_PANIC :: u32 where
  [lola_consts]: "LOLA_LINK_SERVICE_LINKED_MAX_PANIC = (LOLA_LINK_SERVICE_LINKED_MAX_BEFORE_DISCONNECT * 8) div 10"

definition LOLA_LINK_SERVICE_LINKED_INFO_UPDATE_PERIOD :: u32 where
  [lola_consts]: "LOLA_LINK_SERVICE_LINKED_INFO_UPDATE_PERIOD = (LOLA_LINK_SERVICE_LINKED_MAX_BEFORE_DISCONNECT * 5) div 10"

definition LOLA_LINK_SERVICE_LINKED_INFO_STALE_PERIOD :: u32 where
  [lola_consts]: "LOLA_LINK_SERVICE_LINKED_INFO_STALE_PERIOD = LOLA_LINK_SERVICE_LINKED_PERIOD_INTERVENTION"

definition LOLA_LINK_SERVICE_LINKED_POWER_UPDATE_PERIOD :: u32 where
  [lola_consts]: "LOLA_LINK_SERVICE_LINKED_POWER_UPDATE_PERIOD = (LOLA_LINK_SERVICE_LINKED_MAX_BEFORE_DISCONNECT * 3) div 10"

definition LOLA_LINK_SERVICE_LINKED_UPDATE_RANDOM_JITTER_MAX :: u32 where
  [lola_consts]: "LOLA_LINK_SERVICE_LINKED_UPDATE_RANDOM_JITTER_MAX = 15"

definition LOLA_LINK_SERVICE_LINKED_CLOCK_TUNE_PERIOD :: u32 where
  [lola_consts]: "LOLA_LINK_SERVICE_LINKED_CLOCK_TUNE_PERIOD = 10000"

definition LOLA_LINK_SEND_FAIL_RETRY_PERIOD :: u32 where
  [lola_consts]: "LOLA_LINK_SEND_FAIL_RETRY_PERIOD = ILOLA_DEFAULT_DUPLEX_PERIOD_MILLIS * 5"

definition LOLA_LINK_SERVICE_CHECK_PERIOD :: u32 where
  [lola_consts]: "LOLA_LINK_SERVICE_CHECK_PERIOD = 1"

definition LOLA_LINK_SERVICE_IDLE_PERIOD :: u32 where
  [lola_consts]: "LOLA_LINK_SERVICE_IDLE_PERIOD = LOLA_LINK_SERVICE_LINKED_MAX_BEFORE_DISCONNECT div 10"

definition ILOLA_INVALID_RSSI :: u16 where
  [lola_consts]: "ILOLA_INVALID_RSSI = 0x8000"

definition ILOLA_INVALID_MILLIS :: u32 where
  [lola_consts]: "ILOLA_INVALID_MILLIS = 4294967295"

definition ILOLA_INVALID_MICROS :: u32 where
  [lola_consts]: "ILOLA_INVALID_MICROS = ILOLA_INVALID_MILLIS"

definition ILOLA_INVALID_LATENCY :: u16 where
  [lola_consts]: "ILOLA_INVALID_LATENCY = 65535"

section \<open>Time stamps with an invalid value\<close>

text \<open>
  The pattern the services repeat for every time stamp: an unset stamp counts as elapsed
  for ever, a set one as the unsigned difference, which survives the wrap of \<open>millis()\<close>.
\<close>

definition elapsed_since :: "u32 \<Rightarrow> u32 \<Rightarrow> u32" where
  "elapsed_since now stamp =
     (if stamp = ILOLA_INVALID_MILLIS then ILOLA_INVALID_MILLIS else now - stamp)"

lemma elapsed_since_invalid [simp]: "elapsed_since now ILOLA_INVALID_MILLIS = ILOLA_INVALID_MILLIS"
  by (simp add: elapsed_since_def)

lemma elapsed_since_valid [simp]:
  "stamp \<noteq> ILOLA_INVALID_MILLIS \<Longrightarrow> elapsed_since (stamp + d) stamp = d"
  by (simp add: elapsed_since_def)

end
