(* ===== verification/Key_Exchange.thy ===== *)
theory Key_Exchange
  imports Platform LoLa_Constants
begin

text \<open>
  \<open>src/src/LoLaCrypto/LoLaCryptoKeyExchange.h\<close>: the ECDH stage machine over micro-ecc, its five
  key buffers, and the order in which the library is called.
\<close>

definition KEY_CURVE_SIZE :: nat where
  [lola_consts]: "KEY_CURVE_SIZE = 20"

definition KEY_MAX_SIZE :: nat where
  [lola_consts]: "KEY_MAX_SIZE = KEY_CURVE_SIZE + 1"

datatype PairingStageEnum = StageClear | StageLocalKey | StagePartnerKey | StageSharedKey

record LoLaCryptoKeyExchanger =
  PairingStage :: PairingStageEnum
  PartnerPublicKeyCompressed :: "u8 list"
  LocalPublicKeyCompressed :: "u8 list"
  PrivateKey :: "u8 list"
  SharedKey :: "u8 list"
  UncompressedKey :: "u8 list"

definition KeyExchanger_new :: LoLaCryptoKeyExchanger where
  "KeyExchanger_new = \<lparr> PairingStage = StageClear,
     PartnerPublicKeyCompressed = replicate (KEY_CURVE_SIZE + 1) 0,
     LocalPublicKeyCompressed = replicate (KEY_CURVE_SIZE + 1) 0,
     PrivateKey = replicate (KEY_CURVE_SIZE + 1) 0,
     SharedKey = replicate KEY_CURVE_SIZE 0,
     UncompressedKey = replicate (KEY_CURVE_SIZE * 2) 0 \<rparr>"

definition KeyExchanger_Setup :: "LoLaCryptoKeyExchanger \<Rightarrow> bool \<times> LoLaCryptoKeyExchanger" where
  "KeyExchanger_Setup k = (True, k\<lparr>PairingStage := StageClear\<rparr>)"

definition KeyExchanger_Clear :: "LoLaCryptoKeyExchanger \<Rightarrow> LoLaCryptoKeyExchanger" where
  "KeyExchanger_Clear k = k\<lparr>PairingStage := StageClear\<rparr>"

definition KeyExchanger_ClearPartner :: "LoLaCryptoKeyExchanger \<Rightarrow> LoLaCryptoKeyExchanger" where
  "KeyExchanger_ClearPartner k =
     (if PairingStage k = StagePartnerKey \<or> PairingStage k = StageSharedKey
      then k\<lparr>PairingStage := StageLocalKey\<rparr> else k)"

definition KeyExchanger_IsReadyToUse :: "LoLaCryptoKeyExchanger \<Rightarrow> bool" where
  "KeyExchanger_IsReadyToUse k \<longleftrightarrow> PairingStage k = StageSharedKey"

definition KeyExchanger_GetSharedKeyPointer :: "LoLaCryptoKeyExchanger \<Rightarrow> u8 list" where
  "KeyExchanger_GetSharedKeyPointer k = SharedKey k"

text \<open>The two copying getters return \<open>None\<close> where the code returns false and leaves the target alone.\<close>

definition KeyExchanger_GetSharedKey ::
  "LoLaCryptoKeyExchanger \<Rightarrow> u8 list option \<times> LoLaCryptoKeyExchanger" where
  "KeyExchanger_GetSharedKey k =
     (if PairingStage k \<noteq> StageSharedKey then (None, k)
      else (Some (take KEY_CURVE_SIZE (SharedKey k)), k\<lparr>PairingStage := StageSharedKey\<rparr>))"

definition KeyExchanger_GetPublicKeyCompressed :: "LoLaCryptoKeyExchanger \<Rightarrow> u8 list option" where
  "KeyExchanger_GetPublicKeyCompressed k =
     (if PairingStage k = StageClear then None
      else Some (take (KEY_CURVE_SIZE + 1) (LocalPublicKeyCompressed k)))"

definition KeyExchanger_SetPartnerPublicKey ::
  "u8 list \<Rightarrow> LoLaCryptoKeyExchanger \<Rightarrow> bool \<times> LoLaCryptoKeyExchanger" where
  "KeyExchanger_SetPartnerPublicKey keySource k =
     (if PairingStage k \<noteq> StageLocalKey then (False, k)
      else (True, k\<lparr>PartnerPublicKeyCompressed := take (KEY_CURVE_SIZE + 1) keySource,
                    PairingStage := StagePartnerKey\<rparr>))"

definition KeyExchanger_GenerateNewKeyPair ::
  "platform \<Rightarrow> LoLaCryptoKeyExchanger \<Rightarrow> bool \<times> LoLaCryptoKeyExchanger" where
  "KeyExchanger_GenerateNewKeyPair P k =
     (let (made, pub, priv) = ecc_make_key P;
          k1 = k\<lparr>UncompressedKey := pub, PrivateKey := priv\<rparr>
      in if made then (True, k1\<lparr>LocalPublicKeyCompressed := ecc_compress P pub,
                                PairingStage := StageLocalKey\<rparr>)
         else (False, k1))"

definition KeyExchanger_GenerateSharedKey ::
  "platform \<Rightarrow> LoLaCryptoKeyExchanger \<Rightarrow> bool \<times> LoLaCryptoKeyExchanger" where
  "KeyExchanger_GenerateSharedKey P k =
     (case PairingStage k of
        StageSharedKey \<Rightarrow> (True, k)
      | StagePartnerKey \<Rightarrow>
          (let k1 = k\<lparr>UncompressedKey := ecc_decompress P (PartnerPublicKeyCompressed k)\<rparr>
           in case ecc_shared_secret P (UncompressedKey k1) (PrivateKey k1) of
                Some s \<Rightarrow> (True, k1\<lparr>SharedKey := s,
                    UncompressedKey := ecc_decompress P (LocalPublicKeyCompressed k1),
                    PairingStage := StageSharedKey\<rparr>)
              | None \<Rightarrow> (False, k1))
      | _ \<Rightarrow> (False, k))"

lemma KeyExchanger_GenerateSharedKey_True:
  "KeyExchanger_GenerateSharedKey P k = (True, k') \<Longrightarrow>
    PairingStage k \<in> {StagePartnerKey, StageSharedKey} \<and> KeyExchanger_IsReadyToUse k'"
  by (auto simp: KeyExchanger_GenerateSharedKey_def KeyExchanger_IsReadyToUse_def Let_def
      split: PairingStageEnum.splits option.splits)

lemma KeyExchanger_ClearPartner_not_ready:
  "\<not> KeyExchanger_IsReadyToUse (KeyExchanger_ClearPartner k)"
  by (auto simp: KeyExchanger_ClearPartner_def KeyExchanger_IsReadyToUse_def)

text \<open>
  One side of the exchange: make a key pair, take the partner's compressed key, derive. The
  stage the object was in does not matter, \<open>GenerateNewKeyPair\<close> resets it.
\<close>

definition exchange_side :: "platform \<Rightarrow> u8 list \<Rightarrow> LoLaCryptoKeyExchanger \<Rightarrow> bool \<times> LoLaCryptoKeyExchanger" where
  "exchange_side P partner k =
     (let k1 = snd (KeyExchanger_GenerateNewKeyPair P k);
          (accepted, k2) = KeyExchanger_SetPartnerPublicKey partner k1
      in if accepted then KeyExchanger_GenerateSharedKey P k2 else (False, k2))"

lemma exchange_side_shared:
  assumes "ecc_make_key P = (True, pub, priv)" and "length partner = KEY_CURVE_SIZE + 1"
    and "ecc_shared_secret P (ecc_decompress P partner) priv = Some s"
  shows "\<exists>k'. exchange_side P partner k = (True, k') \<and> SharedKey k' = s \<and>
    KeyExchanger_IsReadyToUse k' \<and> UncompressedKey k' = ecc_decompress P (ecc_compress P pub)"
  using assms
  by (simp add: exchange_side_def KeyExchanger_GenerateNewKeyPair_def
      KeyExchanger_SetPartnerPublicKey_def KeyExchanger_GenerateSharedKey_def
      KeyExchanger_IsReadyToUse_def)

text \<open>Two exchangers that each make a key pair and take the other's compressed public key
  both end in the shared-key stage holding the same 20-byte secret, for every state they
  start in (ECDH commutes and compression is undone by decompression, as micro-ecc documents).\<close>
theorem key_exchange_agrees:
  assumes "ecc_make_key PA = (True, pubA, privA)" and "ecc_make_key PB = (True, pubB, privB)"
    and "ecc_ok PA pubA privA pubB privB" and "ecc_compress PB = ecc_compress PA"
    and "ecc_decompress PB = ecc_decompress PA" and "ecc_shared_secret PB = ecc_shared_secret PA"
  shows "\<exists>ka kb. exchange_side PA (ecc_compress PB pubB) a = (True, ka) \<and>
     exchange_side PB (ecc_compress PA pubA) b = (True, kb) \<and>
     KeyExchanger_IsReadyToUse ka \<and> KeyExchanger_IsReadyToUse kb \<and>
     KeyExchanger_GetSharedKeyPointer ka = KeyExchanger_GetSharedKeyPointer kb"
proof -
  from assms(3) obtain s where s: "ecc_shared_secret PA pubB privA = Some s"
      "ecc_shared_secret PA pubA privB = Some s"
    and A: "length (ecc_compress PA pubA) = 21" "ecc_decompress PA (ecc_compress PA pubA) = pubA"
    and B: "length (ecc_compress PA pubB) = 21" "ecc_decompress PA (ecc_compress PA pubB) = pubB"
    unfolding ecc_ok_def ecc_keypair_def by (metis option.collapse)
  show ?thesis
    using exchange_side_shared [OF assms(1), of "ecc_compress PB pubB" s a]
      exchange_side_shared [OF assms(2), of "ecc_compress PA pubA" s b] s A B assms(4,5,6)
    by (auto simp: KEY_CURVE_SIZE_def KeyExchanger_GetSharedKeyPointer_def)
qed

theorem key_exchange_agrees_witness:
  "\<exists>ka kb. exchange_side sample_platform (take 21 (5 # replicate 39 0)) KeyExchanger_new = (True, ka) \<and>
     exchange_side (sample_platform\<lparr>ecc_make_key := (True, 5 # replicate 39 0, 5 # replicate 20 0)\<rparr>)
       (take 21 (3 # replicate 39 0)) KeyExchanger_new = (True, kb) \<and>
     KeyExchanger_IsReadyToUse ka \<and> KeyExchanger_IsReadyToUse kb \<and>
     KeyExchanger_GetSharedKeyPointer ka = KeyExchanger_GetSharedKeyPointer kb"
  using key_exchange_agrees [of sample_platform "3 # replicate 39 0" "3 # replicate 20 0"
      "sample_platform\<lparr>ecc_make_key := (True, 5 # replicate 39 0, 5 # replicate 20 0)\<rparr>"
      "5 # replicate 39 0" "5 # replicate 20 0" KeyExchanger_new KeyExchanger_new]
  by (simp add: ecc_ok_def ecc_keypair_def replicate_add [symmetric])

text \<open>The shared key is handed out only after a partner key was taken and the derivation
  succeeded: \<open>GenerateSharedKey\<close> answers true exactly from the shared stage, or from the
  partner stage when the library derives a secret; everywhere else it answers false and
  \<open>GetSharedKey\<close> still refuses.\<close>
theorem shared_key_needs_partner:
  "(fst (KeyExchanger_GenerateSharedKey P k) \<longleftrightarrow>
      PairingStage k = StageSharedKey \<or>
      PairingStage k = StagePartnerKey \<and>
        ecc_shared_secret P (ecc_decompress P (PartnerPublicKeyCompressed k)) (PrivateKey k) \<noteq> None) \<and>
   (fst (KeyExchanger_GetSharedKey (snd (KeyExchanger_GenerateSharedKey P k))) \<noteq> None \<longleftrightarrow>
      fst (KeyExchanger_GenerateSharedKey P k))"
  by (auto simp: KeyExchanger_GenerateSharedKey_def KeyExchanger_GetSharedKey_def Let_def
      split: PairingStageEnum.splits option.splits)

end
