(* ===== verification/Packet.thy ===== *)
theory Packet
  imports LoLa_Constants
begin

text \<open>
  \<open>src/src/Packet\<close>: the packet definitions (a class with three virtual constants), the raw
  packet with its header accessors, and the table from headers to definitions. Layout of a
  packet: \<open>[MACCRC1|MACCRC2|HEADER|ID|PAYLOAD]\<close>.
\<close>

section \<open>PacketDefinition.h\<close>

definition PACKET_DEFINITION_MASK_IS_ACK :: u8 where
  [lola_consts]: "PACKET_DEFINITION_MASK_IS_ACK = 0b01000000"

definition PACKET_DEFINITION_MASK_HAS_ACK :: u8 where
  [lola_consts]: "PACKET_DEFINITION_MASK_HAS_ACK = 0b10000000"

definition PACKET_DEFINITION_MASK_BASIC :: u8 where
  [lola_consts]: "PACKET_DEFINITION_MASK_BASIC = 0"

definition LOLA_PACKET_MACCRC_INDEX :: nat where
  [lola_consts]: "LOLA_PACKET_MACCRC_INDEX = 0"

definition LOLA_PACKET_HEADER_INDEX :: nat where
  [lola_consts]: "LOLA_PACKET_HEADER_INDEX = LOLA_PACKET_MACCRC_INDEX + 2"

definition LOLA_PACKET_ID_INDEX :: nat where
  [lola_consts]: "LOLA_PACKET_ID_INDEX = LOLA_PACKET_HEADER_INDEX + 1"

definition LOLA_PACKET_PAYLOAD_INDEX :: nat where
  [lola_consts]: "LOLA_PACKET_PAYLOAD_INDEX = LOLA_PACKET_ID_INDEX + 1"

definition LOLA_PACKET_MIN_PACKET_SIZE :: nat where
  [lola_consts]: "LOLA_PACKET_MIN_PACKET_SIZE = LOLA_PACKET_PAYLOAD_INDEX"

definition LOLA_PACKET_MAX_PACKET_SIZE :: nat where
  [lola_consts]: "LOLA_PACKET_MAX_PACKET_SIZE = 22 + LOLA_PACKET_MIN_PACKET_SIZE"

record PacketDefinition =
  Configuration :: u8
  Header :: u8
  PayloadSize :: u8

definition PacketDefinition_GetTotalSize :: "PacketDefinition \<Rightarrow> u8" where
  "PacketDefinition_GetTotalSize d = of_nat LOLA_PACKET_MIN_PACKET_SIZE + PayloadSize d"

definition PacketDefinition_GetContentSize :: "PacketDefinition \<Rightarrow> u8" where
  "PacketDefinition_GetContentSize d =
     PacketDefinition_GetTotalSize d - of_nat LOLA_PACKET_HEADER_INDEX"

definition PacketDefinition_GetContentSizeOf :: "u8 \<Rightarrow> u8" where
  "PacketDefinition_GetContentSizeOf unknownTotalSize =
     of_int (min (int LOLA_PACKET_MAX_PACKET_SIZE) (uint unknownTotalSize)
       - int LOLA_PACKET_HEADER_INDEX)"

definition PacketDefinition_GetContentSizeQuick :: "u8 \<Rightarrow> u8" where
  "PacketDefinition_GetContentSizeQuick unknownTotalSize =
     unknownTotalSize - of_nat LOLA_PACKET_HEADER_INDEX"

definition PacketDefinition_IsAck :: "PacketDefinition \<Rightarrow> bool" where
  "PacketDefinition_IsAck d \<longleftrightarrow> Configuration d AND PACKET_DEFINITION_MASK_IS_ACK \<noteq> 0"

definition PacketDefinition_HasACK :: "PacketDefinition \<Rightarrow> bool" where
  "PacketDefinition_HasACK d \<longleftrightarrow> Configuration d AND PACKET_DEFINITION_MASK_HAS_ACK \<noteq> 0"

lemma unat_GetTotalSize:
  "unat (PayloadSize d) \<le> 22 \<Longrightarrow>
    unat (PacketDefinition_GetTotalSize d) = 4 + unat (PayloadSize d)"
  by (simp add: PacketDefinition_GetTotalSize_def lola_consts unat_word_ariths)

lemma unat_GetContentSize:
  "unat (PayloadSize d) \<le> 22 \<Longrightarrow>
    unat (PacketDefinition_GetContentSize d) = 2 + unat (PayloadSize d)"
proof -
  assume b: "unat (PayloadSize d) \<le> 22"
  have "PacketDefinition_GetContentSize d = 2 + PayloadSize d"
    by (simp add: PacketDefinition_GetContentSize_def PacketDefinition_GetTotalSize_def lola_consts)
  with b show ?thesis by (simp add: unat_word_ariths)
qed

lemma GetContentSizeQuick_of_total:
  "PacketDefinition_GetContentSizeQuick (PacketDefinition_GetTotalSize d) =
    PacketDefinition_GetContentSize d"
  by (simp add: PacketDefinition_GetContentSizeQuick_def PacketDefinition_GetContentSize_def)

section \<open>LoLaPacket.h\<close>

text \<open>
  A packet object: the template's \<open>Data\<close> array and the pointer to its definition. The
  payload pointer aliases the array, so writes through it are stores at an offset.
\<close>

record LoLaPacket =
  Raw :: "u8 list"
  Definition :: "PacketDefinition option"

definition LoLaPacket_new :: "nat \<Rightarrow> LoLaPacket" where
  "LoLaPacket_new n = \<lparr> Raw = replicate n 0, Definition = None \<rparr>"

definition LoLaPacket_ClearDefinition :: "LoLaPacket \<Rightarrow> LoLaPacket" where
  "LoLaPacket_ClearDefinition p = p\<lparr>Definition := None\<rparr>"

definition LoLaPacket_GetId :: "LoLaPacket \<Rightarrow> u8" where
  "LoLaPacket_GetId p = Raw p ! LOLA_PACKET_ID_INDEX"

definition LoLaPacket_SetId :: "u8 \<Rightarrow> LoLaPacket \<Rightarrow> LoLaPacket" where
  "LoLaPacket_SetId i p = p\<lparr>Raw := (Raw p)[LOLA_PACKET_ID_INDEX := i]\<rparr>"

definition LoLaPacket_GetMACCRC :: "LoLaPacket \<Rightarrow> u16" where
  "LoLaPacket_GetMACCRC p =
     bytes_le16 [Raw p ! LOLA_PACKET_MACCRC_INDEX, Raw p ! (LOLA_PACKET_MACCRC_INDEX + 1)]"

definition LoLaPacket_SetMACCRC :: "u16 \<Rightarrow> LoLaPacket \<Rightarrow> LoLaPacket" where
  "LoLaPacket_SetMACCRC crc p = p\<lparr>Raw := store LOLA_PACKET_MACCRC_INDEX (le16_bytes crc) (Raw p)\<rparr>"

definition LoLaPacket_GetDataHeader :: "LoLaPacket \<Rightarrow> u8" where
  "LoLaPacket_GetDataHeader p = Raw p ! LOLA_PACKET_HEADER_INDEX"

definition LoLaPacket_SetDefinition :: "PacketDefinition option \<Rightarrow> LoLaPacket \<Rightarrow> bool \<times> LoLaPacket" where
  "LoLaPacket_SetDefinition d p =
     (d \<noteq> None,
      (case d of None \<Rightarrow> p
       | Some x \<Rightarrow> p\<lparr>Raw := (Raw p)[LOLA_PACKET_HEADER_INDEX := Header x]\<rparr>)\<lparr>Definition := d\<rparr>)"

definition LoLaPacket_GetPayload :: "LoLaPacket \<Rightarrow> u8 list" where
  "LoLaPacket_GetPayload p = drop LOLA_PACKET_PAYLOAD_INDEX (Raw p)"

definition LoLaPacket_SetPayload :: "nat \<Rightarrow> u8 list \<Rightarrow> LoLaPacket \<Rightarrow> LoLaPacket" where
  "LoLaPacket_SetPayload off bs p = p\<lparr>Raw := store (LOLA_PACKET_PAYLOAD_INDEX + off) bs (Raw p)\<rparr>"

definition LoLaPacket_GetRawContent :: "LoLaPacket \<Rightarrow> u8 list" where
  "LoLaPacket_GetRawContent p = drop LOLA_PACKET_HEADER_INDEX (Raw p)"

definition LoLaPacket_SetRawContent :: "u8 list \<Rightarrow> LoLaPacket \<Rightarrow> LoLaPacket" where
  "LoLaPacket_SetRawContent bs p = p\<lparr>Raw := store LOLA_PACKET_HEADER_INDEX bs (Raw p)\<rparr>"

lemmas packet_accessor_defs =
  LoLaPacket_ClearDefinition_def LoLaPacket_GetId_def LoLaPacket_SetId_def
  LoLaPacket_GetMACCRC_def LoLaPacket_SetMACCRC_def LoLaPacket_GetDataHeader_def
  LoLaPacket_SetDefinition_def LoLaPacket_GetPayload_def LoLaPacket_SetPayload_def
  LoLaPacket_GetRawContent_def LoLaPacket_SetRawContent_def

lemma LoLaPacket_length_Raw [simp]:
  "length (Raw (LoLaPacket_SetId i p)) = length (Raw p)"
  "length (Raw (LoLaPacket_SetMACCRC c p)) = length (Raw p)"
  "length (Raw (snd (LoLaPacket_SetDefinition d p))) = length (Raw p)"
  "length (Raw (LoLaPacket_SetPayload off bs p)) = length (Raw p)"
  "length (Raw (LoLaPacket_SetRawContent bs p)) = length (Raw p)"
  "length (Raw (LoLaPacket_ClearDefinition p)) = length (Raw p)"
  by (simp_all add: packet_accessor_defs split: option.splits)

lemma LoLaPacket_Definition_simps [simp]:
  "Definition (LoLaPacket_SetId i p) = Definition p"
  "Definition (LoLaPacket_SetMACCRC c p) = Definition p"
  "Definition (snd (LoLaPacket_SetDefinition d p)) = d"
  "Definition (LoLaPacket_SetPayload off bs p) = Definition p"
  "Definition (LoLaPacket_SetRawContent bs p) = Definition p"
  "Definition (LoLaPacket_ClearDefinition p) = None"
  by (simp_all add: packet_accessor_defs split: option.splits)

lemma GetMACCRC_SetMACCRC [simp]:
  "2 \<le> length (Raw p) \<Longrightarrow> LoLaPacket_GetMACCRC (LoLaPacket_SetMACCRC c p) = c"
proof -
  assume l: "2 \<le> length (Raw p)"
  then obtain a b rs where "Raw p = a # b # rs"
    by (metis One_nat_def Suc_1 Suc_le_length_iff)
  then have "LoLaPacket_GetMACCRC (LoLaPacket_SetMACCRC c p) = bytes_le16 (le16_bytes c)"
    by (simp add: packet_accessor_defs lola_consts le16_bytes_def)
  then show ?thesis by simp
qed

lemma GetRawContent_SetMACCRC [simp]:
  "2 \<le> length (Raw p) \<Longrightarrow>
    LoLaPacket_GetRawContent (LoLaPacket_SetMACCRC c p) = LoLaPacket_GetRawContent p"
  by (simp add: packet_accessor_defs lola_consts store_split)

lemma GetMACCRC_SetRawContent [simp]:
  "2 + length bs \<le> length (Raw p) \<Longrightarrow>
    LoLaPacket_GetMACCRC (LoLaPacket_SetRawContent bs p) = LoLaPacket_GetMACCRC p"
  by (simp add: packet_accessor_defs lola_consts)

lemma take_GetRawContent_SetRawContent [simp]:
  "2 + length bs \<le> length (Raw p) \<Longrightarrow>
    take (length bs) (LoLaPacket_GetRawContent (LoLaPacket_SetRawContent bs p)) = bs"
  by (simp add: packet_accessor_defs lola_consts)

lemma header_id_of_content:
  "4 \<le> length (Raw p) \<Longrightarrow> LoLaPacket_GetDataHeader p = LoLaPacket_GetRawContent p ! 0"
  "4 \<le> length (Raw p) \<Longrightarrow> LoLaPacket_GetId p = LoLaPacket_GetRawContent p ! 1"
  by (simp_all add: packet_accessor_defs lola_consts)

section \<open>LoLaPacketMap.h\<close>

definition AckPacketDefinition :: PacketDefinition where
  "AckPacketDefinition = \<lparr> Configuration = PACKET_DEFINITION_MASK_IS_ACK,
     Header = PACKET_DEFINITION_ACK_HEADER, PayloadSize = 1 \<rparr>"

record LoLaPacketMap =
  MappingSize :: u8
  Mapping :: "PacketDefinition option list"

text \<open>
  \<open>AddMapping\<close> indexes the table with the header before anything bounds it: a header of
  \<open>LOLA_PACKET_MAP_TOTAL_SIZE\<close> or more is a read outside the array, \<open>None\<close> here.
\<close>

definition PacketMap_AddMapping ::
  "PacketDefinition \<Rightarrow> LoLaPacketMap \<Rightarrow> (bool \<times> LoLaPacketMap) option" where
  "PacketMap_AddMapping d m =
     (if LOLA_PACKET_MAP_TOTAL_SIZE \<le> unat (MappingSize m) then Some (False, m)
      else if LOLA_PACKET_MAP_TOTAL_SIZE \<le> unat (Header d) then None
      else if Mapping m ! unat (Header d) \<noteq> None then Some (False, m)
      else Some (True, m\<lparr>Mapping := (Mapping m)[unat (Header d) := Some d],
                         MappingSize := MappingSize m + 1\<rparr>))"

definition PacketMap_ClearMapping :: "LoLaPacketMap \<Rightarrow> LoLaPacketMap" where
  "PacketMap_ClearMapping m =
     (case PacketMap_AddMapping AckPacketDefinition
        (m\<lparr>Mapping := replicate LOLA_PACKET_MAP_TOTAL_SIZE None, MappingSize := 0\<rparr>) of
        Some (_, m') \<Rightarrow> m' | None \<Rightarrow> m)"

definition PacketMap_new :: LoLaPacketMap where
  "PacketMap_new = PacketMap_ClearMapping
     \<lparr> MappingSize = 0, Mapping = replicate LOLA_PACKET_MAP_TOTAL_SIZE None \<rparr>"

definition PacketMap_GetDefinition :: "u8 \<Rightarrow> LoLaPacketMap \<Rightarrow> PacketDefinition option" where
  "PacketMap_GetDefinition header m =
     (if LOLA_PACKET_MAP_TOTAL_SIZE \<le> unat header then None else Mapping m ! unat header)"

definition PacketMap_GetSize :: "LoLaPacketMap \<Rightarrow> u8" where
  "PacketMap_GetSize m = MappingSize m"

text \<open>
  The table's invariant: its array has its size, an entry sits at its own header, and
  \<open>MappingSize\<close> counts the entries.
\<close>

definition PacketMap_ok :: "LoLaPacketMap \<Rightarrow> bool" where
  "PacketMap_ok m \<longleftrightarrow> length (Mapping m) = LOLA_PACKET_MAP_TOTAL_SIZE \<and>
     (\<forall>i < LOLA_PACKET_MAP_TOTAL_SIZE. \<forall>d. Mapping m ! i = Some d \<longrightarrow> unat (Header d) = i) \<and>
     unat (MappingSize m) = length (filter (\<lambda>x. x \<noteq> None) (Mapping m))"

lemma PacketMap_ok_replicate:
  "PacketMap_ok \<lparr> MappingSize = 0, Mapping = replicate LOLA_PACKET_MAP_TOTAL_SIZE None \<rparr>"
  by (simp add: PacketMap_ok_def)

lemma PacketMap_full:
  assumes "PacketMap_ok m" and "LOLA_PACKET_MAP_TOTAL_SIZE \<le> unat (MappingSize m)"
    and "i < LOLA_PACKET_MAP_TOTAL_SIZE"
  shows "Mapping m ! i \<noteq> None"
proof
  assume n: "Mapping m ! i = None"
  from assms have i: "i < length (Mapping m)" by (simp add: PacketMap_ok_def)
  with n have "length (filter (\<lambda>x. x \<noteq> None) (Mapping m)) < length (Mapping m)"
    by (intro length_filter_less [of "Mapping m ! i"]) (metis nth_mem, simp)
  with assms show False by (simp add: PacketMap_ok_def)
qed

lemma PacketMap_AddMapping_ok:
  assumes ok: "PacketMap_ok m" and add: "PacketMap_AddMapping d m = Some (b, m')"
  shows "PacketMap_ok m'"
proof (cases b)
  case False
  with add ok show ?thesis by (auto simp: PacketMap_AddMapping_def split: if_splits)
next
  case True
  with add have sz: "unat (MappingSize m) < LOLA_PACKET_MAP_TOTAL_SIZE"
    and h: "unat (Header d) < LOLA_PACKET_MAP_TOTAL_SIZE"
    and free: "Mapping m ! unat (Header d) = None"
    and m': "m' = m\<lparr>Mapping := (Mapping m)[unat (Header d) := Some d], MappingSize := MappingSize m + 1\<rparr>"
    by (auto simp: PacketMap_AddMapping_def split: if_splits)
  from sz have "unat (MappingSize m + 1) = Suc (unat (MappingSize m))"
    by (simp add: unat_word_ariths lola_consts)
  moreover from ok h have "unat (Header d) < length (Mapping m)" by (simp add: PacketMap_ok_def)
  ultimately show ?thesis
    using ok h free by (auto simp: PacketMap_ok_def m' nth_list_update filter_update_new)
qed

lemma PacketMap_AddMapping_ack: "\<exists>b m'. PacketMap_AddMapping AckPacketDefinition m = Some (b, m')"
  by (auto simp: PacketMap_AddMapping_def AckPacketDefinition_def lola_consts)

lemma PacketMap_ClearMapping_ok: "PacketMap_ok (PacketMap_ClearMapping m)"
proof -
  let ?z = "m\<lparr>Mapping := replicate LOLA_PACKET_MAP_TOTAL_SIZE None, MappingSize := 0\<rparr>"
  have "PacketMap_ok ?z" by (simp add: PacketMap_ok_def)
  moreover obtain b m' where "PacketMap_AddMapping AckPacketDefinition ?z = Some (b, m')"
    using PacketMap_AddMapping_ack by blast
  ultimately show ?thesis
    using PacketMap_AddMapping_ok by (simp add: PacketMap_ClearMapping_def)
qed

lemma PacketMap_new_ok [simp]: "PacketMap_ok PacketMap_new"
  by (simp add: PacketMap_new_def PacketMap_ClearMapping_ok)

lemma PacketMap_GetDefinition_header:
  "PacketMap_ok m \<Longrightarrow> PacketMap_GetDefinition h m = Some d \<Longrightarrow> Header d = h"
  by (auto simp: PacketMap_GetDefinition_def PacketMap_ok_def not_le split: if_splits
      intro: unsigned_word_eqI)

lemma PacketMap_AddMapping_spec:
  assumes "PacketMap_ok m" and "unat (Header d) < LOLA_PACKET_MAP_TOTAL_SIZE"
  shows "\<exists>m'. PacketMap_AddMapping d m = Some (PacketMap_GetDefinition (Header d) m = None, m') \<and>
     (\<forall>h. PacketMap_GetDefinition h m' =
        (if h = Header d \<and> PacketMap_GetDefinition (Header d) m = None then Some d
         else PacketMap_GetDefinition h m))"
proof (cases "PacketMap_GetDefinition (Header d) m")
  case None
  then have free: "Mapping m ! unat (Header d) = None"
    using assms by (simp add: PacketMap_GetDefinition_def)
  with PacketMap_full [OF assms(1)] assms(2)
  have "\<not> LOLA_PACKET_MAP_TOTAL_SIZE \<le> unat (MappingSize m)" by blast
  moreover have "length (Mapping m) = LOLA_PACKET_MAP_TOTAL_SIZE"
    using assms(1) by (simp add: PacketMap_ok_def)
  ultimately show ?thesis
    using assms(2) free None
    by (auto simp: PacketMap_AddMapping_def PacketMap_GetDefinition_def nth_list_update
        dest: unsigned_word_eqI)
next
  case (Some x)
  then have "Mapping m ! unat (Header d) \<noteq> None"
    using assms by (simp add: PacketMap_GetDefinition_def)
  then show ?thesis using Some assms(2) by (auto simp: PacketMap_AddMapping_def)
qed

section \<open>What services rely on when they register their packets\<close>

text \<open>
  Every service registers a list of definitions and gives up at the first refusal
  (\<open>OnAddPacketMap\<close>). \<open>header_table\<close> is what it relies on; the lemma proved in it is used by
  the link service and the sync surface services.
\<close>

fun register_all ::
  "(PacketDefinition \<Rightarrow> 'm \<Rightarrow> (bool \<times> 'm) option) \<Rightarrow> PacketDefinition list \<Rightarrow> 'm \<Rightarrow> (bool \<times> 'm) option"
where
  "register_all add [] m = Some (True, m)"
| "register_all add (d # ds) m = (case add d m of None \<Rightarrow> None
     | Some (b, m') \<Rightarrow> if b then register_all add ds m' else Some (False, m'))"

locale header_table =
  fixes add :: "PacketDefinition \<Rightarrow> 'm \<Rightarrow> (bool \<times> 'm) option"
    and lookup :: "u8 \<Rightarrow> 'm \<Rightarrow> PacketDefinition option"
    and inv :: "'m \<Rightarrow> bool"
    and room :: "PacketDefinition \<Rightarrow> bool"
  assumes add_free: "inv m \<Longrightarrow> room d \<Longrightarrow> lookup (Header d) m = None \<Longrightarrow>
      \<exists>m'. add d m = Some (True, m') \<and> inv m' \<and>
        (\<forall>h. lookup h m' = (if h = Header d then Some d else lookup h m))"
begin

lemma register_all_fresh:
  "inv m \<Longrightarrow> (\<forall>d \<in> set ds. room d \<and> lookup (Header d) m = None) \<Longrightarrow> distinct (map Header ds) \<Longrightarrow>
    \<exists>m'. register_all add ds m = Some (True, m') \<and> inv m' \<and>
      (\<forall>d \<in> set ds. lookup (Header d) m' = Some d) \<and>
      (\<forall>h. h \<notin> Header ` set ds \<longrightarrow> lookup h m' = lookup h m)"
proof (induction ds arbitrary: m)
  case Nil
  then show ?case by simp
next
  case (Cons d ds)
  then obtain m1 where m1: "add d m = Some (True, m1)" "inv m1"
      "\<And>h. lookup h m1 = (if h = Header d then Some d else lookup h m)"
    using add_free [of m d] by auto
  have "\<forall>x \<in> set ds. room x \<and> lookup (Header x) m1 = None"
    using Cons.prems m1(3) by (auto simp: image_iff)
  moreover have "distinct (map Header ds)" using Cons.prems by simp
  ultimately obtain m' where m': "register_all add ds m1 = Some (True, m')" "inv m'"
      "\<forall>x \<in> set ds. lookup (Header x) m' = Some x"
      "\<forall>h. h \<notin> Header ` set ds \<longrightarrow> lookup h m' = lookup h m1"
    using Cons.IH [OF m1(2)] by blast
  moreover have "Header d \<notin> Header ` set ds" using Cons.prems(3) by simp
  ultimately show ?case using m1 by auto
qed

end

definition header_fits :: "PacketDefinition \<Rightarrow> bool" where
  "header_fits d \<longleftrightarrow> unat (Header d) < LOLA_PACKET_MAP_TOTAL_SIZE"

interpretation ptable: header_table PacketMap_AddMapping PacketMap_GetDefinition PacketMap_ok header_fits
proof unfold_locales
  fix m d
  assume "PacketMap_ok m" "header_fits d" "PacketMap_GetDefinition (Header d) m = None"
  then show "\<exists>m'. PacketMap_AddMapping d m = Some (True, m') \<and> PacketMap_ok m' \<and>
      (\<forall>h. PacketMap_GetDefinition h m' =
        (if h = Header d then Some d else PacketMap_GetDefinition h m))"
    using PacketMap_AddMapping_spec [of m d] PacketMap_AddMapping_ok [of m d]
    by (fastforce simp: header_fits_def)
qed

end
