(* ===== verification/Crypto_Encoder.thy ===== *)
theory Crypto_Encoder
  imports Platform LoLa_Constants
begin

text \<open>
  \<open>src/src/LoLaCrypto/LoLaCryptoEncoder.h\<close>: the object that turns packet content into what
  goes on air (Ascon128 when the link has a key, then a Modbus CRC16 over the result) and
  back, with the key, IV and token it loads into the cypher for every packet. Also
  \<open>LoLaCryptoTokenSource.h\<close>.
\<close>

section \<open>State\<close>

datatype StageEnum = AllClear | AllReady | FullPower

record LoLaCryptoEncoder =
  EncoderState :: StageEnum
  Cypher :: "u8 list"
  Hasher :: "u8 list"
  KeyHolder :: "u8 list"
  IVHolder :: "u8 list"
  TokenHolder :: "u8 list"
  TokenSeed :: u32

definition KeySize :: nat where
  [lola_consts]: "KeySize = 16"

definition TokenSize :: nat where
  [lola_consts]: "TokenSize = 4"

definition Encoder_new :: LoLaCryptoEncoder where
  "Encoder_new = \<lparr> EncoderState = AllClear, Cypher = [], Hasher = [],
     KeyHolder = replicate KeySize 0, IVHolder = replicate KeySize 0,
     TokenHolder = replicate TokenSize 0, TokenSeed = 0 \<rparr>"

section \<open>Operations\<close>

text \<open>
  \<open>SetTokenSeed\<close> hashes \<open>length\<close> bytes from a pointer. Its one caller passes
  \<open>&KeyHolder[KeySize]\<close>, one past the end of that array; \<open>bytes_after_KeyHolder\<close> is what
  lies there in the object: the byte arrays declared after it, \<open>IVHolder\<close> and then
  \<open>TokenHolder\<close>.
\<close>

definition bytes_after_KeyHolder :: "LoLaCryptoEncoder \<Rightarrow> u8 list" where
  "bytes_after_KeyHolder e = IVHolder e @ TokenHolder e"

definition Encoder_SetTokenSeed :: "platform \<Rightarrow> u8 list \<Rightarrow> LoLaCryptoEncoder \<Rightarrow> LoLaCryptoEncoder" where
  "Encoder_SetTokenSeed P seedBytes e =
     (let (digest, h) = hash_finalize P 4 (hash_update P seedBytes (hash_clear P (Hasher e)))
      in e\<lparr>Hasher := h, TokenSeed := bytes_le32 digest\<rparr>)"

definition Encoder_ResetCypherBlock :: "platform \<Rightarrow> LoLaCryptoEncoder \<Rightarrow> LoLaCryptoEncoder" where
  "Encoder_ResetCypherBlock P e =
     e\<lparr>Cypher := cypher_load P (KeyHolder e) (IVHolder e) (TokenHolder e) (Cypher e)\<rparr>"

text \<open>
  The two overloads of \<open>Encode\<close>: the first encrypts \<open>message\<close> in place, the second
  writes \<open>messageLength\<close> bytes to \<open>outputMessage\<close>. Both return the CRC of what they wrote.
\<close>

definition Encoder_Encode ::
  "platform \<Rightarrow> u8 list \<Rightarrow> nat \<Rightarrow> LoLaCryptoEncoder \<Rightarrow> u16 \<times> u8 list \<times> LoLaCryptoEncoder" where
  "Encoder_Encode P message messageLength e =
     (if EncoderState e = FullPower then
        let e1 = Encoder_ResetCypherBlock P e;
            (out, c) = cypher_encrypt P (take messageLength message) (Cypher e1)
        in (crc16_modbus P out, out, e1\<lparr>Cypher := c\<rparr>)
      else let out = take messageLength message in (crc16_modbus P out, out, e))"

definition Encoder_EncodeInPlace ::
  "platform \<Rightarrow> u8 list \<Rightarrow> nat \<Rightarrow> LoLaCryptoEncoder \<Rightarrow> u16 \<times> u8 list \<times> LoLaCryptoEncoder" where
  "Encoder_EncodeInPlace P message messageLength e =
     (if EncoderState e = FullPower then
        let e1 = Encoder_ResetCypherBlock P e;
            (out, c) = cypher_encrypt P (take messageLength message) (Cypher e1)
        in (crc16_modbus P out, store 0 out message, e1\<lparr>Cypher := c\<rparr>)
      else (crc16_modbus P (take messageLength message), message, e))"

definition Encoder_Decode ::
  "platform \<Rightarrow> u8 list \<Rightarrow> nat \<Rightarrow> u16 \<Rightarrow> LoLaCryptoEncoder \<Rightarrow> bool \<times> u8 list \<times> LoLaCryptoEncoder" where
  "Encoder_Decode P message messageLength crc e =
     (if crc \<noteq> crc16_modbus P (take messageLength message) then (False, message, e)
      else if EncoderState e = FullPower then
        let e1 = Encoder_ResetCypherBlock P e;
            (out, c) = cypher_decrypt P (take messageLength message) (Cypher e1)
        in (True, store 0 out message, e1\<lparr>Cypher := c\<rparr>)
      else (True, message, e))"

definition Encoder_EncodeDirect ::
  "platform \<Rightarrow> u8 list \<Rightarrow> nat \<Rightarrow> LoLaCryptoEncoder \<Rightarrow> u8 list \<times> LoLaCryptoEncoder" where
  "Encoder_EncodeDirect P message messageLength e =
     (let e1 = Encoder_ResetCypherBlock P e;
          (out, c) = cypher_encrypt P (take messageLength message) (Cypher e1)
      in (store 0 out message, e1\<lparr>Cypher := c\<rparr>))"

definition Encoder_DecodeDirect ::
  "platform \<Rightarrow> u8 list \<Rightarrow> nat \<Rightarrow> LoLaCryptoEncoder \<Rightarrow> u8 list \<times> LoLaCryptoEncoder" where
  "Encoder_DecodeDirect P inputMessage messageLength e =
     (let e1 = Encoder_ResetCypherBlock P e;
          (out, c) = cypher_decrypt P (take messageLength inputMessage) (Cypher e1)
      in (out, e1\<lparr>Cypher := c\<rparr>))"

definition Encoder_Clear :: "LoLaCryptoEncoder \<Rightarrow> LoLaCryptoEncoder" where
  "Encoder_Clear e = e\<lparr>EncoderState := AllClear, TokenHolder := replicate TokenSize 0,
     KeyHolder := replicate KeySize 0, IVHolder := replicate KeySize 0, TokenSeed := 0\<rparr>"

definition Encoder_SetEnabled :: "LoLaCryptoEncoder \<Rightarrow> bool \<times> LoLaCryptoEncoder" where
  "Encoder_SetEnabled e =
     (case EncoderState e of
        AllReady \<Rightarrow> (True, e\<lparr>EncoderState := FullPower\<rparr>)
      | FullPower \<Rightarrow> (True, e)
      | AllClear \<Rightarrow> (False, e))"

definition Encoder_SetSecretKey ::
  "platform \<Rightarrow> u8 list \<Rightarrow> nat \<Rightarrow> LoLaCryptoEncoder \<Rightarrow> bool \<times> LoLaCryptoEncoder" where
  "Encoder_SetSecretKey P secretKey keyLength e =
     (if keyLength < KeySize + TokenSize then (False, e)
      else
        let e1 = e\<lparr>Cypher := cypher_clear P (Cypher e), KeyHolder := take KeySize secretKey\<rparr>;
            (key_ok, c1) = cypher_set_key P (KeyHolder e1) (Cypher e1);
            e2 = e1\<lparr>Cypher := c1\<rparr>
        in if \<not> key_ok then (False, e2)
           else
             let (iv_ok, c2) = cypher_set_iv P (IVHolder e2) (Cypher e2);
                 e3 = e2\<lparr>Cypher := c2\<rparr>
             in if \<not> iv_ok then (False, e3)
                else
                  let e4 = Encoder_SetTokenSeed P (take (keyLength - KeySize) (bytes_after_KeyHolder e3)) e3;
                      e5 = Encoder_ResetCypherBlock P e4
                  in (True, e5\<lparr>EncoderState := AllReady\<rparr>))"

text \<open>
  \<open>SetIvData\<close> fills the IV four bytes at a time with truncated digests. The first digest
  takes one byte of the session, the others four.
\<close>

definition Encoder_HashParts :: "platform \<Rightarrow> u8 list list \<Rightarrow> u8 list \<Rightarrow> u8 list \<times> u8 list" where
  "Encoder_HashParts P parts h = hash_finalize P 4 (fold (hash_update P) parts (hash_clear P h))"

definition Encoder_SetIvData ::
  "platform \<Rightarrow> u32 \<Rightarrow> u32 \<Rightarrow> u32 \<Rightarrow> LoLaCryptoEncoder \<Rightarrow> LoLaCryptoEncoder" where
  "Encoder_SetIvData P session id1 id2 e =
     (let (d1, h1) = Encoder_HashParts P [take 1 (le32_bytes session), le32_bytes id1] (Hasher e);
          (d2, h2) = Encoder_HashParts P [le32_bytes session, le32_bytes id2] h1;
          (d3, h3) = Encoder_HashParts P [le32_bytes session, le32_bytes id1, le32_bytes id2] h2;
          (d4, h4) = Encoder_HashParts P [le32_bytes session] h3
      in e\<lparr>Hasher := h4,
           IVHolder := store 12 d4 (store 8 d3 (store 4 d2 (store 0 d1 (IVHolder e))))\<rparr>)"

definition Encoder_GetSeed :: "LoLaCryptoEncoder \<Rightarrow> u32" where
  "Encoder_GetSeed e = TokenSeed e"

definition Encoder_GetToken :: "LoLaCryptoEncoder \<Rightarrow> u32" where
  "Encoder_GetToken e = bytes_le32 (take TokenSize (TokenHolder e))"

definition Encoder_SetToken :: "platform \<Rightarrow> u32 \<Rightarrow> LoLaCryptoEncoder \<Rightarrow> LoLaCryptoEncoder" where
  "Encoder_SetToken P token e =
     (let (digest, h) = hash_finalize P 4 (hash_update P (le32_bytes token) (Hasher e))
      in e\<lparr>Hasher := h, TokenHolder := store 0 digest (TokenHolder e)\<rparr>)"

section \<open>LoLaCryptoTokenSource.h\<close>

record LoLaCryptoTokenSource =
  TOTPPeriodMillis :: u32
  TOTPSeed :: u32

definition TokenSource_new :: LoLaCryptoTokenSource where
  "TokenSource_new = \<lparr> TOTPPeriodMillis = ILOLA_INVALID_MILLIS, TOTPSeed = 0 \<rparr>"

definition TokenSource_SetTOTPPeriod :: "u32 \<Rightarrow> LoLaCryptoTokenSource \<Rightarrow> LoLaCryptoTokenSource" where
  "TokenSource_SetTOTPPeriod totpPeriodMillis t = t\<lparr>TOTPPeriodMillis := totpPeriodMillis\<rparr>"

definition TokenSource_SetSeed :: "u32 \<Rightarrow> LoLaCryptoTokenSource \<Rightarrow> LoLaCryptoTokenSource" where
  "TokenSource_SetSeed seed t = t\<lparr>TOTPSeed := seed\<rparr>"

definition TokenSource_GetSeed :: "LoLaCryptoTokenSource \<Rightarrow> u32" where
  "TokenSource_GetSeed t = TOTPSeed t"

definition TokenSource_GetToken :: "u32 \<Rightarrow> LoLaCryptoTokenSource \<Rightarrow> u32" where
  "TokenSource_GetToken syncMillis t = (syncMillis div TOTPPeriodMillis t) XOR TOTPSeed t"

section \<open>Shape of the encoder\<close>

definition Encoder_ok :: "LoLaCryptoEncoder \<Rightarrow> bool" where
  "Encoder_ok e \<longleftrightarrow> length (KeyHolder e) = KeySize \<and> length (IVHolder e) = KeySize \<and>
     length (TokenHolder e) = TokenSize"

lemma Encoder_new_ok [simp]: "Encoder_ok Encoder_new"
  by (simp add: Encoder_ok_def Encoder_new_def)

lemma Encoder_Clear_ok [simp]: "Encoder_ok (Encoder_Clear e)"
  by (simp add: Encoder_ok_def Encoder_Clear_def)

lemma Encoder_ResetCypherBlock_simps [simp]:
  "EncoderState (Encoder_ResetCypherBlock P e) = EncoderState e"
  "KeyHolder (Encoder_ResetCypherBlock P e) = KeyHolder e"
  "IVHolder (Encoder_ResetCypherBlock P e) = IVHolder e"
  "TokenHolder (Encoder_ResetCypherBlock P e) = TokenHolder e"
  "TokenSeed (Encoder_ResetCypherBlock P e) = TokenSeed e"
  "Hasher (Encoder_ResetCypherBlock P e) = Hasher e"
  "Cypher (Encoder_ResetCypherBlock P e) =
     cypher_load P (KeyHolder e) (IVHolder e) (TokenHolder e) (Cypher e)"
  by (simp_all add: Encoder_ResetCypherBlock_def)

text \<open>Encoding and decoding use the cypher object and change nothing else.\<close>

lemma Encoder_Encode_frame [lola_frame]:
  "EncoderState (snd (snd (Encoder_Encode P m n e))) = EncoderState e"
  "KeyHolder (snd (snd (Encoder_Encode P m n e))) = KeyHolder e"
  "IVHolder (snd (snd (Encoder_Encode P m n e))) = IVHolder e"
  "TokenHolder (snd (snd (Encoder_Encode P m n e))) = TokenHolder e"
  "TokenSeed (snd (snd (Encoder_Encode P m n e))) = TokenSeed e"
  "Hasher (snd (snd (Encoder_Encode P m n e))) = Hasher e"
  by (simp_all add: Encoder_Encode_def Let_def split: prod.splits)

lemma Encoder_Decode_frame [lola_frame]:
  "EncoderState (snd (snd (Encoder_Decode P m n crc e))) = EncoderState e"
  "KeyHolder (snd (snd (Encoder_Decode P m n crc e))) = KeyHolder e"
  "IVHolder (snd (snd (Encoder_Decode P m n crc e))) = IVHolder e"
  "TokenHolder (snd (snd (Encoder_Decode P m n crc e))) = TokenHolder e"
  "TokenSeed (snd (snd (Encoder_Decode P m n crc e))) = TokenSeed e"
  "Hasher (snd (snd (Encoder_Decode P m n crc e))) = Hasher e"
  by (simp_all add: Encoder_Decode_def Let_def split: prod.splits)

lemma Encoder_ok_frame [lola_frame]:
  "Encoder_ok (snd (snd (Encoder_Encode P m n e))) = Encoder_ok e"
  "Encoder_ok (snd (snd (Encoder_Decode P m n crc e))) = Encoder_ok e"
  by (simp_all add: Encoder_ok_def lola_frame)

lemma Encoder_SetEnabled_state:
  "Encoder_SetEnabled e = (b, e') \<Longrightarrow>
    (b \<longleftrightarrow> EncoderState e \<noteq> AllClear) \<and> (b \<longrightarrow> EncoderState e' = FullPower) \<and> (\<not> b \<longrightarrow> e' = e)"
  by (auto simp: Encoder_SetEnabled_def split: StageEnum.splits)

lemma Encoder_SetEnabled_frame [lola_frame]:
  "KeyHolder (snd (Encoder_SetEnabled e)) = KeyHolder e"
  "IVHolder (snd (Encoder_SetEnabled e)) = IVHolder e"
  "TokenHolder (snd (Encoder_SetEnabled e)) = TokenHolder e"
  "TokenSeed (snd (Encoder_SetEnabled e)) = TokenSeed e"
  "Hasher (snd (Encoder_SetEnabled e)) = Hasher e"
  by (simp_all add: Encoder_SetEnabled_def split: StageEnum.splits)

lemma Encoder_SetTokenSeed_simps [simp]:
  "EncoderState (Encoder_SetTokenSeed P s e) = EncoderState e"
  "KeyHolder (Encoder_SetTokenSeed P s e) = KeyHolder e"
  "IVHolder (Encoder_SetTokenSeed P s e) = IVHolder e"
  "TokenHolder (Encoder_SetTokenSeed P s e) = TokenHolder e"
  "Cypher (Encoder_SetTokenSeed P s e) = Cypher e"
  by (simp_all add: Encoder_SetTokenSeed_def split: prod.splits)

lemma Encoder_SetSecretKey_success:
  assumes "Encoder_SetSecretKey P k n e = (True, e')"
  shows "EncoderState e' = AllReady" "KeyHolder e' = take KeySize k"
    "IVHolder e' = IVHolder e" "TokenHolder e' = TokenHolder e"
    "TokenSeed e' = TokenSeed (Encoder_SetTokenSeed P (take (n - KeySize) (bytes_after_KeyHolder e)) e)"
    "Hasher e' = Hasher (Encoder_SetTokenSeed P (take (n - KeySize) (bytes_after_KeyHolder e)) e)"
  using assms
  by (auto simp: Encoder_SetSecretKey_def Let_def Encoder_SetTokenSeed_def bytes_after_KeyHolder_def
      split: if_splits prod.splits)

lemma Encoder_SetSecretKey_failure:
  "Encoder_SetSecretKey P k n e = (False, e') \<Longrightarrow> EncoderState e' = EncoderState e"
  by (auto simp: Encoder_SetSecretKey_def Let_def split: if_splits prod.splits)

lemma length_HashParts [simp]: "hash_ok P \<Longrightarrow> length (fst (Encoder_HashParts P ps h)) = 4"
  by (simp add: Encoder_HashParts_def hash_ok_def)

lemma HashParts_start: "hash_ok P \<Longrightarrow> Encoder_HashParts P ps h = Encoder_HashParts P ps h'"
  unfolding Encoder_HashParts_def hash_ok_def by metis

text \<open>The IV depends on the session and the two ids only, not on what the encoder held before.\<close>

definition iv_of :: "platform \<Rightarrow> u32 \<Rightarrow> u32 \<Rightarrow> u32 \<Rightarrow> u8 list" where
  "iv_of P session id1 id2 =
     fst (Encoder_HashParts P [take 1 (le32_bytes session), le32_bytes id1] [])
     @ fst (Encoder_HashParts P [le32_bytes session, le32_bytes id2] [])
     @ fst (Encoder_HashParts P [le32_bytes session, le32_bytes id1, le32_bytes id2] [])
     @ fst (Encoder_HashParts P [le32_bytes session] [])"

lemma length_iv_of [simp]: "hash_ok P \<Longrightarrow> length (iv_of P s a b) = KeySize"
  by (simp add: iv_of_def lola_consts)

lemma Encoder_SetIvData_IV:
  assumes h: "hash_ok P" and e: "Encoder_ok e"
  shows "IVHolder (Encoder_SetIvData P s a b e) = iv_of P s a b"
proof -
  obtain d1 h1 where 1: "Encoder_HashParts P [take 1 (le32_bytes s), le32_bytes a] (Hasher e) = (d1, h1)"
    by fastforce
  obtain d2 h2 where 2: "Encoder_HashParts P [le32_bytes s, le32_bytes b] h1 = (d2, h2)"
    by fastforce
  obtain d3 h3 where 3: "Encoder_HashParts P [le32_bytes s, le32_bytes a, le32_bytes b] h2 = (d3, h3)"
    by fastforce
  obtain d4 h4 where 4: "Encoder_HashParts P [le32_bytes s] h3 = (d4, h4)"
    by fastforce
  have l: "length d1 = 4" "length d2 = 4" "length d3 = 4" "length d4 = 4"
    using length_HashParts [OF h] 1 2 3 4 by (metis fst_conv)+
  have "IVHolder (Encoder_SetIvData P s a b e) = d1 @ d2 @ d3 @ d4"
    using e l by (simp add: Encoder_SetIvData_def 1 [unfolded One_nat_def] 2 3 4 Encoder_ok_def lola_consts store_split)
  moreover have "iv_of P s a b = d1 @ d2 @ d3 @ d4"
    using 1 2 3 4 HashParts_start [OF h, of _ _ "[]"] unfolding iv_of_def by (metis fst_conv)
  ultimately show ?thesis by simp
qed

lemma Encoder_SetIvData_frame [lola_frame]:
  "EncoderState (Encoder_SetIvData P s a b e) = EncoderState e"
  "KeyHolder (Encoder_SetIvData P s a b e) = KeyHolder e"
  "TokenHolder (Encoder_SetIvData P s a b e) = TokenHolder e"
  "TokenSeed (Encoder_SetIvData P s a b e) = TokenSeed e"
  by (simp_all add: Encoder_SetIvData_def split: prod.splits)

section \<open>Two encoders that agree\<close>

definition same_crypto :: "LoLaCryptoEncoder \<Rightarrow> LoLaCryptoEncoder \<Rightarrow> bool" where
  "same_crypto a b \<longleftrightarrow> (EncoderState a = FullPower \<longleftrightarrow> EncoderState b = FullPower) \<and>
     (EncoderState a = FullPower \<longrightarrow>
        KeyHolder a = KeyHolder b \<and> IVHolder a = IVHolder b \<and> TokenHolder a = TokenHolder b)"

lemma length_Encode:
  "cypher_ok P \<Longrightarrow> n \<le> length m \<Longrightarrow> length (fst (snd (Encoder_Encode P m n e))) = n"
  by (simp add: Encoder_Encode_def Let_def split: prod.split)
     (metis Encoder_ResetCypherBlock_simps(7) cypher_ok_length(1) fst_conv length_take min.absorb2)

text \<open>
  What one encoder produces, the other accepts and turns back into the message: the
  receiver's buffer may be longer than the message, its tail is kept.
\<close>

lemma Decode_Encode:
  assumes c: "cypher_ok P" and same: "same_crypto a b" and n: "n \<le> length m"
    and enc: "Encoder_Encode P m n a = (crc, out, a')"
  shows "\<exists>b'. Encoder_Decode P (out @ rest) n crc b = (True, take n m @ rest, b')"
proof -
  have l: "length out = n" using length_Encode [OF c n, of a] enc by simp
  have crc: "crc = crc16_modbus P out"
    using enc by (auto simp: Encoder_Encode_def Let_def split: if_splits prod.splits)
  show ?thesis
  proof (cases "EncoderState a = FullPower")
    case False
    with same have "EncoderState b \<noteq> FullPower" by (simp add: same_crypto_def)
    moreover have "out = take n m" using enc False by (simp add: Encoder_Encode_def Let_def)
    ultimately show ?thesis using l crc by (simp add: Encoder_Decode_def)
  next
    case True
    with same have b: "EncoderState b = FullPower" and
      keys: "KeyHolder b = KeyHolder a" "IVHolder b = IVHolder a" "TokenHolder b = TokenHolder a"
      by (auto simp: same_crypto_def)
    let ?k = "cypher_load P (KeyHolder a) (IVHolder a) (TokenHolder a)"
    have out: "out = fst (cypher_encrypt P (take n m) (?k (Cypher a)))"
      using enc True by (auto simp: Encoder_Encode_def Let_def split: prod.splits)
    have dec: "fst (cypher_decrypt P out (?k (Cypher b))) = take n m"
      unfolding out by (rule cypher_ok_decrypt [OF c])
    obtain y where y: "cypher_decrypt P out (?k (Cypher b)) = (take n m, y)"
      using dec by (metis prod.collapse)
    show ?thesis
      using b keys l crc n y
      by (auto simp: Encoder_Decode_def Let_def store_split split: prod.split)
  qed
qed

text \<open>
  The two ends of a link set their encoders up with the same calls: clear, IV from the
  session and the ids (host first on both sides), secret key, enable, and the token once the
  link is up.
\<close>

definition session_setup ::
  "platform \<Rightarrow> u32 \<Rightarrow> u32 \<Rightarrow> u32 \<Rightarrow> u8 list \<Rightarrow> LoLaCryptoEncoder \<Rightarrow> bool \<times> LoLaCryptoEncoder" where
  "session_setup P session hostId remoteId key e =
     (let e1 = Encoder_SetIvData P session hostId remoteId (Encoder_Clear e);
          (key_ok, e2) = Encoder_SetSecretKey P key 20 e1;
          (enabled, e3) = Encoder_SetEnabled e2
      in (key_ok \<and> enabled, Encoder_SetToken P (Encoder_GetSeed e3) e3))"

lemma SetTokenSeed_result:
  assumes "hash_ok P"
  shows "TokenSeed (Encoder_SetTokenSeed P s e) = TokenSeed (Encoder_SetTokenSeed P s e')"
    and "Hasher (Encoder_SetTokenSeed P s e) = Hasher (Encoder_SetTokenSeed P s e')"
proof -
  have "hash_clear P (Hasher e) = hash_clear P (Hasher e')"
    using assms unfolding hash_ok_def by blast
  then show "TokenSeed (Encoder_SetTokenSeed P s e) = TokenSeed (Encoder_SetTokenSeed P s e')"
    "Hasher (Encoder_SetTokenSeed P s e) = Hasher (Encoder_SetTokenSeed P s e')"
    by (simp_all add: Encoder_SetTokenSeed_def split: prod.splits)
qed

text \<open>C20. What an encoder produces, an encoder with the same key, IV and token gives back:
  \<open>Decode\<close> accepts the CRC and restores the message in the receive buffer, in clear mode and
  with Ascon128, whatever packets either cypher object processed before.\<close>
theorem encode_decode_roundtrip:
  assumes "cypher_ok P" and "same_crypto sender receiver" and "n \<le> length message"
    and "Encoder_Encode P message n sender = (crc, out, sender')"
  shows "\<exists>receiver'. Encoder_Decode P (out @ rest) n crc receiver =
    (True, take n message @ rest, receiver')"
  by (rule Decode_Encode [OF assms])

theorem encode_decode_roundtrip_witness:
  "\<exists>r'. Encoder_Decode sample_platform ([12, 13] @ [99]) 2 (crc16_modbus sample_platform [12, 13])
      (Encoder_new\<lparr>EncoderState := FullPower, KeyHolder := replicate 16 9, Cypher := [77]\<rparr>)
    = (True, take 2 [3, 4, 5] @ [99], r')"
  by (rule encode_decode_roundtrip
      [where sender = "Encoder_new\<lparr>EncoderState := FullPower, KeyHolder := replicate 16 9\<rparr>"
        and sender' = "Encoder_new\<lparr>EncoderState := FullPower, KeyHolder := replicate 16 9, Cypher := [9]\<rparr>"])
     (simp_all add: same_crypto_def Encoder_new_def Encoder_Encode_def Encoder_ResetCypherBlock_def
        cypher_load_def)

text \<open>A frame whose CRC does not match is rejected before the cypher is touched: \<open>Decode\<close>
  returns false with the buffer and the encoder as they were.\<close>
theorem decode_rejects_bad_crc:
  assumes "crc \<noteq> crc16_modbus P (take n message)"
  shows "Encoder_Decode P message n crc e = (False, message, e)"
  using assms by (simp add: Encoder_Decode_def)

theorem decode_rejects_bad_crc_witness:
  "Encoder_Decode sample_platform [1, 2] 2 0 Encoder_new = (False, [1, 2], Encoder_new)"
  by (rule decode_rejects_bad_crc) simp

definition session_token :: "platform \<Rightarrow> u8 list \<Rightarrow> u8 list" where
  "session_token P iv =
     (let seeded = Encoder_SetTokenSeed P (take 4 iv) Encoder_new
      in store 0 (fst (hash_finalize P 4 (hash_update P (le32_bytes (TokenSeed seeded)) (Hasher seeded))))
           (replicate TokenSize 0))"

lemma session_setup_keys:
  assumes h: "hash_ok P" and s: "session_setup P sess hid rid key e = (True, e')"
  shows "EncoderState e' = FullPower" "KeyHolder e' = take KeySize key"
    "IVHolder e' = iv_of P sess hid rid"
    "TokenHolder e' = session_token P (iv_of P sess hid rid)"
proof -
  let ?e1 = "Encoder_SetIvData P sess hid rid (Encoder_Clear e)"
  obtain e2 where e2: "Encoder_SetSecretKey P key 20 ?e1 = (True, e2)"
    and en: "Encoder_SetEnabled e2 = (True, snd (Encoder_SetEnabled e2))"
    and e': "e' = Encoder_SetToken P (Encoder_GetSeed (snd (Encoder_SetEnabled e2))) (snd (Encoder_SetEnabled e2))"
    using s by (auto simp: session_setup_def Let_def split: prod.splits)
  let ?e3 = "snd (Encoder_SetEnabled e2)"
  note key = Encoder_SetSecretKey_success [OF e2]
  have iv: "IVHolder ?e1 = iv_of P sess hid rid" by (rule Encoder_SetIvData_IV [OF h]) simp
  have st: "EncoderState ?e3 = FullPower" using Encoder_SetEnabled_state [OF en] by simp
  have len: "length (iv_of P sess hid rid) = 16" using h by (simp add: lola_consts)
  have "take (20 - KeySize) (bytes_after_KeyHolder ?e1) = take 4 (iv_of P sess hid rid)"
    using len by (simp add: bytes_after_KeyHolder_def iv lola_consts)
  then have "TokenSeed ?e3 = TokenSeed (Encoder_SetTokenSeed P (take 4 (iv_of P sess hid rid)) Encoder_new)"
    "Hasher ?e3 = Hasher (Encoder_SetTokenSeed P (take 4 (iv_of P sess hid rid)) Encoder_new)"
    using key(5,6) SetTokenSeed_result [OF h, of _ ?e1 Encoder_new] by (simp_all add: lola_frame)
  moreover have "TokenHolder ?e3 = replicate TokenSize 0"
    using key(4) by (simp add: lola_frame Encoder_Clear_def)
  ultimately show "TokenHolder e' = session_token P (iv_of P sess hid rid)"
    by (simp add: e' Encoder_GetSeed_def Encoder_SetToken_def session_token_def split: prod.split)
  show "EncoderState e' = FullPower" "KeyHolder e' = take KeySize key" "IVHolder e' = iv_of P sess hid rid"
    using st key(2,3) iv by (auto simp: e' Encoder_SetToken_def lola_frame split: prod.splits)
qed

text \<open>After the set-up calls of a session (clear, IV from session and ids with the host's id
  first, shared key, enable, token from the seed) the encoders of the two ends agree on
  key, IV and token and both encrypt, whatever they held before: so each decodes what the other
  encodes.\<close>
theorem session_setup_agrees:
  assumes "hash_ok P"
    and "session_setup P session hostId remoteId key host = (True, host')"
    and "session_setup P session hostId remoteId key remote = (True, remote')"
  shows "same_crypto host' remote' \<and> EncoderState host' = FullPower"
proof -
  note H = session_setup_keys [OF assms(1,2)] and R = session_setup_keys [OF assms(1,3)]
  from H R show ?thesis by (simp add: same_crypto_def)
qed

theorem session_setup_agrees_witness:
  "same_crypto (snd (session_setup sample_platform 7 1 2 (replicate 20 5) Encoder_new))
     (snd (session_setup sample_platform 7 1 2 (replicate 20 5) (Encoder_new\<lparr>Hasher := [1], Cypher := [8]\<rparr>))) \<and>
   EncoderState (snd (session_setup sample_platform 7 1 2 (replicate 20 5) Encoder_new)) = FullPower"
proof (rule session_setup_agrees)
  show "hash_ok sample_platform" by simp
  have *: "fst (session_setup sample_platform 7 1 2 (replicate 20 5) e)" for e
    by (simp add: session_setup_def Encoder_SetSecretKey_def Encoder_SetEnabled_def Let_def lola_consts
        split: prod.split)
  show "session_setup sample_platform 7 1 2 (replicate 20 5) Encoder_new =
      (True, snd (session_setup sample_platform 7 1 2 (replicate 20 5) Encoder_new))"
    "session_setup sample_platform 7 1 2 (replicate 20 5) (Encoder_new\<lparr>Hasher := [1], Cypher := [8]\<rparr>) =
      (True, snd (session_setup sample_platform 7 1 2 (replicate 20 5) (Encoder_new\<lparr>Hasher := [1], Cypher := [8]\<rparr>)))"
    using * by (metis prod.collapse)+
qed

text \<open>C30. The token seed does not depend on the secret key: \<open>SetSecretKey\<close> hashes the bytes after
  \<open>KeyHolder\<close> in the object (the IV), not the last four bytes of the key it was given, so
  two different keys leave the same seed.\<close>
theorem token_seed_ignores_key:
  assumes "Encoder_SetSecretKey P key1 n e = (True, e1)"
    and "Encoder_SetSecretKey P key2 n e = (True, e2)"
  shows "Encoder_GetSeed e1 = Encoder_GetSeed e2"
  using Encoder_SetSecretKey_success [OF assms(1)] Encoder_SetSecretKey_success [OF assms(2)]
  by (simp add: Encoder_GetSeed_def)

theorem token_seed_ignores_key_witness:
  "Encoder_GetSeed (snd (Encoder_SetSecretKey sample_platform (replicate 20 1) 20 Encoder_new)) =
   Encoder_GetSeed (snd (Encoder_SetSecretKey sample_platform (replicate 16 3 @ [4, 5, 6, 7]) 20 Encoder_new))"
proof (rule token_seed_ignores_key)
  have *: "fst (Encoder_SetSecretKey sample_platform k 20 Encoder_new)" for k
    by (simp add: Encoder_SetSecretKey_def Let_def lola_consts split: prod.split)
  show "Encoder_SetSecretKey sample_platform (replicate 20 1) 20 Encoder_new =
      (True, snd (Encoder_SetSecretKey sample_platform (replicate 20 1) 20 Encoder_new))"
    "Encoder_SetSecretKey sample_platform (replicate 16 3 @ [4, 5, 6, 7]) 20 Encoder_new =
      (True, snd (Encoder_SetSecretKey sample_platform (replicate 16 3 @ [4, 5, 6, 7]) 20 Encoder_new))"
    using * by (metis prod.collapse)+
qed

text \<open>Encryption can only be switched on with a key in place: after \<open>Clear\<close>, \<open>SetEnabled\<close>
  refuses and the encoder stays in clear mode, and a key that is too short changes nothing.\<close>
theorem no_encryption_without_key:
  "fst (Encoder_SetEnabled (Encoder_Clear e)) = False \<and>
   snd (Encoder_SetEnabled (Encoder_Clear e)) = Encoder_Clear e \<and>
   (n < 20 \<longrightarrow> Encoder_SetSecretKey P key n e = (False, e))"
  by (simp add: Encoder_SetEnabled_def Encoder_Clear_def Encoder_SetSecretKey_def lola_consts)

theorem no_encryption_without_key_witness:
  "fst (Encoder_SetEnabled (Encoder_Clear Encoder_new)) = False \<and>
   Encoder_SetSecretKey sample_platform [1, 2] 2 Encoder_new = (False, Encoder_new)"
  using no_encryption_without_key [of Encoder_new 2 sample_platform "[1, 2]"] by simp

end
