(* ===== verification/Clock.thy ===== *)
theory Clock
  imports Platform LoLa_Constants
begin

text \<open>
  \<open>src/src/LoLaClock\<close>: the synchronised microsecond clock of the STM32 build, an RTC second
  counter and the \<open>micros()\<close> reading of its last interrupt, plus the offset that the clock
  synchronisation adjusts.
\<close>

record RTCClockSource =
  OffsetMicros :: u32
  LastTick :: u32
  LastSeconds :: u32
  Attached :: bool

definition Clock_new :: RTCClockSource where
  "Clock_new = \<lparr> OffsetMicros = 0, LastTick = 0, LastSeconds = 0, Attached = False \<rparr>"

definition Clock_Reset :: "RTCClockSource \<Rightarrow> RTCClockSource" where
  "Clock_Reset c = c\<lparr>OffsetMicros := 0\<rparr>"

definition Clock_SetRandom :: "platform \<Rightarrow> RTCClockSource \<Rightarrow> RTCClockSource" where
  "Clock_SetRandom P c = c\<lparr>OffsetMicros := of_int (random_between P 0 2147483647)\<rparr>"

definition Clock_AddOffsetMicros :: "u32 \<Rightarrow> RTCClockSource \<Rightarrow> RTCClockSource" where
  "Clock_AddOffsetMicros offset c = c\<lparr>OffsetMicros := OffsetMicros c + offset\<rparr>"

definition Clock_GetBaseRTC :: "RTCClockSource \<Rightarrow> u32" where
  "Clock_GetBaseRTC c = (LastSeconds c AND 0xFFFF) * 1000000"

definition Clock_GetCurrentsMicros :: "u32 \<Rightarrow> RTCClockSource \<Rightarrow> u32" where
  "Clock_GetCurrentsMicros us c = Clock_GetBaseRTC c + (us - LastTick c)"

definition Clock_GetSyncMicros :: "u32 \<Rightarrow> RTCClockSource \<Rightarrow> u32" where
  "Clock_GetSyncMicros us c = Clock_GetCurrentsMicros us c + OffsetMicros c"

definition Clock_GetSyncMicrosOf :: "u32 \<Rightarrow> RTCClockSource \<Rightarrow> u32" where
  "Clock_GetSyncMicrosOf sourceMicros c = sourceMicros + OffsetMicros c"

definition Clock_GetTimeSeconds :: "RTCClockSource \<Rightarrow> u32" where
  "Clock_GetTimeSeconds c = LastSeconds c"

definition Clock_Attach :: "platform \<Rightarrow> RTCClockSource \<Rightarrow> RTCClockSource" where
  "Clock_Attach P c = c\<lparr>LastSeconds := rtc_time P\<rparr>"

definition Clock_Start :: "platform \<Rightarrow> RTCClockSource \<Rightarrow> RTCClockSource" where
  "Clock_Start P c =
     (let c1 = (if \<not> Attached c then Clock_Attach P (c\<lparr>Attached := True\<rparr>) else c)
      in c1\<lparr>LastTick := 0, LastSeconds := 0\<rparr>)"

definition Clock_OnInterrupt :: "platform \<Rightarrow> RTCClockSource \<Rightarrow> RTCClockSource" where
  "Clock_OnInterrupt P c = c\<lparr>LastTick := micros_now P, LastSeconds := LastSeconds c + 1\<rparr>"

text \<open>Adding the estimated error moves the synchronised clock by exactly that error.\<close>

lemma GetSyncMicros_AddOffset:
  "Clock_GetSyncMicros us (Clock_AddOffsetMicros d c) = Clock_GetSyncMicros us c + d"
  by (simp add: Clock_GetSyncMicros_def Clock_AddOffsetMicros_def Clock_GetCurrentsMicros_def
      Clock_GetBaseRTC_def algebra_simps)

lemma GetSyncMicros_advances:
  "Clock_GetSyncMicros (us + d) c = Clock_GetSyncMicros us c + d"
  by (simp add: Clock_GetSyncMicros_def Clock_GetCurrentsMicros_def algebra_simps)

lemma seconds_mask: "(x :: u32) AND 0xFFFF = take_bit 16 x"
proof -
  have "(0xFFFF :: u32) = mask 16" by (simp add: mask_eq_exp_minus_1)
  then show ?thesis by (simp only: take_bit_eq_mask)
qed

lemma unat_take_bit_16: "unat (take_bit 16 (x :: u32)) = unat x mod 65536"
proof -
  have "unat (take_bit 16 x) = take_bit 16 (unat x)" by (simp only: unsigned_take_bit_eq)
  then show ?thesis by (simp only: take_bit_eq_mod) simp
qed

lemma unat_take_bit_16_Suc:
  "unat (take_bit 16 ((x :: u32) + 1)) =
    (if unat x mod 65536 = 65535 then 0 else Suc (unat x mod 65536))"
proof -
  have "unat (take_bit 16 (x + 1)) = Suc (unat x) mod 2 ^ 32 mod 2 ^ 16"
    by (simp only: unat_take_bit_16 unat_word_ariths unat_1) simp
  also have "\<dots> = Suc (unat x) mod 2 ^ 16"
    by (rule mod_mod_cancel) (simp add: le_imp_power_dvd)
  finally show ?thesis by (simp add: mod_Suc)
qed

lemma take_bit_16_Suc:
  assumes "take_bit 16 x \<noteq> (0xFFFF :: u32)"
  shows "take_bit 16 (x + 1) = take_bit 16 x + 1"
proof (rule unsigned_word_eqI)
  have "unat (take_bit 16 x) \<noteq> 65535"
    using assms by (auto simp: word_unat_eq_iff)
  then have ne: "unat x mod 65536 \<noteq> 65535" unfolding unat_take_bit_16 .
  have "unat (take_bit 16 x + 1) = Suc (unat x mod 65536) mod 2 ^ 32"
    by (simp only: unat_word_ariths unat_take_bit_16 unat_1) simp
  also have "\<dots> = Suc (unat x mod 65536)"
    by (rule mod_less) (rule le_less_trans [of _ 65536], simp_all add: Suc_le_eq)
  finally show "unat (take_bit 16 (x + 1)) = unat (take_bit 16 x + 1)"
    by (simp only: unat_take_bit_16_Suc ne if_False)
qed

lemma take_bit_16_wrap:
  assumes "take_bit 16 x = (0xFFFF :: u32)"
  shows "take_bit 16 (x + 1) = 0"
proof -
  have "unat x mod 65536 = 65535"
    using assms unat_take_bit_16 [of x] by simp
  then have "unat (take_bit 16 (x + 1)) = 0" by (simp add: unat_take_bit_16_Suc)
  then show ?thesis by (simp add: unsigned_eq_0_iff)
qed

text \<open>C24. Across an RTC second the synchronised clock runs on without a jump: if the interrupt
  comes one second of \<open>micros()\<close> after the last one, the clock reads the same whether the
  interrupt has been served or not, as long as the low 16 bits of the second counter do not roll over.\<close>
theorem clock_continuous_at_interrupt:
  assumes "micros_now P = LastTick c + 1000000" and "LastSeconds c AND 0xFFFF \<noteq> 0xFFFF"
  shows "Clock_GetSyncMicros us (Clock_OnInterrupt P c) = Clock_GetSyncMicros us c"
proof -
  have "(LastSeconds c + 1) AND 0xFFFF = (LastSeconds c AND 0xFFFF) + 1"
    using assms(2) take_bit_16_Suc by (simp add: seconds_mask)
  then show ?thesis
    using assms(1)
    by (simp add: Clock_GetSyncMicros_def Clock_GetCurrentsMicros_def Clock_GetBaseRTC_def
        Clock_OnInterrupt_def algebra_simps)
qed

theorem clock_continuous_at_interrupt_witness:
  "Clock_GetSyncMicros 5 (Clock_OnInterrupt (sample_platform\<lparr>micros_now := 1000003\<rparr>)
     (Clock_new\<lparr>LastTick := 3, LastSeconds := 65534\<rparr>)) =
   Clock_GetSyncMicros 5 (Clock_new\<lparr>LastTick := 3, LastSeconds := 65534\<rparr>)"
  by (rule clock_continuous_at_interrupt) (simp_all add: Clock_new_def)

text \<open>C25. At the roll-over of the 16-bit second counter (every 65536 s) the clock is not
  continuous: serving that interrupt moves the synchronised clock back by the
  65536 seconds, 1111490560 microseconds modulo 2^32.\<close>
theorem clock_jumps_at_rollover:
  assumes "micros_now P = LastTick c + 1000000" and "LastSeconds c AND 0xFFFF = 0xFFFF"
  shows "Clock_GetSyncMicros us (Clock_OnInterrupt P c) = Clock_GetSyncMicros us c - 1111490560"
proof -
  have "(LastSeconds c + 1) AND 0xFFFF = 0"
    using assms(2) take_bit_16_wrap by (simp add: seconds_mask)
  moreover have "(64424509440 :: u32) = 0" by simp
  ultimately show ?thesis
    using assms
    by (simp add: Clock_GetSyncMicros_def Clock_GetCurrentsMicros_def Clock_GetBaseRTC_def
        Clock_OnInterrupt_def algebra_simps)
qed

theorem clock_jumps_at_rollover_witness:
  "Clock_GetSyncMicros 5 (Clock_OnInterrupt (sample_platform\<lparr>micros_now := 1000003\<rparr>)
     (Clock_new\<lparr>LastTick := 3, LastSeconds := 65535\<rparr>)) =
   Clock_GetSyncMicros 5 (Clock_new\<lparr>LastTick := 3, LastSeconds := 65535\<rparr>) - 1111490560"
  by (rule clock_jumps_at_rollover) (simp_all add: Clock_new_def)

end
