(* ===== verification/Driver.thy ===== *)
theory Driver
  imports Packet Crypto_Encoder Clock
begin

text \<open>
  \<open>src/src/ILoLaDriver.h\<close>, \<open>src/src/PacketDriver\<close>: the radio driver, one record for the class
  chain \<open>ILoLaDriver\<close>, \<open>LoLaPacketDriver\<close>, \<open>LoLaSi446xPacketDriver\<close>, with its queue of
  deferred actions (\<open>AsyncActionCallback.h\<close>). Calls of the radio chip are appended to
  \<open>RadioLog\<close>, newest first; \<open>MemoryFaults\<close> records which accesses past the end of a packet buffer the code has
  made, after which C++ promises nothing.
\<close>

section \<open>Deferred actions\<close>

text \<open>What a task last asked of the scheduler: the next iteration at once, or after a delay.\<close>

datatype next_run = RunASAP | RunAfter u32

record AsyncQueue =
  EventQueue :: "(u8 \<times> u8) list"
  TaskEnabled :: bool
  TaskNextRun :: next_run

definition AsyncQueue_new :: AsyncQueue where
  "AsyncQueue_new = \<lparr> EventQueue = [], TaskEnabled = False, TaskNextRun = RunASAP \<rparr>"

definition Async_AppendToQueue :: "platform \<Rightarrow> u8 \<times> u8 \<Rightarrow> bool \<Rightarrow> AsyncQueue \<Rightarrow> AsyncQueue" where
  "Async_AppendToQueue P action easeNextEvent q =
     (let q1 = q\<lparr>EventQueue := ring_add_force (ring_actions P) action (EventQueue q),
                 TaskEnabled := True, TaskNextRun := RunASAP\<rparr>
      in if easeNextEvent \<and> length (EventQueue q1) = 1 then q1\<lparr>TaskNextRun := RunAfter 1\<rparr> else q1)"

definition ActionProcessIncomingPacket :: u8 where
  [lola_consts]: "ActionProcessIncomingPacket = 0"

definition ActionProcessSentOk :: u8 where
  [lola_consts]: "ActionProcessSentOk = 1"

definition ActionUpdatePower :: u8 where
  [lola_consts]: "ActionUpdatePower = 2"

definition ActionUpdateChannel :: u8 where
  [lola_consts]: "ActionUpdateChannel = 3"

definition ActionAsyncRestore :: u8 where
  [lola_consts]: "ActionAsyncRestore = 4"

definition ActionProcessBatteryAlarm :: u8 where
  [lola_consts]: "ActionProcessBatteryAlarm = 255"

section \<open>Driver state\<close>

datatype DriverActiveStates = DriverDisabled | ReadyForAnything | BlockedForIncoming
  | AwaitingProcessing | ProcessingIncoming | SendingOutgoing | SendingAck
  | WaitingForTransmissionEnd

datatype memory_fault = IncomingOverrun | OutgoingOverrun | AckOverrun | NullDefinition

datatype radio_cmd = RadioTX "u8 list" u8 u8 | RadioRX u8 | RadioPower u8

record Driver =
  LastReceivedMicros :: u32
  LastReceivedRSSI :: u16
  LastSentMicros :: u32
  LastValidReceivedMicros :: u32
  LastValidReceivedRSSI :: u16
  LastValidSentMicros :: u32
  TransmitedCount :: u64
  ReceivedCount :: u64
  RejectedCount :: u64
  TimingCollisionCount :: u64
  CurrentTransmitPower :: u8
  CurrentChannel :: u8
  TransmitPowerNormalized :: u8
  LinkActive :: bool
  EvenSlot :: bool
  DuplexElapsed :: u32
  PacketMap :: LoLaPacketMap
  SyncedClock :: RTCClockSource
  CryptoEncoder :: LoLaCryptoEncoder
  ETTM :: u32
  CallbackHandler :: AsyncQueue
  LastSentHeader :: u8
  OutgoingHeaderHelper :: u8
  LastPower :: u8
  LastChannel :: u8
  ChannelPending :: bool
  DriverActiveState :: DriverActiveStates
  AckDefinition :: "PacketDefinition option"
  IncomingPacket :: LoLaPacket
  IncomingPacketSize :: u8
  OutgoingPacket :: LoLaPacket
  OutgoingPacketSize :: u8
  AckPacket :: LoLaPacket
  IrqEnabled :: bool
  RadioLog :: "radio_cmd list"
  MemoryFaults :: "memory_fault set"

definition DuplexPeriodMicros :: u32 where
  [lola_consts]: "DuplexPeriodMicros = ILOLA_DEFAULT_DUPLEX_PERIOD_MILLIS * 1000"

definition HalfDuplexPeriodMicros :: u32 where
  [lola_consts]: "HalfDuplexPeriodMicros = DuplexPeriodMicros div 2"

definition BackOffPeriodUnlinkedMillis :: u32 where
  [lola_consts]: "BackOffPeriodUnlinkedMillis = LOLA_LINK_UNLINKED_BACK_OFF_DURATION_MILLIS"

definition BackOffPeriodLinkedMillis :: u32 where
  [lola_consts]: "BackOffPeriodLinkedMillis = LOLA_LINK_LINKED_BACK_OFF_DURATION_MILLIS"

definition Si446x_GetTransmitPowerMin :: u8 where
  [lola_consts]: "Si446x_GetTransmitPowerMin = 1"

definition Si446x_GetTransmitPowerMax :: u8 where
  [lola_consts]: "Si446x_GetTransmitPowerMax = 40"

definition Si446x_GetRSSIMin :: int where
  [lola_consts]: "Si446x_GetRSSIMin = - 110"

definition Si446x_GetRSSIMax :: int where
  [lola_consts]: "Si446x_GetRSSIMax = - 80"

definition Si446x_GetChannelMin :: u8 where
  [lola_consts]: "Si446x_GetChannelMin = 0"

definition Si446x_GetChannelMax :: u8 where
  [lola_consts]: "Si446x_GetChannelMax = 26"

text \<open>
  \<open>AckPacket\<close> has room for no payload (\<open>LOLA_PACKET_MIN_PACKET_SIZE\<close> bytes); the two more bytes
  it has here are the padding at the end of the object, where the one payload byte lands.
\<close>

definition fault_if :: "bool \<Rightarrow> memory_fault \<Rightarrow> Driver \<Rightarrow> Driver" where
  "fault_if c f d = (if c then d\<lparr>MemoryFaults := insert f (MemoryFaults d)\<rparr> else d)"

definition Driver_new :: Driver where
  "Driver_new = \<lparr> LastReceivedMicros = ILOLA_INVALID_MICROS, LastReceivedRSSI = ILOLA_INVALID_RSSI,
     LastSentMicros = ILOLA_INVALID_MICROS,
     LastValidReceivedMicros = ILOLA_INVALID_MICROS, LastValidReceivedRSSI = ILOLA_INVALID_RSSI,
     LastValidSentMicros = ILOLA_INVALID_MICROS,
     TransmitedCount = 0, ReceivedCount = 0, RejectedCount = 0, TimingCollisionCount = 0,
     CurrentTransmitPower = 0, CurrentChannel = 0, TransmitPowerNormalized = 0,
     LinkActive = False, EvenSlot = False, DuplexElapsed = 0,
     PacketMap = PacketMap_new, SyncedClock = Clock_new, CryptoEncoder = Encoder_new, ETTM = 0,
     CallbackHandler = AsyncQueue_new, LastSentHeader = 0xFF, OutgoingHeaderHelper = 0,
     LastPower = 0, LastChannel = 0, ChannelPending = False, DriverActiveState = DriverDisabled,
     AckDefinition = None,
     IncomingPacket = LoLaPacket_new LOLA_PACKET_MAX_PACKET_SIZE, IncomingPacketSize = 0,
     OutgoingPacket = LoLaPacket_new LOLA_PACKET_MAX_PACKET_SIZE, OutgoingPacketSize = 0,
     AckPacket = LoLaPacket_new (LOLA_PACKET_MIN_PACKET_SIZE + 2),
     IrqEnabled = True, RadioLog = [], MemoryFaults = {} \<rparr>"

section \<open>Accessors of ILoLaDriver\<close>

definition Driver_SetLinkStatus :: "bool \<Rightarrow> Driver \<Rightarrow> Driver" where
  "Driver_SetLinkStatus linked d = d\<lparr>LinkActive := linked\<rparr>"

definition Driver_HasLink :: "Driver \<Rightarrow> bool" where
  "Driver_HasLink d = LinkActive d"

definition Driver_SetETTM :: "u32 \<Rightarrow> Driver \<Rightarrow> Driver" where
  "Driver_SetETTM ettmMicros d = d\<lparr>ETTM := ettmMicros\<rparr>"

definition Driver_GetETTMMicros :: "Driver \<Rightarrow> u32" where
  "Driver_GetETTMMicros d = ETTM d"

definition Driver_SetDuplexSlot :: "bool \<Rightarrow> Driver \<Rightarrow> Driver" where
  "Driver_SetDuplexSlot evenSlot d = d\<lparr>EvenSlot := evenSlot\<rparr>"

definition Driver_ResetStatistics :: "Driver \<Rightarrow> Driver" where
  "Driver_ResetStatistics d =
     d\<lparr>TransmitedCount := 0, ReceivedCount := 0, RejectedCount := 0, TimingCollisionCount := 0\<rparr>"

definition Driver_ResetLiveData :: "Driver \<Rightarrow> Driver" where
  "Driver_ResetLiveData d =
     Driver_ResetStatistics (d\<lparr>ETTM := 0,
       LastReceivedMicros := ILOLA_INVALID_MICROS, LastReceivedRSSI := ILOLA_INVALID_RSSI,
       LastSentMicros := ILOLA_INVALID_MICROS,
       LastValidReceivedMicros := ILOLA_INVALID_MICROS, LastValidReceivedRSSI := ILOLA_INVALID_RSSI,
       LastValidSentMicros := ILOLA_INVALID_MICROS\<rparr>)"

definition Driver_GetRSSINormalized :: "Driver \<Rightarrow> u8" where
  "Driver_GetRSSINormalized d =
     of_int (arduino_map (constrain (sint (LastValidReceivedRSSI d)) Si446x_GetRSSIMin Si446x_GetRSSIMax)
       Si446x_GetRSSIMin Si446x_GetRSSIMax 0 255)"

definition Driver_GetElapsedMillisLastValidReceived :: "platform \<Rightarrow> Driver \<Rightarrow> u32" where
  "Driver_GetElapsedMillisLastValidReceived P d =
     (if LastValidReceivedMicros d = ILOLA_INVALID_MICROS then ILOLA_INVALID_MILLIS
      else (micros_now P - LastValidReceivedMicros d) div 1000)"

definition Driver_GetElapsedMillisLastValidSent :: "platform \<Rightarrow> Driver \<Rightarrow> u32" where
  "Driver_GetElapsedMillisLastValidSent P d =
     (if LastValidSentMicros d = ILOLA_INVALID_MICROS then ILOLA_INVALID_MILLIS
      else (micros_now P - LastValidSentMicros d) div 1000)"

definition Driver_GetSyncMicros :: "platform \<Rightarrow> Driver \<Rightarrow> u32" where
  "Driver_GetSyncMicros P d = Clock_GetSyncMicros (micros_now P) (SyncedClock d)"

section \<open>Radio chip and action queue\<close>

definition Driver_AddAsyncAction :: "platform \<Rightarrow> u8 \<Rightarrow> bool \<Rightarrow> u8 \<Rightarrow> Driver \<Rightarrow> Driver" where
  "Driver_AddAsyncAction P action easeRetry value1 d =
     d\<lparr>CallbackHandler := Async_AppendToQueue P (action, value1) easeRetry (CallbackHandler d)\<rparr>"

definition Driver_DisableInterrupts :: "Driver \<Rightarrow> Driver" where
  "Driver_DisableInterrupts d = d\<lparr>IrqEnabled := False\<rparr>"

definition Driver_EnableInterrupts :: "Driver \<Rightarrow> Driver" where
  "Driver_EnableInterrupts d = d\<lparr>IrqEnabled := True\<rparr>"

definition Driver_SetRadioPower :: "Driver \<Rightarrow> Driver" where
  "Driver_SetRadioPower d = d\<lparr>RadioLog := RadioPower (CurrentTransmitPower d) # RadioLog d\<rparr>"

definition Driver_SetToReceiving :: "Driver \<Rightarrow> Driver" where
  "Driver_SetToReceiving d = d\<lparr>RadioLog := RadioRX (CurrentChannel d) # RadioLog d\<rparr>"

definition Driver_Transmit :: "platform \<Rightarrow> Driver \<Rightarrow> bool \<times> Driver" where
  "Driver_Transmit P d =
     (radio_tx P (Raw (OutgoingPacket d)) (OutgoingPacketSize d) (CurrentChannel d),
      d\<lparr>RadioLog := RadioTX (take (unat (OutgoingPacketSize d)) (Raw (OutgoingPacket d)))
          (OutgoingPacketSize d) (CurrentChannel d) # RadioLog d\<rparr>)"

text \<open>
  \<open>Si446x_read\<close> copies \<open>IncomingPacketSize\<close> bytes into the buffer; more than the buffer holds
  is a write past its end.
\<close>

definition Driver_ReadReceived :: "platform \<Rightarrow> Driver \<Rightarrow> Driver" where
  "Driver_ReadReceived P d =
     (let n = unat (IncomingPacketSize d); buffer = Raw (IncomingPacket d)
      in fault_if (length buffer < n) IncomingOverrun
           (d\<lparr>IncomingPacket := (IncomingPacket d)\<lparr>Raw := store 0 (radio_rx_bytes P n) buffer\<rparr>\<rparr>))"

definition Driver_SetupRadio :: "platform \<Rightarrow> Driver \<Rightarrow> bool \<times> Driver" where
  "Driver_SetupRadio P d =
     (if radio_part P = 17507 then (True, Driver_SetRadioPower d) else (False, d))"

definition Driver_Setup :: "platform \<Rightarrow> Driver \<Rightarrow> bool \<times> Driver" where
  "Driver_Setup P d =
     (let d1 = d\<lparr>AckDefinition := PacketMap_GetDefinition PACKET_DEFINITION_ACK_HEADER (PacketMap d)\<rparr>
      in if AckDefinition d1 \<noteq> None then Driver_SetupRadio P d1 else (False, d1))"

section \<open>State changes outside packet handling\<close>

definition Driver_RestoreToReceiving :: "Driver \<Rightarrow> Driver" where
  "Driver_RestoreToReceiving d =
     Driver_SetToReceiving (d\<lparr>LastChannel := CurrentChannel d, ChannelPending := False,
       DriverActiveState := ReadyForAnything\<rparr>)"

definition Driver_OnStart :: "platform \<Rightarrow> Driver \<Rightarrow> Driver" where
  "Driver_OnStart P d =
     Driver_RestoreToReceiving (d\<lparr>SyncedClock := Clock_Start P (SyncedClock d),
       LastChannel := 0xFF, LastPower := 0, ChannelPending := False\<rparr>)"

definition Driver_Enable :: "platform \<Rightarrow> Driver \<Rightarrow> Driver" where
  "Driver_Enable P d = Driver_OnStart P d"

definition Driver_Disable :: "Driver \<Rightarrow> Driver" where
  "Driver_Disable d = d"

definition Driver_OnChannelUpdated :: "platform \<Rightarrow> Driver \<Rightarrow> Driver" where
  "Driver_OnChannelUpdated P d =
     (if LastChannel d \<noteq> CurrentChannel d then
        if DriverActiveState d = ReadyForAnything then Driver_RestoreToReceiving d
        else Driver_AddAsyncAction P ActionUpdateChannel True 0 (d\<lparr>ChannelPending := True\<rparr>)
      else d)"

definition Driver_OnTransmitPowerUpdated :: "platform \<Rightarrow> Driver \<Rightarrow> Driver" where
  "Driver_OnTransmitPowerUpdated P d =
     (if LastPower d \<noteq> CurrentTransmitPower d then
        if DriverActiveState d = ReadyForAnything then
          Driver_RestoreToReceiving ((Driver_SetRadioPower d)\<lparr>LastPower := CurrentTransmitPower d\<rparr>)
        else Driver_AddAsyncAction P ActionUpdatePower True 0 d
      else d)"

definition Driver_OnAsyncRestore :: "Driver \<Rightarrow> Driver" where
  "Driver_OnAsyncRestore d = Driver_RestoreToReceiving (d\<lparr>LastSentHeader := 0xFF\<rparr>)"

definition Driver_SetTransmitPower :: "platform \<Rightarrow> u8 \<Rightarrow> Driver \<Rightarrow> Driver" where
  "Driver_SetTransmitPower P transmitPowerNormalized d =
     Driver_OnTransmitPowerUpdated P (d\<lparr>TransmitPowerNormalized := transmitPowerNormalized,
       CurrentTransmitPower := of_int (arduino_map (uint transmitPowerNormalized) 0 255
         (uint Si446x_GetTransmitPowerMin) (uint Si446x_GetTransmitPowerMax))\<rparr>)"

definition Driver_SetChannel :: "platform \<Rightarrow> u8 \<Rightarrow> Driver \<Rightarrow> Driver" where
  "Driver_SetChannel P channel d = Driver_OnChannelUpdated P (d\<lparr>CurrentChannel := channel\<rparr>)"

section \<open>Duplex slots\<close>

definition Driver_IsInReceiveSlot :: "platform \<Rightarrow> u32 \<Rightarrow> Driver \<Rightarrow> bool \<times> Driver" where
  "Driver_IsInReceiveSlot P offsetMicros d =
     (let e = (Driver_GetSyncMicros P d + offsetMicros) mod DuplexPeriodMicros
      in (if EvenSlot d then HalfDuplexPeriodMicros \<le> e else e \<le> HalfDuplexPeriodMicros,
          d\<lparr>DuplexElapsed := e\<rparr>))"

definition Driver_IsInSendSlot :: "platform \<Rightarrow> Driver \<Rightarrow> bool \<times> Driver" where
  "Driver_IsInSendSlot P d =
     (let e = (Driver_GetSyncMicros P d + ETTM d) mod DuplexPeriodMicros
      in (if EvenSlot d then e \<le> HalfDuplexPeriodMicros - ETTM d
          else HalfDuplexPeriodMicros \<le> e \<and> e \<le> DuplexPeriodMicros - ETTM d,
          d\<lparr>DuplexElapsed := e\<rparr>))"

text \<open>
  \<open>IsReceiveCollision\<close> tests \<open>LinkActive && far || !IsInReceiveSlot\<close> with C's precedence and
  short circuit, counts, and ends without a return statement: what the caller sees is
  \<open>missing_return\<close>.
\<close>

definition Driver_IsReceiveCollision :: "platform \<Rightarrow> u32 \<Rightarrow> Driver \<Rightarrow> bool \<times> Driver" where
  "Driver_IsReceiveCollision P offsetMicros d =
     (let (collision, d1) =
        (if LinkActive d \<and> collision_slot_range P < \<bar>sint offsetMicros\<bar> then (True, d)
         else let (in_slot, d') = Driver_IsInReceiveSlot P offsetMicros d in (\<not> in_slot, d'))
      in (missing_return P,
          if collision then d1\<lparr>TimingCollisionCount := TimingCollisionCount d1 + 1\<rparr> else d1))"

definition Driver_AllowedSend :: "platform \<Rightarrow> Driver \<Rightarrow> bool \<times> Driver" where
  "Driver_AllowedSend P d =
     (if DriverActiveState d \<noteq> ReadyForAnything \<or> ChannelPending d then (False, d)
      else if LinkActive d then
        let (in_slot, d1) = Driver_IsInSendSlot P d
        in (in_slot \<and> BackOffPeriodLinkedMillis \<le> Driver_GetElapsedMillisLastValidSent P d1, d1)
      else (BackOffPeriodUnlinkedMillis \<le> Driver_GetElapsedMillisLastValidSent P d, d))"

section \<open>Sending\<close>

definition Driver_OnTransmitted :: "platform \<Rightarrow> u8 \<Rightarrow> Driver \<Rightarrow> Driver" where
  "Driver_OnTransmitted P header d =
     Driver_OnTransmitPowerUpdated P (d\<lparr>LastSentMicros := micros_now P, LastSentHeader := header,
       LastChannel := CurrentChannel d\<rparr>)"

definition Driver_EncodeOutgoing :: "platform \<Rightarrow> LoLaPacket \<Rightarrow> PacketDefinition \<Rightarrow> Driver \<Rightarrow> Driver" where
  "Driver_EncodeOutgoing P packet def d =
     (let n = unat (PacketDefinition_GetContentSize def);
          (crc, out, e) = Encoder_Encode P (LoLaPacket_GetRawContent packet) n (CryptoEncoder d);
          buffer = OutgoingPacket d
      in fault_if (length (LoLaPacket_GetRawContent buffer) < n) OutgoingOverrun
           (d\<lparr>CryptoEncoder := e,
              OutgoingPacket := LoLaPacket_SetMACCRC crc (LoLaPacket_SetRawContent out buffer),
              OutgoingPacketSize := PacketDefinition_GetTotalSize def\<rparr>))"

definition Driver_SendPacket :: "platform \<Rightarrow> LoLaPacket \<Rightarrow> Driver \<Rightarrow> bool \<times> Driver" where
  "Driver_SendPacket P transmitPacket d =
     (case Definition transmitPacket of
        None \<Rightarrow> (False, d)
      | Some def \<Rightarrow>
          if ChannelPending d \<or>
             (DriverActiveState d \<noteq> ReadyForAnything \<and> DriverActiveState d \<noteq> SendingAck)
          then (False, d)
          else
            let d1 = d\<lparr>DriverActiveState := SendingOutgoing,
                       OutgoingHeaderHelper := LoLaPacket_GetDataHeader transmitPacket\<rparr>;
                d2 = Driver_EncodeOutgoing P transmitPacket def d1;
                (sent, d3) = (if 0 < OutgoingPacketSize d2 then Driver_Transmit P d2 else (False, d2))
            in if sent then
                 (True, (Driver_OnTransmitted P (OutgoingHeaderHelper d3) d3)
                    \<lparr>DriverActiveState := WaitingForTransmissionEnd\<rparr>)
               else (False, Driver_AddAsyncAction P ActionAsyncRestore True 0 d3))"

section \<open>Radio interrupts\<close>

definition Driver_OnIncoming :: "platform \<Rightarrow> u16 \<Rightarrow> Driver \<Rightarrow> Driver" where
  "Driver_OnIncoming P rssi d =
     (let d1 = d\<lparr>LastReceivedMicros := micros_now P, LastReceivedRSSI := rssi\<rparr>
      in if DriverActiveState d1 = ReadyForAnything
         then d1\<lparr>DriverActiveState := BlockedForIncoming\<rparr> else d1)"

definition Driver_OnReceiveBegin :: "platform \<Rightarrow> u8 \<Rightarrow> u16 \<Rightarrow> Driver \<Rightarrow> Driver" where
  "Driver_OnReceiveBegin P len rssi d =
     (if DriverActiveState d = BlockedForIncoming then
        Driver_AddAsyncAction P ActionProcessIncomingPacket False 0
          ((Driver_DisableInterrupts d)\<lparr>DriverActiveState := AwaitingProcessing,
             IncomingPacketSize := len,
             LastReceivedRSSI := (if sint rssi < sint (LastReceivedRSSI d) then rssi else LastReceivedRSSI d)\<rparr>)
      else Driver_AddAsyncAction P ActionAsyncRestore True 0 d)"

definition Driver_OnReceivedFail :: "platform \<Rightarrow> Driver \<Rightarrow> Driver" where
  "Driver_OnReceivedFail P d = Driver_AddAsyncAction P ActionAsyncRestore True 0 d"

definition Driver_OnSentOk :: "platform \<Rightarrow> Driver \<Rightarrow> Driver" where
  "Driver_OnSentOk P d =
     (if DriverActiveState d = WaitingForTransmissionEnd then
        (Driver_AddAsyncAction P ActionProcessSentOk False (LastSentHeader d)
          (d\<lparr>LastValidSentMicros := LastSentMicros d, TransmitedCount := TransmitedCount d + 1\<rparr>))
        \<lparr>LastSentHeader := 0xFF\<rparr>
      else Driver_AddAsyncAction P ActionAsyncRestore True 0 d)"

definition Driver_OnBatteryAlarm :: "platform \<Rightarrow> Driver \<Rightarrow> Driver" where
  "Driver_OnBatteryAlarm P d = Driver_AddAsyncAction P ActionProcessBatteryAlarm False 0 d"

end
