(* ===== verification/Driver_Duplex.thy ===== *)
theory Driver_Duplex
  imports Driver
begin

text \<open>
  The half duplex of \<open>LoLaPacketDriver.h\<close>: the synchronised clock, modulo the duplex period, says
  whose turn it is, and the estimated transmission time \<open>ETTM\<close> moves the decision to the moment
  the packet will arrive.
\<close>

lemma duplex_consts:
  "DuplexPeriodMicros = 10000" "HalfDuplexPeriodMicros = 5000"
  by (simp_all add: lola_consts)

text \<open>Where in the duplex period a moment falls, for a sum that does not wrap.\<close>

definition phase :: "u32 \<Rightarrow> nat" where
  "phase t = unat t mod 10000"

lemma phase_less: "phase t < 10000"
  by (simp add: phase_def)

lemma unat_mod_period: "unat (t mod 10000) = phase t"
  by (simp add: phase_def unat_mod)

lemma send_slot_phase:
  assumes "unat (ETTM d) \<le> 5000"
  shows "fst (Driver_IsInSendSlot P d) \<longleftrightarrow>
    (let p = phase (Driver_GetSyncMicros P d + ETTM d)
     in if EvenSlot d then p \<le> 5000 - unat (ETTM d) else 5000 \<le> p \<and> p \<le> 10000 - unat (ETTM d))"
proof -
  have le: "ETTM d \<le> 5000" "ETTM d \<le> 10000" using assms by (simp_all add: word_le_nat_alt)
  then have "unat (5000 - ETTM d) = 5000 - unat (ETTM d)" "unat (10000 - ETTM d) = 10000 - unat (ETTM d)"
    by (simp_all add: unat_sub)
  then show ?thesis
    by (simp add: Driver_IsInSendSlot_def duplex_consts Let_def word_le_nat_alt unat_mod_period)
qed

lemmas slot_eval = Driver_new_def Driver_GetSyncMicros_def Clock_GetSyncMicros_def
  Clock_GetCurrentsMicros_def Clock_GetBaseRTC_def Clock_new_def Driver_IsInSendSlot_def duplex_consts

lemma slot_times:
  assumes "uint (Driver_GetSyncMicros P d) + uint (ETTM d) < 2 ^ 32" and "ETTM d < 0x40000000"
  shows "fst (Driver_IsInSendSlot P d) \<longleftrightarrow>
    (let e = uint (ETTM d); p = (uint (Driver_GetSyncMicros P d) + e) mod 10000
     in if e \<le> 5000 then if EvenSlot d then p \<le> 5000 - e else 5000 \<le> p \<and> p \<le> 10000 - e
        else if e \<le> 10000 then EvenSlot d else EvenSlot d \<or> 5000 \<le> p)"
proof -
  have wrap: "uint (c - e) = c' - uint e + (if uint e \<le> c' then 0 else 2 ^ 32)"
    if "uint c = c'" "c' \<le> 10000" for c e :: u32 and c'
    using that uint_lt2p [of e] uint_ge_0 [of e] by (auto simp: uint_sub_if' split: if_splits)
  have "uint (Driver_GetSyncMicros P d + ETTM d) = uint (Driver_GetSyncMicros P d) + uint (ETTM d)"
    using assms(1) by (simp add: uint_add_lem [THEN iffD1])
  then have p: "uint ((Driver_GetSyncMicros P d + ETTM d) mod 10000) =
      (uint (Driver_GetSyncMicros P d) + uint (ETTM d)) mod 10000"
    by (simp add: uint_mod)
  have e: "uint (ETTM d) < 0x40000000" "0 \<le> uint (ETTM d)" using assms(2) by (simp_all add: word_less_def)
  define q where "q = (uint (Driver_GetSyncMicros P d) + uint (ETTM d)) mod 10000"
  have b: "0 \<le> q" "q < 10000" by (simp_all add: q_def)
  show ?thesis
    using e b by (auto simp: Driver_IsInSendSlot_def duplex_consts word_le_def p wrap Let_def q_def [symmetric])
qed

text \<open>Every reading of the clock is the reading of some moment.\<close>

lemma some_moment: "\<exists>P. Driver_GetSyncMicros P d = t"
  by (rule exI [of _ "sample_platform\<lparr>micros_now := t - Clock_GetSyncMicros 0 (SyncedClock d)\<rparr>"])
     (simp add: Driver_GetSyncMicros_def Clock_GetSyncMicros_def Clock_GetCurrentsMicros_def algebra_simps)

lemma some_moment_at:
  assumes "0 \<le> t" and "t < 2 ^ 32"
  obtains P where "uint (Driver_GetSyncMicros P d) = t"
proof -
  obtain P where "Driver_GetSyncMicros P d = word_of_int t" using some_moment by blast
  then have "uint (Driver_GetSyncMicros P d) = t" using assms by (simp add: uint_word_of_int)
  then show thesis by (rule that)
qed

text \<open>
  Two transmissions that overlap: the clock of \<open>b\<close> is \<open>g\<close> microseconds ahead of that of \<open>a\<close>, either end
  starts in its own send slot, and the later of the two starts before the earlier packet, or at the
  very moment it, has arrived. Neither clock rolls over in the course of it.
\<close>

definition air_clash :: "int \<Rightarrow> Driver \<Rightarrow> Driver \<Rightarrow> bool" where
  "air_clash g a b \<longleftrightarrow> (\<exists>PA PB. let ta = uint (Driver_GetSyncMicros PA a); tb = uint (Driver_GetSyncMicros PB b)
     in fst (Driver_IsInSendSlot PA a) \<and> fst (Driver_IsInSendSlot PB b) \<and>
        - max 1 (uint (ETTM b)) < tb - ta - g \<and> tb - ta - g < max 1 (uint (ETTM a)) \<and>
        ta + uint (ETTM a) < 2 ^ 32 \<and> tb + uint (ETTM b) < 2 ^ 32)"

lemma air_clash_sym: "air_clash (- g) b a \<longleftrightarrow> air_clash g a b"
proof -
  have "air_clash g a b" if "air_clash (- g) b a" for g and a b :: Driver
    using that unfolding air_clash_def Let_def by (elim exE conjE, intro exI conjI) (assumption | simp)+
  from this [of g b a] this [of "- g" a b] show ?thesis by auto
qed

lemma mod_middle: "(2147500000 + x) mod 10000 = (x :: int) mod 10000"
proof -
  have "2147500000 + x = x + 214750 * 10000" by simp
  then show ?thesis by (simp only: mod_mult_self1)
qed

lemma mod_cancel: "(c - g mod 10000 + g) mod 10000 = (c :: int) mod 10000"
proof -
  have "c - g mod 10000 + g = c + 10000 * (g div 10000)" by (simp add: minus_mod_eq_mult_div [symmetric])
  then show ?thesis by (simp only: mod_mult_self2)
qed

lemma mod_shift:
  assumes "0 \<le> p" and "p < (10000 :: int)"
  shows "(p + g) mod 10000 = (if p + g mod 10000 < 10000 then p + g mod 10000 else p + g mod 10000 - 10000)"
proof -
  have "(p + g) mod 10000 = (p + g mod 10000) mod 10000" by (simp add: mod_add_right_eq)
  moreover have "0 \<le> g mod 10000" "g mod 10000 < 10000" by simp_all
  ultimately show ?thesis
    using assms mod_pos_pos_trivial [of "p + g mod 10000" 10000] mod_pos_pos_trivial [of "p + g mod 10000 - 10000" 10000]
      mod_mult_self1 [of "p + g mod 10000 - 10000" 1 10000] by auto
qed

text \<open>A clash from two arrivals \<open>p\<close> and \<open>p + g + k\<close>, counted from the middle of the range of the clock.\<close>

lemma clash_at:
  assumes "EvenSlot a" and "\<not> EvenSlot b" and e: "uint (ETTM a) = e" "uint (ETTM b) = e" "e < 0x40000000"
    and "0 \<le> p" and "p < 10000" and g: "\<bar>g\<bar> < 0x40000000" and k: "\<bar>k\<bar> < max 1 e" "\<bar>k\<bar> \<le> 5000" "10000 < e \<longrightarrow> k = 0"
    and "e \<le> 5000 \<Longrightarrow> p \<le> 5000 - e" and "5000 \<le> (p + g + k) mod 10000"
    and "e \<le> 5000 \<Longrightarrow> (p + g + k) mod 10000 \<le> 10000 - e" and "e \<le> 5000 \<or> 10000 < e"
  shows "air_clash g a b"
proof -
  have e0: "0 \<le> e" using e(1) [symmetric] by simp
  obtain PA where A: "uint (Driver_GetSyncMicros PA a) = 2147500000 + p - e"
    by (rule some_moment_at [of "2147500000 + p - e" a]) (use assms e0 in auto)
  obtain PB where B: "uint (Driver_GetSyncMicros PB b) = 2147500000 + (p + g + k) - e"
    by (rule some_moment_at [of "2147500000 + (p + g + k) - e" b]) (use assms e0 in \<open>auto split: if_splits\<close>)
  note m = mod_middle
  have w: "ETTM a < 0x40000000" "ETTM b < 0x40000000" using e by (simp_all add: word_less_def)
  have "uint (Driver_GetSyncMicros PA a) + uint (ETTM a) < 2 ^ 32"
    "uint (Driver_GetSyncMicros PB b) + uint (ETTM b) < 2 ^ 32"
    unfolding A B e(1,2) using assms by auto
  note r = this
  have "fst (Driver_IsInSendSlot PA a)"
    using slot_times [OF r(1) w(1)] assms by (simp add: A e m Let_def)
  moreover have "fst (Driver_IsInSendSlot PB b)"
    using slot_times [OF r(2) w(2)] assms m [of "p + g + k"] by (cases "10000 < e") (auto simp: B e Let_def m)
  moreover have "uint (Driver_GetSyncMicros PB b) - uint (Driver_GetSyncMicros PA a) - g = k"
    unfolding A B by simp
  ultimately show ?thesis
    unfolding air_clash_def Let_def using r k e by (intro exI [of _ PA] exI [of _ PB]) auto
qed

lemma clash_only:
  assumes "EvenSlot a" and "\<not> EvenSlot b" and e: "uint (ETTM a) = e" "uint (ETTM b) = e" "e < 0x40000000"
    and clash: "air_clash g a b"
  shows "e = 0 \<or> 10000 < e \<or> e \<le> 5000 \<and> g mod 10000 \<noteq> 0"
proof -
  have e0: "0 \<le> e" using e(1) [symmetric] by simp
  have w: "ETTM a < 0x40000000" "ETTM b < 0x40000000" using e by (simp_all add: word_less_def)
  from clash obtain PA PB where c: "fst (Driver_IsInSendSlot PA a)" "fst (Driver_IsInSendSlot PB b)"
    "- max 1 e < uint (Driver_GetSyncMicros PB b) - uint (Driver_GetSyncMicros PA a) - g"
    "uint (Driver_GetSyncMicros PB b) - uint (Driver_GetSyncMicros PA a) - g < max 1 e"
    and r: "uint (Driver_GetSyncMicros PA a) + uint (ETTM a) < 2 ^ 32" "uint (Driver_GetSyncMicros PB b) + uint (ETTM b) < 2 ^ 32"
    unfolding air_clash_def Let_def e by blast
  define x y where "x = uint (Driver_GetSyncMicros PA a) + e" and "y = uint (Driver_GetSyncMicros PB b) + e"
  have s: "if e \<le> 5000 then x mod 10000 \<le> 5000 - e else e \<le> 10000 \<or> 10000 < e"
    "if e \<le> 5000 then 5000 \<le> y mod 10000 \<and> y mod 10000 \<le> 10000 - e else 10000 < e"
    using c(1,2) slot_times [OF r(1) w(1)] slot_times [OF r(2) w(2)] assms(1,2)
    by (auto simp: e x_def y_def Let_def split: if_splits)
  have d: "- max 1 e < y - x - g" "y - x - g < max 1 e" using c(3,4) by (simp_all add: x_def y_def)
  have "g mod 10000 \<noteq> 0" if "0 < e" "e \<le> 5000"
  proof
    assume "g mod 10000 = 0"
    then obtain n where n: "g = 10000 * n" by auto
    obtain A B p q where x: "x = 10000 * A + p" "p = x mod 10000" and y: "y = 10000 * B + q" "q = y mod 10000"
      by (metis mult_div_mod_eq)
    define i where "i = B - A - n"
    have "y - x - g = 10000 * i + (q - p)" unfolding x(1) y(1) n i_def by simp
    moreover have "0 \<le> p" "p \<le> 5000 - e" "5000 \<le> q" "q \<le> 10000 - e"
      using s that unfolding x(2) y(2) by simp_all
    ultimately have "- e < 10000 * i + (q - p)" "10000 * i + (q - p) < e" "e \<le> q - p" "q - p \<le> 10000 - e"
      using d that by simp_all
    then show False using that by (cases "0 \<le> i") auto
  qed
  then show "e = 0 \<or> 10000 < e \<or> e \<le> 5000 \<and> g mod 10000 \<noteq> 0" using s(2) e0 by (auto split: if_splits)
qed

lemma clash_some:
  assumes "EvenSlot a" and "\<not> EvenSlot b" and e: "uint (ETTM a) = e" "uint (ETTM b) = e" "e < 0x40000000"
    and g: "\<bar>g\<bar> < 0x40000000"
    and "e = 0 \<or> 10000 < e \<or> e \<le> 5000 \<and> g mod 10000 \<noteq> 0"
  shows "air_clash g a b"
proof -
  have e0: "0 \<le> e" using e(1) [symmetric] by simp
  let ?r = "g mod 10000"
  have r: "0 \<le> ?r" "?r < 10000" by simp_all
  note at = clash_at [OF assms(1,2) e _ _ g]
  from assms(7) consider "10000 < e" | "e = 0" "?r < 5000" | "e = 0" "5000 \<le> ?r" | "0 < e" "e \<le> 5000" "0 < ?r" "?r < e"
    | "0 < e" "e \<le> 5000" "e \<le> ?r" "?r \<le> 10000 - e" | "0 < e" "e \<le> 5000" "10000 - e < ?r"
    using r e0 by linarith
  then show "air_clash g a b"
  proof cases
    case 1
    show ?thesis by (rule at [of "(5000 - g) mod 10000" 0]) (use 1 in \<open>auto simp: mod_add_left_eq\<close>)
  next
    case 2
    have "(5000 - ?r + g) mod 10000 = 5000" using mod_cancel [of 5000 g] by simp
    then show ?thesis by (intro at [of "5000 - ?r" 0]) (use 2 r in auto)
  next
    case 3
    then show ?thesis by (intro at [of 0 0]) auto
  next
    case 4
    have "(5000 - e + g + (e - ?r)) mod 10000 = 5000" using mod_cancel [of 5000 g] by (simp add: algebra_simps)
    then show ?thesis by (intro at [of "5000 - e" "e - ?r"]) (use 4 in auto)
  next
    case 5
    define p where "p = (if ?r \<le> 5000 then 5000 - e else 0)"
    have "(5000 - e + g + 0) mod 10000 = (5000 - e + ?r) mod 10000" by (simp add: mod_add_right_eq)
    moreover have "(5000 - e + ?r) mod 10000 = 5000 - e + ?r" if "?r \<le> 5000"
      using that 5 r by (intro mod_pos_pos_trivial) auto
    ultimately show ?thesis
      by (cases "?r \<le> 5000"; intro at [of p 0]) (use 5 in \<open>auto simp: p_def\<close>)
  next
    case 6
    have "(0 + g + (10000 - e - ?r)) mod 10000 = (10000 - e) mod 10000"
      using mod_cancel [of "10000 - e" g] by (simp add: algebra_simps)
    moreover have "(10000 - e) mod 10000 = 10000 - e" using 6 by (intro mod_pos_pos_trivial) auto
    ultimately show ?thesis by (intro at [of 0 "10000 - e - ?r"]) (use 6 r in auto)
  qed
qed

text \<open>C8. When the two ends never own the air together. For ends with opposite duplex slots and the same
  estimate \<open>ETTM\<close> of the time a packet takes, whatever the distance of their clocks, no two packets they
  send in their slots overlap, at any moments at which neither clock rolls over, exactly when the
  estimate is positive and at most half a period and the clocks agree up to whole duplex periods; or when
  it is more than half a period and at most a whole one, where the end with the odd slot can never
  send. There is no tolerance: a gap of one microsecond gives a clash, and so do an estimate of zero and
  one above a period.\<close>
theorem duplex_transmissions_disjoint:
  assumes "EvenSlot b = (\<not> EvenSlot a)" and "ETTM b = ETTM a" and "ETTM a < 0x40000000" and "\<bar>g\<bar> < 0x40000000"
  shows "\<not> air_clash g a b \<longleftrightarrow>
    0 < ETTM a \<and> ETTM a \<le> HalfDuplexPeriodMicros \<and> g mod uint DuplexPeriodMicros = 0 \<or>
    HalfDuplexPeriodMicros < ETTM a \<and> ETTM a \<le> DuplexPeriodMicros"
proof -
  define e where "e = uint (ETTM a)"
  have e: "uint (ETTM a) = e" "uint (ETTM b) = e" "e < 0x40000000" "0 \<le> e"
    using assms(2,3) by (simp_all add: e_def word_less_def)
  have "air_clash g a b \<longleftrightarrow> e = 0 \<or> 10000 < e \<or> e \<le> 5000 \<and> g mod 10000 \<noteq> 0"
  proof (cases "EvenSlot a")
    case True
    with assms(1) have "\<not> EvenSlot b" by simp
    show ?thesis
      by (rule iffI [OF clash_only [OF True \<open>\<not> EvenSlot b\<close> e(1-3)] clash_some [OF True \<open>\<not> EvenSlot b\<close> e(1-3) assms(4)]])
  next
    case False
    then have b: "EvenSlot b" using assms(1) by simp
    have g: "\<bar>- g\<bar> < 0x40000000" "(- g) mod 10000 = 0 \<longleftrightarrow> g mod 10000 = 0"
      using assms(4) by (simp_all add: mod_eq_0_iff_dvd)
    have "air_clash (- g) b a \<longleftrightarrow> e = 0 \<or> 10000 < e \<or> e \<le> 5000 \<and> (- g) mod 10000 \<noteq> 0"
      by (rule iffI [OF clash_only [OF b False e(2,1,3)] clash_some [OF b False e(2,1,3) g(1)]])
    then show ?thesis unfolding air_clash_sym g(2) .
  qed
  then show ?thesis using e by (auto simp: duplex_consts word_less_def word_le_def less_le)
qed

theorem duplex_transmissions_disjoint_witness:
  "\<not> air_clash 20000 (Driver_new\<lparr>ETTM := 1000, EvenSlot := True\<rparr>) (Driver_new\<lparr>ETTM := 1000\<rparr>) \<and>
   air_clash 1 (Driver_new\<lparr>ETTM := 1000, EvenSlot := True\<rparr>) (Driver_new\<lparr>ETTM := 1000\<rparr>)"
  using duplex_transmissions_disjoint [of "Driver_new\<lparr>ETTM := 1000\<rparr>" "Driver_new\<lparr>ETTM := 1000, EvenSlot := True\<rparr>" 20000]
    duplex_transmissions_disjoint [of "Driver_new\<lparr>ETTM := 1000\<rparr>" "Driver_new\<lparr>ETTM := 1000, EvenSlot := True\<rparr>" 1]
  by (simp add: Driver_new_def duplex_consts)

text \<open>
  Every packet that \<open>a\<close> sends in its slot reaches \<open>b\<close> in its receive slot. The clock of \<open>b\<close> is \<open>g\<close> ahead, and
  \<open>IsInReceiveSlot\<close> is asked at any later moment with the (negative) offset back to the arrival.
\<close>

definition arrives_in_slot :: "int \<Rightarrow> Driver \<Rightarrow> Driver \<Rightarrow> bool" where
  "arrives_in_slot g a b \<longleftrightarrow> (\<forall>PA PB offset.
     let arrival = uint (Driver_GetSyncMicros PA a) + uint (ETTM a)
     in fst (Driver_IsInSendSlot PA a) \<and> arrival < 2 ^ 32 \<and>
        uint (Driver_GetSyncMicros PB b + offset) = arrival + g \<longrightarrow> fst (Driver_IsInReceiveSlot PB offset b))"

text \<open>The slots in terms of the phase of the arrival.\<close>

definition sends_at :: "bool \<Rightarrow> int \<Rightarrow> int \<Rightarrow> bool" where
  "sends_at evenSlot e p \<longleftrightarrow> (if evenSlot then p \<le> 5000 - e else 5000 \<le> p \<and> p \<le> 10000 - e)"

definition receives_at :: "bool \<Rightarrow> int \<Rightarrow> bool" where
  "receives_at evenSlot p \<longleftrightarrow> (if evenSlot then 5000 \<le> p else p \<le> 5000)"

lemma receive_times:
  "fst (Driver_IsInReceiveSlot P off d) = receives_at (EvenSlot d) (uint (Driver_GetSyncMicros P d + off) mod 10000)"
  by (simp add: Driver_IsInReceiveSlot_def duplex_consts Let_def word_le_def uint_mod receives_at_def)

lemma send_times:
  assumes "uint (Driver_GetSyncMicros P d) + uint (ETTM d) < 2 ^ 32" and "uint (ETTM d) \<le> 5000"
  shows "fst (Driver_IsInSendSlot P d) =
    sends_at (EvenSlot d) (uint (ETTM d)) ((uint (Driver_GetSyncMicros P d) + uint (ETTM d)) mod 10000)"
  using slot_times [OF assms(1)] assms(2) by (simp add: word_less_def sends_at_def Let_def)

lemma phases_meet:
  assumes "0 \<le> e" and "e \<le> 5000"
  shows "(\<forall>p. 0 \<le> p \<and> p < 10000 \<and> sends_at evenSlot e p \<longrightarrow> receives_at (\<not> evenSlot) ((p + g) mod 10000)) \<longleftrightarrow>
    g mod 10000 \<le> (if evenSlot then e else max 0 (e - 1))" (is "?all \<longleftrightarrow> ?near")
proof
  have r: "0 \<le> g mod 10000" "g mod 10000 < 10000" by simp_all
  assume all: ?all
  show ?near
  proof (cases evenSlot)
    case True
    with all [rule_format, of 0] all [rule_format, of 1] all [rule_format, of "5000 - e"] assms r
    show ?thesis by (simp add: sends_at_def receives_at_def mod_shift split: if_splits)
  next
    case False
    define p where "p = (if e = 0 then 9999 else 10000 - e)"
    have "0 \<le> p" "p < 10000" "sends_at evenSlot e p" using False assms by (simp_all add: p_def sends_at_def)
    then have "5000 \<le> (if p + g mod 10000 < 10000 then p + g mod 10000 else p + g mod 10000 - 10000)"
      using all False by (auto simp: receives_at_def mod_shift)
    moreover have "g mod 10000 < 5000"
      using all [rule_format, of 5000] False assms r by (simp add: sends_at_def receives_at_def mod_shift split: if_splits)
    ultimately have "p + g mod 10000 < 10000" using \<open>p < 10000\<close> by (simp split: if_splits)
    then show ?thesis using False assms r by (auto simp: p_def split: if_splits)
  qed
next
  have "0 \<le> g mod 10000" "g mod 10000 < 10000" by simp_all
  moreover assume ?near
  ultimately show ?all
    using assms by (auto simp: sends_at_def receives_at_def mod_shift max_def split: if_splits)
qed

lemma arrives_phases:
  assumes "EvenSlot b = (\<not> EvenSlot a)" and e: "uint (ETTM a) = e" "0 \<le> e" "e \<le> 5000" and g: "\<bar>g\<bar> < 0x40000000"
  shows "arrives_in_slot g a b \<longleftrightarrow> (\<forall>p. 0 \<le> p \<and> p < 10000 \<and> sends_at (EvenSlot a) e p \<longrightarrow>
    receives_at (EvenSlot b) ((p + g) mod 10000))" (is "_ \<longleftrightarrow> ?all")
proof
  assume all: "arrives_in_slot g a b"
  show ?all
  proof (intro allI impI)
    fix p assume p: "0 \<le> p \<and> p < 10000 \<and> sends_at (EvenSlot a) e p"
    obtain PA where A: "uint (Driver_GetSyncMicros PA a) = 2147500000 + p - e"
      by (rule some_moment_at [of "2147500000 + p - e" a]) (use p e in auto)
    obtain PB where B: "uint (Driver_GetSyncMicros PB b) = 2147500000 + (p + g)"
      by (rule some_moment_at [of "2147500000 + (p + g)" b]) (use p g in auto)
    have "fst (Driver_IsInReceiveSlot PB 0 b)"
      using all [unfolded arrives_in_slot_def Let_def, rule_format, of PA PB 0] send_times [of PA a] p e
      by (simp add: A B mod_middle)
    then show "receives_at (EvenSlot b) ((p + g) mod 10000)"
      using mod_middle [of "p + g"] by (simp add: receive_times B)
  qed
next
  assume all: ?all
  show "arrives_in_slot g a b"
    unfolding arrives_in_slot_def Let_def e(1)
  proof (intro allI impI, elim conjE)
    fix PA PB offset
    let ?x = "uint (Driver_GetSyncMicros PA a) + e"
    assume "fst (Driver_IsInSendSlot PA a)" "?x < 2 ^ 32" "uint (Driver_GetSyncMicros PB b + offset) = ?x + g"
    then show "fst (Driver_IsInReceiveSlot PB offset b)"
      using send_times [of PA a] e all [rule_format, of "?x mod 10000"] by (simp add: receive_times mod_add_left_eq)
  qed
qed

text \<open>C19. How far apart the clocks may be for a packet sent in the sender's slot to arrive in the receiver's:
  for ends with opposite slots and an estimate of at most half a period, every packet sent in its slot, at
  every moment at which the clock does not roll over, is inside the receiver's slot (and so not
  counted as a collision) exactly when the receiver's clock, up to whole duplex periods, is ahead of
  the sender's by no more than the transmission time: by up to \<open>ETTM\<close> if the sender has the even slot, by
  less than \<open>ETTM\<close> if it has the odd one. A receiver that is behind by a microsecond loses some.\<close>
theorem duplex_sent_in_slot_received_in_slot:
  assumes "EvenSlot b = (\<not> EvenSlot a)" and "ETTM a \<le> HalfDuplexPeriodMicros" and "\<bar>g\<bar> < 0x40000000"
  shows "arrives_in_slot g a b \<longleftrightarrow>
    g mod uint DuplexPeriodMicros \<le> (if EvenSlot a then uint (ETTM a) else max 0 (uint (ETTM a) - 1))"
  using arrives_phases [OF assms(1) refl _ _ assms(3)] phases_meet [of "uint (ETTM a)" "EvenSlot a" g] assms(1,2)
  by (simp add: duplex_consts word_le_def)

theorem duplex_sent_in_slot_received_in_slot_witness:
  "arrives_in_slot 1000 (Driver_new\<lparr>ETTM := 1000, EvenSlot := True\<rparr>) Driver_new \<and>
   \<not> arrives_in_slot 1001 (Driver_new\<lparr>ETTM := 1000, EvenSlot := True\<rparr>) Driver_new \<and>
   \<not> arrives_in_slot (- 1) (Driver_new\<lparr>ETTM := 1000, EvenSlot := True\<rparr>) Driver_new"
  using duplex_sent_in_slot_received_in_slot [of Driver_new "Driver_new\<lparr>ETTM := 1000, EvenSlot := True\<rparr>" 1000]
    duplex_sent_in_slot_received_in_slot [of Driver_new "Driver_new\<lparr>ETTM := 1000, EvenSlot := True\<rparr>" 1001]
    duplex_sent_in_slot_received_in_slot [of Driver_new "Driver_new\<lparr>ETTM := 1000, EvenSlot := True\<rparr>" "- 1"]
  by (simp add: Driver_new_def duplex_consts)

lemma word_mod_period_eq: "t mod 10000 = (5000 :: u32) \<longleftrightarrow> phase t = 5000"
  by (simp add: word_unat_eq_iff unat_mod_period)

text \<open>Outside that range of \<open>ETTM\<close> the slots are not exclusive. With \<open>ETTM = 0\<close> (what
  \<open>ResetLiveData\<close> leaves) both ends may send in the middle of the period, because both comparisons
  include it; above half a period the unsigned subtraction of \<open>IsInSendSlot\<close> wraps and the end with
  the even slot may send at every moment.\<close>
theorem duplex_exclusion_needs_ettm_in_range:
  "(EvenSlot b = (\<not> EvenSlot a) \<and> ETTM a = 0 \<and> ETTM b = 0 \<and>
      Driver_GetSyncMicros PB b = Driver_GetSyncMicros PA a \<longrightarrow>
      (fst (Driver_IsInSendSlot PA a) \<and> fst (Driver_IsInSendSlot PB b) \<longleftrightarrow>
       Driver_GetSyncMicros PA a mod DuplexPeriodMicros = HalfDuplexPeriodMicros)) \<and>
   (EvenSlot a \<and> HalfDuplexPeriodMicros < ETTM a \<and> ETTM a < 0x80000000 \<longrightarrow>
      fst (Driver_IsInSendSlot PA a))"
proof (intro conjI impI)
  assume "EvenSlot b = (\<not> EvenSlot a) \<and> ETTM a = 0 \<and> ETTM b = 0 \<and>
      Driver_GetSyncMicros PB b = Driver_GetSyncMicros PA a"
  then show "fst (Driver_IsInSendSlot PA a) \<and> fst (Driver_IsInSendSlot PB b) \<longleftrightarrow>
       Driver_GetSyncMicros PA a mod DuplexPeriodMicros = HalfDuplexPeriodMicros"
    using phase_less [of "Driver_GetSyncMicros PA a"]
    by (auto simp: send_slot_phase Let_def duplex_consts word_mod_period_eq)
next
  assume "EvenSlot a \<and> HalfDuplexPeriodMicros < ETTM a \<and> ETTM a < 0x80000000"
  then have e: "EvenSlot a" "5000 < unat (ETTM a)" "unat (ETTM a) < 0x80000000"
    by (simp_all add: duplex_consts word_less_nat_alt)
  then have "unat (5000 - ETTM a) = 2 ^ 32 + 5000 - unat (ETTM a)"
    by (simp add: unat_sub_if_size word_size)
  with e phase_less [of "Driver_GetSyncMicros PA a + ETTM a"]
  show "fst (Driver_IsInSendSlot PA a)"
    by (simp add: Driver_IsInSendSlot_def duplex_consts Let_def word_le_nat_alt unat_mod_period)
qed

theorem duplex_exclusion_needs_ettm_in_range_witness:
  "fst (Driver_IsInSendSlot sample_platform (Driver_new\<lparr>ETTM := 6000, EvenSlot := True\<rparr>)) \<and>
   fst (Driver_IsInSendSlot sample_platform
     (Driver_new\<lparr>EvenSlot := True, SyncedClock := Clock_new\<lparr>OffsetMicros := 5000\<rparr>\<rparr>))"
  using duplex_exclusion_needs_ettm_in_range
      [of Driver_new "Driver_new\<lparr>ETTM := 6000, EvenSlot := True\<rparr>" sample_platform sample_platform]
    duplex_exclusion_needs_ettm_in_range
      [of "Driver_new\<lparr>SyncedClock := Clock_new\<lparr>OffsetMicros := 5000\<rparr>\<rparr>"
        "Driver_new\<lparr>EvenSlot := True, SyncedClock := Clock_new\<lparr>OffsetMicros := 5000\<rparr>\<rparr>"
        sample_platform sample_platform]
  by (simp add: slot_eval)

end
