(* ===== verification/Driver_Node.thy ===== *)
theory Driver_Node
  imports Driver
begin

text \<open>
  \<open>src/src/PacketDriver/LoLaPacketDriver.h\<close>: what the driver does from its deferred actions,
  where it calls the services. A node is a state with a driver in it; the services are given
  by their handlers, functions on the whole node, because a handler may call the driver back.
\<close>

record node =
  drv :: Driver

definition on_drv :: "(Driver \<Rightarrow> Driver) \<Rightarrow> 'a node_scheme \<Rightarrow> 'a node_scheme" where
  "on_drv f w = w\<lparr>drv := f (drv w)\<rparr>"

definition on_drv_result :: "(Driver \<Rightarrow> 'b \<times> Driver) \<Rightarrow> 'a node_scheme \<Rightarrow> 'b \<times> 'a node_scheme" where
  "on_drv_result f w = (let (r, d) = f (drv w) in (r, w\<lparr>drv := d\<rparr>))"

record 'w handlers =
  h_ProcessPacket :: "platform \<Rightarrow> LoLaPacket \<Rightarrow> 'w \<Rightarrow> 'w"
  h_ProcessAckedPacket :: "platform \<Rightarrow> LoLaPacket \<Rightarrow> 'w \<Rightarrow> bool \<times> 'w"
  h_ProcessAck :: "platform \<Rightarrow> LoLaPacket \<Rightarrow> 'w \<Rightarrow> 'w"
  h_ProcessSent :: "platform \<Rightarrow> u8 \<Rightarrow> 'w \<Rightarrow> 'w"

section \<open>Incoming packets\<close>

text \<open>Every way out of \<open>ProcessIncoming\<close> but one ends with these two calls.\<close>

definition Driver_Release :: "Driver \<Rightarrow> Driver" where
  "Driver_Release d = Driver_EnableInterrupts (Driver_RestoreToReceiving d)"

text \<open>\<open>Decode\<close> in the receive buffer and look the header up, with C's short circuit.\<close>

definition Driver_DecodeIncoming :: "platform \<Rightarrow> Driver \<Rightarrow> bool \<times> Driver" where
  "Driver_DecodeIncoming P d =
     (let n = unat (PacketDefinition_GetContentSizeQuick (IncomingPacketSize d));
          (ok, content, e) = Encoder_Decode P (LoLaPacket_GetRawContent (IncomingPacket d)) n
            (LoLaPacket_GetMACCRC (IncomingPacket d)) (CryptoEncoder d);
          d1 = d\<lparr>CryptoEncoder := e, IncomingPacket := LoLaPacket_SetRawContent content (IncomingPacket d)\<rparr>
      in if \<not> ok then (False, d1)
         else
           let (known, p) = LoLaPacket_SetDefinition
             (PacketMap_GetDefinition (LoLaPacket_GetDataHeader (IncomingPacket d1)) (PacketMap d1))
             (IncomingPacket d1)
           in (known, d1\<lparr>IncomingPacket := p\<rparr>))"

definition Driver_CommitReceived :: "platform \<Rightarrow> Driver \<Rightarrow> Driver" where
  "Driver_CommitReceived P d =
     (let d1 = d\<lparr>LastValidReceivedMicros := LastReceivedMicros d,
                 LastValidReceivedRSSI := LastReceivedRSSI d, ReceivedCount := ReceivedCount d + 1\<rparr>;
          (collision, d2) = Driver_IsReceiveCollision P (LastValidReceivedMicros d1 - micros_now P) d1
      in if collision then d2\<lparr>TimingCollisionCount := TimingCollisionCount d2 + 1\<rparr> else d2)"

definition Driver_SendAck :: "platform \<Rightarrow> Driver \<Rightarrow> Driver" where
  "Driver_SendAck P d =
     (let header = (case Definition (IncomingPacket d) of Some def \<Rightarrow> Header def | None \<Rightarrow> 0);
          ack = snd (LoLaPacket_SetDefinition (AckDefinition d) (AckPacket d));
          ack1 = LoLaPacket_SetId (LoLaPacket_GetId (IncomingPacket d)) (LoLaPacket_SetPayload 0 [header] ack);
          d1 = fault_if (LOLA_PACKET_MIN_PACKET_SIZE \<le> LOLA_PACKET_PAYLOAD_INDEX) AckOverrun
                 (d\<lparr>AckPacket := ack1, DriverActiveState := SendingAck\<rparr>);
          (sent, d2) = Driver_SendPacket P ack1 d1
      in if sent then Driver_EnableInterrupts d2 else Driver_Release d2)"

definition Driver_Dispatch ::
  "platform \<Rightarrow> 'a node_scheme handlers \<Rightarrow> PacketDefinition \<Rightarrow> 'a node_scheme \<Rightarrow> 'a node_scheme" where
  "Driver_Dispatch P H def w =
     (let p = IncomingPacket (drv w)
      in if PacketDefinition_IsAck def then on_drv Driver_Release (h_ProcessAck H P p w)
         else if PacketDefinition_HasACK def then
           let (accepted, w1) = h_ProcessAckedPacket H P p w
           in if accepted then on_drv (Driver_SendAck P) w1 else on_drv Driver_Release w1
         else on_drv Driver_Release (h_ProcessPacket H P p w))"

definition Driver_ProcessIncoming ::
  "platform \<Rightarrow> 'a node_scheme handlers \<Rightarrow> 'a node_scheme \<Rightarrow> 'a node_scheme" where
  "Driver_ProcessIncoming P H w =
     (if DriverActiveState (drv w) \<noteq> AwaitingProcessing then on_drv Driver_Release w
      else
        let d1 = Driver_ReadReceived P ((drv w)\<lparr>DriverActiveState := ProcessingIncoming\<rparr>)
        in if unat (IncomingPacketSize d1) < LOLA_PACKET_MIN_PACKET_SIZE \<or>
              LOLA_PACKET_MAX_PACKET_SIZE < unat (IncomingPacketSize d1)
           then w\<lparr>drv := Driver_Release d1\<rparr>
           else
             let (ok, d2) = Driver_DecodeIncoming P d1
             in case (ok, Definition (IncomingPacket d2)) of
                  (True, Some def) \<Rightarrow> Driver_Dispatch P H def (w\<lparr>drv := Driver_CommitReceived P d2\<rparr>)
                | _ \<Rightarrow> w\<lparr>drv := Driver_Release (d2\<lparr>RejectedCount := RejectedCount d2 + 1\<rparr>)\<rparr>)"

section \<open>Deferred actions\<close>

definition Driver_ProcessSent ::
  "platform \<Rightarrow> 'a node_scheme handlers \<Rightarrow> u8 \<Rightarrow> 'a node_scheme \<Rightarrow> 'a node_scheme" where
  "Driver_ProcessSent P H header w = on_drv Driver_RestoreToReceiving (h_ProcessSent H P header w)"

definition Driver_OnAsyncAction ::
  "platform \<Rightarrow> 'a node_scheme handlers \<Rightarrow> u8 \<times> u8 \<Rightarrow> 'a node_scheme \<Rightarrow> 'a node_scheme" where
  "Driver_OnAsyncAction P H action w =
     (if fst action = ActionProcessIncomingPacket then Driver_ProcessIncoming P H w
      else if fst action = ActionProcessSentOk then Driver_ProcessSent P H (snd action) w
      else if fst action = ActionUpdatePower then on_drv (Driver_OnTransmitPowerUpdated P) w
      else if fst action = ActionUpdateChannel then on_drv (Driver_OnChannelUpdated P) w
      else if fst action = ActionAsyncRestore then on_drv Driver_OnAsyncRestore w
      else w)"

text \<open>
  One iteration of the action task. The event is out of the queue while its handler runs, and
  the task asks for the next iteration when the handler is done.
\<close>

definition Driver_AsyncCallback ::
  "platform \<Rightarrow> 'a node_scheme handlers \<Rightarrow> 'a node_scheme \<Rightarrow> bool \<times> 'a node_scheme" where
  "Driver_AsyncCallback P H w =
     (case ring_pull (ring_actions P) (EventQueue (CallbackHandler (drv w))) of
        None \<Rightarrow> (False, on_drv (\<lambda>d. d\<lparr>CallbackHandler := (CallbackHandler d)\<lparr>TaskEnabled := False\<rparr>\<rparr>) w)
      | Some (action, rest) \<Rightarrow>
          let w1 = on_drv (\<lambda>d. d\<lparr>CallbackHandler := (CallbackHandler d)\<lparr>EventQueue := rest\<rparr>\<rparr>) w;
              w2 = Driver_OnAsyncAction P H action w1
          in (True, on_drv (\<lambda>d. d\<lparr>CallbackHandler := (CallbackHandler d)\<lparr>TaskNextRun := RunASAP\<rparr>\<rparr>) w2))"

end
