(* ===== verification/Driver_Machine.thy ===== *)
theory Driver_Machine
  imports Driver_Node
begin

text \<open>
  The driver as a state machine: its invariant, what it asks of the handlers of the services
  (\<open>driver_services\<close>), and the steps a node can make, from the scheduler, the services and the
  radio interrupts.
\<close>

section \<open>What the radio chip was last told to do\<close>

fun radio_mode :: "radio_cmd list \<Rightarrow> radio_cmd option" where
  "radio_mode [] = None"
| "radio_mode (RadioPower p # log) = radio_mode log"
| "radio_mode (RadioTX bs n ch # log) = Some (RadioTX bs n ch)"
| "radio_mode (RadioRX ch # log) = Some (RadioRX ch)"

fun radio_channel :: "radio_cmd option \<Rightarrow> u8 option" where
  "radio_channel (Some (RadioTX bs n ch)) = Some ch"
| "radio_channel (Some (RadioRX ch)) = Some ch"
| "radio_channel _ = None"

fun is_receive :: "radio_cmd option \<Rightarrow> bool" where
  "is_receive (Some (RadioRX ch)) = True"
| "is_receive _ = False"

section \<open>Invariant\<close>

definition receive_states :: "DriverActiveStates set" where
  "receive_states = {ReadyForAnything, BlockedForIncoming, AwaitingProcessing, ProcessingIncoming}"

definition action_queue :: "Driver \<Rightarrow> (u8 \<times> u8) list" where
  "action_queue d = EventQueue (CallbackHandler d)"

definition actions_ok :: "platform \<Rightarrow> bool" where
  "actions_ok P \<longleftrightarrow> ring_ok 4 (ring_actions P)"

lemma actions_ok_sample [simp]: "actions_ok sample_platform"
  by (simp add: actions_ok_def)

definition Driver_inv :: "Driver \<Rightarrow> bool" where
  "Driver_inv d \<longleftrightarrow> length (action_queue d) \<le> 4 \<and>
     (\<not> ChannelPending d \<longrightarrow> LastChannel d = CurrentChannel d) \<and>
     (DriverActiveState d = ReadyForAnything \<longrightarrow> \<not> ChannelPending d) \<and>
     (DriverActiveState d \<in> receive_states \<longrightarrow> is_receive (radio_mode (RadioLog d))) \<and>
     (DriverActiveState d \<in> insert WaitingForTransmissionEnd receive_states \<longrightarrow>
        radio_channel (radio_mode (RadioLog d)) = Some (LastChannel d))"

text \<open>
  Only \<open>ProcessIncoming\<close> unmasks the radio interrupts, and only a radio interrupt queues it: while
  they are masked that action has to be in the queue.
\<close>

definition incoming_queued :: "Driver \<Rightarrow> bool" where
  "incoming_queued d \<longleftrightarrow> ActionProcessIncomingPacket \<in> fst ` set (action_queue d)"

definition irq_inv :: "Driver \<Rightarrow> bool" where
  "irq_inv d \<longleftrightarrow> (\<not> IrqEnabled d \<longrightarrow> incoming_queued d)"

lemma action_queue_update [simp]:
  "action_queue (d\<lparr>DriverActiveState := s\<rparr>) = action_queue d"
  "action_queue (d\<lparr>RadioLog := l\<rparr>) = action_queue d"
  "action_queue (d\<lparr>LastChannel := c\<rparr>) = action_queue d"
  "action_queue (d\<lparr>CurrentChannel := c\<rparr>) = action_queue d"
  "action_queue (d\<lparr>ChannelPending := b\<rparr>) = action_queue d"
  "action_queue (d\<lparr>IrqEnabled := b\<rparr>) = action_queue d"
  "action_queue (d\<lparr>LastPower := p\<rparr>) = action_queue d"
  "action_queue (d\<lparr>CurrentTransmitPower := p\<rparr>) = action_queue d"
  "action_queue (d\<lparr>TransmitPowerNormalized := p\<rparr>) = action_queue d"
  "action_queue (d\<lparr>AckPacket := a\<rparr>) = action_queue d"
  "action_queue (d\<lparr>IncomingPacket := a\<rparr>) = action_queue d"
  "action_queue (d\<lparr>IncomingPacketSize := n\<rparr>) = action_queue d"
  "action_queue (d\<lparr>MemoryFaults := m\<rparr>) = action_queue d"
  "action_queue (d\<lparr>SyncedClock := k\<rparr>) = action_queue d"
  "action_queue (d\<lparr>CryptoEncoder := e\<rparr>) = action_queue d"
  "action_queue (d\<lparr>DuplexElapsed := x\<rparr>) = action_queue d"
  "action_queue (d\<lparr>LastReceivedMicros := x\<rparr>) = action_queue d"
  "action_queue (d\<lparr>LastReceivedRSSI := w\<rparr>) = action_queue d"
  "action_queue (d\<lparr>LastSentMicros := x\<rparr>) = action_queue d"
  "action_queue (d\<lparr>LastSentHeader := h\<rparr>) = action_queue d"
  "action_queue (d\<lparr>OutgoingHeaderHelper := h\<rparr>) = action_queue d"
  "action_queue (d\<lparr>LastValidSentMicros := x\<rparr>) = action_queue d"
  "action_queue (d\<lparr>TransmitedCount := c64\<rparr>) = action_queue d"
  "action_queue (d\<lparr>RejectedCount := c64\<rparr>) = action_queue d"
  by (simp_all add: action_queue_def)

lemma ring_add_bounds:
  assumes "actions_ok P" and "length q \<le> 4"
  shows "length (ring_add_force (ring_actions P) a q) \<le> 4"
    and "set (ring_add_force (ring_actions P) a q) \<subseteq> insert a (set q)"
    and "length q < 4 \<Longrightarrow> set (ring_add_force (ring_actions P) a q) = insert a (set q)"
proof -
  have tl: "set (tl q) \<subseteq> set q" by (cases q) auto
  show "length (ring_add_force (ring_actions P) a q) \<le> 4"
    "set (ring_add_force (ring_actions P) a q) \<subseteq> insert a (set q)"
    "length q < 4 \<Longrightarrow> set (ring_add_force (ring_actions P) a q) = insert a (set q)"
    using assms tl by (auto simp: actions_ok_def)
qed

lemma Driver_new_inv [simp]: "Driver_inv Driver_new" "irq_inv Driver_new"
  by (simp_all add: Driver_inv_def irq_inv_def Driver_new_def receive_states_def action_queue_def AsyncQueue_new_def)

named_theorems driver_inv_intros \<open>operations that keep the driver invariant\<close>

lemmas driver_field_defs = Driver_AddAsyncAction_def Driver_DisableInterrupts_def
  Driver_EnableInterrupts_def Driver_SetRadioPower_def Driver_SetToReceiving_def fault_if_def

lemma RestoreToReceiving_inv [driver_inv_intros]:
  "length (action_queue d) \<le> 4 \<Longrightarrow> Driver_inv (Driver_RestoreToReceiving d)"
  by (simp add: Driver_inv_def Driver_RestoreToReceiving_def Driver_SetToReceiving_def receive_states_def)

lemma RestoreToReceiving_simps [simp]:
  "DriverActiveState (Driver_RestoreToReceiving d) = ReadyForAnything"
  "IrqEnabled (Driver_RestoreToReceiving d) = IrqEnabled d"
  "action_queue (Driver_RestoreToReceiving d) = action_queue d"
  by (simp_all add: Driver_RestoreToReceiving_def Driver_SetToReceiving_def)

lemma AddAsyncAction_inv [driver_inv_intros]:
  "actions_ok P \<Longrightarrow> Driver_inv d \<Longrightarrow> Driver_inv (Driver_AddAsyncAction P a e v d)"
  using ring_add_bounds(1) [of P "action_queue d" "(a, v)"]
  by (simp add: Driver_inv_def Driver_AddAsyncAction_def Async_AppendToQueue_def action_queue_def Let_def)

lemma action_queue_AddAsyncAction [simp]:
  "action_queue (Driver_AddAsyncAction P a e v d) = ring_add_force (ring_actions P) (a, v) (action_queue d)"
  by (simp add: Driver_AddAsyncAction_def Async_AppendToQueue_def action_queue_def Let_def)

lemma AddAsyncAction_simps [simp]:
  "DriverActiveState (Driver_AddAsyncAction P a e v d) = DriverActiveState d"
  "IrqEnabled (Driver_AddAsyncAction P a e v d) = IrqEnabled d"
  "ChannelPending (Driver_AddAsyncAction P a e v d) = ChannelPending d"
  "RadioLog (Driver_AddAsyncAction P a e v d) = RadioLog d"
  "LastChannel (Driver_AddAsyncAction P a e v d) = LastChannel d"
  "CurrentChannel (Driver_AddAsyncAction P a e v d) = CurrentChannel d"
  by (simp_all add: Driver_AddAsyncAction_def)

lemma Driver_inv_queue: "Driver_inv d \<Longrightarrow> length (action_queue d) \<le> 4"
  by (simp add: Driver_inv_def)

lemma Release_simps [simp]:
  "IrqEnabled (Driver_Release d)" "DriverActiveState (Driver_Release d) = ReadyForAnything"
  "action_queue (Driver_Release d) = action_queue d"
  by (simp_all add: Driver_Release_def Driver_EnableInterrupts_def)

lemma Release_inv [driver_inv_intros]:
  "length (action_queue d) \<le> 4 \<Longrightarrow> Driver_inv (Driver_Release d)"
  using RestoreToReceiving_inv [of d] by (simp add: Driver_Release_def Driver_EnableInterrupts_def Driver_inv_def)

lemma OnStart_inv [driver_inv_intros]: "Driver_inv d \<Longrightarrow> Driver_inv (Driver_OnStart P d)"
  unfolding Driver_OnStart_def by (rule RestoreToReceiving_inv) (simp add: Driver_inv_def)

lemma OnChannelUpdated_inv:
  assumes "actions_ok P" and "length (action_queue d) \<le> 4"
    and "DriverActiveState d = ReadyForAnything \<longrightarrow> \<not> ChannelPending d"
    and "DriverActiveState d \<in> receive_states \<longrightarrow> is_receive (radio_mode (RadioLog d))"
    and "DriverActiveState d \<in> insert WaitingForTransmissionEnd receive_states \<longrightarrow>
        radio_channel (radio_mode (RadioLog d)) = Some (LastChannel d)"
  shows "Driver_inv (Driver_OnChannelUpdated P d)"
  using assms ring_add_bounds(1) [OF assms(1,2)]
  by (simp add: Driver_OnChannelUpdated_def RestoreToReceiving_inv)
     (simp add: Driver_inv_def)

lemma SetChannel_inv [driver_inv_intros]:
  "actions_ok P \<Longrightarrow> Driver_inv d \<Longrightarrow> Driver_inv (Driver_SetChannel P c d)"
  unfolding Driver_SetChannel_def by (rule OnChannelUpdated_inv) (simp_all add: Driver_inv_def)

lemma OnChannelUpdated_keeps [driver_inv_intros]:
  "actions_ok P \<Longrightarrow> Driver_inv d \<Longrightarrow> Driver_inv (Driver_OnChannelUpdated P d)"
  by (rule OnChannelUpdated_inv) (simp_all add: Driver_inv_def)

lemma OnTransmitPowerUpdated_keeps [driver_inv_intros]:
  "actions_ok P \<Longrightarrow> Driver_inv d \<Longrightarrow> Driver_inv (Driver_OnTransmitPowerUpdated P d)"
  by (simp add: Driver_OnTransmitPowerUpdated_def AddAsyncAction_inv RestoreToReceiving_inv
      Driver_inv_queue Driver_SetRadioPower_def)

lemma SetTransmitPower_inv [driver_inv_intros]:
  "actions_ok P \<Longrightarrow> Driver_inv d \<Longrightarrow> Driver_inv (Driver_SetTransmitPower P p d)"
  unfolding Driver_SetTransmitPower_def
  by (rule OnTransmitPowerUpdated_keeps) (simp_all add: Driver_inv_def)

lemma OnAsyncRestore_inv [driver_inv_intros]:
  "length (action_queue d) \<le> 4 \<Longrightarrow> Driver_inv (Driver_OnAsyncRestore d)"
  by (simp add: Driver_OnAsyncRestore_def RestoreToReceiving_inv)

lemma AllowedSend_inv [driver_inv_intros]:
  "Driver_inv d \<Longrightarrow> Driver_inv (snd (Driver_AllowedSend P d))"
  by (simp add: Driver_AllowedSend_def Driver_IsInSendSlot_def Let_def Driver_inv_def)

text \<open>
  An operation is quiet when it leaves the interrupt mask alone and queues at most one action,
  never \<open>ProcessIncoming\<close>.
\<close>

definition quiet :: "platform \<Rightarrow> Driver \<Rightarrow> Driver \<Rightarrow> bool" where
  "quiet P d d' \<longleftrightarrow> IrqEnabled d' = IrqEnabled d \<and>
     (action_queue d' = action_queue d \<or>
      (\<exists>a v. a \<noteq> ActionProcessIncomingPacket \<and>
         action_queue d' = ring_add_force (ring_actions P) (a, v) (action_queue d)))"

lemma quiet_same [intro]:
  "IrqEnabled d' = IrqEnabled d \<Longrightarrow> action_queue d' = action_queue d \<Longrightarrow> quiet P d d'"
  by (simp add: quiet_def)

lemma quiet_add:
  "IrqEnabled d' = IrqEnabled d \<Longrightarrow> a \<noteq> ActionProcessIncomingPacket \<Longrightarrow>
    action_queue d' = ring_add_force (ring_actions P) (a, v) (action_queue d) \<Longrightarrow> quiet P d d'"
  by (auto simp: quiet_def)

lemma quiet_length:
  "actions_ok P \<Longrightarrow> quiet P d d' \<Longrightarrow> length (action_queue d) \<le> 4 \<Longrightarrow> length (action_queue d') \<le> 4"
  by (auto simp: quiet_def intro: ring_add_bounds(1))

lemma OnTransmitPowerUpdated_simps [simp]:
  "IrqEnabled (Driver_OnTransmitPowerUpdated P d) = IrqEnabled d"
  "DriverActiveState (Driver_OnTransmitPowerUpdated P d) = DriverActiveState d"
  by (simp_all add: Driver_OnTransmitPowerUpdated_def Driver_SetRadioPower_def)

lemma OnChannelUpdated_quiet: "quiet P d (Driver_OnChannelUpdated P d)"
  by (auto simp: Driver_OnChannelUpdated_def lola_consts
      intro: quiet_add [where a = ActionUpdateChannel and v = 0])

lemma OnTransmitPowerUpdated_quiet: "quiet P d (Driver_OnTransmitPowerUpdated P d)"
  by (auto simp: Driver_OnTransmitPowerUpdated_def Driver_SetRadioPower_def lola_consts
      intro: quiet_add [where a = ActionUpdatePower and v = 0])

lemma SetChannel_quiet: "quiet P d (Driver_SetChannel P c d)"
  using OnChannelUpdated_quiet [of P "d\<lparr>CurrentChannel := c\<rparr>"]
  by (simp add: quiet_def Driver_SetChannel_def)

lemma SetTransmitPower_quiet: "quiet P d (Driver_SetTransmitPower P p d)"
  using OnTransmitPowerUpdated_quiet [of P "d\<lparr>TransmitPowerNormalized := p, CurrentTransmitPower := t\<rparr>" for t]
  by (simp add: quiet_def Driver_SetTransmitPower_def)

lemma AllowedSend_quiet: "quiet P d (snd (Driver_AllowedSend P d))"
  by (auto simp: Driver_AllowedSend_def Driver_IsInSendSlot_def Let_def)

section \<open>Sending\<close>

lemma EncodeOutgoing_simps [simp]:
  "DriverActiveState (Driver_EncodeOutgoing P p def d) = DriverActiveState d"
  "IrqEnabled (Driver_EncodeOutgoing P p def d) = IrqEnabled d"
  "ChannelPending (Driver_EncodeOutgoing P p def d) = ChannelPending d"
  "LastChannel (Driver_EncodeOutgoing P p def d) = LastChannel d"
  "CurrentChannel (Driver_EncodeOutgoing P p def d) = CurrentChannel d"
  "RadioLog (Driver_EncodeOutgoing P p def d) = RadioLog d"
  "OutgoingHeaderHelper (Driver_EncodeOutgoing P p def d) = OutgoingHeaderHelper d"
  "OutgoingPacketSize (Driver_EncodeOutgoing P p def d) = PacketDefinition_GetTotalSize def"
  "IncomingPacket (Driver_EncodeOutgoing P p def d) = IncomingPacket d"
  "action_queue (Driver_EncodeOutgoing P p def d) = action_queue d"
  by (simp_all add: Driver_EncodeOutgoing_def fault_if_def action_queue_def Let_def split: prod.split)

text \<open>
  What \<open>SendPacket\<close> does, seen from outside: refused before anything happens, accepted by the
  chip, or refused by the chip.
\<close>

lemma SendPacket_cases:
  obtains (refused) "Driver_SendPacket P p d = (False, d)"
      "Definition p = None \<or> ChannelPending d \<or>
        DriverActiveState d \<noteq> ReadyForAnything \<and> DriverActiveState d \<noteq> SendingAck"
  | (sent) def d2 where "Definition p = Some def" "\<not> ChannelPending d"
      "DriverActiveState d = ReadyForAnything \<or> DriverActiveState d = SendingAck"
      "d2 = Driver_EncodeOutgoing P p def (d\<lparr>DriverActiveState := SendingOutgoing,
          OutgoingHeaderHelper := LoLaPacket_GetDataHeader p\<rparr>)"
      "Driver_SendPacket P p d = (True, (Driver_OnTransmitted P (OutgoingHeaderHelper d2)
          (snd (Driver_Transmit P d2)))\<lparr>DriverActiveState := WaitingForTransmissionEnd\<rparr>)"
  | (failed) def d2 d3 where "Definition p = Some def" "\<not> ChannelPending d"
      "DriverActiveState d = ReadyForAnything \<or> DriverActiveState d = SendingAck"
      "d2 = Driver_EncodeOutgoing P p def (d\<lparr>DriverActiveState := SendingOutgoing,
          OutgoingHeaderHelper := LoLaPacket_GetDataHeader p\<rparr>)"
      "d3 = d2 \<or> d3 = snd (Driver_Transmit P d2)"
      "Driver_SendPacket P p d = (False, Driver_AddAsyncAction P ActionAsyncRestore True 0 d3)"
proof (cases "Definition p")
  case None
  then show thesis by (intro refused) (simp_all add: Driver_SendPacket_def)
next
  case (Some def)
  show thesis
  proof (cases "ChannelPending d \<or> DriverActiveState d \<noteq> ReadyForAnything \<and> DriverActiveState d \<noteq> SendingAck")
    case True
    then show thesis using Some by (intro refused) (auto simp: Driver_SendPacket_def)
  next
    case False
    let ?d2 = "Driver_EncodeOutgoing P p def (d\<lparr>DriverActiveState := SendingOutgoing,
          OutgoingHeaderHelper := LoLaPacket_GetDataHeader p\<rparr>)"
    show thesis
    proof (cases "0 < OutgoingPacketSize ?d2 \<and> fst (Driver_Transmit P ?d2)")
      case True
      then show thesis using Some False
        by (intro sent [of def ?d2]) (auto simp: Driver_SendPacket_def Let_def Driver_Transmit_def)
    next
      case nosend: False
      show thesis
      proof (rule failed [of def ?d2 "if 0 < OutgoingPacketSize ?d2 then snd (Driver_Transmit P ?d2) else ?d2"])
        show "Driver_SendPacket P p d = (False, Driver_AddAsyncAction P ActionAsyncRestore True 0
            (if 0 < OutgoingPacketSize ?d2 then snd (Driver_Transmit P ?d2) else ?d2))"
          using Some False nosend by (auto simp: Driver_SendPacket_def Let_def Driver_Transmit_def)
      qed (use Some False in auto)
    qed
  qed
qed

lemma Transmit_simps [simp]:
  "IrqEnabled (snd (Driver_Transmit P d)) = IrqEnabled d"
  "DriverActiveState (snd (Driver_Transmit P d)) = DriverActiveState d"
  "ChannelPending (snd (Driver_Transmit P d)) = ChannelPending d"
  "LastChannel (snd (Driver_Transmit P d)) = LastChannel d"
  "CurrentChannel (snd (Driver_Transmit P d)) = CurrentChannel d"
  "action_queue (snd (Driver_Transmit P d)) = action_queue d"
  "radio_mode (RadioLog (snd (Driver_Transmit P d))) =
     Some (RadioTX (take (unat (OutgoingPacketSize d)) (Raw (OutgoingPacket d))) (OutgoingPacketSize d) (CurrentChannel d))"
  by (simp_all add: Driver_Transmit_def)

lemma OnTransmitted_simps [simp]:
  "IrqEnabled (Driver_OnTransmitted P h d) = IrqEnabled d"
  "DriverActiveState (Driver_OnTransmitted P h d) = DriverActiveState d"
  by (simp_all add: Driver_OnTransmitted_def)

lemma OnTransmitted_quiet: "quiet P d (Driver_OnTransmitted P h d)"
  using OnTransmitPowerUpdated_quiet [of P "d\<lparr>LastSentMicros := micros_now P, LastSentHeader := h,
      LastChannel := CurrentChannel d\<rparr>"]
  by (simp add: quiet_def Driver_OnTransmitted_def)

lemma OnTransmitted_channel:
  assumes "DriverActiveState d \<noteq> ReadyForAnything"
  shows "ChannelPending (Driver_OnTransmitted P h d) = ChannelPending d"
    "LastChannel (Driver_OnTransmitted P h d) = CurrentChannel d"
    "CurrentChannel (Driver_OnTransmitted P h d) = CurrentChannel d"
    "RadioLog (Driver_OnTransmitted P h d) = RadioLog d"
  using assms by (simp_all add: Driver_OnTransmitted_def Driver_OnTransmitPowerUpdated_def)

lemma SendPacket_quiet: "quiet P d (snd (Driver_SendPacket P p d))"
proof (cases rule: SendPacket_cases [of P p d])
  case refused
  then show ?thesis by (simp add: quiet_same)
next
  case (sent def d2)
  have "action_queue (snd (Driver_Transmit P d2)) = action_queue d"
    "IrqEnabled (snd (Driver_Transmit P d2)) = IrqEnabled d"
    by (simp_all add: sent(4))
  then show ?thesis
    using OnTransmitted_quiet [of P "snd (Driver_Transmit P d2)" "OutgoingHeaderHelper d2"]
    by (simp add: sent(5) quiet_def)
next
  case (failed def d2 d3)
  have "action_queue d3 = action_queue d" "IrqEnabled d3 = IrqEnabled d"
    using failed(5) by (elim disjE; simp add: failed(4))+
  then show ?thesis
    by (intro quiet_add [where a = ActionAsyncRestore and v = 0]) (simp_all add: failed(6) lola_consts)
qed

lemma SendPacket_inv [driver_inv_intros]:
  assumes P: "actions_ok P" and d: "Driver_inv d"
  shows "Driver_inv (snd (Driver_SendPacket P p d))"
proof -
  note len = quiet_length [OF P SendPacket_quiet Driver_inv_queue [OF d], of p]
  show ?thesis
  proof (cases rule: SendPacket_cases [of P p d])
    case refused
    with d show ?thesis by simp
  next
    case (sent def d2)
    then have "DriverActiveState (snd (Driver_Transmit P d2)) \<noteq> ReadyForAnything" by simp
    note ch = OnTransmitted_channel [OF this]
    show ?thesis using len
      by (simp only: sent(5) snd_conv) (simp add: Driver_inv_def ch receive_states_def)
  next
    case (failed def d2 d3)
    have "DriverActiveState d3 = SendingOutgoing" "\<not> ChannelPending d3"
      "LastChannel d3 = LastChannel d" "CurrentChannel d3 = CurrentChannel d"
      using failed(5) by (elim disjE; simp add: failed(2,4))+
    moreover have "LastChannel d = CurrentChannel d" using d failed(2) by (simp add: Driver_inv_def)
    ultimately show ?thesis using len by (simp add: failed(6) Driver_inv_def receive_states_def)
  qed
qed

text \<open>Where a send leaves the driver, and that it never touches the interrupt mask.\<close>

lemma SendPacket_state:
  "DriverActiveState (snd (Driver_SendPacket P p d)) =
    (if fst (Driver_SendPacket P p d) then WaitingForTransmissionEnd
     else if Driver_SendPacket P p d = (False, d) then DriverActiveState d else SendingOutgoing)"
  "IrqEnabled (snd (Driver_SendPacket P p d)) = IrqEnabled d"
  by (cases rule: SendPacket_cases [of P p d]; auto)+

section \<open>Radio interrupts\<close>

lemma OnIncoming_inv [driver_inv_intros]: "Driver_inv d \<Longrightarrow> Driver_inv (Driver_OnIncoming P r d)"
  by (auto simp: Driver_OnIncoming_def Driver_inv_def receive_states_def Let_def)

lemma OnReceiveBegin_inv [driver_inv_intros]:
  assumes P: "actions_ok P" and d: "Driver_inv d"
  shows "Driver_inv (Driver_OnReceiveBegin P n r d)"
proof (cases "DriverActiveState d = BlockedForIncoming")
  case True
  then have "Driver_inv ((Driver_DisableInterrupts d)\<lparr>DriverActiveState := AwaitingProcessing,
      IncomingPacketSize := n, LastReceivedRSSI := x\<rparr>)" for x
    using d by (simp add: Driver_inv_def Driver_DisableInterrupts_def receive_states_def)
  then show ?thesis using True by (simp add: Driver_OnReceiveBegin_def AddAsyncAction_inv [OF P])
next
  case False
  then show ?thesis by (simp add: Driver_OnReceiveBegin_def AddAsyncAction_inv [OF P d])
qed

lemma OnReceivedFail_inv [driver_inv_intros]:
  "actions_ok P \<Longrightarrow> Driver_inv d \<Longrightarrow> Driver_inv (Driver_OnReceivedFail P d)"
  by (simp add: Driver_OnReceivedFail_def AddAsyncAction_inv)

lemma OnSentOk_inv [driver_inv_intros]:
  "actions_ok P \<Longrightarrow> Driver_inv d \<Longrightarrow> Driver_inv (Driver_OnSentOk P d)"
  using ring_add_bounds(1) [of P "action_queue d"]
  by (auto simp: Driver_OnSentOk_def Driver_inv_def)

lemma OnBatteryAlarm_inv [driver_inv_intros]:
  "actions_ok P \<Longrightarrow> Driver_inv d \<Longrightarrow> Driver_inv (Driver_OnBatteryAlarm P d)"
  by (simp add: Driver_OnBatteryAlarm_def AddAsyncAction_inv)

section \<open>Processing an incoming packet\<close>

lemma drv_on_drv [simp]: "drv (on_drv f w) = f (drv w)"
  by (simp add: on_drv_def)

lemma SendAck_result:
  shows "IrqEnabled (Driver_SendAck P d)"
    and "DriverActiveState (Driver_SendAck P d) \<in> {ReadyForAnything, WaitingForTransmissionEnd}"
proof -
  have "IrqEnabled (if fst r then Driver_EnableInterrupts (snd r) else Driver_Release (snd r))" for r :: "bool \<times> Driver"
    by (simp add: Driver_EnableInterrupts_def)
  then show "IrqEnabled (Driver_SendAck P d)"
    by (simp add: Driver_SendAck_def Let_def case_prod_unfold)
  show "DriverActiveState (Driver_SendAck P d) \<in> {ReadyForAnything, WaitingForTransmissionEnd}"
    by (simp add: Driver_SendAck_def Let_def case_prod_unfold Driver_EnableInterrupts_def SendPacket_state)
qed

lemma SendAck_inv [driver_inv_intros]:
  assumes P: "actions_ok P" and d: "Driver_inv d"
  shows "Driver_inv (Driver_SendAck P d)"
proof -
  have "Driver_inv (fault_if b AckOverrun (d\<lparr>AckPacket := a, DriverActiveState := SendingAck\<rparr>))" for a b
    using d by (simp add: Driver_inv_def fault_if_def receive_states_def)
  note sent = SendPacket_inv [OF P this]
  have "Driver_inv (if c then Driver_EnableInterrupts d' else Driver_Release d')" if "Driver_inv d'" for c d'
    using that Release_inv [of d'] by (simp add: Driver_inv_def Driver_EnableInterrupts_def)
  note * = this [OF sent]
  show ?thesis
    unfolding Driver_SendAck_def Let_def case_prod_unfold by (rule *)
qed

lemma Dispatch_result:
  "IrqEnabled (drv (Driver_Dispatch P H def w)) \<and>
   DriverActiveState (drv (Driver_Dispatch P H def w)) \<in> {ReadyForAnything, WaitingForTransmissionEnd}"
proof -
  consider "PacketDefinition_IsAck def" | "\<not> PacketDefinition_IsAck def" "PacketDefinition_HasACK def"
      "fst (h_ProcessAckedPacket H P (IncomingPacket (drv w)) w)"
    | "\<not> PacketDefinition_IsAck def" "PacketDefinition_HasACK def"
      "\<not> fst (h_ProcessAckedPacket H P (IncomingPacket (drv w)) w)"
    | "\<not> PacketDefinition_IsAck def" "\<not> PacketDefinition_HasACK def" by blast
  then show ?thesis
    by cases (use SendAck_result in \<open>auto simp: Driver_Dispatch_def Let_def case_prod_unfold\<close>)
qed

lemma ProcessIncoming_result:
  "IrqEnabled (drv (Driver_ProcessIncoming P H w))"
  "DriverActiveState (drv (Driver_ProcessIncoming P H w)) \<in> {ReadyForAnything, WaitingForTransmissionEnd}"
proof -
  have "IrqEnabled (drv (Driver_ProcessIncoming P H w)) \<and>
    DriverActiveState (drv (Driver_ProcessIncoming P H w)) \<in> {ReadyForAnything, WaitingForTransmissionEnd}"
    unfolding Driver_ProcessIncoming_def Let_def case_prod_unfold
    by (simp only: split: if_split bool.split option.split prod.split) (use Dispatch_result in auto)
  then show "IrqEnabled (drv (Driver_ProcessIncoming P H w))"
    "DriverActiveState (drv (Driver_ProcessIncoming P H w)) \<in> {ReadyForAnything, WaitingForTransmissionEnd}"
    by blast+
qed

text \<open>C16. The radio is never left deaf: whatever \<open>ProcessIncoming\<close> does with a packet, and whatever
  the services' handlers do, it ends with the radio interrupts enabled and the driver either
  ready or waiting for the end of the acknowledgement it has just sent.\<close>
theorem process_incoming_reopens_radio:
  "IrqEnabled (drv (Driver_ProcessIncoming P H w)) \<and>
   DriverActiveState (drv (Driver_ProcessIncoming P H w)) \<in> {ReadyForAnything, WaitingForTransmissionEnd}"
  using ProcessIncoming_result by blast

section \<open>Services that leave the driver's invariant alone\<close>

text \<open>
  What the driver asks of the handlers it calls: they use the driver through its operations
  only, so its invariant survives, and being told that a packet was sent does not make them call it.
\<close>

locale driver_services =
  fixes H :: "'a node_scheme handlers"
  assumes packet_inv: "actions_ok P \<Longrightarrow> Driver_inv (drv w) \<Longrightarrow> Driver_inv (drv (h_ProcessPacket H P p w))"
    and acked_inv: "actions_ok P \<Longrightarrow> Driver_inv (drv w) \<Longrightarrow>
      Driver_inv (drv (snd (h_ProcessAckedPacket H P p w)))"
    and ack_inv: "actions_ok P \<Longrightarrow> Driver_inv (drv w) \<Longrightarrow> Driver_inv (drv (h_ProcessAck H P p w))"
    and sent_frame: "drv (h_ProcessSent H P h w) = drv w"
begin

lemma Dispatch_inv:
  assumes P: "actions_ok P" and w: "Driver_inv (drv w)"
  shows "Driver_inv (drv (Driver_Dispatch P H def w))"
proof -
  note q = Driver_inv_queue [OF packet_inv [OF P w]] Driver_inv_queue [OF ack_inv [OF P w]]
    Driver_inv_queue [OF acked_inv [OF P w]]
  show ?thesis
    using SendAck_inv [OF P acked_inv [OF P w]] Release_inv [OF q(1)] Release_inv [OF q(2)]
      Release_inv [OF q(3)]
    by (simp add: Driver_Dispatch_def Let_def case_prod_unfold)
qed

end

lemma CommitReceived_frame:
  "DriverActiveState (Driver_CommitReceived P d) = DriverActiveState d"
  "ChannelPending (Driver_CommitReceived P d) = ChannelPending d"
  "LastChannel (Driver_CommitReceived P d) = LastChannel d"
  "CurrentChannel (Driver_CommitReceived P d) = CurrentChannel d"
  "RadioLog (Driver_CommitReceived P d) = RadioLog d"
  "IncomingPacket (Driver_CommitReceived P d) = IncomingPacket d"
  "action_queue (Driver_CommitReceived P d) = action_queue d"
  by (simp_all add: Driver_CommitReceived_def Driver_IsReceiveCollision_def Driver_IsInReceiveSlot_def
      Let_def case_prod_unfold action_queue_def)

lemma DecodeIncoming_frame:
  "DriverActiveState (snd (Driver_DecodeIncoming P d)) = DriverActiveState d"
  "ChannelPending (snd (Driver_DecodeIncoming P d)) = ChannelPending d"
  "LastChannel (snd (Driver_DecodeIncoming P d)) = LastChannel d"
  "CurrentChannel (snd (Driver_DecodeIncoming P d)) = CurrentChannel d"
  "RadioLog (snd (Driver_DecodeIncoming P d)) = RadioLog d"
  "action_queue (snd (Driver_DecodeIncoming P d)) = action_queue d"
  by (simp_all add: Driver_DecodeIncoming_def Let_def case_prod_unfold action_queue_def)

lemma ReadReceived_frame:
  "DriverActiveState (Driver_ReadReceived P d) = DriverActiveState d"
  "ChannelPending (Driver_ReadReceived P d) = ChannelPending d"
  "LastChannel (Driver_ReadReceived P d) = LastChannel d"
  "CurrentChannel (Driver_ReadReceived P d) = CurrentChannel d"
  "RadioLog (Driver_ReadReceived P d) = RadioLog d"
  "action_queue (Driver_ReadReceived P d) = action_queue d"
  by (simp_all add: Driver_ReadReceived_def fault_if_def Let_def)

lemma received_inv:
  assumes "Driver_inv d" and "DriverActiveState d = AwaitingProcessing"
  shows "Driver_inv (Driver_CommitReceived P (snd (Driver_DecodeIncoming P
    (Driver_ReadReceived P (d\<lparr>DriverActiveState := ProcessingIncoming\<rparr>)))))"
  using assms
  by (simp add: Driver_inv_def CommitReceived_frame DecodeIncoming_frame ReadReceived_frame
      receive_states_def)

context driver_services begin

lemma ProcessIncoming_inv:
  assumes P: "actions_ok P" and w: "Driver_inv (drv w)"
  shows "Driver_inv (drv (Driver_ProcessIncoming P H w))"
proof (cases "DriverActiveState (drv w) = AwaitingProcessing")
  case True
  note disp = Dispatch_inv [OF P, of "w\<lparr>drv := Driver_CommitReceived P (snd (Driver_DecodeIncoming P
        (Driver_ReadReceived P ((drv w)\<lparr>DriverActiveState := ProcessingIncoming\<rparr>))))\<rparr>"]
  show ?thesis
    using disp received_inv [OF w True] Driver_inv_queue [OF w] True
    by (simp add: Driver_ProcessIncoming_def Let_def case_prod_unfold Release_inv
        DecodeIncoming_frame ReadReceived_frame split: option.split bool.split)
next
  case False
  then show ?thesis using Driver_inv_queue [OF w] by (simp add: Driver_ProcessIncoming_def Release_inv)
qed

lemma OnAsyncAction_inv:
  assumes P: "actions_ok P" and w: "Driver_inv (drv w)"
  shows "Driver_inv (drv (Driver_OnAsyncAction P H a w))"
  using Driver_inv_queue [OF w] ProcessIncoming_inv [OF P w] w P
  by (simp add: Driver_OnAsyncAction_def Driver_ProcessSent_def driver_inv_intros sent_frame)

lemma AsyncCallback_inv:
  assumes P: "actions_ok P" and w: "Driver_inv (drv w)"
  shows "Driver_inv (drv (snd (Driver_AsyncCallback P H w)))"
proof -
  have pull: "ring_pull (ring_actions P) (action_queue (drv w)) =
      (case action_queue (drv w) of [] \<Rightarrow> None | x # xs \<Rightarrow> Some (x, xs))"
    using P Driver_inv_queue [OF w] by (simp add: actions_ok_def)
  have inv_cb: "Driver_inv (d\<lparr>CallbackHandler := c\<rparr>)"
    if "Driver_inv d" "length (EventQueue c) \<le> 4" for d c
    using that by (simp add: Driver_inv_def action_queue_def)
  show ?thesis
  proof (cases "action_queue (drv w)")
    case Nil
    then show ?thesis using pull w inv_cb [OF w, of "c" for c]
      by (simp add: Driver_AsyncCallback_def action_queue_def)
  next
    case (Cons x xs)
    then have "length xs \<le> 4" using Driver_inv_queue [OF w] by simp
    then have "Driver_inv (drv (on_drv (\<lambda>d. d\<lparr>CallbackHandler := (CallbackHandler d)\<lparr>EventQueue := xs\<rparr>\<rparr>) w))"
      using inv_cb [OF w] by simp
    note after = OnAsyncAction_inv [OF P this]
    show ?thesis
      using pull Cons inv_cb [OF after] Driver_inv_queue [OF after]
      by (simp add: Driver_AsyncCallback_def action_queue_def Let_def)
  qed
qed

end

section \<open>Steps of a node\<close>

text \<open>
  What can happen to a driver between two runs of its action task: the manager or the link
  service starts it, a service calls one of its operations or changes the encoder, the clock, the
  map or the statistics it has a pointer to, the radio interrupts it, or the services change state
  of their own. Each step sees its own platform.
\<close>

inductive env_step :: "'a node_scheme \<Rightarrow> 'a node_scheme \<Rightarrow> bool" where
  enable: "actions_ok P \<Longrightarrow> env_step w (on_drv (Driver_Enable P) w)"
| set_channel: "actions_ok P \<Longrightarrow> env_step w (on_drv (Driver_SetChannel P c) w)"
| set_power: "actions_ok P \<Longrightarrow> env_step w (on_drv (Driver_SetTransmitPower P p) w)"
| allowed_send: "env_step w (on_drv (\<lambda>d. snd (Driver_AllowedSend P d)) w)"
| send: "actions_ok P \<Longrightarrow> env_step w (on_drv (\<lambda>d. snd (Driver_SendPacket P packet d)) w)"
| link: "env_step w (on_drv (Driver_SetLinkStatus b) w)"
| ettm: "env_step w (on_drv (Driver_SetETTM e) w)"
| slot: "env_step w (on_drv (Driver_SetDuplexSlot b) w)"
| reset: "env_step w (on_drv Driver_ResetLiveData w)"
| encoder: "env_step w (on_drv (\<lambda>d. d\<lparr>CryptoEncoder := c\<rparr>) w)"
| clock: "env_step w (on_drv (\<lambda>d. d\<lparr>SyncedClock := k\<rparr>) w)"
| packet_map: "env_step w (on_drv (\<lambda>d. d\<lparr>PacketMap := m\<rparr>) w)"
| battery: "actions_ok P \<Longrightarrow> env_step w (on_drv (Driver_OnBatteryAlarm P) w)"
| incoming: "IrqEnabled (drv w) \<Longrightarrow> env_step w (on_drv (Driver_OnIncoming P r) w)"
| receive_begin: "actions_ok P \<Longrightarrow> IrqEnabled (drv w) \<Longrightarrow> env_step w (on_drv (Driver_OnReceiveBegin P n r) w)"
| receive_fail: "actions_ok P \<Longrightarrow> IrqEnabled (drv w) \<Longrightarrow> env_step w (on_drv (Driver_OnReceivedFail P) w)"
| sent_ok: "actions_ok P \<Longrightarrow> IrqEnabled (drv w) \<Longrightarrow> env_step w (on_drv (Driver_OnSentOk P) w)"
| services: "drv w' = drv w \<Longrightarrow> env_step w w'"

text \<open>
  Runs that give the action task a turn before the queue fills: \<open>room\<close> bounds the actions that
  may be pending when something else happens. The queue holds four, so \<open>room = 5\<close> is no bound.
\<close>

inductive node_reach :: "nat \<Rightarrow> 'a node_scheme handlers \<Rightarrow> 'a node_scheme \<Rightarrow> 'a node_scheme \<Rightarrow> bool"
  for room H w0 where
  start: "node_reach room H w0 w0"
| task: "node_reach room H w0 w \<Longrightarrow> actions_ok P \<Longrightarrow>
    node_reach room H w0 (snd (Driver_AsyncCallback P H w))"
| env: "node_reach room H w0 w \<Longrightarrow> length (action_queue (drv w)) < room \<Longrightarrow> env_step w w' \<Longrightarrow>
    node_reach room H w0 w'"

lemma env_step_inv:
  assumes "env_step w w'" and "Driver_inv (drv w)"
  shows "Driver_inv (drv w')"
  using assms
proof (cases rule: env_step.cases)
  case enable
  with assms(2) show ?thesis by (simp add: Driver_Enable_def OnStart_inv)
qed (use assms(2) in \<open>simp_all add: driver_inv_intros\<close>,
     simp_all add: Driver_inv_def Driver_SetLinkStatus_def Driver_SetETTM_def Driver_SetDuplexSlot_def
       Driver_ResetLiveData_def Driver_ResetStatistics_def action_queue_def)

context driver_services begin

lemma reach_inv:
  assumes "node_reach room H w0 w" and "Driver_inv (drv w0)"
  shows "Driver_inv (drv w)"
  using assms by induction (auto intro: AsyncCallback_inv env_step_inv)

end

text \<open>What a step of the environment does to the mask and to the pending incoming action.\<close>

lemma quiet_irq_inv:
  assumes "quiet P d d'" and "actions_ok P" and "length (action_queue d) < 4" and "irq_inv d"
  shows "irq_inv d'"
  using assms ring_add_bounds(3) [OF assms(2), of "action_queue d"]
  by (auto simp: quiet_def irq_inv_def incoming_queued_def)

lemma incoming_not_added:
  assumes "actions_ok P" and "length q \<le> 4" and "a \<noteq> ActionProcessIncomingPacket"
    and "ActionProcessIncomingPacket \<in> fst ` set (ring_add_force (ring_actions P) (a, v) q)"
  shows "ActionProcessIncomingPacket \<in> fst ` set q"
proof -
  have "fst ` set (ring_add_force (ring_actions P) (a, v) q) \<subseteq> insert a (fst ` set q)"
    using image_mono [OF ring_add_bounds(2) [OF assms(1,2), of "(a, v)"], of fst] by simp
  with assms(3,4) show ?thesis by blast
qed

lemma quiet_deaf:
  assumes "quiet P d d'" and "actions_ok P" and "length (action_queue d) \<le> 4"
    and "\<not> IrqEnabled d" and "\<not> incoming_queued d"
  shows "\<not> IrqEnabled d' \<and> \<not> incoming_queued d'"
  using assms(1) unfolding quiet_def
proof (elim conjE disjE exE)
  assume "IrqEnabled d' = IrqEnabled d" "action_queue d' = action_queue d"
  with assms show ?thesis by (simp add: incoming_queued_def)
next
  fix a v
  assume "IrqEnabled d' = IrqEnabled d" "a \<noteq> ActionProcessIncomingPacket"
    "action_queue d' = ring_add_force (ring_actions P) (a, v) (action_queue d)"
  with assms incoming_not_added [OF assms(2,3), of a v] show ?thesis
    by (auto simp only: incoming_queued_def)
qed

lemma env_step_quiet:
  assumes "env_step w w'" and "\<not> IrqEnabled (drv w)"
  shows "\<exists>P. actions_ok P \<and> quiet P (drv w) (drv w') \<or> quiet P (drv w) (drv w') \<and>
    action_queue (drv w') = action_queue (drv w)"
  using assms
proof (cases rule: env_step.cases)
  case (enable P)
  have "quiet P (drv w) (drv w')" by (simp add: enable Driver_Enable_def Driver_OnStart_def quiet_same)
  with enable show ?thesis by blast
next
  case (set_channel P c)
  then show ?thesis using SetChannel_quiet by fastforce
next
  case (set_power P p)
  then show ?thesis using SetTransmitPower_quiet by fastforce
next
  case (send P packet)
  then show ?thesis using SendPacket_quiet by fastforce
next
  case (battery P)
  have "quiet P (drv w) (drv w')"
    by (rule quiet_add [where a = ActionProcessBatteryAlarm and v = 0])
       (simp_all add: battery Driver_OnBatteryAlarm_def lola_consts)
  with battery show ?thesis by blast
qed (use assms(2) in \<open>auto simp: quiet_def Driver_AllowedSend_def Driver_IsInSendSlot_def Let_def
      Driver_SetLinkStatus_def Driver_SetETTM_def Driver_SetDuplexSlot_def Driver_ResetLiveData_def
      Driver_ResetStatistics_def action_queue_def\<close>)

lemma AsyncCallback_cases [consumes 2, case_names idle run]:
  assumes "actions_ok P" and "length (action_queue (drv w)) \<le> 4"
  obtains (idle) "action_queue (drv w) = []"
      "drv (snd (Driver_AsyncCallback P H w)) =
        (drv w)\<lparr>CallbackHandler := (CallbackHandler (drv w))\<lparr>TaskEnabled := False\<rparr>\<rparr>"
  | (run) a rest w1 where "action_queue (drv w) = a # rest"
      "w1 = on_drv (\<lambda>d. d\<lparr>CallbackHandler := (CallbackHandler d)\<lparr>EventQueue := rest\<rparr>\<rparr>) w"
      "drv (snd (Driver_AsyncCallback P H w)) = (let d = drv (Driver_OnAsyncAction P H a w1)
         in d\<lparr>CallbackHandler := (CallbackHandler d)\<lparr>TaskNextRun := RunASAP\<rparr>\<rparr>)"
proof (cases "action_queue (drv w)")
  case Nil
  with assms show thesis
    by (intro idle) (simp_all add: Driver_AsyncCallback_def actions_ok_def action_queue_def)
next
  case (Cons a rest)
  with assms show thesis
    by (intro run) (simp_all add: Driver_AsyncCallback_def actions_ok_def action_queue_def Let_def)
qed

context driver_services begin

lemma OnAsyncAction_quiet:
  assumes "fst a \<noteq> ActionProcessIncomingPacket"
  shows "quiet P (drv w) (drv (Driver_OnAsyncAction P H a w))"
  using assms OnChannelUpdated_quiet OnTransmitPowerUpdated_quiet
  by (simp add: Driver_OnAsyncAction_def Driver_ProcessSent_def sent_frame quiet_same
      Driver_OnAsyncRestore_def)

lemma AsyncCallback_irq_inv:
  assumes P: "actions_ok P" and w: "Driver_inv (drv w)" and irq: "irq_inv (drv w)"
  shows "irq_inv (drv (snd (Driver_AsyncCallback P H w)))"
using P Driver_inv_queue [OF w]
proof (cases rule: AsyncCallback_cases [where H = H])
  case idle
  with irq show ?thesis by (simp add: irq_inv_def incoming_queued_def action_queue_def)
next
  case (run a rest w1)
  have same: "irq_inv (drv (snd (Driver_AsyncCallback P H w))) = irq_inv (drv (Driver_OnAsyncAction P H a w1))"
    by (simp add: run(3) Let_def irq_inv_def incoming_queued_def action_queue_def)
  show ?thesis
  proof (cases "fst a = ActionProcessIncomingPacket")
    case True
    then show ?thesis
      unfolding same using ProcessIncoming_result(1) [of P H w1]
      by (simp add: Driver_OnAsyncAction_def irq_inv_def)
  next
    case False
    then have "irq_inv (drv w1)"
      using irq run(1) by (auto simp: run(2) irq_inv_def incoming_queued_def action_queue_def)
    moreover have "length (action_queue (drv w1)) < 4"
      using Driver_inv_queue [OF w] run(1) by (simp add: run(2) action_queue_def)
    ultimately show ?thesis
      unfolding same using quiet_irq_inv [OF OnAsyncAction_quiet [OF False] P] by blast
  qed
qed

lemma AsyncCallback_deaf:
  assumes P: "actions_ok P" and w: "Driver_inv (drv w)"
    and off: "\<not> IrqEnabled (drv w)" and gone: "\<not> incoming_queued (drv w)"
  shows "\<not> IrqEnabled (drv (snd (Driver_AsyncCallback P H w))) \<and>
    \<not> incoming_queued (drv (snd (Driver_AsyncCallback P H w)))"
using P Driver_inv_queue [OF w]
proof (cases rule: AsyncCallback_cases [where H = H])
  case idle
  with off show ?thesis by (simp add: incoming_queued_def action_queue_def)
next
  case (run a rest w1)
  have a: "fst a \<noteq> ActionProcessIncomingPacket"
    using gone run(1) by (auto simp: incoming_queued_def)
  have "\<not> IrqEnabled (drv w1)" "\<not> incoming_queued (drv w1)" "length (action_queue (drv w1)) \<le> 4"
    using off gone run(1) Driver_inv_queue [OF w]
    by (auto simp: run(2) incoming_queued_def action_queue_def)
  with quiet_deaf [OF OnAsyncAction_quiet [OF a] P]
  have "\<not> IrqEnabled (drv (Driver_OnAsyncAction P H a w1)) \<and>
      \<not> incoming_queued (drv (Driver_OnAsyncAction P H a w1))" by blast
  then show ?thesis by (simp add: run(3) Let_def incoming_queued_def action_queue_def)
qed

end

lemma env_step_irq_inv:
  assumes step: "env_step w w'" and w: "Driver_inv (drv w)" "irq_inv (drv w)"
    and room: "length (action_queue (drv w)) < 4"
  shows "irq_inv (drv w')"
proof (cases "IrqEnabled (drv w)")
  case False
  from env_step_quiet [OF step this] obtain P where "quiet P (drv w) (drv w')"
    "actions_ok P \<or> action_queue (drv w') = action_queue (drv w)" by blast
  then show ?thesis
    using quiet_irq_inv [of P "drv w" "drv w'"] w room
    by (auto simp: quiet_def irq_inv_def incoming_queued_def)
next
  case True
  from step show ?thesis
  proof (cases rule: env_step.cases)
    case (receive_begin P n r)
    have "ActionProcessIncomingPacket \<in>
        fst ` set (ring_add_force (ring_actions P) (ActionProcessIncomingPacket, 0) (action_queue (drv w)))"
      using ring_add_bounds(3) [OF receive_begin(2)] room by (auto simp: image_iff)
    then show ?thesis
      using True by (simp add: receive_begin(1) irq_inv_def incoming_queued_def
        Driver_OnReceiveBegin_def Driver_DisableInterrupts_def)
  qed (use True w in \<open>simp_all add: irq_inv_def\<close>,
       use True in \<open>simp_all add: Driver_Enable_def Driver_OnStart_def Driver_SetLinkStatus_def
         Driver_SetETTM_def Driver_SetDuplexSlot_def Driver_ResetLiveData_def Driver_ResetStatistics_def
         Driver_OnIncoming_def Driver_OnReceivedFail_def Driver_OnSentOk_def Driver_OnBatteryAlarm_def
         Driver_SetChannel_def Driver_SetTransmitPower_def Driver_OnChannelUpdated_def
         Driver_AllowedSend_def Driver_IsInSendSlot_def SendPacket_state Let_def\<close>)
qed

lemma env_step_deaf:
  assumes step: "env_step w w'" and w: "Driver_inv (drv w)"
    and deaf: "\<not> IrqEnabled (drv w)" "\<not> incoming_queued (drv w)"
  shows "\<not> IrqEnabled (drv w') \<and> \<not> incoming_queued (drv w')"
proof -
  from env_step_quiet [OF step deaf(1)] obtain P where "quiet P (drv w) (drv w')"
    "actions_ok P \<or> action_queue (drv w') = action_queue (drv w)" by blast
  then show ?thesis
    using quiet_deaf [of P "drv w" "drv w'", OF _ _ Driver_inv_queue [OF w] deaf] deaf
    by (auto simp: quiet_def incoming_queued_def)
qed

context driver_services begin

lemma reach_irq_inv:
  assumes "node_reach 4 H w0 w" and w0: "Driver_inv (drv w0)" "irq_inv (drv w0)"
  shows "irq_inv (drv w)"
  using assms(1)
proof induction
  case start
  then show ?case using w0 by simp
next
  case (task w P)
  then show ?case using AsyncCallback_irq_inv reach_inv w0(1) by blast
next
  case (env w w')
  then show ?case using env_step_irq_inv reach_inv w0(1) by blast
qed

lemma reach_deaf:
  assumes "node_reach room H w0 w" and w0: "Driver_inv (drv w0)"
    and "\<not> IrqEnabled (drv w0)" "\<not> incoming_queued (drv w0)"
  shows "\<not> IrqEnabled (drv w) \<and> \<not> incoming_queued (drv w)"
  using assms(1)
proof induction
  case start
  then show ?case using assms by simp
next
  case (task w P)
  then show ?case using AsyncCallback_deaf reach_inv w0 by blast
next
  case (env w w')
  then show ?case using env_step_deaf reach_inv w0 by blast
qed

end

end
