(* ===== verification/Service.thy ===== *)
theory Service
  imports Driver_Machine
begin

text \<open>
  \<open>src/src/Services/ILoLaService.h\<close>: the base of every service. A service object is a node (its
  driver pointer) with the fields of the class chain below; what the class leaves virtual comes
  as a record of functions. Of the scheduler's task only what the service last asked is kept:
  whether it is enabled and when it wants to run next.
\<close>

definition LOLA_SERVICE_DEFAULT_PERIOD_MILLIS :: u32 where
  [lola_consts]: "LOLA_SERVICE_DEFAULT_PERIOD_MILLIS = 500"

definition LOLA_SERVICE_HOUR_PERIOD_MILLIS :: u32 where
  [lola_consts]: "LOLA_SERVICE_HOUR_PERIOD_MILLIS = 3600000"

definition LOLA_SERVICE_LONG_SLEEP_PERIOD_MILLIS :: u32 where
  [lola_consts]: "LOLA_SERVICE_LONG_SLEEP_PERIOD_MILLIS = 30000"

datatype ServiceStateBasic = Loading | Failed | Active

record ILoLaService = node +
  ServiceState :: ServiceStateBasic
  DefaultPeriod :: u16
  ServiceEnabled :: bool
  ServiceNextRun :: next_run

text \<open>The driver a service was given, or none, together with its packet map.\<close>

definition Service_InitializeState :: "bool \<Rightarrow> 'a ILoLaService_scheme \<Rightarrow> 'a ILoLaService_scheme" where
  "Service_InitializeState hasDriver s = s\<lparr>ServiceState := (if hasDriver then Loading else Failed)\<rparr>"

definition Service_construct :: "u16 \<Rightarrow> bool \<Rightarrow> 'a ILoLaService_scheme \<Rightarrow> 'a ILoLaService_scheme" where
  "Service_construct defaultPeriod hasDriver s =
     Service_InitializeState hasDriver
       (s\<lparr>DefaultPeriod := max 1 defaultPeriod, ServiceEnabled := False\<rparr>)"

definition Service_construct_default :: "bool \<Rightarrow> 'a ILoLaService_scheme \<Rightarrow> 'a ILoLaService_scheme" where
  "Service_construct_default hasDriver s =
     Service_InitializeState hasDriver
       (s\<lparr>DefaultPeriod := ucast LOLA_SERVICE_DEFAULT_PERIOD_MILLIS, ServiceEnabled := False\<rparr>)"

section \<open>Scheduling\<close>

definition Service_SetNextRunDefault :: "'a ILoLaService_scheme \<Rightarrow> 'a ILoLaService_scheme" where
  "Service_SetNextRunDefault s = s\<lparr>ServiceNextRun := RunAfter (ucast (DefaultPeriod s))\<rparr>"

definition Service_SetNextRunLong :: "'a ILoLaService_scheme \<Rightarrow> 'a ILoLaService_scheme" where
  "Service_SetNextRunLong s = s\<lparr>ServiceNextRun := RunAfter LOLA_SERVICE_HOUR_PERIOD_MILLIS\<rparr>"

definition Service_SetNextRunDelay :: "u32 \<Rightarrow> 'a ILoLaService_scheme \<Rightarrow> 'a ILoLaService_scheme" where
  "Service_SetNextRunDelay duration s = s\<lparr>ServiceNextRun := RunAfter duration\<rparr>"

definition Service_SetNextRunASAP :: "'a ILoLaService_scheme \<Rightarrow> 'a ILoLaService_scheme" where
  "Service_SetNextRunASAP s = s\<lparr>ServiceNextRun := RunASAP\<rparr>"

text \<open>
  \<open>enableIfNot\<close> asks \<open>OnEnable\<close> when the task is not enabled yet; \<open>Disable\<close> calls \<open>OnDisable\<close>
  itself and then disables the task, which calls it once more if the task was enabled.
\<close>

definition Service_Enable ::
  "('a ILoLaService_scheme \<Rightarrow> bool \<times> 'a ILoLaService_scheme) \<Rightarrow>
   'a ILoLaService_scheme \<Rightarrow> 'a ILoLaService_scheme" where
  "Service_Enable onEnable s =
     (if ServiceEnabled s then s
      else let (ok, s1) = onEnable (s\<lparr>ServiceEnabled := True\<rparr>) in s1\<lparr>ServiceEnabled := ok\<rparr>)"

definition Service_Disable ::
  "('a ILoLaService_scheme \<Rightarrow> 'a ILoLaService_scheme) \<Rightarrow>
   'a ILoLaService_scheme \<Rightarrow> 'a ILoLaService_scheme" where
  "Service_Disable onDisable s =
     (let s1 = onDisable s
      in if ServiceEnabled s1 then onDisable (s1\<lparr>ServiceEnabled := False\<rparr>) else s1)"

section \<open>Set-up\<close>

text \<open>
  \<open>OnAddPacketMap\<close> registers the definitions of the service with the driver's map; a header
  outside the table makes it \<open>None\<close>, as \<open>AddMapping\<close> does.
\<close>

definition Service_IsSetupOk :: "'a ILoLaService_scheme \<Rightarrow> bool" where
  "Service_IsSetupOk s \<longleftrightarrow> ServiceState s = Active"

definition Service_Setup ::
  "('a ILoLaService_scheme \<Rightarrow> bool \<times> 'a ILoLaService_scheme) \<Rightarrow>
   'a ILoLaService_scheme \<Rightarrow> bool \<times> 'a ILoLaService_scheme" where
  "Service_Setup onSetup s =
     (if ServiceState s \<noteq> Failed then
        let (ok, s1) = onSetup (s\<lparr>ServiceState := Loading\<rparr>)
        in if ok then (True, s1\<lparr>ServiceState := Active\<rparr>) else (False, s1\<lparr>ServiceState := Failed\<rparr>)
      else (False, s))"

definition Service_Init ::
  "('a ILoLaService_scheme \<Rightarrow> (bool \<times> 'a ILoLaService_scheme) option) \<Rightarrow>
   ('a ILoLaService_scheme \<Rightarrow> bool \<times> 'a ILoLaService_scheme) \<Rightarrow>
   'a ILoLaService_scheme \<Rightarrow> (bool \<times> 'a ILoLaService_scheme) option" where
  "Service_Init onAddPacketMap onSetup s =
     (case onAddPacketMap s of
        None \<Rightarrow> None
      | Some (False, s1) \<Rightarrow> Some (False, s1\<lparr>ServiceState := Failed\<rparr>)
      | Some (True, s1) \<Rightarrow>
          (case Service_Setup onSetup s1 of
             (True, s2) \<Rightarrow> Some (True, s2)
           | (False, s2) \<Rightarrow> Some (False, s2\<lparr>ServiceState := Failed\<rparr>)))"

definition Service_AddMappings ::
  "PacketDefinition list \<Rightarrow> 'a ILoLaService_scheme \<Rightarrow> (bool \<times> 'a ILoLaService_scheme) option" where
  "Service_AddMappings ds s =
     (case register_all PacketMap_AddMapping ds (PacketMap (drv s)) of
        None \<Rightarrow> None
      | Some (ok, m) \<Rightarrow> Some (ok, on_drv (\<lambda>d. d\<lparr>PacketMap := m\<rparr>) s))"

section \<open>Driver calls and received packets\<close>

definition Service_AllowedSend :: "platform \<Rightarrow> 'a ILoLaService_scheme \<Rightarrow> bool \<times> 'a ILoLaService_scheme" where
  "Service_AllowedSend P s = on_drv_result (Driver_AllowedSend P) s"

definition Service_SendPacket ::
  "platform \<Rightarrow> LoLaPacket \<Rightarrow> 'a ILoLaService_scheme \<Rightarrow> bool \<times> 'a ILoLaService_scheme" where
  "Service_SendPacket P outgoingPacket s = on_drv_result (Driver_SendPacket P outgoingPacket) s"

definition Service_ShouldProcessReceived :: "'a ILoLaService_scheme \<Rightarrow> bool" where
  "Service_ShouldProcessReceived s \<longleftrightarrow> Service_IsSetupOk s \<and> Driver_HasLink (drv s)"

definition Service_ReceivedPacket ::
  "('a ILoLaService_scheme \<Rightarrow> bool) \<Rightarrow> (platform \<Rightarrow> LoLaPacket \<Rightarrow> 'a ILoLaService_scheme \<Rightarrow> bool \<times> 'a ILoLaService_scheme) \<Rightarrow>
   platform \<Rightarrow> LoLaPacket \<Rightarrow> 'a ILoLaService_scheme \<Rightarrow> bool \<times> 'a ILoLaService_scheme" where
  "Service_ReceivedPacket should processPacket P incomingPacket s =
     (if should s then processPacket P incomingPacket s else (False, s))"

definition Service_ReceivedAckedPacket ::
  "('a ILoLaService_scheme \<Rightarrow> bool) \<Rightarrow> (platform \<Rightarrow> LoLaPacket \<Rightarrow> 'a ILoLaService_scheme \<Rightarrow> bool \<times> 'a ILoLaService_scheme) \<Rightarrow>
   platform \<Rightarrow> LoLaPacket \<Rightarrow> 'a ILoLaService_scheme \<Rightarrow> bool \<times> 'a ILoLaService_scheme" where
  "Service_ReceivedAckedPacket should processAckedPacket P incomingPacket s =
     (if should s then processAckedPacket P incomingPacket s else (False, s))"

definition Service_ReceivedAck ::
  "('a ILoLaService_scheme \<Rightarrow> bool) \<Rightarrow> (platform \<Rightarrow> u8 \<Rightarrow> u8 \<Rightarrow> 'a ILoLaService_scheme \<Rightarrow> bool \<times> 'a ILoLaService_scheme) \<Rightarrow>
   platform \<Rightarrow> u8 \<Rightarrow> u8 \<Rightarrow> 'a ILoLaService_scheme \<Rightarrow> bool \<times> 'a ILoLaService_scheme" where
  "Service_ReceivedAck should processAck P header i s =
     (if should s then processAck P header i s else (False, s))"

lemma Service_schedule_frame [simp]:
  "drv (Service_SetNextRunDefault s) = drv s"
  "drv (Service_SetNextRunLong s) = drv s"
  "drv (Service_SetNextRunDelay n s) = drv s"
  "drv (Service_SetNextRunASAP s) = drv s"
  "ServiceState (Service_SetNextRunDelay n s) = ServiceState s"
  "ServiceState (Service_SetNextRunASAP s) = ServiceState s"
  "ServiceEnabled (Service_SetNextRunDelay n s) = ServiceEnabled s"
  "ServiceEnabled (Service_SetNextRunASAP s) = ServiceEnabled s"
  by (simp_all add: Service_SetNextRunDefault_def Service_SetNextRunLong_def
      Service_SetNextRunDelay_def Service_SetNextRunASAP_def)

end
