(* ===== verification/Services_Manager.thy ===== *)
theory Services_Manager
  imports Service
begin

text \<open>
  \<open>src/src/Services/LoLaServicesManager.h\<close>: the table of services, asked in the order they
  were added until one of them takes the packet. What the manager calls of a service object is
  the record \<open>service\<close>; it is given over the node's whole state, in which each service has its
  own fields.
\<close>

record 'w service =
  srv_Init :: "'w \<Rightarrow> (bool \<times> 'w) option"
  srv_ReceivedPacket :: "platform \<Rightarrow> LoLaPacket \<Rightarrow> 'w \<Rightarrow> bool \<times> 'w"
  srv_ReceivedAckedPacket :: "platform \<Rightarrow> LoLaPacket \<Rightarrow> 'w \<Rightarrow> bool \<times> 'w"
  srv_ReceivedAck :: "platform \<Rightarrow> u8 \<Rightarrow> u8 \<Rightarrow> 'w \<Rightarrow> bool \<times> 'w"
  srv_ProcessSent :: "platform \<Rightarrow> u8 \<Rightarrow> 'w \<Rightarrow> bool \<times> 'w"
  srv_OnLinkEstablished :: "platform \<Rightarrow> 'w \<Rightarrow> 'w"
  srv_OnLinkLost :: "platform \<Rightarrow> 'w \<Rightarrow> 'w"

definition MAX_RADIO_SERVICES_COUNT :: nat where
  [lola_consts]: "MAX_RADIO_SERVICES_COUNT = 10"

record 'w LoLaServicesManager =
  Services :: "'w service option list"
  ServicesCount :: u8

definition Manager_new :: "'w LoLaServicesManager" where
  "Manager_new = \<lparr> Services = replicate MAX_RADIO_SERVICES_COUNT None, ServicesCount = 0 \<rparr>"

text \<open>The loops of the manager: the first \<open>ServicesCount\<close> entries, null pointers skipped.\<close>

definition Manager_table :: "'w LoLaServicesManager \<Rightarrow> 'w service list" where
  "Manager_table M = List.map_filter id (take (unat (ServicesCount M)) (Services M))"

fun first_taker :: "('s \<Rightarrow> 'w \<Rightarrow> bool \<times> 'w) \<Rightarrow> 's list \<Rightarrow> 'w \<Rightarrow> bool \<times> 'w" where
  "first_taker f [] w = (False, w)"
| "first_taker f (s # ss) w = (let (taken, w1) = f s w in if taken then (True, w1) else first_taker f ss w1)"

definition Manager_ProcessPacket ::
  "platform \<Rightarrow> 'w LoLaServicesManager \<Rightarrow> LoLaPacket \<Rightarrow> 'w \<Rightarrow> 'w" where
  "Manager_ProcessPacket P M receivedPacket w =
     snd (first_taker (\<lambda>s. srv_ReceivedPacket s P receivedPacket) (Manager_table M) w)"

definition Manager_ProcessAckedPacket ::
  "platform \<Rightarrow> 'w LoLaServicesManager \<Rightarrow> LoLaPacket \<Rightarrow> 'w \<Rightarrow> bool \<times> 'w" where
  "Manager_ProcessAckedPacket P M receivedPacket w =
     first_taker (\<lambda>s. srv_ReceivedAckedPacket s P receivedPacket) (Manager_table M) w"

definition Manager_ProcessSent :: "platform \<Rightarrow> 'w LoLaServicesManager \<Rightarrow> u8 \<Rightarrow> 'w \<Rightarrow> 'w" where
  "Manager_ProcessSent P M header w =
     (if header \<noteq> PACKET_DEFINITION_ACK_HEADER
      then snd (first_taker (\<lambda>s. srv_ProcessSent s P header) (Manager_table M) w) else w)"

definition Manager_ProcessAck :: "platform \<Rightarrow> 'w LoLaServicesManager \<Rightarrow> LoLaPacket \<Rightarrow> 'w \<Rightarrow> 'w" where
  "Manager_ProcessAck P M receivedPacket w =
     snd (first_taker (\<lambda>s. srv_ReceivedAck s P (LoLaPacket_GetPayload receivedPacket ! 0)
       (LoLaPacket_GetId receivedPacket)) (Manager_table M) w)"

definition Manager_NotifyServicesLinkUpdated ::
  "platform \<Rightarrow> 'w LoLaServicesManager \<Rightarrow> bool \<Rightarrow> 'w \<Rightarrow> 'w" where
  "Manager_NotifyServicesLinkUpdated P M connected w =
     fold (\<lambda>s. if connected then srv_OnLinkEstablished s P else srv_OnLinkLost s P) (Manager_table M) w"

definition Manager_Get :: "nat \<Rightarrow> 'w LoLaServicesManager \<Rightarrow> 'w service option" where
  "Manager_Get index M =
     (if unat (ServicesCount M) \<le> index \<or> MAX_RADIO_SERVICES_COUNT \<le> index then None
      else Services M ! index)"

definition Manager_GetCount :: "'w LoLaServicesManager \<Rightarrow> u8" where
  "Manager_GetCount M = ServicesCount M"

definition Manager_Add ::
  "'w service option \<Rightarrow> 'w LoLaServicesManager \<Rightarrow> 'w \<Rightarrow> (bool \<times> 'w LoLaServicesManager \<times> 'w) option" where
  "Manager_Add service M w =
     (case service of
        None \<Rightarrow> Some (False, M, w)
      | Some s \<Rightarrow>
          if MAX_RADIO_SERVICES_COUNT \<le> unat (ServicesCount M) then Some (False, M, w)
          else (case srv_Init s w of
                  None \<Rightarrow> None
                | Some (False, w1) \<Rightarrow> Some (False, M, w1)
                | Some (True, w1) \<Rightarrow> Some (True,
                    M\<lparr>Services := (Services M)[unat (ServicesCount M) := Some s],
                      ServicesCount := ServicesCount M + 1\<rparr>, w1)))"

text \<open>The handlers the driver calls are the manager's.\<close>

definition Manager_handlers :: "'a node_scheme LoLaServicesManager \<Rightarrow> 'a node_scheme handlers" where
  "Manager_handlers M = \<lparr> h_ProcessPacket = \<lambda>P. Manager_ProcessPacket P M,
     h_ProcessAckedPacket = \<lambda>P. Manager_ProcessAckedPacket P M,
     h_ProcessAck = \<lambda>P. Manager_ProcessAck P M,
     h_ProcessSent = \<lambda>P. Manager_ProcessSent P M \<rparr>"

section \<open>The table\<close>

definition Manager_ok :: "'w LoLaServicesManager \<Rightarrow> bool" where
  "Manager_ok M \<longleftrightarrow> length (Services M) = MAX_RADIO_SERVICES_COUNT \<and>
     unat (ServicesCount M) \<le> MAX_RADIO_SERVICES_COUNT \<and>
     (\<forall>i < MAX_RADIO_SERVICES_COUNT. Services M ! i \<noteq> None \<longleftrightarrow> i < unat (ServicesCount M))"

lemma Manager_new_ok [simp]: "Manager_ok Manager_new" "Manager_table Manager_new = []"
  by (simp_all add: Manager_ok_def Manager_new_def Manager_table_def map_filter_simps)

lemma Manager_Add_ok:
  assumes M: "Manager_ok M" and add: "Manager_Add (Some s) M w = Some (True, M', w')"
  shows "Manager_ok M'" and "Manager_table M' = Manager_table M @ [s]"
    and "Manager_GetCount M' = Manager_GetCount M + 1"
proof -
  from add have lt: "unat (ServicesCount M) < MAX_RADIO_SERVICES_COUNT"
    and M': "M' = M\<lparr>Services := (Services M)[unat (ServicesCount M) := Some s],
      ServicesCount := ServicesCount M + 1\<rparr>"
    by (auto simp: Manager_Add_def split: if_splits option.splits bool.splits)
  then have suc: "unat (ServicesCount M + 1) = Suc (unat (ServicesCount M))"
    by (simp add: unat_word_ariths lola_consts)
  show "Manager_ok M'" using M lt suc by (auto simp: Manager_ok_def M' nth_list_update)
  show "Manager_table M' = Manager_table M @ [s]"
    using M lt suc
    by (simp add: Manager_table_def M' Manager_ok_def take_Suc_conv_app_nth map_filter_def)
  show "Manager_GetCount M' = Manager_GetCount M + 1" by (simp add: M' Manager_GetCount_def)
qed

section \<open>Asking the services in turn\<close>

lemma first_taker_keeps:
  assumes "\<And>s w. s \<in> set ss \<Longrightarrow> I w \<Longrightarrow> I (snd (f s w))" and "I w"
  shows "I (snd (first_taker f ss w))"
  using assms
proof (induction ss arbitrary: w)
  case Nil
  then show ?case by simp
next
  case (Cons s ss)
  have "I (snd (f s w))" using Cons.prems by simp
  with Cons show ?case by (simp add: case_prod_unfold Let_def)
qed

lemma first_taker_skips:
  "(\<forall>s \<in> set ss1. f s w = (False, w)) \<Longrightarrow> f s w = (True, w') \<Longrightarrow>
    first_taker f (ss1 @ s # ss2) w = (True, w')"
  by (induction ss1) simp_all

lemma first_taker_none:
  "(\<forall>s \<in> set ss. f s w = (False, w)) \<Longrightarrow> first_taker f ss w = (False, w)"
  by (induction ss) simp_all

section \<open>Services that use the driver through its operations\<close>

text \<open>
  What a service on the table promises; a manager whose services all keep it gives the driver
  handlers that keep its invariant.
\<close>

locale node_service =
  fixes S :: "'a node_scheme service"
  assumes packet: "actions_ok P \<Longrightarrow> Driver_inv (drv w) \<Longrightarrow> Driver_inv (drv (snd (srv_ReceivedPacket S P p w)))"
    and acked: "actions_ok P \<Longrightarrow> Driver_inv (drv w) \<Longrightarrow>
      Driver_inv (drv (snd (srv_ReceivedAckedPacket S P p w)))"
    and ack: "actions_ok P \<Longrightarrow> Driver_inv (drv w) \<Longrightarrow>
      Driver_inv (drv (snd (srv_ReceivedAck S P h i w)))"
    and sent: "drv (snd (srv_ProcessSent S P h w)) = drv w"

lemma Manager_handlers_services:
  assumes "\<forall>S \<in> set (Manager_table M). node_service S"
  shows "driver_services (Manager_handlers M)"
proof
  fix P :: platform and w :: "'a node_scheme" and p :: LoLaPacket and h :: u8
  have keep: "Driver_inv (drv (snd (first_taker f (Manager_table M) w)))"
    if "\<And>S w. S \<in> set (Manager_table M) \<Longrightarrow> Driver_inv (drv w) \<Longrightarrow> Driver_inv (drv (snd (f S w)))"
      "Driver_inv (drv w)" for f
    by (rule first_taker_keeps [where I = "\<lambda>w. Driver_inv (drv w)"]) (use that in auto)
  have same: "drv (snd (first_taker f (Manager_table M) w)) = drv w"
    if "\<And>S w. S \<in> set (Manager_table M) \<Longrightarrow> drv (snd (f S w)) = drv w" for f
    by (rule first_taker_keeps [where I = "\<lambda>x. drv x = drv w"]) (use that in auto)
  show "drv (h_ProcessSent (Manager_handlers M) P h w) = drv w"
    using assms same by (simp add: Manager_handlers_def Manager_ProcessSent_def node_service.sent)
  assume P: "actions_ok P" and w: "Driver_inv (drv w)"
  show "Driver_inv (drv (h_ProcessPacket (Manager_handlers M) P p w))"
    "Driver_inv (drv (snd (h_ProcessAckedPacket (Manager_handlers M) P p w)))"
    "Driver_inv (drv (h_ProcessAck (Manager_handlers M) P p w))"
    using assms P w keep
    by (simp_all add: Manager_handlers_def Manager_ProcessPacket_def Manager_ProcessAckedPacket_def
        Manager_ProcessAck_def node_service.packet node_service.acked node_service.ack)
qed

end
