(* ===== verification/Send_Service.thy ===== *)
theory Send_Service
  imports Services_Manager
begin

text \<open>
  \<open>src/src/Services/IPacketSendService.h\<close>: a service that owns one outgoing packet and drives it
  through a state machine, from the request over the driver's send slot, the end of the
  transmission and the acknowledgement to the notification of the class below, whose virtual
  methods are the record \<open>send_hooks\<close>.
\<close>

definition LOLA_SEND_SERVICE_DELAYED_MAX_DUPLEX :: u32 where
  [lola_consts]: "LOLA_SEND_SERVICE_DELAYED_MAX_DUPLEX = 10"

definition LOLA_SEND_SERVICE_DENIED_MAX_FAILS :: u8 where
  [lola_consts]: "LOLA_SEND_SERVICE_DENIED_MAX_FAILS = 3"

definition LOLA_SEND_SERVICE_CHECK_PERIOD_MILLIS :: u32 where
  [lola_consts]: "LOLA_SEND_SERVICE_CHECK_PERIOD_MILLIS = 1"

definition LOLA_SEND_SERVICE_SEND_TIMEOUT_DEFAULT_MILLIS :: u8 where
  [lola_consts]: "LOLA_SEND_SERVICE_SEND_TIMEOUT_DEFAULT_MILLIS =
     ucast (LOLA_SEND_SERVICE_DELAYED_MAX_DUPLEX * ILOLA_DEFAULT_DUPLEX_PERIOD_MILLIS)"

definition LOLA_SEND_SERVICE_REPLY_TIMEOUT_DEFAULT_MILLIS :: u8 where
  [lola_consts]: "LOLA_SEND_SERVICE_REPLY_TIMEOUT_DEFAULT_MILLIS = ucast ILOLA_DEFAULT_DUPLEX_PERIOD_MILLIS"

definition LOLA_SEND_SERVICE_BACK_OFF_DEFAULT_DURATION_MILLIS :: u32 where
  [lola_consts]: "LOLA_SEND_SERVICE_BACK_OFF_DEFAULT_DURATION_MILLIS = 200"

datatype SendStatusEnum = Done | SendingPacket | WaitingForSentOk | SentOk | SendFailed
  | WaitingForAck | AckOk | AckFailed

record IPacketSendService = ILoLaService +
  SendStatus :: SendStatusEnum
  SendFailures :: u8
  SendStartMillis :: u32
  SendTimeOutDuration :: u8
  AckTimeOutDuration :: u8
  Packet :: LoLaPacket

record 'w send_hooks =
  hk_OnAckFailed :: "platform \<Rightarrow> u8 \<Rightarrow> u8 \<Rightarrow> 'w \<Rightarrow> 'w"
  hk_OnAckReceived :: "platform \<Rightarrow> u8 \<Rightarrow> u8 \<Rightarrow> 'w \<Rightarrow> 'w"
  hk_OnSendOk :: "platform \<Rightarrow> u8 \<Rightarrow> u32 \<Rightarrow> 'w \<Rightarrow> 'w"
  hk_OnSendFailed :: "platform \<Rightarrow> 'w \<Rightarrow> 'w"
  hk_OnService :: "platform \<Rightarrow> 'w \<Rightarrow> 'w"
  hk_OnSendTimedOut :: "platform \<Rightarrow> 'w \<Rightarrow> 'w"
  hk_OnSendDelayed :: "platform \<Rightarrow> 'w \<Rightarrow> 'w"
  hk_OnSendRetrying :: "platform \<Rightarrow> 'w \<Rightarrow> 'w"
  hk_OnPreSend :: "platform \<Rightarrow> 'w \<Rightarrow> 'w"

text \<open>The bodies the class itself gives its virtual methods.\<close>

definition Send_default_hooks :: "'a IPacketSendService_scheme send_hooks" where
  "Send_default_hooks = \<lparr> hk_OnAckFailed = \<lambda>P header i s. s, hk_OnAckReceived = \<lambda>P header i s. s,
     hk_OnSendOk = \<lambda>P header duration. Service_SetNextRunASAP,
     hk_OnSendFailed = \<lambda>P. Service_SetNextRunASAP,
     hk_OnService = \<lambda>P. Service_SetNextRunDelay LOLA_SEND_SERVICE_BACK_OFF_DEFAULT_DURATION_MILLIS,
     hk_OnSendTimedOut = \<lambda>P. Service_SetNextRunASAP,
     hk_OnSendDelayed = \<lambda>P s. s, hk_OnSendRetrying = \<lambda>P s. s, hk_OnPreSend = \<lambda>P s. s \<rparr>"

definition Send_construct ::
  "u16 \<Rightarrow> bool \<Rightarrow> LoLaPacket \<Rightarrow> 'a IPacketSendService_scheme \<Rightarrow> 'a IPacketSendService_scheme" where
  "Send_construct period hasDriver packetHolder s =
     Service_construct period hasDriver
       (s\<lparr>SendStatus := Done, SendFailures := 0, SendStartMillis := ILOLA_INVALID_MILLIS,
          SendTimeOutDuration := 0, AckTimeOutDuration := 0,
          Packet := LoLaPacket_ClearDefinition packetHolder\<rparr>)"

definition Send_HasSendPending :: "'a IPacketSendService_scheme \<Rightarrow> bool" where
  "Send_HasSendPending s \<longleftrightarrow> Definition (Packet s) \<noteq> None"

definition Send_ProcessSent :: "u8 \<Rightarrow> 'a IPacketSendService_scheme \<Rightarrow> bool \<times> 'a IPacketSendService_scheme" where
  "Send_ProcessSent header s =
     (if Send_HasSendPending s \<and> LoLaPacket_GetDataHeader (Packet s) = header \<and>
         SendStatus s = WaitingForSentOk
      then (True, Service_SetNextRunASAP (s\<lparr>SendStatus := SentOk\<rparr>))
      else (False, s))"

definition Send_ProcessAck ::
  "u8 \<Rightarrow> u8 \<Rightarrow> 'a IPacketSendService_scheme \<Rightarrow> bool \<times> 'a IPacketSendService_scheme" where
  "Send_ProcessAck header i s =
     (if LoLaPacket_GetDataHeader (Packet s) = header then
        if SendStatus s = WaitingForAck \<and> Send_HasSendPending s then
          if LoLaPacket_GetId (Packet s) \<noteq> i then (False, s)
          else (True, Service_SetNextRunASAP (s\<lparr>SendStatus := AckOk\<rparr>))
        else (True, s)
      else (False, s))"

definition Send_ClearSendRequest :: "'a IPacketSendService_scheme \<Rightarrow> 'a IPacketSendService_scheme" where
  "Send_ClearSendRequest s =
     Service_SetNextRunASAP (s\<lparr>Packet := LoLaPacket_ClearDefinition (Packet s),
       SendStartMillis := ILOLA_INVALID_MILLIS, SendStatus := Done\<rparr>)"

definition Send_RequestSendPacket ::
  "platform \<Rightarrow> u8 \<Rightarrow> u8 \<Rightarrow> 'a IPacketSendService_scheme \<Rightarrow> 'a IPacketSendService_scheme" where
  "Send_RequestSendPacket P sendTimeOutDurationMillis ackReplyTimeOutDurationMillis s =
     Service_SetNextRunASAP
       (if Send_HasSendPending s then
          s\<lparr>SendStartMillis := millis_now P, SendTimeOutDuration := sendTimeOutDurationMillis,
            AckTimeOutDuration := ackReplyTimeOutDurationMillis, SendFailures := 0,
            SendStatus := SendingPacket\<rparr>
        else s)"

abbreviation Send_RequestSendPacketDefault ::
  "platform \<Rightarrow> 'a IPacketSendService_scheme \<Rightarrow> 'a IPacketSendService_scheme" where
  "Send_RequestSendPacketDefault P \<equiv> Send_RequestSendPacket P
     LOLA_SEND_SERVICE_SEND_TIMEOUT_DEFAULT_MILLIS LOLA_SEND_SERVICE_REPLY_TIMEOUT_DEFAULT_MILLIS"

section \<open>Callback\<close>

text \<open>The case \<open>SendingPacket\<close>; the second reading of the clock comes after \<open>SendPacket\<close>.\<close>

definition Send_sending ::
  "platform \<Rightarrow> 'a IPacketSendService_scheme send_hooks \<Rightarrow>
   'a IPacketSendService_scheme \<Rightarrow> 'a IPacketSendService_scheme" where
  "Send_sending P K s =
     (if SendStartMillis s = ILOLA_INVALID_MILLIS \<or>
         ucast (SendTimeOutDuration s) < millis_now P - SendStartMillis s
      then Send_ClearSendRequest (hk_OnSendTimedOut K P s)
      else
        let (allowed, s1) = Service_AllowedSend P s
        in if \<not> allowed then
             hk_OnSendDelayed K P (Service_SetNextRunDelay LOLA_SEND_SERVICE_CHECK_PERIOD_MILLIS s1)
           else
             let s2 = hk_OnPreSend K P s1;
                 (sent, s3) = Service_SendPacket P (Packet s2) s2
             in if sent then
                  let timeOut = ucast (SendTimeOutDuration s3);
                      elapsed = millis_later P - SendStartMillis s3
                  in Service_SetNextRunDelay (timeOut - min elapsed timeOut)
                       (s3\<lparr>SendStatus := WaitingForSentOk\<rparr>)
                else
                  let s4 = s3\<lparr>SendFailures := SendFailures s3 + 1\<rparr>
                  in if LOLA_SEND_SERVICE_DENIED_MAX_FAILS < SendFailures s4 then
                       Service_SetNextRunASAP (s4\<lparr>SendStatus := SendFailed\<rparr>)
                     else
                       hk_OnSendRetrying K P
                         (Service_SetNextRunDelay LOLA_SEND_SERVICE_CHECK_PERIOD_MILLIS s4))"

text \<open>The case \<open>SentOk\<close> reads the definition after the notification; a null one is a fault.\<close>

definition Send_sent_ok ::
  "platform \<Rightarrow> 'a IPacketSendService_scheme send_hooks \<Rightarrow>
   'a IPacketSendService_scheme \<Rightarrow> 'a IPacketSendService_scheme" where
  "Send_sent_ok P K s =
     (let s1 = hk_OnSendOk K P (LoLaPacket_GetDataHeader (Packet s)) (millis_now P - SendStartMillis s) s
      in case Definition (Packet s1) of
           None \<Rightarrow> on_drv (fault_if True NullDefinition) s1
         | Some def \<Rightarrow>
             if PacketDefinition_HasACK def
             then Service_SetNextRunDelay (ucast (AckTimeOutDuration s1)) (s1\<lparr>SendStatus := WaitingForAck\<rparr>)
             else Send_ClearSendRequest s1)"

definition Send_Callback ::
  "platform \<Rightarrow> 'a IPacketSendService_scheme send_hooks \<Rightarrow>
   'a IPacketSendService_scheme \<Rightarrow> 'a IPacketSendService_scheme" where
  "Send_Callback P K s0 =
     (let s = (if \<not> Send_HasSendPending s0 \<and> SendStatus s0 \<noteq> Done
               then Service_SetNextRunASAP (s0\<lparr>SendStatus := Done\<rparr>) else s0)
      in case SendStatus s of
           SendingPacket \<Rightarrow> Send_sending P K s
         | WaitingForSentOk \<Rightarrow> Service_SetNextRunASAP (s\<lparr>SendStatus := SendFailed\<rparr>)
         | SentOk \<Rightarrow> Send_sent_ok P K s
         | SendFailed \<Rightarrow> Send_ClearSendRequest (hk_OnSendFailed K P s)
         | WaitingForAck \<Rightarrow> Service_SetNextRunASAP (s\<lparr>SendStatus := AckFailed\<rparr>)
         | AckOk \<Rightarrow> Send_ClearSendRequest (hk_OnAckReceived K P (LoLaPacket_GetDataHeader (Packet s))
             (LoLaPacket_GetId (Packet s)) s)
         | AckFailed \<Rightarrow> Send_ClearSendRequest (hk_OnAckFailed K P (LoLaPacket_GetDataHeader (Packet s))
             (LoLaPacket_GetId (Packet s)) s)
         | Done \<Rightarrow> hk_OnService K P s)"

section \<open>What the virtual methods may do\<close>

text \<open>
  The four notifications that come while a send goes on may prepare the payload, reschedule the
  service and change the state of the class below, but they leave the send itself alone and
  respect the driver. The other notifications come right before the request is cleared, or with
  none in progress.
\<close>

definition send_frame :: "'a IPacketSendService_scheme \<Rightarrow> 'a IPacketSendService_scheme \<Rightarrow> bool" where
  "send_frame s s' \<longleftrightarrow> SendStatus s' = SendStatus s \<and> SendFailures s' = SendFailures s \<and>
     SendStartMillis s' = SendStartMillis s \<and> SendTimeOutDuration s' = SendTimeOutDuration s \<and>
     Definition (Packet s') = Definition (Packet s)"

lemma send_frame_refl [simp]: "send_frame s s"
  by (simp add: send_frame_def)

lemma send_frame_trans: "send_frame s s' \<Longrightarrow> send_frame s' s'' \<Longrightarrow> send_frame s s''"
  by (simp add: send_frame_def)

lemma Send_HasSendPending_frame: "send_frame s s' \<Longrightarrow> Send_HasSendPending s' = Send_HasSendPending s"
  by (simp add: send_frame_def Send_HasSendPending_def)

lemma send_frame_simps [simp]:
  "send_frame s (Service_SetNextRunDelay n s')= send_frame s s'"
  "send_frame s (Service_SetNextRunASAP s') = send_frame s s'"
  "send_frame s (on_drv f s') = send_frame s s'"
  "send_frame s (snd (Service_AllowedSend P s')) = send_frame s s'"
  "send_frame s (snd (Service_SendPacket P p s')) = send_frame s s'"
  by (simp_all add: send_frame_def Service_SetNextRunDelay_def Service_SetNextRunASAP_def on_drv_def
      Service_AllowedSend_def Service_SendPacket_def on_drv_result_def case_prod_unfold Let_def)

lemma Send_status_schedule [simp]:
  "SendStatus (Service_SetNextRunDelay n s) = SendStatus s"
  "SendStatus (Service_SetNextRunASAP s) = SendStatus s"
  "Packet (Service_SetNextRunDelay n s) = Packet s"
  "Packet (Service_SetNextRunASAP s) = Packet s"
  "SendStatus (on_drv f s) = SendStatus s"
  "Packet (on_drv f s) = Packet s"
  "SendFailures (Service_SetNextRunDelay n s) = SendFailures s"
  "SendFailures (Service_SetNextRunASAP s) = SendFailures s"
  by (simp_all add: Service_SetNextRunDelay_def Service_SetNextRunASAP_def on_drv_def)

lemma Send_ClearSendRequest_simps [simp]:
  "SendStatus (Send_ClearSendRequest s) = Done"
  "\<not> Send_HasSendPending (Send_ClearSendRequest s)"
  "drv (Send_ClearSendRequest s) = drv s"
  by (simp_all add: Send_ClearSendRequest_def Send_HasSendPending_def LoLaPacket_ClearDefinition_def)

locale send_class =
  fixes K :: "'a IPacketSendService_scheme send_hooks"
  assumes send_ok_frame: "send_frame s (hk_OnSendOk K P h t s)"
    and delayed_frame: "send_frame s (hk_OnSendDelayed K P s)"
    and retrying_frame: "send_frame s (hk_OnSendRetrying K P s)"
    and pre_send_frame: "send_frame s (hk_OnPreSend K P s)"

text \<open>
  The shape of a send in progress, and how many callbacks it can still take: at most four
  attempts, then the wait for the end of the transmission and the wait for the acknowledgement.
\<close>

definition send_shape :: "'a IPacketSendService_scheme \<Rightarrow> bool" where
  "send_shape s \<longleftrightarrow> (SendStatus s \<noteq> Done \<longrightarrow> Send_HasSendPending s) \<and>
     (SendStatus s = SendingPacket \<longrightarrow> SendFailures s \<le> LOLA_SEND_SERVICE_DENIED_MAX_FAILS)"

definition send_rank :: "'a IPacketSendService_scheme \<Rightarrow> nat" where
  "send_rank s = (case SendStatus s of Done \<Rightarrow> 0 | SendFailed \<Rightarrow> 1 | AckOk \<Rightarrow> 1 | AckFailed \<Rightarrow> 1
     | WaitingForAck \<Rightarrow> 2 | SentOk \<Rightarrow> 3 | WaitingForSentOk \<Rightarrow> 4
     | SendingPacket \<Rightarrow> 8 - unat (SendFailures s))"

lemma send_rank_0: "send_shape s \<Longrightarrow> send_rank s = 0 \<longleftrightarrow> SendStatus s = Done"
  by (auto simp: send_rank_def send_shape_def word_le_nat_alt lola_consts split: SendStatusEnum.splits)

lemma send_rank_le: "send_rank s \<le> 8"
  by (simp add: send_rank_def split: SendStatusEnum.split)

lemma send_rank_frame: "send_frame s s' \<Longrightarrow> send_rank s' = send_rank s"
  by (cases "SendStatus s") (simp_all add: send_frame_def send_rank_def)

definition send_window :: "platform \<Rightarrow> 'a IPacketSendService_scheme \<Rightarrow> bool" where
  "send_window P s \<longleftrightarrow> SendStatus s = SendingPacket \<and>
     millis_now P - SendStartMillis s \<le> ucast (SendTimeOutDuration s)"

context send_class begin

lemma sending_progress:
  assumes st: "SendStatus s = SendingPacket" and shape: "send_shape s"
  shows "send_shape (Send_sending P K s) \<and>
    (send_rank (Send_sending P K s) < send_rank s \<or>
     send_window P s \<and> send_frame s (Send_sending P K s))"
proof (cases "SendStartMillis s = ILOLA_INVALID_MILLIS \<or>
    ucast (SendTimeOutDuration s) < millis_now P - SendStartMillis s")
  case True
  have "0 < send_rank s" using send_rank_0 [OF shape] st by simp
  with True show ?thesis by (simp add: Send_sending_def send_shape_def send_rank_def)
next
  case inside: False
  then have win: "send_window P s" by (simp add: send_window_def st not_less)
  let ?s1 = "snd (Service_AllowedSend P s)"
  show ?thesis
  proof (cases "fst (Service_AllowedSend P s)")
    case False
    have "send_frame s (hk_OnSendDelayed K P (Service_SetNextRunDelay LOLA_SEND_SERVICE_CHECK_PERIOD_MILLIS ?s1))"
      by (rule send_frame_trans [OF _ delayed_frame]) simp
    then show ?thesis using inside False shape win st
      by (simp add: Send_sending_def Let_def case_prod_unfold send_shape_def Send_HasSendPending_frame)
         (simp add: send_frame_def)
  next
    case True
    let ?s2 = "hk_OnPreSend K P ?s1"
    let ?s3 = "snd (Service_SendPacket P (Packet ?s2) ?s2)"
    have f3: "send_frame s ?s3"
      by simp (rule send_frame_trans [OF _ pre_send_frame], simp)
    then have s3: "SendStatus ?s3 = SendingPacket" "SendFailures ?s3 = SendFailures s"
      "Definition (Packet ?s3) = Definition (Packet s)"
      using st by (simp_all add: send_frame_def)
    have pend: "Definition (Packet s) \<noteq> None"
      using shape st by (simp add: send_shape_def Send_HasSendPending_def)
    have le3: "unat (SendFailures s) \<le> 3" using shape st by (simp add: send_shape_def word_le_nat_alt lola_consts)
    then have suc: "unat (SendFailures s + 1) = Suc (unat (SendFailures s))" by (simp add: unat_word_ariths)
    show ?thesis
    proof (cases "fst (Service_SendPacket P (Packet ?s2) ?s2)")
      case sent: True
      then show ?thesis using inside True s3 pend le3 st
        by (simp add: Send_sending_def Let_def case_prod_unfold send_shape_def send_rank_def Send_HasSendPending_def less_diff_conv)
    next
      case denied: False
      show ?thesis
      proof (cases "LOLA_SEND_SERVICE_DENIED_MAX_FAILS < SendFailures s + 1")
        case give_up: True
        then show ?thesis using inside True denied s3 pend le3 st
          by (simp add: Send_sending_def Let_def case_prod_unfold send_shape_def send_rank_def Send_HasSendPending_def less_diff_conv)
      next
        case retry: False
        let ?s5 = "Service_SetNextRunDelay LOLA_SEND_SERVICE_CHECK_PERIOD_MILLIS
          (?s3\<lparr>SendFailures := SendFailures ?s3 + 1\<rparr>)"
        note f = retrying_frame [of ?s5 P]
        have r: "Send_sending P K s = hk_OnSendRetrying K P ?s5"
          using inside True denied retry s3 by (simp add: Send_sending_def Let_def case_prod_unfold)
        have "unat (SendFailures s + 1) \<le> 3" using retry by (simp add: lola_consts word_le_nat_alt not_less)
        then show ?thesis
          using f s3 pend st suc retry
          by (simp add: r send_frame_def send_shape_def send_rank_def Send_HasSendPending_def not_less
              Service_SetNextRunDelay_def)
      qed
    qed
  qed
qed

lemma Callback_progress:
  assumes shape: "send_shape s" and busy: "SendStatus s \<noteq> Done"
  shows "send_shape (Send_Callback P K s) \<and>
    (send_rank (Send_Callback P K s) < send_rank s \<or>
     send_window P s \<and> send_frame s (Send_Callback P K s))"
proof -
  have pend: "Send_HasSendPending s" using assms by (simp add: send_shape_def)
  show ?thesis
  proof (cases "SendStatus s")
    case SendingPacket
    then show ?thesis using sending_progress [OF SendingPacket shape] pend by (simp add: Send_Callback_def)
  next
    case SentOk
    let ?s1 = "hk_OnSendOk K P (LoLaPacket_GetDataHeader (Packet s)) (millis_now P - SendStartMillis s) s"
    have "Definition (Packet ?s1) = Definition (Packet s)"
      using send_ok_frame [of s P] by (simp add: send_frame_def)
    moreover from pend obtain def where def: "Definition (Packet s) = Some def"
      by (auto simp: Send_HasSendPending_def)
    ultimately show ?thesis using SentOk pend
      by (cases "PacketDefinition_HasACK def")
         (simp_all add: Send_Callback_def Send_sent_ok_def send_shape_def send_rank_def
          Send_HasSendPending_def Let_def)
  qed (use pend busy in \<open>simp_all add: Send_Callback_def send_shape_def send_rank_def Send_HasSendPending_def\<close>)
qed

end

section \<open>A request always comes to an end\<close>

text \<open>
  What happens to a service between the request and its end: its callback runs, the driver tells
  it of a sent packet or of an acknowledgement, or the driver moves on its own.
\<close>

datatype send_event = Run platform | Sent u8 | Acked u8 u8 | DriverMoves Driver

fun Send_event :: "'a IPacketSendService_scheme send_hooks \<Rightarrow> send_event \<Rightarrow>
    'a IPacketSendService_scheme \<Rightarrow> 'a IPacketSendService_scheme" where
  "Send_event K (Run P) s = Send_Callback P K s"
| "Send_event K (Sent h) s = snd (Send_ProcessSent h s)"
| "Send_event K (Acked h i) s = snd (Send_ProcessAck h i s)"
| "Send_event K (DriverMoves d) s = s\<lparr>drv := d\<rparr>"

fun late_run :: "u32 \<Rightarrow> u8 \<Rightarrow> send_event \<Rightarrow> bool" where
  "late_run started timeOut (Run P) \<longleftrightarrow> ucast timeOut < millis_now P - started"
| "late_run started timeOut _ \<longleftrightarrow> False"

definition send_since :: "u32 \<Rightarrow> u8 \<Rightarrow> 'a IPacketSendService_scheme \<Rightarrow> bool" where
  "send_since started timeOut s \<longleftrightarrow> send_shape s \<and>
     (SendStatus s = SendingPacket \<longrightarrow> SendStartMillis s = started \<and> SendTimeOutDuration s = timeOut)"

lemma ProcessSent_cases:
  "snd (Send_ProcessSent h s) = s \<or> SendStatus s = WaitingForSentOk \<and>
    snd (Send_ProcessSent h s) = Service_SetNextRunASAP (s\<lparr>SendStatus := SentOk\<rparr>)"
  by (simp add: Send_ProcessSent_def)

lemma ProcessAck_cases:
  "snd (Send_ProcessAck h i s) = s \<or> SendStatus s = WaitingForAck \<and>
    snd (Send_ProcessAck h i s) = Service_SetNextRunASAP (s\<lparr>SendStatus := AckOk\<rparr>)"
  by (simp add: Send_ProcessAck_def)

lemma ProcessSent_progress:
  assumes "send_shape s"
  shows "send_shape (snd (Send_ProcessSent h s)) \<and> send_rank (snd (Send_ProcessSent h s)) \<le> send_rank s"
  using ProcessSent_cases [of h s] assms
  by (elim disjE conjE) (simp_all add: send_shape_def send_rank_def Send_HasSendPending_def)

lemma ProcessAck_progress:
  assumes "send_shape s"
  shows "send_shape (snd (Send_ProcessAck h i s)) \<and> send_rank (snd (Send_ProcessAck h i s)) \<le> send_rank s"
  using ProcessAck_cases [of h i s] assms
  by (elim disjE conjE) (simp_all add: send_shape_def send_rank_def Send_HasSendPending_def)

lemma Process_still_sending:
  "SendStatus (snd (Send_ProcessSent h s)) = SendingPacket \<Longrightarrow> snd (Send_ProcessSent h s) = s"
  "SendStatus (snd (Send_ProcessAck h i s)) = SendingPacket \<Longrightarrow> snd (Send_ProcessAck h i s) = s"
  by (auto simp: Send_ProcessSent_def Send_ProcessAck_def split: if_splits)

context send_class begin

lemma Callback_still_sending:
  assumes "send_shape s" "SendStatus s \<noteq> Done" "SendStatus (Send_Callback P K s) = SendingPacket"
  shows "SendStatus s = SendingPacket \<and> SendStartMillis (Send_Callback P K s) = SendStartMillis s \<and>
    SendTimeOutDuration (Send_Callback P K s) = SendTimeOutDuration s"
proof -
  have pend: "Send_HasSendPending s" using assms by (simp add: send_shape_def)
  show ?thesis
  proof (cases "SendStatus s")
    case SentOk
    with assms(3) pend show ?thesis
      by (auto simp: Send_Callback_def Send_sent_ok_def Let_def split: option.splits if_splits)
         (use send_ok_frame [of s] SentOk in \<open>simp add: send_frame_def\<close>)
  next
    case SendingPacket
    let ?s2 = "hk_OnPreSend K P (snd (Service_AllowedSend P s))"
    let ?s3 = "snd (Service_SendPacket P (Packet ?s2) ?s2)"
    have "send_frame s ?s3" by simp (rule send_frame_trans [OF _ pre_send_frame], simp)
    moreover have "send_frame s (hk_OnSendDelayed K P
        (Service_SetNextRunDelay LOLA_SEND_SERVICE_CHECK_PERIOD_MILLIS (snd (Service_AllowedSend P s))))"
      by (rule send_frame_trans [OF _ delayed_frame]) simp
    moreover note retrying_frame [of "Service_SetNextRunDelay LOLA_SEND_SERVICE_CHECK_PERIOD_MILLIS
        (?s3\<lparr>SendFailures := SendFailures ?s3 + 1\<rparr>)" P]
    ultimately show ?thesis
      using assms(3) SendingPacket pend
      by (simp add: Send_Callback_def Send_sending_def Let_def case_prod_unfold send_frame_def
          Service_SetNextRunDelay_def split: if_splits)
  qed (use assms(2,3) pend in \<open>simp_all add: Send_Callback_def\<close>)
qed

lemma event_progress:
  assumes s: "send_since st t s" and busy: "SendStatus s \<noteq> Done"
  shows "send_since st t (Send_event K e s)" and "send_rank (Send_event K e s) \<le> send_rank s"
    and "late_run st t e \<Longrightarrow> send_rank (Send_event K e s) < send_rank s"
proof -
  have shape: "send_shape s" using s by (simp add: send_since_def)
  have "send_since st t (Send_event K e s) \<and> send_rank (Send_event K e s) \<le> send_rank s \<and>
    (late_run st t e \<longrightarrow> send_rank (Send_event K e s) < send_rank s)"
  proof (cases e)
    case (Run P)
    note prog = Callback_progress [OF shape busy, of P]
    have still: "send_rank (Send_Callback P K s) = send_rank s" if "send_frame s (Send_Callback P K s)"
      using that by (rule send_rank_frame)
    show ?thesis
      using prog still Callback_still_sending [OF shape busy] s
      by (auto simp: Run send_since_def send_window_def)
  next
    case (Sent h)
    then show ?thesis using ProcessSent_progress [OF shape, of h] Process_still_sending(1) [of h s] s
      by (auto simp: send_since_def)
  next
    case (Acked h i)
    then show ?thesis using ProcessAck_progress [OF shape, of h i] Process_still_sending(2) [of h i s] s
      by (auto simp: send_since_def)
  next
    case (DriverMoves d)
    have "send_frame s (s\<lparr>drv := d\<rparr>)" by (simp add: send_frame_def)
    then have "send_rank (s\<lparr>drv := d\<rparr>) = send_rank s" by (rule send_rank_frame)
    with DriverMoves s show ?thesis by (simp add: send_since_def send_shape_def Send_HasSendPending_def)
  qed
  then show "send_since st t (Send_event K e s)" "send_rank (Send_event K e s) \<le> send_rank s"
    "late_run st t e \<Longrightarrow> send_rank (Send_event K e s) < send_rank s" by blast+
qed

lemma run_to_done:
  "send_since st t s \<Longrightarrow> send_rank s \<le> length (filter (late_run st t) es) \<Longrightarrow>
    \<exists>n \<le> length es. SendStatus (fold (Send_event K) (take n es) s) = Done"
proof (induction es arbitrary: s)
  case Nil
  then show ?case using send_rank_0 [of s] by (simp add: send_since_def)
next
  case (Cons e es)
  show ?case
  proof (cases "SendStatus s = Done")
    case True
    then show ?thesis by (intro exI [of _ 0]) simp
  next
    case False
    note prog = event_progress [OF Cons.prems(1) False, of e]
    have "send_rank (Send_event K e s) \<le> length (filter (late_run st t) es)"
      using prog(2,3) Cons.prems(2) by (cases "late_run st t e") auto
    from Cons.IH [OF prog(1) this] obtain n
      where "n \<le> length es" "SendStatus (fold (Send_event K) (take n es) (Send_event K e s)) = Done"
      by blast
    then show ?thesis by (intro exI [of _ "Suc n"]) simp
  qed
qed

end

lemma RequestSendPacket_since:
  assumes "Send_HasSendPending s"
  shows "send_since (millis_now P) t (Send_RequestSendPacket P t a s)"
  using assms
  by (simp add: Send_RequestSendPacket_def send_since_def send_shape_def Send_HasSendPending_def
      Service_SetNextRunASAP_def)

interpretation default_send: send_class Send_default_hooks
  by unfold_locales (simp_all add: Send_default_hooks_def)

text \<open>C15. Every send request comes to an end: once a request with a packet is made, whatever the
  driver answers and whatever sent and acknowledgement notices arrive in between, the service
  is back in \<open>Done\<close>, at the latest when its callback has run eight times after the send time-out.
  The class below is free in its notifications as long as those during a send leave it alone.\<close>
theorem send_request_completes:
  assumes "send_class K" and "Send_HasSendPending s"
    and "8 \<le> length (filter (late_run (millis_now P) timeOut) es)"
  shows "\<exists>n \<le> length es. SendStatus (fold (Send_event K) (take n es)
    (Send_RequestSendPacket P timeOut ackTimeOut s)) = Done"
  using send_class.run_to_done [OF assms(1) RequestSendPacket_since [OF assms(2)], of P timeOut ackTimeOut es]
    send_rank_le assms(3)
  by (meson order_trans)

theorem send_request_completes_witness:
  "\<exists>n \<le> length (replicate 8 (Run (sample_platform\<lparr>millis_now := 500\<rparr>))).
     SendStatus (fold (Send_event Send_default_hooks) (take n (replicate 8 (Run (sample_platform\<lparr>millis_now := 500\<rparr>))))
       (Send_RequestSendPacket sample_platform 100 10
         \<lparr>drv = Driver_new, ServiceState = Active, DefaultPeriod = 1, ServiceEnabled = True,
          ServiceNextRun = RunASAP, SendStatus = Done, SendFailures = 0, SendStartMillis = 0,
          SendTimeOutDuration = 0, AckTimeOutDuration = 0,
          Packet = \<lparr>Raw = [0, 0, 5, 1], Definition = Some \<lparr>Configuration = 0, Header = 5, PayloadSize = 0\<rparr>\<rparr>\<rparr>)) = Done"
  by (rule send_request_completes [OF default_send.send_class_axioms])
     (simp_all add: Send_HasSendPending_def)

text \<open>An acknowledgement completes the send it belongs to and no other: \<open>ProcessAck\<close> moves the
  service to \<open>AckOk\<close> exactly when it waits for one and both the header and the id are those of
  its own packet; in every other case it changes nothing. A packet id that does not match is
  left to the other services.\<close>
theorem ack_matches_header_and_id:
  "(SendStatus s \<noteq> AckOk \<longrightarrow>
      (SendStatus (snd (Send_ProcessAck header i s)) = AckOk \<longleftrightarrow>
       SendStatus s = WaitingForAck \<and> Send_HasSendPending s \<and>
       LoLaPacket_GetDataHeader (Packet s) = header \<and> LoLaPacket_GetId (Packet s) = i)) \<and>
   (SendStatus (snd (Send_ProcessAck header i s)) \<noteq> AckOk \<longrightarrow> snd (Send_ProcessAck header i s) = s)"
  by (auto simp: Send_ProcessAck_def)

theorem ack_matches_header_and_id_witness:
  "SendStatus (snd (Send_ProcessAck 5 1
      \<lparr>drv = Driver_new, ServiceState = Active, DefaultPeriod = 1, ServiceEnabled = True,
       ServiceNextRun = RunASAP, SendStatus = WaitingForAck, SendFailures = 0, SendStartMillis = 0,
       SendTimeOutDuration = 0, AckTimeOutDuration = 0,
       Packet = \<lparr>Raw = [0, 0, 5, 1], Definition = Some AckPacketDefinition\<rparr>\<rparr>)) = AckOk"
  using ack_matches_header_and_id [of "\<lparr>drv = Driver_new, ServiceState = Active, DefaultPeriod = 1,
       ServiceEnabled = True, ServiceNextRun = RunASAP, SendStatus = WaitingForAck, SendFailures = 0,
       SendStartMillis = 0, SendTimeOutDuration = 0, AckTimeOutDuration = 0,
       Packet = \<lparr>Raw = [0, 0, 5, 1], Definition = Some AckPacketDefinition\<rparr>\<rparr>" 5 1]
  by (simp add: Send_HasSendPending_def packet_accessor_defs lola_consts)

end
