(* ===== verification/Tracked_Surface.thy ===== *)
theory Tracked_Surface
  imports Packet Platform
begin

text \<open>
  \<open>src/src/Services/SyncSurface/ITrackedSurface.h\<close>: a block of memory shared over the link, with a
  bit per four-byte block that still has to be sent and a CRC over the whole. The signal fired
  on every change is the business of the service attached to it.
\<close>

definition SYNC_SURFACE_BLOCK_SIZE :: nat where
  [lola_consts]: "SYNC_SURFACE_BLOCK_SIZE = 4"

text \<open>\<open>SurfaceOverrun\<close> records an access past the end of \<open>Data\<close>.\<close>

record ITrackedSurface =
  DataGood :: bool
  LastCRC :: u8
  HashNeedsUpdate :: bool
  BlockCount :: u8
  Tracker :: "bool list"
  Data :: "u8 list"
  SurfaceOverrun :: bool

definition Surface_new :: "u8 \<Rightarrow> ITrackedSurface" where
  "Surface_new blockCount = \<lparr> DataGood = False, LastCRC = 0, HashNeedsUpdate = True,
     BlockCount = blockCount, Tracker = replicate (unat blockCount) False,
     Data = replicate (unat blockCount * SYNC_SURFACE_BLOCK_SIZE) 0, SurfaceOverrun = False \<rparr>"

definition Surface_IsDataGood :: "ITrackedSurface \<Rightarrow> bool" where
  "Surface_IsDataGood u = DataGood u"

definition Surface_SetDataGood :: "bool \<Rightarrow> ITrackedSurface \<Rightarrow> ITrackedSurface" where
  "Surface_SetDataGood dataGood u = u\<lparr>DataGood := dataGood\<rparr>"

definition Surface_GetDataSize :: "ITrackedSurface \<Rightarrow> u8" where
  "Surface_GetDataSize u = BlockCount u * of_nat SYNC_SURFACE_BLOCK_SIZE"

definition Surface_UpdateHash :: "platform \<Rightarrow> ITrackedSurface \<Rightarrow> ITrackedSurface" where
  "Surface_UpdateHash P u =
     (if HashNeedsUpdate u
      then u\<lparr>HashNeedsUpdate := False,
             LastCRC := crc8_smbus P (take (unat (Surface_GetDataSize u)) (Data u))\<rparr>
      else u)"

definition Surface_InvalidateHash :: "ITrackedSurface \<Rightarrow> ITrackedSurface" where
  "Surface_InvalidateHash u = u\<lparr>HashNeedsUpdate := True\<rparr>"

definition Surface_GetHash :: "ITrackedSurface \<Rightarrow> u8" where
  "Surface_GetHash u = LastCRC u"

section \<open>The tracker\<close>

definition Surface_SetBit :: "platform \<Rightarrow> nat \<Rightarrow> ITrackedSurface \<Rightarrow> ITrackedSurface" where
  "Surface_SetBit P i u = u\<lparr>Tracker := bt_set_bit (tracker P) i (Tracker u)\<rparr>"

definition Surface_ClearBit :: "platform \<Rightarrow> nat \<Rightarrow> ITrackedSurface \<Rightarrow> ITrackedSurface" where
  "Surface_ClearBit P i u = u\<lparr>Tracker := bt_clear_bit (tracker P) i (Tracker u)\<rparr>"

definition Surface_SetAllPending :: "platform \<Rightarrow> ITrackedSurface \<Rightarrow> ITrackedSurface" where
  "Surface_SetAllPending P u = u\<lparr>Tracker := bt_set_all (tracker P) (Tracker u)\<rparr>"

definition Surface_ClearAll :: "platform \<Rightarrow> ITrackedSurface \<Rightarrow> ITrackedSurface" where
  "Surface_ClearAll P u = u\<lparr>Tracker := bt_clear_all (tracker P) (Tracker u)\<rparr>"

definition Surface_HasSet :: "platform \<Rightarrow> ITrackedSurface \<Rightarrow> bool" where
  "Surface_HasSet P u = bt_has_set (tracker P) (Tracker u)"

section \<open>Typed access\<close>

text \<open>
  Bytes are written one by one; \<open>InvalidateBlock\<close> marks the block. The offsets of the 16 and 32
  bit accessors go through a byte (\<open>IndexOffsetGrunt\<close>).
\<close>

definition Surface_write :: "nat \<Rightarrow> u8 list \<Rightarrow> ITrackedSurface \<Rightarrow> ITrackedSurface" where
  "Surface_write off bs u = u\<lparr>Data := store off bs (Data u),
     SurfaceOverrun := SurfaceOverrun u \<or> length (Data u) < off + length bs\<rparr>"

definition Surface_index :: "u8 \<Rightarrow> u8 \<Rightarrow> u8 \<Rightarrow> nat" where
  "Surface_index blockIndex offset width = unat (blockIndex * of_nat SYNC_SURFACE_BLOCK_SIZE + offset * width)"

definition Surface_Get8 :: "u8 \<Rightarrow> u8 \<Rightarrow> ITrackedSurface \<Rightarrow> u8" where
  "Surface_Get8 blockIndex offset u =
     Data u ! (unat blockIndex * SYNC_SURFACE_BLOCK_SIZE + unat offset)"

definition Surface_Set8 :: "platform \<Rightarrow> u8 \<Rightarrow> u8 \<Rightarrow> u8 \<Rightarrow> ITrackedSurface \<Rightarrow> ITrackedSurface" where
  "Surface_Set8 P value blockIndex offset u =
     Surface_SetBit P (unat blockIndex)
       (Surface_write (unat blockIndex * SYNC_SURFACE_BLOCK_SIZE + unat offset) [value] u)"

definition Surface_Get16 :: "u8 \<Rightarrow> u8 \<Rightarrow> ITrackedSurface \<Rightarrow> u16" where
  "Surface_Get16 blockIndex offset u =
     (let i = Surface_index blockIndex offset 2
      in ucast (Data u ! i) + push_bit 8 (ucast (Data u ! (i + 1))))"

definition Surface_Set16 :: "platform \<Rightarrow> u16 \<Rightarrow> u8 \<Rightarrow> u8 \<Rightarrow> ITrackedSurface \<Rightarrow> ITrackedSurface" where
  "Surface_Set16 P value blockIndex offset u =
     Surface_SetBit P (unat blockIndex)
       (Surface_write (Surface_index blockIndex offset 2)
         [ucast (value AND 0x00FF), ucast (drop_bit 8 value)] u)"

definition Surface_Get32 :: "u8 \<Rightarrow> ITrackedSurface \<Rightarrow> u32" where
  "Surface_Get32 blockIndex u =
     (let i = Surface_index blockIndex 0 0
      in ucast (Data u ! i) + push_bit 8 (ucast (Data u ! (i + 1))) +
         push_bit 16 (ucast (Data u ! (i + 2))) + push_bit 24 (ucast (Data u ! (i + 3))))"

definition Surface_Set32 :: "platform \<Rightarrow> u32 \<Rightarrow> u8 \<Rightarrow> ITrackedSurface \<Rightarrow> ITrackedSurface" where
  "Surface_Set32 P value blockIndex u =
     Surface_SetBit P (unat blockIndex)
       (Surface_write (Surface_index blockIndex 0 0)
         [ucast (value AND 0x00FF), ucast (drop_bit 8 value), ucast (drop_bit 16 value),
          ucast (drop_bit 24 value)] u)"

section \<open>Shape\<close>

definition Surface_ok :: "ITrackedSurface \<Rightarrow> bool" where
  "Surface_ok u \<longleftrightarrow> unat (BlockCount u) < 32 \<and>
     length (Data u) = unat (BlockCount u) * SYNC_SURFACE_BLOCK_SIZE \<and>
     length (Tracker u) = unat (BlockCount u)"

lemma Surface_new_ok: "unat n < 32 \<Longrightarrow> Surface_ok (Surface_new n)"
  by (simp add: Surface_ok_def Surface_new_def)

lemma unat_GetDataSize: "Surface_ok u \<Longrightarrow> unat (Surface_GetDataSize u) = length (Data u)"
  by (simp add: Surface_ok_def Surface_GetDataSize_def unat_word_ariths lola_consts)

lemma Surface_UpdateHash_crc:
  "Surface_ok u \<Longrightarrow> HashNeedsUpdate u \<Longrightarrow> Surface_GetHash (Surface_UpdateHash P u) = crc8_smbus P (Data u)"
  by (simp add: Surface_UpdateHash_def Surface_GetHash_def unat_GetDataSize)

lemma Surface_frame [simp]:
  "Data (Surface_UpdateHash P u) = Data u" "Tracker (Surface_UpdateHash P u) = Tracker u"
  "BlockCount (Surface_UpdateHash P u) = BlockCount u" "DataGood (Surface_UpdateHash P u) = DataGood u"
  "SurfaceOverrun (Surface_UpdateHash P u) = SurfaceOverrun u"
  "Data (Surface_InvalidateHash u) = Data u" "Tracker (Surface_InvalidateHash u) = Tracker u"
  "BlockCount (Surface_InvalidateHash u) = BlockCount u" "DataGood (Surface_InvalidateHash u) = DataGood u"
  "SurfaceOverrun (Surface_InvalidateHash u) = SurfaceOverrun u"
  "HashNeedsUpdate (Surface_InvalidateHash u)"
  "Data (Surface_SetDataGood b u) = Data u" "Tracker (Surface_SetDataGood b u) = Tracker u"
  "BlockCount (Surface_SetDataGood b u) = BlockCount u" "DataGood (Surface_SetDataGood b u) = b"
  "SurfaceOverrun (Surface_SetDataGood b u) = SurfaceOverrun u"
  "HashNeedsUpdate (Surface_SetDataGood b u) = HashNeedsUpdate u"
  "LastCRC (Surface_SetDataGood b u) = LastCRC u"
  by (simp_all add: Surface_UpdateHash_def Surface_InvalidateHash_def Surface_SetDataGood_def)

lemma Surface_tracker_frame [simp]:
  "Data (Surface_SetBit P i u) = Data u" "Data (Surface_ClearBit P i u) = Data u"
  "Data (Surface_SetAllPending P u) = Data u" "Data (Surface_ClearAll P u) = Data u"
  "BlockCount (Surface_SetBit P i u) = BlockCount u" "BlockCount (Surface_ClearBit P i u) = BlockCount u"
  "BlockCount (Surface_SetAllPending P u) = BlockCount u" "BlockCount (Surface_ClearAll P u) = BlockCount u"
  "SurfaceOverrun (Surface_SetBit P i u) = SurfaceOverrun u"
  "SurfaceOverrun (Surface_ClearBit P i u) = SurfaceOverrun u"
  "SurfaceOverrun (Surface_SetAllPending P u) = SurfaceOverrun u"
  "SurfaceOverrun (Surface_ClearAll P u) = SurfaceOverrun u"
  "HashNeedsUpdate (Surface_SetBit P i u) = HashNeedsUpdate u"
  "HashNeedsUpdate (Surface_ClearBit P i u) = HashNeedsUpdate u"
  "HashNeedsUpdate (Surface_SetAllPending P u) = HashNeedsUpdate u"
  "HashNeedsUpdate (Surface_ClearAll P u) = HashNeedsUpdate u"
  "LastCRC (Surface_SetBit P i u) = LastCRC u" "LastCRC (Surface_ClearBit P i u) = LastCRC u"
  "LastCRC (Surface_SetAllPending P u) = LastCRC u" "LastCRC (Surface_ClearAll P u) = LastCRC u"
  "DataGood (Surface_SetBit P i u) = DataGood u" "DataGood (Surface_ClearBit P i u) = DataGood u"
  "DataGood (Surface_SetAllPending P u) = DataGood u" "DataGood (Surface_ClearAll P u) = DataGood u"
  by (simp_all add: Surface_SetBit_def Surface_ClearBit_def Surface_SetAllPending_def Surface_ClearAll_def)

lemma Surface_tracker_ops [simp]:
  assumes "tracker_ok (tracker P)"
  shows "Tracker (Surface_SetBit P i u) = (Tracker u)[i := True]"
    "Tracker (Surface_ClearBit P i u) = (Tracker u)[i := False]"
    "Tracker (Surface_SetAllPending P u) = replicate (length (Tracker u)) True"
    "Tracker (Surface_ClearAll P u) = replicate (length (Tracker u)) False"
    "Surface_HasSet P u \<longleftrightarrow> True \<in> set (Tracker u)"
  using assms
  by (simp_all add: tracker_ok_def Surface_SetBit_def Surface_ClearBit_def Surface_SetAllPending_def
      Surface_ClearAll_def Surface_HasSet_def)

lemma Surface_index_block:
  "unat b < 32 \<Longrightarrow> Surface_index b 0 0 = 4 * unat b"
  by (simp add: Surface_index_def unat_word_ariths lola_consts)

lemma Surface_index_half:
  "unat b < 32 \<Longrightarrow> unat o2 < 2 \<Longrightarrow> Surface_index b o2 2 = 4 * unat b + 2 * unat o2"
  by (simp add: Surface_index_def unat_word_ariths lola_consts)

lemma word_add_or: "a AND b = 0 \<Longrightarrow> a + b = a OR (b :: 'a::len word)"
  using word_plus_and_or [of a b] by simp

lemma bytes_sum_16: "ucast a + push_bit 8 (ucast b) = bytes_le16 [a, b]"
proof -
  have "(ucast a :: u16) + push_bit 8 (ucast b) = ucast a OR push_bit 8 (ucast b)"
    by (rule word_add_or, rule bit_word_eqI) (auto simp: bit_simps dest: bit_imp_le_length)
  then show ?thesis unfolding bytes_le16_def by simp
qed

lemma bytes_sum_32:
  "ucast a + push_bit 8 (ucast b) + push_bit 16 (ucast c) + push_bit 24 (ucast d) = bytes_le32 [a, b, c, d]"
proof -
  have 1: "(ucast a :: u32) + push_bit 8 (ucast b) = ucast a OR push_bit 8 (ucast b)"
    by (rule word_add_or, rule bit_word_eqI) (auto simp: bit_simps dest: bit_imp_le_length)
  have 2: "((ucast a :: u32) OR push_bit 8 (ucast b)) + push_bit 16 (ucast c) =
      (ucast a OR push_bit 8 (ucast b)) OR push_bit 16 (ucast c)"
    by (rule word_add_or, rule bit_word_eqI) (auto simp: bit_simps dest: bit_imp_le_length)
  have 3: "(((ucast a :: u32) OR push_bit 8 (ucast b)) OR push_bit 16 (ucast c)) + push_bit 24 (ucast d) =
      ((ucast a OR push_bit 8 (ucast b)) OR push_bit 16 (ucast c)) OR push_bit 24 (ucast d)"
    by (rule word_add_or, rule bit_word_eqI) (auto simp: bit_simps dest: bit_imp_le_length)
  show ?thesis unfolding 1 2 3 bytes_le32_def by (simp add: numeral_nat or.assoc)
qed

lemma ucast_low_byte:
  "(ucast ((v :: u16) AND 0x00FF) :: u8) = ucast v" "(ucast ((v2 :: u32) AND 0x00FF) :: u8) = ucast v2"
proof -
  have m: "(0xFF :: u16) = mask 8" "(0xFF :: u32) = mask 8" by (simp_all add: mask_eq_exp_minus_1)
  show "(ucast ((v :: u16) AND 0x00FF) :: u8) = ucast v" "(ucast ((v2 :: u32) AND 0x00FF) :: u8) = ucast v2"
    unfolding m by (auto intro!: bit_word_eqI simp: bit_simps)
qed

lemma nth_store_inside:
  "off + length src \<le> length dst \<Longrightarrow> k < length src \<Longrightarrow> store off src dst ! (off + k) = src ! k"
  by (simp add: store_split nth_append)

lemma nth_store_outside:
  "i < off \<or> off + length src \<le> i \<Longrightarrow> store off src dst ! i = dst ! i"
  by (induction off src dst rule: store.induct) auto

lemma store_bytes_le32:
  assumes "off + 4 \<le> length dst"
  shows "bytes_le32 [store off (le32_bytes v) dst ! off, store off (le32_bytes v) dst ! (off + 1),
    store off (le32_bytes v) dst ! (off + 2), store off (le32_bytes v) dst ! (off + 3)] = v"
proof -
  have "[store off (le32_bytes v) dst ! off, store off (le32_bytes v) dst ! (off + 1),
      store off (le32_bytes v) dst ! (off + 2), store off (le32_bytes v) dst ! (off + 3)] = le32_bytes v"
    using nth_store_inside [of off "le32_bytes v" dst 0] nth_store_inside [of off "le32_bytes v" dst 1]
      nth_store_inside [of off "le32_bytes v" dst 2] nth_store_inside [of off "le32_bytes v" dst 3] assms
    by (simp add: le32_bytes_def)
  then show ?thesis by simp
qed

lemma store_bytes_le16:
  assumes "off + 2 \<le> length dst"
  shows "bytes_le16 [store off (le16_bytes v) dst ! off, store off (le16_bytes v) dst ! (off + 1)] = v"
proof -
  have "[store off (le16_bytes v) dst ! off, store off (le16_bytes v) dst ! (off + 1)] = le16_bytes v"
    using nth_store_inside [of off "le16_bytes v" dst 0] nth_store_inside [of off "le16_bytes v" dst 1] assms
    by (simp add: le16_bytes_def)
  then show ?thesis by simp
qed

lemma Surface_Set32_write:
  "Surface_Set32 P v b u = Surface_SetBit P (unat b) (Surface_write (Surface_index b 0 0) (le32_bytes v) u)"
  by (simp add: Surface_Set32_def ucast_low_byte le32_bytes_def)

lemma Surface_Set16_write:
  "Surface_Set16 P v b o2 u = Surface_SetBit P (unat b) (Surface_write (Surface_index b o2 2) (le16_bytes v) u)"
  by (simp add: Surface_Set16_def ucast_low_byte le16_bytes_def)

lemma Surface_block_room:
  "Surface_ok u \<Longrightarrow> b < BlockCount u \<Longrightarrow> unat b < 32 \<and> 4 * unat b + 4 \<le> length (Data u)"
  by (auto simp: Surface_ok_def lola_consts word_less_nat_alt)

lemma div_4_apart: "(i :: nat) div 4 \<noteq> b \<Longrightarrow> i < 4 * b \<or> 4 * b + 4 \<le> i"
  by presburger

text \<open>C23. The typed accessors of a surface are inverse to each other and stay in their block: what
  \<open>Set32\<close>, \<open>Set16\<close> or \<open>Set8\<close> stores in a block of the surface is what \<open>Get32\<close>, \<open>Get16\<close> or
  \<open>Get8\<close> reads, no byte of another block changes, and the block is marked for sending.\<close>
theorem surface_set_get:
  assumes "Surface_ok u" and "tracker_ok (tracker P)" and "b < BlockCount u"
    and "unat half < 2" and "unat byte < 4"
  shows "Surface_Get32 b (Surface_Set32 P v32 b u) = v32 \<and>
    Surface_Get16 b half (Surface_Set16 P v16 b half u) = v16 \<and>
    Surface_Get8 b byte (Surface_Set8 P v8 b byte u) = v8 \<and>
    (\<forall>u' \<in> {Surface_Set32 P v32 b u, Surface_Set16 P v16 b half u, Surface_Set8 P v8 b byte u}.
       Surface_ok u' \<and> SurfaceOverrun u' = SurfaceOverrun u \<and> Tracker u' = (Tracker u)[unat b := True] \<and>
       (\<forall>i. i div 4 \<noteq> unat b \<longrightarrow> Data u' ! i = Data u ! i))"
proof -
  note room = Surface_block_room [OF assms(1,3)]
  then have i32: "Surface_index b 0 0 = 4 * unat b" and i16: "Surface_index b half 2 = 4 * unat b + 2 * unat half"
    using assms(4) by (simp_all add: Surface_index_block Surface_index_half)
  have h: "2 * unat half + 2 \<le> 4" using assms(4) by simp
  have out: "i < off \<or> off + n \<le> i" if "i div 4 \<noteq> unat b" "4 * unat b \<le> off" "off + n \<le> 4 * unat b + 4" for i off n
    using div_4_apart [OF that(1)] that(2,3) by auto
  have "Surface_Get32 b (Surface_Set32 P v32 b u) = v32"
    using store_bytes_le32 [of "4 * unat b" "Data u" v32] room
    by (simp add: Surface_Get32_def Surface_Set32_write Surface_write_def i32 Let_def bytes_sum_32)
  moreover have "Surface_Get16 b half (Surface_Set16 P v16 b half u) = v16"
    using store_bytes_le16 [of "4 * unat b + 2 * unat half" "Data u" v16] room h
    by (simp add: Surface_Get16_def Surface_Set16_write Surface_write_def i16 Let_def bytes_sum_16)
  moreover have "Surface_Get8 b byte (Surface_Set8 P v8 b byte u) = v8"
    using room assms(5) by (simp add: Surface_Get8_def Surface_Set8_def Surface_write_def lola_consts)
  moreover have "Surface_ok u' \<and> SurfaceOverrun u' = SurfaceOverrun u \<and> Tracker u' = (Tracker u)[unat b := True] \<and>
       (\<forall>i. i div 4 \<noteq> unat b \<longrightarrow> Data u' ! i = Data u ! i)"
    if u': "u' = Surface_SetBit P (unat b) (Surface_write off bs u)"
      and off: "4 * unat b \<le> off" "off + length bs \<le> 4 * unat b + 4" for u' off bs
    using assms(1,2) room off out nth_store_outside [of _ off bs "Data u"]
    by (auto simp: u' Surface_ok_def Surface_write_def)
  ultimately show ?thesis
    using h assms(5)
    by (simp add: Surface_Set32_write Surface_Set16_write Surface_Set8_def i32 i16 lola_consts)
qed

theorem surface_set_get_witness:
  "Surface_Get32 1 (Surface_Set32 sample_platform 0xA1B2C3D4 1 (Surface_new 2)) = 0xA1B2C3D4"
  by (rule surface_set_get [where half = 1 and byte = 3, THEN conjunct1])
     (simp_all add: Surface_new_ok tracker_ok_sample [unfolded sample_platform_fields], simp add: Surface_new_def)

end
