(* ===== verification/Sync_Base.thy ===== *)
theory Sync_Base
  imports Send_Service Tracked_Surface
begin

text \<open>
  \<open>src/src/Services/SyncSurface\<close>: what the writer and the reader of a synchronised surface share
  (\<open>AbstractSync.h\<close>, \<open>SyncSurfaceBase.h\<close>, \<open>SyncPacketDefinitions.h\<close>). The surface belongs to the
  service here; a change of it made by the application is \<open>Sync_SurfaceChanged\<close>, which stores the
  new surface and fires the slot the service attached to it.
\<close>

section \<open>Constants and packet definitions\<close>

definition ABSTRACT_SURFACE_DEFAULT_HASH :: u8 where
  [lola_consts]: "ABSTRACT_SURFACE_DEFAULT_HASH = 0"

definition ABSTRACT_SURFACE_MAX_ELAPSED_NO_DISCOVERY_MILLIS :: u32 where
  [lola_consts]: "ABSTRACT_SURFACE_MAX_ELAPSED_NO_DISCOVERY_MILLIS = 500"

definition ABSTRACT_SURFACE_FAST_CHECK_PERIOD_MILLIS :: u32 where
  [lola_consts]: "ABSTRACT_SURFACE_FAST_CHECK_PERIOD_MILLIS = 1"

definition ABSTRACT_SURFACE_SLOW_CHECK_PERIOD_MILLIS :: u32 where
  [lola_consts]: "ABSTRACT_SURFACE_SLOW_CHECK_PERIOD_MILLIS = 200"

definition ABSTRACT_SURFACE_SERVICE_DISCOVERY_SEND_PERIOD :: u32 where
  [lola_consts]: "ABSTRACT_SURFACE_SERVICE_DISCOVERY_SEND_PERIOD = 50"

definition ABSTRACT_SURFACE_UPDATE_BACK_OFF_PERIOD_MILLIS :: u32 where
  [lola_consts]: "ABSTRACT_SURFACE_UPDATE_BACK_OFF_PERIOD_MILLIS = 0"

definition ABSTRACT_SURFACE_SYNC_CONFIRM_SEND_PERIOD_MILLIS :: u32 where
  [lola_consts]: "ABSTRACT_SURFACE_SYNC_CONFIRM_SEND_PERIOD_MILLIS = 20"

definition ABSTRACT_SURFACE_SEND_FAILED_RETRY_PERIDO :: u32 where
  [lola_consts]: "ABSTRACT_SURFACE_SEND_FAILED_RETRY_PERIDO = 100"

definition PACKET_DEFINITION_SYNC_META_HEADER_OFFSET :: u8 where
  [lola_consts]: "PACKET_DEFINITION_SYNC_META_HEADER_OFFSET = 0"

definition PACKET_DEFINITION_SYNC_META_PAYLOAD_SIZE :: u8 where
  [lola_consts]: "PACKET_DEFINITION_SYNC_META_PAYLOAD_SIZE = 1"

definition PACKET_DEFINITION_SYNC_DATA_HEADER_OFFSET :: u8 where
  [lola_consts]: "PACKET_DEFINITION_SYNC_DATA_HEADER_OFFSET = 1"

definition PACKET_DEFINITION_SYNC_DATA_PAYLOAD_SIZE :: u8 where
  [lola_consts]: "PACKET_DEFINITION_SYNC_DATA_PAYLOAD_SIZE = 4"

definition SyncDataPacketDefinition :: "u8 \<Rightarrow> PacketDefinition" where
  "SyncDataPacketDefinition baseHeader = \<lparr> Configuration = PACKET_DEFINITION_MASK_BASIC,
     Header = baseHeader + PACKET_DEFINITION_SYNC_DATA_HEADER_OFFSET,
     PayloadSize = PACKET_DEFINITION_SYNC_DATA_PAYLOAD_SIZE \<rparr>"

definition SyncMetaPacketDefinition :: "u8 \<Rightarrow> PacketDefinition" where
  "SyncMetaPacketDefinition baseHeader = \<lparr> Configuration = PACKET_DEFINITION_MASK_BASIC,
     Header = baseHeader + PACKET_DEFINITION_SYNC_META_HEADER_OFFSET,
     PayloadSize = PACKET_DEFINITION_SYNC_META_PAYLOAD_SIZE \<rparr>"

definition SYNC_META_SUB_HEADER_SERVICE_DISCOVERY :: u8 where
  [lola_consts]: "SYNC_META_SUB_HEADER_SERVICE_DISCOVERY = 0"

definition SYNC_META_SUB_HEADER_UPDATE_FINISHED :: u8 where
  [lola_consts]: "SYNC_META_SUB_HEADER_UPDATE_FINISHED = 1"

definition SYNC_META_SUB_HEADER_UPDATE_FINISHED_REPLY :: u8 where
  [lola_consts]: "SYNC_META_SUB_HEADER_UPDATE_FINISHED_REPLY = 2"

definition SYNC_META_SUB_HEADER_INVALIDATE_REQUEST :: u8 where
  [lola_consts]: "SYNC_META_SUB_HEADER_INVALIDATE_REQUEST = 3"

section \<open>State\<close>

datatype SyncStateEnum = WaitingForServiceDiscovery | Syncing | Synced | Disabled

record AbstractSync = IPacketSendService +
  LastRemoteHash :: u8
  RemoteHashIsSet :: bool
  StateStartTime :: u32
  LastSent :: u32
  SyncState :: SyncStateEnum
  TrackedSurface :: ITrackedSurface
  SyncMetaDefinition :: PacketDefinition
  DataPacketDefinition :: PacketDefinition

record 'w sync_hooks =
  hk_OnStateUpdated :: "platform \<Rightarrow> SyncStateEnum \<Rightarrow> 'w \<Rightarrow> 'w"
  hk_OnWaitingForServiceDiscovery :: "platform \<Rightarrow> 'w \<Rightarrow> 'w"
  hk_OnSyncActive :: "platform \<Rightarrow> 'w \<Rightarrow> 'w"
  hk_OnBlockReceived :: "platform \<Rightarrow> u8 \<Rightarrow> u8 list \<Rightarrow> 'w \<Rightarrow> 'w"
  hk_OnUpdateFinishedReceived :: "platform \<Rightarrow> 'w \<Rightarrow> 'w"
  hk_OnServiceDiscoveryReceived :: "platform \<Rightarrow> 'w \<Rightarrow> 'w"
  hk_OnUpdateFinishedReplyReceived :: "platform \<Rightarrow> 'w \<Rightarrow> 'w"
  hk_OnInvalidateRequestReceived :: "platform \<Rightarrow> 'w \<Rightarrow> 'w"

definition on_surface ::
  "(ITrackedSurface \<Rightarrow> ITrackedSurface) \<Rightarrow> 'a AbstractSync_scheme \<Rightarrow> 'a AbstractSync_scheme" where
  "on_surface f s = s\<lparr>TrackedSurface := f (TrackedSurface s)\<rparr>"

definition Sync_construct ::
  "bool \<Rightarrow> ITrackedSurface \<Rightarrow> u8 \<Rightarrow> 'a AbstractSync_scheme \<Rightarrow> 'a AbstractSync_scheme" where
  "Sync_construct hasDriver surface baseHeader s =
     Send_construct (ucast ABSTRACT_SURFACE_FAST_CHECK_PERIOD_MILLIS) hasDriver
       (LoLaPacket_new (LOLA_PACKET_MIN_PACKET_SIZE + unat PACKET_DEFINITION_SYNC_DATA_PAYLOAD_SIZE))
       (s\<lparr>LastRemoteHash := ABSTRACT_SURFACE_DEFAULT_HASH, RemoteHashIsSet := False,
          StateStartTime := ILOLA_INVALID_MILLIS, LastSent := ILOLA_INVALID_MILLIS,
          SyncState := Disabled, TrackedSurface := surface,
          SyncMetaDefinition := SyncMetaPacketDefinition baseHeader,
          DataPacketDefinition := SyncDataPacketDefinition baseHeader\<rparr>)"

section \<open>AbstractSync.h\<close>

definition Sync_IsSynced :: "'a AbstractSync_scheme \<Rightarrow> bool" where
  "Sync_IsSynced s \<longleftrightarrow> SyncState s = Synced"

definition Sync_OnSendFailed :: "platform \<Rightarrow> 'a AbstractSync_scheme \<Rightarrow> 'a AbstractSync_scheme" where
  "Sync_OnSendFailed P s = Service_SetNextRunDelay ABSTRACT_SURFACE_SEND_FAILED_RETRY_PERIDO s"

definition Sync_SetRemoteHash :: "u8 \<Rightarrow> 'a AbstractSync_scheme \<Rightarrow> 'a AbstractSync_scheme" where
  "Sync_SetRemoteHash remoteHash s = s\<lparr>RemoteHashIsSet := True, LastRemoteHash := remoteHash\<rparr>"

definition Sync_HasRemoteHash :: "'a AbstractSync_scheme \<Rightarrow> bool" where
  "Sync_HasRemoteHash s = RemoteHashIsSet s"

definition Sync_GetLocalHash :: "'a AbstractSync_scheme \<Rightarrow> u8" where
  "Sync_GetLocalHash s = Surface_GetHash (TrackedSurface s)"

definition Sync_HashesMatch :: "'a AbstractSync_scheme \<Rightarrow> bool" where
  "Sync_HashesMatch s \<longleftrightarrow> Sync_HasRemoteHash s \<and> Sync_GetLocalHash s = LastRemoteHash s"

definition Sync_UpdateLocalHash :: "platform \<Rightarrow> 'a AbstractSync_scheme \<Rightarrow> 'a AbstractSync_scheme" where
  "Sync_UpdateLocalHash P s = on_surface (Surface_UpdateHash P) s"

definition Sync_InvalidateLocalHash :: "'a AbstractSync_scheme \<Rightarrow> 'a AbstractSync_scheme" where
  "Sync_InvalidateLocalHash s = on_surface Surface_InvalidateHash s"

definition Sync_InvalidateRemoteHash :: "'a AbstractSync_scheme \<Rightarrow> 'a AbstractSync_scheme" where
  "Sync_InvalidateRemoteHash s =
     s\<lparr>LastRemoteHash := ABSTRACT_SURFACE_DEFAULT_HASH, RemoteHashIsSet := False\<rparr>"

definition Sync_GetElapsedSinceStateStart :: "platform \<Rightarrow> 'a AbstractSync_scheme \<Rightarrow> u32" where
  "Sync_GetElapsedSinceStateStart P s =
     (if StateStartTime s \<noteq> ILOLA_INVALID_MILLIS then millis_now P - StateStartTime s
      else ILOLA_INVALID_MILLIS)"

definition Sync_ResetLastSentTimeStamp :: "'a AbstractSync_scheme \<Rightarrow> 'a AbstractSync_scheme" where
  "Sync_ResetLastSentTimeStamp s = s\<lparr>LastSent := ILOLA_INVALID_MILLIS\<rparr>"

definition Sync_GetElapsedSinceLastSent :: "platform \<Rightarrow> 'a AbstractSync_scheme \<Rightarrow> u32" where
  "Sync_GetElapsedSinceLastSent P s =
     (if LastSent s = ILOLA_INVALID_MILLIS then ILOLA_INVALID_MILLIS else millis_now P - LastSent s)"

text \<open>\<open>OnEnable\<close> of the class does nothing but agree, \<open>OnDisable\<close> does nothing.\<close>

definition Sync_Enable :: "'a AbstractSync_scheme \<Rightarrow> 'a AbstractSync_scheme" where
  "Sync_Enable s = Service_Enable (\<lambda>s. (True, s)) s"

definition Sync_Disable :: "'a AbstractSync_scheme \<Rightarrow> 'a AbstractSync_scheme" where
  "Sync_Disable s = Service_Disable (\<lambda>s. s) s"

definition Sync_UpdateSyncState ::
  "(platform \<Rightarrow> SyncStateEnum \<Rightarrow> 'a AbstractSync_scheme \<Rightarrow> 'a AbstractSync_scheme) \<Rightarrow>
   platform \<Rightarrow> SyncStateEnum \<Rightarrow> 'a AbstractSync_scheme \<Rightarrow> 'a AbstractSync_scheme" where
  "Sync_UpdateSyncState onStateUpdated P newState s =
     (if SyncState s \<noteq> newState then
        let s1 = Sync_Enable (Service_SetNextRunASAP (Sync_ResetLastSentTimeStamp
                   (s\<lparr>StateStartTime := millis_now P\<rparr>)));
            s2 = (case newState of
                    Syncing \<Rightarrow> Sync_InvalidateLocalHash s1
                  | Synced \<Rightarrow> Sync_InvalidateLocalHash s1
                  | _ \<Rightarrow> s1)
        in onStateUpdated P newState (s2\<lparr>SyncState := newState\<rparr>)
      else s)"

definition Sync_SurfaceDataChangedEvent ::
  "(platform \<Rightarrow> SyncStateEnum \<Rightarrow> 'a AbstractSync_scheme \<Rightarrow> 'a AbstractSync_scheme) \<Rightarrow>
   platform \<Rightarrow> 'a AbstractSync_scheme \<Rightarrow> 'a AbstractSync_scheme" where
  "Sync_SurfaceDataChangedEvent onStateUpdated P s =
     (let s1 = Sync_InvalidateLocalHash s
      in if SyncState s1 = Synced then Sync_UpdateSyncState onStateUpdated P Syncing s1 else s1)"

text \<open>\<open>NotifyDataChanged\<close> fires the signal of the surface, to which the service is attached.\<close>

definition Sync_NotifyDataChanged ::
  "(platform \<Rightarrow> SyncStateEnum \<Rightarrow> 'a AbstractSync_scheme \<Rightarrow> 'a AbstractSync_scheme) \<Rightarrow>
   platform \<Rightarrow> 'a AbstractSync_scheme \<Rightarrow> 'a AbstractSync_scheme" where
  "Sync_NotifyDataChanged onStateUpdated P s = Sync_SurfaceDataChangedEvent onStateUpdated P s"

definition Sync_SurfaceChanged ::
  "(platform \<Rightarrow> SyncStateEnum \<Rightarrow> 'a AbstractSync_scheme \<Rightarrow> 'a AbstractSync_scheme) \<Rightarrow>
   platform \<Rightarrow> ITrackedSurface \<Rightarrow> 'a AbstractSync_scheme \<Rightarrow> 'a AbstractSync_scheme" where
  "Sync_SurfaceChanged onStateUpdated P u s =
     Sync_SurfaceDataChangedEvent onStateUpdated P (s\<lparr>TrackedSurface := u\<rparr>)"

definition Sync_OnLinkEstablished ::
  "'a AbstractSync_scheme sync_hooks \<Rightarrow> platform \<Rightarrow> 'a AbstractSync_scheme \<Rightarrow> 'a AbstractSync_scheme" where
  "Sync_OnLinkEstablished H P s =
     Sync_UpdateSyncState (hk_OnStateUpdated H) P WaitingForServiceDiscovery s"

definition Sync_OnLinkLost ::
  "'a AbstractSync_scheme sync_hooks \<Rightarrow> platform \<Rightarrow> 'a AbstractSync_scheme \<Rightarrow> 'a AbstractSync_scheme" where
  "Sync_OnLinkLost H P s = Sync_UpdateSyncState (hk_OnStateUpdated H) P Disabled s"

text \<open>The packet holder and the surface are members, their pointers are never null.\<close>

definition Sync_OnSetup :: "'a AbstractSync_scheme \<Rightarrow> bool \<times> 'a AbstractSync_scheme" where
  "Sync_OnSetup s = (True, s)"

definition Sync_OnService ::
  "'a AbstractSync_scheme sync_hooks \<Rightarrow> platform \<Rightarrow> 'a AbstractSync_scheme \<Rightarrow> 'a AbstractSync_scheme" where
  "Sync_OnService H P s0 =
     (let s = Sync_UpdateLocalHash P s0
      in case SyncState s of
           WaitingForServiceDiscovery \<Rightarrow> hk_OnWaitingForServiceDiscovery H P s
         | Syncing \<Rightarrow> hk_OnSyncActive H P s
         | Synced \<Rightarrow> Service_SetNextRunLong s
         | Disabled \<Rightarrow> Sync_Disable s)"

section \<open>SyncSurfaceBase.h\<close>

definition Sync_OnAddPacketMap ::
  "'a AbstractSync_scheme \<Rightarrow> (bool \<times> 'a AbstractSync_scheme) option" where
  "Sync_OnAddPacketMap s = Service_AddMappings [SyncMetaDefinition s, DataPacketDefinition s] s"

definition Sync_ProcessPacket ::
  "'a AbstractSync_scheme sync_hooks \<Rightarrow> platform \<Rightarrow> LoLaPacket \<Rightarrow>
   'a AbstractSync_scheme \<Rightarrow> bool \<times> 'a AbstractSync_scheme" where
  "Sync_ProcessPacket H P incomingPacket s =
     (if LoLaPacket_GetDataHeader incomingPacket = Header (DataPacketDefinition s) then
        (True, hk_OnBlockReceived H P (LoLaPacket_GetId incomingPacket) (LoLaPacket_GetPayload incomingPacket) s)
      else if LoLaPacket_GetDataHeader incomingPacket = Header (SyncMetaDefinition s) then
        let s1 = Sync_SetRemoteHash (LoLaPacket_GetPayload incomingPacket ! 0) s;
            i = LoLaPacket_GetId incomingPacket
        in (True,
            if i = SYNC_META_SUB_HEADER_UPDATE_FINISHED then hk_OnUpdateFinishedReceived H P s1
            else if i = SYNC_META_SUB_HEADER_UPDATE_FINISHED_REPLY then hk_OnUpdateFinishedReplyReceived H P s1
            else if i = SYNC_META_SUB_HEADER_INVALIDATE_REQUEST then hk_OnInvalidateRequestReceived H P s1
            else if i = SYNC_META_SUB_HEADER_SERVICE_DISCOVERY then hk_OnServiceDiscoveryReceived H P s1
            else s1)
      else (False, s))"

text \<open>The offsets are bytes; \<open>Surface_write\<close> records a block outside the surface.\<close>

definition Sync_block_offset :: "u8 \<Rightarrow> nat" where
  "Sync_block_offset blockIndex = unat (blockIndex * of_nat SYNC_SURFACE_BLOCK_SIZE)"

definition Sync_UpdateBlockData :: "u8 \<Rightarrow> u8 list \<Rightarrow> 'a AbstractSync_scheme \<Rightarrow> 'a AbstractSync_scheme" where
  "Sync_UpdateBlockData blockIndex payload s =
     on_surface (Surface_write (Sync_block_offset blockIndex) (take SYNC_SURFACE_BLOCK_SIZE payload)) s"

definition Sync_PrepareBlockPacketPayload :: "u8 \<Rightarrow> 'a AbstractSync_scheme \<Rightarrow> 'a AbstractSync_scheme" where
  "Sync_PrepareBlockPacketPayload index s =
     (let u = TrackedSurface s; off = Sync_block_offset index
      in s\<lparr>Packet := LoLaPacket_SetPayload 0 (take SYNC_SURFACE_BLOCK_SIZE (drop off (Data u))) (Packet s),
           TrackedSurface := u\<lparr>SurfaceOverrun :=
             SurfaceOverrun u \<or> length (Data u) < off + SYNC_SURFACE_BLOCK_SIZE\<rparr>\<rparr>)"

definition Sync_PrepareMetaPacket :: "platform \<Rightarrow> u8 \<Rightarrow> 'a AbstractSync_scheme \<Rightarrow> 'a AbstractSync_scheme" where
  "Sync_PrepareMetaPacket P subHeader s =
     (let s1 = s\<lparr>Packet := LoLaPacket_SetId subHeader
                   (snd (LoLaPacket_SetDefinition (Some (SyncMetaDefinition s)) (Packet s)))\<rparr>;
          s2 = Sync_UpdateLocalHash P s1
      in s2\<lparr>Packet := LoLaPacket_SetPayload 0 [Sync_GetLocalHash s2] (Packet s2)\<rparr>)"

definition Sync_PrepareUpdateFinishedPacket :: "platform \<Rightarrow> 'a AbstractSync_scheme \<Rightarrow> 'a AbstractSync_scheme" where
  "Sync_PrepareUpdateFinishedPacket P = Sync_PrepareMetaPacket P SYNC_META_SUB_HEADER_UPDATE_FINISHED"

definition Sync_PrepareBlockPacketHeader :: "u8 \<Rightarrow> 'a AbstractSync_scheme \<Rightarrow> bool \<times> 'a AbstractSync_scheme" where
  "Sync_PrepareBlockPacketHeader index s =
     (if index < BlockCount (TrackedSurface s)
      then (True, s\<lparr>Packet := LoLaPacket_SetId index
             (snd (LoLaPacket_SetDefinition (Some (DataPacketDefinition s)) (Packet s)))\<rparr>)
      else (False, s))"

definition Sync_PrepareServiceDiscoveryPacket :: "platform \<Rightarrow> 'a AbstractSync_scheme \<Rightarrow> 'a AbstractSync_scheme" where
  "Sync_PrepareServiceDiscoveryPacket P = Sync_PrepareMetaPacket P SYNC_META_SUB_HEADER_SERVICE_DISCOVERY"

definition Sync_PrepareUpdateFinishedReplyPacket ::
  "platform \<Rightarrow> 'a AbstractSync_scheme \<Rightarrow> 'a AbstractSync_scheme" where
  "Sync_PrepareUpdateFinishedReplyPacket P = Sync_PrepareMetaPacket P SYNC_META_SUB_HEADER_UPDATE_FINISHED_REPLY"

definition Sync_PrepareInvalidateRequestPacket ::
  "platform \<Rightarrow> 'a AbstractSync_scheme \<Rightarrow> 'a AbstractSync_scheme" where
  "Sync_PrepareInvalidateRequestPacket P = Sync_PrepareMetaPacket P SYNC_META_SUB_HEADER_INVALIDATE_REQUEST"

section \<open>What these operations leave alone\<close>

lemma drv_sync_simps [simp]:
  "drv (Sync_Enable s) = drv s" "drv (Sync_Disable s) = drv s"
  "drv (on_surface f s) = drv s"
  "drv (Sync_UpdateLocalHash P s) = drv s" "drv (Sync_InvalidateLocalHash s) = drv s"
  "drv (Sync_InvalidateRemoteHash s) = drv s" "drv (Sync_ResetLastSentTimeStamp s) = drv s"
  "drv (Sync_SetRemoteHash h s) = drv s" "drv (Sync_UpdateBlockData i bs s) = drv s"
  "drv (Sync_PrepareBlockPacketPayload i s) = drv s" "drv (Sync_PrepareMetaPacket P h s) = drv s"
  "drv (snd (Sync_PrepareBlockPacketHeader i s)) = drv s"
  "drv (Send_RequestSendPacket P t a s) = drv s"
  by (simp_all add: Sync_Enable_def Sync_Disable_def Service_Enable_def Service_Disable_def on_surface_def
      Sync_UpdateLocalHash_def Sync_InvalidateLocalHash_def Sync_InvalidateRemoteHash_def
      Sync_ResetLastSentTimeStamp_def Sync_SetRemoteHash_def Sync_UpdateBlockData_def
      Sync_PrepareBlockPacketPayload_def Sync_PrepareMetaPacket_def Sync_PrepareBlockPacketHeader_def
      Send_RequestSendPacket_def Service_SetNextRunASAP_def Let_def)

lemma drv_UpdateSyncState:
  assumes "\<And>st s. drv (f P st s) = drv s"
  shows "drv (Sync_UpdateSyncState f P st s) = drv s"
  by (simp add: Sync_UpdateSyncState_def assms Let_def split: SyncStateEnum.split)

lemma drv_NotifyDataChanged:
  assumes "\<And>st s. drv (f P st s) = drv s"
  shows "drv (Sync_NotifyDataChanged f P s) = drv s"
proof -
  have "drv (Sync_UpdateSyncState f P st s) = drv s" for st s
    by (rule drv_UpdateSyncState) (rule assms)
  then show ?thesis
    by (simp add: Sync_NotifyDataChanged_def Sync_SurfaceDataChangedEvent_def Let_def)
qed

text \<open>
  A surface service is a \<open>node_service\<close> as soon as its reactions to a packet leave the driver
  alone, which both of them do: what they have to send goes out from their own callback.
\<close>

definition sync_hooks_quiet :: "'a AbstractSync_scheme sync_hooks \<Rightarrow> bool" where
  "sync_hooks_quiet H \<longleftrightarrow> (\<forall>P i bs s. drv (hk_OnBlockReceived H P i bs s) = drv s) \<and>
     (\<forall>P s. drv (hk_OnUpdateFinishedReceived H P s) = drv s \<and>
        drv (hk_OnServiceDiscoveryReceived H P s) = drv s \<and>
        drv (hk_OnUpdateFinishedReplyReceived H P s) = drv s \<and>
        drv (hk_OnInvalidateRequestReceived H P s) = drv s)"

lemma drv_Sync_ProcessPacket:
  "sync_hooks_quiet H \<Longrightarrow> drv (snd (Sync_ProcessPacket H P p s)) = drv s"
  by (simp add: Sync_ProcessPacket_def sync_hooks_quiet_def Let_def)

lemma drv_Send_Process [simp]:
  "drv (snd (Send_ProcessSent h s)) = drv s" "drv (snd (Send_ProcessAck h i s)) = drv s"
  by (simp_all add: Send_ProcessSent_def Send_ProcessAck_def)

end
