(* ===== verification/Sync_Writer.thy ===== *)
theory Sync_Writer
  imports Sync_Base
begin

text \<open>\<open>src/src/Services/SyncSurface/SyncSurfaceWriter.h\<close>: the end that owns the data.\<close>

datatype SyncWriterState = UpdatingBlocks | SendingBlock | SendingFinished

record SyncSurfaceWriter = AbstractSync +
  WriterState :: SyncWriterState
  SurfaceSendingIndex :: u8

definition Writer_construct ::
  "bool \<Rightarrow> ITrackedSurface \<Rightarrow> u8 \<Rightarrow> 'a SyncSurfaceWriter_scheme \<Rightarrow> 'a SyncSurfaceWriter_scheme" where
  "Writer_construct hasDriver surface baseHeader s =
     Sync_construct hasDriver surface baseHeader
       (s\<lparr>WriterState := UpdatingBlocks, SurfaceSendingIndex := 0\<rparr>)"

definition Writer_OnSendOk ::
  "platform \<Rightarrow> u8 \<Rightarrow> u32 \<Rightarrow> 'a SyncSurfaceWriter_scheme \<Rightarrow> 'a SyncSurfaceWriter_scheme" where
  "Writer_OnSendOk P header sendDuration s =
     Service_SetNextRunASAP
       (if SyncState s = Syncing \<and> WriterState s = SendingBlock then
          (on_surface (Surface_ClearBit P (unat (SurfaceSendingIndex s))) s)
            \<lparr>SurfaceSendingIndex := SurfaceSendingIndex s + 1\<rparr>
        else s)"

definition Writer_UpdateSyncingState ::
  "SyncWriterState \<Rightarrow> 'a SyncSurfaceWriter_scheme \<Rightarrow> 'a SyncSurfaceWriter_scheme" where
  "Writer_UpdateSyncingState newState s =
     (if WriterState s \<noteq> newState then
        let s1 = Sync_ResetLastSentTimeStamp (Service_SetNextRunASAP s);
            s2 = (if newState = SendingBlock then Sync_InvalidateRemoteHash s1 else s1)
        in s2\<lparr>WriterState := newState\<rparr>
      else s)"

text \<open>The first case of the switch falls through to the second.\<close>

definition Writer_OnStateUpdated ::
  "platform \<Rightarrow> SyncStateEnum \<Rightarrow> 'a SyncSurfaceWriter_scheme \<Rightarrow> 'a SyncSurfaceWriter_scheme" where
  "Writer_OnStateUpdated P newState s =
     (case newState of
        WaitingForServiceDiscovery \<Rightarrow>
          Writer_UpdateSyncingState UpdatingBlocks (Sync_Disable (Sync_InvalidateRemoteHash s))
      | Syncing \<Rightarrow> Writer_UpdateSyncingState UpdatingBlocks s
      | _ \<Rightarrow> s)"

abbreviation Writer_UpdateSyncState ::
  "platform \<Rightarrow> SyncStateEnum \<Rightarrow> 'a SyncSurfaceWriter_scheme \<Rightarrow> 'a SyncSurfaceWriter_scheme" where
  "Writer_UpdateSyncState \<equiv> Sync_UpdateSyncState Writer_OnStateUpdated"

definition Writer_OnServiceDiscoveryReceived ::
  "platform \<Rightarrow> 'a SyncSurfaceWriter_scheme \<Rightarrow> 'a SyncSurfaceWriter_scheme" where
  "Writer_OnServiceDiscoveryReceived P s =
     (case SyncState s of
        Syncing \<Rightarrow> s
      | Disabled \<Rightarrow> s
      | _ \<Rightarrow> Writer_UpdateSyncState P Syncing s)"

definition Writer_OnWaitingForServiceDiscovery ::
  "platform \<Rightarrow> 'a SyncSurfaceWriter_scheme \<Rightarrow> 'a SyncSurfaceWriter_scheme" where
  "Writer_OnWaitingForServiceDiscovery P s = Sync_Disable s"

definition Writer_OnUpdateFinishedReplyReceived ::
  "platform \<Rightarrow> 'a SyncSurfaceWriter_scheme \<Rightarrow> 'a SyncSurfaceWriter_scheme" where
  "Writer_OnUpdateFinishedReplyReceived P s0 =
     (let s = Sync_UpdateLocalHash P s0
      in case SyncState s of
           Syncing \<Rightarrow>
             (if WriterState s = SendingFinished then
                if Surface_HasSet P (TrackedSurface s) then Writer_UpdateSyncingState UpdatingBlocks s
                else if Sync_HashesMatch s then Writer_UpdateSyncState P Synced s
                else Writer_UpdateSyncingState UpdatingBlocks (on_surface (Surface_SetAllPending P) s)
              else s)
         | Synced \<Rightarrow>
             (if \<not> Sync_HashesMatch s
              then Writer_UpdateSyncState P Syncing (on_surface (Surface_SetAllPending P) s) else s)
         | _ \<Rightarrow> s)"

definition Writer_OnInvalidateRequestReceived ::
  "platform \<Rightarrow> 'a SyncSurfaceWriter_scheme \<Rightarrow> 'a SyncSurfaceWriter_scheme" where
  "Writer_OnInvalidateRequestReceived P s =
     (case SyncState s of
        Syncing \<Rightarrow> Writer_UpdateSyncingState UpdatingBlocks (on_surface (Surface_SetAllPending P) s)
      | Synced \<Rightarrow> Writer_UpdateSyncState P Syncing (on_surface (Surface_SetAllPending P) s)
      | _ \<Rightarrow> s)"

definition Writer_UpdatePendingBlockPacketPayload ::
  "'a SyncSurfaceWriter_scheme \<Rightarrow> 'a SyncSurfaceWriter_scheme" where
  "Writer_UpdatePendingBlockPacketPayload s = Sync_PrepareBlockPacketPayload (SurfaceSendingIndex s) s"

definition Writer_PrepareNextPendingBlockPacket ::
  "platform \<Rightarrow> 'a SyncSurfaceWriter_scheme \<Rightarrow> 'a SyncSurfaceWriter_scheme" where
  "Writer_PrepareNextPendingBlockPacket P s =
     (let u = TrackedSurface s;
          start = (if BlockCount u \<le> SurfaceSendingIndex s then 0 else SurfaceSendingIndex s);
          index = of_nat (bt_next_set_index (tracker P) (unat start) (Tracker u));
          s1 = s\<lparr>SurfaceSendingIndex := index\<rparr>
      in Sync_PrepareBlockPacketPayload index (snd (Sync_PrepareBlockPacketHeader index s1)))"

definition Writer_OnSyncActive ::
  "platform \<Rightarrow> 'a SyncSurfaceWriter_scheme \<Rightarrow> 'a SyncSurfaceWriter_scheme" where
  "Writer_OnSyncActive P s =
     (case WriterState s of
        UpdatingBlocks \<Rightarrow>
          (if Surface_HasSet P (TrackedSurface s) then
             Writer_UpdateSyncingState SendingBlock
               (Send_RequestSendPacketDefault P (Writer_PrepareNextPendingBlockPacket P s))
           else
             Service_SetNextRunDelay ABSTRACT_SURFACE_SYNC_CONFIRM_SEND_PERIOD_MILLIS
               (Sync_ResetLastSentTimeStamp (Writer_UpdateSyncingState SendingFinished s)))
      | SendingBlock \<Rightarrow>
          Service_SetNextRunDelay ABSTRACT_SURFACE_UPDATE_BACK_OFF_PERIOD_MILLIS
            (Writer_UpdateSyncingState UpdatingBlocks s)
      | SendingFinished \<Rightarrow>
          (if Surface_HasSet P (TrackedSurface s) then Writer_UpdateSyncingState UpdatingBlocks s
           else if ABSTRACT_SURFACE_SYNC_CONFIRM_SEND_PERIOD_MILLIS < Sync_GetElapsedSinceLastSent P s then
             Send_RequestSendPacketDefault P (Sync_PrepareUpdateFinishedPacket P s)
           else
             Service_SetNextRunDelay (ABSTRACT_SURFACE_SYNC_CONFIRM_SEND_PERIOD_MILLIS
               - Sync_GetElapsedSinceLastSent P s) s))"

definition Writer_OnSendDelayed :: "platform \<Rightarrow> 'a SyncSurfaceWriter_scheme \<Rightarrow> 'a SyncSurfaceWriter_scheme" where
  "Writer_OnSendDelayed P s =
     (if SyncState s = Syncing \<and> WriterState s = SendingBlock
      then Writer_UpdatePendingBlockPacketPayload s else s)"

definition Writer_OnSendRetrying :: "platform \<Rightarrow> 'a SyncSurfaceWriter_scheme \<Rightarrow> 'a SyncSurfaceWriter_scheme" where
  "Writer_OnSendRetrying P s =
     (if SyncState s = Syncing \<and> WriterState s = SendingBlock
      then Writer_UpdatePendingBlockPacketPayload s else s)"

text \<open>The virtual tables of the class.\<close>

definition Writer_sync_hooks :: "'a SyncSurfaceWriter_scheme sync_hooks" where
  "Writer_sync_hooks = \<lparr> hk_OnStateUpdated = Writer_OnStateUpdated,
     hk_OnWaitingForServiceDiscovery = Writer_OnWaitingForServiceDiscovery,
     hk_OnSyncActive = Writer_OnSyncActive,
     hk_OnBlockReceived = \<lambda>P index payload s. s,
     hk_OnUpdateFinishedReceived = \<lambda>P s. s,
     hk_OnServiceDiscoveryReceived = Writer_OnServiceDiscoveryReceived,
     hk_OnUpdateFinishedReplyReceived = Writer_OnUpdateFinishedReplyReceived,
     hk_OnInvalidateRequestReceived = Writer_OnInvalidateRequestReceived \<rparr>"

definition Writer_send_hooks :: "'a SyncSurfaceWriter_scheme send_hooks" where
  "Writer_send_hooks = Send_default_hooks\<lparr> hk_OnSendOk := Writer_OnSendOk,
     hk_OnSendFailed := Sync_OnSendFailed, hk_OnService := Sync_OnService Writer_sync_hooks,
     hk_OnSendDelayed := Writer_OnSendDelayed, hk_OnSendRetrying := Writer_OnSendRetrying \<rparr>"

definition Writer_Callback :: "platform \<Rightarrow> 'a SyncSurfaceWriter_scheme \<Rightarrow> 'a SyncSurfaceWriter_scheme" where
  "Writer_Callback P = Send_Callback P Writer_send_hooks"

definition Writer_service :: "'a SyncSurfaceWriter_scheme service" where
  "Writer_service = \<lparr> srv_Init = Service_Init Sync_OnAddPacketMap Sync_OnSetup,
     srv_ReceivedPacket = Service_ReceivedPacket Service_ShouldProcessReceived (Sync_ProcessPacket Writer_sync_hooks),
     srv_ReceivedAckedPacket = Service_ReceivedAckedPacket Service_ShouldProcessReceived (\<lambda>P p s. (False, s)),
     srv_ReceivedAck = Service_ReceivedAck Service_ShouldProcessReceived (\<lambda>P. Send_ProcessAck),
     srv_ProcessSent = (\<lambda>P. Send_ProcessSent),
     srv_OnLinkEstablished = Sync_OnLinkEstablished Writer_sync_hooks,
     srv_OnLinkLost = Sync_OnLinkLost Writer_sync_hooks \<rparr>"

section \<open>The contracts of the classes it derives from\<close>

lemma drv_Writer_states [simp]:
  "drv (Writer_UpdateSyncingState ws s) = drv s"
  "drv (Writer_OnStateUpdated P st s) = drv s"
  "drv (Writer_UpdateSyncState P st s) = drv s"
proof -
  show 1: "drv (Writer_UpdateSyncingState ws s) = drv s" for ws and s :: "'a SyncSurfaceWriter_scheme"
    by (simp add: Writer_UpdateSyncingState_def Let_def)
  show 2: "drv (Writer_OnStateUpdated P st s) = drv s" for P st and s :: "'a SyncSurfaceWriter_scheme"
    by (simp add: Writer_OnStateUpdated_def 1 split: SyncStateEnum.split)
  show "drv (Writer_UpdateSyncState P st s) = drv s"
    by (rule drv_UpdateSyncState) (rule 2)
qed

lemma Writer_quiet: "sync_hooks_quiet Writer_sync_hooks"
  by (simp add: sync_hooks_quiet_def Writer_sync_hooks_def Writer_OnServiceDiscoveryReceived_def
      Writer_OnUpdateFinishedReplyReceived_def Writer_OnInvalidateRequestReceived_def Let_def
      split: SyncStateEnum.split)

interpretation writer_service: node_service Writer_service
  by unfold_locales
     (simp_all add: Writer_service_def Service_ReceivedPacket_def Service_ReceivedAckedPacket_def
       Service_ReceivedAck_def drv_Sync_ProcessPacket [OF Writer_quiet])

lemma Writer_pending_frame:
  "send_frame s (Writer_UpdatePendingBlockPacketPayload s)"
  by (simp add: send_frame_def Writer_UpdatePendingBlockPacketPayload_def
      Sync_PrepareBlockPacketPayload_def Let_def)

interpretation writer_send: send_class Writer_send_hooks
proof
  fix s :: "'a SyncSurfaceWriter_scheme" and P h t
  show "send_frame s (hk_OnSendOk Writer_send_hooks P h t s)"
    by (simp add: Writer_send_hooks_def Writer_OnSendOk_def) (simp add: send_frame_def on_surface_def)
  show "send_frame s (hk_OnSendDelayed Writer_send_hooks P s)"
    "send_frame s (hk_OnSendRetrying Writer_send_hooks P s)"
    by (simp_all add: Writer_send_hooks_def Writer_OnSendDelayed_def Writer_OnSendRetrying_def
        Writer_pending_frame)
  show "send_frame s (hk_OnPreSend Writer_send_hooks P s)"
    by (simp add: Writer_send_hooks_def Send_default_hooks_def)
qed

end
