(* ===== verification/Sync_Reader.thy ===== *)
theory Sync_Reader
  imports Sync_Base
begin

text \<open>
  \<open>src/src/Services/SyncSurface/SyncSurfaceReader.h\<close>: the end that mirrors the data. It adds no
  state to the base class.
\<close>

text \<open>
  \<open>OnStateUpdated\<close> can call itself: becoming synced for the first time it notifies the change of
  the surface, the service is attached to that signal, and the event may set the state back to
  \<open>Syncing\<close>. That inner call never notifies, so one nesting is all there is.
\<close>

definition Reader_StateActions ::
  "(platform \<Rightarrow> 'a AbstractSync_scheme \<Rightarrow> 'a AbstractSync_scheme) \<Rightarrow>
   platform \<Rightarrow> SyncStateEnum \<Rightarrow> 'a AbstractSync_scheme \<Rightarrow> 'a AbstractSync_scheme" where
  "Reader_StateActions notify P newState s =
     (case newState of
        Syncing \<Rightarrow> on_surface (Surface_SetAllPending P) s
      | Synced \<Rightarrow>
          (let s1 = Sync_UpdateLocalHash P (Sync_InvalidateLocalHash (on_surface (Surface_ClearAll P) s))
           in if \<not> Surface_IsDataGood (TrackedSurface s1)
              then notify P (on_surface (Surface_SetDataGood True) s1) else s1)
      | Disabled \<Rightarrow> on_surface (Surface_SetDataGood False) s
      | WaitingForServiceDiscovery \<Rightarrow> s)"

definition Reader_OnStateUpdated_nested ::
  "platform \<Rightarrow> SyncStateEnum \<Rightarrow> 'a AbstractSync_scheme \<Rightarrow> 'a AbstractSync_scheme" where
  "Reader_OnStateUpdated_nested = Reader_StateActions (\<lambda>P s. s)"

definition Reader_OnStateUpdated ::
  "platform \<Rightarrow> SyncStateEnum \<Rightarrow> 'a AbstractSync_scheme \<Rightarrow> 'a AbstractSync_scheme" where
  "Reader_OnStateUpdated = Reader_StateActions (Sync_NotifyDataChanged Reader_OnStateUpdated_nested)"

text \<open>The nested version is the method itself wherever a notification can reach it.\<close>

lemma Reader_notify_nested:
  "Sync_NotifyDataChanged Reader_OnStateUpdated P s = Sync_NotifyDataChanged Reader_OnStateUpdated_nested P s"
  by (simp add: Sync_NotifyDataChanged_def Sync_SurfaceDataChangedEvent_def Sync_UpdateSyncState_def
      Reader_OnStateUpdated_def Reader_OnStateUpdated_nested_def Reader_StateActions_def Let_def)

abbreviation Reader_UpdateSyncState ::
  "platform \<Rightarrow> SyncStateEnum \<Rightarrow> 'a AbstractSync_scheme \<Rightarrow> 'a AbstractSync_scheme" where
  "Reader_UpdateSyncState \<equiv> Sync_UpdateSyncState Reader_OnStateUpdated"

definition Reader_OnBlockReceived ::
  "platform \<Rightarrow> u8 \<Rightarrow> u8 list \<Rightarrow> 'a AbstractSync_scheme \<Rightarrow> 'a AbstractSync_scheme" where
  "Reader_OnBlockReceived P index payload s0 =
     (let s = Sync_NotifyDataChanged Reader_OnStateUpdated P
                (on_surface (Surface_ClearBit P (unat index))
                  (Sync_InvalidateLocalHash (Sync_UpdateBlockData index payload s0)))
      in case SyncState s of
           WaitingForServiceDiscovery \<Rightarrow>
             on_surface (Surface_SetDataGood False) (Reader_UpdateSyncState P Syncing s)
         | Synced \<Rightarrow>
             Reader_UpdateSyncState P Syncing
               (on_surface (Surface_ClearBit P (unat index)) (on_surface (Surface_SetAllPending P) s))
         | _ \<Rightarrow> s)"

definition Reader_OnWaitingForServiceDiscovery ::
  "platform \<Rightarrow> 'a AbstractSync_scheme \<Rightarrow> 'a AbstractSync_scheme" where
  "Reader_OnWaitingForServiceDiscovery P s =
     (if ABSTRACT_SURFACE_MAX_ELAPSED_NO_DISCOVERY_MILLIS < Sync_GetElapsedSinceStateStart P s
      then Sync_Disable s
      else if ABSTRACT_SURFACE_SERVICE_DISCOVERY_SEND_PERIOD < Sync_GetElapsedSinceLastSent P s
      then Send_RequestSendPacketDefault P (Sync_PrepareServiceDiscoveryPacket P s)
      else Service_SetNextRunDelay (ABSTRACT_SURFACE_SERVICE_DISCOVERY_SEND_PERIOD
             - Sync_GetElapsedSinceLastSent P s) s)"

definition Reader_OnSyncActive :: "platform \<Rightarrow> 'a AbstractSync_scheme \<Rightarrow> 'a AbstractSync_scheme" where
  "Reader_OnSyncActive P s = Service_SetNextRunDelay ABSTRACT_SURFACE_SLOW_CHECK_PERIOD_MILLIS s"

definition Reader_OnUpdateFinishedReceived ::
  "platform \<Rightarrow> 'a AbstractSync_scheme \<Rightarrow> 'a AbstractSync_scheme" where
  "Reader_OnUpdateFinishedReceived P s0 =
     (let s = Sync_UpdateLocalHash P s0;
          reply = Send_RequestSendPacketDefault P (Sync_PrepareUpdateFinishedReplyPacket P s)
      in case SyncState s of
           Syncing \<Rightarrow> (if Sync_HashesMatch reply then Reader_UpdateSyncState P Synced reply else reply)
         | Synced \<Rightarrow>
             (if Sync_HashesMatch s then reply
              else Reader_UpdateSyncState P Syncing
                     (Send_RequestSendPacketDefault P (Sync_PrepareInvalidateRequestPacket P s)))
         | WaitingForServiceDiscovery \<Rightarrow>
             (if Sync_HashesMatch reply then Reader_UpdateSyncState P Synced reply
              else Reader_UpdateSyncState P Syncing reply)
         | Disabled \<Rightarrow> s)"

definition Reader_sync_hooks :: "'a AbstractSync_scheme sync_hooks" where
  "Reader_sync_hooks = \<lparr> hk_OnStateUpdated = Reader_OnStateUpdated,
     hk_OnWaitingForServiceDiscovery = Reader_OnWaitingForServiceDiscovery,
     hk_OnSyncActive = Reader_OnSyncActive,
     hk_OnBlockReceived = Reader_OnBlockReceived,
     hk_OnUpdateFinishedReceived = Reader_OnUpdateFinishedReceived,
     hk_OnServiceDiscoveryReceived = \<lambda>P s. s,
     hk_OnUpdateFinishedReplyReceived = \<lambda>P s. s,
     hk_OnInvalidateRequestReceived = \<lambda>P s. s \<rparr>"

definition Reader_send_hooks :: "'a AbstractSync_scheme send_hooks" where
  "Reader_send_hooks = Send_default_hooks\<lparr> hk_OnSendFailed := Sync_OnSendFailed,
     hk_OnService := Sync_OnService Reader_sync_hooks \<rparr>"

definition Reader_Callback :: "platform \<Rightarrow> 'a AbstractSync_scheme \<Rightarrow> 'a AbstractSync_scheme" where
  "Reader_Callback P = Send_Callback P Reader_send_hooks"

definition Reader_service :: "'a AbstractSync_scheme service" where
  "Reader_service = \<lparr> srv_Init = Service_Init Sync_OnAddPacketMap Sync_OnSetup,
     srv_ReceivedPacket = Service_ReceivedPacket Service_ShouldProcessReceived (Sync_ProcessPacket Reader_sync_hooks),
     srv_ReceivedAckedPacket = Service_ReceivedAckedPacket Service_ShouldProcessReceived (\<lambda>P p s. (False, s)),
     srv_ReceivedAck = Service_ReceivedAck Service_ShouldProcessReceived (\<lambda>P. Send_ProcessAck),
     srv_ProcessSent = (\<lambda>P. Send_ProcessSent),
     srv_OnLinkEstablished = Sync_OnLinkEstablished Reader_sync_hooks,
     srv_OnLinkLost = Sync_OnLinkLost Reader_sync_hooks \<rparr>"

section \<open>The contracts of the classes it derives from\<close>

lemma drv_Reader_states [simp]:
  "drv (Reader_OnStateUpdated P st s) = drv s"
  "drv (Reader_UpdateSyncState P st s) = drv s"
  "drv (Sync_NotifyDataChanged Reader_OnStateUpdated P s) = drv s"
proof -
  have act: "drv (Reader_StateActions f P st s) = drv s" if "\<And>s. drv (f P s) = drv s"
    for f P st and s :: "'a AbstractSync_scheme"
    by (simp add: Reader_StateActions_def that Let_def split: SyncStateEnum.split)
  have n: "drv (Reader_OnStateUpdated_nested P st s) = drv s" for P st and s :: "'a AbstractSync_scheme"
    unfolding Reader_OnStateUpdated_nested_def by (rule act) simp
  show u: "drv (Reader_OnStateUpdated P st s) = drv s" for P st and s :: "'a AbstractSync_scheme"
    unfolding Reader_OnStateUpdated_def by (rule act) (rule drv_NotifyDataChanged, rule n)
  show "drv (Reader_UpdateSyncState P st s) = drv s" by (rule drv_UpdateSyncState) (rule u)
  show "drv (Sync_NotifyDataChanged Reader_OnStateUpdated P s) = drv s"
    by (rule drv_NotifyDataChanged) (rule u)
qed

lemma drv_prepare_meta [simp]:
  "drv (Sync_PrepareUpdateFinishedReplyPacket P s) = drv s"
  "drv (Sync_PrepareInvalidateRequestPacket P s) = drv s"
  "drv (Sync_PrepareServiceDiscoveryPacket P s) = drv s"
  by (simp_all add: Sync_PrepareUpdateFinishedReplyPacket_def Sync_PrepareInvalidateRequestPacket_def
      Sync_PrepareServiceDiscoveryPacket_def)

lemma Reader_quiet: "sync_hooks_quiet Reader_sync_hooks"
  by (simp add: sync_hooks_quiet_def Reader_sync_hooks_def Reader_OnBlockReceived_def
      Reader_OnUpdateFinishedReceived_def Let_def split: SyncStateEnum.split)

interpretation reader_service: node_service Reader_service
  by unfold_locales
     (simp_all add: Reader_service_def Service_ReceivedPacket_def Service_ReceivedAckedPacket_def
       Service_ReceivedAck_def drv_Sync_ProcessPacket [OF Reader_quiet])

interpretation reader_send: send_class Reader_send_hooks
  by unfold_locales (simp_all add: Reader_send_hooks_def Send_default_hooks_def)

end
