(* ===== verification/Sync_Protocol.thy ===== *)
theory Sync_Protocol
  imports Sync_Writer Sync_Reader
begin

text \<open>
  The two ends of a synchronised surface together: the exchange of blocks and hashes that
  \<open>SyncSurfaceWriter.h\<close> and \<open>SyncSurfaceReader.h\<close> carry on over the link. A packet the writer's
  driver has sent (\<open>Packet_Delivery\<close>) is what \<open>ProcessPacket\<close> of the reader gets, and the other way
  round; the confirmation of the transmission is \<open>on_air\<close>.
\<close>

section \<open>Surfaces as blocks\<close>

definition block :: "ITrackedSurface \<Rightarrow> nat \<Rightarrow> u8 list" where
  "block u b = take SYNC_SURFACE_BLOCK_SIZE (drop (SYNC_SURFACE_BLOCK_SIZE * b) (Data u))"

definition pending :: "ITrackedSurface \<Rightarrow> nat" where
  "pending u = length (filter id (Tracker u))"

text \<open>Blocks the writer does not mean to send are the same at the reader.\<close>

definition in_step :: "ITrackedSurface \<Rightarrow> ITrackedSurface \<Rightarrow> bool" where
  "in_step u v \<longleftrightarrow> BlockCount v = BlockCount u \<and>
     (\<forall>b < unat (BlockCount u). Tracker u ! b \<or> block v b = block u b)"

lemma same_blocks:
  assumes "Surface_ok u" and "Surface_ok v" and "BlockCount v = BlockCount u"
    and "\<And>b. b < unat (BlockCount u) \<Longrightarrow> block v b = block u b"
  shows "Data v = Data u"
proof (rule nth_equalityI)
  show l: "length (Data v) = length (Data u)" using assms(1-3) by (simp add: Surface_ok_def)
  fix i assume i: "i < length (Data v)"
  then have "i div 4 < unat (BlockCount u)"
    using assms(1,2,3) by (simp add: Surface_ok_def lola_consts less_mult_imp_div_less)
  from assms(4) [OF this] have "block v (i div 4) ! (i mod 4) = block u (i div 4) ! (i mod 4)" by simp
  moreover have "block x (i div 4) ! (i mod 4) = Data x ! i" if "i < length (Data x)" for x
    using that by (simp add: block_def lola_consts)
  ultimately show "Data v ! i = Data u ! i" using i l by simp
qed

lemma pending_ClearBit:
  assumes "tracker_ok (tracker P)" and "i < length (Tracker u)" and "Tracker u ! i"
  shows "Suc (pending (Surface_ClearBit P i u)) = pending u"
  using filter_update_new [of i "(Tracker u)[i := False]" id True] assms
  by (simp add: pending_def) (metis list_update_id)

lemma pending_0: "tracker_ok (tracker P) \<Longrightarrow> pending u = 0 \<longleftrightarrow> \<not> Surface_HasSet P u"
  by (auto simp: pending_def filter_empty_conv)

lemma pending_none: "pending u = 0 \<Longrightarrow> b < length (Tracker u) \<Longrightarrow> \<not> Tracker u ! b"
proof -
  assume "pending u = 0" and b: "b < length (Tracker u)"
  then have "\<forall>x \<in> set (Tracker u). \<not> x" by (simp add: pending_def filter_empty_conv)
  then show "\<not> Tracker u ! b" using nth_mem [OF b] by blast
qed

lemma length_block: "Surface_ok u \<Longrightarrow> b < unat (BlockCount u) \<Longrightarrow> length (block u b) = SYNC_SURFACE_BLOCK_SIZE"
  by (simp add: block_def Surface_ok_def lola_consts)

lemma block_offset: "b < 32 \<Longrightarrow> Sync_block_offset (of_nat b) = SYNC_SURFACE_BLOCK_SIZE * b"
  by (simp add: Sync_block_offset_def unat_word_ariths unat_of_nat_mod lola_consts)

lemma block_write:
  assumes "Surface_ok u" and "i < unat (BlockCount u)" and "length bs = SYNC_SURFACE_BLOCK_SIZE"
    and "b < unat (BlockCount u)"
  shows "block (Surface_write (SYNC_SURFACE_BLOCK_SIZE * i) bs u) b = (if b = i then bs else block u b)"
proof (cases "b = i")
  case True
  have "4 * i + length bs \<le> length (Data u)" using assms by (simp add: Surface_ok_def lola_consts)
  then show ?thesis using True assms(3) by (simp add: block_def Surface_write_def lola_consts)
next
  case False
  have l: "4 * b + 4 \<le> length (Data u)" using assms(1,4) by (simp add: Surface_ok_def lola_consts)
  have "take 4 (drop (4 * b) (store (4 * i) bs (Data u))) = take 4 (drop (4 * b) (Data u))"
  proof (rule nth_equalityI)
    fix k assume "k < length (take 4 (drop (4 * b) (store (4 * i) bs (Data u))))"
    then have k: "k < 4" by simp
    then have "4 * b + k < 4 * i \<or> 4 * i + length bs \<le> 4 * b + k" using False assms(3) by (simp add: lola_consts) linarith
    then show "take 4 (drop (4 * b) (store (4 * i) bs (Data u))) ! k = take 4 (drop (4 * b) (Data u)) ! k"
      using k l by (simp add: nth_store_outside)
  qed simp
  then show ?thesis using False by (simp add: block_def Surface_write_def lola_consts)
qed

section \<open>Well-formed ends\<close>

text \<open>The boards at both ends run the same libraries: the bit tracker and the CRC.\<close>

definition surface_board :: "(u8 list \<Rightarrow> u8) \<Rightarrow> platform \<Rightarrow> bool" where
  "surface_board crc P \<longleftrightarrow> tracker_ok (tracker P) \<and> crc8_smbus P = crc"

definition hash_current :: "(u8 list \<Rightarrow> u8) \<Rightarrow> ITrackedSurface \<Rightarrow> bool" where
  "hash_current crc u \<longleftrightarrow> HashNeedsUpdate u \<or> LastCRC u = crc (Data u)"

definition sync_wf :: "(u8 list \<Rightarrow> u8) \<Rightarrow> u8 \<Rightarrow> 'a AbstractSync_scheme \<Rightarrow> bool" where
  "sync_wf crc base s \<longleftrightarrow> Surface_ok (TrackedSurface s) \<and> hash_current crc (TrackedSurface s) \<and>
     length (Raw (Packet s)) = 8 \<and> SyncMetaDefinition s = SyncMetaPacketDefinition base \<and>
     DataPacketDefinition s = SyncDataPacketDefinition base"

definition writer_updating :: "(u8 list \<Rightarrow> u8) \<Rightarrow> u8 \<Rightarrow> 'a SyncSurfaceWriter_scheme \<Rightarrow> bool" where
  "writer_updating crc base w \<longleftrightarrow> sync_wf crc base w \<and> SyncState w = Syncing \<and>
     WriterState w = UpdatingBlocks \<and> SendStatus w = Done"

text \<open>A reader that takes part; its data is good only after it was synced once.\<close>

definition reader_ready :: "(u8 list \<Rightarrow> u8) \<Rightarrow> u8 \<Rightarrow> 'a AbstractSync_scheme \<Rightarrow> bool" where
  "reader_ready crc base r \<longleftrightarrow> sync_wf crc base r \<and> SyncState r \<noteq> Disabled \<and>
     (SyncState r = WaitingForServiceDiscovery \<longrightarrow> \<not> Surface_IsDataGood (TrackedSurface r)) \<and>
     (SyncState r = Synced \<longrightarrow> Surface_IsDataGood (TrackedSurface r))"

definition on_air :: "'a IPacketSendService_scheme \<Rightarrow> 'a IPacketSendService_scheme" where
  "on_air s = s\<lparr>SendStatus := SentOk\<rparr>"

lemma UpdateHash_current:
  assumes "Surface_ok u" and "hash_current crc u" and "surface_board crc P"
  shows "LastCRC (Surface_UpdateHash P u) = crc (Data u)"
  using assms by (auto simp: Surface_UpdateHash_def hash_current_def surface_board_def unat_GetDataSize)

section \<open>A block goes over\<close>

definition sync_block ::
  "platform \<Rightarrow> platform \<Rightarrow> 'a SyncSurfaceWriter_scheme \<Rightarrow> 'b AbstractSync_scheme \<Rightarrow>
   'a SyncSurfaceWriter_scheme \<times> 'b AbstractSync_scheme" where
  "sync_block P Q w r =
     (let w1 = Writer_Callback P w;
          r1 = snd (Sync_ProcessPacket Reader_sync_hooks Q (Packet w1) r)
      in (Writer_Callback P (Writer_Callback P (on_air w1)), r1))"

text \<open>The writer's side of it.\<close>

lemma data_packet_fields:
  assumes "length (Raw p) = 8" and "length bs = 4"
  shows "LoLaPacket_GetDataHeader (LoLaPacket_SetPayload 0 bs (LoLaPacket_SetId i
      (snd (LoLaPacket_SetDefinition (Some def) p)))) = Header def"
    and "LoLaPacket_GetId (LoLaPacket_SetPayload 0 bs (LoLaPacket_SetId i
      (snd (LoLaPacket_SetDefinition (Some def) p)))) = i"
    and "LoLaPacket_GetPayload (LoLaPacket_SetPayload 0 bs (LoLaPacket_SetId i
      (snd (LoLaPacket_SetDefinition (Some def) p)))) = bs"
proof -
  obtain a b c d e f g h where p: "Raw p = [a, b, c, d, e, f, g, h]"
    using assms(1) by (auto simp: numeral_eq_Suc length_Suc_conv)
  obtain k l m n where b: "bs = [k, l, m, n]"
    using assms(2) by (auto simp: numeral_eq_Suc length_Suc_conv)
  show "LoLaPacket_GetDataHeader (LoLaPacket_SetPayload 0 bs (LoLaPacket_SetId i
      (snd (LoLaPacket_SetDefinition (Some def) p)))) = Header def"
    "LoLaPacket_GetId (LoLaPacket_SetPayload 0 bs (LoLaPacket_SetId i
      (snd (LoLaPacket_SetDefinition (Some def) p)))) = i"
    "LoLaPacket_GetPayload (LoLaPacket_SetPayload 0 bs (LoLaPacket_SetId i
      (snd (LoLaPacket_SetDefinition (Some def) p)))) = bs"
    by (simp_all add: packet_accessor_defs p b lola_consts numeral_eq_Suc)
qed

lemma meta_packet_fields:
  assumes "length (Raw p) = 8"
  shows "LoLaPacket_GetDataHeader (LoLaPacket_SetPayload 0 [x] (LoLaPacket_SetId i
      (snd (LoLaPacket_SetDefinition (Some def) p)))) = Header def"
    and "LoLaPacket_GetId (LoLaPacket_SetPayload 0 [x] (LoLaPacket_SetId i
      (snd (LoLaPacket_SetDefinition (Some def) p)))) = i"
    and "LoLaPacket_GetPayload (LoLaPacket_SetPayload 0 [x] (LoLaPacket_SetId i
      (snd (LoLaPacket_SetDefinition (Some def) p)))) ! 0 = x"
proof -
  obtain a b c d e f g h where p: "Raw p = [a, b, c, d, e, f, g, h]"
    using assms(1) by (auto simp: numeral_eq_Suc length_Suc_conv)
  show "LoLaPacket_GetDataHeader (LoLaPacket_SetPayload 0 [x] (LoLaPacket_SetId i
      (snd (LoLaPacket_SetDefinition (Some def) p)))) = Header def"
    "LoLaPacket_GetId (LoLaPacket_SetPayload 0 [x] (LoLaPacket_SetId i
      (snd (LoLaPacket_SetDefinition (Some def) p)))) = i"
    "LoLaPacket_GetPayload (LoLaPacket_SetPayload 0 [x] (LoLaPacket_SetId i
      (snd (LoLaPacket_SetDefinition (Some def) p)))) ! 0 = x"
    by (simp_all add: packet_accessor_defs p lola_consts numeral_eq_Suc)
qed


lemmas sync_steps = Writer_UpdateSyncingState_def Send_RequestSendPacket_def Send_HasSendPending_def
  Service_SetNextRunASAP_def Service_SetNextRunDelay_def Sync_ResetLastSentTimeStamp_def
  Sync_InvalidateRemoteHash_def Sync_UpdateLocalHash_def on_surface_def Send_ClearSendRequest_def

lemma Writer_Callback_done:
  "SendStatus w = Done \<Longrightarrow> SyncState w = Syncing \<Longrightarrow>
    Writer_Callback P w = Writer_OnSyncActive P (Sync_UpdateLocalHash P w)"
  by (simp add: Writer_Callback_def Send_Callback_def Writer_send_hooks_def Sync_OnService_def Writer_sync_hooks_def
      Sync_UpdateLocalHash_def on_surface_def Let_def)

lemma PrepareNext_block:
  assumes "i = bt_next_set_index (tracker P)
      (unat (if BlockCount (TrackedSurface w) \<le> SurfaceSendingIndex w then 0 else SurfaceSendingIndex w))
      (Tracker (TrackedSurface w))"
    and "Surface_ok (TrackedSurface w)" and "i < unat (BlockCount (TrackedSurface w))"
  shows "Writer_PrepareNextPendingBlockPacket P w = w\<lparr>SurfaceSendingIndex := of_nat i,
    Packet := LoLaPacket_SetPayload 0 (block (TrackedSurface w) i) (LoLaPacket_SetId (of_nat i)
      (snd (LoLaPacket_SetDefinition (Some (DataPacketDefinition w)) (Packet w))))\<rparr>"
proof -
  have iu: "i < 32" "unat (of_nat i :: u8) = i" using assms(2,3) by (simp_all add: Surface_ok_def unat_of_nat_mod)
  then have ib: "(of_nat i :: u8) < BlockCount (TrackedSurface w)" using assms(3) by (simp add: word_less_nat_alt)
  have nf: "\<not> length (Data (TrackedSurface w)) < SYNC_SURFACE_BLOCK_SIZE * i + SYNC_SURFACE_BLOCK_SIZE"
    using assms(2,3) by (simp add: Surface_ok_def lola_consts)
  show ?thesis
    unfolding Writer_PrepareNextPendingBlockPacket_def Let_def assms(1) [symmetric]
    using ib nf by (simp add: Sync_PrepareBlockPacketHeader_def Sync_PrepareBlockPacketPayload_def
        block_offset [OF iu(1)] block_def Let_def)
qed

lemma writer_prepares_block:
  assumes w: "writer_updating crc base w" and b: "surface_board crc P"
    and set: "Surface_HasSet P (TrackedSurface w)"
  defines "w1 \<equiv> Writer_Callback P w"
  obtains i where "i < unat (BlockCount (TrackedSurface w))" "Tracker (TrackedSurface w) ! i"
    "LoLaPacket_GetDataHeader (Packet w1) = Header (SyncDataPacketDefinition base)"
    "LoLaPacket_GetId (Packet w1) = of_nat i" "LoLaPacket_GetPayload (Packet w1) = block (TrackedSurface w) i"
    "Definition (Packet w1) = Some (SyncDataPacketDefinition base)"
    "sync_wf crc base w1" "SyncState w1 = Syncing" "WriterState w1 = SendingBlock"
    "SurfaceSendingIndex w1 = of_nat i"
    "Data (TrackedSurface w1) = Data (TrackedSurface w)" "Tracker (TrackedSurface w1) = Tracker (TrackedSurface w)"
    "BlockCount (TrackedSurface w1) = BlockCount (TrackedSurface w)"
proof -
  let ?u = "TrackedSurface w"
  let ?w = "Sync_UpdateLocalHash P w"
  define i where "i = bt_next_set_index (tracker P)
    (unat (if BlockCount (TrackedSurface ?w) \<le> SurfaceSendingIndex ?w then 0 else SurfaceSendingIndex ?w))
    (Tracker (TrackedSurface ?w))"
  have t: "tracker_ok (tracker P)" and ok: "Surface_ok ?u" and cur: "hash_current crc ?u"
    and l: "length (Raw (Packet w)) = 8" and d: "DataPacketDefinition w = SyncDataPacketDefinition base"
    and m: "SyncMetaDefinition w = SyncMetaPacketDefinition base"
    using w b by (simp_all add: writer_updating_def sync_wf_def surface_board_def)
  have "True \<in> set (Tracker ?u)" using set t by simp
  then have "i < length (Tracker ?u) \<and> Tracker ?u ! i"
    using t unfolding tracker_ok_def i_def by (simp add: Sync_UpdateLocalHash_def on_surface_def)
  then have i: "i < unat (BlockCount ?u)" "Tracker ?u ! i" using ok by (simp_all add: Surface_ok_def)
  have lb: "length (block ?u i) = 4" using length_block [OF ok i(1)] by (simp add: lola_consts)
  have ok': "Surface_ok (TrackedSurface ?w)" and i': "i < unat (BlockCount (TrackedSurface ?w))"
    using ok i(1) by (simp_all add: Sync_UpdateLocalHash_def on_surface_def Surface_ok_def)
  have "Surface_HasSet P (TrackedSurface ?w)" "WriterState ?w = UpdatingBlocks"
    using set w by (simp_all add: Sync_UpdateLocalHash_def on_surface_def Surface_HasSet_def writer_updating_def)
  then have w1: "w1 = Writer_UpdateSyncingState SendingBlock
      (Send_RequestSendPacketDefault P (Writer_PrepareNextPendingBlockPacket P ?w))"
    using w by (simp add: w1_def Writer_Callback_done writer_updating_def Writer_OnSyncActive_def)
  note w1 = w1 [unfolded PrepareNext_block [OF i_def ok' i']]
  let ?p = "LoLaPacket_SetPayload 0 (block ?u i) (LoLaPacket_SetId (of_nat i)
      (snd (LoLaPacket_SetDefinition (Some (SyncDataPacketDefinition base)) (Packet w))))"
  have w1: "Packet w1 = ?p" "SyncState w1 = Syncing" "WriterState w1 = SendingBlock"
    "SurfaceSendingIndex w1 = of_nat i" "TrackedSurface w1 = Surface_UpdateHash P ?u"
    "SyncMetaDefinition w1 = SyncMetaPacketDefinition base" "DataPacketDefinition w1 = SyncDataPacketDefinition base"
    unfolding w1 using d m w by (simp_all add: writer_updating_def sync_steps block_def LoLaPacket_SetId_def LoLaPacket_SetPayload_def)
  show thesis
    using w1 lb l ok cur UpdateHash_current [OF ok cur b]
    by (intro that [OF i]) (simp_all add: data_packet_fields sync_wf_def hash_current_def Surface_ok_def)
qed


lemma writer_confirms_block:
  assumes "SyncState w = Syncing" and "WriterState w = SendingBlock" and "SurfaceSendingIndex w = of_nat i" and "i < 32"
    and "Definition (Packet w) = Some (SyncDataPacketDefinition base)" and "sync_wf crc base w" and "surface_board crc P"
  defines "w2 \<equiv> Writer_Callback P (Writer_Callback P (on_air w))"
  shows "writer_updating crc base w2"
    and "TrackedSurface w2 = Surface_UpdateHash P (Surface_ClearBit P i (TrackedSurface w))"
proof -
  have h: "\<not> PacketDefinition_HasACK (SyncDataPacketDefinition base)"
    by (simp add: PacketDefinition_HasACK_def SyncDataPacketDefinition_def lola_consts)
  have i: "unat (of_nat i :: u8) = i" using assms(4) by (simp add: unat_of_nat_mod)
  define w1 where "w1 = Writer_Callback P (on_air w)"
  have w1: "w1 = Send_ClearSendRequest (Writer_OnSendOk P (LoLaPacket_GetDataHeader (Packet w))
      (millis_now P - SendStartMillis w) (on_air w))"
    using assms(5) h by (simp add: w1_def Writer_Callback_def Send_Callback_def on_air_def Send_HasSendPending_def
        Send_sent_ok_def Writer_send_hooks_def Writer_OnSendOk_def on_surface_def Let_def)
  have f: "SendStatus w1 = Done" "SyncState w1 = Syncing" "WriterState w1 = SendingBlock"
      "TrackedSurface w1 = Surface_ClearBit P i (TrackedSurface w)"
      "SyncMetaDefinition w1 = SyncMetaDefinition w" "DataPacketDefinition w1 = DataPacketDefinition w"
      "length (Raw (Packet w1)) = length (Raw (Packet w))"
    unfolding w1 using assms(1-3) i by (simp_all add: Writer_OnSendOk_def sync_steps on_air_def)
  have w2: "w2 = Writer_OnSyncActive P (Sync_UpdateLocalHash P w1)"
    unfolding w2_def w1_def [symmetric] by (rule Writer_Callback_done [OF f(1,2)])
  show t: "TrackedSurface w2 = Surface_UpdateHash P (Surface_ClearBit P i (TrackedSurface w))"
    unfolding w2 using f by (simp add: Writer_OnSyncActive_def sync_steps)
  have ok: "Surface_ok (Surface_ClearBit P i (TrackedSurface w))" "hash_current crc (Surface_ClearBit P i (TrackedSurface w))"
    using assms(6,7) by (simp_all add: sync_wf_def surface_board_def Surface_ok_def hash_current_def)
  have "Surface_ok (TrackedSurface w2)" "hash_current crc (TrackedSurface w2)"
    unfolding t hash_current_def using ok(1) UpdateHash_current [OF ok assms(7)] by (simp_all add: Surface_ok_def)
  then show "writer_updating crc base w2"
    using assms(6) f by (simp add: writer_updating_def sync_wf_def) (simp add: w2 Writer_OnSyncActive_def sync_steps)
qed


text \<open>The reader's side of it.\<close>

lemma Reader_to_Syncing:
  assumes "SyncState r \<noteq> Syncing" and "tracker_ok (tracker Q)"
  shows "TrackedSurface (Reader_UpdateSyncState Q Syncing r) =
      Surface_SetAllPending Q (Surface_InvalidateHash (TrackedSurface r))"
    and "SyncState (Reader_UpdateSyncState Q Syncing r) = Syncing"
    and "Packet (Reader_UpdateSyncState Q Syncing r) = Packet r"
    and "SyncMetaDefinition (Reader_UpdateSyncState Q Syncing r) = SyncMetaDefinition r"
    and "DataPacketDefinition (Reader_UpdateSyncState Q Syncing r) = DataPacketDefinition r"
  using assms by (simp_all add: Sync_UpdateSyncState_def Reader_OnStateUpdated_def Reader_StateActions_def sync_steps
      Sync_InvalidateLocalHash_def Sync_Enable_def Service_Enable_def Let_def)

lemma Notify_to_Syncing:
  fixes r :: "'a AbstractSync_scheme"
  assumes "tracker_ok (tracker Q)"
  defines "t \<equiv> Sync_NotifyDataChanged Reader_OnStateUpdated Q r"
  shows "Data (TrackedSurface t) = Data (TrackedSurface r)" and "HashNeedsUpdate (TrackedSurface t)"
    and "BlockCount (TrackedSurface t) = BlockCount (TrackedSurface r)"
    and "length (Tracker (TrackedSurface t)) = length (Tracker (TrackedSurface r))"
    and "DataGood (TrackedSurface t) = DataGood (TrackedSurface r)"
    and "SyncState t = (if SyncState r = Synced then Syncing else SyncState r)"
    and "Packet t = Packet r" and "SyncMetaDefinition t = SyncMetaDefinition r"
    and "DataPacketDefinition t = DataPacketDefinition r"
  using Reader_to_Syncing [OF _ assms(1), of "Sync_InvalidateLocalHash r"] assms(1)
  by (simp_all add: t_def Sync_NotifyDataChanged_def Sync_SurfaceDataChangedEvent_def Sync_InvalidateLocalHash_def
      on_surface_def Let_def)

lemma reader_takes_block:
  assumes r: "reader_ready crc base r" and Q: "surface_board crc Q"
    and hd: "LoLaPacket_GetDataHeader p = Header (SyncDataPacketDefinition base)"
    and id: "LoLaPacket_GetId p = of_nat i" and i: "i < unat (BlockCount (TrackedSurface r))"
    and pl: "LoLaPacket_GetPayload p = bs" "length bs = SYNC_SURFACE_BLOCK_SIZE"
  defines "t \<equiv> snd (Sync_ProcessPacket Reader_sync_hooks Q p r)"
  shows "reader_ready crc base t" and "SyncState t = Syncing"
    and "Data (TrackedSurface t) = Data (Surface_write (SYNC_SURFACE_BLOCK_SIZE * i) bs (TrackedSurface r))"
    and "BlockCount (TrackedSurface t) = BlockCount (TrackedSurface r)"
    and "DataGood (TrackedSurface t) = DataGood (TrackedSurface r)"
proof -
  have T: "tracker_ok (tracker Q)" using Q by (simp add: surface_board_def)
  have ok: "Surface_ok (TrackedSurface r)" and d: "DataPacketDefinition r = SyncDataPacketDefinition base"
    using r by (simp_all add: reader_ready_def sync_wf_def)
  have i32: "i < 32" using i ok by (simp add: Surface_ok_def)
  define r1 where "r1 = Sync_UpdateBlockData (of_nat i) bs r"
  have r1: "TrackedSurface r1 = Surface_write (SYNC_SURFACE_BLOCK_SIZE * i) bs (TrackedSurface r)"
      "SyncState r1 = SyncState r" "Packet r1 = Packet r" "SyncMetaDefinition r1 = SyncMetaDefinition r"
      "DataPacketDefinition r1 = DataPacketDefinition r"
    using pl(2) by (simp_all add: r1_def Sync_UpdateBlockData_def on_surface_def block_offset [OF i32])
  define r2 where "r2 = on_surface (Surface_ClearBit Q i) (Sync_InvalidateLocalHash r1)"
  define r3 where "r3 = Sync_NotifyDataChanged Reader_OnStateUpdated Q r2"
  note n = Notify_to_Syncing [OF T, of r2, folded r3_def]
  have r3: "Data (TrackedSurface r3) = Data (Surface_write (SYNC_SURFACE_BLOCK_SIZE * i) bs (TrackedSurface r))"
      "BlockCount (TrackedSurface r3) = BlockCount (TrackedSurface r)"
      "length (Tracker (TrackedSurface r3)) = length (Tracker (TrackedSurface r))"
      "DataGood (TrackedSurface r3) = DataGood (TrackedSurface r)" "HashNeedsUpdate (TrackedSurface r3)"
      "SyncState r3 = (if SyncState r = Synced then Syncing else SyncState r)" "Packet r3 = Packet r"
      "SyncMetaDefinition r3 = SyncMetaDefinition r" "DataPacketDefinition r3 = DataPacketDefinition r"
    using n r1 T by (simp_all add: r2_def Sync_InvalidateLocalHash_def on_surface_def Surface_write_def)
  have iu: "unat (of_nat i :: u8) = i" using i32 by (simp add: unat_of_nat_mod)
  have t: "t = (case SyncState r3 of
           WaitingForServiceDiscovery \<Rightarrow>
             on_surface (Surface_SetDataGood False) (Reader_UpdateSyncState Q Syncing r3)
         | Synced \<Rightarrow> Reader_UpdateSyncState Q Syncing
               (on_surface (Surface_ClearBit Q i) (on_surface (Surface_SetAllPending Q) r3))
         | _ \<Rightarrow> r3)"
    using hd by (simp add: t_def Sync_ProcessPacket_def d Reader_sync_hooks_def Reader_OnBlockReceived_def id pl(1) iu
        r3_def r2_def r1_def Let_def cong: SyncStateEnum.case_cong)
  have st: "SyncState r3 = WaitingForServiceDiscovery \<and> SyncState r = WaitingForServiceDiscovery \<or> SyncState r3 = Syncing"
    using r r3(6) by (cases "SyncState r") (simp_all add: reader_ready_def)
  from st show "SyncState t = Syncing" "DataGood (TrackedSurface t) = DataGood (TrackedSurface r)"
      "Data (TrackedSurface t) = Data (Surface_write (SYNC_SURFACE_BLOCK_SIZE * i) bs (TrackedSurface r))"
      "BlockCount (TrackedSurface t) = BlockCount (TrackedSurface r)"
    using r r3(1-4) T
    by (auto simp: t reader_ready_def on_surface_def Reader_to_Syncing Surface_IsDataGood_def)
  have "sync_wf crc base t"
    using st r r3 T
    by (auto simp: t reader_ready_def sync_wf_def hash_current_def on_surface_def Reader_to_Syncing Surface_ok_def
        Surface_write_def)
  then show "reader_ready crc base t" using \<open>SyncState t = Syncing\<close> by (simp add: reader_ready_def)
qed


lemma sync_block_step:
  assumes w: "writer_updating crc base w" and r: "reader_ready crc base r"
    and P: "surface_board crc P" and Q: "surface_board crc Q"
    and c: "BlockCount (TrackedSurface r) = BlockCount (TrackedSurface w)" and n: "pending (TrackedSurface w) = Suc n"
    and wr: "sync_block P Q w r = (w', r')"
  shows "writer_updating crc base w'" and "reader_ready crc base r'"
    and "in_step (TrackedSurface w) (TrackedSurface r) \<Longrightarrow> in_step (TrackedSurface w') (TrackedSurface r')"
    and "pending (TrackedSurface w') = n" and "BlockCount (TrackedSurface r') = BlockCount (TrackedSurface w')"
    and "Data (TrackedSurface w') = Data (TrackedSurface w)"
    and "BlockCount (TrackedSurface w') = BlockCount (TrackedSurface w)"
    and "DataGood (TrackedSurface r') = DataGood (TrackedSurface r)" and "SyncState r' = Syncing"
proof -
  let ?u = "TrackedSurface w" and ?v = "TrackedSurface r"
  have T: "tracker_ok (tracker P)" using P by (simp add: surface_board_def)
  have U: "Surface_ok ?u" "Surface_ok ?v" "BlockCount ?v = BlockCount ?u"
    using w r c by (simp_all add: writer_updating_def reader_ready_def sync_wf_def)
  have set: "Surface_HasSet P ?u" using pending_0 [OF T, of ?u] n by simp
  define w1 where "w1 = Writer_Callback P w"
  obtain i where i: "i < unat (BlockCount ?u)" "Tracker ?u ! i"
      and p: "LoLaPacket_GetDataHeader (Packet w1) = Header (SyncDataPacketDefinition base)"
        "LoLaPacket_GetId (Packet w1) = of_nat i" "LoLaPacket_GetPayload (Packet w1) = block ?u i"
        "Definition (Packet w1) = Some (SyncDataPacketDefinition base)"
      and f: "sync_wf crc base w1" "SyncState w1 = Syncing" "WriterState w1 = SendingBlock"
        "SurfaceSendingIndex w1 = of_nat i" "Data (TrackedSurface w1) = Data ?u"
        "Tracker (TrackedSurface w1) = Tracker ?u" "BlockCount (TrackedSurface w1) = BlockCount ?u"
    by (rule writer_prepares_block [OF w P set, folded w1_def])
  have i32: "i < 32" and il: "i < length (Tracker ?u)" using i(1) U(1) by (simp_all add: Surface_ok_def)
  note W = writer_confirms_block [OF f(2,3,4) i32 p(4) f(1) P]
  have w': "w' = Writer_Callback P (Writer_Callback P (on_air w1))"
    and r': "r' = snd (Sync_ProcessPacket Reader_sync_hooks Q (Packet w1) r)"
    using wr by (simp_all add: sync_block_def w1_def Let_def)
  note R = reader_takes_block [OF r Q p(1,2) _ p(3) length_block [OF U(1) i(1)], folded r']
  have iv: "i < unat (BlockCount ?v)" using i(1) U(3) by simp
  show "writer_updating crc base w'" using W(1) by (simp add: w')
  show "reader_ready crc base r'" "SyncState r' = Syncing" "DataGood (TrackedSurface r') = DataGood ?v"
    using R iv by simp_all
  have t: "TrackedSurface w' = Surface_UpdateHash P (Surface_ClearBit P i (TrackedSurface w1))"
    using W(2) by (simp add: w')
  show D: "Data (TrackedSurface w') = Data ?u" "BlockCount (TrackedSurface w') = BlockCount ?u" using t f by simp_all
  have Tr: "Tracker (TrackedSurface w') = (Tracker ?u)[i := False]" using t f T by simp
  then show "pending (TrackedSurface w') = n"
    using pending_ClearBit [OF T il i(2)] n T by (simp add: pending_def)
  have "block (TrackedSurface r') b = (if b = i then block ?u i else block ?v b)" if "b < unat (BlockCount ?u)" for b
    using block_write [OF U(2) iv length_block [OF U(1) i(1)]] that U(3) R(3) [OF iv] by (simp add: block_def)
  moreover have "block (TrackedSurface w') b = block ?u b" for b by (simp add: block_def D)
  ultimately show "in_step (TrackedSurface w) (TrackedSurface r) \<Longrightarrow> in_step (TrackedSurface w') (TrackedSurface r')"
    using R(4) [OF iv] D(2) U(3) il by (auto simp: in_step_def Tr nth_list_update)
  show "BlockCount (TrackedSurface r') = BlockCount (TrackedSurface w')" using R(4) [OF iv] D(2) U(3) by simp
qed

fun sync_blocks ::
  "(platform \<times> platform) list \<Rightarrow> 'a SyncSurfaceWriter_scheme \<Rightarrow> 'b AbstractSync_scheme \<Rightarrow>
   'a SyncSurfaceWriter_scheme \<times> 'b AbstractSync_scheme" where
  "sync_blocks [] w r = (w, r)"
| "sync_blocks ((P, Q) # rounds) w r = (let (w', r') = sync_block P Q w r in sync_blocks rounds w' r')"

definition boards :: "(u8 list \<Rightarrow> u8) \<Rightarrow> (platform \<times> platform) list \<Rightarrow> bool" where
  "boards crc rounds \<longleftrightarrow> (\<forall>(P, Q) \<in> set rounds. surface_board crc P \<and> surface_board crc Q)"

lemma sync_blocks_done:
  assumes "writer_updating crc base w" and "reader_ready crc base r" and "boards crc rounds"
    and "BlockCount (TrackedSurface r) = BlockCount (TrackedSurface w)" and "pending (TrackedSurface w) = length rounds"
    and "sync_blocks rounds w r = (w', r')"
  shows "writer_updating crc base w'" and "reader_ready crc base r'" and "pending (TrackedSurface w') = 0"
    and "Data (TrackedSurface w') = Data (TrackedSurface w)"
    and "in_step (TrackedSurface w) (TrackedSurface r) \<Longrightarrow> Data (TrackedSurface r') = Data (TrackedSurface w)"
    and "DataGood (TrackedSurface r') = DataGood (TrackedSurface r)"
    and "BlockCount (TrackedSurface w') = BlockCount (TrackedSurface w)"
    and "BlockCount (TrackedSurface r') = BlockCount (TrackedSurface w)"
proof -
  have "writer_updating crc base w' \<and> reader_ready crc base r' \<and> pending (TrackedSurface w') = 0 \<and>
    Data (TrackedSurface w') = Data (TrackedSurface w) \<and>
    (in_step (TrackedSurface w) (TrackedSurface r) \<longrightarrow> in_step (TrackedSurface w') (TrackedSurface r')) \<and>
    DataGood (TrackedSurface r') = DataGood (TrackedSurface r) \<and>
    BlockCount (TrackedSurface w') = BlockCount (TrackedSurface w) \<and>
    BlockCount (TrackedSurface r') = BlockCount (TrackedSurface w)"
    using assms
  proof (induction rounds arbitrary: w r)
    case Nil
    then show ?case by simp
  next
    case (Cons PQ rounds)
    obtain P Q where pq: "PQ = (P, Q)" by fastforce
    obtain w1 r1 where s: "sync_block P Q w r = (w1, r1)" by fastforce
    have b: "surface_board crc P" "surface_board crc Q" "boards crc rounds"
      using Cons.prems(3) by (simp_all add: boards_def pq)
    have n: "pending (TrackedSurface w) = Suc (length rounds)" using Cons.prems(5) by simp
    note st = sync_block_step [OF Cons.prems(1,2) b(1,2) Cons.prems(4) n s]
    have "sync_blocks rounds w1 r1 = (w', r')" using Cons.prems(6) by (simp add: pq s)
    then show ?case using Cons.IH [OF st(1,2) b(3) st(5,4)] st(3,5-8) by simp
  qed
  note all = this
  then show "writer_updating crc base w'" "reader_ready crc base r'" "pending (TrackedSurface w') = 0"
    "Data (TrackedSurface w') = Data (TrackedSurface w)" "DataGood (TrackedSurface r') = DataGood (TrackedSurface r)"
    "BlockCount (TrackedSurface w') = BlockCount (TrackedSurface w)"
    "BlockCount (TrackedSurface r') = BlockCount (TrackedSurface w)" by simp_all
  assume "in_step (TrackedSurface w) (TrackedSurface r)"
  then have step: "in_step (TrackedSurface w') (TrackedSurface r')" using all by blast
  have "block (TrackedSurface r') b = block (TrackedSurface w') b" if "b < unat (BlockCount (TrackedSurface w'))" for b
  proof -
    have "b < length (Tracker (TrackedSurface w'))"
      using that all by (simp add: writer_updating_def sync_wf_def Surface_ok_def)
    then have "\<not> Tracker (TrackedSurface w') ! b" using pending_none all by blast
    then show ?thesis using step that unfolding in_step_def by blast
  qed
  then show "Data (TrackedSurface r') = Data (TrackedSurface w)"
    using same_blocks [of "TrackedSurface w'" "TrackedSurface r'"] all
    by (simp add: writer_updating_def reader_ready_def sync_wf_def)
qed

section \<open>The hashes are compared\<close>

definition sync_finish ::
  "platform \<Rightarrow> platform \<Rightarrow> 'a SyncSurfaceWriter_scheme \<Rightarrow> 'b AbstractSync_scheme \<Rightarrow>
   'a SyncSurfaceWriter_scheme \<times> 'b AbstractSync_scheme" where
  "sync_finish P Q w r =
     (let w1 = Writer_Callback P (Writer_Callback P w);
          r1 = snd (Sync_ProcessPacket Reader_sync_hooks Q (Packet w1) r);
          w2 = Writer_Callback P (on_air w1)
      in (snd (Sync_ProcessPacket Writer_sync_hooks P (Packet r1) w2), r1))"


lemma PrepareMetaPacket_eq:
  "Sync_PrepareMetaPacket P i s = s\<lparr>TrackedSurface := Surface_UpdateHash P (TrackedSurface s),
     Packet := LoLaPacket_SetPayload 0 [LastCRC (Surface_UpdateHash P (TrackedSurface s))] (LoLaPacket_SetId i
       (snd (LoLaPacket_SetDefinition (Some (SyncMetaDefinition s)) (Packet s))))\<rparr>"
  by (simp add: Sync_PrepareMetaPacket_def Sync_UpdateLocalHash_def on_surface_def Sync_GetLocalHash_def
      Surface_GetHash_def Let_def)

lemma UpdateHash_wf:
  assumes "Surface_ok u" and "hash_current crc u" and "surface_board crc P"
  shows "Surface_ok (Surface_UpdateHash P u)" and "hash_current crc (Surface_UpdateHash P u)"
  using UpdateHash_current [OF assms] assms(1) by (simp_all add: Surface_ok_def hash_current_def)

lemma writer_finishes:
  assumes w: "writer_updating crc base w" and P: "surface_board crc P" and n: "pending (TrackedSurface w) = 0"
  defines "w1 \<equiv> Writer_Callback P (Writer_Callback P w)"
  shows "LoLaPacket_GetDataHeader (Packet w1) = Header (SyncMetaPacketDefinition base)"
    and "LoLaPacket_GetId (Packet w1) = SYNC_META_SUB_HEADER_UPDATE_FINISHED"
    and "LoLaPacket_GetPayload (Packet w1) ! 0 = crc (Data (TrackedSurface w))"
    and "Definition (Packet w1) = Some (SyncMetaPacketDefinition base)"
    and "sync_wf crc base w1" and "SyncState w1 = Syncing" and "WriterState w1 = SendingFinished"
    and "Data (TrackedSurface w1) = Data (TrackedSurface w)" and "Tracker (TrackedSurface w1) = Tracker (TrackedSurface w)"
    and "BlockCount (TrackedSurface w1) = BlockCount (TrackedSurface w)"
proof -
  let ?u = "Surface_UpdateHash P (TrackedSurface w)"
  have T: "tracker_ok (tracker P)" using P by (simp add: surface_board_def)
  have wf: "Surface_ok (TrackedSurface w)" "hash_current crc (TrackedSurface w)" "length (Raw (Packet w)) = 8"
      "SyncMetaDefinition w = SyncMetaPacketDefinition base" "DataPacketDefinition w = SyncDataPacketDefinition base"
      "SyncState w = Syncing" "WriterState w = UpdatingBlocks" "SendStatus w = Done"
    using w by (simp_all add: writer_updating_def sync_wf_def)
  have none: "\<not> Surface_HasSet P (TrackedSurface w)" using pending_0 [OF T] n by blast
  have u: "LastCRC ?u = crc (Data (TrackedSurface w))" "Surface_UpdateHash P ?u = ?u"
    using UpdateHash_current [OF wf(1,2) P] by (simp_all add: Surface_UpdateHash_def)
  have hs: "\<not> Surface_HasSet P ?u" using none by (simp add: Surface_HasSet_def)
  define w0 where "w0 = Writer_Callback P w"
  have w0: "w0 = Service_SetNextRunDelay ABSTRACT_SURFACE_SYNC_CONFIRM_SEND_PERIOD_MILLIS
      (Sync_ResetLastSentTimeStamp (Writer_UpdateSyncingState SendingFinished (w\<lparr>TrackedSurface := ?u\<rparr>)))"
    unfolding w0_def Writer_Callback_done [OF wf(8,6)]
    using hs wf(7) by (simp add: Writer_OnSyncActive_def Sync_UpdateLocalHash_def on_surface_def)
  have f: "SendStatus w0 = Done" "SyncState w0 = Syncing" "WriterState w0 = SendingFinished" "TrackedSurface w0 = ?u"
      "SyncMetaDefinition w0 = SyncMetaDefinition w" "DataPacketDefinition w0 = DataPacketDefinition w"
      "Packet w0 = Packet w" "LastSent w0 = ILOLA_INVALID_MILLIS"
    unfolding w0 using wf(6-8) by (simp_all add: sync_steps)
  have id: "Sync_UpdateLocalHash P w0 = w0" unfolding w0 by (simp add: sync_steps u)
  have e: "ABSTRACT_SURFACE_SYNC_CONFIRM_SEND_PERIOD_MILLIS < Sync_GetElapsedSinceLastSent P (Sync_UpdateLocalHash P w0)"
    using f(8) by (simp add: Sync_GetElapsedSinceLastSent_def Sync_UpdateLocalHash_def on_surface_def lola_consts)
  have "w1 = Send_RequestSendPacketDefault P (Sync_PrepareUpdateFinishedPacket P (Sync_UpdateLocalHash P w0))"
    unfolding w1_def w0_def [symmetric] Writer_Callback_done [OF f(1,2)]
    using hs e f(3,4) by (simp add: Writer_OnSyncActive_def) (simp add: Sync_UpdateLocalHash_def on_surface_def u)
  then have w1: "w1 = Send_RequestSendPacketDefault P (Sync_PrepareMetaPacket P SYNC_META_SUB_HEADER_UPDATE_FINISHED w0)"
    using id by (simp add: Sync_PrepareUpdateFinishedPacket_def)
  have g: "Packet w1 = LoLaPacket_SetPayload 0 [crc (Data (TrackedSurface w))]
        (LoLaPacket_SetId SYNC_META_SUB_HEADER_UPDATE_FINISHED
          (snd (LoLaPacket_SetDefinition (Some (SyncMetaPacketDefinition base)) (Packet w))))"
      "TrackedSurface w1 = ?u" "SyncState w1 = Syncing" "WriterState w1 = SendingFinished"
      "SyncMetaDefinition w1 = SyncMetaDefinition w" "DataPacketDefinition w1 = DataPacketDefinition w"
    unfolding w1 PrepareMetaPacket_eq f(4) u using f u(1) wf(4) by (simp_all add: sync_steps)
  show "LoLaPacket_GetDataHeader (Packet w1) = Header (SyncMetaPacketDefinition base)"
    "LoLaPacket_GetId (Packet w1) = SYNC_META_SUB_HEADER_UPDATE_FINISHED"
    "LoLaPacket_GetPayload (Packet w1) ! 0 = crc (Data (TrackedSurface w))"
    "Definition (Packet w1) = Some (SyncMetaPacketDefinition base)"
    using wf(3) by (simp_all add: g(1) meta_packet_fields)
  show "SyncState w1 = Syncing" "WriterState w1 = SendingFinished" by (rule g)+
  show "Data (TrackedSurface w1) = Data (TrackedSurface w)" "Tracker (TrackedSurface w1) = Tracker (TrackedSurface w)"
    "BlockCount (TrackedSurface w1) = BlockCount (TrackedSurface w)" by (simp_all add: g(2))
  show "sync_wf crc base w1"
    using wf UpdateHash_wf [OF wf(1,2) P] by (simp add: sync_wf_def g)
qed

text \<open>The reader compares, answers and is synced, or asks for everything again.\<close>

lemma Reader_to_Synced:
  assumes "SyncState r \<noteq> Synced" and "tracker_ok (tracker Q)" and "Surface_ok (TrackedSurface r)" and "crc8_smbus Q = crc"
  defines "t \<equiv> Reader_UpdateSyncState Q Synced r"
  shows "Data (TrackedSurface t) = Data (TrackedSurface r)" and "hash_current crc (TrackedSurface t)"
    and "BlockCount (TrackedSurface t) = BlockCount (TrackedSurface r)"
    and "length (Tracker (TrackedSurface t)) = length (Tracker (TrackedSurface r))"
    and "DataGood (TrackedSurface t)"
    and "SyncState t = (if DataGood (TrackedSurface r) then Synced else Syncing)"
    and "Packet t = Packet r" and "SyncMetaDefinition t = SyncMetaDefinition r"
    and "DataPacketDefinition t = DataPacketDefinition r"
proof -
  let ?h = "Surface_UpdateHash Q (Surface_InvalidateHash (Surface_ClearAll Q (Surface_InvalidateHash (TrackedSurface r))))"
  have h: "LastCRC ?h = crc (Data (TrackedSurface r))" "\<not> HashNeedsUpdate ?h"
    using assms(3,4) by (simp_all add: Surface_UpdateHash_def unat_GetDataSize [unfolded Surface_GetDataSize_def]
        Surface_GetDataSize_def)
  show "Data (TrackedSurface t) = Data (TrackedSurface r)" "hash_current crc (TrackedSurface t)"
    "BlockCount (TrackedSurface t) = BlockCount (TrackedSurface r)"
    "length (Tracker (TrackedSurface t)) = length (Tracker (TrackedSurface r))" "DataGood (TrackedSurface t)"
    "SyncState t = (if DataGood (TrackedSurface r) then Synced else Syncing)"
    "Packet t = Packet r" "SyncMetaDefinition t = SyncMetaDefinition r"
    "DataPacketDefinition t = DataPacketDefinition r"
    using assms(1,2) h
    by (simp_all add: t_def Sync_UpdateSyncState_def Reader_OnStateUpdated_def Reader_StateActions_def sync_steps
        Sync_InvalidateLocalHash_def Sync_Enable_def Service_Enable_def Surface_IsDataGood_def Let_def hash_current_def
        Sync_NotifyDataChanged_def Sync_SurfaceDataChangedEvent_def Reader_OnStateUpdated_nested_def)
qed


lemma meta_headers: "Header (SyncMetaPacketDefinition base) \<noteq> Header (SyncDataPacketDefinition base)"
  by (simp add: SyncMetaPacketDefinition_def SyncDataPacketDefinition_def lola_consts)

definition meta_packet :: "u8 \<Rightarrow> u8 \<Rightarrow> u8 \<Rightarrow> LoLaPacket \<Rightarrow> bool" where
  "meta_packet base i x p \<longleftrightarrow> LoLaPacket_GetDataHeader p = Header (SyncMetaPacketDefinition base) \<and>
     LoLaPacket_GetId p = i \<and> LoLaPacket_GetPayload p ! 0 = x"

lemma reader_answers:
  assumes r: "reader_ready crc base r" and Q: "surface_board crc Q"
    and p: "meta_packet base SYNC_META_SUB_HEADER_UPDATE_FINISHED x p"
  defines "t \<equiv> snd (Sync_ProcessPacket Reader_sync_hooks Q p r)" and "y \<equiv> crc (Data (TrackedSurface r))"
  shows "sync_wf crc base t" and "Data (TrackedSurface t) = Data (TrackedSurface r)"
    and "BlockCount (TrackedSurface t) = BlockCount (TrackedSurface r)"
    and "x = y \<Longrightarrow> meta_packet base SYNC_META_SUB_HEADER_UPDATE_FINISHED_REPLY y (Packet t) \<and>
      DataGood (TrackedSurface t) \<and> SyncState t = (if DataGood (TrackedSurface r) then Synced else Syncing)"
    and "x \<noteq> y \<Longrightarrow> (meta_packet base SYNC_META_SUB_HEADER_UPDATE_FINISHED_REPLY y (Packet t) \<or>
        meta_packet base SYNC_META_SUB_HEADER_INVALIDATE_REQUEST y (Packet t)) \<and>
      DataGood (TrackedSurface t) = DataGood (TrackedSurface r) \<and> SyncState t = Syncing"
proof -
  let ?v = "Surface_UpdateHash Q (TrackedSurface r)"
  have T: "tracker_ok (tracker Q)" "crc8_smbus Q = crc" using Q by (simp_all add: surface_board_def)
  have wf: "Surface_ok (TrackedSurface r)" "hash_current crc (TrackedSurface r)" "length (Raw (Packet r)) = 8"
      "SyncMetaDefinition r = SyncMetaPacketDefinition base" "DataPacketDefinition r = SyncDataPacketDefinition base"
    and st: "SyncState r \<noteq> Disabled" "SyncState r = Synced \<Longrightarrow> DataGood (TrackedSurface r)"
    using r by (simp_all add: reader_ready_def sync_wf_def Surface_IsDataGood_def)
  have v: "LastCRC ?v = y" "Surface_UpdateHash Q ?v = ?v" "Surface_ok ?v" "hash_current crc ?v"
    using UpdateHash_current [OF wf(1,2) Q] UpdateHash_wf [OF wf(1,2) Q] by (simp_all add: y_def Surface_UpdateHash_def)
  define s where "s = Sync_UpdateLocalHash Q (Sync_SetRemoteHash x r)"
  have s: "TrackedSurface s = ?v" "LastRemoteHash s = x" "RemoteHashIsSet s" "SyncState s = SyncState r"
      "Packet s = Packet r" "SyncMetaDefinition s = SyncMetaPacketDefinition base"
      "DataPacketDefinition s = SyncDataPacketDefinition base"
    using wf by (simp_all add: s_def Sync_SetRemoteHash_def Sync_UpdateLocalHash_def on_surface_def)
  define m where "m i = Send_RequestSendPacketDefault Q (Sync_PrepareMetaPacket Q i s)" for i
  have m: "TrackedSurface (m i) = ?v" "LastRemoteHash (m i) = x" "RemoteHashIsSet (m i)" "SyncState (m i) = SyncState r"
      "SyncMetaDefinition (m i) = SyncMetaPacketDefinition base"
      "DataPacketDefinition (m i) = SyncDataPacketDefinition base"
      "meta_packet base i y (Packet (m i))" "length (Raw (Packet (m i))) = 8" for i
    using s wf(3) unfolding m_def PrepareMetaPacket_eq s(1) v
    by (simp_all add: sync_steps meta_packet_def meta_packet_fields)
  have match: "Sync_HashesMatch (m i) \<longleftrightarrow> x = y" "Sync_HashesMatch s \<longleftrightarrow> x = y" for i
    using m s v(1) by (auto simp: Sync_HashesMatch_def Sync_HasRemoteHash_def Sync_GetLocalHash_def Surface_GetHash_def)
  let ?reply = "m SYNC_META_SUB_HEADER_UPDATE_FINISHED_REPLY" and ?again = "m SYNC_META_SUB_HEADER_INVALIDATE_REQUEST"
  have ids: "SYNC_META_SUB_HEADER_UPDATE_FINISHED \<noteq> SYNC_META_SUB_HEADER_UPDATE_FINISHED_REPLY" by (simp add: lola_consts)
  have "t = Reader_OnUpdateFinishedReceived Q (Sync_SetRemoteHash x r)"
    using p wf(4,5) meta_headers [of base]
    by (simp add: t_def Sync_ProcessPacket_def Reader_sync_hooks_def meta_packet_def Let_def)
  then have t: "t = (case SyncState r of
        Syncing \<Rightarrow> (if x = y then Reader_UpdateSyncState Q Synced ?reply else ?reply)
      | Synced \<Rightarrow> (if x = y then ?reply else Reader_UpdateSyncState Q Syncing ?again)
      | WaitingForServiceDiscovery \<Rightarrow>
          (if x = y then Reader_UpdateSyncState Q Synced ?reply else Reader_UpdateSyncState Q Syncing ?reply)
      | Disabled \<Rightarrow> s)"
    using s(4) match by (simp add: Reader_OnUpdateFinishedReceived_def Sync_PrepareUpdateFinishedReplyPacket_def
        Sync_PrepareInvalidateRequestPacket_def s_def [symmetric] m_def [symmetric] Let_def
        cong: SyncStateEnum.case_cong)
  have ok: "Surface_ok (TrackedSurface (m i))" for i using v(3) by (simp add: m)
  note synced = Reader_to_Synced [OF _ T(1) ok T(2)] and syncing = Reader_to_Syncing [OF _ T(1), of "m _"]
  have "sync_wf crc base t \<and> Data (TrackedSurface t) = Data (TrackedSurface r) \<and>
      BlockCount (TrackedSurface t) = BlockCount (TrackedSurface r) \<and>
      (x = y \<longrightarrow> meta_packet base SYNC_META_SUB_HEADER_UPDATE_FINISHED_REPLY y (Packet t) \<and>
        DataGood (TrackedSurface t) \<and> SyncState t = (if DataGood (TrackedSurface r) then Synced else Syncing)) \<and>
      (x \<noteq> y \<longrightarrow> (meta_packet base SYNC_META_SUB_HEADER_UPDATE_FINISHED_REPLY y (Packet t) \<or>
          meta_packet base SYNC_META_SUB_HEADER_INVALIDATE_REQUEST y (Packet t)) \<and>
        DataGood (TrackedSurface t) = DataGood (TrackedSurface r) \<and> SyncState t = Syncing)"
  proof (cases "SyncState r")
    case WaitingForServiceDiscovery
    then show ?thesis using m v synced [of SYNC_META_SUB_HEADER_UPDATE_FINISHED_REPLY]
        syncing [of SYNC_META_SUB_HEADER_UPDATE_FINISHED_REPLY] T(1)
      by (simp add: t sync_wf_def Surface_ok_def hash_current_def)
  next
    case Syncing
    then show ?thesis using m v synced [of SYNC_META_SUB_HEADER_UPDATE_FINISHED_REPLY]
      by (simp add: t sync_wf_def Surface_ok_def hash_current_def)
  next
    case Synced
    then show ?thesis using m v st(2) syncing [of SYNC_META_SUB_HEADER_INVALIDATE_REQUEST] T(1)
      by (simp add: t sync_wf_def Surface_ok_def hash_current_def)
  next
    case Disabled
    then show ?thesis using st(1) by simp
  qed
  then show "sync_wf crc base t" "Data (TrackedSurface t) = Data (TrackedSurface r)"
    "BlockCount (TrackedSurface t) = BlockCount (TrackedSurface r)"
    "x = y \<Longrightarrow> meta_packet base SYNC_META_SUB_HEADER_UPDATE_FINISHED_REPLY y (Packet t) \<and>
      DataGood (TrackedSurface t) \<and> SyncState t = (if DataGood (TrackedSurface r) then Synced else Syncing)"
    "x \<noteq> y \<Longrightarrow> (meta_packet base SYNC_META_SUB_HEADER_UPDATE_FINISHED_REPLY y (Packet t) \<or>
        meta_packet base SYNC_META_SUB_HEADER_INVALIDATE_REQUEST y (Packet t)) \<and>
      DataGood (TrackedSurface t) = DataGood (TrackedSurface r) \<and> SyncState t = Syncing" by blast+
qed


text \<open>The writer hears the answer, after its own packet has gone out.\<close>

lemma writer_confirms_meta:
  fixes P :: platform
  assumes "Definition (Packet w) = Some (SyncMetaPacketDefinition base)" and "WriterState w = SendingFinished"
  defines "t \<equiv> Writer_Callback P (on_air w)"
  shows "SendStatus t = Done" and "TrackedSurface t = TrackedSurface w" and "SyncState t = SyncState w"
    and "WriterState t = SendingFinished" and "SyncMetaDefinition t = SyncMetaDefinition w"
    and "DataPacketDefinition t = DataPacketDefinition w" and "length (Raw (Packet t)) = length (Raw (Packet w))"
proof -
  have "\<not> PacketDefinition_HasACK (SyncMetaPacketDefinition base)"
    by (simp add: PacketDefinition_HasACK_def SyncMetaPacketDefinition_def lola_consts)
  then have t: "t = Send_ClearSendRequest (Writer_OnSendOk P (LoLaPacket_GetDataHeader (Packet w))
      (millis_now P - SendStartMillis w) (on_air w))"
    using assms(1) by (simp add: t_def Writer_Callback_def Send_Callback_def on_air_def Send_HasSendPending_def
        Send_sent_ok_def Writer_send_hooks_def Writer_OnSendOk_def on_surface_def Let_def)
  show "SendStatus t = Done" "TrackedSurface t = TrackedSurface w" "SyncState t = SyncState w"
    "WriterState t = SendingFinished" "SyncMetaDefinition t = SyncMetaDefinition w"
    "DataPacketDefinition t = DataPacketDefinition w" "length (Raw (Packet t)) = length (Raw (Packet w))"
    unfolding t using assms(2) by (simp_all add: Writer_OnSendOk_def sync_steps on_air_def)
qed

lemma writer_hears:
  assumes wf: "sync_wf crc base w" and P: "surface_board crc P" and st: "SyncState w = Syncing"
    and ws: "WriterState w = SendingFinished" and dn: "SendStatus w = Done"
    and none: "pending (TrackedSurface w) = 0"
    and p: "meta_packet base SYNC_META_SUB_HEADER_UPDATE_FINISHED_REPLY y p \<or>
      meta_packet base SYNC_META_SUB_HEADER_INVALIDATE_REQUEST y p \<and> y \<noteq> crc (Data (TrackedSurface w))"
  defines "t \<equiv> snd (Sync_ProcessPacket Writer_sync_hooks P p w)"
  shows "Data (TrackedSurface t) = Data (TrackedSurface w)"
    and "BlockCount (TrackedSurface t) = BlockCount (TrackedSurface w)" and "sync_wf crc base t" and "SendStatus t = Done"
    and "y = crc (Data (TrackedSurface w)) \<Longrightarrow> SyncState t = Synced \<and> pending (TrackedSurface t) = 0"
    and "y \<noteq> crc (Data (TrackedSurface w)) \<Longrightarrow>
      writer_updating crc base t \<and> pending (TrackedSurface t) = unat (BlockCount (TrackedSurface w))"
proof -
  have T: "tracker_ok (tracker P)" "crc8_smbus P = crc" using P by (simp_all add: surface_board_def)
  have w: "Surface_ok (TrackedSurface w)" "hash_current crc (TrackedSurface w)" "length (Raw (Packet w)) = 8"
      "SyncMetaDefinition w = SyncMetaPacketDefinition base" "DataPacketDefinition w = SyncDataPacketDefinition base"
    using wf by (simp_all add: sync_wf_def)
  let ?u = "Surface_UpdateHash P (TrackedSurface w)"
  have u: "LastCRC ?u = crc (Data (TrackedSurface w))" "Surface_ok ?u" "hash_current crc ?u"
    by (rule UpdateHash_current [OF w(1,2) P] UpdateHash_wf [OF w(1,2) P])+
  have hs: "\<not> Surface_HasSet P ?u" using pending_0 [OF T(1), of "TrackedSurface w"] none by (simp add: Surface_HasSet_def)
  have all: "length (filter id (replicate n True)) = n" for n by (simp add: filter_replicate)
  have ids: "SYNC_META_SUB_HEADER_UPDATE_FINISHED_REPLY \<noteq> SYNC_META_SUB_HEADER_UPDATE_FINISHED"
    "SYNC_META_SUB_HEADER_INVALIDATE_REQUEST \<noteq> SYNC_META_SUB_HEADER_UPDATE_FINISHED"
    "SYNC_META_SUB_HEADER_INVALIDATE_REQUEST \<noteq> SYNC_META_SUB_HEADER_UPDATE_FINISHED_REPLY"
    by (simp_all add: lola_consts)
  define r where "r = Sync_SetRemoteHash y w"
  define s where "s = Sync_UpdateLocalHash P r"
  have r: "TrackedSurface r = TrackedSurface w" "SyncState r = Syncing" "WriterState r = SendingFinished" "SendStatus r = Done"
      "Packet r = Packet w" "SyncMetaDefinition r = SyncMetaDefinition w" "DataPacketDefinition r = DataPacketDefinition w"
    using st ws dn by (simp_all add: r_def Sync_SetRemoteHash_def)
  have s: "TrackedSurface s = ?u" "SyncState s = Syncing" "WriterState s = SendingFinished" "SendStatus s = Done"
      "Packet s = Packet w" "SyncMetaDefinition s = SyncMetaDefinition w" "DataPacketDefinition s = DataPacketDefinition w"
      "Sync_HashesMatch s \<longleftrightarrow> y = crc (Data (TrackedSurface w))"
    using r u(1) by (auto simp: s_def r_def Sync_SetRemoteHash_def sync_steps Sync_HashesMatch_def
        Sync_HasRemoteHash_def Sync_GetLocalHash_def Surface_GetHash_def)
  define again where "again v = Writer_UpdateSyncingState UpdatingBlocks (on_surface (Surface_SetAllPending P) v)"
    for v :: "'a SyncSurfaceWriter_scheme"
  have hd: "meta_packet base SYNC_META_SUB_HEADER_UPDATE_FINISHED_REPLY y p \<Longrightarrow> t = Writer_OnUpdateFinishedReplyReceived P r"
    "meta_packet base SYNC_META_SUB_HEADER_INVALIDATE_REQUEST y p \<Longrightarrow> t = Writer_OnInvalidateRequestReceived P r"
    using w(4,5) meta_headers [of base] ids
    by (simp_all add: t_def Sync_ProcessPacket_def Writer_sync_hooks_def meta_packet_def r_def [symmetric] Let_def)
  have inval: "Writer_OnInvalidateRequestReceived P r = again r"
    by (simp add: Writer_OnInvalidateRequestReceived_def r(2) again_def)
  have reply: "Writer_OnUpdateFinishedReplyReceived P r =
      (if y = crc (Data (TrackedSurface w)) then Writer_UpdateSyncState P Synced s else again s)"
    using hs s by (simp add: Writer_OnUpdateFinishedReplyReceived_def s_def [symmetric] again_def Let_def)
  have t: "t = (if y = crc (Data (TrackedSurface w)) then Writer_UpdateSyncState P Synced s else again s) \<or>
      y \<noteq> crc (Data (TrackedSurface w)) \<and> t = again r"
    using p reply inval hd by blast
  have A: "writer_updating crc base (again v) \<and> pending (TrackedSurface (again v)) = unat (BlockCount (TrackedSurface w)) \<and>
      Data (TrackedSurface (again v)) = Data (TrackedSurface w) \<and> BlockCount (TrackedSurface (again v)) = BlockCount (TrackedSurface w)"
    if "v = r \<or> v = s" for v
  proof -
    have v: "Surface_ok (TrackedSurface v)" "hash_current crc (TrackedSurface v)" "SyncState v = Syncing"
        "WriterState v = SendingFinished" "SendStatus v = Done" "Packet v = Packet w"
        "SyncMetaDefinition v = SyncMetaDefinition w" "DataPacketDefinition v = DataPacketDefinition w"
        "Data (TrackedSurface v) = Data (TrackedSurface w)" "BlockCount (TrackedSurface v) = BlockCount (TrackedSurface w)"
      using that r s u w by auto
    have "TrackedSurface (again v) = Surface_SetAllPending P (TrackedSurface v)" "SyncState (again v) = Syncing"
      "WriterState (again v) = UpdatingBlocks" "SendStatus (again v) = Done" "Packet (again v) = Packet w"
      "SyncMetaDefinition (again v) = SyncMetaDefinition w" "DataPacketDefinition (again v) = DataPacketDefinition w"
      using v by (simp_all add: again_def sync_steps)
    then show ?thesis using v w T(1) all
      by (simp add: writer_updating_def sync_wf_def Surface_ok_def hash_current_def pending_def)
  qed
  have S: "sync_wf crc base t \<and> SyncState t = Synced \<and> pending (TrackedSurface t) = 0 \<and> SendStatus t = Done \<and>
      Data (TrackedSurface t) = Data (TrackedSurface w) \<and> BlockCount (TrackedSurface t) = BlockCount (TrackedSurface w)"
    if "y = crc (Data (TrackedSurface w))"
  proof -
    have "t = Writer_UpdateSyncState P Synced s" using t that by simp
    then have "TrackedSurface t = Surface_InvalidateHash ?u" "SyncState t = Synced" "SendStatus t = Done" "Packet t = Packet w"
      "SyncMetaDefinition t = SyncMetaDefinition w" "DataPacketDefinition t = DataPacketDefinition w"
      using s by (simp_all add: Sync_UpdateSyncState_def Writer_OnStateUpdated_def Sync_InvalidateLocalHash_def sync_steps
          Sync_Enable_def Service_Enable_def Let_def)
    then show ?thesis using w u none by (simp add: sync_wf_def Surface_ok_def hash_current_def pending_def)
  qed
  have B: "writer_updating crc base t \<and> pending (TrackedSurface t) = unat (BlockCount (TrackedSurface w)) \<and>
      Data (TrackedSurface t) = Data (TrackedSurface w) \<and> BlockCount (TrackedSurface t) = BlockCount (TrackedSurface w)"
    if "y \<noteq> crc (Data (TrackedSurface w))"
    using t A [of r] A [of s] that by auto
  show "Data (TrackedSurface t) = Data (TrackedSurface w)" "BlockCount (TrackedSurface t) = BlockCount (TrackedSurface w)"
    "sync_wf crc base t" "SendStatus t = Done"
    "y = crc (Data (TrackedSurface w)) \<Longrightarrow> SyncState t = Synced \<and> pending (TrackedSurface t) = 0"
    "y \<noteq> crc (Data (TrackedSurface w)) \<Longrightarrow>
      writer_updating crc base t \<and> pending (TrackedSurface t) = unat (BlockCount (TrackedSurface w))"
    using S B by (auto simp: writer_updating_def)
qed


lemma sync_finish_outcome:
  assumes w: "writer_updating crc base w" and r: "reader_ready crc base r"
    and P: "surface_board crc P" and Q: "surface_board crc Q" and n: "pending (TrackedSurface w) = 0"
    and wr: "sync_finish P Q w r = (w', r')"
  shows "sync_wf crc base w'" and "sync_wf crc base r'" and "SendStatus w' = Done"
    and "Data (TrackedSurface w') = Data (TrackedSurface w)" and "Data (TrackedSurface r') = Data (TrackedSurface r)"
    and "BlockCount (TrackedSurface w') = BlockCount (TrackedSurface w)"
    and "BlockCount (TrackedSurface r') = BlockCount (TrackedSurface r)"
    and "crc (Data (TrackedSurface r)) = crc (Data (TrackedSurface w)) \<Longrightarrow>
      SyncState w' = Synced \<and> pending (TrackedSurface w') = 0 \<and> DataGood (TrackedSurface r') \<and>
      SyncState r' = (if DataGood (TrackedSurface r) then Synced else Syncing)"
    and "crc (Data (TrackedSurface r)) \<noteq> crc (Data (TrackedSurface w)) \<Longrightarrow>
      writer_updating crc base w' \<and> pending (TrackedSurface w') = unat (BlockCount (TrackedSurface w)) \<and>
      reader_ready crc base r' \<and> SyncState r' = Syncing \<and> DataGood (TrackedSurface r') = DataGood (TrackedSurface r)"
proof -
  define w1 where "w1 = Writer_Callback P (Writer_Callback P w)"
  define w2 where "w2 = Writer_Callback P (on_air w1)"
  note F = writer_finishes [OF w P n, folded w1_def]
  have r': "r' = snd (Sync_ProcessPacket Reader_sync_hooks Q (Packet w1) r)"
    and w': "w' = snd (Sync_ProcessPacket Writer_sync_hooks P (Packet r') w2)"
    using wr by (auto simp: sync_finish_def w1_def w2_def Let_def)
  have p: "meta_packet base SYNC_META_SUB_HEADER_UPDATE_FINISHED (crc (Data (TrackedSurface w))) (Packet w1)"
    using F(1-3) by (simp add: meta_packet_def)
  note A = reader_answers [OF r Q p, folded r']
  note C = writer_confirms_meta [OF F(4,7), of P, folded w2_def]
  have wf: "sync_wf crc base w2" using F(5) C by (simp add: sync_wf_def)
  have f: "SyncState w2 = Syncing" "pending (TrackedSurface w2) = 0" "Data (TrackedSurface w2) = Data (TrackedSurface w)"
      "BlockCount (TrackedSurface w2) = BlockCount (TrackedSurface w)"
    using C F n by (simp_all add: pending_def)
  have a: "meta_packet base SYNC_META_SUB_HEADER_UPDATE_FINISHED_REPLY (crc (Data (TrackedSurface r))) (Packet r') \<or>
      meta_packet base SYNC_META_SUB_HEADER_INVALIDATE_REQUEST (crc (Data (TrackedSurface r))) (Packet r') \<and>
      crc (Data (TrackedSurface r)) \<noteq> crc (Data (TrackedSurface w2))"
    using A(4,5) unfolding f(3) by metis
  note H = writer_hears [OF wf P f(1) C(4,1) f(2) a, folded w']
  show "sync_wf crc base w'" "SendStatus w' = Done" "Data (TrackedSurface w') = Data (TrackedSurface w)"
    "BlockCount (TrackedSurface w') = BlockCount (TrackedSurface w)" using H(1-4) f by simp_all
  show "sync_wf crc base r'" "Data (TrackedSurface r') = Data (TrackedSurface r)"
    "BlockCount (TrackedSurface r') = BlockCount (TrackedSurface r)" by (rule A)+
  show "SyncState w' = Synced \<and> pending (TrackedSurface w') = 0 \<and> DataGood (TrackedSurface r') \<and>
      SyncState r' = (if DataGood (TrackedSurface r) then Synced else Syncing)"
    if "crc (Data (TrackedSurface r)) = crc (Data (TrackedSurface w))" using H(5) A(4) f(3) that by simp
  show "writer_updating crc base w' \<and> pending (TrackedSurface w') = unat (BlockCount (TrackedSurface w)) \<and>
      reader_ready crc base r' \<and> SyncState r' = Syncing \<and> DataGood (TrackedSurface r') = DataGood (TrackedSurface r)"
    if "crc (Data (TrackedSurface r)) \<noteq> crc (Data (TrackedSurface w))"
    using H(6) A(1,5) f(3,4) that by (simp add: reader_ready_def)
qed

end
