(* ===== verification/Sync_Session.thy ===== *)
theory Sync_Session
  imports Sync_Protocol
begin

text \<open>
  A whole synchronisation of a surface: the marked blocks one after the other, then the comparison
  of the hashes. What it gives when the ends agree on the unmarked blocks, when they do not, and
  after a change made by the application.
\<close>

section \<open>A synchronisation\<close>

definition sync_session ::
  "(platform \<times> platform) list \<Rightarrow> platform \<Rightarrow> platform \<Rightarrow> 'a SyncSurfaceWriter_scheme \<Rightarrow> 'b AbstractSync_scheme \<Rightarrow>
   'a SyncSurfaceWriter_scheme \<times> 'b AbstractSync_scheme" where
  "sync_session rounds P Q w r = (let (w1, r1) = sync_blocks rounds w r in sync_finish P Q w1 r1)"

text \<open>Writer and reader hold the same data, the writer knows it, nothing is left to send.\<close>

definition in_sync :: "'a SyncSurfaceWriter_scheme \<Rightarrow> 'b AbstractSync_scheme \<Rightarrow> bool" where
  "in_sync w r \<longleftrightarrow> Sync_IsSynced w \<and> Data (TrackedSurface r) = Data (TrackedSurface w) \<and>
     pending (TrackedSurface w) = 0 \<and> Surface_IsDataGood (TrackedSurface r)"

lemma all_pending_in_step:
  assumes "Surface_ok u" and "pending u = unat (BlockCount u)" and "BlockCount v = BlockCount u"
  shows "in_step u v"
proof -
  have "Tracker u ! b" if "b < unat (BlockCount u)" for b
  proof (rule ccontr)
    assume "\<not> Tracker u ! b"
    moreover have "Tracker u ! b \<in> set (Tracker u)" using that assms(1) by (simp add: Surface_ok_def)
    ultimately have "pending u < length (Tracker u)" unfolding pending_def by (metis id_apply length_filter_less)
    then show False using assms(1,2) by (simp add: Surface_ok_def)
  qed
  then show ?thesis using assms(3) by (simp add: in_step_def)
qed

lemma sync_session_converges:
  assumes "writer_updating crc base w" and "reader_ready crc base r"
    and "in_step (TrackedSurface w) (TrackedSurface r)"
    and "boards crc ((P, Q) # rounds)" and "length rounds = pending (TrackedSurface w)"
    and "sync_session rounds P Q w r = (w', r')"
  shows "in_sync w' r'" and "Data (TrackedSurface w') = Data (TrackedSurface w)"
    and "SyncState r' = (if Surface_IsDataGood (TrackedSurface r) then Synced else Syncing)"
proof -
  obtain w1 r1 where s: "sync_blocks rounds w r = (w1, r1)" by fastforce
  have b: "boards crc rounds" "surface_board crc P" "surface_board crc Q" using assms(4) by (simp_all add: boards_def)
  have c: "BlockCount (TrackedSurface r) = BlockCount (TrackedSurface w)" using assms(3) by (simp add: in_step_def)
  note B = sync_blocks_done [OF assms(1,2) b(1) c assms(5) [symmetric] s]
  have f: "sync_finish P Q w1 r1 = (w', r')" using assms(6) by (simp add: sync_session_def s)
  note F = sync_finish_outcome [OF B(1,2) b(2,3) B(3) f]
  have "crc (Data (TrackedSurface r1)) = crc (Data (TrackedSurface w1))" using B(4,5) assms(3) by simp
  from F(8) [OF this] show "in_sync w' r'" "Data (TrackedSurface w') = Data (TrackedSurface w)"
    "SyncState r' = (if Surface_IsDataGood (TrackedSurface r) then Synced else Syncing)"
    using F(4,5) B(4,5,6) assms(3) by (simp_all add: in_sync_def Sync_IsSynced_def Surface_IsDataGood_def)
qed

definition sample_writer :: SyncSurfaceWriter where
  "sample_writer = \<lparr> drv = Driver_new, ServiceState = Active, DefaultPeriod = 1, ServiceEnabled = True,
     ServiceNextRun = RunASAP, SendStatus = Done, SendFailures = 0, SendStartMillis = 0,
     SendTimeOutDuration = 0, AckTimeOutDuration = 0, Packet = LoLaPacket_new 8,
     LastRemoteHash = 0, RemoteHashIsSet = False, StateStartTime = 0, LastSent = 0, SyncState = Syncing,
     TrackedSurface = Surface_Set32 sample_platform 0xA1B2C3D4 1 (Surface_new 2),
     SyncMetaDefinition = SyncMetaPacketDefinition 6, DataPacketDefinition = SyncDataPacketDefinition 6,
     WriterState = UpdatingBlocks, SurfaceSendingIndex = 0 \<rparr>"

definition sample_reader :: AbstractSync where
  "sample_reader = AbstractSync.truncate (sample_writer\<lparr>TrackedSurface := Surface_new 2\<rparr>)"

abbreviation sample_crc :: "u8 list \<Rightarrow> u8" where
  "sample_crc \<equiv> crc8_smbus sample_platform"

lemma sample_board: "surface_board sample_crc sample_platform"
  unfolding surface_board_def by (simp only: tracker_ok_sample simp_thms)

lemma sample_new: "Surface_new 2 = \<lparr> DataGood = False, LastCRC = 0, HashNeedsUpdate = True, BlockCount = 2,
    Tracker = [False, False], Data = [0, 0, 0, 0, 0, 0, 0, 0], SurfaceOverrun = False \<rparr>"
proof -
  have "replicate 2 False = [False, False]" "replicate 8 (0 :: u8) = [0, 0, 0, 0, 0, 0, 0, 0]"
    by (simp_all only: numeral_eq_Suc pred_numeral_simps arith_simps replicate.simps)
  then show ?thesis by (simp add: Surface_new_def lola_consts)
qed

lemma sample_surface:
  "Surface_ok (TrackedSurface sample_writer)" "HashNeedsUpdate (TrackedSurface sample_writer)"
  "Tracker (TrackedSurface sample_writer) = [False, True]"
  "Data (TrackedSurface sample_writer) = [0, 0, 0, 0, 0xD4, 0xC3, 0xB2, 0xA1]"
  "BlockCount (TrackedSurface sample_writer) = 2"
proof -
  have "Tracker (Surface_SetBit sample_platform i u) = (Tracker u)[i := True]" for i u
    by (rule Surface_tracker_ops) (rule tracker_ok_sample)
  note t = this
  have n: "Surface_new 2 = \<lparr> DataGood = False, LastCRC = 0, HashNeedsUpdate = True, BlockCount = 2,
      Tracker = [False, False], Data = [0, 0, 0, 0, 0, 0, 0, 0], SurfaceOverrun = False \<rparr>"
    by (rule sample_new)
  have i: "Surface_index 1 0 0 = 4" by (simp add: Surface_index_def lola_consts)
  show "Surface_ok (TrackedSurface sample_writer)" "HashNeedsUpdate (TrackedSurface sample_writer)"
    "Tracker (TrackedSurface sample_writer) = [False, True]"
    "Data (TrackedSurface sample_writer) = [0, 0, 0, 0, 0xD4, 0xC3, 0xB2, 0xA1]"
    "BlockCount (TrackedSurface sample_writer) = 2"
    by (simp_all add: sample_writer_def Surface_ok_def Surface_Set32_def t i Surface_write_def n lola_consts)
qed

lemma sample_ends_ready:
  "writer_updating sample_crc 6 sample_writer" "reader_ready sample_crc 6 sample_reader"
  "in_step (TrackedSurface sample_writer) (TrackedSurface sample_reader)" "pending (TrackedSurface sample_writer) = 1"
proof -
  have r: "TrackedSurface sample_reader = Surface_new 2" "SyncState sample_reader = Syncing"
      "Packet sample_reader = LoLaPacket_new 8" "SyncMetaDefinition sample_reader = SyncMetaPacketDefinition 6"
      "DataPacketDefinition sample_reader = SyncDataPacketDefinition 6"
    by (simp_all add: sample_reader_def AbstractSync.truncate_def sample_writer_def)
  show "writer_updating sample_crc 6 sample_writer"
    using sample_surface(1,2) by (simp add: writer_updating_def sync_wf_def hash_current_def)
      (simp add: sample_writer_def LoLaPacket_new_def)
  show "reader_ready sample_crc 6 sample_reader"
    by (simp add: reader_ready_def sync_wf_def r Surface_new_ok hash_current_def LoLaPacket_new_def)
       (simp add: Surface_new_def)
  show "in_step (TrackedSurface sample_writer) (TrackedSurface sample_reader)"
  proof -
    have "[False, True] ! b \<or> block (TrackedSurface sample_reader) b = block (TrackedSurface sample_writer) b" if "b < 2" for b
      using that by (cases b) (simp_all add: block_def r sample_new sample_surface(4) lola_consts)
    then show ?thesis by (simp add: in_step_def r sample_new sample_surface)
  qed
  show "pending (TrackedSurface sample_writer) = 1" by (simp add: pending_def sample_surface)
qed

text \<open>C13. A surface is synchronised: when the blocks that are not marked agree, the writer sends
  each marked block once, in as many rounds as there are marks, and after the comparison of the
  hashes reader and writer hold the same data, the writer is synced with nothing left to send, and
  the reader calls its data good. The reader itself is synced only if its data was good before: the
  first time the notification of its own good data throws it back to \<open>Syncing\<close>.\<close>
theorem surface_sync_converges:
  assumes "writer_updating crc base w" and "reader_ready crc base r"
    and "in_step (TrackedSurface w) (TrackedSurface r)"
    and "boards crc ((P, Q) # rounds)" and "length rounds = pending (TrackedSurface w)"
    and "sync_session rounds P Q w r = (w', r')"
  shows "in_sync w' r' \<and> Data (TrackedSurface w') = Data (TrackedSurface w) \<and>
    SyncState r' = (if Surface_IsDataGood (TrackedSurface r) then Synced else Syncing)"
  using sync_session_converges [OF assms] by simp

theorem surface_sync_converges_witness:
  "Data (TrackedSurface (snd (sync_session [(sample_platform, sample_platform)] sample_platform sample_platform
     sample_writer sample_reader))) = [0, 0, 0, 0, 0xD4, 0xC3, 0xB2, 0xA1]"
  using surface_sync_converges [OF sample_ends_ready(1-3) _ _ prod.collapse [symmetric],
      of sample_platform sample_platform "[(sample_platform, sample_platform)]"]
  by (simp add: boards_def sample_board [simplified] sample_ends_ready(4) [simplified] in_sync_def sample_surface(4))


definition stale_reader :: AbstractSync where
  "stale_reader = on_surface (Surface_write 0 [9, 9, 9, 9]) sample_reader"

lemma stale_reader:
  "reader_ready sample_crc 6 stale_reader" "BlockCount (TrackedSurface stale_reader) = BlockCount (TrackedSurface sample_writer)"
proof -
  have r: "TrackedSurface sample_reader = Surface_new 2"
    by (simp add: sample_reader_def AbstractSync.truncate_def sample_writer_def)
  show "reader_ready sample_crc 6 stale_reader"
    using sample_ends_ready(2)
    by (simp add: stale_reader_def reader_ready_def sync_wf_def Surface_write_def Surface_ok_def hash_current_def
        Surface_IsDataGood_def on_surface_def r sample_new)
  show "BlockCount (TrackedSurface stale_reader) = BlockCount (TrackedSurface sample_writer)"
    by (simp add: stale_reader_def Surface_write_def on_surface_def r sample_new sample_surface)
qed

text \<open>C21. Divergence is found and repaired: whatever the reader's data, blocks lost on the way
  included, when the marked blocks have been sent the hashes are compared; if the writer then calls
  itself synced, the CRCs of the two sides are equal, and if they are not, the writer marks every
  block and one more synchronisation of \<open>BlockCount\<close> rounds makes the data equal.\<close>
theorem surface_divergence_repaired:
  assumes "writer_updating crc base w" and "reader_ready crc base r"
    and "BlockCount (TrackedSurface r) = BlockCount (TrackedSurface w)"
    and "boards crc ((P, Q) # (P', Q') # rounds @ rounds')" and "length rounds = pending (TrackedSurface w)"
    and "length rounds' = unat (BlockCount (TrackedSurface w))"
    and "sync_session rounds P Q w r = (w1, r1)" and "sync_session rounds' P' Q' w1 r1 = (w2, r2)"
  shows "(Sync_IsSynced w1 \<longleftrightarrow> crc (Data (TrackedSurface r1)) = crc (Data (TrackedSurface w))) \<and>
    Data (TrackedSurface w1) = Data (TrackedSurface w) \<and>
    (crc (Data (TrackedSurface r1)) \<noteq> crc (Data (TrackedSurface w)) \<longrightarrow>
      in_sync w2 r2 \<and> Data (TrackedSurface w2) = Data (TrackedSurface w))"
proof -
  obtain w0 r0 where s: "sync_blocks rounds w r = (w0, r0)" by fastforce
  have b: "boards crc rounds" "boards crc ((P', Q') # rounds')" "surface_board crc P" "surface_board crc Q"
    using assms(4) by (auto simp: boards_def)
  note B = sync_blocks_done [OF assms(1,2) b(1) assms(3) assms(5) [symmetric] s]
  have f: "sync_finish P Q w0 r0 = (w1, r1)" using assms(7) by (simp add: sync_session_def s)
  note F = sync_finish_outcome [OF B(1,2) b(3,4) B(3) f]
  have "in_sync w2 r2 \<and> Data (TrackedSurface w2) = Data (TrackedSurface w)"
    if "crc (Data (TrackedSurface r1)) \<noteq> crc (Data (TrackedSurface w))"
  proof -
    have d: "crc (Data (TrackedSurface r0)) \<noteq> crc (Data (TrackedSurface w0))" using that F(5) B(4) by simp
    note G = F(9) [OF d]
    have "in_step (TrackedSurface w1) (TrackedSurface r1)"
      using all_pending_in_step F(1,6,7) G B(7,8) by (simp add: sync_wf_def)
    moreover have "length rounds' = pending (TrackedSurface w1)" using G B(7) assms(6) by simp
    ultimately show ?thesis
      using sync_session_converges [OF conjunct1 [OF G] _ _ b(2) _ assms(8)] G F(4) B(4) by simp
  qed
  moreover have "SyncState w1 = Synced \<longleftrightarrow> crc (Data (TrackedSurface r0)) = crc (Data (TrackedSurface w0))"
    using F(8,9) unfolding writer_updating_def by (metis SyncStateEnum.distinct(7))
  ultimately show ?thesis using F(4,5) B(4) by (simp add: Sync_IsSynced_def)
qed

theorem surface_divergence_repaired_witness:
  "let (w1, r1) = sync_session [(sample_platform, sample_platform)] sample_platform sample_platform sample_writer stale_reader;
       (w2, r2) = sync_session [(sample_platform, sample_platform), (sample_platform, sample_platform)]
         sample_platform sample_platform w1 r1
   in Sync_IsSynced w1 \<or> in_sync w2 r2"
proof -
  let ?p = "(sample_platform, sample_platform)"
  have b: "boards sample_crc (?p # ?p # [?p] @ [?p, ?p])"
    by (simp add: boards_def sample_board [simplified])
  show ?thesis
    using surface_divergence_repaired [OF sample_ends_ready(1) stale_reader(1,2) b _ _ prod.collapse [symmetric] prod.collapse [symmetric]]
    by (simp add: sample_ends_ready(4) [simplified] sample_surface(5) case_prod_unfold Let_def) blast
qed


text \<open>A change made by the application.\<close>

lemma Set32_block:
  assumes "Surface_ok u" and "b < BlockCount u" and "tracker_ok (tracker P)"
  shows "Surface_ok (Surface_Set32 P v b u)" and "BlockCount (Surface_Set32 P v b u) = BlockCount u"
    and "Tracker (Surface_Set32 P v b u) = (Tracker u)[unat b := True]"
    and "Surface_Get32 b (Surface_Set32 P v b u) = v" and "DataGood (Surface_Set32 P v b u) = DataGood u"
    and "c < unat (BlockCount u) \<Longrightarrow> c \<noteq> unat b \<Longrightarrow> block (Surface_Set32 P v b u) c = block u c"
proof -
  note room = Surface_block_room [OF assms(1,2)]
  have i: "Surface_index b 0 0 = SYNC_SURFACE_BLOCK_SIZE * unat b"
    using room by (simp add: Surface_index_block lola_consts)
  have e: "Surface_Set32 P v b u =
      Surface_SetBit P (unat b) (Surface_write (SYNC_SURFACE_BLOCK_SIZE * unat b) (le32_bytes v) u)"
    by (simp add: Surface_Set32_write i)
  show "Surface_ok (Surface_Set32 P v b u)" "BlockCount (Surface_Set32 P v b u) = BlockCount u"
    "Tracker (Surface_Set32 P v b u) = (Tracker u)[unat b := True]" "DataGood (Surface_Set32 P v b u) = DataGood u"
    using assms(1,3) by (simp_all add: e Surface_ok_def Surface_write_def)
  show "Surface_Get32 b (Surface_Set32 P v b u) = v"
    using store_bytes_le32 [of "4 * unat b" "Data u" v] room
    by (simp add: Surface_Get32_def e Surface_write_def i Let_def bytes_sum_32 lola_consts)
  show "block (Surface_Set32 P v b u) c = block u c" if "c < unat (BlockCount u)" "c \<noteq> unat b"
    using block_write [OF assms(1) _ _ that(1), of "unat b" "le32_bytes v"] that(2) assms(2)
    by (simp add: e block_def word_less_nat_alt lola_consts)
qed

text \<open>C14. A change of a synchronised surface reaches the other end: when writer and reader are synced on
  the same data and the application stores a value in a block of the writer's surface, one block
  goes over, and after the comparison both ends are synced again and the reader's \<open>Get32\<close> gives the
  value.\<close>
theorem surface_change_propagates:
  assumes "in_sync w r" and "sync_wf crc base w" and "SendStatus w = Done"
    and "reader_ready crc base r" and "Sync_IsSynced r" and "BlockCount (TrackedSurface r) = BlockCount (TrackedSurface w)"
    and "b < BlockCount (TrackedSurface w)" and "boards crc [(P, Q), (P', Q'), (P'', Q'')]"
    and "sync_session [(P', Q')] P'' Q''
      (Sync_SurfaceChanged Writer_OnStateUpdated P (Surface_Set32 P v b (TrackedSurface w)) w) r = (w', r')"
  shows "in_sync w' r' \<and> Sync_IsSynced r' \<and> Surface_Get32 b (TrackedSurface r') = v"
proof -
  let ?u = "TrackedSurface w" and ?u' = "Surface_Set32 P v b (TrackedSurface w)"
  define w1 where "w1 = Sync_SurfaceChanged Writer_OnStateUpdated P ?u' w"
  have T: "tracker_ok (tracker P)" using assms(8) by (simp add: boards_def surface_board_def)
  have w: "Surface_ok ?u" "SyncState w = Synced" "pending ?u = 0" "Data (TrackedSurface r) = Data ?u"
    using assms(1,2) by (simp_all add: in_sync_def sync_wf_def Sync_IsSynced_def)
  note S = Set32_block [OF w(1) assms(7) T]
  have f: "TrackedSurface w1 = Surface_InvalidateHash (Surface_InvalidateHash ?u')" "SyncState w1 = Syncing"
      "WriterState w1 = UpdatingBlocks" "SendStatus w1 = Done" "Packet w1 = Packet w"
      "SyncMetaDefinition w1 = SyncMetaDefinition w" "DataPacketDefinition w1 = DataPacketDefinition w"
    using w(2) assms(3)
    by (simp_all add: w1_def Sync_SurfaceChanged_def Sync_SurfaceDataChangedEvent_def Sync_UpdateSyncState_def
        Writer_OnStateUpdated_def Sync_InvalidateLocalHash_def sync_steps Sync_Enable_def Service_Enable_def Let_def)
  have up: "writer_updating crc base w1"
    using assms(2) f S(1) by (simp add: writer_updating_def sync_wf_def hash_current_def Surface_ok_def)
  have b: "unat b < length (Tracker ?u)" using assms(7) w(1) by (simp add: Surface_ok_def word_less_nat_alt)
  have "\<not> Tracker ?u ! unat b" by (rule pending_none [OF w(3) b])
  then have n: "pending (TrackedSurface w1) = 1"
    using filter_update_new [of "unat b" "Tracker ?u" id True] b w(3) by (simp add: pending_def f S)
  have "Tracker ?u' ! c \<or> block (TrackedSurface r) c = block ?u' c" if "c < unat (BlockCount ?u)" for c
    using S(3,6) that b w(4) by (cases "c = unat b") (simp_all add: block_def)
  then have step: "in_step (TrackedSurface w1) (TrackedSurface r)"
    using assms(6) S(2) by (simp add: in_step_def f block_def)
  have l: "length [(P', Q')] = pending (TrackedSurface w1)" using n by simp
  have bs: "boards crc ((P'', Q'') # [(P', Q')])" using assms(8) by (simp add: boards_def)
  note C = sync_session_converges [OF up assms(4) step bs l assms(9) [folded w1_def]]
  have "Surface_Get32 b (TrackedSurface r') = Surface_Get32 b ?u'"
    using C(1,2) by (simp add: Surface_Get32_def in_sync_def f)
  then show ?thesis
    using C(1,3) assms(4,5) S(4) by (simp add: Sync_IsSynced_def reader_ready_def)
qed


definition synced_writer :: SyncSurfaceWriter where
  "synced_writer = sample_writer\<lparr>SyncState := Synced, TrackedSurface := Surface_SetDataGood True (Surface_new 2)\<rparr>"

definition synced_reader :: AbstractSync where
  "synced_reader = AbstractSync.truncate synced_writer"

lemma synced_ends:
  "in_sync synced_writer synced_reader" "sync_wf sample_crc 6 synced_writer" "SendStatus synced_writer = Done"
  "reader_ready sample_crc 6 synced_reader" "Sync_IsSynced synced_reader"
  "BlockCount (TrackedSurface synced_reader) = BlockCount (TrackedSurface synced_writer)"
  "BlockCount (TrackedSurface synced_writer) = 2"
  by (simp_all add: synced_reader_def AbstractSync.truncate_def synced_writer_def sample_writer_def in_sync_def
      Sync_IsSynced_def pending_def sample_new Surface_IsDataGood_def Surface_SetDataGood_def sync_wf_def
      reader_ready_def Surface_ok_def hash_current_def LoLaPacket_new_def lola_consts)

theorem surface_change_propagates_witness:
  "let w = Sync_SurfaceChanged Writer_OnStateUpdated sample_platform
       (Surface_Set32 sample_platform 0xCAFE0001 1 (TrackedSurface synced_writer)) synced_writer;
     (w', r') = sync_session [(sample_platform, sample_platform)] sample_platform sample_platform w synced_reader
   in Sync_IsSynced r' \<and> Surface_Get32 1 (TrackedSurface r') = 0xCAFE0001"
proof -
  have b: "boards sample_crc [(sample_platform, sample_platform), (sample_platform, sample_platform),
      (sample_platform, sample_platform)]"
    by (simp add: boards_def sample_board [simplified])
  have i: "1 < BlockCount (TrackedSurface synced_writer)" by (simp add: synced_ends)
  show ?thesis
    using surface_change_propagates [where v = "0xCAFE0001", OF synced_ends(1-6) i b prod.collapse [symmetric]]
    by (simp add: case_prod_unfold Let_def)
qed

end
