(* ===== verification/Controller_Surface.thy ===== *)
theory Controller_Surface
  imports Sync_Session
begin

text \<open>
  \<open>src/examples/ExampleHost/ExampleControllerSurface.h\<close> (and its copy in \<open>ExampleRemote\<close>): the surface of
  the two sketches, four 16 bit values in two blocks. The class is the tracked surface together
  with a cache of the two fast changing values; a setter gives the new surface when it stored
  anything, and the store fires the signal the writer is attached to.
\<close>

definition CONTROLLER_SURFACE_BLOCK_COUNT :: u8 where
  [lola_consts]: "CONTROLLER_SURFACE_BLOCK_COUNT = 2"

record ControllerSurface =
  LastDirection :: u16
  LastPropulsion :: u16

definition Controller_new :: ControllerSurface where
  "Controller_new = \<lparr> LastDirection = 0, LastPropulsion = 0 \<rparr>"

definition Controller_GetDirection :: "ITrackedSurface \<Rightarrow> u16" where
  "Controller_GetDirection u = Surface_Get16 0 0 u"

definition Controller_GetPropulsion :: "ITrackedSurface \<Rightarrow> u16" where
  "Controller_GetPropulsion u = Surface_Get16 0 1 u"

definition Controller_SetDirection ::
  "platform \<Rightarrow> u16 \<Rightarrow> ControllerSurface \<times> ITrackedSurface \<Rightarrow> ControllerSurface \<times> ITrackedSurface option" where
  "Controller_SetDirection P value cu = (case cu of (c, u) \<Rightarrow>
     if LastDirection c \<noteq> value then (c\<lparr>LastDirection := value\<rparr>, Some (Surface_Set16 P value 0 0 u)) else (c, None))"

definition Controller_SetPropulsion ::
  "platform \<Rightarrow> u16 \<Rightarrow> ControllerSurface \<times> ITrackedSurface \<Rightarrow> ControllerSurface \<times> ITrackedSurface option" where
  "Controller_SetPropulsion P value cu = (case cu of (c, u) \<Rightarrow>
     if LastPropulsion c \<noteq> value then (c\<lparr>LastPropulsion := value\<rparr>, Some (Surface_Set16 P value 0 1 u)) else (c, None))"

text \<open>The trims are signed (\<open>int16_t\<close>) and go through the unsigned accessors.\<close>

definition Controller_GetDirectionTrim :: "ITrackedSurface \<Rightarrow> int" where
  "Controller_GetDirectionTrim u = sint (Surface_Get16 1 0 u)"

definition Controller_GetPropulsionTrim :: "ITrackedSurface \<Rightarrow> int" where
  "Controller_GetPropulsionTrim u = sint (Surface_Get16 1 1 u)"

definition Controller_SetDirectionTrim ::
  "platform \<Rightarrow> int \<Rightarrow> ControllerSurface \<times> ITrackedSurface \<Rightarrow> ControllerSurface \<times> ITrackedSurface option" where
  "Controller_SetDirectionTrim P value cu = (case cu of (c, u) \<Rightarrow> (c, Some (Surface_Set16 P (word_of_int value) 1 0 u)))"

definition Controller_SetPropulsionTrim ::
  "platform \<Rightarrow> int \<Rightarrow> ControllerSurface \<times> ITrackedSurface \<Rightarrow> ControllerSurface \<times> ITrackedSurface option" where
  "Controller_SetPropulsionTrim P value cu = (case cu of (c, u) \<Rightarrow> (c, Some (Surface_Set16 P (word_of_int value) 1 1 u)))"

section \<open>What the application does, and what it means\<close>

datatype control = SetDirection u16 | SetPropulsion u16 | SetDirectionTrim int | SetPropulsionTrim int

fun controller_set ::
  "platform \<Rightarrow> control \<Rightarrow> ControllerSurface \<times> ITrackedSurface \<Rightarrow> ControllerSurface \<times> ITrackedSurface option" where
  "controller_set P (SetDirection v) = Controller_SetDirection P v"
| "controller_set P (SetPropulsion v) = Controller_SetPropulsion P v"
| "controller_set P (SetDirectionTrim v) = Controller_SetDirectionTrim P v"
| "controller_set P (SetPropulsionTrim v) = Controller_SetPropulsionTrim P v"

text \<open>The surface belongs to the writer; a store notifies it.\<close>

definition operate ::
  "platform \<Rightarrow> ControllerSurface \<times> 'a SyncSurfaceWriter_scheme \<Rightarrow> control \<Rightarrow>
   ControllerSurface \<times> 'a SyncSurfaceWriter_scheme" where
  "operate P cw x = (case cw of (c, w) \<Rightarrow>
     (case controller_set P x (c, TrackedSurface w) of
        (c', None) \<Rightarrow> (c', w)
      | (c', Some u) \<Rightarrow> (c', Sync_SurfaceChanged Writer_OnStateUpdated P u w)))"

text \<open>The four values as the application thinks of them.\<close>

record controls =
  Direction :: u16
  Propulsion :: u16
  DirectionTrim :: int
  PropulsionTrim :: int

fun set_control :: "controls \<Rightarrow> control \<Rightarrow> controls" where
  "set_control a (SetDirection v) = a\<lparr>Direction := v\<rparr>"
| "set_control a (SetPropulsion v) = a\<lparr>Propulsion := v\<rparr>"
| "set_control a (SetDirectionTrim v) = a\<lparr>DirectionTrim := v\<rparr>"
| "set_control a (SetPropulsionTrim v) = a\<lparr>PropulsionTrim := v\<rparr>"

fun control_fits :: "control \<Rightarrow> bool" where
  "control_fits (SetDirectionTrim v) \<longleftrightarrow> - 32768 \<le> v \<and> v < 32768"
| "control_fits (SetPropulsionTrim v) \<longleftrightarrow> - 32768 \<le> v \<and> v < 32768"
| "control_fits _ \<longleftrightarrow> True"

definition read_controls :: "ITrackedSurface \<Rightarrow> controls" where
  "read_controls u = \<lparr> Direction = Controller_GetDirection u, Propulsion = Controller_GetPropulsion u,
     DirectionTrim = Controller_GetDirectionTrim u, PropulsionTrim = Controller_GetPropulsionTrim u \<rparr>"

definition cache_ok :: "ControllerSurface \<Rightarrow> ITrackedSurface \<Rightarrow> bool" where
  "cache_ok c u \<longleftrightarrow> LastDirection c = Controller_GetDirection u \<and> LastPropulsion c = Controller_GetPropulsion u"

section \<open>One store\<close>

lemma Set16_block:
  assumes "Surface_ok u" and "b < BlockCount u" and "unat h < 2" and "tracker_ok (tracker P)"
  shows "Surface_ok (Surface_Set16 P v b h u)" and "BlockCount (Surface_Set16 P v b h u) = BlockCount u"
    and "Tracker (Surface_Set16 P v b h u) = (Tracker u)[unat b := True]"
    and "b' < BlockCount u \<Longrightarrow> unat h' < 2 \<Longrightarrow>
      Surface_Get16 b' h' (Surface_Set16 P v b h u) = (if b' = b \<and> h' = h then v else Surface_Get16 b' h' u)"
    and "c < unat (BlockCount u) \<Longrightarrow> c \<noteq> unat b \<Longrightarrow> block (Surface_Set16 P v b h u) c = block u c"
proof -
  note room = Surface_block_room [OF assms(1,2)]
  let ?i = "4 * unat b + 2 * unat h"
  have i: "Surface_index b h 2 = ?i" using room assms(3) by (simp add: Surface_index_half)
  have e: "Surface_Set16 P v b h u = Surface_SetBit P (unat b) (Surface_write ?i (le16_bytes v) u)"
    by (simp add: Surface_Set16_write i)
  show "Surface_ok (Surface_Set16 P v b h u)" "BlockCount (Surface_Set16 P v b h u) = BlockCount u"
    "Tracker (Surface_Set16 P v b h u) = (Tracker u)[unat b := True]"
    using assms(1,4) by (simp_all add: e Surface_ok_def Surface_write_def)
  show "Surface_Get16 b' h' (Surface_Set16 P v b h u) = (if b' = b \<and> h' = h then v else Surface_Get16 b' h' u)"
    if "b' < BlockCount u" "unat h' < 2"
  proof (cases "b' = b \<and> h' = h")
    case True
    then show ?thesis using store_bytes_le16 [of ?i "Data u" v] room assms(3)
      by (simp add: Surface_Get16_def e Surface_write_def i Let_def bytes_sum_16)
  next
    case False
    have r: "unat b' < 32" using Surface_block_room [OF assms(1) that(1)] by simp
    have "unat b' \<noteq> unat b \<or> unat h' \<noteq> unat h" using False by (auto dest: word_unat_eq_iff [THEN iffD2])
    then have "4 * unat b' + 2 * unat h' + 2 \<le> ?i \<or> ?i + 2 \<le> 4 * unat b' + 2 * unat h'"
      using that(2) assms(3) by arith
    then show ?thesis using False r that(2)
      by (auto simp: Surface_Get16_def e Surface_write_def Surface_index_half Let_def nth_store_outside)
  qed
  show "block (Surface_Set16 P v b h u) c = block u c" if c: "c < unat (BlockCount u)" "c \<noteq> unat b"
  proof (rule nth_equalityI)
    show "length (block (Surface_Set16 P v b h u) c) = length (block u c)"
      by (simp add: block_def e Surface_write_def)
    fix k assume "k < length (block (Surface_Set16 P v b h u) c)"
    then have k: "k < 4" "4 * c + k < length (Data u)"
      by (simp_all add: block_def e Surface_write_def lola_consts less_diff_conv add.commute)
    then have "4 * c + k < ?i \<or> ?i + 2 \<le> 4 * c + k" using c(2) assms(3) by arith
    then show "block (Surface_Set16 P v b h u) c ! k = block u c ! k"
      using k by (auto simp: block_def e Surface_write_def nth_store_outside lola_consts)
  qed
qed


lemma sint_word_of_int16: "- 32768 \<le> v \<Longrightarrow> v < 32768 \<Longrightarrow> sint (word_of_int v :: u16) = v"
  by (simp add: signed_of_int signed_take_bit_int_eq_self)

text \<open>A setter keeps the shape and stores what the abstract state gets; no store, no change.\<close>

lemma controller_set_ok:
  assumes u: "Surface_ok u" "BlockCount u = CONTROLLER_SURFACE_BLOCK_COUNT" and T: "tracker_ok (tracker P)"
    and c: "cache_ok c u" and x: "control_fits x" and s: "controller_set P x (c, u) = (c', m)"
  defines "u' \<equiv> (case m of None \<Rightarrow> u | Some u' \<Rightarrow> u')"
  shows "read_controls u' = set_control (read_controls u) x" and "cache_ok c' u'"
    and "Surface_ok u'" and "BlockCount u' = BlockCount u"
    and "b < unat (BlockCount u) \<Longrightarrow> Tracker u' ! b \<or> block u' b = block u b \<and> Tracker u' ! b = Tracker u ! b"
proof -
  have b: "0 < BlockCount u" "1 < BlockCount u" "unat (0 :: u8) < 2" "unat (1 :: u8) < 2"
    using u(2) by (simp_all add: lola_consts)
  have l: "length (Tracker u) = unat (BlockCount u)" using u(1) by (simp add: Surface_ok_def)
  note S = Set16_block [OF u(1) _ _ T]
  have 1: "read_controls u' = set_control (read_controls u) x \<and> cache_ok c' u' \<and> Surface_ok u' \<and> BlockCount u' = BlockCount u"
    using x c b s u(1) S(1,2,4)
    by (cases x) (auto simp: Controller_SetDirection_def Controller_SetPropulsion_def Controller_SetDirectionTrim_def
        Controller_SetPropulsionTrim_def u'_def read_controls_def Controller_GetDirection_def Controller_GetPropulsion_def
        Controller_GetDirectionTrim_def Controller_GetPropulsionTrim_def cache_ok_def sint_word_of_int16 split: if_splits)
  then show "read_controls u' = set_control (read_controls u) x" "cache_ok c' u'" "Surface_ok u'"
    "BlockCount u' = BlockCount u" by simp_all
  have k: "(Tracker u)[unat i := True] ! k \<or> block (Surface_Set16 P v i h u) k = block u k \<and>
      (Tracker u)[unat i := True] ! k = Tracker u ! k"
    if "k < unat (BlockCount u)" "i < BlockCount u" "unat h < 2" for k i h v
    using S(5) [OF that(2,3) that(1)] that(1) l by (cases "k = unat i") simp_all
  show "Tracker u' ! b \<or> block u' b = block u b \<and> Tracker u' ! b = Tracker u ! b" if "b < unat (BlockCount u)"
  proof -
    have "m = None \<or> (\<exists>i h v. m = Some (Surface_Set16 P v i h u) \<and> i < BlockCount u \<and> unat h < 2)"
      using s b by (cases x) (force simp: Controller_SetDirection_def Controller_SetPropulsion_def
          Controller_SetDirectionTrim_def Controller_SetPropulsionTrim_def split: if_splits)+
    then consider "u' = u" | i h v where "u' = Surface_Set16 P v i h u" "i < BlockCount u" "unat h < 2"
      unfolding u'_def by fastforce
    then show ?thesis
    proof cases
      case 1
      then show ?thesis by simp
    next
      case 2
      then show ?thesis using k [OF that 2(2,3)] S(3) [OF 2(2,3)] by simp
    qed
  qed
qed

section \<open>The application over the writer\<close>

definition controlling ::
  "(u8 list \<Rightarrow> u8) \<Rightarrow> u8 \<Rightarrow> ControllerSurface \<Rightarrow> 'a SyncSurfaceWriter_scheme \<Rightarrow> ITrackedSurface \<Rightarrow> bool" where
  "controlling crc base c w v \<longleftrightarrow> writer_updating crc base w \<and> cache_ok c (TrackedSurface w) \<and>
     BlockCount (TrackedSurface w) = CONTROLLER_SURFACE_BLOCK_COUNT \<and> in_step (TrackedSurface w) v"

lemma read_controls_cong: "Data u = Data v \<Longrightarrow> read_controls u = read_controls v"
  by (simp add: read_controls_def Controller_GetDirection_def Controller_GetPropulsion_def
      Controller_GetDirectionTrim_def Controller_GetPropulsionTrim_def Surface_Get16_def)

lemma cache_ok_cong: "Data u = Data v \<Longrightarrow> cache_ok c u = cache_ok c v"
  by (simp add: cache_ok_def Controller_GetDirection_def Controller_GetPropulsion_def Surface_Get16_def)

text \<open>
  A setter before the writer is synced: only the surface changes, and it stays in step with the
  reader's.
\<close>

definition control_end ::
  "(u8 list \<Rightarrow> u8) \<Rightarrow> u8 \<Rightarrow> ControllerSurface \<Rightarrow> 'a SyncSurfaceWriter_scheme \<Rightarrow> ITrackedSurface \<Rightarrow> bool" where
  "control_end crc base c w v \<longleftrightarrow> sync_wf crc base w \<and> SyncState w \<noteq> Synced \<and> cache_ok c (TrackedSurface w) \<and>
     BlockCount (TrackedSurface w) = CONTROLLER_SURFACE_BLOCK_COUNT \<and> in_step (TrackedSurface w) v"

definition surface_only :: "'a SyncSurfaceWriter_scheme \<Rightarrow> 'a SyncSurfaceWriter_scheme \<Rightarrow> bool" where
  "surface_only w w' \<longleftrightarrow> w\<lparr>TrackedSurface := TrackedSurface w'\<rparr> = w'"

lemma surface_only_refl: "surface_only w w" "surface_only w (w\<lparr>TrackedSurface := u\<rparr>)"
  by (simp_all add: surface_only_def)

lemma surface_only_trans: "surface_only u v \<Longrightarrow> surface_only v w \<Longrightarrow> surface_only u w"
proof -
  assume a: "surface_only u v" "surface_only v w"
  define x y where "x = TrackedSurface v" and "y = TrackedSurface w"
  have v: "v = u\<lparr>TrackedSurface := x\<rparr>" and w: "w = v\<lparr>TrackedSurface := y\<rparr>" using a by (simp_all only: surface_only_def x_def y_def)
  have "w = u\<lparr>TrackedSurface := y\<rparr>" unfolding w v by simp
  then show ?thesis unfolding surface_only_def y_def [symmetric] by (rule sym)
qed

lemma surface_only_fields:
  assumes "surface_only w w'"
  shows "SyncState w' = SyncState w" "WriterState w' = WriterState w" "SendStatus w' = SendStatus w" "drv w' = drv w"
proof -
  define u where "u = TrackedSurface w'"
  have "w' = w\<lparr>TrackedSurface := u\<rparr>" using assms by (simp only: surface_only_def u_def)
  then show "SyncState w' = SyncState w" "WriterState w' = WriterState w" "SendStatus w' = SendStatus w" "drv w' = drv w"
    by simp_all
qed

lemma operate_step:
  assumes c: "control_end crc base c w v" and T: "tracker_ok (tracker P)" and x: "control_fits x"
    and o: "operate P (c, w) x = (c', w')"
  shows "control_end crc base c' w' v \<and> surface_only w w' \<and>
    read_controls (TrackedSurface w') = set_control (read_controls (TrackedSurface w)) x"
proof -
  let ?u = "TrackedSurface w"
  have w: "sync_wf crc base w" "SyncState w \<noteq> Synced" "cache_ok c ?u" "BlockCount ?u = CONTROLLER_SURFACE_BLOCK_COUNT" "in_step ?u v"
    using c by (simp_all add: control_end_def)
  then have u: "Surface_ok ?u" by (simp add: sync_wf_def)
  obtain c1 m where s: "controller_set P x (c, ?u) = (c1, m)" by fastforce
  define u' where "u' = (case m of None \<Rightarrow> ?u | Some u' \<Rightarrow> u')"
  note S = controller_set_ok [OF u w(4) T w(3) x s, folded u'_def]
  have step: "in_step u' v"
    using w(5) S(4,5) unfolding in_step_def by metis
  show ?thesis
  proof (cases m)
    case None
    then have "u' = ?u" "c' = c1" "w' = w" using o s by (simp_all add: operate_def u'_def)
    then show ?thesis using w S(1,2) by (simp add: control_end_def surface_only_refl)
  next
    case (Some u1)
    then have o': "c' = c1" "w' = w\<lparr>TrackedSurface := Surface_InvalidateHash u'\<rparr>"
      using o s w(2) by (simp_all add: operate_def u'_def Sync_SurfaceChanged_def Sync_SurfaceDataChangedEvent_def
          Sync_InvalidateLocalHash_def on_surface_def)
    have "cache_ok c' (Surface_InvalidateHash u')" "read_controls (Surface_InvalidateHash u') = read_controls u'"
      using S(2) cache_ok_cong [of "Surface_InvalidateHash u'" u'] read_controls_cong [of "Surface_InvalidateHash u'" u']
      by (simp_all add: o')
    moreover have "in_step (Surface_InvalidateHash u') v" using step by (simp add: in_step_def block_def)
    moreover have "sync_wf crc base w'" using w(1) S(3) by (simp add: o' sync_wf_def hash_current_def Surface_ok_def)
    ultimately show ?thesis using S(1,4) w(2,4) by (simp add: control_end_def o'(2) surface_only_refl)
  qed
qed

lemma operate_steps:
  assumes "control_end crc base c w v" and "tracker_ok (tracker P)" and "list_all control_fits xs"
    and "foldl (operate P) (c, w) xs = (c', w')"
  shows "control_end crc base c' w' v \<and> surface_only w w' \<and>
    read_controls (TrackedSurface w') = foldl set_control (read_controls (TrackedSurface w)) xs"
  using assms
proof (induction xs arbitrary: c w)
  case Nil
  then show ?case by (simp add: surface_only_refl)
next
  case (Cons x xs)
  obtain c1 w1 where o: "operate P (c, w) x = (c1, w1)" by fastforce
  have x: "control_fits x" "list_all control_fits xs" using Cons.prems(3) by simp_all
  note S = operate_step [OF Cons.prems(1,2) x(1) o]
  have f: "foldl (operate P) (c1, w1) xs = (c', w')" using Cons.prems(4) o by simp
  note R = Cons.IH [OF conjunct1 [OF S] Cons.prems(2) x(2) f]
  show ?case using R S surface_only_trans [of w w1 w'] by simp
qed

lemma operate_all:
  assumes "controlling crc base c w v" and "surface_board crc P" and "list_all control_fits xs"
    and "foldl (operate P) (c, w) xs = (c', w')"
  shows "controlling crc base c' w' v \<and>
    read_controls (TrackedSurface w') = foldl set_control (read_controls (TrackedSurface w)) xs"
proof -
  have "control_end crc base c w v" "tracker_ok (tracker P)"
    using assms(1,2) by (simp_all add: controlling_def control_end_def writer_updating_def surface_board_def)
  note S = operate_steps [OF this assms(3,4)]
  then show ?thesis
    using assms(1) surface_only_fields [of w w'] by (simp add: controlling_def control_end_def writer_updating_def)
qed

text \<open>C22. The controls set at one end arrive at the other: whatever sequence of the four setters the
  application runs on the writer's surface, its getters give the values last set (the cache that
  keeps equal values from being stored again changes nothing), and after a synchronisation the
  getters at the reader give them too.\<close>
theorem controls_arrive:
  assumes "controlling crc base c w (TrackedSurface r)" and "reader_ready crc base r"
    and "boards crc ((P, Q) # rounds)" and "list_all control_fits xs"
    and "foldl (operate P) (c, w) xs = (c', w')" and "length rounds = pending (TrackedSurface w')"
    and "sync_session rounds P Q w' r = (w'', r')"
  shows "read_controls (TrackedSurface w') = foldl set_control (read_controls (TrackedSurface w)) xs \<and>
    in_sync w'' r' \<and>
    read_controls (TrackedSurface r') = foldl set_control (read_controls (TrackedSurface w)) xs"
proof -
  have P: "surface_board crc P" using assms(3) by (simp add: boards_def)
  note O = operate_all [OF assms(1) P assms(4,5)]
  have w': "writer_updating crc base w'" "in_step (TrackedSurface w') (TrackedSurface r)"
    using O by (simp_all add: controlling_def)
  note C = sync_session_converges [OF w'(1) assms(2) w'(2) assms(3,6,7)]
  then have "read_controls (TrackedSurface r') = read_controls (TrackedSurface w')"
    by (intro read_controls_cong) (simp add: in_sync_def)
  then show ?thesis using O C(1) by simp
qed

definition control_sample :: SyncSurfaceWriter where
  "control_sample = sample_writer\<lparr>TrackedSurface := Surface_new 2\<rparr>"

theorem controls_arrive_witness:
  "\<exists>w r. foldl (operate sample_platform) (Controller_new, control_sample)
       [SetDirection 700, SetPropulsionTrim (- 5), SetDirection 701] = w \<and>
     (\<exists>rounds. r = snd (sync_session rounds sample_platform sample_platform (snd w) sample_reader)) \<and>
     read_controls (TrackedSurface r) = \<lparr> Direction = 701, Propulsion = 0, DirectionTrim = 0, PropulsionTrim = - 5 \<rparr>"
proof -
  let ?w = "foldl (operate sample_platform) (Controller_new, control_sample)
       [SetDirection 700, SetPropulsionTrim (- 5), SetDirection 701]"
  let ?n = "replicate (pending (TrackedSurface (snd ?w))) (sample_platform, sample_platform)"
  have t: "TrackedSurface control_sample = Surface_new 2" "TrackedSurface sample_reader = Surface_new 2"
    by (simp_all add: control_sample_def sample_reader_def AbstractSync.truncate_def sample_writer_def)
  have i: "Surface_index 0 0 2 = 0" "Surface_index 0 1 2 = 2" "Surface_index 1 0 2 = 4" "Surface_index 1 1 2 = 6"
    by (simp_all add: Surface_index_def lola_consts)
  have z: "read_controls (Surface_new 2) = \<lparr> Direction = 0, Propulsion = 0, DirectionTrim = 0, PropulsionTrim = 0 \<rparr>"
    by (simp add: read_controls_def Controller_GetDirection_def Controller_GetPropulsion_def
        Controller_GetDirectionTrim_def Controller_GetPropulsionTrim_def Surface_Get16_def i sample_new)
  have c: "controlling sample_crc 6 Controller_new control_sample (TrackedSurface sample_reader)"
    using sample_ends_ready(1) z
    by (simp add: controlling_def t writer_updating_def sync_wf_def hash_current_def Surface_new_ok)
      (simp add: control_sample_def cache_ok_def read_controls_def Controller_new_def in_step_def sample_new lola_consts)
  have b: "boards sample_crc ((sample_platform, sample_platform) # ?n)"
    by (simp add: boards_def sample_board [simplified] del: foldl.simps)
  have fits: "list_all control_fits [SetDirection 700, SetPropulsionTrim (- 5), SetDirection 701]" by simp
  have l: "length ?n = pending (TrackedSurface (snd ?w))" by (rule length_replicate)
  have "read_controls (TrackedSurface (snd (sync_session ?n sample_platform sample_platform (snd ?w) sample_reader))) =
      \<lparr> Direction = 701, Propulsion = 0, DirectionTrim = 0, PropulsionTrim = - 5 \<rparr>"
    using controls_arrive [OF c sample_ends_ready(2) b fits prod.collapse [symmetric] l prod.collapse [symmetric]] z
    by (simp add: t)
  then show ?thesis by blast
qed

end
