(* ===== verification/Packet_Delivery.thy ===== *)
theory Packet_Delivery
  imports Driver_Machine
begin

text \<open>
  Two drivers and the air between them: what one driver sends is what the services of the other
  are given. Composes \<open>SendPacket\<close>, the encoder, \<open>ReadReceived\<close> and \<open>ProcessIncoming\<close>.
\<close>

text \<open>A packet a service may hand to \<open>SendPacket\<close>: defined, its header in place, its bytes there.\<close>

definition packet_wf :: "LoLaPacket \<Rightarrow> bool" where
  "packet_wf p \<longleftrightarrow> (case Definition p of None \<Rightarrow> False
     | Some def \<Rightarrow> unat (PayloadSize def) \<le> 22 \<and> LoLaPacket_GetDataHeader p = Header def \<and>
         4 + unat (PayloadSize def) \<le> length (Raw p))"

text \<open>The two boards run the same libraries and their radio delivers what was sent.\<close>

definition same_library :: "platform \<Rightarrow> platform \<Rightarrow> bool" where
  "same_library PA PB \<longleftrightarrow> crc16_modbus PB = crc16_modbus PA \<and> cypher_set_key PB = cypher_set_key PA \<and>
     cypher_set_iv PB = cypher_set_iv PA \<and> cypher_add_auth PB = cypher_add_auth PA \<and>
     cypher_decrypt PB = cypher_decrypt PA"

definition air_frame :: "Driver \<Rightarrow> u8 list option" where
  "air_frame d = (case radio_mode (RadioLog d) of Some (RadioTX bytes n ch) \<Rightarrow> Some bytes | _ \<Rightarrow> None)"

lemma Decode_same_library:
  assumes "same_library PA PB"
  shows "Encoder_Decode PB m n crc e = Encoder_Decode PA m n crc e"
  using assms
  by (simp add: same_library_def Encoder_Decode_def Encoder_ResetCypherBlock_def cypher_load_def)

lemma frame_parts:
  assumes l: "length (Raw p) = 26" and n: "length out \<le> 24"
  shows "take (2 + length out) (Raw (LoLaPacket_SetMACCRC crc (LoLaPacket_SetRawContent out p))) =
    le16_bytes crc @ out"
proof -
  have "length (store 2 out (Raw p)) = 26" using l by simp
  then have "store 0 (le16_bytes crc) (store 2 out (Raw p)) = le16_bytes crc @ drop 2 (store 2 out (Raw p))"
    by (simp add: store_split numeral_2_eq_2)
  also have "drop 2 (store 2 out (Raw p)) = out @ drop (2 + length out) (Raw p)"
    using l n by simp
  finally show ?thesis
    by (simp add: packet_accessor_defs lola_consts le16_bytes_def numeral_2_eq_2)
qed

lemma SendPacket_frame:
  assumes c: "cypher_ok P" and p: "packet_wf p" and d: "Definition p = Some def"
    and out: "length (Raw (OutgoingPacket a)) = 26"
    and sent: "Driver_SendPacket P p a = (True, a')"
    and n: "n = 2 + unat (PayloadSize def)"
  shows "\<exists>crc out e. Encoder_Encode P (LoLaPacket_GetRawContent p) n (CryptoEncoder a) = (crc, out, e) \<and>
    air_frame a' = Some (le16_bytes crc @ out) \<and> length out = n"
proof -
  have pl: "unat (PayloadSize def) \<le> 22" and len: "4 + unat (PayloadSize def) \<le> length (Raw p)"
    using p d by (simp_all add: packet_wf_def)
  have sizes: "unat (PacketDefinition_GetContentSize def) = n" "unat (PacketDefinition_GetTotalSize def) = n + 2"
    using unat_GetContentSize [OF pl] unat_GetTotalSize [OF pl] n by simp_all
  from sent show ?thesis
  proof (cases rule: SendPacket_cases [of P p a])
    case (sent def' d2)
    have [simp]: "def' = def" using sent(1) d by simp
    obtain crc out e where enc:
      "Encoder_Encode P (LoLaPacket_GetRawContent p) n (CryptoEncoder a) = (crc, out, e)"
      by (cases "Encoder_Encode P (LoLaPacket_GetRawContent p) n (CryptoEncoder a)") auto
    have lo: "length out = n"
      using length_Encode [OF c, of n "LoLaPacket_GetRawContent p" "CryptoEncoder a"] enc n len
      by (simp add: packet_accessor_defs lola_consts)
    have d2: "OutgoingPacket d2 = LoLaPacket_SetMACCRC crc (LoLaPacket_SetRawContent out (OutgoingPacket a))"
      "OutgoingPacketSize d2 = PacketDefinition_GetTotalSize def" "DriverActiveState d2 = SendingOutgoing"
      using sent(4) enc sizes by (simp_all add: Driver_EncodeOutgoing_def fault_if_def Let_def)
    have "DriverActiveState (snd (Driver_Transmit P d2)) \<noteq> ReadyForAnything" using d2(3) by simp
    note ch = OnTransmitted_channel [OF this]
    have "a' = (Driver_OnTransmitted P (OutgoingHeaderHelper d2)
          (snd (Driver_Transmit P d2)))\<lparr>DriverActiveState := WaitingForTransmissionEnd\<rparr>"
      using sent(5) assms(5) by simp
    then have "RadioLog a' = RadioLog (snd (Driver_Transmit P d2))" by (simp add: ch)
    then have "air_frame a' = Some (take (n + 2) (Raw (OutgoingPacket d2)))"
      by (simp add: air_frame_def d2(2) sizes)
    also have "take (n + 2) (Raw (OutgoingPacket d2)) = le16_bytes crc @ out"
      using frame_parts [of "OutgoingPacket a" out crc] out lo pl n by (simp add: d2(1) add.commute)
    finally show ?thesis using enc lo by blast
  qed simp_all
qed

text \<open>The receiver, from the interrupt's length to the decoded packet.\<close>

lemma DecodeIncoming_frame_ok:
  assumes lib: "same_library PA PB" and c: "cypher_ok PA" and same: "same_crypto a (CryptoEncoder b)"
    and enc: "Encoder_Encode PA m n a = (crc, out, e)" and n: "n \<le> length m" "2 \<le> n" "n \<le> 24"
    and raw: "Raw (IncomingPacket b) = le16_bytes crc @ out @ rest" and l: "length (out @ rest) = 24"
    and size: "unat (IncomingPacketSize b) = n + 2"
    and known: "PacketMap_GetDefinition (m ! 0) (PacketMap b) = Some def" and hdr: "Header def = m ! 0"
  shows "\<exists>b'. Driver_DecodeIncoming PB b = (True, b') \<and> Definition (IncomingPacket b') = Some def \<and>
    Raw (IncomingPacket b') = le16_bytes crc @ take n m @ rest"
proof -
  obtain e' where dec: "Encoder_Decode PA (out @ rest) n crc (CryptoEncoder b) = (True, take n m @ rest, e')"
    using Decode_Encode [OF c same n(1) enc] by blast
  have lo: "length out = n" using length_Encode [OF c n(1), of a] enc by simp
  have "2 \<le> IncomingPacketSize b" using size by (simp add: word_le_nat_alt)
  then have quick: "unat (PacketDefinition_GetContentSizeQuick (IncomingPacketSize b)) = n"
    using size by (simp add: PacketDefinition_GetContentSizeQuick_def lola_consts unat_sub)
  have content: "LoLaPacket_GetRawContent (IncomingPacket b) = out @ rest"
    by (simp add: packet_accessor_defs raw lola_consts le16_bytes_def)
  have crc: "LoLaPacket_GetMACCRC (IncomingPacket b) = crc"
    using bytes_le16_le16_bytes [of crc "[]"]
    by (simp add: packet_accessor_defs raw lola_consts le16_bytes_def)
  have set: "store 2 (take n m @ rest) (le16_bytes crc @ out @ rest) = le16_bytes crc @ take n m @ rest"
    using lo n l by (simp add: store_split le16_bytes_def numeral_2_eq_2)
  obtain h ms where m: "take n m = h # ms" "h = m ! 0"
    using n by (cases m; cases n) auto
  let ?q = "LoLaPacket_SetRawContent (take n m @ rest) (IncomingPacket b)"
  have q: "Raw ?q = le16_bytes crc @ take n m @ rest"
    unfolding LoLaPacket_SetRawContent_def by (simp add: raw set lola_consts del: One_nat_def)
      (simp add: set [unfolded numeral_2_eq_2])
  have hq: "LoLaPacket_GetDataHeader ?q = m ! 0"
    by (simp add: LoLaPacket_GetDataHeader_def q lola_consts) (simp add: m le16_bytes_def)
  have setdef: "LoLaPacket_SetDefinition (Some def) ?q = (True, ?q\<lparr>Definition := Some def\<rparr>)"
  proof -
    have "(Raw ?q)[2 := Header def] = Raw ?q"
      by (simp add: q hdr) (simp add: m le16_bytes_def numeral_2_eq_2)
    then have "?q\<lparr>Raw := (Raw ?q)[2 := Header def]\<rparr> = ?q" by simp
    then show ?thesis by (simp add: LoLaPacket_SetDefinition_def lola_consts numeral_2_eq_2)
  qed
  show ?thesis
    using known q
    by (simp add: Driver_DecodeIncoming_def quick content crc Decode_same_library [OF lib] dec hq setdef)
qed

lemma ReadReceived_counts:
  "IncomingPacketSize (Driver_ReadReceived P d) = IncomingPacketSize d"
  "PacketMap (Driver_ReadReceived P d) = PacketMap d"
  "CryptoEncoder (Driver_ReadReceived P d) = CryptoEncoder d"
  "ReceivedCount (Driver_ReadReceived P d) = ReceivedCount d"
  "RejectedCount (Driver_ReadReceived P d) = RejectedCount d"
  "Raw (IncomingPacket (Driver_ReadReceived P d)) =
     store 0 (radio_rx_bytes P (unat (IncomingPacketSize d))) (Raw (IncomingPacket d))"
  by (simp_all add: Driver_ReadReceived_def fault_if_def Let_def)

lemma CommitReceived_counts:
  "ReceivedCount (Driver_CommitReceived P d) = ReceivedCount d + 1"
  "RejectedCount (Driver_CommitReceived P d) = RejectedCount d"
  by (simp_all add: Driver_CommitReceived_def Driver_IsReceiveCollision_def Driver_IsInReceiveSlot_def
      Let_def case_prod_unfold)

lemma DecodeIncoming_counts:
  "ReceivedCount (snd (Driver_DecodeIncoming P d)) = ReceivedCount d"
  "RejectedCount (snd (Driver_DecodeIncoming P d)) = RejectedCount d"
  by (simp_all add: Driver_DecodeIncoming_def Let_def case_prod_unfold)

text \<open>What the radio delivers comes first in the buffer of the incoming packet.\<close>

lemma ReadReceived_raw:
  assumes "length (Raw (IncomingPacket d)) = 26" and "length f \<le> 26" and "unat (IncomingPacketSize d) = length f"
    and "radio_rx_bytes P (length f) = f"
  shows "Raw (IncomingPacket (Driver_ReadReceived P d)) = f @ drop (length f) (Raw (IncomingPacket d))"
proof -
  have "Raw (IncomingPacket (Driver_ReadReceived P d)) = store 0 f (Raw (IncomingPacket d))"
    using assms by (simp add: ReadReceived_counts)
  then show ?thesis using assms(1,2) by (simp add: store_split)
qed

text \<open>C6. A packet that one driver sends reaches the services of the other: when the radio delivers
  the frame, the encoders agree and the receiver's table has the packet's definition, \<open>ProcessIncoming\<close>
  accepts the frame and dispatches a packet with the same definition, header, id and payload,
  whether or not the link encrypts; it is counted as received and not as rejected.\<close>
theorem packet_delivery:
  assumes lib: "same_library PA PB" and c: "cypher_ok PA"
    and p: "packet_wf p" and d: "Definition p = Some def"
    and out: "length (Raw (OutgoingPacket a)) = 26" and sent: "Driver_SendPacket PA p a = (True, a')"
    and st: "DriverActiveState (drv w) = AwaitingProcessing"
    and buf: "length (Raw (IncomingPacket (drv w))) = 26"
    and size: "IncomingPacketSize (drv w) = PacketDefinition_GetTotalSize def"
    and air: "air_frame a' = Some (radio_rx_bytes PB (unat (IncomingPacketSize (drv w))))"
    and same: "same_crypto (CryptoEncoder a) (CryptoEncoder (drv w))"
    and known: "PacketMap_GetDefinition (Header def) (PacketMap (drv w)) = Some def"
  shows "\<exists>w'. Driver_ProcessIncoming PB H w = Driver_Dispatch PB H def w' \<and>
    Definition (IncomingPacket (drv w')) = Some def \<and>
    take (unat (PacketDefinition_GetContentSize def)) (LoLaPacket_GetRawContent (IncomingPacket (drv w'))) =
      take (unat (PacketDefinition_GetContentSize def)) (LoLaPacket_GetRawContent p) \<and>
    ReceivedCount (drv w') = ReceivedCount (drv w) + 1 \<and> RejectedCount (drv w') = RejectedCount (drv w)"
proof -
  let ?m = "LoLaPacket_GetRawContent p"
  define n where "n = 2 + unat (PayloadSize def)"
  have pl: "unat (PayloadSize def) \<le> 22" and len: "4 + unat (PayloadSize def) \<le> length (Raw p)"
    and hp: "LoLaPacket_GetDataHeader p = Header def"
    using p d by (simp_all add: packet_wf_def)
  have sizes: "unat (PacketDefinition_GetContentSize def) = n" "unat (PacketDefinition_GetTotalSize def) = n + 2"
    using unat_GetContentSize [OF pl] unat_GetTotalSize [OF pl] by (simp_all add: n_def)
  have nm: "n \<le> length ?m" "2 \<le> n" "n \<le> 24"
    using len pl by (simp_all add: n_def packet_accessor_defs lola_consts)
  have h0: "?m ! 0 = Header def" using header_id_of_content(1) [of p] hp len by simp
  obtain crc bs e where enc: "Encoder_Encode PA ?m n (CryptoEncoder a) = (crc, bs, e)"
    and frame: "air_frame a' = Some (le16_bytes crc @ bs)" and lb: "length bs = n"
    using SendPacket_frame [OF c p d out sent n_def] by blast
  define b where "b = Driver_ReadReceived PB ((drv w)\<lparr>DriverActiveState := ProcessingIncoming\<rparr>)"
  define rest where "rest = drop (n + 2) (Raw (IncomingPacket (drv w)))"
  have f: "length (le16_bytes crc @ bs) = n + 2" "length (le16_bytes crc @ bs) \<le> 26" using lb nm(3) by simp_all
  then have raw: "Raw (IncomingPacket b) = le16_bytes crc @ bs @ rest"
    using ReadReceived_raw [of "(drv w)\<lparr>DriverActiveState := ProcessingIncoming\<rparr>" "le16_bytes crc @ bs" PB] air frame size sizes(2) buf
    by (simp add: b_def rest_def)
  have bf: "IncomingPacketSize b = PacketDefinition_GetTotalSize def" "PacketMap b = PacketMap (drv w)"
    "CryptoEncoder b = CryptoEncoder (drv w)" "ReceivedCount b = ReceivedCount (drv w)"
    "RejectedCount b = RejectedCount (drv w)"
    by (simp_all add: b_def ReadReceived_counts size)
  have lr: "length (bs @ rest) = 24" using buf lb nm(3) by (simp add: rest_def)
  have b1: "same_crypto (CryptoEncoder a) (CryptoEncoder b)" using same bf(3) by simp
  have b2: "unat (IncomingPacketSize b) = n + 2" using bf(1) sizes(2) by simp
  have b3: "PacketMap_GetDefinition (?m ! 0) (PacketMap b) = Some def" using known h0 bf(2) by simp
  obtain b' where dec: "Driver_DecodeIncoming PB b = (True, b')" and def: "Definition (IncomingPacket b') = Some def"
    and raw': "Raw (IncomingPacket b') = le16_bytes crc @ take n ?m @ rest"
    using DecodeIncoming_frame_ok [OF lib c b1 enc nm raw lr b2 b3 h0 [symmetric]] by blast
  let ?w' = "w\<lparr>drv := Driver_CommitReceived PB b'\<rparr>"
  have "Driver_ProcessIncoming PB H w = Driver_Dispatch PB H def ?w'"
    using st bf(1) sizes(2) nm dec def
    by (simp add: Driver_ProcessIncoming_def b_def [symmetric] lola_consts)
  moreover have "take n (LoLaPacket_GetRawContent (IncomingPacket b')) = take n ?m"
    using nm(1) by (simp add: LoLaPacket_GetRawContent_def raw' lola_consts le16_bytes_def)
  moreover have "ReceivedCount b' = ReceivedCount b" "RejectedCount b' = RejectedCount b"
    using DecodeIncoming_counts [of PB b] dec by simp_all
  ultimately show ?thesis
    using def bf(4,5) by (intro exI [of _ ?w']) (simp add: sizes CommitReceived_frame CommitReceived_counts)
qed

definition sample_def :: PacketDefinition where
  "sample_def = \<lparr> Configuration = 0, Header = 5, PayloadSize = 1 \<rparr>"

definition sample_packet :: LoLaPacket where
  "sample_packet = \<lparr> Raw = [0, 0, 5, 1, 42], Definition = Some sample_def \<rparr>"

definition sample_sent :: "bool \<times> Driver" where
  "sample_sent = Driver_SendPacket sample_platform sample_packet
     (Driver_new\<lparr>DriverActiveState := ReadyForAnything\<rparr>)"

definition sample_receiver :: node where
  "sample_receiver = \<lparr> drv = Driver_new\<lparr> DriverActiveState := AwaitingProcessing, IncomingPacketSize := 5,
     PacketMap := \<lparr> MappingSize = 1, Mapping = (replicate 20 None)[5 := Some sample_def] \<rparr> \<rparr> \<rparr>"

lemma sample_sent_ok: "fst sample_sent"
  by (simp add: sample_sent_def sample_packet_def sample_def_def Driver_SendPacket_def Driver_new_def
      Driver_EncodeOutgoing_def Driver_Transmit_def Let_def fault_if_def PacketDefinition_GetTotalSize_def
      lola_consts split: prod.split)

theorem packet_delivery_witness:
  "\<forall>H. \<exists>w'. Driver_ProcessIncoming (sample_platform\<lparr>radio_rx_bytes := \<lambda>n. the (air_frame (snd sample_sent))\<rparr>) H
      sample_receiver =
    Driver_Dispatch (sample_platform\<lparr>radio_rx_bytes := \<lambda>n. the (air_frame (snd sample_sent))\<rparr>) H sample_def w' \<and>
    Definition (IncomingPacket (drv w')) = Some sample_def \<and>
    take (unat (PacketDefinition_GetContentSize sample_def)) (LoLaPacket_GetRawContent (IncomingPacket (drv w'))) =
      take (unat (PacketDefinition_GetContentSize sample_def)) (LoLaPacket_GetRawContent sample_packet) \<and>
    ReceivedCount (drv w') = ReceivedCount (drv sample_receiver) + 1 \<and>
    RejectedCount (drv w') = RejectedCount (drv sample_receiver)"
proof (rule allI, rule packet_delivery [where PA = sample_platform and a' = "snd sample_sent"
      and a = "Driver_new\<lparr>DriverActiveState := ReadyForAnything\<rparr>"])
  show wf: "packet_wf sample_packet"
    by (simp add: packet_wf_def sample_packet_def sample_def_def packet_accessor_defs lola_consts)
  show d: "Definition sample_packet = Some sample_def" by (simp add: sample_packet_def)
  show out: "length (Raw (OutgoingPacket (Driver_new\<lparr>DriverActiveState := ReadyForAnything\<rparr>))) = 26"
    by (simp add: Driver_new_def LoLaPacket_new_def lola_consts)
  show sent: "Driver_SendPacket sample_platform sample_packet (Driver_new\<lparr>DriverActiveState := ReadyForAnything\<rparr>) =
      (True, snd sample_sent)"
    using sample_sent_ok unfolding sample_sent_def by (metis prod.collapse)
  show "air_frame (snd sample_sent) = Some (radio_rx_bytes (sample_platform\<lparr>radio_rx_bytes :=
      \<lambda>n. the (air_frame (snd sample_sent))\<rparr>) (unat (IncomingPacketSize (drv sample_receiver))))"
    using SendPacket_frame [OF cypher_ok_sample wf d out sent refl] by auto
qed (simp_all add: same_library_def sample_receiver_def Driver_new_def LoLaPacket_new_def lola_consts
      sample_def_def PacketDefinition_GetTotalSize_def same_crypto_def PacketMap_GetDefinition_def Encoder_new_def)

end
