(* ===== verification/Node_Safety.thy ===== *)
theory Node_Safety
  imports Sync_Writer Sync_Reader
begin

text \<open>
  A node whose driver serves real services: the handlers the driver calls are the services
  manager's, with the surface services on its table, so what \<open>driver_services\<close> proves holds for
  every run of such a node.
\<close>

definition writer_manager :: "SyncSurfaceWriter LoLaServicesManager" where
  "writer_manager = \<lparr> Services = (replicate MAX_RADIO_SERVICES_COUNT None)[0 := Some Writer_service],
     ServicesCount = 1 \<rparr>"

definition reader_manager :: "AbstractSync LoLaServicesManager" where
  "reader_manager = \<lparr> Services = (replicate MAX_RADIO_SERVICES_COUNT None)[0 := Some Reader_service],
     ServicesCount = 1 \<rparr>"

lemma writer_manager_table: "Manager_table writer_manager = [Writer_service]"
  by (simp add: Manager_table_def writer_manager_def lola_consts numeral_eq_Suc map_filter_simps)

lemma reader_manager_table: "Manager_table reader_manager = [Reader_service]"
  by (simp add: Manager_table_def reader_manager_def lola_consts numeral_eq_Suc map_filter_simps)

interpretation writer_node: driver_services "Manager_handlers writer_manager"
  by (rule Manager_handlers_services)
     (simp add: writer_manager_table writer_service.node_service_axioms)

interpretation reader_node: driver_services "Manager_handlers reader_manager"
  by (rule Manager_handlers_services)
     (simp add: reader_manager_table reader_service.node_service_axioms)

lemma node_reach_step:
  "node_reach room H w0 w \<Longrightarrow> length (action_queue (drv w)) < room \<Longrightarrow> env_step w w' \<Longrightarrow>
    node_reach room H w0 w'"
  by (rule node_reach.env)

definition sample_node :: SyncSurfaceWriter where
  "sample_node = \<lparr> drv = Driver_new, ServiceState = Active, DefaultPeriod = 1, ServiceEnabled = True,
     ServiceNextRun = RunASAP, SendStatus = Done, SendFailures = 0, SendStartMillis = 0,
     SendTimeOutDuration = 0, AckTimeOutDuration = 0, Packet = LoLaPacket_new 8,
     LastRemoteHash = 0, RemoteHashIsSet = False, StateStartTime = 0, LastSent = 0,
     SyncState = Disabled, TrackedSurface = Surface_new 2,
     SyncMetaDefinition = SyncMetaPacketDefinition 6, DataPacketDefinition = SyncDataPacketDefinition 6,
     WriterState = UpdatingBlocks, SurfaceSendingIndex = 0 \<rparr>"

lemma sample_node_enabled:
  "node_reach 5 (Manager_handlers writer_manager) sample_node (on_drv (Driver_Enable sample_platform) sample_node)"
  by (rule node_reach.env [OF node_reach.start])
     (simp_all add: env_step.enable sample_node_def Driver_new_def action_queue_def AsyncQueue_new_def)

text \<open>C7. In every run of a node whose services use the driver only through its operations (whatever
  they call, whatever the radio and the scheduler do, and however full the action queue gets): a
  driver that is ready has no channel change pending and its chip was last told to receive, on the
  channel the driver was last set to; while it waits for the end of a transmission, the last
  command was a transmission on the channel it remembers; and at most four actions are pending.\<close>
theorem ready_driver_listens_on_its_channel:
  assumes "\<forall>S \<in> set (Manager_table M). node_service S"
    and "node_reach room (Manager_handlers M) w0 w" and "drv w0 = Driver_new"
  shows "(DriverActiveState (drv w) = ReadyForAnything \<longrightarrow> \<not> ChannelPending (drv w) \<and>
      radio_mode (RadioLog (drv w)) = Some (RadioRX (CurrentChannel (drv w)))) \<and>
    (DriverActiveState (drv w) = WaitingForTransmissionEnd \<longrightarrow>
      radio_channel (radio_mode (RadioLog (drv w))) = Some (LastChannel (drv w))) \<and>
    length (action_queue (drv w)) \<le> 4"
proof -
  have "Driver_inv (drv w)"
    using driver_services.reach_inv [OF Manager_handlers_services [OF assms(1)] assms(2)] assms(3) by simp
  moreover have "\<exists>c. m = Some (RadioRX c)" if "is_receive m" for m
    using that by (cases m rule: is_receive.cases) auto
  ultimately show ?thesis
    by (fastforce simp: Driver_inv_def receive_states_def)
qed

lemma sample_node_drv [simp]: "drv sample_node = Driver_new"
  by (simp add: sample_node_def)

theorem ready_driver_listens_on_its_channel_witness:
  "DriverActiveState (Driver_Enable sample_platform Driver_new) = ReadyForAnything \<and>
   \<not> ChannelPending (Driver_Enable sample_platform Driver_new) \<and>
   radio_mode (RadioLog (Driver_Enable sample_platform Driver_new)) =
     Some (RadioRX (CurrentChannel (Driver_Enable sample_platform Driver_new)))"
  using ready_driver_listens_on_its_channel [OF _ sample_node_enabled]
  by (simp add: writer_manager_table writer_service.node_service_axioms Driver_Enable_def Driver_OnStart_def)

text \<open>C17. The radio interrupts are masked only while the received packet that masked them is still to
  be processed: in every run in which the action queue has room whenever something else than the
  action task happens, masked interrupts imply that \<open>ActionProcessIncomingPacket\<close> is queued, and
  (the property before) processing it unmasks them.\<close>
theorem masked_radio_has_incoming_queued:
  assumes "\<forall>S \<in> set (Manager_table M). node_service S"
    and "node_reach 4 (Manager_handlers M) w0 w" and "drv w0 = Driver_new"
    and "\<not> IrqEnabled (drv w)"
  shows "ActionProcessIncomingPacket \<in> fst ` set (action_queue (drv w))"
  using driver_services.reach_irq_inv [OF Manager_handlers_services [OF assms(1)] assms(2)] assms(3,4)
    Driver_new_inv(2)
  by (simp add: irq_inv_def incoming_queued_def)

definition sample_received :: Driver where
  "sample_received = Driver_OnReceiveBegin sample_platform 9 0
     (Driver_OnIncoming sample_platform 0 (Driver_Enable sample_platform Driver_new))"

lemma sample_received_reached:
  "node_reach 4 (Manager_handlers writer_manager) sample_node (sample_node\<lparr>drv := sample_received\<rparr>)"
proof -
  let ?w1 = "on_drv (Driver_Enable sample_platform) sample_node"
  let ?w2 = "on_drv (Driver_OnIncoming sample_platform 0) ?w1"
  let ?w3 = "on_drv (Driver_OnReceiveBegin sample_platform 9 0) ?w2"
  have q1: "action_queue (drv ?w1) = []" "IrqEnabled (drv ?w1)"
    by (simp_all add: Driver_Enable_def Driver_OnStart_def Driver_new_def action_queue_def AsyncQueue_new_def
        Driver_RestoreToReceiving_def Driver_SetToReceiving_def)
  have q2: "action_queue (drv ?w2) = []" "IrqEnabled (drv ?w2)"
    using q1 by (simp_all add: Driver_OnIncoming_def Let_def)
  have "node_reach 4 (Manager_handlers writer_manager) sample_node ?w1"
    by (rule node_reach.env [OF node_reach.start])
       (simp_all add: env_step.enable Driver_new_def action_queue_def AsyncQueue_new_def)
  then have "node_reach 4 (Manager_handlers writer_manager) sample_node ?w2"
    by (rule node_reach.env) (use q1 in \<open>simp_all add: env_step.incoming\<close>)
  then have "node_reach 4 (Manager_handlers writer_manager) sample_node ?w3"
    by (rule node_reach.env) (use q2 in \<open>simp_all add: env_step.receive_begin\<close>)
  then show ?thesis by (simp add: on_drv_def sample_received_def)
qed

lemma sample_received_masked: "\<not> IrqEnabled sample_received"
  by (simp add: sample_received_def Driver_OnReceiveBegin_def Driver_OnIncoming_def Driver_Enable_def
      Driver_OnStart_def Driver_DisableInterrupts_def Let_def)

theorem masked_radio_has_incoming_queued_witness:
  "ActionProcessIncomingPacket \<in> fst ` set (action_queue sample_received)"
  using masked_radio_has_incoming_queued [OF _ sample_received_reached] sample_received_masked
  by (simp add: writer_manager_table writer_service.node_service_axioms)

text \<open>Calls of \<open>SetChannel\<close> while the driver is busy push older actions out of the queue.\<close>

lemma busy_SetChannel:
  assumes "DriverActiveState d \<noteq> ReadyForAnything" and "c \<noteq> LastChannel d"
  shows "action_queue (Driver_SetChannel P c d) =
      ring_add_force (ring_actions P) (ActionUpdateChannel, 0) (action_queue d)"
    and "LastChannel (Driver_SetChannel P c d) = LastChannel d"
  using assms by (simp_all add: Driver_SetChannel_def Driver_OnChannelUpdated_def)

lemma four_adds:
  assumes "actions_ok P" and "length q \<le> 4"
  shows "set (((ring_add_force (ring_actions P) a) ^^ 4) q) = {a}"
proof -
  let ?add = "\<lambda>q. if length q < 4 then q @ [a] else tl q @ [a]"
  have add: "ring_add_force (ring_actions P) a q = ?add q" if "length q \<le> 4" for q
    using assms(1) that by (simp add: actions_ok_def)
  have l: "length (?add q) \<le> 4" if "length q \<le> 4" for q using that by auto
  have step: "(ring_add_force (ring_actions P) a ^^ 4) q = ?add (?add (?add (?add q)))"
    using assms(2) add l by (simp add: numeral_eq_Suc)
  obtain x where "q = [] \<or> q = [x] \<or> (\<exists>y. q = [x, y]) \<or> (\<exists>y z. q = [x, y, z]) \<or> (\<exists>y z t. q = [x, y, z, t])"
    using assms(2) by (cases q; cases "tl q"; cases "tl (tl q)"; cases "tl (tl (tl q))"; force)
  then show ?thesis unfolding step by (elim disjE exE) simp_all
qed

lemma four_SetChannel:
  assumes "DriverActiveState d \<noteq> ReadyForAnything" and "c \<noteq> LastChannel d"
  shows "action_queue ((Driver_SetChannel P c ^^ n) d) =
      (ring_add_force (ring_actions P) (ActionUpdateChannel, 0) ^^ n) (action_queue d) \<and>
    DriverActiveState ((Driver_SetChannel P c ^^ n) d) = DriverActiveState d \<and>
    LastChannel ((Driver_SetChannel P c ^^ n) d) = LastChannel d \<and>
    IrqEnabled ((Driver_SetChannel P c ^^ n) d) = IrqEnabled d"
  using assms
  by (induction n) (simp_all add: busy_SetChannel, simp_all add: Driver_SetChannel_def Driver_OnChannelUpdated_def)

text \<open>C18. When the queue does overflow the node goes deaf for good: if four channel changes are
  requested while a received packet waits to be processed, its action is pushed out, and from then
  on no run of the node, however long and whatever happens in it, ever enables the radio
  interrupts again, since only that action does.\<close>
theorem queue_overflow_deafens:
  assumes "\<forall>S \<in> set (Manager_table M). node_service S" and "actions_ok P"
    and "Driver_inv (drv w)" and "\<not> IrqEnabled (drv w)"
    and "DriverActiveState (drv w) \<noteq> ReadyForAnything" and "c \<noteq> LastChannel (drv w)"
    and "node_reach room (Manager_handlers M) (on_drv (Driver_SetChannel P c ^^ 4) w) w'"
  shows "\<not> IrqEnabled (drv w')"
proof -
  let ?d = "(Driver_SetChannel P c ^^ 4) (drv w)"
  note four = four_SetChannel [OF assms(5,6), of 4 P]
  have "\<not> incoming_queued ?d"
    using four four_adds [OF assms(2) Driver_inv_queue [OF assms(3)], of "(ActionUpdateChannel, 0)"]
    by (simp add: incoming_queued_def lola_consts)
  moreover have "Driver_inv ?d"
    using SetChannel_inv [OF assms(2)] assms(3) by (simp add: numeral_eq_Suc)
  ultimately show ?thesis
    using driver_services.reach_deaf [OF Manager_handlers_services [OF assms(1)] assms(7)] four assms(4)
    by simp
qed

lemma sample_received_facts:
  "DriverActiveState sample_received \<noteq> ReadyForAnything" "LastChannel sample_received = 0"
  "Driver_inv sample_received"
proof -
  show "DriverActiveState sample_received \<noteq> ReadyForAnything" "LastChannel sample_received = 0"
    by (simp_all add: sample_received_def Driver_OnReceiveBegin_def Driver_OnIncoming_def Driver_Enable_def
        Driver_OnStart_def Driver_DisableInterrupts_def Let_def)
       (simp add: Driver_RestoreToReceiving_def Driver_SetToReceiving_def Driver_new_def)
  show "Driver_inv sample_received"
    unfolding sample_received_def Driver_Enable_def
    by (intro OnReceiveBegin_inv OnIncoming_inv OnStart_inv) simp_all
qed

theorem queue_overflow_deafens_witness:
  "\<not> IrqEnabled ((Driver_SetChannel sample_platform 7 ^^ 4) sample_received)"
  using queue_overflow_deafens [of writer_manager sample_platform "sample_node\<lparr>drv := sample_received\<rparr>" 7 5
      "on_drv (Driver_SetChannel sample_platform 7 ^^ 4) (sample_node\<lparr>drv := sample_received\<rparr>)"]
    sample_received_facts sample_received_masked
    node_reach.start [of 5 "Manager_handlers writer_manager"
      "on_drv (Driver_SetChannel sample_platform 7 ^^ 4) (sample_node\<lparr>drv := sample_received\<rparr>)"]
  by (simp add: writer_manager_table writer_service.node_service_axioms)

end
