(* ===== verification/Identity.thy ===== *)
theory Identity
  imports Platform LoLa_Constants
begin

text \<open>
  \<open>src/src/LoLaCrypto/UniqueIdProvider.h\<close> and \<open>PseudoMacGenerator.h\<close>, in the STM32 build: the
  96 bit chip id padded to 16 bytes, the 64 bit MAC made of it by CRC8, and the 32 bit id by which
  the two ends of a link know each other. All three are computed on first use and kept.
\<close>

section \<open>Unique id\<close>

definition UNIQUE_ID_MAX_LENGTH :: nat where
  [lola_consts]: "UNIQUE_ID_MAX_LENGTH = 16"

definition ID_STM32_LENGTH :: nat where
  [lola_consts]: "ID_STM32_LENGTH = 12"

record UniqueIdProvider =
  UUID :: "u8 list"
  HasUUID :: bool

definition UniqueId_new :: UniqueIdProvider where
  "UniqueId_new = \<lparr> UUID = replicate UNIQUE_ID_MAX_LENGTH 0, HasUUID = False \<rparr>"

text \<open>The first bytes are read from the chip, the rest is zero.\<close>

definition UniqueId_UpdateId :: "platform \<Rightarrow> UniqueIdProvider \<Rightarrow> UniqueIdProvider" where
  "UniqueId_UpdateId P u =
     (let n = min ID_STM32_LENGTH UNIQUE_ID_MAX_LENGTH
      in u\<lparr>UUID := map (\<lambda>i. if i < n then chip_id P ! i else 0) [0..<UNIQUE_ID_MAX_LENGTH]\<rparr>)"

definition UniqueId_GetUUIDPointer :: "platform \<Rightarrow> UniqueIdProvider \<Rightarrow> u8 list \<times> UniqueIdProvider" where
  "UniqueId_GetUUIDPointer P u =
     (let u1 = (if HasUUID u then u else (UniqueId_UpdateId P u)\<lparr>HasUUID := True\<rparr>) in (UUID u1, u1))"

definition UniqueId_GetUUIDLength :: nat where
  "UniqueId_GetUUIDLength = UNIQUE_ID_MAX_LENGTH"

section \<open>MAC\<close>

record LoLaMAC =
  MAC :: "u8 list"
  MACHash :: u32
  MACCached :: bool
  IdProvider :: UniqueIdProvider

definition MAC_new :: LoLaMAC where
  "MAC_new = \<lparr> MAC = replicate LOLA_LINK_INFO_MAC_LENGTH 0, MACHash = 0, MACCached = False,
     IdProvider = UniqueId_new \<rparr>"

text \<open>
  A running CRC: \<open>smbus\<close> of the first byte, \<open>smbus_upd\<close> of every further one, each value as it
  comes out.
\<close>

fun crc_upd_chain :: "platform \<Rightarrow> u8 \<Rightarrow> u8 list \<Rightarrow> u8 list" where
  "crc_upd_chain P seed [] = []"
| "crc_upd_chain P seed (b # bs) =
     (let c = crc8_smbus_upd P seed [b] in c # crc_upd_chain P c bs)"

fun crc_chain :: "platform \<Rightarrow> u8 list \<Rightarrow> u8 list" where
  "crc_chain P [] = []"
| "crc_chain P (b # bs) = (let c = crc8_smbus P [b] in c # crc_upd_chain P c bs)"

definition MAC_UpdateMACHash :: "platform \<Rightarrow> LoLaMAC \<Rightarrow> LoLaMAC" where
  "MAC_UpdateMACHash P m =
     (let c = crc_chain P (take 4 (MAC m))
      in m\<lparr>MACHash := ucast (c ! 0) + push_bit 8 (ucast (c ! 1)) + push_bit 16 (ucast (c ! 2))
             + push_bit 24 (ucast (c ! 3))\<rparr>)"

definition MAC_UpdateMAC :: "platform \<Rightarrow> LoLaMAC \<Rightarrow> LoLaMAC" where
  "MAC_UpdateMAC P m =
     (let (uuid, ids) = UniqueId_GetUUIDPointer P (IdProvider m);
          len = LOLA_LINK_INFO_MAC_LENGTH;
          lastByte = (if len < UniqueId_GetUUIDLength
                  then crc8_smbus P (take (UniqueId_GetUUIDLength - len - 1) (drop (len - 1) uuid))
                  else uuid ! (len - 1))
      in MAC_UpdateMACHash P (m\<lparr>IdProvider := ids, MAC := crc_chain P (take (len - 1) uuid) @ [lastByte]\<rparr>))"

definition MAC_LazyLoad :: "platform \<Rightarrow> LoLaMAC \<Rightarrow> LoLaMAC" where
  "MAC_LazyLoad P m =
     (if \<not> MACCached m then
        if LOLA_LINK_INFO_MAC_LENGTH \<le> UniqueId_GetUUIDLength
        then (MAC_UpdateMAC P m)\<lparr>MACCached := True\<rparr> else m
      else m)"

definition MAC_GetMACHash :: "platform \<Rightarrow> LoLaMAC \<Rightarrow> u32 \<times> LoLaMAC" where
  "MAC_GetMACHash P m = (let m1 = MAC_LazyLoad P m in (MACHash m1, m1))"

definition MAC_GetMACPointer :: "platform \<Rightarrow> LoLaMAC \<Rightarrow> u8 list \<times> LoLaMAC" where
  "MAC_GetMACPointer P m = (let m1 = MAC_LazyLoad P m in (MAC m1, m1))"

definition MAC_Match :: "u8 list \<Rightarrow> u8 list \<Rightarrow> bool" where
  "MAC_Match mac1 mac2 \<longleftrightarrow> (\<forall>i \<in> set [0..<LOLA_LINK_INFO_MAC_LENGTH]. mac1 ! i = mac2 ! i)"

section \<open>What the id is made of\<close>

lemma length_crc_upd_chain [simp]: "length (crc_upd_chain P s bs) = length bs"
  by (induction P s bs rule: crc_upd_chain.induct) (simp_all add: Let_def)

lemma length_crc_chain [simp]: "length (crc_chain P bs) = length bs"
  by (cases bs) (simp_all add: Let_def)

lemma take_crc_upd_chain: "take n (crc_upd_chain P s bs) = crc_upd_chain P s (take n bs)"
  by (induction P s bs arbitrary: n rule: crc_upd_chain.induct) (simp_all add: Let_def take_Cons split: nat.split)

lemma take_crc_chain: "take n (crc_chain P bs) = crc_chain P (take n bs)"
  by (cases bs; cases n) (simp_all add: Let_def take_crc_upd_chain)

text \<open>The id a fresh generator computes, and what its cache may hold afterwards.\<close>

definition local_id :: "platform \<Rightarrow> u32" where
  "local_id P = fst (MAC_GetMACHash P MAC_new)"

definition MAC_ok :: "platform \<Rightarrow> LoLaMAC \<Rightarrow> bool" where
  "MAC_ok P m \<longleftrightarrow> (if MACCached m then MACHash m = local_id P \<and> length (MAC m) = LOLA_LINK_INFO_MAC_LENGTH
     else m = MAC_new)"

lemma MAC_new_ok [simp]: "MAC_ok P MAC_new"
  by (simp add: MAC_ok_def MAC_new_def)

lemma length_new_MAC: "length (MAC (MAC_UpdateMAC P MAC_new)) = 8"
  by (simp add: MAC_UpdateMAC_def MAC_UpdateMACHash_def UniqueId_GetUUIDPointer_def UniqueId_UpdateId_def
      UniqueId_new_def MAC_new_def lola_consts Let_def del: upt_Suc)

lemma MAC_LazyLoad_ok:
  assumes "MAC_ok P m"
  shows "MAC_ok P (MAC_LazyLoad P m)" and "MACHash (MAC_LazyLoad P m) = local_id P"
    and "MACCached (MAC_LazyLoad P m)"
proof -
  have "MACCached (MAC_LazyLoad P m) \<and> MACHash (MAC_LazyLoad P m) = local_id P \<and>
      length (MAC (MAC_LazyLoad P m)) = 8"
  proof (cases "MACCached m")
    case True
    with assms show ?thesis by (simp add: MAC_LazyLoad_def MAC_ok_def lola_consts)
  next
    case False
    with assms have "m = MAC_new" by (simp add: MAC_ok_def)
    then show ?thesis using False
      by (simp add: MAC_LazyLoad_def local_id_def MAC_GetMACHash_def Let_def UniqueId_GetUUIDLength_def
          lola_consts length_new_MAC)
  qed
  then show "MAC_ok P (MAC_LazyLoad P m)" "MACHash (MAC_LazyLoad P m) = local_id P"
    "MACCached (MAC_LazyLoad P m)"
    by (simp_all add: MAC_ok_def lola_consts)
qed

lemma GetMACHash_ok [simp]:
  "MAC_ok P m \<Longrightarrow> fst (MAC_GetMACHash P m) = local_id P"
  "MAC_ok P m \<Longrightarrow> MAC_ok P (snd (MAC_GetMACHash P m))"
  by (simp_all add: MAC_GetMACHash_def Let_def MAC_LazyLoad_ok)

text \<open>
  The hash takes the first four bytes of the MAC, each of which is a CRC of the chip id up to
  there: chips that agree in their first four bytes have the same link id.
\<close>

lemma local_id_chain:
  "local_id P = (let c = crc_chain P (crc_chain P (map (\<lambda>i. chip_id P ! i) [0..<4]))
     in ucast (c ! 0) + push_bit 8 (ucast (c ! 1)) + push_bit 16 (ucast (c ! 2)) + push_bit 24 (ucast (c ! 3)))"
  (is "_ = ?r")
proof -
  let ?uuid = "map (\<lambda>i. if i < 12 then chip_id P ! i else 0) [0..<16]"
  have t: "take 4 ?uuid = map (\<lambda>i. chip_id P ! i) [0..<4]"
    by (simp add: take_map del: upt_Suc)
  have "take 4 (crc_chain P (take 7 ?uuid) @ [b]) = crc_chain P (map (\<lambda>i. chip_id P ! i) [0..<4])" for b
    by (simp add: take_crc_chain t del: upt_Suc)
  then show ?thesis
    by (simp add: local_id_def MAC_GetMACHash_def MAC_LazyLoad_def MAC_UpdateMAC_def MAC_UpdateMACHash_def
        UniqueId_GetUUIDPointer_def UniqueId_UpdateId_def UniqueId_GetUUIDLength_def UniqueId_new_def
        MAC_new_def lola_consts Let_def del: upt_Suc)
qed

text \<open>C31. The 32 bit id by which the partners of a link know each other is read off the same way
  however often it is asked for, and it depends on the first four bytes of the chip id only: two chips
  whose 96 bit ids agree there have the same link id, whatever the other eight bytes are.\<close>
theorem link_id_from_four_chip_bytes:
  assumes "crc8_smbus P = crc8_smbus Q" and "crc8_smbus_upd P = crc8_smbus_upd Q"
    and "take 4 (chip_id P) = take 4 (chip_id Q)"
    and "4 \<le> length (chip_id P)" and "4 \<le> length (chip_id Q)"
    and "MAC_ok P m" and "MAC_ok Q n"
  shows "fst (MAC_GetMACHash P m) = fst (MAC_GetMACHash Q n) \<and>
    fst (MAC_GetMACHash P (snd (MAC_GetMACHash P m))) = fst (MAC_GetMACHash P m)"
proof -
  have u: "crc_upd_chain P x bs = crc_upd_chain Q x bs" for x bs
    by (induction bs arbitrary: x) (simp_all add: assms(2) Let_def)
  have c: "crc_chain P bs = crc_chain Q bs" for bs
    by (cases bs) (simp_all add: u assms(1) Let_def)
  have "map (\<lambda>i. chip_id P ! i) [0..<4] = map (\<lambda>i. chip_id Q ! i) [0..<4]"
    using assms(3) by (intro map_cong refl) (metis atLeastLessThan_iff nth_take set_upt)
  then have "local_id P = local_id Q" unfolding local_id_chain c by (rule arg_cong)
  with assms(6,7) show ?thesis by simp
qed

theorem link_id_from_four_chip_bytes_witness:
  "fst (MAC_GetMACHash sample_platform MAC_new) =
   fst (MAC_GetMACHash (sample_platform\<lparr>chip_id := [7, 7, 7, 7, 1, 2, 3, 4, 5, 6, 8, 9]\<rparr>) MAC_new)"
  using link_id_from_four_chip_bytes [of sample_platform
      "sample_platform\<lparr>chip_id := [7, 7, 7, 7, 1, 2, 3, 4, 5, 6, 8, 9]\<rparr>" MAC_new MAC_new]
  by (simp add: numeral_eq_Suc)

end
