(* ===== verification/Serial_Id.thy ===== *)
theory Serial_Id
  imports Identity
begin

text \<open>
  \<open>src/src/LoLaCrypto/UniqueIdProvider.h\<close> in the AVR build: the chip has no id, so a random serial
  with a CRC is kept in the first 17 bytes of the EEPROM. The EEPROM is the list of its bytes;
  what a write does to it, the pins read for entropy and the numbers \<open>random\<close> draws after a seed
  are the board's.
\<close>

record avr_board =
  ee_write :: "nat \<Rightarrow> u8 \<Rightarrow> u8 list \<Rightarrow> u8 list"
  analog_read :: "nat \<Rightarrow> u32"
  random_draw :: "u32 \<Rightarrow> nat \<Rightarrow> nat \<Rightarrow> nat"

text \<open>Documented behaviour of the EEPROM: a write stores the byte.\<close>

definition avr_ok :: "avr_board \<Rightarrow> bool" where
  "avr_ok A \<longleftrightarrow> (\<forall>i x e. i < length e \<longrightarrow> ee_write A i x e = e[i := x])"

definition Serial_ReadSerialFromEEPROM :: "platform \<Rightarrow> u8 list \<Rightarrow> UniqueIdProvider \<Rightarrow> bool \<times> UniqueIdProvider" where
  "Serial_ReadSerialFromEEPROM P e u =
     (let u1 = u\<lparr>UUID := map (\<lambda>i. e ! i) [0..<UNIQUE_ID_MAX_LENGTH]\<rparr>
      in if e ! UNIQUE_ID_MAX_LENGTH = crc8_smbus P (UUID u1) then (True, u1)
         else (False, u1\<lparr>HasUUID := False\<rparr>))"

definition Serial_ExpandEntropy :: "platform \<Rightarrow> avr_board \<Rightarrow> u32" where
  "Serial_ExpandEntropy P A = micros_now P + analog_read A 0 + analog_read A 1 + analog_read A 2
     + analog_read A 3 + analog_read A 4 + analog_read A 5"

text \<open>The loop over the bytes, left at the first one that does not read back.\<close>

fun Serial_write_bytes ::
  "avr_board \<Rightarrow> u32 \<Rightarrow> nat list \<Rightarrow> UniqueIdProvider \<Rightarrow> u8 list \<Rightarrow> bool \<times> UniqueIdProvider \<times> u8 list" where
  "Serial_write_bytes A seed [] u e = (True, u, e)"
| "Serial_write_bytes A seed (i # is) u e =
     (let x = of_nat (random_draw A seed i 255);
          u1 = u\<lparr>UUID := (UUID u)[i := x]\<rparr>;
          e1 = ee_write A i x e
      in if x \<noteq> e1 ! i then (False, u1\<lparr>HasUUID := False\<rparr>, e1) else Serial_write_bytes A seed is u1 e1)"

definition Serial_WriteNewSerialToEEPROM ::
  "platform \<Rightarrow> avr_board \<Rightarrow> u8 list \<Rightarrow> UniqueIdProvider \<Rightarrow> UniqueIdProvider \<times> u8 list" where
  "Serial_WriteNewSerialToEEPROM P A e u =
     (let (ok, u1, e1) = Serial_write_bytes A (Serial_ExpandEntropy P A) [0..<UNIQUE_ID_MAX_LENGTH] u e
      in if \<not> ok then (u1, e1)
         else let crc = crc8_smbus P (UUID u1);
                  e2 = ee_write A UNIQUE_ID_MAX_LENGTH crc e1
              in if crc \<noteq> e2 ! UNIQUE_ID_MAX_LENGTH then (u1\<lparr>HasUUID := False\<rparr>, e2) else (u1, e2))"

definition Serial_UpdateId ::
  "platform \<Rightarrow> avr_board \<Rightarrow> u8 list \<Rightarrow> UniqueIdProvider \<Rightarrow> UniqueIdProvider \<times> u8 list" where
  "Serial_UpdateId P A e u =
     (let (ok, u1) = Serial_ReadSerialFromEEPROM P e u
      in if \<not> ok then Serial_WriteNewSerialToEEPROM P A e u1 else (u1, e))"

definition Serial_GetUUIDPointer ::
  "platform \<Rightarrow> avr_board \<Rightarrow> u8 list \<Rightarrow> UniqueIdProvider \<Rightarrow> u8 list \<times> UniqueIdProvider \<times> u8 list" where
  "Serial_GetUUIDPointer P A e u =
     (if HasUUID u then (UUID u, u, e)
      else let (u1, e1) = Serial_UpdateId P A e u; u2 = u1\<lparr>HasUUID := True\<rparr> in (UUID u2, u2, e1))"

section \<open>The serial is kept\<close>

definition serial_in :: "platform \<Rightarrow> u8 list \<Rightarrow> bool" where
  "serial_in P e \<longleftrightarrow> UNIQUE_ID_MAX_LENGTH < length e \<and> e ! UNIQUE_ID_MAX_LENGTH = crc8_smbus P (take UNIQUE_ID_MAX_LENGTH e)"

lemma map_nth_take: "n \<le> length e \<Longrightarrow> map (\<lambda>i. e ! i) [0..<n] = take n e"
  by (rule nth_equalityI) simp_all

lemma read_serial:
  assumes "UNIQUE_ID_MAX_LENGTH < length e"
  shows "Serial_ReadSerialFromEEPROM P e u = (serial_in P e,
    u\<lparr>UUID := take UNIQUE_ID_MAX_LENGTH e, HasUUID := HasUUID u \<and> serial_in P e\<rparr>)"
  using assms map_nth_take [of UNIQUE_ID_MAX_LENGTH e]
  by (auto simp: Serial_ReadSerialFromEEPROM_def serial_in_def Let_def)

lemma write_bytes:
  assumes "avr_ok A" and "n \<le> length e" and "length (UUID u) = n" and "m \<le> n"
    and "take m (UUID u) = take m e"
  shows "\<exists>u' e'. Serial_write_bytes A seed [m..<n] u e = (True, u', e') \<and> length e' = length e \<and>
    UUID u' = take n e'"
  using assms(2-)
proof (induction "n - m" arbitrary: m u e)
  case 0
  then show ?case by simp
next
  case (Suc k)
  then have m: "[m..<n] = m # [Suc m..<n]" "m < length e" "m < n" by (simp_all add: upt_conv_Cons)
  let ?x = "of_nat (random_draw A seed m 255) :: u8"
  have w: "ee_write A m ?x e = e[m := ?x]" using assms(1) m(2) by (simp add: avr_ok_def)
  let ?u = "u\<lparr>UUID := (UUID u)[m := ?x]\<rparr>" and ?e = "e[m := ?x]"
  have "take (Suc m) (UUID ?u) = take (Suc m) ?e"
    using Suc.prems m by (simp add: take_Suc_conv_app_nth)
  then have "\<exists>u' e'. Serial_write_bytes A seed [Suc m..<n] ?u ?e = (True, u', e') \<and> length e' = length ?e \<and>
      UUID u' = take n e'"
    using Suc.prems Suc.hyps(2) m(3) by (intro Suc.hyps(1)) simp_all
  then show ?case using m(1,2) by (simp add: w Let_def)
qed

lemma new_serial:
  assumes "avr_ok A" and "UNIQUE_ID_MAX_LENGTH < length e" and "length (UUID u) = UNIQUE_ID_MAX_LENGTH"
    and "Serial_WriteNewSerialToEEPROM P A e u = (u', e')"
  shows "serial_in P e'" and "UUID u' = take UNIQUE_ID_MAX_LENGTH e'" and "length e' = length e"
proof -
  obtain u1 e1 where b: "Serial_write_bytes A (Serial_ExpandEntropy P A) [0..<UNIQUE_ID_MAX_LENGTH] u e = (True, u1, e1)"
      "length e1 = length e" "UUID u1 = take UNIQUE_ID_MAX_LENGTH e1"
    using write_bytes [OF assms(1), of UNIQUE_ID_MAX_LENGTH e u 0 "Serial_ExpandEntropy P A"] assms(2,3) by auto
  have w: "ee_write A UNIQUE_ID_MAX_LENGTH (crc8_smbus P (UUID u1)) e1 =
      e1[UNIQUE_ID_MAX_LENGTH := crc8_smbus P (UUID u1)]"
    using assms(1,2) b(2) by (simp add: avr_ok_def)
  have "u' = u1" "e' = e1[UNIQUE_ID_MAX_LENGTH := crc8_smbus P (UUID u1)]"
    using assms(2,4) b w by (simp_all add: Serial_WriteNewSerialToEEPROM_def Let_def)
  then show "serial_in P e'" "UUID u' = take UNIQUE_ID_MAX_LENGTH e'" "length e' = length e"
    using assms(2) b(2,3) by (simp_all add: serial_in_def)
qed

text \<open>C39. The id of an AVR board is made once: on a working EEPROM the first use gives 16 bytes that
  are in the EEPROM with their CRC afterwards, a valid serial is never overwritten, and after a
  restart, with whatever entropy, the same id comes back. On an EEPROM that fails the flag that
  \<open>WriteNewSerialToEEPROM\<close> clears is set again by its caller, so the failure is lost.\<close>
theorem serial_id_persists:
  assumes "avr_ok A" and "UNIQUE_ID_MAX_LENGTH < length e" and "crc8_smbus P' = crc8_smbus P"
    and "Serial_GetUUIDPointer P A e UniqueId_new = (serial, u, e')"
  shows "length serial = UNIQUE_ID_MAX_LENGTH \<and> serial_in P e' \<and> take UNIQUE_ID_MAX_LENGTH e' = serial \<and>
    (serial_in P e \<longrightarrow> e' = e) \<and> Serial_GetUUIDPointer P A e' u = (serial, u, e') \<and>
    fst (Serial_GetUUIDPointer P' B e' UniqueId_new) = serial \<and>
    HasUUID (fst (snd (Serial_GetUUIDPointer P C any UniqueId_new)))"
proof -
  let ?u1 = "UniqueId_new\<lparr>UUID := take UNIQUE_ID_MAX_LENGTH e, HasUUID := False\<rparr>"
  have n: "\<not> HasUUID UniqueId_new" by (simp add: UniqueId_new_def)
  have l: "length (UUID ?u1) = UNIQUE_ID_MAX_LENGTH" using assms(2) by simp
  have last: "HasUUID (fst (snd (Serial_GetUUIDPointer P C any UniqueId_new)))"
    using n by (simp add: Serial_GetUUIDPointer_def case_prod_unfold Let_def)
  obtain u1 e1 where i: "Serial_UpdateId P A e UniqueId_new = (u1, e1)" by fastforce
  then have m: "Serial_UpdateId P A e UniqueId_new = (u1, e')" "u = u1\<lparr>HasUUID := True\<rparr>" "serial = UUID u1"
    using assms(4) n by (simp_all add: Serial_GetUUIDPointer_def)
  have made: "serial_in P e' \<and> serial = take UNIQUE_ID_MAX_LENGTH e' \<and> (serial_in P e \<longrightarrow> e' = e) \<and> length e' = length e"
  proof (cases "serial_in P e")
    case True
    then show ?thesis using m n read_serial [OF assms(2), of P UniqueId_new] by (auto simp: Serial_UpdateId_def)
  next
    case False
    then have "Serial_WriteNewSerialToEEPROM P A e ?u1 = (u1, e')"
      using m n read_serial [OF assms(2), of P UniqueId_new] by (simp add: Serial_UpdateId_def)
    from new_serial [OF assms(1,2) l this] show ?thesis using m False by simp
  qed
  have "serial_in P' e'" using made assms(3) by (simp add: serial_in_def)
  moreover have "UNIQUE_ID_MAX_LENGTH < length e'" using made assms(2) by simp
  ultimately have "fst (Serial_GetUUIDPointer P' B e' UniqueId_new) = serial"
    using n made read_serial [of e' P' UniqueId_new]
    by (simp add: Serial_GetUUIDPointer_def Serial_UpdateId_def case_prod_unfold Let_def)
  moreover have "Serial_GetUUIDPointer P A e' u = (serial, u, e')" using m by (simp add: Serial_GetUUIDPointer_def)
  moreover have "length serial = UNIQUE_ID_MAX_LENGTH" using made assms(2) by simp
  ultimately show ?thesis using made last by simp
qed

definition sample_avr :: avr_board where
  "sample_avr = \<lparr> ee_write = (\<lambda>i x e. e[i := x]), analog_read = (\<lambda>i. 3), random_draw = (\<lambda>seed i n. (7 * i + unat seed) mod n) \<rparr>"

theorem serial_id_persists_witness:
  "let (serial, u, e) = Serial_GetUUIDPointer sample_platform sample_avr (replicate 32 1) UniqueId_new
   in length serial = 16 \<and>
     fst (Serial_GetUUIDPointer (sample_platform\<lparr>micros_now := 77\<rparr>) sample_avr e UniqueId_new) = serial"
proof -
  have a: "avr_ok sample_avr" by (simp add: avr_ok_def sample_avr_def)
  have l: "UNIQUE_ID_MAX_LENGTH < length (replicate 32 (1 :: u8))" by (simp add: lola_consts)
  have c: "crc8_smbus (sample_platform\<lparr>micros_now := 77\<rparr>) = crc8_smbus sample_platform" by simp
  obtain serial u e where s: "Serial_GetUUIDPointer sample_platform sample_avr (replicate 32 1) UniqueId_new = (serial, u, e)"
    by (metis prod_cases3)
  show ?thesis using serial_id_persists [OF a l c s] by (simp add: s lola_consts)
qed

end
