(* ===== verification/Link_Info.thy ===== *)
theory Link_Info
  imports Driver Identity
begin

text \<open>
  \<open>src/src/LoLaLinkInfo.h\<close>: what the rest of the firmware may know of the link. The object belongs
  to the services manager and points to the driver once it is set up; the operations that reach
  through that pointer take and return both. The observers of \<open>UpdateState\<close> are the application's
  and are not part of the model.
\<close>

datatype LinkStateEnum = LinkDisabled | LinkSetup | AwaitingLink | AwaitingSleeping | Linking | Linked

definition INVALID_SESSION :: u8 where
  [lola_consts]: "INVALID_SESSION = 0"

record LoLaLinkInfo =
  InfoHasDriver :: bool
  LinkState :: LinkStateEnum
  RTT :: u32
  LinkStartedSeconds :: u32
  PartnerInfoLastUpdated :: u32
  PartnerInfoLastUpdatedRemotely :: u32
  PartnerRSSISamples :: "u8 list"
  PartnerAverageRSSI :: u32
  PartnerReceivedCount :: u8
  SessionId :: u8
  LocalMacGenerator :: LoLaMAC
  PartnerIdPresent :: bool
  PartnerId :: u32
  ClockSyncAdjustments :: u32

definition LinkInfo_new :: LoLaLinkInfo where
  "LinkInfo_new = \<lparr> InfoHasDriver = False, LinkState = LinkDisabled, RTT = ucast ILOLA_INVALID_LATENCY,
     LinkStartedSeconds = 0, PartnerInfoLastUpdated = ILOLA_INVALID_MILLIS,
     PartnerInfoLastUpdatedRemotely = ILOLA_INVALID_MILLIS, PartnerRSSISamples = [],
     PartnerAverageRSSI = 0, PartnerReceivedCount = 0, SessionId = INVALID_SESSION,
     LocalMacGenerator = MAC_new, PartnerIdPresent = False, PartnerId = 0, ClockSyncAdjustments = 0 \<rparr>"

section \<open>Identities and session\<close>

definition LinkInfo_GetLinkState :: "LoLaLinkInfo \<Rightarrow> LinkStateEnum" where
  "LinkInfo_GetLinkState i = LinkState i"

definition LinkInfo_GetLocalId :: "platform \<Rightarrow> LoLaLinkInfo \<Rightarrow> u32 \<times> LoLaLinkInfo" where
  "LinkInfo_GetLocalId P i =
     (let (localId, m) = MAC_GetMACHash P (LocalMacGenerator i) in (localId, i\<lparr>LocalMacGenerator := m\<rparr>))"

definition LinkInfo_GetLocalMAC :: "platform \<Rightarrow> LoLaLinkInfo \<Rightarrow> u8 list \<times> LoLaLinkInfo" where
  "LinkInfo_GetLocalMAC P i =
     (let (mac, m) = MAC_GetMACPointer P (LocalMacGenerator i) in (mac, i\<lparr>LocalMacGenerator := m\<rparr>))"

definition LinkInfo_ClearRemoteId :: "LoLaLinkInfo \<Rightarrow> LoLaLinkInfo" where
  "LinkInfo_ClearRemoteId i = i\<lparr>PartnerIdPresent := False\<rparr>"

definition LinkInfo_SetPartnerId :: "u32 \<Rightarrow> LoLaLinkInfo \<Rightarrow> LoLaLinkInfo" where
  "LinkInfo_SetPartnerId partner i = i\<lparr>PartnerId := partner, PartnerIdPresent := True\<rparr>"

definition LinkInfo_GetPartnerId :: "LoLaLinkInfo \<Rightarrow> u32" where
  "LinkInfo_GetPartnerId i = PartnerId i"

text \<open>The code returns the id itself as a \<open>bool\<close>; \<open>PartnerIdPresent\<close> is written but never read.\<close>

definition LinkInfo_HasPartnerId :: "LoLaLinkInfo \<Rightarrow> bool" where
  "LinkInfo_HasPartnerId i \<longleftrightarrow> PartnerId i \<noteq> 0"

definition LinkInfo_SetSessionId :: "u8 \<Rightarrow> LoLaLinkInfo \<Rightarrow> bool \<times> LoLaLinkInfo" where
  "LinkInfo_SetSessionId sessionId i = (sessionId \<noteq> INVALID_SESSION, i\<lparr>SessionId := sessionId\<rparr>)"

definition LinkInfo_HasSessionId :: "LoLaLinkInfo \<Rightarrow> bool" where
  "LinkInfo_HasSessionId i \<longleftrightarrow> SessionId i \<noteq> INVALID_SESSION"

definition LinkInfo_HasSession :: "LoLaLinkInfo \<Rightarrow> bool" where
  "LinkInfo_HasSession i \<longleftrightarrow> LinkInfo_HasSessionId i \<and> LinkInfo_HasPartnerId i"

definition LinkInfo_GetSessionId :: "LoLaLinkInfo \<Rightarrow> u8" where
  "LinkInfo_GetSessionId i = SessionId i"

definition LinkInfo_SetDriver :: "LoLaLinkInfo \<Rightarrow> LoLaLinkInfo" where
  "LinkInfo_SetDriver i = i\<lparr>InfoHasDriver := True\<rparr>"

section \<open>Time stamps\<close>

definition LinkInfo_GetClockSyncAdjustments :: "LoLaLinkInfo \<Rightarrow> u32" where
  "LinkInfo_GetClockSyncAdjustments i = ClockSyncAdjustments i"

definition LinkInfo_StampClockSyncAdjustment :: "LoLaLinkInfo \<Rightarrow> LoLaLinkInfo" where
  "LinkInfo_StampClockSyncAdjustment i = i\<lparr>ClockSyncAdjustments := ClockSyncAdjustments i + 1\<rparr>"

definition LinkInfo_StampPartnerInfoUpdated :: "platform \<Rightarrow> LoLaLinkInfo \<Rightarrow> LoLaLinkInfo" where
  "LinkInfo_StampPartnerInfoUpdated P i = i\<lparr>PartnerInfoLastUpdated := millis_now P\<rparr>"

definition LinkInfo_StampLocalInfoLastUpdatedRemotely :: "platform \<Rightarrow> LoLaLinkInfo \<Rightarrow> LoLaLinkInfo" where
  "LinkInfo_StampLocalInfoLastUpdatedRemotely P i = i\<lparr>PartnerInfoLastUpdatedRemotely := millis_now P\<rparr>"

definition LinkInfo_GetLocalInfoUpdateRemotelyElapsed :: "platform \<Rightarrow> LoLaLinkInfo \<Rightarrow> u32" where
  "LinkInfo_GetLocalInfoUpdateRemotelyElapsed P i = elapsed_since (millis_now P) (PartnerInfoLastUpdatedRemotely i)"

definition LinkInfo_GetPartnerLastReportElapsed :: "platform \<Rightarrow> LoLaLinkInfo \<Rightarrow> u32" where
  "LinkInfo_GetPartnerLastReportElapsed P i = elapsed_since (millis_now P) (PartnerInfoLastUpdated i)"

section \<open>Link state and what depends on the driver\<close>

text \<open>The samples are pulled until none is left.\<close>

definition LinkInfo_Reset :: "LoLaLinkInfo \<Rightarrow> Driver \<Rightarrow> LoLaLinkInfo \<times> Driver" where
  "LinkInfo_Reset i d =
     (i\<lparr>SessionId := INVALID_SESSION, PartnerIdPresent := False, LinkStartedSeconds := 0,
        RTT := ucast ILOLA_INVALID_LATENCY, PartnerRSSISamples := [], PartnerReceivedCount := 0,
        ClockSyncAdjustments := 0\<rparr>,
      if InfoHasDriver i then Driver_ResetLiveData (Driver_SetLinkStatus False d) else d)"

definition LinkInfo_UpdateState :: "LinkStateEnum \<Rightarrow> LoLaLinkInfo \<Rightarrow> LoLaLinkInfo" where
  "LinkInfo_UpdateState newState i = i\<lparr>LinkState := newState\<rparr>"

definition LinkInfo_IsDisabled :: "LoLaLinkInfo \<Rightarrow> bool" where
  "LinkInfo_IsDisabled i \<longleftrightarrow> LinkState i = LinkDisabled"

definition LinkInfo_HasLink :: "LoLaLinkInfo \<Rightarrow> bool" where
  "LinkInfo_HasLink i \<longleftrightarrow> LinkState i = Linked"

definition LinkInfo_HasLatency :: "LoLaLinkInfo \<Rightarrow> bool" where
  "LinkInfo_HasLatency i \<longleftrightarrow> RTT i \<noteq> ucast ILOLA_INVALID_LATENCY"

definition LinkInfo_SetRTT :: "u32 \<Rightarrow> LoLaLinkInfo \<Rightarrow> Driver \<Rightarrow> LoLaLinkInfo \<times> Driver" where
  "LinkInfo_SetRTT rttMicros i d =
     (i\<lparr>RTT := rttMicros\<rparr>, if InfoHasDriver i then Driver_SetETTM ((rttMicros * 8) div 20) d else d)"

definition LinkInfo_GetRTT :: "LoLaLinkInfo \<Rightarrow> u16" where
  "LinkInfo_GetRTT i = ucast (RTT i)"

definition LinkInfo_GetLinkDurationSeconds :: "LoLaLinkInfo \<Rightarrow> Driver \<Rightarrow> u32" where
  "LinkInfo_GetLinkDurationSeconds i d =
     (if LinkInfo_HasLink i then Clock_GetTimeSeconds (SyncedClock d) - LinkStartedSeconds i else 0)"

definition LinkInfo_StampLinkStarted :: "LoLaLinkInfo \<Rightarrow> Driver \<Rightarrow> LoLaLinkInfo \<times> Driver" where
  "LinkInfo_StampLinkStarted i d =
     (i\<lparr>LinkStartedSeconds := Clock_GetTimeSeconds (SyncedClock d)\<rparr>, Driver_SetLinkStatus True d)"

section \<open>Reports\<close>

definition LinkInfo_HasPartnerRSSI :: "LoLaLinkInfo \<Rightarrow> bool" where
  "LinkInfo_HasPartnerRSSI i \<longleftrightarrow> PartnerRSSISamples i \<noteq> []"

definition LinkInfo_GetPartnerRSSINormalized :: "LoLaLinkInfo \<Rightarrow> u8 \<times> LoLaLinkInfo" where
  "LinkInfo_GetPartnerRSSINormalized i =
     (if PartnerRSSISamples i = [] then (0, i)
      else let total = (\<Sum>r \<leftarrow> PartnerRSSISamples i. ucast r)
           in (ucast (total div of_nat (length (PartnerRSSISamples i))), i\<lparr>PartnerAverageRSSI := total\<rparr>))"

definition LinkInfo_SetPartnerRSSINormalized :: "platform \<Rightarrow> u8 \<Rightarrow> LoLaLinkInfo \<Rightarrow> LoLaLinkInfo" where
  "LinkInfo_SetPartnerRSSINormalized P rssiNormalized i =
     i\<lparr>PartnerRSSISamples := ring_add_force (ring_rssi P) rssiNormalized (PartnerRSSISamples i)\<rparr>"

definition LinkInfo_GetLostCount :: "LoLaLinkInfo \<Rightarrow> Driver \<Rightarrow> u8" where
  "LinkInfo_GetLostCount i d =
     ucast (max (ucast (PartnerReceivedCount i)) (TransmitedCount d mod 255) - ucast (PartnerReceivedCount i) :: u64)"

definition LinkInfo_GetPartnerReceivedCount :: "LoLaLinkInfo \<Rightarrow> u8" where
  "LinkInfo_GetPartnerReceivedCount i = PartnerReceivedCount i"

definition LinkInfo_SetPartnerReceivedCount :: "u8 \<Rightarrow> LoLaLinkInfo \<Rightarrow> LoLaLinkInfo" where
  "LinkInfo_SetPartnerReceivedCount partnerReceivedCount i = i\<lparr>PartnerReceivedCount := partnerReceivedCount\<rparr>"

definition LinkInfo_GetRSSINormalized :: "LoLaLinkInfo \<Rightarrow> Driver \<Rightarrow> u8" where
  "LinkInfo_GetRSSINormalized i d = (if InfoHasDriver i then Driver_GetRSSINormalized d else 0)"

definition LinkInfo_GetElapsedMillisLastValidSent :: "platform \<Rightarrow> LoLaLinkInfo \<Rightarrow> Driver \<Rightarrow> u32" where
  "LinkInfo_GetElapsedMillisLastValidSent P i d =
     (if InfoHasDriver i then Driver_GetElapsedMillisLastValidSent P d else ILOLA_INVALID_MILLIS)"

definition LinkInfo_GetElapsedMillisLastValidReceived :: "platform \<Rightarrow> LoLaLinkInfo \<Rightarrow> Driver \<Rightarrow> u32" where
  "LinkInfo_GetElapsedMillisLastValidReceived P i d =
     (if InfoHasDriver i then Driver_GetElapsedMillisLastValidReceived P d else ILOLA_INVALID_MILLIS)"

definition LinkInfo_GetLastActivityElapsedMillis :: "platform \<Rightarrow> LoLaLinkInfo \<Rightarrow> Driver \<Rightarrow> u32" where
  "LinkInfo_GetLastActivityElapsedMillis P i d =
     (if InfoHasDriver i then
        if Driver_GetElapsedMillisLastValidSent P d < Driver_GetElapsedMillisLastValidReceived P d
        then Driver_GetElapsedMillisLastValidSent P d else Driver_GetElapsedMillisLastValidReceived P d
      else ILOLA_INVALID_MILLIS)"

definition LinkInfo_GetTransmitPowerNormalized :: "LoLaLinkInfo \<Rightarrow> Driver \<Rightarrow> u8" where
  "LinkInfo_GetTransmitPowerNormalized i d = (if InfoHasDriver i then TransmitPowerNormalized d else 0)"

section \<open>Bounds\<close>

definition LinkInfo_ok :: "platform \<Rightarrow> LoLaLinkInfo \<Rightarrow> bool" where
  "LinkInfo_ok P i \<longleftrightarrow> MAC_ok P (LocalMacGenerator i) \<and> length (PartnerRSSISamples i) \<le> 3"

lemma LinkInfo_new_ok [simp]: "LinkInfo_ok P LinkInfo_new"
  by (simp add: LinkInfo_ok_def LinkInfo_new_def)

lemma GetLocalId_ok [simp]:
  "LinkInfo_ok P i \<Longrightarrow> fst (LinkInfo_GetLocalId P i) = local_id P"
  "LinkInfo_ok P i \<Longrightarrow> LinkInfo_ok P (snd (LinkInfo_GetLocalId P i))"
  by (simp_all add: LinkInfo_GetLocalId_def case_prod_unfold Let_def LinkInfo_ok_def)

lemma GetLocalId_frame [simp]:
  "LinkState (snd (LinkInfo_GetLocalId P i)) = LinkState i"
  "SessionId (snd (LinkInfo_GetLocalId P i)) = SessionId i"
  "PartnerId (snd (LinkInfo_GetLocalId P i)) = PartnerId i"
  "InfoHasDriver (snd (LinkInfo_GetLocalId P i)) = InfoHasDriver i"
  "PartnerRSSISamples (snd (LinkInfo_GetLocalId P i)) = PartnerRSSISamples i"
  "RTT (snd (LinkInfo_GetLocalId P i)) = RTT i"
  by (simp_all add: LinkInfo_GetLocalId_def case_prod_unfold Let_def)

lemma GetPartnerRSSI_frame [simp]:
  "LinkState (snd (LinkInfo_GetPartnerRSSINormalized i)) = LinkState i"
  "SessionId (snd (LinkInfo_GetPartnerRSSINormalized i)) = SessionId i"
  "PartnerId (snd (LinkInfo_GetPartnerRSSINormalized i)) = PartnerId i"
  "LinkInfo_ok P (snd (LinkInfo_GetPartnerRSSINormalized i)) = LinkInfo_ok P i"
  by (simp_all add: LinkInfo_GetPartnerRSSINormalized_def Let_def LinkInfo_ok_def)

text \<open>
  The guard time a latency gives. A round trip of at least 3 us and below one duplex period keeps it
  in the range for which the send slots of the two ends are disjoint.
\<close>

lemma SetRTT_ETTM:
  assumes i: "InfoHasDriver i" and r: "3 \<le> rtt" "rtt < DuplexPeriodMicros"
  shows "0 < ETTM (snd (LinkInfo_SetRTT rtt i d))" and "ETTM (snd (LinkInfo_SetRTT rtt i d)) < 4000"
    and "ETTM (snd (LinkInfo_SetRTT rtt i d)) \<le> HalfDuplexPeriodMicros"
proof -
  let ?n = "unat rtt"
  have n: "3 \<le> ?n" "?n < 10000" using r by (simp_all add: word_le_nat_alt word_less_nat_alt lola_consts)
  have m: "unat (rtt * 8) = ?n * 8"
    using n by (subst unat_mult_lem [THEN iffD1]) simp_all
  have "ETTM (snd (LinkInfo_SetRTT rtt i d)) = rtt * 8 div 20"
    using i by (simp add: LinkInfo_SetRTT_def Driver_SetETTM_def)
  then have e: "unat (ETTM (snd (LinkInfo_SetRTT rtt i d))) = ?n * 8 div 20"
    by (simp only: unat_div_distrib m) simp
  have "3 * 8 div 20 \<le> ?n * 8 div 20" using n by (intro div_le_mono) simp
  moreover have "?n * 8 div 20 < 4000" using n by (intro less_mult_imp_div_less) simp
  ultimately have "0 < ?n * 8 div 20" "?n * 8 div 20 < 4000" by simp_all
  then show "0 < ETTM (snd (LinkInfo_SetRTT rtt i d))" "ETTM (snd (LinkInfo_SetRTT rtt i d)) < 4000"
    "ETTM (snd (LinkInfo_SetRTT rtt i d)) \<le> HalfDuplexPeriodMicros"
    by (simp_all add: e word_less_nat_alt word_le_nat_alt lola_consts)
qed

end
