(* ===== verification/Link_Helpers.thy ===== *)
theory Link_Helpers
  imports Link_Info Driver_Machine
begin

text \<open>
  The small classes the link service is made of, \<open>src/src/Services/Link\<close>: clock transactions
  (\<open>ClockSyncTransaction.h\<close>), clock syncers (\<open>LoLaLinkClockSyncer.h\<close>), latency meter
  (\<open>LoLaLinkLatencyMeter.h\<close>), power balancer (\<open>LoLaLinkPowerBalancer.h\<close>), channel manager
  (\<open>LoLaLinkChannelManager.h\<close>) and the timed hopper's state (\<open>LoLaLinkTimedHopper.h\<close>). Signed
  \<open>int32_t\<close> values are carried as their bits.
\<close>

section \<open>Clock synchronisation transactions\<close>

record ClockSyncRequestTransaction =
  RequestStage :: u8
  RequestId :: u8
  LastRequested :: u32
  RequestResult :: u32

definition StageRequested :: u8 where
  [lola_consts]: "StageRequested = 1"

definition StageRequestResultIn :: u8 where
  [lola_consts]: "StageRequestResultIn = 2"

definition Request_new :: ClockSyncRequestTransaction where
  "Request_new = \<lparr> RequestStage = 0, RequestId = 0, LastRequested = 0, RequestResult = 0 \<rparr>"

definition Request_Reset :: "ClockSyncRequestTransaction \<Rightarrow> ClockSyncRequestTransaction" where
  "Request_Reset t = t\<lparr>RequestId := 0, RequestStage := 0, RequestResult := 0, LastRequested := 0\<rparr>"

definition Request_SetResult ::
  "u8 \<Rightarrow> u32 \<Rightarrow> ClockSyncRequestTransaction \<Rightarrow> bool \<times> ClockSyncRequestTransaction" where
  "Request_SetResult requestId resultError t =
     (if RequestStage t = StageRequested \<and> RequestId t = requestId
      then (True, t\<lparr>RequestResult := resultError, RequestStage := StageRequestResultIn\<rparr>)
      else (False, t))"

definition Request_SetRequested :: "platform \<Rightarrow> ClockSyncRequestTransaction \<Rightarrow> ClockSyncRequestTransaction" where
  "Request_SetRequested P t =
     t\<lparr>RequestStage := StageRequested, RequestId := of_int (random_between P 0 255),
       LastRequested := millis_now P\<rparr>"

definition Request_IsRequested :: "ClockSyncRequestTransaction \<Rightarrow> bool" where
  "Request_IsRequested t \<longleftrightarrow> RequestStage t = StageRequested"

definition Request_IsFresh :: "platform \<Rightarrow> u32 \<Rightarrow> ClockSyncRequestTransaction \<Rightarrow> bool" where
  "Request_IsFresh P lifetimeMillis t \<longleftrightarrow> millis_now P - LastRequested t < lifetimeMillis"

definition Request_IsResultWaiting :: "ClockSyncRequestTransaction \<Rightarrow> bool" where
  "Request_IsResultWaiting t \<longleftrightarrow> RequestStage t = StageRequestResultIn"

record ClockSyncResponseTransaction =
  ResponseStage :: u8
  ResponseId :: u8
  ResponseResult :: u32

definition StageResponseResultIn :: u8 where
  [lola_consts]: "StageResponseResultIn = 1"

definition Response_new :: ClockSyncResponseTransaction where
  "Response_new = \<lparr> ResponseStage = 0, ResponseId = 0, ResponseResult = 0 \<rparr>"

definition Response_Reset :: "ClockSyncResponseTransaction \<Rightarrow> ClockSyncResponseTransaction" where
  "Response_Reset t = t\<lparr>ResponseId := 0, ResponseStage := 0\<rparr>"

definition Response_IsResultReady :: "ClockSyncResponseTransaction \<Rightarrow> bool" where
  "Response_IsResultReady t \<longleftrightarrow> ResponseStage t = StageResponseResultIn"

definition Response_SetResult ::
  "u8 \<Rightarrow> u32 \<Rightarrow> ClockSyncResponseTransaction \<Rightarrow> ClockSyncResponseTransaction" where
  "Response_SetResult requestId estimationError t =
     t\<lparr>ResponseId := requestId, ResponseResult := estimationError, ResponseStage := StageResponseResultIn\<rparr>"

section \<open>Clock syncers\<close>

definition MAX_TUNE_ERROR_MICROS :: int where
  [lola_consts]: "MAX_TUNE_ERROR_MICROS = 100"

text \<open>The \<open>abs\<close> macro on an \<open>int32_t\<close>, whose most negative value is its own negation.\<close>

definition abs32 :: "u32 \<Rightarrow> int" where
  "abs32 x = (if 0 < sint x then sint x else sint (- x))"

record LoLaLinkClockSyncer =
  SyncerHasClock :: bool
  SyncGoodCount :: u8
  LastSynced :: u32

definition Syncer_new :: LoLaLinkClockSyncer where
  "Syncer_new = \<lparr> SyncerHasClock = False, SyncGoodCount = 0, LastSynced = ILOLA_INVALID_MILLIS \<rparr>"

definition Syncer_StampSyncGood :: "'a LoLaLinkClockSyncer_scheme \<Rightarrow> 'a LoLaLinkClockSyncer_scheme" where
  "Syncer_StampSyncGood c = (if SyncGoodCount c < 255 then c\<lparr>SyncGoodCount := SyncGoodCount c + 1\<rparr> else c)"

definition Syncer_Setup :: "'a LoLaLinkClockSyncer_scheme \<Rightarrow> bool \<times> 'a LoLaLinkClockSyncer_scheme" where
  "Syncer_Setup c = (True, c\<lparr>SyncerHasClock := True\<rparr>)"

definition Syncer_StampSynced ::
  "platform \<Rightarrow> 'a LoLaLinkClockSyncer_scheme \<Rightarrow> 'a LoLaLinkClockSyncer_scheme" where
  "Syncer_StampSynced P c = c\<lparr>LastSynced := millis_now P\<rparr>"

definition Syncer_ResetBase :: "'a LoLaLinkClockSyncer_scheme \<Rightarrow> 'a LoLaLinkClockSyncer_scheme" where
  "Syncer_ResetBase c = c\<lparr>SyncGoodCount := 0, LastSynced := ILOLA_INVALID_MILLIS\<rparr>"

definition on_clock :: "(RTCClockSource \<Rightarrow> RTCClockSource) \<Rightarrow> Driver \<Rightarrow> Driver" where
  "on_clock f d = d\<lparr>SyncedClock := f (SyncedClock d)\<rparr>"

definition Syncer_AddOffsetMicros :: "u32 \<Rightarrow> 'a LoLaLinkClockSyncer_scheme \<Rightarrow> Driver \<Rightarrow> Driver" where
  "Syncer_AddOffsetMicros offset c d = (if SyncerHasClock c then on_clock (Clock_AddOffsetMicros offset) d else d)"

definition Syncer_SetRandom :: "platform \<Rightarrow> 'a LoLaLinkClockSyncer_scheme \<Rightarrow> Driver \<Rightarrow> Driver" where
  "Syncer_SetRandom P c d = (if SyncerHasClock c then on_clock (Clock_SetRandom P) d else d)"

text \<open>The remote's end of the synchronisation moves its clock by what the host estimates.\<close>

record LinkRemoteClockSyncer = LoLaLinkClockSyncer +
  HostSynced :: bool

definition RemoteSyncer_new :: LinkRemoteClockSyncer where
  "RemoteSyncer_new = LoLaLinkClockSyncer.extend Syncer_new \<lparr> HostSynced = False \<rparr>"

definition RemoteSyncer_Reset :: "LinkRemoteClockSyncer \<Rightarrow> LinkRemoteClockSyncer" where
  "RemoteSyncer_Reset c = (Syncer_ResetBase c)\<lparr>HostSynced := False\<rparr>"

definition RemoteSyncer_HasEstimation :: "LinkRemoteClockSyncer \<Rightarrow> bool" where
  "RemoteSyncer_HasEstimation c \<longleftrightarrow> 0 < SyncGoodCount c"

definition RemoteSyncer_IsSynced :: "LinkRemoteClockSyncer \<Rightarrow> bool" where
  "RemoteSyncer_IsSynced c \<longleftrightarrow> RemoteSyncer_HasEstimation c \<and> HostSynced c"

definition RemoteSyncer_IsTimeToTune :: "platform \<Rightarrow> LinkRemoteClockSyncer \<Rightarrow> bool" where
  "RemoteSyncer_IsTimeToTune P c \<longleftrightarrow> LastSynced c = ILOLA_INVALID_MILLIS \<or>
     LOLA_LINK_SERVICE_LINKED_CLOCK_TUNE_PERIOD < millis_now P - LastSynced c"

definition RemoteSyncer_SetReadyForEstimation :: "platform \<Rightarrow> LinkRemoteClockSyncer \<Rightarrow> LinkRemoteClockSyncer" where
  "RemoteSyncer_SetReadyForEstimation P c =
     (if RemoteSyncer_IsSynced c
      then c\<lparr>LastSynced := millis_now P - LOLA_LINK_SERVICE_LINKED_CLOCK_TUNE_PERIOD\<rparr> else c)"

definition RemoteSyncer_SetSynced :: "platform \<Rightarrow> LinkRemoteClockSyncer \<Rightarrow> LinkRemoteClockSyncer" where
  "RemoteSyncer_SetSynced P c = Syncer_StampSynced P (c\<lparr>HostSynced := True\<rparr>)"

definition RemoteSyncer_OnEstimationErrorReceived ::
  "u32 \<Rightarrow> LinkRemoteClockSyncer \<Rightarrow> Driver \<Rightarrow> LinkRemoteClockSyncer \<times> Driver" where
  "RemoteSyncer_OnEstimationErrorReceived estimationErrorMicros c d =
     (if abs32 estimationErrorMicros < MAX_TUNE_ERROR_MICROS then Syncer_StampSyncGood c else c,
      Syncer_AddOffsetMicros estimationErrorMicros c d)"

definition RemoteSyncer_OnTuneErrorReceived ::
  "platform \<Rightarrow> u32 \<Rightarrow> LinkRemoteClockSyncer \<Rightarrow> Driver \<Rightarrow> bool \<times> LinkRemoteClockSyncer \<times> Driver" where
  "RemoteSyncer_OnTuneErrorReceived P estimationErrorMicros c d =
     (let d1 = Syncer_AddOffsetMicros estimationErrorMicros c d
      in if abs32 estimationErrorMicros < MAX_TUNE_ERROR_MICROS
         then (True, Syncer_StampSynced P (Syncer_StampSyncGood c), d1) else (False, c, d1))"

text \<open>The host's end starts its clock at a random offset and counts good estimations.\<close>

type_synonym LinkHostClockSyncer = LoLaLinkClockSyncer

definition HostSyncer_Reset ::
  "platform \<Rightarrow> LinkHostClockSyncer \<Rightarrow> Driver \<Rightarrow> LinkHostClockSyncer \<times> Driver" where
  "HostSyncer_Reset P c d = (let c1 = Syncer_ResetBase c in (c1, Syncer_SetRandom P c1 d))"

definition HostSyncer_IsSynced :: "LinkHostClockSyncer \<Rightarrow> bool" where
  "HostSyncer_IsSynced c \<longleftrightarrow> LOLA_LINK_SERVICE_UNLINK_MIN_CLOCK_SAMPLES < SyncGoodCount c"

definition HostSyncer_OnEstimationReceived ::
  "u32 \<Rightarrow> LinkHostClockSyncer \<Rightarrow> bool \<times> LinkHostClockSyncer" where
  "HostSyncer_OnEstimationReceived estimationErrorMicros c =
     (if abs32 estimationErrorMicros < MAX_TUNE_ERROR_MICROS then (True, Syncer_StampSyncGood c)
      else if \<not> HostSyncer_IsSynced c then (False, c\<lparr>SyncGoodCount := 0\<rparr>)
      else (False, c))"

section \<open>Latency meter\<close>

definition LOLA_LATENCY_SERVICE_PING_TIMEOUT_MICROS :: u32 where
  [lola_consts]: "LOLA_LATENCY_SERVICE_PING_TIMEOUT_MICROS = ILOLA_DEFAULT_DUPLEX_PERIOD_MILLIS * 1000"

record LoLaLinkLatencyMeter =
  LastSentWith :: u32
  LastSentPacketId :: u8
  DurationStack :: "u16 list"

definition Meter_Reset :: "LoLaLinkLatencyMeter \<Rightarrow> LoLaLinkLatencyMeter" where
  "Meter_Reset m = m\<lparr>LastSentWith := ILOLA_INVALID_MICROS, LastSentPacketId := 0, DurationStack := []\<rparr>"

definition Meter_new :: LoLaLinkLatencyMeter where
  "Meter_new = Meter_Reset \<lparr> LastSentWith = ILOLA_INVALID_MICROS, LastSentPacketId = 0, DurationStack = [] \<rparr>"

definition Meter_GetSampleCount :: "LoLaLinkLatencyMeter \<Rightarrow> u8" where
  "Meter_GetSampleCount m = of_nat (length (DurationStack m))"

definition Meter_GetAverageLatency :: "LoLaLinkLatencyMeter \<Rightarrow> u16" where
  "Meter_GetAverageLatency m =
     (if DurationStack m = [] then ILOLA_INVALID_LATENCY
      else ucast ((\<Sum>x \<leftarrow> DurationStack m. ucast x :: u32) div of_nat (length (DurationStack m))))"

definition Meter_OnAckPacketSent :: "platform \<Rightarrow> u8 \<Rightarrow> LoLaLinkLatencyMeter \<Rightarrow> LoLaLinkLatencyMeter" where
  "Meter_OnAckPacketSent P packetId m = m\<lparr>LastSentWith := micros_now P, LastSentPacketId := packetId\<rparr>"

definition Meter_OnAckReceived ::
  "platform \<Rightarrow> u8 \<Rightarrow> LoLaLinkLatencyMeter \<Rightarrow> bool \<times> LoLaLinkLatencyMeter" where
  "Meter_OnAckReceived P packetId m =
     (let grunt = micros_now P - LastSentWith m
      in if LastSentWith m \<noteq> ILOLA_INVALID_MICROS \<and> LastSentPacketId m = packetId \<and>
            grunt < LOLA_LATENCY_SERVICE_PING_TIMEOUT_MICROS
         then (True, m\<lparr>DurationStack := ring_add_force (ring_latency P) (ucast grunt) (DurationStack m)\<rparr>)
         else (False, m))"

section \<open>Power balancer\<close>

definition RADIO_POWER_BALANCER_RSSI_TARGET_MARGIN :: u8 where
  [lola_consts]: "RADIO_POWER_BALANCER_RSSI_TARGET_MARGIN = 15"

definition RADIO_POWER_BALANCER_ADJUST_UP_LONG :: u8 where
  [lola_consts]: "RADIO_POWER_BALANCER_ADJUST_UP_LONG = 20"

definition RADIO_POWER_BALANCER_ADJUST_DOWN_LONG :: u8 where
  [lola_consts]: "RADIO_POWER_BALANCER_ADJUST_DOWN_LONG = 10"

definition RADIO_POWER_BALANCER_POWER_MIN :: u8 where
  [lola_consts]: "RADIO_POWER_BALANCER_POWER_MIN = 13"

definition RADIO_POWER_BALANCER_POWER_MAX :: u8 where
  [lola_consts]: "RADIO_POWER_BALANCER_POWER_MAX = 100"

definition RADIO_POWER_BALANCER_RSSI_TARGET :: u8 where
  [lola_consts]: "RADIO_POWER_BALANCER_RSSI_TARGET = 140"

record LoLaLinkPowerBalancer =
  CurrentPartnerRSSI :: u8
  BalancerPower :: u8
  BalancerUpdated :: u32

definition Balancer_new :: LoLaLinkPowerBalancer where
  "Balancer_new = \<lparr> CurrentPartnerRSSI = 0, BalancerPower = 0, BalancerUpdated = ILOLA_INVALID_MILLIS \<rparr>"

definition Balancer_Setup :: "LoLaLinkPowerBalancer \<Rightarrow> bool \<times> LoLaLinkPowerBalancer" where
  "Balancer_Setup b = (True, b\<lparr>BalancerPower := 0, BalancerUpdated := ILOLA_INVALID_MILLIS\<rparr>)"

definition Balancer_SetMaxPower ::
  "platform \<Rightarrow> LoLaLinkPowerBalancer \<Rightarrow> Driver \<Rightarrow> LoLaLinkPowerBalancer \<times> Driver" where
  "Balancer_SetMaxPower P b d =
     (b\<lparr>BalancerPower := RADIO_POWER_BALANCER_POWER_MAX\<rparr>,
      Driver_SetTransmitPower P RADIO_POWER_BALANCER_POWER_MAX d)"

text \<open>
  The next power for what the partner last reported; sums and differences are formed in \<open>int\<close>
  before \<open>max\<close> and \<open>min\<close> see them.
\<close>

definition Balancer_next :: "u8 \<Rightarrow> u8 \<Rightarrow> u8" where
  "Balancer_next rssi current =
     (if RADIO_POWER_BALANCER_RSSI_TARGET < rssi \<and> RADIO_POWER_BALANCER_POWER_MIN < current then
        if RADIO_POWER_BALANCER_RSSI_TARGET + RADIO_POWER_BALANCER_RSSI_TARGET_MARGIN < rssi
        then of_int (max (uint RADIO_POWER_BALANCER_POWER_MIN)
               (uint current - uint RADIO_POWER_BALANCER_ADJUST_DOWN_LONG))
        else if RADIO_POWER_BALANCER_POWER_MIN < current then current - 1 else current
      else if rssi < RADIO_POWER_BALANCER_RSSI_TARGET \<and> current < RADIO_POWER_BALANCER_POWER_MAX then
        if rssi < RADIO_POWER_BALANCER_RSSI_TARGET - RADIO_POWER_BALANCER_RSSI_TARGET_MARGIN
        then of_int (min (uint RADIO_POWER_BALANCER_POWER_MAX)
               (uint current + uint RADIO_POWER_BALANCER_ADJUST_UP_LONG))
        else if current < RADIO_POWER_BALANCER_POWER_MAX then current + 1 else current
      else current)"

definition Balancer_Update ::
  "platform \<Rightarrow> LoLaLinkPowerBalancer \<Rightarrow> LoLaLinkInfo \<Rightarrow> Driver \<Rightarrow>
   bool \<times> LoLaLinkPowerBalancer \<times> LoLaLinkInfo \<times> Driver" where
  "Balancer_Update P b i d =
     (if BalancerUpdated b = ILOLA_INVALID_MILLIS \<or>
         LOLA_LINK_SERVICE_LINKED_MAX_PANIC \<le> Driver_GetElapsedMillisLastValidReceived P d
      then let (b1, d1) = Balancer_SetMaxPower P (b\<lparr>BalancerUpdated := millis_now P\<rparr>) d in (False, b1, i, d1)
      else if LOLA_LINK_SERVICE_LINKED_POWER_UPDATE_PERIOD < millis_now P - BalancerUpdated b then
        let (rssi, i1) = LinkInfo_GetPartnerRSSINormalized i;
            b1 = b\<lparr>BalancerUpdated := millis_now P, CurrentPartnerRSSI := rssi\<rparr>;
            nextPower = Balancer_next rssi (BalancerPower b1)
        in if nextPower \<noteq> BalancerPower b1
           then (True, b1\<lparr>BalancerPower := nextPower\<rparr>, i1, Driver_SetTransmitPower P nextPower d)
           else (False, b1, i1, d)
      else (False, b, i, d))"

section \<open>Channel manager\<close>

definition Channel_ResetChannel :: "platform \<Rightarrow> Driver \<Rightarrow> Driver" where
  "Channel_ResetChannel P d =
     Driver_SetChannel P (of_int ((uint Si446x_GetChannelMin + uint Si446x_GetChannelMax) div 2)) d"

definition Channel_hop :: "u8 \<Rightarrow> u8" where
  "Channel_hop hopIndex = of_int (uint hopIndex mod (uint Si446x_GetChannelMax + 1 - uint Si446x_GetChannelMin)
     + uint Si446x_GetChannelMin)"

definition Channel_SetNextHop :: "platform \<Rightarrow> u8 \<Rightarrow> Driver \<Rightarrow> Driver" where
  "Channel_SetNextHop P hopIndex d = Driver_SetChannel P (Channel_hop hopIndex) d"

section \<open>Timed hopper\<close>

text \<open>
  A service of its own with a task of its own; of the base class it has the set-up state and what
  it asked of the scheduler. In the committed configuration neither token nor frequency hop, so a
  tick only reads the token.
\<close>

record LoLaLinkTimedHopper =
  HopperSetupOk :: bool
  HopperFailed :: bool
  HopperEnabled :: bool
  HopperNextRun :: next_run
  CryptoSeed :: LoLaCryptoTokenSource

definition Hopper_new :: LoLaLinkTimedHopper where
  "Hopper_new = \<lparr> HopperSetupOk = False, HopperFailed = False, HopperEnabled = False,
     HopperNextRun = RunASAP, CryptoSeed = TokenSource_new \<rparr>"

definition Hopper_Setup :: "LoLaLinkTimedHopper \<Rightarrow> bool \<times> LoLaLinkTimedHopper" where
  "Hopper_Setup h =
     (True, h\<lparr>CryptoSeed := TokenSource_SetTOTPPeriod LOLA_LINK_SERVICE_LINKED_TIMED_HOP_PERIOD_MILLIS (CryptoSeed h)\<rparr>)"

definition Hopper_Init :: "LoLaLinkTimedHopper \<Rightarrow> bool \<times> LoLaLinkTimedHopper" where
  "Hopper_Init h =
     (if \<not> HopperFailed h then (True, h\<lparr>HopperSetupOk := True\<rparr>) else (False, h))"

definition Hopper_OnLinkEstablished ::
  "platform \<Rightarrow> LoLaLinkTimedHopper \<Rightarrow> Driver \<Rightarrow> LoLaLinkTimedHopper \<times> Driver" where
  "Hopper_OnLinkEstablished P h d =
     (if HopperSetupOk h then
        (h\<lparr>HopperEnabled := True, HopperNextRun := RunASAP\<rparr>,
         d\<lparr>CryptoEncoder := Encoder_SetToken P (TokenSource_GetSeed (CryptoSeed h)) (CryptoEncoder d)\<rparr>)
      else (h, d))"

definition Hopper_OnLinkLost :: "LoLaLinkTimedHopper \<Rightarrow> LoLaLinkTimedHopper" where
  "Hopper_OnLinkLost h = h\<lparr>HopperEnabled := False\<rparr>"

definition Hopper_GetSyncMillis :: "platform \<Rightarrow> Driver \<Rightarrow> u32" where
  "Hopper_GetSyncMillis P d = Driver_GetSyncMicros P d div 1000"

definition Hopper_Callback :: "platform \<Rightarrow> Driver \<Rightarrow> LoLaLinkTimedHopper \<Rightarrow> bool \<times> LoLaLinkTimedHopper" where
  "Hopper_Callback P d h =
     (let period = LOLA_LINK_SERVICE_LINKED_TIMED_HOP_PERIOD_MILLIS
      in (True, h\<lparr>HopperNextRun := RunAfter (period - Hopper_GetSyncMillis P d mod period)\<rparr>))"

section \<open>What the driver operations leave alone\<close>

lemma Driver_quiet_fields [simp]:
  "CryptoEncoder (Driver_RestoreToReceiving d) = CryptoEncoder d"
  "LinkActive (Driver_RestoreToReceiving d) = LinkActive d"
  "ETTM (Driver_RestoreToReceiving d) = ETTM d"
  "SyncedClock (Driver_RestoreToReceiving d) = SyncedClock d"
  "TransmitPowerNormalized (Driver_RestoreToReceiving d) = TransmitPowerNormalized d"
  "CryptoEncoder (Driver_AddAsyncAction P a e v d) = CryptoEncoder d"
  "LinkActive (Driver_AddAsyncAction P a e v d) = LinkActive d"
  "ETTM (Driver_AddAsyncAction P a e v d) = ETTM d"
  "SyncedClock (Driver_AddAsyncAction P a e v d) = SyncedClock d"
  "TransmitPowerNormalized (Driver_AddAsyncAction P a e v d) = TransmitPowerNormalized d"
  "CryptoEncoder (Driver_OnStart P d) = CryptoEncoder d"
  "LinkActive (Driver_OnStart P d) = LinkActive d"
  "ETTM (Driver_OnStart P d) = ETTM d"
  by (simp_all add: Driver_RestoreToReceiving_def Driver_SetToReceiving_def Driver_AddAsyncAction_def
      Driver_OnStart_def)

lemma Driver_update_fields [simp]:
  "CryptoEncoder (Driver_SetChannel P c d) = CryptoEncoder d"
  "LinkActive (Driver_SetChannel P c d) = LinkActive d"
  "ETTM (Driver_SetChannel P c d) = ETTM d"
  "SyncedClock (Driver_SetChannel P c d) = SyncedClock d"
  "CryptoEncoder (Driver_SetTransmitPower P p d) = CryptoEncoder d"
  "LinkActive (Driver_SetTransmitPower P p d) = LinkActive d"
  "ETTM (Driver_SetTransmitPower P p d) = ETTM d"
  "SyncedClock (Driver_SetTransmitPower P p d) = SyncedClock d"
  "TransmitPowerNormalized (Driver_SetTransmitPower P p d) = p"
  "CryptoEncoder (Driver_Enable P d) = CryptoEncoder d"
  "LinkActive (Driver_Enable P d) = LinkActive d"
  by (simp_all add: Driver_SetChannel_def Driver_OnChannelUpdated_def Driver_SetTransmitPower_def
      Driver_OnTransmitPowerUpdated_def Driver_SetRadioPower_def Driver_Enable_def)

lemma Driver_reset_fields [simp]:
  "CryptoEncoder (Driver_ResetLiveData d) = CryptoEncoder d"
  "LinkActive (Driver_ResetLiveData d) = LinkActive d"
  "SyncedClock (Driver_ResetLiveData d) = SyncedClock d"
  "CryptoEncoder (Driver_ResetStatistics d) = CryptoEncoder d"
  "LinkActive (Driver_ResetStatistics d) = LinkActive d"
  "ETTM (Driver_ResetStatistics d) = ETTM d"
  "SyncedClock (Driver_ResetStatistics d) = SyncedClock d"
  "CryptoEncoder (Driver_SetLinkStatus b d) = CryptoEncoder d"
  "LinkActive (Driver_SetLinkStatus b d) = b"
  "ETTM (Driver_SetLinkStatus b d) = ETTM d"
  "SyncedClock (Driver_SetLinkStatus b d) = SyncedClock d"
  "CryptoEncoder (Driver_SetETTM e d) = CryptoEncoder d"
  "LinkActive (Driver_SetETTM e d) = LinkActive d"
  "ETTM (Driver_SetETTM e d) = e"
  "SyncedClock (Driver_SetETTM e d) = SyncedClock d"
  by (simp_all add: Driver_ResetLiveData_def Driver_ResetStatistics_def Driver_SetLinkStatus_def Driver_SetETTM_def)

lemma Driver_inv_fields [simp]:
  "Driver_inv (d\<lparr>CryptoEncoder := e\<rparr>) = Driver_inv d"
  "Driver_inv (d\<lparr>PacketMap := m\<rparr>) = Driver_inv d"
  "Driver_inv (on_clock f d) = Driver_inv d"
  "Driver_inv (Driver_ResetLiveData d) = Driver_inv d"
  "Driver_inv (Driver_ResetStatistics d) = Driver_inv d"
  "Driver_inv (Driver_SetLinkStatus b d) = Driver_inv d"
  "Driver_inv (Driver_SetETTM x d) = Driver_inv d"
  by (simp_all add: Driver_inv_def on_clock_def action_queue_def Driver_ResetLiveData_def
      Driver_ResetStatistics_def Driver_SetLinkStatus_def Driver_SetETTM_def)

lemma on_clock_fields [simp]:
  "CryptoEncoder (on_clock f d) = CryptoEncoder d" "LinkActive (on_clock f d) = LinkActive d"
  "ETTM (on_clock f d) = ETTM d" "SyncedClock (on_clock f d) = f (SyncedClock d)"
  by (simp_all add: on_clock_def)

section \<open>Latency and guard time\<close>

definition Meter_ok :: "LoLaLinkLatencyMeter \<Rightarrow> bool" where
  "Meter_ok m \<longleftrightarrow> length (DurationStack m) \<le> LOLA_LINK_SERVICE_UNLINK_MAX_LATENCY_SAMPLES \<and>
     (\<forall>x \<in> set (DurationStack m). unat x < 10000)"

definition latency_ring_ok :: "platform \<Rightarrow> bool" where
  "latency_ring_ok P \<longleftrightarrow> ring_ok LOLA_LINK_SERVICE_UNLINK_MAX_LATENCY_SAMPLES (ring_latency P)"

lemma latency_ring_ok_sample [simp]: "latency_ring_ok sample_platform"
  by (simp add: latency_ring_ok_def lola_consts)

lemma Meter_new_ok [simp]: "Meter_ok Meter_new" "Meter_ok (Meter_Reset m)"
  by (simp_all add: Meter_ok_def Meter_new_def Meter_Reset_def)

lemma Meter_OnAckReceived_ok:
  assumes P: "latency_ring_ok P" and m: "Meter_ok m"
  shows "Meter_ok (snd (Meter_OnAckReceived P i m))"
proof -
  have less: "unat (ucast g :: u16) < 10000" if "g < (10000 :: u32)" for g :: u32
  proof -
    have "unat g < 10000" using that by (simp add: word_less_nat_alt)
    then show ?thesis by (simp add: unat_ucast_mod)
  qed
  have tl: "set (tl q) \<subseteq> set q" for q :: "u16 list" by (cases q) auto
  show ?thesis
    using P m less tl
    by (auto simp: Meter_OnAckReceived_def Meter_ok_def latency_ring_ok_def lola_consts Let_def)
qed

lemma sum_u32_samples:
  assumes "\<forall>x \<in> set xs. unat (x :: u16) < 10000" and "length xs \<le> 3"
  shows "unat (\<Sum>x \<leftarrow> xs. ucast x :: u32) = (\<Sum>x \<leftarrow> xs. unat x)"
    and "(\<Sum>x \<leftarrow> xs. unat x) \<le> length xs * 9999"
proof -
  have "unat (\<Sum>x \<leftarrow> xs. ucast x :: u32) = (\<Sum>x \<leftarrow> xs. unat x) \<and> (\<Sum>x \<leftarrow> xs. unat x) \<le> length xs * 9999"
    using assms
  proof (induction xs)
    case Nil
    then show ?case by simp
  next
    case (Cons x xs)
    then have ih: "unat (\<Sum>x \<leftarrow> xs. ucast x :: u32) = (\<Sum>x \<leftarrow> xs. unat x)"
      "(\<Sum>x \<leftarrow> xs. unat x) \<le> length xs * 9999" and x: "unat x < 10000" and l: "length xs \<le> 2" by auto
    have ux: "unat (ucast x :: u32) = unat x" by (simp add: unat_ucast_up)
    have "unat (ucast x :: u32) + unat (\<Sum>x \<leftarrow> xs. ucast x :: u32) < 2 ^ 32" using ih x l ux by simp
    then have "unat (ucast x + (\<Sum>x \<leftarrow> xs. ucast x) :: u32) = unat x + (\<Sum>x \<leftarrow> xs. unat x)"
      using ih(1) ux by (subst unat_add_lem [THEN iffD1]) simp_all
    then show ?case using ih(2) x by simp
  qed
  then show "unat (\<Sum>x \<leftarrow> xs. ucast x :: u32) = (\<Sum>x \<leftarrow> xs. unat x)"
    "(\<Sum>x \<leftarrow> xs. unat x) \<le> length xs * 9999" by auto
qed

lemma Meter_average:
  assumes m: "Meter_ok m" and ne: "DurationStack m \<noteq> []"
  shows "unat (Meter_GetAverageLatency m) = (\<Sum>x \<leftarrow> DurationStack m. unat x) div length (DurationStack m)"
    and "unat (Meter_GetAverageLatency m) < 10000"
proof -
  let ?xs = "DurationStack m"
  have b: "\<forall>x \<in> set ?xs. unat x < 10000" "length ?xs \<le> 3" using m by (simp_all add: Meter_ok_def lola_consts)
  have pos: "0 < length ?xs" using ne by simp
  have q: "(\<Sum>x \<leftarrow> ?xs. unat x) div length ?xs \<le> 9999"
    using sum_u32_samples(2) [OF b] pos by (metis div_le_mono div_mult_self1_is_m)
  have n: "unat (of_nat (length ?xs) :: u32) = length ?xs"
    using b(2) by (simp add: unat_of_nat_mod)
  have "unat ((\<Sum>x \<leftarrow> ?xs. ucast x :: u32) div of_nat (length ?xs)) = (\<Sum>x \<leftarrow> ?xs. unat x) div length ?xs"
    by (simp only: unat_div_distrib sum_u32_samples(1) [OF b] n)
  then have "unat (Meter_GetAverageLatency m) = (\<Sum>x \<leftarrow> ?xs. unat x) div length ?xs mod 65536"
    using ne by (simp add: Meter_GetAverageLatency_def unat_ucast_mod)
  with q show "unat (Meter_GetAverageLatency m) = (\<Sum>x \<leftarrow> ?xs. unat x) div length ?xs"
    "unat (Meter_GetAverageLatency m) < 10000" by simp_all
qed

text \<open>C32. The latency the host measures gives a usable guard time: every sample it keeps is a ping
  answered within one duplex period, and when the average of the kept samples is at least 3 us the
  estimated transmission time set from it is positive and at most half a duplex period, which is what
  keeps the send slots of host and remote apart.\<close>
theorem measured_latency_gives_guard_time:
  assumes "latency_ring_ok P" and "Meter_ok m" and "InfoHasDriver i"
    and "DurationStack (snd (Meter_OnAckReceived P packetId m)) \<noteq> []"
    and "3 \<le> Meter_GetAverageLatency (snd (Meter_OnAckReceived P packetId m))"
  shows "Meter_ok (snd (Meter_OnAckReceived P packetId m)) \<and>
    (let d' = snd (LinkInfo_SetRTT (ucast (Meter_GetAverageLatency (snd (Meter_OnAckReceived P packetId m)))) i d)
     in 0 < ETTM d' \<and> ETTM d' \<le> HalfDuplexPeriodMicros)"
proof -
  let ?m = "snd (Meter_OnAckReceived P packetId m)"
  have m: "Meter_ok ?m" by (rule Meter_OnAckReceived_ok [OF assms(1,2)])
  have u: "unat (ucast (Meter_GetAverageLatency ?m) :: u32) = unat (Meter_GetAverageLatency ?m)"
    by (simp add: unat_ucast_up)
  have "ucast (Meter_GetAverageLatency ?m) < DuplexPeriodMicros" "3 \<le> (ucast (Meter_GetAverageLatency ?m) :: u32)"
    using Meter_average(2) [OF m assms(4)] assms(5) u
    by (simp_all add: word_less_nat_alt word_le_nat_alt lola_consts)
  with SetRTT_ETTM [OF assms(3)] m show ?thesis by (simp add: Let_def)
qed

theorem measured_latency_gives_guard_time_witness:
  "0 < ETTM (snd (LinkInfo_SetRTT 1000 (LinkInfo_new\<lparr>InfoHasDriver := True\<rparr>) Driver_new)) \<and>
   ETTM (snd (LinkInfo_SetRTT 1000 (LinkInfo_new\<lparr>InfoHasDriver := True\<rparr>) Driver_new)) \<le> HalfDuplexPeriodMicros"
  using measured_latency_gives_guard_time [of "sample_platform\<lparr>micros_now := 1500\<rparr>"
      "Meter_OnAckPacketSent (sample_platform\<lparr>micros_now := 500\<rparr>) 9 Meter_new"
      "LinkInfo_new\<lparr>InfoHasDriver := True\<rparr>" 9 Driver_new]
  by (simp add: Meter_OnAckReceived_def Meter_OnAckPacketSent_def Meter_new_def Meter_Reset_def Meter_ok_def
      latency_ring_ok_def sample_ring_def ring_ok_def Meter_GetAverageLatency_def lola_consts Let_def)

section \<open>Transmit power\<close>

lemma uint_of_int_u8: "0 \<le> k \<Longrightarrow> k < 256 \<Longrightarrow> uint (of_int k :: u8) = k"
  by (simp add: uint_word_of_int)

lemma uint_u8_step:
  "0 < uint (p :: u8) \<Longrightarrow> uint (p - 1) = uint p - 1"
  "uint (p :: u8) < 255 \<Longrightarrow> uint (p + 1) = uint p + 1"
  using uint_lt2p [of p] by (simp_all add: uint_word_ariths)

lemma Balancer_next_band:
  assumes "RADIO_POWER_BALANCER_POWER_MIN \<le> p" and "p \<le> RADIO_POWER_BALANCER_POWER_MAX"
  shows "RADIO_POWER_BALANCER_POWER_MIN \<le> Balancer_next r p" and "Balancer_next r p \<le> RADIO_POWER_BALANCER_POWER_MAX"
    and "Balancer_next r p < p \<Longrightarrow> RADIO_POWER_BALANCER_RSSI_TARGET < r"
    and "p < Balancer_next r p \<Longrightarrow> r < RADIO_POWER_BALANCER_RSSI_TARGET"
proof -
  have p: "13 \<le> uint p" "uint p \<le> 100" using assms by (simp_all add: word_le_def lola_consts)
  have s: "uint (p - 1) = uint p - 1" "uint (p + 1) = uint p + 1"
    using p by (simp_all add: uint_u8_step)
  have d: "uint (of_int (max 13 (uint p - 10)) :: u8) = max 13 (uint p - 10)"
    and u: "uint (of_int (min 100 (uint p + 20)) :: u8) = min 100 (uint p + 20)"
    using p by (simp_all add: uint_of_int_u8)
  show "RADIO_POWER_BALANCER_POWER_MIN \<le> Balancer_next r p" "Balancer_next r p \<le> RADIO_POWER_BALANCER_POWER_MAX"
    using p s d u by (auto simp: Balancer_next_def lola_consts word_le_def word_less_def)
  show "Balancer_next r p < p \<Longrightarrow> RADIO_POWER_BALANCER_RSSI_TARGET < r"
    "p < Balancer_next r p \<Longrightarrow> r < RADIO_POWER_BALANCER_RSSI_TARGET"
    using p s d u by (auto simp: Balancer_next_def lola_consts word_le_def word_less_def split: if_splits)
qed

text \<open>C33. The transmit power follows the signal strength the partner reports: it always lies between
  13 and 100 of 255, it is what the driver was told, it goes down only when the partner hears us above
  the target and up only when it hears us below the target or when nothing was received for 2.4 s.\<close>
theorem power_follows_partner_rssi:
  assumes "BalancerUpdated b \<noteq> ILOLA_INVALID_MILLIS \<longrightarrow>
      RADIO_POWER_BALANCER_POWER_MIN \<le> BalancerPower b \<and> BalancerPower b \<le> RADIO_POWER_BALANCER_POWER_MAX \<and>
      TransmitPowerNormalized d = BalancerPower b"
    and "Balancer_Update P b i d = (changed, b', i', d')"
  shows "RADIO_POWER_BALANCER_POWER_MIN \<le> BalancerPower b' \<and> BalancerPower b' \<le> RADIO_POWER_BALANCER_POWER_MAX \<and>
    TransmitPowerNormalized d' = BalancerPower b' \<and>
    (BalancerUpdated b \<noteq> ILOLA_INVALID_MILLIS \<longrightarrow>
      (BalancerPower b' < BalancerPower b \<longrightarrow>
        RADIO_POWER_BALANCER_RSSI_TARGET < fst (LinkInfo_GetPartnerRSSINormalized i)) \<and>
      (BalancerPower b < BalancerPower b' \<longrightarrow>
        fst (LinkInfo_GetPartnerRSSINormalized i) < RADIO_POWER_BALANCER_RSSI_TARGET \<or>
        LOLA_LINK_SERVICE_LINKED_MAX_PANIC \<le> Driver_GetElapsedMillisLastValidReceived P d))"
proof (cases "BalancerUpdated b = ILOLA_INVALID_MILLIS \<or>
    LOLA_LINK_SERVICE_LINKED_MAX_PANIC \<le> Driver_GetElapsedMillisLastValidReceived P d")
  case True
  then have "b' = b\<lparr>BalancerUpdated := millis_now P, BalancerPower := RADIO_POWER_BALANCER_POWER_MAX\<rparr>"
    "d' = Driver_SetTransmitPower P RADIO_POWER_BALANCER_POWER_MAX d"
    using assms(2) by (auto simp: Balancer_Update_def Balancer_SetMaxPower_def Let_def)
  moreover have "\<not> RADIO_POWER_BALANCER_POWER_MAX < BalancerPower b" if "BalancerUpdated b \<noteq> ILOLA_INVALID_MILLIS"
    using assms(1) that by (simp add: not_less)
  ultimately show ?thesis using True by (auto simp: lola_consts)
next
  case False
  let ?r = "fst (LinkInfo_GetPartnerRSSINormalized i)"
  have band: "RADIO_POWER_BALANCER_POWER_MIN \<le> BalancerPower b" "BalancerPower b \<le> RADIO_POWER_BALANCER_POWER_MAX"
    and same: "TransmitPowerNormalized d = BalancerPower b" using assms(1) False by auto
  have "(BalancerPower b', TransmitPowerNormalized d') =
      (Balancer_next ?r (BalancerPower b), Balancer_next ?r (BalancerPower b)) \<or>
    (BalancerPower b', TransmitPowerNormalized d') = (BalancerPower b, BalancerPower b)"
    using assms(2) False same
    by (auto simp: Balancer_Update_def case_prod_unfold Let_def split: if_splits)
  then show ?thesis using Balancer_next_band [OF band] band by auto
qed

theorem power_follows_partner_rssi_witness:
  "BalancerPower (fst (snd (Balancer_Update (sample_platform\<lparr>millis_now := 2000\<rparr>)
     (Balancer_new\<lparr>BalancerPower := 100, BalancerUpdated := 5\<rparr>) (LinkInfo_new\<lparr>PartnerRSSISamples := [200]\<rparr>)
     (Driver_new\<lparr>TransmitPowerNormalized := 100, LastValidReceivedMicros := 0\<rparr>)))) = 90 \<and>
   RADIO_POWER_BALANCER_POWER_MIN \<le> (90 :: u8)"
  using power_follows_partner_rssi [where P = "sample_platform\<lparr>millis_now := 2000\<rparr>" and
      b = "Balancer_new\<lparr>BalancerPower := 100, BalancerUpdated := 5\<rparr>" and
      i = "LinkInfo_new\<lparr>PartnerRSSISamples := [200]\<rparr>" and
      d = "Driver_new\<lparr>TransmitPowerNormalized := 100, LastValidReceivedMicros := 0\<rparr>"]
  by (simp add: Balancer_Update_def Balancer_next_def LinkInfo_GetPartnerRSSINormalized_def Balancer_new_def
      Driver_GetElapsedMillisLastValidReceived_def Driver_new_def LinkInfo_new_def lola_consts Let_def)

section \<open>Channels\<close>

lemma Channel_hop_unat: "unat (Channel_hop h) = unat h mod 27"
proof -
  have "uint h mod 27 < 27" "0 \<le> uint h mod 27" by simp_all
  then have "uint (Channel_hop h) = uint h mod 27"
    by (simp add: Channel_hop_def lola_consts uint_of_int_u8)
  then show ?thesis by (metis nat_mod_as_int unat_eq_nat_uint uint_nat nat_int of_nat_mod of_nat_numeral)
qed

end
