(* ===== verification/Link_Service.thy ===== *)
theory Link_Service
  imports Link_Helpers Key_Exchange Send_Service
begin

text \<open>
  \<open>src/src/Services/Link\<close>: \<open>LoLaLinkDefinitions.h\<close>, \<open>AbstractLinkService.h\<close> and
  \<open>LoLaLinkService.h\<close>, what the link services of host and remote share. The virtual methods come
  in three records, in the order they are called by: what ends a session, what follows a change of
  the link state, and the handlers of either end. The two \<open>union\<close>s of the class are written
  right before they are read and appear as the bytes they carry. \<open>N\<close> is
  \<open>NotifyServicesLinkUpdated\<close> of the services manager.
\<close>

section \<open>LoLaLinkDefinitions.h\<close>

definition LOLA_LINK_SERVICE_PAYLOAD_SIZE_PING :: u8 where
  [lola_consts]: "LOLA_LINK_SERVICE_PAYLOAD_SIZE_PING = 0"

definition LOLA_LINK_SERVICE_PAYLOAD_SIZE_REPORT :: u8 where
  [lola_consts]: "LOLA_LINK_SERVICE_PAYLOAD_SIZE_REPORT = 3"

definition LOLA_LINK_SERVICE_PAYLOAD_SIZE_SHORT :: u8 where
  [lola_consts]: "LOLA_LINK_SERVICE_PAYLOAD_SIZE_SHORT = 1 + 4"

definition LOLA_LINK_SERVICE_PAYLOAD_SIZE_SHORT_WITH_ACK :: u8 where
  [lola_consts]: "LOLA_LINK_SERVICE_PAYLOAD_SIZE_SHORT_WITH_ACK = 4"

definition LOLA_LINK_SERVICE_PAYLOAD_SIZE_LONG :: u8 where
  [lola_consts]: "LOLA_LINK_SERVICE_PAYLOAD_SIZE_LONG = 1 + of_nat KEY_MAX_SIZE"

definition LOLA_LINK_SERVICE_PACKET_MAX_SIZE :: nat where
  [lola_consts]: "LOLA_LINK_SERVICE_PACKET_MAX_SIZE =
     LOLA_PACKET_MIN_PACKET_SIZE + unat LOLA_LINK_SERVICE_PAYLOAD_SIZE_LONG"

definition LOLA_LINK_SUBHEADER_LINK_DISCOVERY :: u8 where
  [lola_consts]: "LOLA_LINK_SUBHEADER_LINK_DISCOVERY = 0x00 + LOLA_LINK_PROTOCOL_VERSION"

definition LOLA_LINK_SUBHEADER_HOST_ID_BROADCAST :: u8 where
  [lola_consts]: "LOLA_LINK_SUBHEADER_HOST_ID_BROADCAST = 0x10 + LOLA_LINK_PROTOCOL_VERSION"

definition LOLA_LINK_SUBHEADER_HOST_PUBLIC_KEY :: u8 where
  [lola_consts]: "LOLA_LINK_SUBHEADER_HOST_PUBLIC_KEY = 0x20"

definition LOLA_LINK_SUBHEADER_REMOTE_PKC_START_REQUEST :: u8 where
  [lola_consts]: "LOLA_LINK_SUBHEADER_REMOTE_PKC_START_REQUEST = 0x30"

definition LOLA_LINK_SUBHEADER_REMOTE_PUBLIC_KEY :: u8 where
  [lola_consts]: "LOLA_LINK_SUBHEADER_REMOTE_PUBLIC_KEY = 0x31"

definition LOLA_LINK_SUBHEADER_INFO_SYNC_REQUEST :: u8 where
  [lola_consts]: "LOLA_LINK_SUBHEADER_INFO_SYNC_REQUEST = 0x40"

definition LOLA_LINK_SUBHEADER_INFO_SYNC_HOST :: u8 where
  [lola_consts]: "LOLA_LINK_SUBHEADER_INFO_SYNC_HOST = 0x41"

definition LOLA_LINK_SUBHEADER_NTP_REPLY :: u8 where
  [lola_consts]: "LOLA_LINK_SUBHEADER_NTP_REPLY = 0x42"

definition LOLA_LINK_SUBHEADER_INFO_SYNC_REMOTE :: u8 where
  [lola_consts]: "LOLA_LINK_SUBHEADER_INFO_SYNC_REMOTE = 0x50"

definition LOLA_LINK_SUBHEADER_NTP_REQUEST :: u8 where
  [lola_consts]: "LOLA_LINK_SUBHEADER_NTP_REQUEST = 0x51"

definition LOLA_LINK_SUBHEADER_NTP_TUNE_REQUEST :: u8 where
  [lola_consts]: "LOLA_LINK_SUBHEADER_NTP_TUNE_REQUEST = 0x90"

definition LOLA_LINK_SUBHEADER_NTP_TUNE_REPLY :: u8 where
  [lola_consts]: "LOLA_LINK_SUBHEADER_NTP_TUNE_REPLY = 0x91"

definition LOLA_LINK_SUBHEADER_LINK_REPORT :: u8 where
  [lola_consts]: "LOLA_LINK_SUBHEADER_LINK_REPORT = 0x0A"

definition LOLA_LINK_SUBHEADER_LINK_REPORT_WITH_REPLY :: u8 where
  [lola_consts]: "LOLA_LINK_SUBHEADER_LINK_REPORT_WITH_REPLY = 0x0B"

definition LOLA_LINK_HEADER_PING_WITH_ACK :: u8 where
  [lola_consts]: "LOLA_LINK_HEADER_PING_WITH_ACK = PACKET_DEFINITION_LINK_START_HEADER"

definition LOLA_LINK_HEADER_SHORT :: u8 where
  [lola_consts]: "LOLA_LINK_HEADER_SHORT = LOLA_LINK_HEADER_PING_WITH_ACK + 1"

definition LOLA_LINK_HEADER_SHORT_WITH_ACK :: u8 where
  [lola_consts]: "LOLA_LINK_HEADER_SHORT_WITH_ACK = LOLA_LINK_HEADER_SHORT + 1"

definition LOLA_LINK_HEADER_LONG :: u8 where
  [lola_consts]: "LOLA_LINK_HEADER_LONG = LOLA_LINK_HEADER_SHORT_WITH_ACK + 1"

definition LOLA_LINK_HEADER_REPORT :: u8 where
  [lola_consts]: "LOLA_LINK_HEADER_REPORT = LOLA_LINK_HEADER_LONG + 1"

text \<open>\<open>LinkingStagesEnum\<close>, stored in the byte \<open>LinkingState\<close>.\<close>

definition LinkingInfoSyncStage :: u8 where [lola_consts]: "LinkingInfoSyncStage = 0"
definition LinkingClockSyncStage :: u8 where [lola_consts]: "LinkingClockSyncStage = 1"
definition LinkProtocolSwitchOver :: u8 where [lola_consts]: "LinkProtocolSwitchOver = 2"
definition LinkingDone :: u8 where [lola_consts]: "LinkingDone = 3"

definition PingPacketDefinition :: PacketDefinition where
  "PingPacketDefinition = \<lparr> Configuration = PACKET_DEFINITION_MASK_HAS_ACK,
     Header = LOLA_LINK_HEADER_PING_WITH_ACK, PayloadSize = LOLA_LINK_SERVICE_PAYLOAD_SIZE_PING \<rparr>"

definition LinkReportPacketDefinition :: PacketDefinition where
  "LinkReportPacketDefinition = \<lparr> Configuration = PACKET_DEFINITION_MASK_BASIC,
     Header = LOLA_LINK_HEADER_REPORT, PayloadSize = LOLA_LINK_SERVICE_PAYLOAD_SIZE_REPORT \<rparr>"

definition LinkShortPacketDefinition :: PacketDefinition where
  "LinkShortPacketDefinition = \<lparr> Configuration = PACKET_DEFINITION_MASK_BASIC,
     Header = LOLA_LINK_HEADER_SHORT, PayloadSize = LOLA_LINK_SERVICE_PAYLOAD_SIZE_SHORT \<rparr>"

definition LinkShortWithAckPacketDefinition :: PacketDefinition where
  "LinkShortWithAckPacketDefinition = \<lparr> Configuration = PACKET_DEFINITION_MASK_HAS_ACK,
     Header = LOLA_LINK_HEADER_SHORT_WITH_ACK, PayloadSize = LOLA_LINK_SERVICE_PAYLOAD_SIZE_SHORT_WITH_ACK \<rparr>"

definition LinkLongPacketDefinition :: PacketDefinition where
  "LinkLongPacketDefinition = \<lparr> Configuration = PACKET_DEFINITION_MASK_BASIC,
     Header = LOLA_LINK_HEADER_LONG, PayloadSize = LOLA_LINK_SERVICE_PAYLOAD_SIZE_LONG \<rparr>"

lemmas link_packet_defs = PingPacketDefinition_def LinkReportPacketDefinition_def
  LinkShortPacketDefinition_def LinkShortWithAckPacketDefinition_def LinkLongPacketDefinition_def

section \<open>State\<close>

record LoLaLinkService = IPacketSendService +
  LinkStateStart :: u32
  LastSentMillis :: u32
  LinkInfo :: LoLaLinkInfo
  TimedHopper :: LoLaLinkTimedHopper
  PowerBalancer :: LoLaLinkPowerBalancer
  ReportPending :: bool
  KeyExchanger :: LoLaCryptoKeyExchanger
  KeysLastGenerated :: u32
  SubStateStart :: u32
  LinkingState :: u8
  InfoSyncStage :: u8

definition on_info :: "(LoLaLinkInfo \<Rightarrow> LoLaLinkInfo) \<Rightarrow> 'a LoLaLinkService_scheme \<Rightarrow> 'a LoLaLinkService_scheme" where
  "on_info f s = s\<lparr>LinkInfo := f (LinkInfo s)\<rparr>"

definition on_info_result ::
  "(LoLaLinkInfo \<Rightarrow> 'b \<times> LoLaLinkInfo) \<Rightarrow> 'a LoLaLinkService_scheme \<Rightarrow> 'b \<times> 'a LoLaLinkService_scheme" where
  "on_info_result f s = (let (r, i) = f (LinkInfo s) in (r, s\<lparr>LinkInfo := i\<rparr>))"

definition on_info_drv ::
  "(LoLaLinkInfo \<Rightarrow> Driver \<Rightarrow> LoLaLinkInfo \<times> Driver) \<Rightarrow> 'a LoLaLinkService_scheme \<Rightarrow> 'a LoLaLinkService_scheme" where
  "on_info_drv f s = (let (i, d) = f (LinkInfo s) (drv s) in s\<lparr>LinkInfo := i, drv := d\<rparr>)"

definition on_encoder ::
  "(LoLaCryptoEncoder \<Rightarrow> LoLaCryptoEncoder) \<Rightarrow> 'a LoLaLinkService_scheme \<Rightarrow> 'a LoLaLinkService_scheme" where
  "on_encoder f s = on_drv (\<lambda>d. d\<lparr>CryptoEncoder := f (CryptoEncoder d)\<rparr>) s"

definition on_seed ::
  "(LoLaCryptoTokenSource \<Rightarrow> LoLaCryptoTokenSource) \<Rightarrow> 'a LoLaLinkService_scheme \<Rightarrow> 'a LoLaLinkService_scheme" where
  "on_seed f s = s\<lparr>TimedHopper := (TimedHopper s)\<lparr>CryptoSeed := f (CryptoSeed (TimedHopper s))\<rparr>\<rparr>"

definition on_keys ::
  "(LoLaCryptoKeyExchanger \<Rightarrow> LoLaCryptoKeyExchanger) \<Rightarrow> 'a LoLaLinkService_scheme \<Rightarrow> 'a LoLaLinkService_scheme" where
  "on_keys f s = s\<lparr>KeyExchanger := f (KeyExchanger s)\<rparr>"

abbreviation GetLinkState :: "'a LoLaLinkService_scheme \<Rightarrow> LinkStateEnum" where
  "GetLinkState s \<equiv> LinkState (LinkInfo s)"

record 'w session_hooks =
  sh_SyncerSetup :: "'w \<Rightarrow> 'w"
  sh_SyncerReset :: "platform \<Rightarrow> 'w \<Rightarrow> 'w"
  sh_TransactionReset :: "'w \<Rightarrow> 'w"
  sh_OnClearSession :: "'w \<Rightarrow> 'w"

record 'w state_hooks =
  th_StampSynced :: "platform \<Rightarrow> 'w \<Rightarrow> 'w"
  th_OnLinkStateChanged :: "platform \<Rightarrow> LinkStateEnum \<Rightarrow> 'w \<Rightarrow> 'w"

record 'w link_hooks =
  lk_OnLinking :: "platform \<Rightarrow> 'w \<Rightarrow> 'w"
  lk_OnAwaitingLink :: "platform \<Rightarrow> 'w \<Rightarrow> bool \<times> 'w"
  lk_OnKeepingLink :: "platform \<Rightarrow> 'w \<Rightarrow> 'w"
  lk_OnLinkDiscoveryReceived :: "platform \<Rightarrow> 'w \<Rightarrow> 'w"
  lk_OnPKCRequestReceived :: "platform \<Rightarrow> u8 \<Rightarrow> u32 \<Rightarrow> 'w \<Rightarrow> 'w"
  lk_OnRemotePublicKeyReceived :: "platform \<Rightarrow> u8 \<Rightarrow> u8 list \<Rightarrow> 'w \<Rightarrow> 'w"
  lk_OnRemoteInfoSyncReceived :: "platform \<Rightarrow> u8 \<Rightarrow> 'w \<Rightarrow> 'w"
  lk_OnHostInfoSyncRequestReceived :: "platform \<Rightarrow> 'w \<Rightarrow> 'w"
  lk_OnClockSyncRequestReceived :: "platform \<Rightarrow> u8 \<Rightarrow> u32 \<Rightarrow> 'w \<Rightarrow> 'w"
  lk_OnClockSyncTuneRequestReceived :: "platform \<Rightarrow> u8 \<Rightarrow> u32 \<Rightarrow> 'w \<Rightarrow> 'w"
  lk_OnIdBroadcastReceived :: "platform \<Rightarrow> u8 \<Rightarrow> u32 \<Rightarrow> 'w \<Rightarrow> 'w"
  lk_OnHostPublicKeyReceived :: "platform \<Rightarrow> u8 \<Rightarrow> u8 list \<Rightarrow> 'w \<Rightarrow> 'w"
  lk_OnHostInfoSyncReceived :: "platform \<Rightarrow> u8 \<Rightarrow> u16 \<Rightarrow> 'w \<Rightarrow> 'w"
  lk_OnClockSyncResponseReceived :: "platform \<Rightarrow> u8 \<Rightarrow> u32 \<Rightarrow> 'w \<Rightarrow> 'w"
  lk_OnClockSyncTuneResponseReceived :: "platform \<Rightarrow> u8 \<Rightarrow> u32 \<Rightarrow> 'w \<Rightarrow> 'w"
  lk_OnAckedPacketReceived :: "platform \<Rightarrow> LoLaPacket \<Rightarrow> 'w \<Rightarrow> bool \<times> 'w"

text \<open>The bodies the base class gives the handlers.\<close>

definition Link_default_hooks :: "'a LoLaLinkService_scheme link_hooks" where
  "Link_default_hooks = \<lparr>
     lk_OnLinking = \<lambda>P. Service_SetNextRunDelay LOLA_LINK_SERVICE_CHECK_PERIOD,
     lk_OnAwaitingLink = \<lambda>P s. (False, s),
     lk_OnKeepingLink = \<lambda>P. Service_SetNextRunDelay LOLA_LINK_SERVICE_IDLE_PERIOD,
     lk_OnLinkDiscoveryReceived = \<lambda>P s. s, lk_OnPKCRequestReceived = \<lambda>P i x s. s,
     lk_OnRemotePublicKeyReceived = \<lambda>P i x s. s, lk_OnRemoteInfoSyncReceived = \<lambda>P x s. s,
     lk_OnHostInfoSyncRequestReceived = \<lambda>P s. s, lk_OnClockSyncRequestReceived = \<lambda>P i x s. s,
     lk_OnClockSyncTuneRequestReceived = \<lambda>P i x s. s, lk_OnIdBroadcastReceived = \<lambda>P i x s. s,
     lk_OnHostPublicKeyReceived = \<lambda>P i x s. s, lk_OnHostInfoSyncReceived = \<lambda>P i x s. s,
     lk_OnClockSyncResponseReceived = \<lambda>P i x s. s, lk_OnClockSyncTuneResponseReceived = \<lambda>P i x s. s,
     lk_OnAckedPacketReceived = \<lambda>P p s. (False, s) \<rparr>"

section \<open>AbstractLinkService.h\<close>

definition Link_OnAddPacketMap ::
  "'a LoLaLinkService_scheme \<Rightarrow> (bool \<times> 'a LoLaLinkService_scheme) option" where
  "Link_OnAddPacketMap s =
     (let defs = [PingPacketDefinition, LinkReportPacketDefinition, LinkShortPacketDefinition,
                  LinkShortWithAckPacketDefinition, LinkLongPacketDefinition]
      in case Service_AddMappings defs s of
           None \<Rightarrow> None
         | Some (ok, s1) \<Rightarrow>
             Some (ok \<and> (\<forall>def \<in> set defs. \<not> length (Raw (Packet s1)) < unat (PacketDefinition_GetTotalSize def)), s1))"

definition Link_ProcessAckedPacket ::
  "'a LoLaLinkService_scheme link_hooks \<Rightarrow> platform \<Rightarrow> LoLaPacket \<Rightarrow>
   'a LoLaLinkService_scheme \<Rightarrow> bool \<times> 'a LoLaLinkService_scheme" where
  "Link_ProcessAckedPacket LH P receivedPacket s =
     (if LoLaPacket_GetDataHeader receivedPacket = Header PingPacketDefinition
      then (GetLinkState s = Linking \<or> GetLinkState s = Linked, s)
      else lk_OnAckedPacketReceived LH P receivedPacket s)"

definition Link_OnSendFailed :: "platform \<Rightarrow> 'a LoLaLinkService_scheme \<Rightarrow> 'a LoLaLinkService_scheme" where
  "Link_OnSendFailed P = Service_SetNextRunDelay LOLA_LINK_SEND_FAIL_RETRY_PERIOD"

definition Link_ResetStateStartTime :: "platform \<Rightarrow> 'a LoLaLinkService_scheme \<Rightarrow> 'a LoLaLinkService_scheme" where
  "Link_ResetStateStartTime P s = s\<lparr>LinkStateStart := millis_now P\<rparr>"

definition Link_GetElapsedMillisSinceStateStart :: "platform \<Rightarrow> 'a LoLaLinkService_scheme \<Rightarrow> u32" where
  "Link_GetElapsedMillisSinceStateStart P s = elapsed_since (millis_now P) (LinkStateStart s)"

definition Link_GetElapsedMillisSinceLastSent :: "platform \<Rightarrow> 'a LoLaLinkService_scheme \<Rightarrow> u32" where
  "Link_GetElapsedMillisSinceLastSent P s = elapsed_since (millis_now P) (LastSentMillis s)"

definition Link_ResetLastSentTimeStamp :: "'a LoLaLinkService_scheme \<Rightarrow> 'a LoLaLinkService_scheme" where
  "Link_ResetLastSentTimeStamp s = s\<lparr>LastSentMillis := ILOLA_INVALID_MILLIS\<rparr>"

definition Link_ShouldProcessReceived :: "'a LoLaLinkService_scheme \<Rightarrow> bool" where
  "Link_ShouldProcessReceived s \<longleftrightarrow> Service_IsSetupOk s"

text \<open>The packet builders.\<close>

definition Link_Prepare :: "PacketDefinition \<Rightarrow> u8 \<Rightarrow> 'a LoLaLinkService_scheme \<Rightarrow> 'a LoLaLinkService_scheme" where
  "Link_Prepare def packetId s =
     s\<lparr>Packet := LoLaPacket_SetId packetId (snd (LoLaPacket_SetDefinition (Some def) (Packet s)))\<rparr>"

definition Link_SetPayload :: "nat \<Rightarrow> u8 list \<Rightarrow> 'a LoLaLinkService_scheme \<Rightarrow> 'a LoLaLinkService_scheme" where
  "Link_SetPayload off bs s = s\<lparr>Packet := LoLaPacket_SetPayload off bs (Packet s)\<rparr>"

definition Link_PreparePing :: "platform \<Rightarrow> 'a LoLaLinkService_scheme \<Rightarrow> 'a LoLaLinkService_scheme" where
  "Link_PreparePing P s = Link_Prepare PingPacketDefinition (of_int (random_between P 0 255)) s"

definition Link_PrepareReportPacket :: "u8 \<Rightarrow> 'a LoLaLinkService_scheme \<Rightarrow> 'a LoLaLinkService_scheme" where
  "Link_PrepareReportPacket subHeader s = Link_Prepare LinkReportPacketDefinition subHeader s"

definition Link_PrepareShortPacket :: "u8 \<Rightarrow> u8 \<Rightarrow> 'a LoLaLinkService_scheme \<Rightarrow> 'a LoLaLinkService_scheme" where
  "Link_PrepareShortPacket requestId subHeader s =
     Link_SetPayload 0 [subHeader] (Link_Prepare LinkShortPacketDefinition requestId s)"

definition Link_PrepareLongPacket :: "u8 \<Rightarrow> u8 \<Rightarrow> 'a LoLaLinkService_scheme \<Rightarrow> 'a LoLaLinkService_scheme" where
  "Link_PrepareLongPacket requestId subHeader s =
     Link_SetPayload 0 [subHeader] (Link_Prepare LinkLongPacketDefinition requestId s)"

definition Link_PrepareShortPacketWithAck :: "u8 \<Rightarrow> 'a LoLaLinkService_scheme \<Rightarrow> 'a LoLaLinkService_scheme" where
  "Link_PrepareShortPacketWithAck requestId s = Link_Prepare LinkShortWithAckPacketDefinition requestId s"

text \<open>\<open>S_ArrayToPayload\<close> with the value stored in the union before, \<open>ArrayToR_Array\<close> with the value read after.\<close>

definition Link_S_ArrayToPayload :: "u32 \<Rightarrow> 'a LoLaLinkService_scheme \<Rightarrow> 'a LoLaLinkService_scheme" where
  "Link_S_ArrayToPayload x s = Link_SetPayload 1 (le32_bytes x) s"

definition Link_ArrayToR_Array :: "u8 list \<Rightarrow> u32" where
  "Link_ArrayToR_Array incomingPayload = bytes_le32 (take 4 incomingPayload)"

section \<open>LoLaLinkService.h: session and state\<close>

definition Link_SetLinkingState :: "u8 \<Rightarrow> 'a LoLaLinkService_scheme \<Rightarrow> 'a LoLaLinkService_scheme" where
  "Link_SetLinkingState linkingState s =
     Service_SetNextRunASAP (Link_ResetLastSentTimeStamp (s\<lparr>LinkingState := linkingState\<rparr>))"

definition Link_ClearSession ::
  "'a LoLaLinkService_scheme session_hooks \<Rightarrow> platform \<Rightarrow> 'a LoLaLinkService_scheme \<Rightarrow> 'a LoLaLinkService_scheme" where
  "Link_ClearSession SH P s =
     (let s1 = sh_TransactionReset SH (sh_SyncerReset SH P (s\<lparr>ReportPending := False\<rparr>));
          s2 = on_encoder Encoder_Clear (on_info_drv LinkInfo_Reset s1);
          s3 = on_keys KeyExchanger_ClearPartner (on_seed (TokenSource_SetSeed 0) s2)
      in sh_OnClearSession SH (s3\<lparr>InfoSyncStage := 0\<rparr>))"

definition Link_OnSetup ::
  "'a LoLaLinkService_scheme session_hooks \<Rightarrow> platform \<Rightarrow> 'a LoLaLinkService_scheme \<Rightarrow> bool \<times> 'a LoLaLinkService_scheme" where
  "Link_OnSetup SH P s =
     (let s1 = sh_SyncerSetup SH (on_keys (\<lambda>k. snd (KeyExchanger_Setup k)) s);
          s2 = on_seed (TokenSource_SetTOTPPeriod LOLA_LINK_SERVICE_LINKED_TIMED_HOP_PERIOD_MILLIS) s1;
          s3 = on_info_drv LinkInfo_Reset (on_info LinkInfo_SetDriver s2);
          s4 = snd (on_info_result (LinkInfo_GetLocalId P) (s3\<lparr>KeysLastGenerated := ILOLA_INVALID_MILLIS\<rparr>));
          s5 = Link_ClearSession SH P (s4\<lparr>PowerBalancer := snd (Balancer_Setup (PowerBalancer s4))\<rparr>)
      in (True, Service_SetNextRunASAP (Link_ResetStateStartTime P s5)))"

text \<open>
  Entering a state. \<open>nested\<close> is the call \<open>UpdateLinkState(AwaitingLink)\<close> in the case that the
  encoder cannot be enabled.
\<close>

definition Link_EnterState ::
  "('a LoLaLinkService_scheme \<Rightarrow> 'a LoLaLinkService_scheme) \<Rightarrow>
   (platform \<Rightarrow> bool \<Rightarrow> 'a LoLaLinkService_scheme \<Rightarrow> 'a LoLaLinkService_scheme) \<Rightarrow>
   'a LoLaLinkService_scheme session_hooks \<Rightarrow> 'a LoLaLinkService_scheme state_hooks \<Rightarrow>
   platform \<Rightarrow> LinkStateEnum \<Rightarrow> 'a LoLaLinkService_scheme \<Rightarrow> 'a LoLaLinkService_scheme" where
  "Link_EnterState nested N SH TH P newState s =
     (case newState of
        LinkSetup \<Rightarrow>
          Service_SetNextRunASAP (on_drv (Driver_OnStart P) (on_drv (Channel_ResetChannel P)
            (Link_ClearSession SH P (Link_SetLinkingState 0 (on_drv (Driver_Enable P) s)))))
      | AwaitingLink \<Rightarrow>
          let s1 = Link_SetLinkingState 0 (Link_ClearSession SH P s);
              (b, d) = Balancer_SetMaxPower P (PowerBalancer s1) (drv s1)
          in Service_SetNextRunASAP (on_drv (Channel_ResetChannel P) (s1\<lparr>PowerBalancer := b, drv := d\<rparr>))
      | AwaitingSleeping \<Rightarrow>
          on_drv (Driver_OnStart P) (on_drv (Channel_ResetChannel P)
            (Link_SetLinkingState 0 (Link_ClearSession SH P s)))
      | Linking \<Rightarrow>
          let s1 = Link_SetLinkingState 0 s;
              s2 = on_seed (TokenSource_SetSeed (Encoder_GetSeed (CryptoEncoder (drv s1)))) s1;
              (enabled, e) = Encoder_SetEnabled (CryptoEncoder (drv s2));
              s3 = on_encoder (\<lambda>_. e) s2
          in if \<not> enabled then nested s3 else Service_SetNextRunASAP s3
      | Linked \<Rightarrow>
          Service_SetNextRunASAP (N P True (on_drv Driver_ResetStatistics
            (th_StampSynced TH P (on_info_drv LinkInfo_StampLinkStarted s))))
      | LinkDisabled \<Rightarrow> on_info_drv LinkInfo_Reset s)"

definition Link_ChangeState ::
  "('a LoLaLinkService_scheme \<Rightarrow> 'a LoLaLinkService_scheme) \<Rightarrow>
   (platform \<Rightarrow> bool \<Rightarrow> 'a LoLaLinkService_scheme \<Rightarrow> 'a LoLaLinkService_scheme) \<Rightarrow>
   'a LoLaLinkService_scheme session_hooks \<Rightarrow> 'a LoLaLinkService_scheme state_hooks \<Rightarrow>
   platform \<Rightarrow> LinkStateEnum \<Rightarrow> 'a LoLaLinkService_scheme \<Rightarrow> 'a LoLaLinkService_scheme" where
  "Link_ChangeState nested N SH TH P newState s =
     (if GetLinkState s \<noteq> newState then
        let s1 = Link_ResetLastSentTimeStamp (Link_ResetStateStartTime P s);
            s2 = (if GetLinkState s1 = Linked
                  then N P False (on_drv (Driver_OnStart P) (on_drv (Channel_ResetChannel P)
                         (Link_ClearSession SH P s1)))
                  else s1);
            s3 = Link_EnterState nested N SH TH P newState s2
        in on_info (LinkInfo_UpdateState newState) (th_OnLinkStateChanged TH P newState s3)
      else s)"

text \<open>The nested call goes to \<open>AwaitingLink\<close>, which makes none itself.\<close>

definition Link_UpdateLinkState ::
  "(platform \<Rightarrow> bool \<Rightarrow> 'a LoLaLinkService_scheme \<Rightarrow> 'a LoLaLinkService_scheme) \<Rightarrow>
   'a LoLaLinkService_scheme session_hooks \<Rightarrow> 'a LoLaLinkService_scheme state_hooks \<Rightarrow>
   platform \<Rightarrow> LinkStateEnum \<Rightarrow> 'a LoLaLinkService_scheme \<Rightarrow> 'a LoLaLinkService_scheme" where
  "Link_UpdateLinkState N SH TH P newState s =
     Link_ChangeState (Link_ChangeState (\<lambda>s. s) N SH TH P AwaitingLink) N SH TH P newState s"

text \<open>The task of the service: \<open>OnEnable\<close> and \<open>OnDisable\<close> move the link state.\<close>

definition Link_Enable ::
  "(platform \<Rightarrow> LinkStateEnum \<Rightarrow> 'a LoLaLinkService_scheme \<Rightarrow> 'a LoLaLinkService_scheme) \<Rightarrow>
   platform \<Rightarrow> 'a LoLaLinkService_scheme \<Rightarrow> 'a LoLaLinkService_scheme" where
  "Link_Enable update P s = Service_Enable (\<lambda>s. (True, update P LinkSetup s)) s"

definition Link_Disable ::
  "(platform \<Rightarrow> LinkStateEnum \<Rightarrow> 'a LoLaLinkService_scheme \<Rightarrow> 'a LoLaLinkService_scheme) \<Rightarrow>
   platform \<Rightarrow> 'a LoLaLinkService_scheme \<Rightarrow> 'a LoLaLinkService_scheme" where
  "Link_Disable update P s = Service_Disable (update P LinkDisabled) s"

section \<open>LoLaLinkService.h: keeping the link\<close>

definition Link_PrepareLinkReport :: "bool \<Rightarrow> 'a LoLaLinkService_scheme \<Rightarrow> 'a LoLaLinkService_scheme" where
  "Link_PrepareLinkReport requestReply s =
     (let s1 = Link_PrepareReportPacket (if requestReply then LOLA_LINK_SUBHEADER_LINK_REPORT_WITH_REPLY
                 else LOLA_LINK_SUBHEADER_LINK_REPORT) s
      in Link_SetPayload 0 [LinkInfo_GetRSSINormalized (LinkInfo s1) (drv s1),
           ucast (ReceivedCount (drv s1) mod 255)] s1)"

definition Link_PreparePublicKeyPacket :: "u8 \<Rightarrow> 'a LoLaLinkService_scheme \<Rightarrow> 'a LoLaLinkService_scheme" where
  "Link_PreparePublicKeyPacket subHeader s =
     (let s1 = Link_PrepareLongPacket (LinkInfo_GetSessionId (LinkInfo s)) subHeader s
      in case KeyExchanger_GetPublicKeyCompressed (KeyExchanger s1) of
           Some key \<Rightarrow> Link_SetPayload 1 key s1
         | None \<Rightarrow> s1)"

definition Link_OnSendOk ::
  "platform \<Rightarrow> u8 \<Rightarrow> u32 \<Rightarrow> 'a LoLaLinkService_scheme \<Rightarrow> 'a LoLaLinkService_scheme" where
  "Link_OnSendOk P header sendDuration s =
     (let s1 = s\<lparr>LastSentMillis := millis_now P\<rparr>
      in Service_SetNextRunASAP
           (if header = Header LinkReportPacketDefinition \<and> LinkInfo_HasLink (LinkInfo s1) \<and> ReportPending s1
            then on_info (LinkInfo_StampLocalInfoLastUpdatedRemotely P) (s1\<lparr>ReportPending := False\<rparr>)
            else s1))"

definition Link_OnLinkInfoReportReceived ::
  "platform \<Rightarrow> u8 \<Rightarrow> u8 \<Rightarrow> 'a LoLaLinkService_scheme \<Rightarrow> 'a LoLaLinkService_scheme" where
  "Link_OnLinkInfoReportReceived P rssi partnerReceivedCount s =
     (if LinkInfo_HasLink (LinkInfo s) then
        Service_SetNextRunASAP (on_info (\<lambda>i. LinkInfo_SetPartnerReceivedCount partnerReceivedCount
          (LinkInfo_SetPartnerRSSINormalized P rssi (LinkInfo_StampPartnerInfoUpdated P i))) s)
      else s)"

definition Link_OnKeepingLinkCommon ::
  "(platform \<Rightarrow> 'a LoLaLinkService_scheme \<Rightarrow> 'a LoLaLinkService_scheme) \<Rightarrow>
   platform \<Rightarrow> 'a LoLaLinkService_scheme \<Rightarrow> 'a LoLaLinkService_scheme" where
  "Link_OnKeepingLinkCommon onKeepingLink P s0 =
     (let (changed, b, i, d) = Balancer_Update P (PowerBalancer s0) (LinkInfo s0) (drv s0);
          s = s0\<lparr>PowerBalancer := b, LinkInfo := i, drv := d\<rparr>
      in if changed then Service_SetNextRunASAP s
         else if ReportPending s then
           if LOLA_LINK_SERVICE_LINKED_RESEND_PERIOD < Link_GetElapsedMillisSinceLastSent P s
           then Send_RequestSendPacketDefault P (Link_PrepareLinkReport
                  (LOLA_LINK_SERVICE_LINKED_INFO_STALE_PERIOD < LinkInfo_GetPartnerLastReportElapsed P (LinkInfo s)) s)
           else Service_SetNextRunDelay LOLA_LINK_SERVICE_CHECK_PERIOD s
         else if LOLA_LINK_SERVICE_LINKED_PERIOD_INTERVENTION < Driver_GetElapsedMillisLastValidReceived P (drv s)
         then Service_SetNextRunASAP (s\<lparr>ReportPending := True\<rparr>)
         else if LOLA_LINK_SERVICE_LINKED_INFO_UPDATE_PERIOD < LinkInfo_GetLocalInfoUpdateRemotelyElapsed P (LinkInfo s)
         then Service_SetNextRunDelay (of_int (random_between P 0 (uint LOLA_LINK_SERVICE_LINKED_UPDATE_RANDOM_JITTER_MAX)))
                (s\<lparr>ReportPending := True\<rparr>)
         else onKeepingLink P s)"

definition Link_OnService ::
  "(platform \<Rightarrow> LinkStateEnum \<Rightarrow> 'a LoLaLinkService_scheme \<Rightarrow> 'a LoLaLinkService_scheme) \<Rightarrow>
   'a LoLaLinkService_scheme link_hooks \<Rightarrow> platform \<Rightarrow> 'a LoLaLinkService_scheme \<Rightarrow> 'a LoLaLinkService_scheme" where
  "Link_OnService update LH P s =
     (case GetLinkState s of
        LinkSetup \<Rightarrow> update P AwaitingLink s
      | AwaitingLink \<Rightarrow>
          if KeysLastGenerated s = ILOLA_INVALID_MILLIS \<or>
             LOLA_LINK_SERVICE_UNLINK_KEY_PAIR_LIFETIME < millis_now P - KeysLastGenerated s
          then Service_SetNextRunASAP
                 ((on_keys (\<lambda>k. snd (KeyExchanger_GenerateNewKeyPair P k)) s)\<lparr>KeysLastGenerated := millis_now P\<rparr>)
          else let (goOn, s1) = lk_OnAwaitingLink LH P s
               in if \<not> goOn then update P AwaitingSleeping s1 else s1
      | AwaitingSleeping \<Rightarrow> update P AwaitingLink s
      | Linking \<Rightarrow>
          if LOLA_LINK_SERVICE_UNLINK_MAX_BEFORE_LINKING_CANCEL < Link_GetElapsedMillisSinceStateStart P s
          then update P AwaitingLink s else lk_OnLinking LH P s
      | Linked \<Rightarrow>
          if LOLA_LINK_SERVICE_LINKED_MAX_BEFORE_DISCONNECT < Driver_GetElapsedMillisLastValidReceived P (drv s)
          then update P AwaitingLink s else Link_OnKeepingLinkCommon (lk_OnKeepingLink LH) P s
      | LinkDisabled \<Rightarrow> Link_Disable update P s)"

section \<open>LoLaLinkService.h: received packets\<close>

definition Link_ProcessShort ::
  "'a LoLaLinkService_scheme link_hooks \<Rightarrow> platform \<Rightarrow> LoLaPacket \<Rightarrow>
   'a LoLaLinkService_scheme \<Rightarrow> 'a LoLaLinkService_scheme" where
  "Link_ProcessShort LH P receivedPacket s =
     (let i = LoLaPacket_GetId receivedPacket;
          sub = LoLaPacket_GetPayload receivedPacket ! 0;
          x = Link_ArrayToR_Array (drop 1 (LoLaPacket_GetPayload receivedPacket))
      in if sub = LOLA_LINK_SUBHEADER_LINK_DISCOVERY then lk_OnLinkDiscoveryReceived LH P s
         else if sub = LOLA_LINK_SUBHEADER_REMOTE_PKC_START_REQUEST then lk_OnPKCRequestReceived LH P i x s
         else if sub = LOLA_LINK_SUBHEADER_HOST_ID_BROADCAST then lk_OnIdBroadcastReceived LH P i x s
         else if sub = LOLA_LINK_SUBHEADER_NTP_REQUEST then lk_OnClockSyncRequestReceived LH P i x s
         else if sub = LOLA_LINK_SUBHEADER_NTP_REPLY then lk_OnClockSyncResponseReceived LH P i x s
         else if sub = LOLA_LINK_SUBHEADER_NTP_TUNE_REQUEST then lk_OnClockSyncTuneRequestReceived LH P i x s
         else if sub = LOLA_LINK_SUBHEADER_NTP_TUNE_REPLY then lk_OnClockSyncTuneResponseReceived LH P i x s
         else s)"

definition Link_ProcessLong ::
  "'a LoLaLinkService_scheme link_hooks \<Rightarrow> platform \<Rightarrow> LoLaPacket \<Rightarrow>
   'a LoLaLinkService_scheme \<Rightarrow> 'a LoLaLinkService_scheme" where
  "Link_ProcessLong LH P receivedPacket s =
     (let i = LoLaPacket_GetId receivedPacket;
          sub = LoLaPacket_GetPayload receivedPacket ! 0;
          key = drop 1 (LoLaPacket_GetPayload receivedPacket)
      in if sub = LOLA_LINK_SUBHEADER_REMOTE_PUBLIC_KEY then lk_OnRemotePublicKeyReceived LH P i key s
         else if sub = LOLA_LINK_SUBHEADER_HOST_PUBLIC_KEY then lk_OnHostPublicKeyReceived LH P i key s
         else s)"

text \<open>The first case falls through to the second.\<close>

definition Link_ProcessReport ::
  "'a LoLaLinkService_scheme link_hooks \<Rightarrow> platform \<Rightarrow> LoLaPacket \<Rightarrow>
   'a LoLaLinkService_scheme \<Rightarrow> 'a LoLaLinkService_scheme" where
  "Link_ProcessReport LH P receivedPacket s =
     (let i = LoLaPacket_GetId receivedPacket; pl = LoLaPacket_GetPayload receivedPacket
      in if i = LOLA_LINK_SUBHEADER_LINK_REPORT_WITH_REPLY
         then Link_OnLinkInfoReportReceived P (pl ! 0) (pl ! 1) (s\<lparr>ReportPending := True\<rparr>)
         else if i = LOLA_LINK_SUBHEADER_LINK_REPORT then Link_OnLinkInfoReportReceived P (pl ! 0) (pl ! 1) s
         else if i = LOLA_LINK_SUBHEADER_INFO_SYNC_HOST
         then lk_OnHostInfoSyncReceived LH P (pl ! 0) (ucast (pl ! 1) + push_bit 8 (ucast (pl ! 2))) s
         else if i = LOLA_LINK_SUBHEADER_INFO_SYNC_REMOTE then lk_OnRemoteInfoSyncReceived LH P (pl ! 0) s
         else if i = LOLA_LINK_SUBHEADER_INFO_SYNC_REQUEST then lk_OnHostInfoSyncRequestReceived LH P s
         else s)"

definition Link_ProcessPacket ::
  "'a LoLaLinkService_scheme link_hooks \<Rightarrow> platform \<Rightarrow> LoLaPacket \<Rightarrow>
   'a LoLaLinkService_scheme \<Rightarrow> bool \<times> 'a LoLaLinkService_scheme" where
  "Link_ProcessPacket LH P receivedPacket s =
     (let h = LoLaPacket_GetDataHeader receivedPacket
      in if h = LOLA_LINK_HEADER_SHORT then (True, Link_ProcessShort LH P receivedPacket s)
         else if h = LOLA_LINK_HEADER_LONG then (True, Link_ProcessLong LH P receivedPacket s)
         else if h = LOLA_LINK_HEADER_REPORT then (True, Link_ProcessReport LH P receivedPacket s)
         else (False, s))"

section \<open>What both ends use\<close>

text \<open>The repeated pattern: send again when the last packet is old enough, look again in 1 ms otherwise.\<close>

definition Link_resend ::
  "u32 \<Rightarrow> ('a LoLaLinkService_scheme \<Rightarrow> 'a LoLaLinkService_scheme) \<Rightarrow> platform \<Rightarrow>
   'a LoLaLinkService_scheme \<Rightarrow> 'a LoLaLinkService_scheme" where
  "Link_resend period prepare P s =
     (if period < Link_GetElapsedMillisSinceLastSent P s
      then Send_RequestSendPacketDefault P (prepare s)
      else Service_SetNextRunDelay LOLA_LINK_SERVICE_CHECK_PERIOD s)"

text \<open>\<open>GenerateSharedKey() && SetSecretKey(...)\<close>, used by both ends.\<close>

definition Link_SharedSecret :: "platform \<Rightarrow> 'a LoLaLinkService_scheme \<Rightarrow> bool \<times> 'a LoLaLinkService_scheme" where
  "Link_SharedSecret P s =
     (let (generated, k) = KeyExchanger_GenerateSharedKey P (KeyExchanger s);
          s1 = s\<lparr>KeyExchanger := k\<rparr>
      in if \<not> generated then (False, s1)
         else let (accepted, e) = Encoder_SetSecretKey P (KeyExchanger_GetSharedKeyPointer k) KEY_CURVE_SIZE
                    (CryptoEncoder (drv s1))
              in (accepted, on_encoder (\<lambda>_. e) s1))"

definition Link_construct :: "bool \<Rightarrow> 'a LoLaLinkService_scheme \<Rightarrow> 'a LoLaLinkService_scheme" where
  "Link_construct hasDriver s =
     Send_construct (ucast LOLA_LINK_SERVICE_CHECK_PERIOD) hasDriver
       (LoLaPacket_new LOLA_LINK_SERVICE_PACKET_MAX_SIZE)
       (s\<lparr>LinkStateStart := ILOLA_INVALID_MILLIS, LastSentMillis := ILOLA_INVALID_MILLIS,
          LinkInfo := LinkInfo_new, TimedHopper := Hopper_new, PowerBalancer := Balancer_new,
          ReportPending := False, KeyExchanger := KeyExchanger_new,
          KeysLastGenerated := ILOLA_INVALID_MILLIS, SubStateStart := ILOLA_INVALID_MILLIS,
          LinkingState := 0, InfoSyncStage := 0\<rparr>)"

end
