(* ===== verification/Link_Frames.thy ===== *)
theory Link_Frames
  imports Link_Service
begin

text \<open>
  What the operations of the link service leave alone: the driver, the link info and the stage the
  service is in. These facts are simplification rules of the development.
\<close>

section \<open>Link info\<close>

lemma LinkInfo_state_simps [simp]:
  "LinkState (LinkInfo_SetPartnerId x i) = LinkState i"
  "LinkState (snd (LinkInfo_SetSessionId y i)) = LinkState i"
  "LinkState (LinkInfo_SetDriver i) = LinkState i"
  "LinkState (LinkInfo_StampClockSyncAdjustment i) = LinkState i"
  "LinkState (LinkInfo_StampPartnerInfoUpdated P i) = LinkState i"
  "LinkState (LinkInfo_StampLocalInfoLastUpdatedRemotely P i) = LinkState i"
  "LinkState (LinkInfo_SetPartnerRSSINormalized P r i) = LinkState i"
  "LinkState (LinkInfo_SetPartnerReceivedCount c i) = LinkState i"
  "LinkState (LinkInfo_UpdateState st i) = st"
  "LinkState (fst (LinkInfo_Reset i d)) = LinkState i"
  "LinkState (fst (LinkInfo_SetRTT x i d)) = LinkState i"
  "LinkState (fst (LinkInfo_StampLinkStarted i d)) = LinkState i"
  by (simp_all add: LinkInfo_SetPartnerId_def LinkInfo_SetSessionId_def LinkInfo_SetDriver_def
      LinkInfo_StampClockSyncAdjustment_def LinkInfo_StampPartnerInfoUpdated_def
      LinkInfo_StampLocalInfoLastUpdatedRemotely_def LinkInfo_SetPartnerRSSINormalized_def
      LinkInfo_SetPartnerReceivedCount_def LinkInfo_UpdateState_def LinkInfo_Reset_def LinkInfo_SetRTT_def
      LinkInfo_StampLinkStarted_def)

lemma LinkInfo_driver_simps [simp]:
  "InfoHasDriver (LinkInfo_SetPartnerId x i) = InfoHasDriver i"
  "InfoHasDriver (snd (LinkInfo_SetSessionId y i)) = InfoHasDriver i"
  "InfoHasDriver (LinkInfo_SetDriver i)"
  "InfoHasDriver (LinkInfo_StampClockSyncAdjustment i) = InfoHasDriver i"
  "InfoHasDriver (LinkInfo_StampPartnerInfoUpdated P i) = InfoHasDriver i"
  "InfoHasDriver (LinkInfo_StampLocalInfoLastUpdatedRemotely P i) = InfoHasDriver i"
  "InfoHasDriver (LinkInfo_SetPartnerRSSINormalized P r i) = InfoHasDriver i"
  "InfoHasDriver (LinkInfo_SetPartnerReceivedCount c i) = InfoHasDriver i"
  "InfoHasDriver (LinkInfo_UpdateState st i) = InfoHasDriver i"
  "InfoHasDriver (fst (LinkInfo_Reset i d)) = InfoHasDriver i"
  "InfoHasDriver (fst (LinkInfo_SetRTT x i d)) = InfoHasDriver i"
  "InfoHasDriver (fst (LinkInfo_StampLinkStarted i d)) = InfoHasDriver i"
  "InfoHasDriver (snd (LinkInfo_GetPartnerRSSINormalized i)) = InfoHasDriver i"
  by (simp_all add: LinkInfo_SetPartnerId_def LinkInfo_SetSessionId_def LinkInfo_SetDriver_def
      LinkInfo_StampClockSyncAdjustment_def LinkInfo_StampPartnerInfoUpdated_def
      LinkInfo_StampLocalInfoLastUpdatedRemotely_def LinkInfo_SetPartnerRSSINormalized_def
      LinkInfo_SetPartnerReceivedCount_def LinkInfo_UpdateState_def LinkInfo_Reset_def LinkInfo_SetRTT_def
      LinkInfo_StampLinkStarted_def LinkInfo_GetPartnerRSSINormalized_def Let_def)

lemma LinkInfo_drv_simps [simp]:
  "CryptoEncoder (snd (LinkInfo_Reset i d)) = CryptoEncoder d"
  "InfoHasDriver i \<Longrightarrow> \<not> LinkActive (snd (LinkInfo_Reset i d))"
  "CryptoEncoder (snd (LinkInfo_SetRTT x i d)) = CryptoEncoder d"
  "LinkActive (snd (LinkInfo_SetRTT x i d)) = LinkActive d"
  "CryptoEncoder (snd (LinkInfo_StampLinkStarted i d)) = CryptoEncoder d"
  "LinkActive (snd (LinkInfo_StampLinkStarted i d))"
  "Driver_inv (snd (LinkInfo_Reset i d)) = Driver_inv d"
  "Driver_inv (snd (LinkInfo_SetRTT x i d)) = Driver_inv d"
  "Driver_inv (snd (LinkInfo_StampLinkStarted i d)) = Driver_inv d"
  by (simp_all add: LinkInfo_Reset_def LinkInfo_SetRTT_def LinkInfo_StampLinkStarted_def)

section \<open>Where the link service is\<close>

text \<open>The part of the state that decides whether traffic is encrypted.\<close>

definition link_view ::
  "'a LoLaLinkService_scheme \<Rightarrow> LinkStateEnum \<times> u8 \<times> StageEnum \<times> bool \<times> bool" where
  "link_view s = (LinkState (LinkInfo s), LinkingState s, EncoderState (CryptoEncoder (drv s)),
     LinkActive (drv s), InfoHasDriver (LinkInfo s))"

lemmas link_op_defs = Service_SetNextRunASAP_def Service_SetNextRunDelay_def Service_SetNextRunDefault_def
  Service_SetNextRunLong_def Link_ResetLastSentTimeStamp_def Link_ResetStateStartTime_def
  Link_SetLinkingState_def on_info_def on_keys_def on_seed_def on_drv_def on_encoder_def
  Link_Prepare_def Link_SetPayload_def Link_PreparePing_def Link_PrepareReportPacket_def
  Link_PrepareShortPacket_def Link_PrepareLongPacket_def Link_PrepareShortPacketWithAck_def
  Link_S_ArrayToPayload_def Send_ClearSendRequest_def Send_RequestSendPacket_def

lemma link_fields_drv [simp]:
  "drv (Link_ResetLastSentTimeStamp s) = drv s" "drv (Link_ResetStateStartTime P s) = drv s"
  "drv (Link_SetLinkingState x s) = drv s" "drv (on_info f s) = drv s" "drv (on_keys k s) = drv s"
  "drv (on_seed g s) = drv s" "drv (Link_Prepare def y s) = drv s" "drv (Link_SetPayload n bs s) = drv s"
  "drv (Link_PreparePing P s) = drv s" "drv (Link_PrepareReportPacket y s) = drv s"
  "drv (Link_PrepareShortPacket y z s) = drv s" "drv (Link_PrepareLongPacket y z s) = drv s"
  "drv (Link_PrepareShortPacketWithAck y s) = drv s" "drv (Link_S_ArrayToPayload w s) = drv s"
  "drv (Send_RequestSendPacket P t1 t2 s) = drv s"
  "drv (snd (on_info_result h s)) = drv s"
  "drv (Link_PrepareLinkReport b s) = drv s" "drv (Link_PreparePublicKeyPacket y s) = drv s"
  by (simp_all add: link_op_defs on_info_result_def Link_PrepareLinkReport_def Link_PreparePublicKeyPacket_def
      case_prod_unfold Let_def split: option.split)

lemma link_fields_info [simp]:
  "LinkInfo (Service_SetNextRunASAP s) = LinkInfo s" "LinkInfo (Service_SetNextRunDelay n s) = LinkInfo s"
  "LinkInfo (Link_ResetLastSentTimeStamp s) = LinkInfo s" "LinkInfo (Link_ResetStateStartTime P s) = LinkInfo s"
  "LinkInfo (Link_SetLinkingState x s) = LinkInfo s" "LinkInfo (on_info f s) = f (LinkInfo s)"
  "LinkInfo (on_keys k s) = LinkInfo s" "LinkInfo (on_seed g s) = LinkInfo s"
  "LinkInfo (on_drv q s) = LinkInfo s" "LinkInfo (on_encoder e s) = LinkInfo s"
  "LinkInfo (Link_Prepare def y s) = LinkInfo s" "LinkInfo (Link_SetPayload m bs s) = LinkInfo s"
  "LinkInfo (Link_PreparePing P s) = LinkInfo s" "LinkInfo (Link_PrepareReportPacket y s) = LinkInfo s"
  "LinkInfo (Link_PrepareShortPacket y z s) = LinkInfo s" "LinkInfo (Link_PrepareLongPacket y z s) = LinkInfo s"
  "LinkInfo (Link_PrepareShortPacketWithAck y s) = LinkInfo s" "LinkInfo (Link_S_ArrayToPayload w s) = LinkInfo s"
  "LinkInfo (Send_RequestSendPacket P t1 t2 s) = LinkInfo s"
  "LinkInfo (snd (on_info_result h s)) = snd (h (LinkInfo s))"
  "LinkInfo (Link_PrepareLinkReport b s) = LinkInfo s" "LinkInfo (Link_PreparePublicKeyPacket y s) = LinkInfo s"
  by (simp_all add: link_op_defs on_info_result_def Link_PrepareLinkReport_def Link_PreparePublicKeyPacket_def
      case_prod_unfold Let_def split: option.split)

lemma link_fields_stage [simp]:
  "LinkingState (Service_SetNextRunASAP s) = LinkingState s" "LinkingState (Service_SetNextRunDelay n s) = LinkingState s"
  "LinkingState (Link_ResetLastSentTimeStamp s) = LinkingState s" "LinkingState (Link_ResetStateStartTime P s) = LinkingState s"
  "LinkingState (Link_SetLinkingState x s) = x" "LinkingState (on_info f s) = LinkingState s"
  "LinkingState (on_keys k s) = LinkingState s" "LinkingState (on_seed g s) = LinkingState s"
  "LinkingState (on_drv q s) = LinkingState s" "LinkingState (on_encoder e s) = LinkingState s"
  "LinkingState (Link_Prepare def y s) = LinkingState s" "LinkingState (Link_SetPayload m bs s) = LinkingState s"
  "LinkingState (Link_PreparePing P s) = LinkingState s" "LinkingState (Link_PrepareReportPacket y s) = LinkingState s"
  "LinkingState (Link_PrepareShortPacket y z s) = LinkingState s" "LinkingState (Link_PrepareLongPacket y z s) = LinkingState s"
  "LinkingState (Link_PrepareShortPacketWithAck y s) = LinkingState s" "LinkingState (Link_S_ArrayToPayload w s) = LinkingState s"
  "LinkingState (Send_RequestSendPacket P t1 t2 s) = LinkingState s"
  "LinkingState (snd (on_info_result h s)) = LinkingState s"
  "LinkingState (on_info_drv r s) = LinkingState s"
  "LinkingState (Link_PrepareLinkReport b s) = LinkingState s" "LinkingState (Link_PreparePublicKeyPacket y s) = LinkingState s"
  by (simp_all add: link_op_defs on_info_result_def on_info_drv_def Link_PrepareLinkReport_def Link_PreparePublicKeyPacket_def
      case_prod_unfold Let_def split: option.split)

lemma link_fields_more [simp]:
  "drv (on_drv q s) = q (drv s)"
  "drv (on_encoder e s) = (drv s)\<lparr>CryptoEncoder := e (CryptoEncoder (drv s))\<rparr>"
  "drv (on_info_drv r s) = snd (r (LinkInfo s) (drv s))"
  "LinkInfo (on_info_drv r s) = fst (r (LinkInfo s) (drv s))"
  "fst (on_info_result h s) = fst (h (LinkInfo s))"
  by (simp_all add: on_drv_def on_encoder_def on_info_drv_def on_info_result_def case_prod_unfold Let_def)

lemma link_view_resend [simp]:
  "link_view (prepare s) = link_view s \<Longrightarrow> link_view (Link_resend period prepare P s) = link_view s"
  "drv (prepare s) = drv s \<Longrightarrow> drv (Link_resend period prepare P s) = drv s"
  by (simp_all add: Link_resend_def link_view_def)

section \<open>The encoder's stage\<close>

lemma Encoder_stage_simps [simp]:
  "EncoderState (Encoder_Clear e) = AllClear"
  "EncoderState (snd (Encoder_EncodeDirect P m n e)) = EncoderState e"
  "EncoderState (snd (Encoder_DecodeDirect P m n e)) = EncoderState e"
  "EncoderState (Encoder_SetToken P t e) = EncoderState e"
  by (simp_all add: Encoder_Clear_def Encoder_EncodeDirect_def Encoder_DecodeDirect_def Encoder_SetToken_def
      case_prod_unfold Let_def)

lemma Encoder_SetSecretKey_stage:
  "fst (Encoder_SetSecretKey P k n e) \<Longrightarrow> EncoderState (snd (Encoder_SetSecretKey P k n e)) = AllReady"
  by (auto simp: Encoder_SetSecretKey_def Let_def split: if_splits prod.splits)

lemma SharedSecret_frame [simp]:
  "LinkInfo (snd (Link_SharedSecret P s)) = LinkInfo s"
  "LinkingState (snd (Link_SharedSecret P s)) = LinkingState s"
  "LinkActive (drv (snd (Link_SharedSecret P s))) = LinkActive (drv s)"
  "Driver_inv (drv (snd (Link_SharedSecret P s))) = Driver_inv (drv s)"
  by (simp_all add: Link_SharedSecret_def case_prod_unfold Let_def)

lemma SharedSecret_stage:
  "fst (Link_SharedSecret P s) \<Longrightarrow> EncoderState (CryptoEncoder (drv (snd (Link_SharedSecret P s)))) = AllReady"
  by (auto simp: Link_SharedSecret_def case_prod_unfold Let_def Encoder_SetSecretKey_stage split: if_splits)

end
