(* ===== verification/Link_Host.thy ===== *)
theory Link_Host
  imports Link_Service
begin

text \<open>\<open>src/src/Services/Link/LoLaLinkHostService.h\<close>: the end that opens sessions and owns the clock.\<close>

section \<open>State\<close>

text \<open>\<open>AwaitingLinkEnum\<close> and \<open>InfoSyncStagesEnum\<close>, stored in bytes of the base class.\<close>

definition Host_BroadcastingOpenSession :: u8 where [lola_consts]: "Host_BroadcastingOpenSession = 0"
definition Host_ValidatingPartner :: u8 where [lola_consts]: "Host_ValidatingPartner = 1"
definition Host_SendingPublicKey :: u8 where [lola_consts]: "Host_SendingPublicKey = 2"
definition Host_ProcessingPKC :: u8 where [lola_consts]: "Host_ProcessingPKC = 3"
definition Host_GotSharedKey :: u8 where [lola_consts]: "Host_GotSharedKey = 4"
definition Host_LinkingSwitchOver :: u8 where [lola_consts]: "Host_LinkingSwitchOver = 5"

definition Host_AwaitingLatencyMeasurement :: u8 where [lola_consts]: "Host_AwaitingLatencyMeasurement = 0"
definition Host_SendingInfoRequest :: u8 where [lola_consts]: "Host_SendingInfoRequest = 1"
definition Host_SendingHostInfo :: u8 where [lola_consts]: "Host_SendingHostInfo = 2"

record LoLaLinkHostService = LoLaLinkService +
  HostClockSyncer :: LinkHostClockSyncer
  HostClockSyncTransaction :: ClockSyncResponseTransaction
  PingAcked :: bool
  LatencyMeter :: LoLaLinkLatencyMeter
  SessionLastStarted :: u32

definition Host_session_hooks :: "'a LoLaLinkHostService_scheme session_hooks" where
  "Host_session_hooks = \<lparr>
     sh_SyncerSetup = \<lambda>s. s\<lparr>HostClockSyncer := snd (Syncer_Setup (HostClockSyncer s))\<rparr>,
     sh_SyncerReset = \<lambda>P s. (let (c, d) = HostSyncer_Reset P (HostClockSyncer s) (drv s)
                             in s\<lparr>HostClockSyncer := c, drv := d\<rparr>),
     sh_TransactionReset = \<lambda>s. s\<lparr>HostClockSyncTransaction := Response_Reset (HostClockSyncTransaction s)\<rparr>,
     sh_OnClearSession = \<lambda>s. s\<lparr>LatencyMeter := Meter_Reset (LatencyMeter s),
                               SessionLastStarted := ILOLA_INVALID_MILLIS\<rparr> \<rparr>"

abbreviation Host_ClearSession ::
  "platform \<Rightarrow> 'a LoLaLinkHostService_scheme \<Rightarrow> 'a LoLaLinkHostService_scheme" where
  "Host_ClearSession \<equiv> Link_ClearSession Host_session_hooks"

definition Host_NewSession :: "platform \<Rightarrow> 'a LoLaLinkHostService_scheme \<Rightarrow> 'a LoLaLinkHostService_scheme" where
  "Host_NewSession P s =
     on_info (\<lambda>i. snd (LinkInfo_SetSessionId (of_int (random_between P 1 254)) i)) (Host_ClearSession P s)"

definition Host_OnLinkStateChanged ::
  "platform \<Rightarrow> LinkStateEnum \<Rightarrow> 'a LoLaLinkHostService_scheme \<Rightarrow> 'a LoLaLinkHostService_scheme" where
  "Host_OnLinkStateChanged P newState s =
     (case newState of
        AwaitingLink \<Rightarrow> Host_NewSession P s
      | AwaitingSleeping \<Rightarrow> Service_SetNextRunDelay LOLA_LINK_SERVICE_UNLINK_HOST_SLEEP_PERIOD s
      | Linking \<Rightarrow> s\<lparr>InfoSyncStage := Host_AwaitingLatencyMeasurement\<rparr>
      | Linked \<Rightarrow> s\<lparr>HostClockSyncTransaction := Response_Reset (HostClockSyncTransaction s)\<rparr>
      | _ \<Rightarrow> s)"

definition Host_state_hooks :: "'a LoLaLinkHostService_scheme state_hooks" where
  "Host_state_hooks = \<lparr>
     th_StampSynced = \<lambda>P s. s\<lparr>HostClockSyncer := Syncer_StampSynced P (HostClockSyncer s)\<rparr>,
     th_OnLinkStateChanged = Host_OnLinkStateChanged \<rparr>"

abbreviation Host_UpdateLinkState ::
  "(platform \<Rightarrow> bool \<Rightarrow> 'a LoLaLinkHostService_scheme \<Rightarrow> 'a LoLaLinkHostService_scheme) \<Rightarrow>
   platform \<Rightarrow> LinkStateEnum \<Rightarrow> 'a LoLaLinkHostService_scheme \<Rightarrow> 'a LoLaLinkHostService_scheme" where
  "Host_UpdateLinkState N \<equiv> Link_UpdateLinkState N Host_session_hooks Host_state_hooks"

section \<open>Packets it sends\<close>

definition Host_PrepareIdBroadcast ::
  "platform \<Rightarrow> 'a LoLaLinkHostService_scheme \<Rightarrow> 'a LoLaLinkHostService_scheme" where
  "Host_PrepareIdBroadcast P s =
     (let s1 = Link_PrepareShortPacket (LinkInfo_GetSessionId (LinkInfo s)) LOLA_LINK_SUBHEADER_HOST_ID_BROADCAST s;
          (localId, s2) = on_info_result (LinkInfo_GetLocalId P) s1
      in Link_S_ArrayToPayload localId s2)"

definition Host_PrepareLinkProtocolSwitchOver ::
  "'a LoLaLinkHostService_scheme \<Rightarrow> 'a LoLaLinkHostService_scheme" where
  "Host_PrepareLinkProtocolSwitchOver s =
     Link_SetPayload 0 (le32_bytes (LinkInfo_GetPartnerId (LinkInfo s)))
       (Link_PrepareShortPacketWithAck (LinkInfo_GetSessionId (LinkInfo s)) s)"

definition Host_PrepareCryptoStartRequest ::
  "platform \<Rightarrow> 'a LoLaLinkHostService_scheme \<Rightarrow> 'a LoLaLinkHostService_scheme" where
  "Host_PrepareCryptoStartRequest P s =
     (let s1 = Host_PrepareLinkProtocolSwitchOver s;
          (pl, e) = Encoder_EncodeDirect P (LoLaPacket_GetPayload (Packet s1)) 4 (CryptoEncoder (drv s1))
      in Link_SetPayload 0 pl (on_encoder (\<lambda>_. e) s1))"

definition Host_PrepareHostInfoSync :: "'a LoLaLinkHostService_scheme \<Rightarrow> 'a LoLaLinkHostService_scheme" where
  "Host_PrepareHostInfoSync s =
     (let s1 = Link_PrepareReportPacket LOLA_LINK_SUBHEADER_INFO_SYNC_HOST s; rtt = LinkInfo_GetRTT (LinkInfo s1)
      in Link_SetPayload 0 [LinkInfo_GetRSSINormalized (LinkInfo s1) (drv s1), ucast (rtt AND 0xFF),
           ucast (drop_bit 8 rtt AND 0xFF)] s1)"

definition Host_PrepareInfoSyncRequest :: "'a LoLaLinkHostService_scheme \<Rightarrow> 'a LoLaLinkHostService_scheme" where
  "Host_PrepareInfoSyncRequest s =
     Link_SetPayload 0 (replicate (unat LOLA_LINK_SERVICE_PAYLOAD_SIZE_REPORT) 255)
       (Link_PrepareReportPacket LOLA_LINK_SUBHEADER_INFO_SYNC_REQUEST s)"

definition Host_PrepareClockSyncResponse ::
  "u8 \<Rightarrow> u32 \<Rightarrow> 'a LoLaLinkHostService_scheme \<Rightarrow> 'a LoLaLinkHostService_scheme" where
  "Host_PrepareClockSyncResponse requestId estimationErrorMicros s =
     Link_S_ArrayToPayload estimationErrorMicros (Link_PrepareShortPacket requestId LOLA_LINK_SUBHEADER_NTP_REPLY s)"

definition Host_PrepareClockSyncTuneResponse ::
  "u8 \<Rightarrow> u32 \<Rightarrow> 'a LoLaLinkHostService_scheme \<Rightarrow> 'a LoLaLinkHostService_scheme" where
  "Host_PrepareClockSyncTuneResponse requestId estimationError s =
     Link_S_ArrayToPayload estimationError (Link_PrepareShortPacket requestId LOLA_LINK_SUBHEADER_NTP_TUNE_REPLY s)"

definition Host_OnPreSend :: "platform \<Rightarrow> 'a LoLaLinkHostService_scheme \<Rightarrow> 'a LoLaLinkHostService_scheme" where
  "Host_OnPreSend P s =
     (if GetLinkState s = Linking \<and> LinkingState s = LinkingInfoSyncStage \<and>
         LoLaPacket_GetDataHeader (Packet s) = LOLA_LINK_HEADER_PING_WITH_ACK
      then s\<lparr>LatencyMeter := Meter_OnAckPacketSent P (LoLaPacket_GetId (Packet s)) (LatencyMeter s)\<rparr>
      else s)"

section \<open>Awaiting a link: public key exchange\<close>

definition Host_RestartAwaitingLink ::
  "platform \<Rightarrow> 'a LoLaLinkHostService_scheme \<Rightarrow> 'a LoLaLinkHostService_scheme" where
  "Host_RestartAwaitingLink P s =
     Service_SetNextRunDelay (of_int (random_between P 0 (uint LOLA_LINK_SERVICE_LINKED_UPDATE_RANDOM_JITTER_MAX)))
       (Link_SetLinkingState Host_BroadcastingOpenSession s)"

definition Host_BroadcastSession ::
  "platform \<Rightarrow> 'a LoLaLinkHostService_scheme \<Rightarrow> 'a LoLaLinkHostService_scheme" where
  "Host_BroadcastSession P s =
     (let s1 = (if \<not> LinkInfo_HasSessionId (LinkInfo s) \<or> SessionLastStarted s = ILOLA_INVALID_MILLIS \<or>
                   LOLA_LINK_SERVICE_UNLINK_SESSION_LIFETIME < millis_now P - SessionLastStarted s
                then (Host_NewSession P s)\<lparr>SessionLastStarted := millis_now P\<rparr> else s)
      in Link_resend LOLA_LINK_SERVICE_UNLINK_BROADCAST_PERIOD (Host_PrepareIdBroadcast P) P s1)"

definition Host_ValidatePartner ::
  "platform \<Rightarrow> 'a LoLaLinkHostService_scheme \<Rightarrow> 'a LoLaLinkHostService_scheme" where
  "Host_ValidatePartner P s =
     (let (localId, s1) = on_info_result (LinkInfo_GetLocalId P) s;
          s2 = on_encoder (Encoder_SetIvData P (ucast (LinkInfo_GetSessionId (LinkInfo s1))) localId
                 (LinkInfo_GetPartnerId (LinkInfo s1))) s1
      in Link_SetLinkingState Host_SendingPublicKey (s2\<lparr>SubStateStart := millis_now P\<rparr>))"

definition Host_OnAwaitingLink ::
  "(platform \<Rightarrow> bool \<Rightarrow> 'a LoLaLinkHostService_scheme \<Rightarrow> 'a LoLaLinkHostService_scheme) \<Rightarrow>
   platform \<Rightarrow> 'a LoLaLinkHostService_scheme \<Rightarrow> bool \<times> 'a LoLaLinkHostService_scheme" where
  "Host_OnAwaitingLink N P s =
     (if LOLA_LINK_SERVICE_UNLINK_HOST_MAX_BEFORE_SLEEP < Link_GetElapsedMillisSinceStateStart P s then (False, s)
      else (True,
        if LinkingState s = Host_BroadcastingOpenSession then Host_BroadcastSession P s
        else if LinkingState s = Host_ValidatingPartner then Host_ValidatePartner P s
        else if LinkingState s = Host_SendingPublicKey then
          if LOLA_LINK_SERVICE_UNLINK_MAX_BEFORE_PKC_CANCEL < millis_now P - SubStateStart s
          then Host_RestartAwaitingLink P (Host_ClearSession P s)
          else Link_resend LOLA_LINK_SERVICE_UNLINK_RESEND_LONG_PERIOD
                 (Link_PreparePublicKeyPacket LOLA_LINK_SUBHEADER_HOST_PUBLIC_KEY) P s
        else if LinkingState s = Host_ProcessingPKC then
          let (ok, s1) = Link_SharedSecret P s
          in if ok then Link_SetLinkingState Host_GotSharedKey s1
             else Host_RestartAwaitingLink P (Host_ClearSession P s1)
        else if LinkingState s = Host_GotSharedKey then
          if LOLA_LINK_SERVICE_UNLINK_MAX_BEFORE_PKC_CANCEL < millis_now P - SubStateStart s
          then Host_RestartAwaitingLink P (Host_ClearSession P s)
          else Link_resend LOLA_LINK_SERVICE_UNLINK_RESEND_PERIOD (Host_PrepareCryptoStartRequest P) P s
        else if LinkingState s = Host_LinkingSwitchOver then Host_UpdateLinkState N P Linking s
        else Service_SetNextRunASAP (Link_SetLinkingState 0 s)))"

definition Host_OnLinkDiscoveryReceived ::
  "platform \<Rightarrow> 'a LoLaLinkHostService_scheme \<Rightarrow> 'a LoLaLinkHostService_scheme" where
  "Host_OnLinkDiscoveryReceived P s = (if GetLinkState s = AwaitingSleeping then Service_SetNextRunASAP s else s)"

definition Host_OnPKCRequestReceived ::
  "platform \<Rightarrow> u8 \<Rightarrow> u32 \<Rightarrow> 'a LoLaLinkHostService_scheme \<Rightarrow> 'a LoLaLinkHostService_scheme" where
  "Host_OnPKCRequestReceived P sessionId remotePartnerId s =
     (if GetLinkState s = AwaitingLink \<and> LinkingState s = Host_BroadcastingOpenSession \<and>
         LinkInfo_HasSessionId (LinkInfo s) \<and> LinkInfo_GetSessionId (LinkInfo s) = sessionId
      then Link_SetLinkingState Host_ValidatingPartner (on_info (LinkInfo_SetPartnerId remotePartnerId) s)
      else s)"

definition Host_OnRemotePublicKeyReceived ::
  "platform \<Rightarrow> u8 \<Rightarrow> u8 list \<Rightarrow> 'a LoLaLinkHostService_scheme \<Rightarrow> 'a LoLaLinkHostService_scheme" where
  "Host_OnRemotePublicKeyReceived P sessionId remotePublicKey s =
     (if GetLinkState s = AwaitingLink \<and> LinkingState s = Host_SendingPublicKey \<and>
         LinkInfo_HasSessionId (LinkInfo s) \<and> LinkInfo_GetSessionId (LinkInfo s) = sessionId
      then let (ok, k) = KeyExchanger_SetPartnerPublicKey remotePublicKey (KeyExchanger s);
               s1 = s\<lparr>KeyExchanger := k\<rparr>
           in if ok then Link_SetLinkingState Host_ProcessingPKC s1 else s1
      else s)"

section \<open>Linking\<close>

definition Host_OnInfoSync :: "platform \<Rightarrow> 'a LoLaLinkHostService_scheme \<Rightarrow> 'a LoLaLinkHostService_scheme" where
  "Host_OnInfoSync P s =
     (if InfoSyncStage s = Host_AwaitingLatencyMeasurement then
        if LOLA_LINK_SERVICE_UNLINK_MIN_LATENCY_SAMPLES \<le> Meter_GetSampleCount (LatencyMeter s)
        then Service_SetNextRunASAP
               ((on_info_drv (LinkInfo_SetRTT (ucast (Meter_GetAverageLatency (LatencyMeter s)))) s)
                  \<lparr>InfoSyncStage := Host_SendingInfoRequest\<rparr>)
        else if PingAcked s \<or>
                LOLA_LINK_SERVICE_UNLINK_PING_RESEND_PERIOD_MAX < Link_GetElapsedMillisSinceLastSent P s
        then Send_RequestSendPacketDefault P (Link_PreparePing P (s\<lparr>PingAcked := False\<rparr>))
        else Service_SetNextRunDelay LOLA_LINK_SERVICE_CHECK_PERIOD s
      else if InfoSyncStage s = Host_SendingInfoRequest then
        if LinkInfo_HasPartnerRSSI (LinkInfo s)
        then Service_SetNextRunASAP (s\<lparr>InfoSyncStage := Host_SendingHostInfo\<rparr>)
        else Link_resend LOLA_LINK_SERVICE_UNLINK_RESEND_PERIOD Host_PrepareInfoSyncRequest P s
      else if InfoSyncStage s = Host_SendingHostInfo
      then Link_resend LOLA_LINK_SERVICE_UNLINK_RESEND_PERIOD Host_PrepareHostInfoSync P s
      else s)"

definition Host_OnClockSync :: "platform \<Rightarrow> 'a LoLaLinkHostService_scheme \<Rightarrow> 'a LoLaLinkHostService_scheme" where
  "Host_OnClockSync P s =
     (let t = HostClockSyncTransaction s
      in if Response_IsResultReady t then
           let s1 = s\<lparr>HostClockSyncer := snd (HostSyncer_OnEstimationReceived (ResponseResult t) (HostClockSyncer s))\<rparr>;
               s2 = Host_PrepareClockSyncResponse (ResponseId t) (ResponseResult t) s1
           in Send_RequestSendPacketDefault P (s2\<lparr>HostClockSyncTransaction := Response_Reset t\<rparr>)
         else Service_SetNextRunDelay LOLA_LINK_SERVICE_CHECK_PERIOD s)"

definition Host_OnLinking ::
  "(platform \<Rightarrow> bool \<Rightarrow> 'a LoLaLinkHostService_scheme \<Rightarrow> 'a LoLaLinkHostService_scheme) \<Rightarrow>
   platform \<Rightarrow> 'a LoLaLinkHostService_scheme \<Rightarrow> 'a LoLaLinkHostService_scheme" where
  "Host_OnLinking N P s =
     (if LinkingState s = LinkingInfoSyncStage then Host_OnInfoSync P s
      else if LinkingState s = LinkingClockSyncStage then
        if HostSyncer_IsSynced (HostClockSyncer s) then Link_SetLinkingState LinkProtocolSwitchOver s
        else Host_OnClockSync P s
      else if LinkingState s = LinkProtocolSwitchOver
      then Link_resend LOLA_LINK_SERVICE_UNLINK_RESEND_PERIOD Host_PrepareLinkProtocolSwitchOver P s
      else if LinkingState s = LinkingDone then Host_UpdateLinkState N P Linked s
      else Host_UpdateLinkState N P AwaitingLink s)"

definition Host_OnRemoteInfoSyncReceived ::
  "platform \<Rightarrow> u8 \<Rightarrow> 'a LoLaLinkHostService_scheme \<Rightarrow> 'a LoLaLinkHostService_scheme" where
  "Host_OnRemoteInfoSyncReceived P rssi s =
     (if GetLinkState s = Linking \<and> LinkingState s = LinkingInfoSyncStage
      then Service_SetNextRunASAP (on_info (LinkInfo_SetPartnerRSSINormalized P rssi) s)
      else s)"

text \<open>
  What the host takes for its own clock at the moment the packet arrived is \<open>GetSyncMicros(source)\<close>,
  the driver's \<open>micros()\<close> stamp plus the offset.
\<close>

definition Host_estimation_error :: "u32 \<Rightarrow> 'a LoLaLinkHostService_scheme \<Rightarrow> u32" where
  "Host_estimation_error estimatedMicros s =
     Clock_GetSyncMicrosOf (LastValidReceivedMicros (drv s)) (SyncedClock (drv s)) - estimatedMicros"

definition Host_OnClockSyncRequestReceived ::
  "platform \<Rightarrow> u8 \<Rightarrow> u32 \<Rightarrow> 'a LoLaLinkHostService_scheme \<Rightarrow> 'a LoLaLinkHostService_scheme" where
  "Host_OnClockSyncRequestReceived P requestId estimatedMicros s =
     (if GetLinkState s = Linking then
        let s1 = s\<lparr>HostClockSyncTransaction := Response_SetResult requestId
                     (Host_estimation_error estimatedMicros s) (HostClockSyncTransaction s)\<rparr>
        in if LinkingState s1 = LinkingInfoSyncStage then
             if LOLA_LINK_SERVICE_UNLINK_MIN_LATENCY_SAMPLES \<le> Meter_GetSampleCount (LatencyMeter s1) \<and>
                LinkInfo_HasPartnerRSSI (LinkInfo s1)
             then Link_SetLinkingState LinkingClockSyncStage s1 else s1
           else if LinkingState s1 = LinkingClockSyncStage then Service_SetNextRunASAP s1
           else s1\<lparr>HostClockSyncTransaction := Response_Reset (HostClockSyncTransaction s1)\<rparr>
      else s)"

section \<open>Linked\<close>

definition Host_OnClockSyncTuneRequestReceived ::
  "platform \<Rightarrow> u8 \<Rightarrow> u32 \<Rightarrow> 'a LoLaLinkHostService_scheme \<Rightarrow> 'a LoLaLinkHostService_scheme" where
  "Host_OnClockSyncTuneRequestReceived P requestId estimatedMicros s =
     (if LinkInfo_HasLink (LinkInfo s)
      then Service_SetNextRunASAP (s\<lparr>HostClockSyncTransaction := Response_SetResult requestId
             (Host_estimation_error estimatedMicros s) (HostClockSyncTransaction s)\<rparr>)
      else s)"

definition Host_OnKeepingLink :: "platform \<Rightarrow> 'a LoLaLinkHostService_scheme \<Rightarrow> 'a LoLaLinkHostService_scheme" where
  "Host_OnKeepingLink P s =
     (let t = HostClockSyncTransaction s
      in if Response_IsResultReady t then
           let (good, c) = HostSyncer_OnEstimationReceived (ResponseResult t) (HostClockSyncer s);
               s1 = s\<lparr>HostClockSyncer := c\<rparr>;
               s2 = (if \<not> good then on_info LinkInfo_StampClockSyncAdjustment s1 else s1);
               s3 = Host_PrepareClockSyncTuneResponse (ResponseId t) (ResponseResult t) s2
           in Send_RequestSendPacketDefault P (s3\<lparr>HostClockSyncTransaction := Response_Reset t\<rparr>)
         else Service_SetNextRunDelay LOLA_LINK_SERVICE_IDLE_PERIOD s)"

section \<open>Acknowledgements\<close>

definition Host_OnPingAckReceived ::
  "platform \<Rightarrow> u8 \<Rightarrow> 'a LoLaLinkHostService_scheme \<Rightarrow> 'a LoLaLinkHostService_scheme" where
  "Host_OnPingAckReceived P packetId s =
     (if GetLinkState s = Linking \<and> LinkingState s = LinkingInfoSyncStage then
        let (accepted, m) = Meter_OnAckReceived P packetId (LatencyMeter s);
            s1 = s\<lparr>LatencyMeter := m\<rparr>
        in if accepted then Service_SetNextRunASAP (s1\<lparr>PingAcked := True\<rparr>) else s1
      else s)"

definition Host_OnLinkAckReceived ::
  "platform \<Rightarrow> u8 \<Rightarrow> u8 \<Rightarrow> 'a LoLaLinkHostService_scheme \<Rightarrow> 'a LoLaLinkHostService_scheme" where
  "Host_OnLinkAckReceived P header packetId s =
     (if header \<noteq> Header LinkShortWithAckPacketDefinition then s
      else if GetLinkState s = AwaitingLink then
        if LinkingState s = Host_GotSharedKey \<and> LinkInfo_GetSessionId (LinkInfo s) = packetId
        then Link_SetLinkingState Host_LinkingSwitchOver s else s
      else if GetLinkState s = Linking then
        if LinkingState s = LinkProtocolSwitchOver \<and> LinkInfo_GetSessionId (LinkInfo s) = packetId
        then Link_SetLinkingState LinkingDone s else s
      else s)"

definition Host_OnAckReceived ::
  "platform \<Rightarrow> u8 \<Rightarrow> u8 \<Rightarrow> 'a LoLaLinkHostService_scheme \<Rightarrow> 'a LoLaLinkHostService_scheme" where
  "Host_OnAckReceived P header packetId s =
     (if header = Header PingPacketDefinition then Host_OnPingAckReceived P packetId s
      else Host_OnLinkAckReceived P header packetId s)"

section \<open>The virtual tables of the class\<close>

definition Host_link_hooks ::
  "(platform \<Rightarrow> bool \<Rightarrow> 'a LoLaLinkHostService_scheme \<Rightarrow> 'a LoLaLinkHostService_scheme) \<Rightarrow>
   'a LoLaLinkHostService_scheme link_hooks" where
  "Host_link_hooks N = Link_default_hooks\<lparr>
     lk_OnLinking := Host_OnLinking N, lk_OnAwaitingLink := Host_OnAwaitingLink N,
     lk_OnKeepingLink := Host_OnKeepingLink,
     lk_OnLinkDiscoveryReceived := Host_OnLinkDiscoveryReceived,
     lk_OnPKCRequestReceived := Host_OnPKCRequestReceived,
     lk_OnRemotePublicKeyReceived := Host_OnRemotePublicKeyReceived,
     lk_OnRemoteInfoSyncReceived := Host_OnRemoteInfoSyncReceived,
     lk_OnClockSyncRequestReceived := Host_OnClockSyncRequestReceived,
     lk_OnClockSyncTuneRequestReceived := Host_OnClockSyncTuneRequestReceived \<rparr>"

definition Host_OnService ::
  "(platform \<Rightarrow> bool \<Rightarrow> 'a LoLaLinkHostService_scheme \<Rightarrow> 'a LoLaLinkHostService_scheme) \<Rightarrow>
   platform \<Rightarrow> 'a LoLaLinkHostService_scheme \<Rightarrow> 'a LoLaLinkHostService_scheme" where
  "Host_OnService N = Link_OnService (Host_UpdateLinkState N) (Host_link_hooks N)"

definition Host_send_hooks ::
  "(platform \<Rightarrow> bool \<Rightarrow> 'a LoLaLinkHostService_scheme \<Rightarrow> 'a LoLaLinkHostService_scheme) \<Rightarrow>
   'a LoLaLinkHostService_scheme send_hooks" where
  "Host_send_hooks N = Send_default_hooks\<lparr>
     hk_OnAckReceived := Host_OnAckReceived, hk_OnSendOk := Link_OnSendOk,
     hk_OnSendFailed := Link_OnSendFailed, hk_OnService := Host_OnService N,
     hk_OnPreSend := Host_OnPreSend \<rparr>"

definition Host_Callback ::
  "(platform \<Rightarrow> bool \<Rightarrow> 'a LoLaLinkHostService_scheme \<Rightarrow> 'a LoLaLinkHostService_scheme) \<Rightarrow>
   platform \<Rightarrow> 'a LoLaLinkHostService_scheme \<Rightarrow> 'a LoLaLinkHostService_scheme" where
  "Host_Callback N P = Send_Callback P (Host_send_hooks N)"

text \<open>The platform of the set-up call is the one the firmware starts with.\<close>

definition Host_service ::
  "(platform \<Rightarrow> bool \<Rightarrow> 'a LoLaLinkHostService_scheme \<Rightarrow> 'a LoLaLinkHostService_scheme) \<Rightarrow>
   platform \<Rightarrow> 'a LoLaLinkHostService_scheme service" where
  "Host_service N P0 = \<lparr> srv_Init = Service_Init Link_OnAddPacketMap (Link_OnSetup Host_session_hooks P0),
     srv_ReceivedPacket = Service_ReceivedPacket Link_ShouldProcessReceived (Link_ProcessPacket (Host_link_hooks N)),
     srv_ReceivedAckedPacket = Service_ReceivedAckedPacket Link_ShouldProcessReceived
       (Link_ProcessAckedPacket (Host_link_hooks N)),
     srv_ReceivedAck = Service_ReceivedAck Link_ShouldProcessReceived (\<lambda>P. Send_ProcessAck),
     srv_ProcessSent = (\<lambda>P. Send_ProcessSent),
     srv_OnLinkEstablished = \<lambda>P s. s, srv_OnLinkLost = \<lambda>P s. s \<rparr>"

text \<open>The constructor: the host takes the even slot.\<close>

definition Host_construct ::
  "bool \<Rightarrow> 'a LoLaLinkHostService_scheme \<Rightarrow> 'a LoLaLinkHostService_scheme" where
  "Host_construct hasDriver s =
     on_drv (Driver_SetDuplexSlot True) (Link_construct hasDriver
       (s\<lparr>HostClockSyncer := Syncer_new, HostClockSyncTransaction := Response_new,
          PingAcked := False, LatencyMeter := Meter_new, SessionLastStarted := ILOLA_INVALID_MILLIS\<rparr>))"

end
