(* ===== verification/Link_Remote.thy ===== *)
theory Link_Remote
  imports Link_Service
begin

text \<open>\<open>src/src/Services/Link/LoLaLinkRemoteService.h\<close>: the end that looks for a host and follows its clock.\<close>

section \<open>State\<close>

definition Remote_SearchingForHost :: u8 where [lola_consts]: "Remote_SearchingForHost = 0"
definition Remote_ValidatingPartner :: u8 where [lola_consts]: "Remote_ValidatingPartner = 1"
definition Remote_AwaitingHostPublicKey :: u8 where [lola_consts]: "Remote_AwaitingHostPublicKey = 2"
definition Remote_ProcessingSharedKey :: u8 where [lola_consts]: "Remote_ProcessingSharedKey = 3"
definition Remote_SendingPublicKey :: u8 where [lola_consts]: "Remote_SendingPublicKey = 4"
definition Remote_LinkingSwitchOver :: u8 where [lola_consts]: "Remote_LinkingSwitchOver = 5"

definition Remote_AwaitingHostRequest :: u8 where [lola_consts]: "Remote_AwaitingHostRequest = 0"
definition Remote_SendingRemoteInfo :: u8 where [lola_consts]: "Remote_SendingRemoteInfo = 1"
definition Remote_InfoSyncDone :: u8 where [lola_consts]: "Remote_InfoSyncDone = 2"

record LoLaLinkRemoteService = LoLaLinkService +
  RemoteClockSyncer :: LinkRemoteClockSyncer
  RemoteClockSyncTransaction :: ClockSyncRequestTransaction

definition Remote_session_hooks :: "'a LoLaLinkRemoteService_scheme session_hooks" where
  "Remote_session_hooks = \<lparr>
     sh_SyncerSetup = \<lambda>s. s\<lparr>RemoteClockSyncer := snd (Syncer_Setup (RemoteClockSyncer s))\<rparr>,
     sh_SyncerReset = \<lambda>P s. s\<lparr>RemoteClockSyncer := RemoteSyncer_Reset (RemoteClockSyncer s)\<rparr>,
     sh_TransactionReset = \<lambda>s. s\<lparr>RemoteClockSyncTransaction := Request_Reset (RemoteClockSyncTransaction s)\<rparr>,
     sh_OnClearSession = \<lambda>s. s \<rparr>"

abbreviation Remote_ClearSession ::
  "platform \<Rightarrow> 'a LoLaLinkRemoteService_scheme \<Rightarrow> 'a LoLaLinkRemoteService_scheme" where
  "Remote_ClearSession \<equiv> Link_ClearSession Remote_session_hooks"

definition Remote_OnLinkStateChanged ::
  "platform \<Rightarrow> LinkStateEnum \<Rightarrow> 'a LoLaLinkRemoteService_scheme \<Rightarrow> 'a LoLaLinkRemoteService_scheme" where
  "Remote_OnLinkStateChanged P newState s =
     (case newState of
        AwaitingLink \<Rightarrow> on_keys (\<lambda>k. snd (KeyExchanger_GenerateNewKeyPair P k)) s
      | AwaitingSleeping \<Rightarrow> Service_SetNextRunDelay LOLA_LINK_SERVICE_UNLINK_REMOTE_SLEEP_PERIOD s
      | Linking \<Rightarrow> s\<lparr>InfoSyncStage := Remote_AwaitingHostRequest\<rparr>
      | Linked \<Rightarrow> s\<lparr>RemoteClockSyncer := RemoteSyncer_SetReadyForEstimation P (RemoteClockSyncer s),
                    RemoteClockSyncTransaction := Request_Reset (RemoteClockSyncTransaction s)\<rparr>
      | _ \<Rightarrow> s)"

definition Remote_state_hooks :: "'a LoLaLinkRemoteService_scheme state_hooks" where
  "Remote_state_hooks = \<lparr>
     th_StampSynced = \<lambda>P s. s\<lparr>RemoteClockSyncer := Syncer_StampSynced P (RemoteClockSyncer s)\<rparr>,
     th_OnLinkStateChanged = Remote_OnLinkStateChanged \<rparr>"

abbreviation Remote_UpdateLinkState ::
  "(platform \<Rightarrow> bool \<Rightarrow> 'a LoLaLinkRemoteService_scheme \<Rightarrow> 'a LoLaLinkRemoteService_scheme) \<Rightarrow>
   platform \<Rightarrow> LinkStateEnum \<Rightarrow> 'a LoLaLinkRemoteService_scheme \<Rightarrow> 'a LoLaLinkRemoteService_scheme" where
  "Remote_UpdateLinkState N \<equiv> Link_UpdateLinkState N Remote_session_hooks Remote_state_hooks"

section \<open>Packets it sends\<close>

definition Remote_PrepareLinkDiscovery :: "'a LoLaLinkRemoteService_scheme \<Rightarrow> 'a LoLaLinkRemoteService_scheme" where
  "Remote_PrepareLinkDiscovery s =
     Link_SetPayload 1 (replicate (unat LOLA_LINK_SERVICE_PAYLOAD_SIZE_SHORT - 1) 255)
       (Link_PrepareShortPacket (LinkInfo_GetSessionId (LinkInfo s)) LOLA_LINK_SUBHEADER_LINK_DISCOVERY s)"

definition Remote_PreparePKCStartRequest ::
  "platform \<Rightarrow> 'a LoLaLinkRemoteService_scheme \<Rightarrow> 'a LoLaLinkRemoteService_scheme" where
  "Remote_PreparePKCStartRequest P s =
     (let s1 = Link_PrepareShortPacket (LinkInfo_GetSessionId (LinkInfo s))
                 LOLA_LINK_SUBHEADER_REMOTE_PKC_START_REQUEST s;
          (localId, s2) = on_info_result (LinkInfo_GetLocalId P) s1
      in Link_S_ArrayToPayload localId s2)"

definition Remote_PrepareRemoteInfoSync :: "'a LoLaLinkRemoteService_scheme \<Rightarrow> 'a LoLaLinkRemoteService_scheme" where
  "Remote_PrepareRemoteInfoSync s =
     (let s1 = Link_PrepareReportPacket LOLA_LINK_SUBHEADER_INFO_SYNC_REMOTE s
      in Link_SetPayload 0 (LinkInfo_GetRSSINormalized (LinkInfo s1) (drv s1)
           # replicate (unat LOLA_LINK_SERVICE_PAYLOAD_SIZE_REPORT - 1) 255) s1)"

definition Remote_PrepareClockSyncRequest ::
  "u8 \<Rightarrow> 'a LoLaLinkRemoteService_scheme \<Rightarrow> 'a LoLaLinkRemoteService_scheme" where
  "Remote_PrepareClockSyncRequest requestId s = Link_PrepareShortPacket requestId LOLA_LINK_SUBHEADER_NTP_REQUEST s"

definition Remote_PrepareClockSyncTuneRequest ::
  "u8 \<Rightarrow> 'a LoLaLinkRemoteService_scheme \<Rightarrow> 'a LoLaLinkRemoteService_scheme" where
  "Remote_PrepareClockSyncTuneRequest requestId s =
     Link_PrepareShortPacket requestId LOLA_LINK_SUBHEADER_NTP_TUNE_REQUEST s"

text \<open>Right before a clock request goes out, the synchronised clock at its expected arrival is filled in.\<close>

definition Remote_clock_estimate :: "platform \<Rightarrow> Driver \<Rightarrow> u32" where
  "Remote_clock_estimate P d = Driver_GetSyncMicros P d + Driver_GetETTMMicros d"

definition Remote_OnPreSend :: "platform \<Rightarrow> 'a LoLaLinkRemoteService_scheme \<Rightarrow> 'a LoLaLinkRemoteService_scheme" where
  "Remote_OnPreSend P s =
     (if LoLaPacket_GetDataHeader (Packet s) = Header LinkShortPacketDefinition \<and>
         (LoLaPacket_GetPayload (Packet s) ! 0 = LOLA_LINK_SUBHEADER_NTP_REQUEST \<or>
          LoLaPacket_GetPayload (Packet s) ! 0 = LOLA_LINK_SUBHEADER_NTP_TUNE_REQUEST)
      then Link_S_ArrayToPayload (Remote_clock_estimate P (drv s)) s
      else s)"

section \<open>Awaiting a link: public key exchange\<close>

definition Remote_RestartSearch ::
  "platform \<Rightarrow> 'a LoLaLinkRemoteService_scheme \<Rightarrow> 'a LoLaLinkRemoteService_scheme" where
  "Remote_RestartSearch P s = Link_SetLinkingState Remote_SearchingForHost (Remote_ClearSession P s)"

definition Remote_ValidatePartner ::
  "platform \<Rightarrow> 'a LoLaLinkRemoteService_scheme \<Rightarrow> 'a LoLaLinkRemoteService_scheme" where
  "Remote_ValidatePartner P s =
     (let (localId, s1) = on_info_result (LinkInfo_GetLocalId P) s;
          s2 = on_encoder (Encoder_SetIvData P (ucast (LinkInfo_GetSessionId (LinkInfo s1)))
                 (LinkInfo_GetPartnerId (LinkInfo s1)) localId) s1
      in Link_SetLinkingState Remote_AwaitingHostPublicKey
           ((Link_ResetLastSentTimeStamp s2)\<lparr>SubStateStart := millis_now P\<rparr>))"

definition Remote_OnAwaitingLink ::
  "(platform \<Rightarrow> bool \<Rightarrow> 'a LoLaLinkRemoteService_scheme \<Rightarrow> 'a LoLaLinkRemoteService_scheme) \<Rightarrow>
   platform \<Rightarrow> 'a LoLaLinkRemoteService_scheme \<Rightarrow> bool \<times> 'a LoLaLinkRemoteService_scheme" where
  "Remote_OnAwaitingLink N P s =
     (if LOLA_LINK_SERVICE_UNLINK_REMOTE_MAX_BEFORE_SLEEP < Link_GetElapsedMillisSinceStateStart P s then (False, s)
      else (True,
        if LinkingState s = Remote_SearchingForHost
        then Link_resend LOLA_LINK_SERVICE_UNLINK_REMOTE_SEARCH_PERIOD Remote_PrepareLinkDiscovery P s
        else if LinkingState s = Remote_ValidatingPartner then Remote_ValidatePartner P s
        else if LinkingState s = Remote_AwaitingHostPublicKey then
          if LOLA_LINK_SERVICE_UNLINK_MAX_BEFORE_PKC_CANCEL < millis_now P - SubStateStart s
          then Remote_RestartSearch P s
          else Link_resend LOLA_LINK_SERVICE_UNLINK_RESEND_PERIOD (Remote_PreparePKCStartRequest P) P s
        else if LinkingState s = Remote_ProcessingSharedKey then
          let (ok, s1) = Link_SharedSecret P s
          in if ok then Link_SetLinkingState Remote_SendingPublicKey (Link_ResetLastSentTimeStamp s1)
             else Remote_RestartSearch P s1
        else if LinkingState s = Remote_SendingPublicKey then
          if LOLA_LINK_SERVICE_UNLINK_MAX_BEFORE_PKC_CANCEL < millis_now P - SubStateStart s
          then Remote_RestartSearch P s
          else Link_resend LOLA_LINK_SERVICE_UNLINK_RESEND_LONG_PERIOD
                 (Link_PreparePublicKeyPacket LOLA_LINK_SUBHEADER_REMOTE_PUBLIC_KEY) P s
        else if LinkingState s = Remote_LinkingSwitchOver then Remote_UpdateLinkState N P Linking s
        else s))"

text \<open>The first case of the switch falls through to the second.\<close>

definition Remote_OnIdBroadcastReceived ::
  "(platform \<Rightarrow> bool \<Rightarrow> 'a LoLaLinkRemoteService_scheme \<Rightarrow> 'a LoLaLinkRemoteService_scheme) \<Rightarrow>
   platform \<Rightarrow> u8 \<Rightarrow> u32 \<Rightarrow> 'a LoLaLinkRemoteService_scheme \<Rightarrow> 'a LoLaLinkRemoteService_scheme" where
  "Remote_OnIdBroadcastReceived N P sessionId hostId s0 =
     (if GetLinkState s0 = AwaitingSleeping \<or> GetLinkState s0 = AwaitingLink then
        let s = (if GetLinkState s0 = AwaitingSleeping then Remote_UpdateLinkState N P AwaitingLink s0 else s0)
        in if LinkingState s = Remote_SearchingForHost then
             if \<not> LinkInfo_HasSession (LinkInfo s) then
               let (ok, s1) = on_info_result (LinkInfo_SetSessionId sessionId) s
               in if ok then Link_SetLinkingState Remote_ValidatingPartner (on_info (LinkInfo_SetPartnerId hostId) s1)
                  else s1
             else s
           else if LinkingState s = Remote_ValidatingPartner \<or> LinkingState s = Remote_AwaitingHostPublicKey then
             if LinkInfo_HasSession (LinkInfo s) \<and> LinkInfo_GetPartnerId (LinkInfo s) = hostId then
               let (ok, s1) = on_info_result (LinkInfo_SetSessionId sessionId) s
               in if ok then Link_SetLinkingState Remote_ValidatingPartner s1 else s1
             else s
           else s
      else s0)"

definition Remote_OnHostPublicKeyReceived ::
  "platform \<Rightarrow> u8 \<Rightarrow> u8 list \<Rightarrow> 'a LoLaLinkRemoteService_scheme \<Rightarrow> 'a LoLaLinkRemoteService_scheme" where
  "Remote_OnHostPublicKeyReceived P sessionId hostPublicKey s =
     (if GetLinkState s = AwaitingLink \<and> LinkingState s = Remote_AwaitingHostPublicKey \<and>
         LinkInfo_HasSession (LinkInfo s) \<and> LinkInfo_GetSessionId (LinkInfo s) = sessionId
      then let (ok, k) = KeyExchanger_SetPartnerPublicKey hostPublicKey (KeyExchanger s);
               s1 = s\<lparr>KeyExchanger := k\<rparr>
           in if ok then Link_SetLinkingState Remote_ProcessingSharedKey s1 else s1
      else s)"

definition Remote_OnLinkProtocolReceived ::
  "platform \<Rightarrow> u8 \<Rightarrow> u32 \<Rightarrow> 'a LoLaLinkRemoteService_scheme \<Rightarrow> bool \<times> 'a LoLaLinkRemoteService_scheme" where
  "Remote_OnLinkProtocolReceived P sessionId hostId s =
     (if GetLinkState s = Linking \<and> LinkingState s = LinkingClockSyncStage \<and>
         LinkInfo_GetSessionId (LinkInfo s) = sessionId
      then let (localId, s1) = on_info_result (LinkInfo_GetLocalId P) s
           in if localId = hostId then (True, Link_SetLinkingState LinkProtocolSwitchOver s1) else (False, s1)
      else (False, s))"

text \<open>The challenge of the host: our own id, encrypted under the key both ends should have.\<close>

definition Remote_OnCryptoStartReceived ::
  "platform \<Rightarrow> u8 \<Rightarrow> u8 list \<Rightarrow> 'a LoLaLinkRemoteService_scheme \<Rightarrow> bool \<times> 'a LoLaLinkRemoteService_scheme" where
  "Remote_OnCryptoStartReceived P sessionId localId s =
     (if LinkingState s = Remote_SendingPublicKey \<and> LinkInfo_HasSessionId (LinkInfo s) \<and>
         LinkInfo_GetSessionId (LinkInfo s) = sessionId
      then let (plain, e) = Encoder_DecodeDirect P localId 4 (CryptoEncoder (drv s));
               (ownId, s1) = on_info_result (LinkInfo_GetLocalId P) (on_encoder (\<lambda>_. e) s)
           in if ownId = bytes_le32 plain then (True, Link_SetLinkingState Remote_LinkingSwitchOver s1)
              else (False, s1)
      else (False, s))"

section \<open>Linking\<close>

definition Remote_OnInfoSync ::
  "platform \<Rightarrow> 'a LoLaLinkRemoteService_scheme \<Rightarrow> bool \<times> 'a LoLaLinkRemoteService_scheme" where
  "Remote_OnInfoSync P s =
     (if InfoSyncStage s = Remote_AwaitingHostRequest
      then (False, Service_SetNextRunDelay LOLA_LINK_SERVICE_CHECK_PERIOD s)
      else if InfoSyncStage s = Remote_SendingRemoteInfo
      then (False, Link_resend LOLA_LINK_SERVICE_UNLINK_RESEND_PERIOD Remote_PrepareRemoteInfoSync P s)
      else if InfoSyncStage s = Remote_InfoSyncDone then (True, s)
      else (False, s))"

definition Remote_OnHostInfoSyncRequestReceived ::
  "platform \<Rightarrow> 'a LoLaLinkRemoteService_scheme \<Rightarrow> 'a LoLaLinkRemoteService_scheme" where
  "Remote_OnHostInfoSyncRequestReceived P s =
     (if GetLinkState s = Linking \<and> LinkingState s = LinkingInfoSyncStage \<and>
         InfoSyncStage s = Remote_AwaitingHostRequest
      then Service_SetNextRunASAP (s\<lparr>InfoSyncStage := Remote_SendingRemoteInfo\<rparr>)
      else s)"

definition Remote_OnHostInfoSyncReceived ::
  "platform \<Rightarrow> u8 \<Rightarrow> u16 \<Rightarrow> 'a LoLaLinkRemoteService_scheme \<Rightarrow> 'a LoLaLinkRemoteService_scheme" where
  "Remote_OnHostInfoSyncReceived P rssi rtt s =
     (if GetLinkState s = Linking \<and> LinkingState s = LinkingInfoSyncStage \<and>
         InfoSyncStage s = Remote_SendingRemoteInfo
      then Service_SetNextRunASAP
             ((on_info (LinkInfo_SetPartnerRSSINormalized P rssi) (on_info_drv (LinkInfo_SetRTT (ucast rtt)) s))
                \<lparr>InfoSyncStage := Remote_InfoSyncDone\<rparr>)
      else s)"

definition Remote_TakeEstimation ::
  "platform \<Rightarrow> 'a LoLaLinkRemoteService_scheme \<Rightarrow> 'a LoLaLinkRemoteService_scheme" where
  "Remote_TakeEstimation P s =
     (let t = RemoteClockSyncTransaction s
      in if Request_IsResultWaiting t then
           let (c, d) = RemoteSyncer_OnEstimationErrorReceived (RequestResult t) (RemoteClockSyncer s) (drv s)
           in Service_SetNextRunASAP (s\<lparr>RemoteClockSyncer := c, drv := d,
                RemoteClockSyncTransaction := Request_Reset t\<rparr>)
         else s)"

definition Remote_OnClockSync ::
  "platform \<Rightarrow> 'a LoLaLinkRemoteService_scheme \<Rightarrow> 'a LoLaLinkRemoteService_scheme" where
  "Remote_OnClockSync P s0 =
     (let s = Remote_TakeEstimation P s0; t = RemoteClockSyncTransaction s
      in if (\<not> Request_IsRequested t \<or> \<not> Request_IsFresh P LOLA_LINK_SERVICE_UNLINK_TRANSACTION_LIFETIME t) \<and>
            LOLA_LINK_SERVICE_UNLINK_RESEND_PERIOD < Link_GetElapsedMillisSinceLastSent P s
         then let t1 = Request_SetRequested P (Request_Reset t)
              in Send_RequestSendPacketDefault P (Remote_PrepareClockSyncRequest (RequestId t1)
                   (s\<lparr>RemoteClockSyncTransaction := t1\<rparr>))
         else Service_SetNextRunDelay LOLA_LINK_SERVICE_CHECK_PERIOD s)"

definition Remote_OnLinking ::
  "(platform \<Rightarrow> bool \<Rightarrow> 'a LoLaLinkRemoteService_scheme \<Rightarrow> 'a LoLaLinkRemoteService_scheme) \<Rightarrow>
   platform \<Rightarrow> 'a LoLaLinkRemoteService_scheme \<Rightarrow> 'a LoLaLinkRemoteService_scheme" where
  "Remote_OnLinking N P s =
     (if LinkingState s = LinkingInfoSyncStage then
        let (finished, s1) = Remote_OnInfoSync P s
        in if finished then Link_SetLinkingState LinkingClockSyncStage s1 else s1
      else if LinkingState s = LinkingClockSyncStage then Remote_OnClockSync P s
      else if LinkingState s = LinkProtocolSwitchOver then
        let s1 = Link_SetLinkingState LinkingDone
                   (s\<lparr>RemoteClockSyncer := RemoteSyncer_SetSynced P (RemoteClockSyncer s)\<rparr>)
        in Service_SetNextRunDelay (Driver_GetETTMMicros (drv s1) div 1000) s1
      else if LinkingState s = LinkingDone then Remote_UpdateLinkState N P Linked s
      else Remote_UpdateLinkState N P AwaitingLink s)"

definition Remote_OnClockSyncResponseReceived ::
  "platform \<Rightarrow> u8 \<Rightarrow> u32 \<Rightarrow> 'a LoLaLinkRemoteService_scheme \<Rightarrow> 'a LoLaLinkRemoteService_scheme" where
  "Remote_OnClockSyncResponseReceived P requestId estimatedErrorMicros s =
     (if GetLinkState s = Linking \<and> LinkingState s = LinkingClockSyncStage \<and>
         Request_IsRequested (RemoteClockSyncTransaction s) \<and>
         Request_IsFresh P LOLA_LINK_SERVICE_UNLINK_TRANSACTION_LIFETIME (RemoteClockSyncTransaction s)
      then let (ok, t) = Request_SetResult requestId estimatedErrorMicros (RemoteClockSyncTransaction s);
               s1 = s\<lparr>RemoteClockSyncTransaction := t\<rparr>
           in if ok then Service_SetNextRunASAP s1 else s1
      else s)"

section \<open>Linked\<close>

definition Remote_OnKeepingLink ::
  "platform \<Rightarrow> 'a LoLaLinkRemoteService_scheme \<Rightarrow> 'a LoLaLinkRemoteService_scheme" where
  "Remote_OnKeepingLink P s =
     (let t = RemoteClockSyncTransaction s
      in if Request_IsResultWaiting t then
           let (good, c, d) = RemoteSyncer_OnTuneErrorReceived P (RequestResult t) (RemoteClockSyncer s) (drv s);
               s1 = s\<lparr>RemoteClockSyncer := c, drv := d\<rparr>;
               s2 = (if \<not> good then on_info LinkInfo_StampClockSyncAdjustment s1 else s1)
           in Service_SetNextRunASAP (s2\<lparr>RemoteClockSyncTransaction := Request_Reset t\<rparr>)
         else if RemoteSyncer_IsTimeToTune P (RemoteClockSyncer s) \<and> \<not> Request_IsRequested t
         then let t1 = Request_SetRequested P (Request_Reset t)
              in Send_RequestSendPacketDefault P (Remote_PrepareClockSyncTuneRequest (RequestId t1)
                   (s\<lparr>RemoteClockSyncTransaction := t1\<rparr>))
         else Service_SetNextRunDelay LOLA_LINK_SERVICE_IDLE_PERIOD s)"

definition Remote_OnClockSyncTuneResponseReceived ::
  "platform \<Rightarrow> u8 \<Rightarrow> u32 \<Rightarrow> 'a LoLaLinkRemoteService_scheme \<Rightarrow> 'a LoLaLinkRemoteService_scheme" where
  "Remote_OnClockSyncTuneResponseReceived P requestId estimatedError s =
     (if GetLinkState s = Linked \<and> Request_IsRequested (RemoteClockSyncTransaction s)
      then Service_SetNextRunASAP (s\<lparr>RemoteClockSyncTransaction :=
             snd (Request_SetResult requestId estimatedError (RemoteClockSyncTransaction s))\<rparr>)
      else s)"

definition Remote_OnAckedPacketReceived ::
  "platform \<Rightarrow> LoLaPacket \<Rightarrow> 'a LoLaLinkRemoteService_scheme \<Rightarrow> bool \<times> 'a LoLaLinkRemoteService_scheme" where
  "Remote_OnAckedPacketReceived P receivedPacket s =
     (if LoLaPacket_GetDataHeader receivedPacket = LOLA_LINK_HEADER_SHORT_WITH_ACK then
        case GetLinkState s of
          AwaitingLink \<Rightarrow> Remote_OnCryptoStartReceived P (LoLaPacket_GetId receivedPacket)
            (LoLaPacket_GetPayload receivedPacket) s
        | Linking \<Rightarrow> Remote_OnLinkProtocolReceived P (LoLaPacket_GetId receivedPacket)
            (Link_ArrayToR_Array (LoLaPacket_GetPayload receivedPacket)) s
        | _ \<Rightarrow> (False, s)
      else (False, s))"

section \<open>The virtual tables of the class\<close>

definition Remote_link_hooks ::
  "(platform \<Rightarrow> bool \<Rightarrow> 'a LoLaLinkRemoteService_scheme \<Rightarrow> 'a LoLaLinkRemoteService_scheme) \<Rightarrow>
   'a LoLaLinkRemoteService_scheme link_hooks" where
  "Remote_link_hooks N = Link_default_hooks\<lparr>
     lk_OnLinking := Remote_OnLinking N, lk_OnAwaitingLink := Remote_OnAwaitingLink N,
     lk_OnKeepingLink := Remote_OnKeepingLink,
     lk_OnHostInfoSyncRequestReceived := Remote_OnHostInfoSyncRequestReceived,
     lk_OnIdBroadcastReceived := Remote_OnIdBroadcastReceived N,
     lk_OnHostPublicKeyReceived := Remote_OnHostPublicKeyReceived,
     lk_OnHostInfoSyncReceived := Remote_OnHostInfoSyncReceived,
     lk_OnClockSyncResponseReceived := Remote_OnClockSyncResponseReceived,
     lk_OnClockSyncTuneResponseReceived := Remote_OnClockSyncTuneResponseReceived,
     lk_OnAckedPacketReceived := Remote_OnAckedPacketReceived \<rparr>"

definition Remote_OnService ::
  "(platform \<Rightarrow> bool \<Rightarrow> 'a LoLaLinkRemoteService_scheme \<Rightarrow> 'a LoLaLinkRemoteService_scheme) \<Rightarrow>
   platform \<Rightarrow> 'a LoLaLinkRemoteService_scheme \<Rightarrow> 'a LoLaLinkRemoteService_scheme" where
  "Remote_OnService N = Link_OnService (Remote_UpdateLinkState N) (Remote_link_hooks N)"

definition Remote_send_hooks ::
  "(platform \<Rightarrow> bool \<Rightarrow> 'a LoLaLinkRemoteService_scheme \<Rightarrow> 'a LoLaLinkRemoteService_scheme) \<Rightarrow>
   'a LoLaLinkRemoteService_scheme send_hooks" where
  "Remote_send_hooks N = Send_default_hooks\<lparr>
     hk_OnSendOk := Link_OnSendOk, hk_OnSendFailed := Link_OnSendFailed,
     hk_OnService := Remote_OnService N, hk_OnPreSend := Remote_OnPreSend \<rparr>"

definition Remote_Callback ::
  "(platform \<Rightarrow> bool \<Rightarrow> 'a LoLaLinkRemoteService_scheme \<Rightarrow> 'a LoLaLinkRemoteService_scheme) \<Rightarrow>
   platform \<Rightarrow> 'a LoLaLinkRemoteService_scheme \<Rightarrow> 'a LoLaLinkRemoteService_scheme" where
  "Remote_Callback N P = Send_Callback P (Remote_send_hooks N)"

definition Remote_service ::
  "(platform \<Rightarrow> bool \<Rightarrow> 'a LoLaLinkRemoteService_scheme \<Rightarrow> 'a LoLaLinkRemoteService_scheme) \<Rightarrow>
   platform \<Rightarrow> 'a LoLaLinkRemoteService_scheme service" where
  "Remote_service N P0 = \<lparr> srv_Init = Service_Init Link_OnAddPacketMap (Link_OnSetup Remote_session_hooks P0),
     srv_ReceivedPacket = Service_ReceivedPacket Link_ShouldProcessReceived (Link_ProcessPacket (Remote_link_hooks N)),
     srv_ReceivedAckedPacket = Service_ReceivedAckedPacket Link_ShouldProcessReceived
       (Link_ProcessAckedPacket (Remote_link_hooks N)),
     srv_ReceivedAck = Service_ReceivedAck Link_ShouldProcessReceived (\<lambda>P. Send_ProcessAck),
     srv_ProcessSent = (\<lambda>P. Send_ProcessSent),
     srv_OnLinkEstablished = \<lambda>P s. s, srv_OnLinkLost = \<lambda>P s. s \<rparr>"

text \<open>The constructor: the remote takes the odd slot.\<close>

definition Remote_construct ::
  "bool \<Rightarrow> 'a LoLaLinkRemoteService_scheme \<Rightarrow> 'a LoLaLinkRemoteService_scheme" where
  "Remote_construct hasDriver s =
     on_drv (Driver_SetDuplexSlot False) (Link_construct hasDriver
       (s\<lparr>RemoteClockSyncer := RemoteSyncer_new, RemoteClockSyncTransaction := Request_new\<rparr>))"

end
