(* ===== verification/Link_Safety.thy ===== *)
theory Link_Safety
  imports Link_Frames Link_Host Link_Remote
begin

text \<open>
  When a node encrypts. The invariant ties the state of the link, the stage of the encoder and the
  link flag of the driver together; it is proved once for any end whose virtual methods keep two
  contracts (\<open>link_state\<close>, \<open>link_end\<close>), which host and remote are shown to keep.
\<close>

section \<open>Invariant\<close>

definition link_inv :: "u8 set \<Rightarrow> 'a LoLaLinkService_scheme \<Rightarrow> bool" where
  "link_inv keyed s \<longleftrightarrow> (case link_view s of (state, stage, enc, active, hasDriver) \<Rightarrow>
     hasDriver \<and> (active \<longleftrightarrow> state = Linked) \<and>
     (state = Linking \<or> state = Linked \<longrightarrow> enc = FullPower) \<and>
     (enc = FullPower \<longrightarrow> state \<in> {Linking, Linked, LinkDisabled}) \<and>
     (state = AwaitingLink \<and> stage \<in> keyed \<longrightarrow> enc = AllReady))"

lemma link_inv_view: "link_view s' = link_view s \<Longrightarrow> link_inv keyed s' = link_inv keyed s"
  by (simp add: link_inv_def)

lemma link_inv_iff:
  "link_inv keyed s \<longleftrightarrow> InfoHasDriver (LinkInfo s) \<and> (LinkActive (drv s) \<longleftrightarrow> GetLinkState s = Linked) \<and>
     (GetLinkState s = Linking \<or> GetLinkState s = Linked \<longrightarrow> EncoderState (CryptoEncoder (drv s)) = FullPower) \<and>
     (EncoderState (CryptoEncoder (drv s)) = FullPower \<longrightarrow> GetLinkState s \<in> {Linking, Linked, LinkDisabled}) \<and>
     (GetLinkState s = AwaitingLink \<and> LinkingState s \<in> keyed \<longrightarrow> EncoderState (CryptoEncoder (drv s)) = AllReady)"
  by (simp add: link_inv_def link_view_def)

text \<open>What a change of state that is allowed where it is asked for leaves behind.\<close>

definition enter_ok :: "LinkStateEnum \<Rightarrow> 'a LoLaLinkService_scheme \<Rightarrow> bool" where
  "enter_ok st s \<longleftrightarrow> (st = Linking \<longrightarrow> EncoderState (CryptoEncoder (drv s)) = AllReady) \<and>
     (st = Linked \<longrightarrow> GetLinkState s = Linking)"

section \<open>Changing the link state\<close>

locale link_state =
  fixes N :: "platform \<Rightarrow> bool \<Rightarrow> 'a LoLaLinkService_scheme \<Rightarrow> 'a LoLaLinkService_scheme"
    and SH :: "'a LoLaLinkService_scheme session_hooks"
    and TH :: "'a LoLaLinkService_scheme state_hooks"
    and keyed :: "u8 set"
  assumes notify_view: "link_view (N P b s) = link_view s"
    and notify_drv: "actions_ok P \<Longrightarrow> Driver_inv (drv s) \<Longrightarrow> Driver_inv (drv (N P b s))"
    and session_view: "link_view (sh_SyncerReset SH P s) = link_view s"
      "link_view (sh_TransactionReset SH s) = link_view s" "link_view (sh_OnClearSession SH s) = link_view s"
    and session_drv: "Driver_inv (drv (sh_SyncerReset SH P s)) = Driver_inv (drv s)"
      "drv (sh_TransactionReset SH s) = drv s" "drv (sh_OnClearSession SH s) = drv s"
    and stamp_view: "link_view (th_StampSynced TH P s) = link_view s"
    and stamp_drv: "drv (th_StampSynced TH P s) = drv s"
    and changed_view: "InfoHasDriver (LinkInfo s) \<Longrightarrow>
      (st = AwaitingLink \<Longrightarrow> EncoderState (CryptoEncoder (drv s)) = AllClear \<and> \<not> LinkActive (drv s)) \<Longrightarrow>
      link_view (th_OnLinkStateChanged TH P st s) = link_view s"
    and changed_drv: "Driver_inv (drv s) \<Longrightarrow> Driver_inv (drv (th_OnLinkStateChanged TH P st s))"
    and stage0: "0 \<notin> keyed"
begin

lemma view_of:
  assumes "link_view s' = link_view s"
  shows "GetLinkState s' = GetLinkState s" "LinkingState s' = LinkingState s"
    "EncoderState (CryptoEncoder (drv s')) = EncoderState (CryptoEncoder (drv s))"
    "LinkActive (drv s') = LinkActive (drv s)" "InfoHasDriver (LinkInfo s') = InfoHasDriver (LinkInfo s)"
  using assms by (simp_all add: link_view_def)

lemma ClearSession_view:
  assumes "InfoHasDriver (LinkInfo s)"
  shows "link_view (Link_ClearSession SH P s) = (GetLinkState s, LinkingState s, AllClear, False, True)"
proof -
  let ?s1 = "sh_TransactionReset SH (sh_SyncerReset SH P (s\<lparr>ReportPending := False\<rparr>))"
  have v: "link_view ?s1 = link_view s"
    by (simp only: session_view) (simp add: link_view_def)
  have h: "InfoHasDriver (LinkInfo ?s1)" using view_of(5) [OF v] assms by simp
  have "link_view (Link_ClearSession SH P s) =
      (GetLinkState ?s1, LinkingState ?s1, AllClear, False, True)"
    using h by (simp add: Link_ClearSession_def Let_def session_view) (simp add: link_view_def)
  then show ?thesis using view_of(1,2) [OF v] by simp
qed

lemma ClearSession_drv: "Driver_inv (drv s) \<Longrightarrow> Driver_inv (drv (Link_ClearSession SH P s))"
  by (simp add: Link_ClearSession_def Let_def session_drv)

lemma Channel_Reset_fields [simp]:
  "CryptoEncoder (Channel_ResetChannel P d) = CryptoEncoder d"
  "LinkActive (Channel_ResetChannel P d) = LinkActive d"
  by (simp_all add: Channel_ResetChannel_def)

lemma EnterState_view:
  assumes h: "InfoHasDriver (LinkInfo s)"
  shows "link_view (Link_EnterState nested N SH TH P LinkSetup s) = (GetLinkState s, 0, AllClear, False, True)"
    and "link_view (Link_EnterState nested N SH TH P AwaitingLink s) = (GetLinkState s, 0, AllClear, False, True)"
    and "link_view (Link_EnterState nested N SH TH P AwaitingSleeping s) = (GetLinkState s, 0, AllClear, False, True)"
    and "EncoderState (CryptoEncoder (drv s)) \<noteq> AllClear \<Longrightarrow>
      link_view (Link_EnterState nested N SH TH P Linking s) =
        (GetLinkState s, 0, FullPower, LinkActive (drv s), True)"
    and "link_view (Link_EnterState nested N SH TH P Linked s) =
      (GetLinkState s, LinkingState s, EncoderState (CryptoEncoder (drv s)), True, True)"
    and "link_view (Link_EnterState nested N SH TH P LinkDisabled s) =
      (GetLinkState s, LinkingState s, EncoderState (CryptoEncoder (drv s)), False, True)"
proof -
  let ?a = "Link_SetLinkingState 0 (on_drv (Driver_Enable P) s)"
  have "InfoHasDriver (LinkInfo ?a)" using h by simp
  note a = view_of [OF trans [OF ClearSession_view [OF this], of "link_view ?a"]]
  have va: "link_view (Link_ClearSession SH P ?a) = (GetLinkState s, 0, AllClear, False, True)"
    using ClearSession_view [of ?a P] h by simp
  show "link_view (Link_EnterState nested N SH TH P LinkSetup s) = (GetLinkState s, 0, AllClear, False, True)"
    using va by (simp add: Link_EnterState_def link_view_def)
  have vs: "link_view (Link_ClearSession SH P s) = (GetLinkState s, LinkingState s, AllClear, False, True)"
    by (rule ClearSession_view [OF h])
  show "link_view (Link_EnterState nested N SH TH P AwaitingLink s) = (GetLinkState s, 0, AllClear, False, True)"
    "link_view (Link_EnterState nested N SH TH P AwaitingSleeping s) = (GetLinkState s, 0, AllClear, False, True)"
    using vs by (simp_all add: Link_EnterState_def link_view_def Balancer_SetMaxPower_def Let_def)
  show "link_view (Link_EnterState nested N SH TH P Linking s) =
        (GetLinkState s, 0, FullPower, LinkActive (drv s), True)"
    if ne: "EncoderState (CryptoEncoder (drv s)) \<noteq> AllClear"
  proof -
    obtain e where e: "Encoder_SetEnabled (CryptoEncoder (drv s)) = (True, e)" "EncoderState e = FullPower"
      using ne by (cases "EncoderState (CryptoEncoder (drv s))") (simp_all add: Encoder_SetEnabled_def)
    then show ?thesis using h by (simp add: Link_EnterState_def link_view_def Let_def)
  qed
  let ?l = "th_StampSynced TH P (on_info_drv LinkInfo_StampLinkStarted s)"
  have vl: "link_view ?l = (GetLinkState s, LinkingState s, EncoderState (CryptoEncoder (drv s)), True, True)"
    using h by (simp only: stamp_view) (simp add: link_view_def)
  have "link_view (on_drv Driver_ResetStatistics ?l) = link_view ?l" by (simp add: link_view_def)
  then have "link_view (N P True (on_drv Driver_ResetStatistics ?l)) = link_view ?l" by (simp only: notify_view)
  then show "link_view (Link_EnterState nested N SH TH P Linked s) =
      (GetLinkState s, LinkingState s, EncoderState (CryptoEncoder (drv s)), True, True)"
    using vl by (simp add: Link_EnterState_def) (simp add: link_view_def)
  show "link_view (Link_EnterState nested N SH TH P LinkDisabled s) =
      (GetLinkState s, LinkingState s, EncoderState (CryptoEncoder (drv s)), False, True)"
    using h by (simp add: Link_EnterState_def link_view_def)
qed

lemma ChangeState_inv:
  assumes inv: "link_inv keyed s" and ok: "enter_ok st s"
  shows "link_inv keyed (Link_ChangeState nested N SH TH P st s)"
proof (cases "GetLinkState s = st")
  case True
  then show ?thesis using inv by (simp add: Link_ChangeState_def)
next
  case ne: False
  define s1 where "s1 = Link_ResetLastSentTimeStamp (Link_ResetStateStartTime P s)"
  define s2 where "s2 = (if GetLinkState s1 = Linked
    then N P False (on_drv (Driver_OnStart P) (on_drv (Channel_ResetChannel P) (Link_ClearSession SH P s1)))
    else s1)"
  define s3 where "s3 = Link_EnterState nested N SH TH P st s2"
  have s1: "link_view s1 = link_view s" by (simp add: s1_def link_view_def)
  have h: "InfoHasDriver (LinkInfo s1)" using inv view_of(5) [OF s1] by (simp add: link_inv_iff)
  have "GetLinkState s = Linked \<Longrightarrow> link_view s2 = (Linked, LinkingState s, AllClear, False, True)"
    using ClearSession_view [OF h, of P] view_of(1,2) [OF s1]
    by (simp add: s2_def notify_view) (simp add: link_view_def)
  moreover have "GetLinkState s \<noteq> Linked \<Longrightarrow> link_view s2 = link_view s"
    using s1 view_of(1) [OF s1] by (simp add: s2_def)
  ultimately have s2: "InfoHasDriver (LinkInfo s2)"
    "GetLinkState s \<noteq> Linked \<Longrightarrow> EncoderState (CryptoEncoder (drv s2)) = EncoderState (CryptoEncoder (drv s))"
    "\<not> LinkActive (drv s2)" "EncoderState (CryptoEncoder (drv s2)) = FullPower \<Longrightarrow> GetLinkState s = Linking \<or> GetLinkState s = LinkDisabled"
    using inv by (cases "GetLinkState s = Linked"; auto simp: link_inv_iff link_view_def)+
  note enter = EnterState_view [OF s2(1), of nested P]
  have "\<exists>stage. link_view s3 = (GetLinkState s2, if st = Linked \<or> st = LinkDisabled then stage else 0,
      case st of Linking \<Rightarrow> FullPower | Linked \<Rightarrow> FullPower
        | LinkDisabled \<Rightarrow> EncoderState (CryptoEncoder (drv s2)) | _ \<Rightarrow> AllClear, st = Linked, True)"
  proof (cases st)
    case Linking
    then have "GetLinkState s \<noteq> Linked" "EncoderState (CryptoEncoder (drv s)) = AllReady"
      using inv ok by (auto simp: enter_ok_def link_inv_iff)
    then show ?thesis using enter(4) s2(2,3) Linking by (simp add: s3_def)
  next
    case Linked
    then have "EncoderState (CryptoEncoder (drv s2)) = FullPower"
      using inv ok s2(2) by (auto simp: enter_ok_def link_inv_iff)
    then show ?thesis using enter(5) Linked by (auto simp: s3_def)
  qed (use enter in \<open>auto simp: s3_def\<close>)
  then obtain stage where s3: "link_view s3 = (GetLinkState s2, if st = Linked \<or> st = LinkDisabled then stage else 0,
      case st of Linking \<Rightarrow> FullPower | Linked \<Rightarrow> FullPower
        | LinkDisabled \<Rightarrow> EncoderState (CryptoEncoder (drv s2)) | _ \<Rightarrow> AllClear, st = Linked, True)" by blast
  have "InfoHasDriver (LinkInfo s3)" using s3 by (simp add: link_view_def)
  moreover have "st = AwaitingLink \<Longrightarrow> EncoderState (CryptoEncoder (drv s3)) = AllClear \<and> \<not> LinkActive (drv s3)"
    using s3 by (simp add: link_view_def)
  ultimately have "link_view (th_OnLinkStateChanged TH P st s3) = link_view s3" by (rule changed_view)
  with s3 have "link_view (on_info (LinkInfo_UpdateState st) (th_OnLinkStateChanged TH P st s3)) =
      (st, if st = Linked \<or> st = LinkDisabled then stage else 0,
      case st of Linking \<Rightarrow> FullPower | Linked \<Rightarrow> FullPower
        | LinkDisabled \<Rightarrow> EncoderState (CryptoEncoder (drv s2)) | _ \<Rightarrow> AllClear, st = Linked, True)"
    by (simp add: link_view_def)
  moreover have "Link_ChangeState nested N SH TH P st s =
      on_info (LinkInfo_UpdateState st) (th_OnLinkStateChanged TH P st s3)"
    using ne view_of(1) [OF s1] by (simp add: Link_ChangeState_def Let_def s1_def s2_def s3_def)
  ultimately show ?thesis
    using stage0 by (cases st) (simp_all add: link_inv_def)
qed

lemma UpdateLinkState_inv:
  "link_inv keyed s \<Longrightarrow> enter_ok st s \<Longrightarrow> link_inv keyed (Link_UpdateLinkState N SH TH P st s)"
  unfolding Link_UpdateLinkState_def by (rule ChangeState_inv)

lemma EnterState_drv:
  assumes "actions_ok P" and "Driver_inv (drv s)" and "\<And>s. Driver_inv (drv s) \<Longrightarrow> Driver_inv (drv (nested s))"
  shows "Driver_inv (drv (Link_EnterState nested N SH TH P st s))"
  using assms
  by (cases st)
     (simp_all add: Link_EnterState_def Let_def case_prod_unfold Balancer_SetMaxPower_def Channel_ResetChannel_def
       ClearSession_drv OnStart_inv SetChannel_inv SetTransmitPower_inv notify_drv stamp_drv Driver_Enable_def)

lemma ChangeState_drv:
  assumes "actions_ok P" and "Driver_inv (drv s)" and "\<And>s. Driver_inv (drv s) \<Longrightarrow> Driver_inv (drv (nested s))"
  shows "Driver_inv (drv (Link_ChangeState nested N SH TH P st s))"
  using assms
  by (simp add: Link_ChangeState_def Let_def changed_drv EnterState_drv notify_drv OnStart_inv SetChannel_inv
      Channel_ResetChannel_def ClearSession_drv)

lemma UpdateLinkState_drv:
  "actions_ok P \<Longrightarrow> Driver_inv (drv s) \<Longrightarrow> Driver_inv (drv (Link_UpdateLinkState N SH TH P st s))"
  unfolding Link_UpdateLinkState_def by (intro ChangeState_drv) simp_all

lemma Enable_inv:
  "link_inv keyed s \<Longrightarrow> link_inv keyed (Link_Enable (Link_UpdateLinkState N SH TH) P s)"
  using UpdateLinkState_inv [of "s\<lparr>ServiceEnabled := True\<rparr>" LinkSetup P]
  by (simp add: Link_Enable_def Service_Enable_def link_inv_iff enter_ok_def)

lemma Disable_inv:
  assumes "link_inv keyed s"
  shows "link_inv keyed (Link_Disable (Link_UpdateLinkState N SH TH) P s)"
proof -
  have d: "link_inv keyed (Link_UpdateLinkState N SH TH P LinkDisabled s)" if "link_inv keyed s" for s
    by (rule UpdateLinkState_inv [OF that]) (simp add: enter_ok_def)
  let ?s1 = "Link_UpdateLinkState N SH TH P LinkDisabled s"
  have "link_inv keyed (?s1\<lparr>ServiceEnabled := False\<rparr>)" using d [OF assms] by (simp add: link_inv_iff)
  from d [OF this] d [OF assms] show ?thesis
    by (simp add: Link_Disable_def Service_Disable_def Let_def)
qed

lemma Disable_drv:
  "actions_ok P \<Longrightarrow> Driver_inv (drv s) \<Longrightarrow> Driver_inv (drv (Link_Disable (Link_UpdateLinkState N SH TH) P s))"
  by (simp add: Link_Disable_def Service_Disable_def Let_def UpdateLinkState_drv)

end

section \<open>An end of a link\<close>

text \<open>
  What the handlers of an end promise: each keeps the invariant of the link and that of the driver,
  and while a send is under way only the payload and the state of the class itself is touched.
\<close>

definition keeps_link :: "u8 set \<Rightarrow> (platform \<Rightarrow> 'a LoLaLinkService_scheme \<Rightarrow> 'a LoLaLinkService_scheme) \<Rightarrow> bool" where
  "keeps_link keyed f \<longleftrightarrow> (\<forall>P s. link_inv keyed s \<longrightarrow> link_inv keyed (f P s)) \<and>
     (\<forall>P s. actions_ok P \<longrightarrow> Driver_inv (drv s) \<longrightarrow> Driver_inv (drv (f P s)))"

lemma keeps_linkI:
  "(\<And>P s. link_inv keyed s \<Longrightarrow> link_inv keyed (f P s)) \<Longrightarrow>
   (\<And>P s. actions_ok P \<Longrightarrow> Driver_inv (drv s) \<Longrightarrow> Driver_inv (drv (f P s))) \<Longrightarrow> keeps_link keyed f"
  by (simp add: keeps_link_def)

lemma keeps_linkD:
  "keeps_link keyed f \<Longrightarrow> link_inv keyed s \<Longrightarrow> link_inv keyed (f P s)"
  "keeps_link keyed f \<Longrightarrow> actions_ok P \<Longrightarrow> Driver_inv (drv s) \<Longrightarrow> Driver_inv (drv (f P s))"
  by (simp_all add: keeps_link_def)

text \<open>Functions that change neither the view nor the driver.\<close>

lemma keeps_link_quiet:
  "(\<And>P s. link_view (f P s) = link_view s) \<Longrightarrow> (\<And>P s. drv (f P s) = drv s) \<Longrightarrow> keeps_link keyed f"
  by (simp add: keeps_link_def link_inv_def)

lemma SendPacket_stage [simp]:
  "EncoderState (CryptoEncoder (snd (Driver_SendPacket P p d))) = EncoderState (CryptoEncoder d)"
  "LinkActive (snd (Driver_SendPacket P p d)) = LinkActive d"
  "EncoderState (CryptoEncoder (snd (Driver_AllowedSend P d))) = EncoderState (CryptoEncoder d)"
  "LinkActive (snd (Driver_AllowedSend P d)) = LinkActive d"
  by (simp_all add: Driver_SendPacket_def Driver_EncodeOutgoing_def Driver_Transmit_def Driver_OnTransmitted_def
      Driver_OnTransmitPowerUpdated_def Driver_SetRadioPower_def Driver_AllowedSend_def Driver_IsInSendSlot_def
      fault_if_def case_prod_unfold Let_def lola_frame split: option.split)

lemma link_view_send [simp]:
  "link_view (snd (Service_AllowedSend P s)) = link_view s"
  "link_view (snd (Service_SendPacket P p s)) = link_view s"
  "link_view (Service_SetNextRunASAP s) = link_view s"
  "link_view (Service_SetNextRunDelay n s) = link_view s"
  "link_view (Send_ClearSendRequest s) = link_view s"
  "link_view (snd (Send_ProcessSent h s)) = link_view s"
  "link_view (snd (Send_ProcessAck h i s)) = link_view s"
  by (simp_all add: link_view_def Service_AllowedSend_def Service_SendPacket_def on_drv_result_def
      Send_ClearSendRequest_def Send_ProcessSent_def Send_ProcessAck_def case_prod_unfold Let_def)

lemma drv_inv_send [simp]:
  "Driver_inv (drv s) \<Longrightarrow> Driver_inv (drv (snd (Service_AllowedSend P s)))"
  "actions_ok P \<Longrightarrow> Driver_inv (drv s) \<Longrightarrow> Driver_inv (drv (snd (Service_SendPacket P p s)))"
  "drv (snd (Send_ProcessSent h s)) = drv s"
  "drv (snd (Send_ProcessAck h i s)) = drv s"
  by (simp_all add: Service_AllowedSend_def Service_SendPacket_def on_drv_result_def AllowedSend_inv SendPacket_inv
      Send_ProcessSent_def Send_ProcessAck_def case_prod_unfold Let_def)

text \<open>The callback of a send service whose notifications keep the link.\<close>

definition send_hooks_keep :: "u8 set \<Rightarrow> 'a LoLaLinkService_scheme send_hooks \<Rightarrow> bool" where
  "send_hooks_keep keyed K \<longleftrightarrow>
     (\<forall>h i t. keeps_link keyed (\<lambda>P. hk_OnAckFailed K P h i) \<and> keeps_link keyed (\<lambda>P. hk_OnAckReceived K P h i) \<and>
        keeps_link keyed (\<lambda>P. hk_OnSendOk K P h t)) \<and>
     keeps_link keyed (hk_OnSendFailed K) \<and> keeps_link keyed (hk_OnService K) \<and>
     keeps_link keyed (hk_OnSendTimedOut K) \<and> keeps_link keyed (hk_OnSendDelayed K) \<and>
     keeps_link keyed (hk_OnSendRetrying K) \<and> keeps_link keyed (hk_OnPreSend K)"

lemma link_inv_send_fields [simp]:
  "link_inv keyed (s\<lparr>SendStatus := st\<rparr>) = link_inv keyed s"
  "link_inv keyed (s\<lparr>SendFailures := n\<rparr>) = link_inv keyed s"
  "link_inv keyed (Service_SetNextRunASAP s) = link_inv keyed s"
  "link_inv keyed (Service_SetNextRunDelay d s) = link_inv keyed s"
  "link_inv keyed (Send_ClearSendRequest s) = link_inv keyed s"
  "link_inv keyed (on_drv (fault_if b f) s) = link_inv keyed s"
  by (simp_all add: link_inv_def) (simp_all add: link_view_def fault_if_def)

lemma link_inv_quiet [simp]:
  "link_inv keyed (s\<lparr>ReportPending := b\<rparr>) = link_inv keyed s"
  "link_inv keyed (s\<lparr>InfoSyncStage := y\<rparr>) = link_inv keyed s"
  "link_inv keyed (s\<lparr>SubStateStart := m\<rparr>) = link_inv keyed s"
  "link_inv keyed (s\<lparr>KeyExchanger := k\<rparr>) = link_inv keyed s"
  "link_inv keyed (s\<lparr>KeysLastGenerated := m\<rparr>) = link_inv keyed s"
  "link_inv keyed (s\<lparr>PowerBalancer := pb\<rparr>) = link_inv keyed s"
  "link_inv keyed (on_keys g s) = link_inv keyed s"
  "link_inv keyed (Send_RequestSendPacket P t1 t2 s) = link_inv keyed s"
  "link_inv keyed (Link_PrepareLinkReport b s) = link_inv keyed s"
  "link_inv keyed (Link_PreparePublicKeyPacket y s) = link_inv keyed s"
  "link_inv keyed (Link_PreparePing P s) = link_inv keyed s"
  by (simp_all add: link_inv_iff)

lemma Driver_inv_fault [simp]: "Driver_inv (fault_if b f d) = Driver_inv d"
  by (simp add: fault_if_def Driver_inv_def)

lemma send_hooks_keepD:
  assumes "send_hooks_keep keyed K"
  shows "link_inv keyed s \<Longrightarrow> link_inv keyed (hk_OnAckFailed K P h i s)"
    "link_inv keyed s \<Longrightarrow> link_inv keyed (hk_OnAckReceived K P h i s)"
    "link_inv keyed s \<Longrightarrow> link_inv keyed (hk_OnSendOk K P h t s)"
    "link_inv keyed s \<Longrightarrow> link_inv keyed (hk_OnSendFailed K P s)"
    "link_inv keyed s \<Longrightarrow> link_inv keyed (hk_OnService K P s)"
    "link_inv keyed s \<Longrightarrow> link_inv keyed (hk_OnSendTimedOut K P s)"
    "link_inv keyed s \<Longrightarrow> link_inv keyed (hk_OnSendDelayed K P s)"
    "link_inv keyed s \<Longrightarrow> link_inv keyed (hk_OnSendRetrying K P s)"
    "link_inv keyed s \<Longrightarrow> link_inv keyed (hk_OnPreSend K P s)"
    "actions_ok P \<Longrightarrow> Driver_inv (drv s) \<Longrightarrow> Driver_inv (drv (hk_OnAckFailed K P h i s))"
    "actions_ok P \<Longrightarrow> Driver_inv (drv s) \<Longrightarrow> Driver_inv (drv (hk_OnAckReceived K P h i s))"
    "actions_ok P \<Longrightarrow> Driver_inv (drv s) \<Longrightarrow> Driver_inv (drv (hk_OnSendOk K P h t s))"
    "actions_ok P \<Longrightarrow> Driver_inv (drv s) \<Longrightarrow> Driver_inv (drv (hk_OnSendFailed K P s))"
    "actions_ok P \<Longrightarrow> Driver_inv (drv s) \<Longrightarrow> Driver_inv (drv (hk_OnService K P s))"
    "actions_ok P \<Longrightarrow> Driver_inv (drv s) \<Longrightarrow> Driver_inv (drv (hk_OnSendTimedOut K P s))"
    "actions_ok P \<Longrightarrow> Driver_inv (drv s) \<Longrightarrow> Driver_inv (drv (hk_OnSendDelayed K P s))"
    "actions_ok P \<Longrightarrow> Driver_inv (drv s) \<Longrightarrow> Driver_inv (drv (hk_OnSendRetrying K P s))"
    "actions_ok P \<Longrightarrow> Driver_inv (drv s) \<Longrightarrow> Driver_inv (drv (hk_OnPreSend K P s))"
  using assms by (simp_all add: send_hooks_keep_def keeps_link_def)

lemma Send_sending_keeps:
  assumes K: "send_hooks_keep keyed K"
  shows "keeps_link keyed (\<lambda>P. Send_sending P K)"
proof (rule keeps_linkI)
  fix P and s :: "'a LoLaLinkService_scheme"
  note k = send_hooks_keepD [OF K]
  let ?s1 = "snd (Service_AllowedSend P s)"
  let ?s2 = "hk_OnPreSend K P ?s1"
  let ?s3 = "snd (Service_SendPacket P (Packet ?s2) ?s2)"
  {
    assume s: "link_inv keyed s"
    have s1: "link_inv keyed ?s1" using s by (simp add: link_inv_def)
    have "link_inv keyed ?s2" using s1 by (simp add: k)
    then have s3: "link_inv keyed ?s3" by (simp add: link_inv_def)
    show "link_inv keyed (Send_sending P K s)"
      using s s1 s3 by (simp add: Send_sending_def Let_def case_prod_unfold k)
  }
  {
    assume P: "actions_ok P" and s: "Driver_inv (drv s)"
    have s1: "Driver_inv (drv ?s1)" using s by simp
    have "Driver_inv (drv ?s2)" using P s1 by (simp add: k)
    then have s3: "Driver_inv (drv ?s3)" using P by simp
    show "Driver_inv (drv (Send_sending P K s))"
      using P s s1 s3 by (simp add: Send_sending_def Let_def case_prod_unfold k)
  }
qed

lemma Send_sent_ok_keeps:
  assumes K: "send_hooks_keep keyed K"
  shows "keeps_link keyed (\<lambda>P. Send_sent_ok P K)"
proof (rule keeps_linkI)
  fix P and s :: "'a LoLaLinkService_scheme"
  note k = send_hooks_keepD [OF K]
  show "link_inv keyed (Send_sent_ok P K s)" if "link_inv keyed s"
    using that by (simp add: Send_sent_ok_def Let_def k split: option.split)
  show "Driver_inv (drv (Send_sent_ok P K s))" if "actions_ok P" "Driver_inv (drv s)"
    using that by (simp add: Send_sent_ok_def Let_def k split: option.split)
qed

lemma Send_Callback_keeps:
  assumes K: "send_hooks_keep keyed K"
  shows "keeps_link keyed (\<lambda>P. Send_Callback P K)"
proof (rule keeps_linkI)
  fix P and s :: "'a LoLaLinkService_scheme"
  note k = send_hooks_keepD [OF K] keeps_linkD [OF Send_sending_keeps [OF K]] keeps_linkD [OF Send_sent_ok_keeps [OF K]]
  show "link_inv keyed (Send_Callback P K s)" if "link_inv keyed s"
    using that by (simp add: Send_Callback_def Let_def k split: SendStatusEnum.split)
  show "Driver_inv (drv (Send_Callback P K s))" if "actions_ok P" "Driver_inv (drv s)"
    using that by (simp add: Send_Callback_def Let_def k split: SendStatusEnum.split)
qed

locale link_end = link_state N SH TH keyed
  for N :: "platform \<Rightarrow> bool \<Rightarrow> 'a LoLaLinkService_scheme \<Rightarrow> 'a LoLaLinkService_scheme"
    and SH :: "'a LoLaLinkService_scheme session_hooks"
    and TH :: "'a LoLaLinkService_scheme state_hooks"
    and keyed :: "u8 set" +
  fixes LH :: "'a LoLaLinkService_scheme link_hooks"
  assumes linking: "link_inv keyed s \<Longrightarrow> GetLinkState s = Linking \<Longrightarrow> link_inv keyed (lk_OnLinking LH P s)"
      "actions_ok P \<Longrightarrow> Driver_inv (drv s) \<Longrightarrow> Driver_inv (drv (lk_OnLinking LH P s))"
    and awaiting: "link_inv keyed s \<Longrightarrow> GetLinkState s = AwaitingLink \<Longrightarrow> link_inv keyed (snd (lk_OnAwaitingLink LH P s))"
      "actions_ok P \<Longrightarrow> Driver_inv (drv s) \<Longrightarrow> Driver_inv (drv (snd (lk_OnAwaitingLink LH P s)))"
    and keeping: "keeps_link keyed (lk_OnKeepingLink LH)"
    and received: "keeps_link keyed (lk_OnLinkDiscoveryReceived LH)"
      "keeps_link keyed (\<lambda>P. lk_OnPKCRequestReceived LH P i x)"
      "keeps_link keyed (\<lambda>P. lk_OnRemotePublicKeyReceived LH P i bs)"
      "keeps_link keyed (\<lambda>P. lk_OnRemoteInfoSyncReceived LH P i)"
      "keeps_link keyed (lk_OnHostInfoSyncRequestReceived LH)"
      "keeps_link keyed (\<lambda>P. lk_OnClockSyncRequestReceived LH P i x)"
      "keeps_link keyed (\<lambda>P. lk_OnClockSyncTuneRequestReceived LH P i x)"
      "keeps_link keyed (\<lambda>P. lk_OnIdBroadcastReceived LH P i x)"
      "keeps_link keyed (\<lambda>P. lk_OnHostPublicKeyReceived LH P i bs)"
      "keeps_link keyed (\<lambda>P. lk_OnHostInfoSyncReceived LH P i y)"
      "keeps_link keyed (\<lambda>P. lk_OnClockSyncResponseReceived LH P i x)"
      "keeps_link keyed (\<lambda>P. lk_OnClockSyncTuneResponseReceived LH P i x)"
      "keeps_link keyed (\<lambda>P s. snd (lk_OnAckedPacketReceived LH P p s))"
begin

lemma report_keeps: "keeps_link keyed (\<lambda>P. Link_OnLinkInfoReportReceived P r c)"
  by (rule keeps_link_quiet) (simp_all add: Link_OnLinkInfoReportReceived_def link_view_def)

lemma ProcessPacket_keeps: "keeps_link keyed (\<lambda>P s. snd (Link_ProcessPacket LH P p s))"
proof -
  have pend: "link_inv keyed (s\<lparr>ReportPending := True\<rparr>) = link_inv keyed s" for s :: "'a LoLaLinkService_scheme"
    by (simp add: link_inv_iff)
  have "keeps_link keyed (\<lambda>P s. Link_ProcessReport LH P p s)"
    by (rule keeps_linkI)
       (simp_all add: Link_ProcessReport_def Let_def keeps_linkD [OF report_keeps] received [THEN keeps_linkD(1)]
         received [THEN keeps_linkD(2)] pend)
  moreover have "keeps_link keyed (\<lambda>P s. Link_ProcessShort LH P p s)" "keeps_link keyed (\<lambda>P s. Link_ProcessLong LH P p s)"
    by (rule keeps_linkI; simp add: Link_ProcessShort_def Link_ProcessLong_def Let_def
        received [THEN keeps_linkD(1)] received [THEN keeps_linkD(2)])+
  ultimately show ?thesis
    by (simp add: Link_ProcessPacket_def keeps_link_def Let_def)
qed

lemma ProcessAckedPacket_keeps: "keeps_link keyed (\<lambda>P s. snd (Link_ProcessAckedPacket LH P p s))"
  using received(13) [of p] by (simp add: Link_ProcessAckedPacket_def keeps_link_def)

lemma keeping_common_keeps: "keeps_link keyed (Link_OnKeepingLinkCommon (lk_OnKeepingLink LH))"
proof -
  have bal: "LinkState (fst (snd (snd (Balancer_Update P b i d)))) = LinkState i"
    "InfoHasDriver (fst (snd (snd (Balancer_Update P b i d)))) = InfoHasDriver i"
    "CryptoEncoder (snd (snd (snd (Balancer_Update P b i d)))) = CryptoEncoder d"
    "LinkActive (snd (snd (snd (Balancer_Update P b i d)))) = LinkActive d"
    "actions_ok P \<Longrightarrow> Driver_inv d \<Longrightarrow> Driver_inv (snd (snd (snd (Balancer_Update P b i d))))" for P b i d
    by (simp_all add: Balancer_Update_def Balancer_SetMaxPower_def case_prod_unfold Let_def SetTransmitPower_inv)
  have inv: "link_inv keyed (s\<lparr>PowerBalancer := fst (snd (Balancer_Update P b (LinkInfo s) (drv s))),
      LinkInfo := fst (snd (snd (Balancer_Update P b (LinkInfo s) (drv s)))),
      drv := snd (snd (snd (Balancer_Update P b (LinkInfo s) (drv s))))\<rparr>) = link_inv keyed s"
    for P b and s :: "'a LoLaLinkService_scheme"
    by (simp add: link_inv_iff bal)
  show ?thesis
    by (rule keeps_linkI)
       (simp_all add: Link_OnKeepingLinkCommon_def case_prod_unfold Let_def keeps_linkD [OF keeping] inv bal)
qed

lemma OnService_keeps: "keeps_link keyed (Link_OnService (Link_UpdateLinkState N SH TH) LH)"
proof (rule keeps_linkI)
  fix P and s :: "'a LoLaLinkService_scheme"
  let ?keys = "(on_keys (\<lambda>k. snd (KeyExchanger_GenerateNewKeyPair P k)) s)\<lparr>KeysLastGenerated := millis_now P\<rparr>"
  have keys: "link_inv keyed ?keys = link_inv keyed s" by (simp add: link_inv_iff)
  have easy: "enter_ok AwaitingLink t" "enter_ok AwaitingSleeping t" for t :: "'a LoLaLinkService_scheme"
    by (simp_all add: enter_ok_def)
  show "link_inv keyed (Link_OnService (Link_UpdateLinkState N SH TH) LH P s)" if s: "link_inv keyed s"
    using s linking(1) [OF s] awaiting(1) [OF s]
    by (cases "GetLinkState s")
       (simp_all add: Link_OnService_def Let_def case_prod_unfold keys UpdateLinkState_inv easy Disable_inv
         keeps_linkD [OF keeping_common_keeps])
  show "Driver_inv (drv (Link_OnService (Link_UpdateLinkState N SH TH) LH P s))"
    if "actions_ok P" "Driver_inv (drv s)"
    using that linking(2) [OF that] awaiting(2) [OF that]
    by (cases "GetLinkState s")
       (simp_all add: Link_OnService_def Let_def case_prod_unfold UpdateLinkState_drv Disable_drv
         keeps_linkD [OF keeping_common_keeps])
qed

end

text \<open>The parts of the send hooks both ends take over.\<close>

lemma keeps_link_common [simp]:
  "keeps_link keyed (\<lambda>P. Link_OnSendOk P h t)" "keeps_link keyed Link_OnSendFailed"
  "keeps_link keyed (\<lambda>P. Service_SetNextRunASAP)" "keeps_link keyed (\<lambda>P s. s)"
  by (auto intro!: keeps_link_quiet simp: Link_OnSendOk_def Link_OnSendFailed_def link_view_def Let_def)

end
