(* ===== verification/Link_Ends.thy ===== *)
theory Link_Ends
  imports Link_Safety
begin

text \<open>Host and remote keep the contracts of \<open>Link_Safety\<close>.\<close>

section \<open>Moves inside a state\<close>

lemma link_inv_stage:
  assumes "link_inv keyed s"
    and "GetLinkState s = AwaitingLink \<Longrightarrow> x \<in> keyed \<Longrightarrow> EncoderState (CryptoEncoder (drv s)) = AllReady"
  shows "link_inv keyed (Link_SetLinkingState x s)"
  using assms by (simp add: link_inv_iff)

lemma link_inv_info [simp]:
  "LinkState (f (LinkInfo s)) = LinkState (LinkInfo s) \<Longrightarrow> InfoHasDriver (f (LinkInfo s)) = InfoHasDriver (LinkInfo s) \<Longrightarrow>
    link_inv keyed (on_info f s) = link_inv keyed s"
  by (simp add: link_inv_iff)

lemma link_inv_rtt [simp]: "link_inv keyed (on_info_drv (LinkInfo_SetRTT x) s) = link_inv keyed s"
  by (simp add: link_inv_iff)

lemma LinkInfo_GetLocalId_frame [simp]:
  "LinkState (snd (LinkInfo_GetLocalId P i)) = LinkState i"
  "InfoHasDriver (snd (LinkInfo_GetLocalId P i)) = InfoHasDriver i"
  by (simp_all add: LinkInfo_GetLocalId_def case_prod_unfold Let_def)

lemma link_inv_resend:
  "link_inv keyed s \<Longrightarrow> (link_inv keyed s \<Longrightarrow> link_inv keyed (prepare s)) \<Longrightarrow> link_inv keyed (Link_resend period prepare P s)"
  by (simp add: Link_resend_def)

lemma drv_resend:
  "Driver_inv (drv s) \<Longrightarrow> (Driver_inv (drv s) \<Longrightarrow> Driver_inv (drv (prepare s))) \<Longrightarrow>
    Driver_inv (drv (Link_resend period prepare P s))"
  by (simp add: Link_resend_def)

text \<open>A session that ends while no link is up leaves a clear encoder.\<close>

lemma SharedSecret_inv:
  assumes "link_inv keyed s" and "GetLinkState s = AwaitingLink"
  shows "fst (Link_SharedSecret P s) \<Longrightarrow> link_inv keyed (Link_SetLinkingState x (snd (Link_SharedSecret P s)))"
    and "LinkingState s \<notin> keyed \<Longrightarrow> link_inv keyed (snd (Link_SharedSecret P s))"
proof -
  let ?s = "snd (Link_SharedSecret P s)"
  have same: "EncoderState (CryptoEncoder (drv ?s)) = EncoderState (CryptoEncoder (drv s))" if "\<not> fst (Link_SharedSecret P s)"
    using that by (auto simp: Link_SharedSecret_def case_prod_unfold Let_def
      intro: Encoder_SetSecretKey_failure [OF prod_eqI])
  show "link_inv keyed (Link_SetLinkingState x ?s)" if "fst (Link_SharedSecret P s)"
    using assms SharedSecret_stage [OF that] by (simp add: link_inv_iff)
  show "link_inv keyed ?s" if "LinkingState s \<notin> keyed"
    using assms that same SharedSecret_stage [of P s]
    by (cases "fst (Link_SharedSecret P s)") (simp_all add: link_inv_iff)
qed

context link_state
begin

lemma Clear_inv:
  assumes "link_inv keyed s" and "GetLinkState s = AwaitingLink"
  shows "LinkingState s \<notin> keyed \<Longrightarrow> link_inv keyed (Link_ClearSession SH P s)"
    and "x \<notin> keyed \<Longrightarrow> link_inv keyed (Link_SetLinkingState x (Link_ClearSession SH P s))"
proof -
  have "link_view (Link_ClearSession SH P s) = (AwaitingLink, LinkingState s, AllClear, False, True)"
    using ClearSession_view [of s P] assms by (simp add: link_inv_iff)
  note v = this view_of [OF trans [OF this sym [OF this]]]
  show "LinkingState s \<notin> keyed \<Longrightarrow> link_inv keyed (Link_ClearSession SH P s)"
    by (simp add: link_inv_def v(1))
  then show "x \<notin> keyed \<Longrightarrow> link_inv keyed (Link_SetLinkingState x (Link_ClearSession SH P s))"
    using v(1) by (simp add: link_inv_iff link_view_def)
qed

end

section \<open>Host\<close>

definition host_keyed :: "u8 set" where
  "host_keyed = {Host_GotSharedKey, Host_LinkingSwitchOver}"

lemma Host_state:
  assumes "\<And>P b s. link_view (N P b s) = link_view s"
    and "\<And>P b s. actions_ok P \<Longrightarrow> Driver_inv (drv s) \<Longrightarrow> Driver_inv (drv (N P b s))"
  shows "link_state N Host_session_hooks Host_state_hooks host_keyed"
proof
  fix P b st and s :: "'a LoLaLinkHostService_scheme"
  show "link_view (N P b s) = link_view s" by (rule assms)
  show "Driver_inv (drv (N P b s))" if "actions_ok P" "Driver_inv (drv s)" by (rule assms(2) [OF that])
  have syncer: "CryptoEncoder (snd (HostSyncer_Reset P c d)) = CryptoEncoder d"
    "LinkActive (snd (HostSyncer_Reset P c d)) = LinkActive d"
    "Driver_inv (snd (HostSyncer_Reset P c d)) = Driver_inv d" for c d
    by (simp_all add: HostSyncer_Reset_def Syncer_SetRandom_def Let_def)
  show "link_view (sh_SyncerReset Host_session_hooks P s) = link_view s"
    "link_view (sh_TransactionReset Host_session_hooks s) = link_view s"
    "link_view (sh_OnClearSession Host_session_hooks s) = link_view s"
    "Driver_inv (drv (sh_SyncerReset Host_session_hooks P s)) = Driver_inv (drv s)"
    "drv (sh_TransactionReset Host_session_hooks s) = drv s"
    "drv (sh_OnClearSession Host_session_hooks s) = drv s"
    "link_view (th_StampSynced Host_state_hooks P s) = link_view s"
    "drv (th_StampSynced Host_state_hooks P s) = drv s"
    by (simp_all add: Host_session_hooks_def Host_state_hooks_def link_view_def case_prod_unfold Let_def syncer)
  show "(0 :: u8) \<notin> host_keyed" by (simp add: host_keyed_def lola_consts)
  have clear: "InfoHasDriver (LinkInfo s) \<Longrightarrow> link_view (Host_NewSession P s) = (GetLinkState s, LinkingState s, AllClear, False, True)"
    "Driver_inv (drv s) \<Longrightarrow> Driver_inv (drv (Host_NewSession P s))"
    by (simp_all add: Host_NewSession_def Link_ClearSession_def Host_session_hooks_def link_view_def
        case_prod_unfold Let_def syncer)
  show "link_view (th_OnLinkStateChanged Host_state_hooks P st s) = link_view s"
    if "InfoHasDriver (LinkInfo s)" "st = AwaitingLink \<Longrightarrow> EncoderState (CryptoEncoder (drv s)) = AllClear \<and> \<not> LinkActive (drv s)"
    using that clear(1)
    by (cases st) (simp_all add: Host_state_hooks_def Host_OnLinkStateChanged_def, simp_all add: link_view_def)
  show "Driver_inv (drv (th_OnLinkStateChanged Host_state_hooks P st s))" if "Driver_inv (drv s)"
    using that clear(2) by (cases st) (simp_all add: Host_state_hooks_def Host_OnLinkStateChanged_def)
qed


text \<open>The handlers of the host while it waits for a link.\<close>

lemma Host_restart:
  assumes "link_inv host_keyed s" and "GetLinkState s = AwaitingLink"
  shows "link_inv host_keyed (Host_RestartAwaitingLink P (Host_ClearSession P s))"
proof -
  have "link_state (\<lambda>P b s. s) Host_session_hooks Host_state_hooks host_keyed" by (rule Host_state) simp_all
  from link_state.Clear_inv(2) [OF this assms, of Host_BroadcastingOpenSession P]
  show ?thesis by (simp add: Host_RestartAwaitingLink_def host_keyed_def lola_consts)
qed

lemma Host_session:
  assumes "link_inv host_keyed s" and "GetLinkState s = AwaitingLink" and "LinkingState s \<notin> host_keyed"
  shows "link_inv host_keyed (Host_NewSession P s)"
proof -
  have "link_state (\<lambda>P b s. s) Host_session_hooks Host_state_hooks host_keyed" by (rule Host_state) simp_all
  from link_state.Clear_inv(1) [OF this assms, of P]
  show ?thesis by (simp add: Host_NewSession_def)
qed

lemma Host_clear_drv:
  "Driver_inv (drv s) \<Longrightarrow> Driver_inv (drv (Host_ClearSession P s))"
  using link_state.ClearSession_drv [OF Host_state [of "\<lambda>P b s. s"]] by simp

lemma link_inv_host_fields [simp]:
  "link_inv keyed (s\<lparr>HostClockSyncer := a\<rparr>) = link_inv keyed s"
  "link_inv keyed (s\<lparr>HostClockSyncTransaction := b\<rparr>) = link_inv keyed s"
  "link_inv keyed (s\<lparr>PingAcked := c\<rparr>) = link_inv keyed s"
  "link_inv keyed (s\<lparr>LatencyMeter := d\<rparr>) = link_inv keyed s"
  "link_inv keyed (s\<lparr>SessionLastStarted := e\<rparr>) = link_inv keyed s"
  by (simp_all add: link_inv_iff)

lemma Host_prepare_keeps [simp]:
  "link_inv keyed (Host_PrepareIdBroadcast P s) = link_inv keyed s"
  "link_inv keyed (Host_PrepareLinkProtocolSwitchOver s) = link_inv keyed s"
  "link_inv keyed (Host_PrepareCryptoStartRequest P s) = link_inv keyed s"
  "link_inv keyed (Host_PrepareHostInfoSync s) = link_inv keyed s"
  "link_inv keyed (Host_PrepareInfoSyncRequest s) = link_inv keyed s"
  "link_inv keyed (Host_PrepareClockSyncResponse i x s) = link_inv keyed s"
  "link_inv keyed (Host_PrepareClockSyncTuneResponse i x s) = link_inv keyed s"
  "drv (Host_PrepareIdBroadcast P s) = drv s"
  "drv (Host_PrepareLinkProtocolSwitchOver s) = drv s"
  "Driver_inv (drv (Host_PrepareCryptoStartRequest P s)) = Driver_inv (drv s)"
  "drv (Host_PrepareHostInfoSync s) = drv s"
  "drv (Host_PrepareInfoSyncRequest s) = drv s"
  "drv (Host_PrepareClockSyncResponse i x s) = drv s"
  "drv (Host_PrepareClockSyncTuneResponse i x s) = drv s"
  by (simp_all add: link_inv_iff Host_PrepareIdBroadcast_def Host_PrepareLinkProtocolSwitchOver_def
      Host_PrepareCryptoStartRequest_def Host_PrepareHostInfoSync_def Host_PrepareInfoSyncRequest_def
      Host_PrepareClockSyncResponse_def Host_PrepareClockSyncTuneResponse_def case_prod_unfold Let_def)


lemma Host_awaiting_keeps:
  assumes N: "link_state N Host_session_hooks Host_state_hooks host_keyed"
  shows "link_inv host_keyed s \<Longrightarrow> GetLinkState s = AwaitingLink \<Longrightarrow> link_inv host_keyed (snd (Host_OnAwaitingLink N P s))"
    and "actions_ok P \<Longrightarrow> Driver_inv (drv s) \<Longrightarrow> Driver_inv (drv (snd (Host_OnAwaitingLink N P s)))"
proof -
  have stage: "Host_SendingPublicKey \<notin> host_keyed" "Host_BroadcastingOpenSession \<notin> host_keyed"
    "Host_ProcessingPKC \<notin> host_keyed" "Host_GotSharedKey \<in> host_keyed" "Host_LinkingSwitchOver \<in> host_keyed"
    "0 \<notin> host_keyed"
    by (simp_all add: host_keyed_def lola_consts)
  show "link_inv host_keyed (snd (Host_OnAwaitingLink N P s))"
    if s: "link_inv host_keyed s" "GetLinkState s = AwaitingLink"
  proof -
    have b: "link_inv host_keyed (Host_BroadcastSession P s)" if "LinkingState s = Host_BroadcastingOpenSession"
      using s stage(2) that Host_session [OF s, of P]
      by (simp add: Host_BroadcastSession_def Let_def link_inv_resend)
    have v: "link_inv host_keyed (Host_ValidatePartner P s)"
      using s stage(1) by (simp add: Host_ValidatePartner_def case_prod_unfold Let_def link_inv_iff lola_frame)
    have k: "link_inv host_keyed (Host_RestartAwaitingLink P (Host_ClearSession P (snd (Link_SharedSecret P s))))"
      if "LinkingState s = Host_ProcessingPKC"
      using SharedSecret_inv(2) [OF s, of P] that stage(3) s by (intro Host_restart) simp_all
    have u: "link_inv host_keyed (Host_UpdateLinkState N P Linking s)" if "LinkingState s = Host_LinkingSwitchOver"
      by (rule link_state.UpdateLinkState_inv [OF N s(1)]) (use s that stage(5) in \<open>simp add: enter_ok_def link_inv_iff\<close>)
    have r: "link_inv host_keyed (Link_resend period prepare P s)" if "\<And>s. link_inv host_keyed (prepare s) = link_inv host_keyed s" for period prepare
      using s that by (simp add: link_inv_resend)
    have z: "link_inv host_keyed (Link_SetLinkingState 0 s)"
      by (rule link_inv_stage [OF s(1)]) (use stage(6) in simp)
    show ?thesis
      using s b v k u z Host_restart [OF s, of P] SharedSecret_inv(1) [OF s, of P]
      by (simp add: Host_OnAwaitingLink_def case_prod_unfold Let_def r)
  qed
  show "Driver_inv (drv (snd (Host_OnAwaitingLink N P s)))" if P: "actions_ok P" and s: "Driver_inv (drv s)"
  proof -
    have b: "Driver_inv (drv (Host_BroadcastSession P s))" "Driver_inv (drv (Host_ValidatePartner P s))"
      using s
      by (simp_all add: Host_clear_drv Host_BroadcastSession_def Host_NewSession_def Host_ValidatePartner_def
          Host_RestartAwaitingLink_def case_prod_unfold Let_def drv_resend)
    have c: "Driver_inv (drv (Host_RestartAwaitingLink P (Host_ClearSession P t)))" if "Driver_inv (drv t)"
      for t :: "'a LoLaLinkHostService_scheme"
      using that by (simp add: Host_clear_drv Host_RestartAwaitingLink_def)
    have r: "Driver_inv (drv (Link_resend period prepare P s))"
      if "\<And>s. Driver_inv (drv (prepare s)) = Driver_inv (drv s)" for period prepare
      using s that by (simp add: drv_resend)
    show ?thesis
      using s b by (simp add: Host_OnAwaitingLink_def case_prod_unfold Let_def link_state.UpdateLinkState_drv [OF N P] c r)
  qed
qed

lemma Host_linking_keeps:
  assumes N: "link_state N Host_session_hooks Host_state_hooks host_keyed"
  shows "link_inv host_keyed s \<Longrightarrow> GetLinkState s = Linking \<Longrightarrow> link_inv host_keyed (Host_OnLinking N P s)"
    and "actions_ok P \<Longrightarrow> Driver_inv (drv s) \<Longrightarrow> Driver_inv (drv (Host_OnLinking N P s))"
proof -
  show "link_inv host_keyed (Host_OnLinking N P s)" if s: "link_inv host_keyed s" "GetLinkState s = Linking"
  proof -
    have "link_inv host_keyed (Host_OnInfoSync P s)" "link_inv host_keyed (Host_OnClockSync P s)"
      using s by (simp_all add: Host_OnInfoSync_def Host_OnClockSync_def Let_def link_inv_resend)
    moreover have "link_inv host_keyed (Host_UpdateLinkState N P st s)" if "st = Linked \<or> st = AwaitingLink" for st
      by (rule link_state.UpdateLinkState_inv [OF N s(1)]) (use s that in \<open>auto simp: enter_ok_def\<close>)
    moreover have "link_inv host_keyed (Link_SetLinkingState x s)" for x
      by (rule link_inv_stage [OF s(1)]) (use s in simp)
    ultimately show ?thesis
      using s by (simp add: Host_OnLinking_def link_inv_resend)
  qed
  show "Driver_inv (drv (Host_OnLinking N P s))" if P: "actions_ok P" and s: "Driver_inv (drv s)"
  proof -
    have "Driver_inv (drv (Host_OnInfoSync P s))" "Driver_inv (drv (Host_OnClockSync P s))"
      using s by (simp_all add: Host_OnInfoSync_def Host_OnClockSync_def Let_def drv_resend)
    then show ?thesis
      using s by (simp add: Host_OnLinking_def link_state.UpdateLinkState_drv [OF N P] drv_resend)
  qed
qed


lemma Host_end:
  assumes N: "link_state N Host_session_hooks Host_state_hooks host_keyed"
  shows "link_end N Host_session_hooks Host_state_hooks host_keyed (Host_link_hooks N)"
proof (rule link_end.intro [OF N], unfold_locales)
  fix P and s :: "'a LoLaLinkHostService_scheme" and i and x and bs and y and p
  have stage: "Host_ValidatingPartner \<notin> host_keyed" "Host_ProcessingPKC \<notin> host_keyed"
    by (simp_all add: host_keyed_def lola_consts)
  show "link_inv host_keyed s \<Longrightarrow> GetLinkState s = Linking \<Longrightarrow> link_inv host_keyed (lk_OnLinking (Host_link_hooks N) P s)"
    "actions_ok P \<Longrightarrow> Driver_inv (drv s) \<Longrightarrow> Driver_inv (drv (lk_OnLinking (Host_link_hooks N) P s))"
    using Host_linking_keeps [OF N] by (simp_all add: Host_link_hooks_def)
  show "link_inv host_keyed s \<Longrightarrow> GetLinkState s = AwaitingLink \<Longrightarrow> link_inv host_keyed (snd (lk_OnAwaitingLink (Host_link_hooks N) P s))"
    "actions_ok P \<Longrightarrow> Driver_inv (drv s) \<Longrightarrow> Driver_inv (drv (snd (lk_OnAwaitingLink (Host_link_hooks N) P s)))"
    using Host_awaiting_keeps [OF N] by (simp_all add: Host_link_hooks_def)
  show "keeps_link host_keyed (lk_OnKeepingLink (Host_link_hooks N))"
    by (rule keeps_linkI) (simp_all add: Host_link_hooks_def Host_OnKeepingLink_def case_prod_unfold Let_def)
  show "keeps_link host_keyed (lk_OnLinkDiscoveryReceived (Host_link_hooks N))"
    by (rule keeps_linkI) (simp_all add: Host_link_hooks_def Host_OnLinkDiscoveryReceived_def)
  show "keeps_link host_keyed (\<lambda>P. lk_OnPKCRequestReceived (Host_link_hooks N) P i x)"
    by (rule keeps_linkI) (auto simp: Host_link_hooks_def Host_OnPKCRequestReceived_def stage intro!: link_inv_stage)
  show "keeps_link host_keyed (\<lambda>P. lk_OnRemotePublicKeyReceived (Host_link_hooks N) P i bs)"
    by (rule keeps_linkI)
       (auto simp: Host_link_hooks_def Host_OnRemotePublicKeyReceived_def case_prod_unfold Let_def stage intro!: link_inv_stage)
  show "keeps_link host_keyed (\<lambda>P. lk_OnRemoteInfoSyncReceived (Host_link_hooks N) P i)"
    by (rule keeps_linkI) (simp_all add: Host_link_hooks_def Host_OnRemoteInfoSyncReceived_def)
  show "keeps_link host_keyed (\<lambda>P. lk_OnClockSyncRequestReceived (Host_link_hooks N) P i x)"
    by (rule keeps_linkI)
       (auto simp: Host_link_hooks_def Host_OnClockSyncRequestReceived_def Let_def intro!: link_inv_stage)
  show "keeps_link host_keyed (\<lambda>P. lk_OnClockSyncTuneRequestReceived (Host_link_hooks N) P i x)"
    by (rule keeps_linkI) (simp_all add: Host_link_hooks_def Host_OnClockSyncTuneRequestReceived_def)
qed (simp_all add: Host_link_hooks_def Link_default_hooks_def keeps_link_def)

lemma Host_handlers_keep [simp]:
  "keeps_link host_keyed (\<lambda>P. Host_OnAckReceived P h i)" "keeps_link host_keyed Host_OnPreSend"
proof -
  show "keeps_link host_keyed (\<lambda>P. Host_OnAckReceived P h i)"
    by (rule keeps_linkI)
       (auto simp: Host_OnAckReceived_def Host_OnPingAckReceived_def Host_OnLinkAckReceived_def case_prod_unfold Let_def
         link_inv_iff host_keyed_def)
  show "keeps_link host_keyed Host_OnPreSend"
    by (rule keeps_linkI) (simp_all add: Host_OnPreSend_def)
qed

lemma Host_send:
  assumes N: "link_state N Host_session_hooks Host_state_hooks host_keyed"
  shows "send_hooks_keep host_keyed (Host_send_hooks N)"
  using link_end.OnService_keeps [OF Host_end [OF N]]
  by (simp add: send_hooks_keep_def Host_send_hooks_def Send_default_hooks_def Host_OnService_def)

section \<open>Remote\<close>

definition remote_keyed :: "u8 set" where
  "remote_keyed = {Remote_SendingPublicKey, Remote_LinkingSwitchOver}"

lemma Remote_state:
  assumes "\<And>P b s. link_view (N P b s) = link_view s"
    and "\<And>P b s. actions_ok P \<Longrightarrow> Driver_inv (drv s) \<Longrightarrow> Driver_inv (drv (N P b s))"
  shows "link_state N Remote_session_hooks Remote_state_hooks remote_keyed"
proof
  fix P b st and s :: "'a LoLaLinkRemoteService_scheme"
  show "link_view (N P b s) = link_view s" by (rule assms)
  show "Driver_inv (drv (N P b s))" if "actions_ok P" "Driver_inv (drv s)" by (rule assms(2) [OF that])
  show "link_view (sh_SyncerReset Remote_session_hooks P s) = link_view s"
    "link_view (sh_TransactionReset Remote_session_hooks s) = link_view s"
    "link_view (sh_OnClearSession Remote_session_hooks s) = link_view s"
    "Driver_inv (drv (sh_SyncerReset Remote_session_hooks P s)) = Driver_inv (drv s)"
    "drv (sh_TransactionReset Remote_session_hooks s) = drv s"
    "drv (sh_OnClearSession Remote_session_hooks s) = drv s"
    "link_view (th_StampSynced Remote_state_hooks P s) = link_view s"
    "drv (th_StampSynced Remote_state_hooks P s) = drv s"
    by (simp_all add: Remote_session_hooks_def Remote_state_hooks_def link_view_def)
  show "(0 :: u8) \<notin> remote_keyed" by (simp add: remote_keyed_def lola_consts)
  show "link_view (th_OnLinkStateChanged Remote_state_hooks P st s) = link_view s"
    by (cases st) (simp_all add: Remote_state_hooks_def Remote_OnLinkStateChanged_def, simp_all add: link_view_def)
  show "Driver_inv (drv (th_OnLinkStateChanged Remote_state_hooks P st s))" if "Driver_inv (drv s)"
    using that by (cases st) (simp_all add: Remote_state_hooks_def Remote_OnLinkStateChanged_def)
qed

lemma Remote_restart:
  assumes "link_inv remote_keyed s" and "GetLinkState s = AwaitingLink"
  shows "link_inv remote_keyed (Remote_RestartSearch P s)"
proof -
  have "link_state (\<lambda>P b s. s) Remote_session_hooks Remote_state_hooks remote_keyed" by (rule Remote_state) simp_all
  from link_state.Clear_inv(2) [OF this assms, of Remote_SearchingForHost P]
  show ?thesis by (simp add: Remote_RestartSearch_def remote_keyed_def lola_consts)
qed

lemma Remote_restart_drv:
  "Driver_inv (drv s) \<Longrightarrow> Driver_inv (drv (Remote_RestartSearch P s))"
  using link_state.ClearSession_drv [OF Remote_state [of "\<lambda>P b s. s"]] by (simp add: Remote_RestartSearch_def)

lemma link_inv_remote_fields [simp]:
  "link_inv keyed (s\<lparr>RemoteClockSyncer := a\<rparr>) = link_inv keyed s"
  "link_inv keyed (s\<lparr>RemoteClockSyncTransaction := b\<rparr>) = link_inv keyed s"
  by (simp_all add: link_inv_iff)

lemma Remote_prepare_keeps [simp]:
  "link_inv keyed (Remote_PrepareLinkDiscovery s) = link_inv keyed s"
  "link_inv keyed (Remote_PreparePKCStartRequest P s) = link_inv keyed s"
  "link_inv keyed (Remote_PrepareRemoteInfoSync s) = link_inv keyed s"
  "link_inv keyed (Remote_PrepareClockSyncRequest i s) = link_inv keyed s"
  "link_inv keyed (Remote_PrepareClockSyncTuneRequest i s) = link_inv keyed s"
  "drv (Remote_PrepareLinkDiscovery s) = drv s"
  "drv (Remote_PreparePKCStartRequest P s) = drv s"
  "drv (Remote_PrepareRemoteInfoSync s) = drv s"
  "drv (Remote_PrepareClockSyncRequest i s) = drv s"
  "drv (Remote_PrepareClockSyncTuneRequest i s) = drv s"
  by (simp_all add: link_inv_iff Remote_PrepareLinkDiscovery_def Remote_PreparePKCStartRequest_def
      Remote_PrepareRemoteInfoSync_def Remote_PrepareClockSyncRequest_def Remote_PrepareClockSyncTuneRequest_def
      case_prod_unfold Let_def)

lemma RemoteSyncer_drv [simp]:
  "CryptoEncoder (snd (RemoteSyncer_OnEstimationErrorReceived x c d)) = CryptoEncoder d"
  "LinkActive (snd (RemoteSyncer_OnEstimationErrorReceived x c d)) = LinkActive d"
  "Driver_inv (snd (RemoteSyncer_OnEstimationErrorReceived x c d)) = Driver_inv d"
  "CryptoEncoder (snd (snd (RemoteSyncer_OnTuneErrorReceived P x c d))) = CryptoEncoder d"
  "LinkActive (snd (snd (RemoteSyncer_OnTuneErrorReceived P x c d))) = LinkActive d"
  "Driver_inv (snd (snd (RemoteSyncer_OnTuneErrorReceived P x c d))) = Driver_inv d"
  by (simp_all add: RemoteSyncer_OnEstimationErrorReceived_def RemoteSyncer_OnTuneErrorReceived_def
      Syncer_AddOffsetMicros_def Let_def)


lemma Remote_awaiting_keeps:
  assumes N: "link_state N Remote_session_hooks Remote_state_hooks remote_keyed"
  shows "link_inv remote_keyed s \<Longrightarrow> GetLinkState s = AwaitingLink \<Longrightarrow> link_inv remote_keyed (snd (Remote_OnAwaitingLink N P s))"
    and "actions_ok P \<Longrightarrow> Driver_inv (drv s) \<Longrightarrow> Driver_inv (drv (snd (Remote_OnAwaitingLink N P s)))"
proof -
  have stage: "Remote_AwaitingHostPublicKey \<notin> remote_keyed" "Remote_ProcessingSharedKey \<notin> remote_keyed"
    "Remote_LinkingSwitchOver \<in> remote_keyed"
    by (simp_all add: remote_keyed_def lola_consts)
  show "link_inv remote_keyed (snd (Remote_OnAwaitingLink N P s))"
    if s: "link_inv remote_keyed s" "GetLinkState s = AwaitingLink"
  proof -
    have v: "link_inv remote_keyed (Remote_ValidatePartner P s)"
      using s stage(1) by (simp add: Remote_ValidatePartner_def case_prod_unfold Let_def link_inv_iff lola_frame)
    have k: "link_inv remote_keyed (Remote_RestartSearch P (snd (Link_SharedSecret P s)))"
      if "LinkingState s = Remote_ProcessingSharedKey"
      using SharedSecret_inv(2) [OF s, of P] that stage(2) s by (intro Remote_restart) simp_all
    have k2: "link_inv remote_keyed (Link_SetLinkingState x (Link_ResetLastSentTimeStamp (snd (Link_SharedSecret P s))))"
      if "fst (Link_SharedSecret P s)" for x
      using SharedSecret_inv(1) [OF s that, of x] by (simp add: link_inv_iff)
    have u: "link_inv remote_keyed (Remote_UpdateLinkState N P Linking s)" if "LinkingState s = Remote_LinkingSwitchOver"
      by (rule link_state.UpdateLinkState_inv [OF N s(1)]) (use s that stage(3) in \<open>simp add: enter_ok_def link_inv_iff\<close>)
    have r: "link_inv remote_keyed (Link_resend period prepare P s)" if "\<And>s. link_inv remote_keyed (prepare s) = link_inv remote_keyed s" for period prepare
      using s that by (simp add: link_inv_resend)
    show ?thesis
      using s v k k2 u Remote_restart [OF s, of P]
      by (simp add: Remote_OnAwaitingLink_def case_prod_unfold Let_def r)
  qed
  show "Driver_inv (drv (snd (Remote_OnAwaitingLink N P s)))" if P: "actions_ok P" and s: "Driver_inv (drv s)"
  proof -
    have v: "Driver_inv (drv (Remote_ValidatePartner P s))"
      using s by (simp add: Remote_ValidatePartner_def case_prod_unfold Let_def)
    have r: "Driver_inv (drv (Link_resend period prepare P s))"
      if "\<And>s. Driver_inv (drv (prepare s)) = Driver_inv (drv s)" for period prepare
      using s that by (simp add: drv_resend)
    show ?thesis
      using s v by (simp add: Remote_OnAwaitingLink_def case_prod_unfold Let_def link_state.UpdateLinkState_drv [OF N P]
          Remote_restart_drv r)
  qed
qed

lemma Remote_linking_keeps:
  assumes N: "link_state N Remote_session_hooks Remote_state_hooks remote_keyed"
  shows "link_inv remote_keyed s \<Longrightarrow> GetLinkState s = Linking \<Longrightarrow> link_inv remote_keyed (Remote_OnLinking N P s)"
    and "actions_ok P \<Longrightarrow> Driver_inv (drv s) \<Longrightarrow> Driver_inv (drv (Remote_OnLinking N P s))"
proof -
  have take: "link_inv remote_keyed (Remote_TakeEstimation P s) = link_inv remote_keyed s"
    "Driver_inv (drv (Remote_TakeEstimation P s)) = Driver_inv (drv s)" for s :: "'a LoLaLinkRemoteService_scheme"
    by (simp_all add: Remote_TakeEstimation_def case_prod_unfold Let_def link_inv_iff)
  have sync: "link_inv remote_keyed (Remote_OnClockSync P s) = link_inv remote_keyed s"
    "Driver_inv (drv (Remote_OnClockSync P s)) = Driver_inv (drv s)"
    by (simp_all add: Remote_OnClockSync_def Let_def take)
  show "link_inv remote_keyed (Remote_OnLinking N P s)" if s: "link_inv remote_keyed s" "GetLinkState s = Linking"
  proof -
    have i: "link_inv remote_keyed (snd (Remote_OnInfoSync P s))" "GetLinkState (snd (Remote_OnInfoSync P s)) = Linking"
      using s by (simp_all add: Remote_OnInfoSync_def link_inv_resend)
        (simp add: Link_resend_def Remote_PrepareRemoteInfoSync_def Let_def)
    have l: "link_inv remote_keyed (Link_SetLinkingState x t)" if "link_inv remote_keyed t" "GetLinkState t = Linking"
      for x and t :: "'a LoLaLinkRemoteService_scheme"
      by (rule link_inv_stage [OF that(1)]) (use that in simp)
    have u: "link_inv remote_keyed (Remote_UpdateLinkState N P st s)" if "st = Linked \<or> st = AwaitingLink" for st
      by (rule link_state.UpdateLinkState_inv [OF N s(1)]) (use s that in \<open>auto simp: enter_ok_def\<close>)
    show ?thesis
      using s i u by (simp add: Remote_OnLinking_def case_prod_unfold Let_def sync l)
  qed
  show "Driver_inv (drv (Remote_OnLinking N P s))" if P: "actions_ok P" and s: "Driver_inv (drv s)"
  proof -
    have "Driver_inv (drv (snd (Remote_OnInfoSync P s)))"
      using s by (simp add: Remote_OnInfoSync_def drv_resend)
    then show ?thesis
      using s by (simp add: Remote_OnLinking_def case_prod_unfold Let_def link_state.UpdateLinkState_drv [OF N P] sync)
  qed
qed


lemma Remote_id_broadcast_keeps:
  assumes N: "link_state N Remote_session_hooks Remote_state_hooks remote_keyed"
  shows "keeps_link remote_keyed (\<lambda>P. Remote_OnIdBroadcastReceived N P i x)"
proof (rule keeps_linkI)
  fix P and s :: "'a LoLaLinkRemoteService_scheme"
  let ?s = "if GetLinkState s = AwaitingSleeping then Remote_UpdateLinkState N P AwaitingLink s else s"
  have stage: "link_inv remote_keyed (Link_SetLinkingState Remote_ValidatingPartner t) "
    if "link_inv remote_keyed t" for t :: "'a LoLaLinkRemoteService_scheme"
    by (rule link_inv_stage [OF that]) (simp add: remote_keyed_def lola_consts)
  have id: "link_inv remote_keyed (snd (on_info_result (LinkInfo_SetSessionId i) t)) = link_inv remote_keyed t"
    for t :: "'a LoLaLinkRemoteService_scheme"
    by (simp add: link_inv_iff)
  show "link_inv remote_keyed (Remote_OnIdBroadcastReceived N P i x s)" if s: "link_inv remote_keyed s"
  proof -
    define t where "t = ?s"
    have t: "link_inv remote_keyed t"
      using s link_state.UpdateLinkState_inv [OF N s, of AwaitingLink P] by (simp add: t_def enter_ok_def)
    let ?r = "snd (on_info_result (LinkInfo_SetSessionId i) t)"
    have r: "link_inv remote_keyed ?r" using t by (simp add: id)
    then have "link_inv remote_keyed (on_info (LinkInfo_SetPartnerId x) ?r)" by simp
    note k = t r stage [OF r] stage [OF this]
    have d: "Remote_ValidatingPartner \<noteq> Remote_SearchingForHost" by (simp add: lola_consts)
    show ?thesis
      unfolding Remote_OnIdBroadcastReceived_def Let_def t_def [symmetric] case_prod_unfold
      using s k by (simp add: d del: link_inv_info link_fields_more)
  qed
  show "Driver_inv (drv (Remote_OnIdBroadcastReceived N P i x s))" if P: "actions_ok P" and s: "Driver_inv (drv s)"
    using s link_state.UpdateLinkState_drv [OF N P s, of AwaitingLink]
    by (simp add: Remote_OnIdBroadcastReceived_def case_prod_unfold Let_def)
qed

lemma Remote_acked_keeps:
  "keeps_link remote_keyed (\<lambda>P s. snd (Remote_OnAckedPacketReceived P p s))"
proof (rule keeps_linkI)
  fix P and s :: "'a LoLaLinkRemoteService_scheme"
  have crypto: "link_inv remote_keyed (snd (Remote_OnCryptoStartReceived P i bs s))"
    if "link_inv remote_keyed s" "GetLinkState s = AwaitingLink" for i bs
    using that by (auto simp: Remote_OnCryptoStartReceived_def case_prod_unfold Let_def link_inv_iff remote_keyed_def)
  have protocol: "link_inv remote_keyed (snd (Remote_OnLinkProtocolReceived P i x s))" if "link_inv remote_keyed s" for i x
    using that by (auto simp: Remote_OnLinkProtocolReceived_def case_prod_unfold Let_def link_inv_iff)
  show "link_inv remote_keyed (snd (Remote_OnAckedPacketReceived P p s))" if "link_inv remote_keyed s"
    using that crypto protocol by (simp add: Remote_OnAckedPacketReceived_def split: LinkStateEnum.split)
  have "Driver_inv (drv (snd (Remote_OnCryptoStartReceived P i bs s)))"
    "Driver_inv (drv (snd (Remote_OnLinkProtocolReceived P i x s)))" if "Driver_inv (drv s)" for i bs x
    using that by (simp_all add: Remote_OnCryptoStartReceived_def Remote_OnLinkProtocolReceived_def case_prod_unfold Let_def)
  then show "Driver_inv (drv (snd (Remote_OnAckedPacketReceived P p s)))" if "actions_ok P" "Driver_inv (drv s)"
    using that by (simp add: Remote_OnAckedPacketReceived_def split: LinkStateEnum.split)
qed

lemma Remote_end:
  assumes N: "link_state N Remote_session_hooks Remote_state_hooks remote_keyed"
  shows "link_end N Remote_session_hooks Remote_state_hooks remote_keyed (Remote_link_hooks N)"
proof (rule link_end.intro [OF N], unfold_locales)
  fix P and s :: "'a LoLaLinkRemoteService_scheme" and i and x and bs and y and p
  show "link_inv remote_keyed s \<Longrightarrow> GetLinkState s = Linking \<Longrightarrow> link_inv remote_keyed (lk_OnLinking (Remote_link_hooks N) P s)"
    "actions_ok P \<Longrightarrow> Driver_inv (drv s) \<Longrightarrow> Driver_inv (drv (lk_OnLinking (Remote_link_hooks N) P s))"
    using Remote_linking_keeps [OF N] by (simp_all add: Remote_link_hooks_def)
  show "link_inv remote_keyed s \<Longrightarrow> GetLinkState s = AwaitingLink \<Longrightarrow> link_inv remote_keyed (snd (lk_OnAwaitingLink (Remote_link_hooks N) P s))"
    "actions_ok P \<Longrightarrow> Driver_inv (drv s) \<Longrightarrow> Driver_inv (drv (snd (lk_OnAwaitingLink (Remote_link_hooks N) P s)))"
    using Remote_awaiting_keeps [OF N] by (simp_all add: Remote_link_hooks_def)
  show "keeps_link remote_keyed (lk_OnKeepingLink (Remote_link_hooks N))"
    by (rule keeps_linkI)
       (simp_all add: Remote_link_hooks_def Remote_OnKeepingLink_def case_prod_unfold Let_def, simp add: link_inv_iff)
  show "keeps_link remote_keyed (lk_OnHostInfoSyncRequestReceived (Remote_link_hooks N))"
    by (rule keeps_linkI) (simp_all add: Remote_link_hooks_def Remote_OnHostInfoSyncRequestReceived_def)
  show "keeps_link remote_keyed (\<lambda>P. lk_OnHostInfoSyncReceived (Remote_link_hooks N) P i y)"
    by (rule keeps_linkI) (simp_all add: Remote_link_hooks_def Remote_OnHostInfoSyncReceived_def)
  show "keeps_link remote_keyed (\<lambda>P. lk_OnIdBroadcastReceived (Remote_link_hooks N) P i x)"
    using Remote_id_broadcast_keeps [OF N] by (simp add: Remote_link_hooks_def)
  show "keeps_link remote_keyed (\<lambda>P. lk_OnHostPublicKeyReceived (Remote_link_hooks N) P i bs)"
    by (rule keeps_linkI)
       (auto simp: Remote_link_hooks_def Remote_OnHostPublicKeyReceived_def case_prod_unfold Let_def remote_keyed_def
         lola_consts intro!: link_inv_stage)
  show "keeps_link remote_keyed (\<lambda>P. lk_OnClockSyncResponseReceived (Remote_link_hooks N) P i x)"
    by (rule keeps_linkI)
       (simp_all add: Remote_link_hooks_def Remote_OnClockSyncResponseReceived_def case_prod_unfold Let_def)
  show "keeps_link remote_keyed (\<lambda>P. lk_OnClockSyncTuneResponseReceived (Remote_link_hooks N) P i x)"
    by (rule keeps_linkI) (simp_all add: Remote_link_hooks_def Remote_OnClockSyncTuneResponseReceived_def)
  show "keeps_link remote_keyed (\<lambda>P s. snd (lk_OnAckedPacketReceived (Remote_link_hooks N) P p s))"
    using Remote_acked_keeps [of p] by (simp add: Remote_link_hooks_def)
qed (simp_all add: Remote_link_hooks_def Link_default_hooks_def keeps_link_def)

lemma Remote_presend_keeps [simp]: "keeps_link remote_keyed Remote_OnPreSend"
  by (rule keeps_linkI)
     (simp_all add: Remote_OnPreSend_def Link_S_ArrayToPayload_def Link_SetPayload_def, simp add: link_inv_iff)

lemma Remote_send:
  assumes N: "link_state N Remote_session_hooks Remote_state_hooks remote_keyed"
  shows "send_hooks_keep remote_keyed (Remote_send_hooks N)"
  using link_end.OnService_keeps [OF Remote_end [OF N]]
  by (simp add: send_hooks_keep_def Remote_send_hooks_def Send_default_hooks_def Remote_OnService_def)

end
