(* ===== verification/LoLa_Manager.thy ===== *)
theory LoLa_Manager
  imports Link_Ends
begin

text \<open>
  \<open>src/src/Manager/LoLaManager.h\<close>: how a node is put together. The link service registers its
  hopper first, then the manager registers the link service, then the application its own services;
  a node is started and stopped through its link service.
\<close>

section \<open>The hopper as a service\<close>

text \<open>Of the virtual methods of a service the hopper has the two that follow the link.\<close>

definition Hopper_service :: "'a LoLaLinkService_scheme service" where
  "Hopper_service = \<lparr>
     srv_Init = \<lambda>s. (let (ok, h) = Hopper_Init (TimedHopper s) in Some (ok, s\<lparr>TimedHopper := h\<rparr>)),
     srv_ReceivedPacket = \<lambda>P p s. (False, s), srv_ReceivedAckedPacket = \<lambda>P p s. (False, s),
     srv_ReceivedAck = \<lambda>P header i s. (False, s), srv_ProcessSent = \<lambda>P header s. (False, s),
     srv_OnLinkEstablished = \<lambda>P s. (let (h, d) = Hopper_OnLinkEstablished P (TimedHopper s) (drv s)
                                    in s\<lparr>TimedHopper := h, drv := d\<rparr>),
     srv_OnLinkLost = \<lambda>P s. s\<lparr>TimedHopper := Hopper_OnLinkLost (TimedHopper s)\<rparr> \<rparr>"

definition services_notify :: "'w service list \<Rightarrow> platform \<Rightarrow> bool \<Rightarrow> 'w \<Rightarrow> 'w" where
  "services_notify ss P connected w =
     fold (\<lambda>s. if connected then srv_OnLinkEstablished s P else srv_OnLinkLost s P) ss w"

lemma Manager_notify: "Manager_NotifyServicesLinkUpdated P M c w = services_notify (Manager_table M) P c w"
  by (simp add: Manager_NotifyServicesLinkUpdated_def services_notify_def)

section \<open>Set-up, start and stop\<close>

text \<open>\<open>OnSetupServices\<close> is the application's; by default it adds nothing.\<close>

definition Lola_SetupServices ::
  "'a LoLaLinkService_scheme service \<Rightarrow>
   ('a LoLaLinkService_scheme LoLaServicesManager \<Rightarrow> 'a LoLaLinkService_scheme \<Rightarrow>
     (bool \<times> 'a LoLaLinkService_scheme LoLaServicesManager \<times> 'a LoLaLinkService_scheme) option) \<Rightarrow>
   'a LoLaLinkService_scheme LoLaServicesManager \<Rightarrow> 'a LoLaLinkService_scheme \<Rightarrow>
   (bool \<times> 'a LoLaLinkService_scheme LoLaServicesManager \<times> 'a LoLaLinkService_scheme) option" where
  "Lola_SetupServices link onSetupServices M w =
     (case Manager_Add (Some Hopper_service) M w of
        None \<Rightarrow> None
      | Some (False, M1, w1) \<Rightarrow> Some (False, M1, w1)
      | Some (True, M1, w1) \<Rightarrow>
          (case Manager_Add (Some link) M1 w1 of
             None \<Rightarrow> None
           | Some (False, M2, w2) \<Rightarrow> Some (False, M2, w2)
           | Some (True, M2, w2) \<Rightarrow> onSetupServices M2 w2))"

definition Lola_Setup ::
  "platform \<Rightarrow> 'a LoLaLinkService_scheme service \<Rightarrow>
   ('a LoLaLinkService_scheme LoLaServicesManager \<Rightarrow> 'a LoLaLinkService_scheme \<Rightarrow>
     (bool \<times> 'a LoLaLinkService_scheme LoLaServicesManager \<times> 'a LoLaLinkService_scheme) option) \<Rightarrow>
   'a LoLaLinkService_scheme LoLaServicesManager \<Rightarrow> 'a LoLaLinkService_scheme \<Rightarrow>
   (bool \<times> 'a LoLaLinkService_scheme LoLaServicesManager \<times> 'a LoLaLinkService_scheme) option" where
  "Lola_Setup P link onSetupServices M w =
     (case Lola_SetupServices link onSetupServices M w of
        Some (True, M1, w1) \<Rightarrow> let (ok, w2) = on_drv_result (Driver_Setup P) w1 in Some (ok, M1, w2)
      | r \<Rightarrow> r)"

definition Lola_Start ::
  "(platform \<Rightarrow> LinkStateEnum \<Rightarrow> 'a LoLaLinkService_scheme \<Rightarrow> 'a LoLaLinkService_scheme) \<Rightarrow>
   platform \<Rightarrow> 'a LoLaLinkService_scheme \<Rightarrow> 'a LoLaLinkService_scheme" where
  "Lola_Start update P s = Link_Enable update P s"

definition Lola_Stop ::
  "(platform \<Rightarrow> LinkStateEnum \<Rightarrow> 'a LoLaLinkService_scheme \<Rightarrow> 'a LoLaLinkService_scheme) \<Rightarrow>
   platform \<Rightarrow> 'a LoLaLinkService_scheme \<Rightarrow> 'a LoLaLinkService_scheme" where
  "Lola_Stop update P s = Link_Disable update P (on_drv Driver_Disable s)"

section \<open>Services beside the link service\<close>

text \<open>
  What the link relies on of the other services of the table: none of their methods touches the
  state of the link or the stage of the encoder, and they use the driver through its operations.
\<close>

locale side_service =
  fixes S :: "'a LoLaLinkService_scheme service"
  assumes views: "link_view (snd (srv_ReceivedPacket S P p w)) = link_view w"
      "link_view (snd (srv_ReceivedAckedPacket S P p w)) = link_view w"
      "link_view (snd (srv_ReceivedAck S P h i w)) = link_view w"
      "link_view (snd (srv_ProcessSent S P h w)) = link_view w"
      "link_view (srv_OnLinkEstablished S P w) = link_view w"
      "link_view (srv_OnLinkLost S P w) = link_view w"
    and driver: "actions_ok P \<Longrightarrow> Driver_inv (drv w) \<Longrightarrow> Driver_inv (drv (snd (srv_ReceivedPacket S P p w)))"
      "actions_ok P \<Longrightarrow> Driver_inv (drv w) \<Longrightarrow> Driver_inv (drv (snd (srv_ReceivedAckedPacket S P p w)))"
      "actions_ok P \<Longrightarrow> Driver_inv (drv w) \<Longrightarrow> Driver_inv (drv (snd (srv_ReceivedAck S P h i w)))"
      "drv (snd (srv_ProcessSent S P h w)) = drv w"
      "actions_ok P \<Longrightarrow> Driver_inv (drv w) \<Longrightarrow> Driver_inv (drv (srv_OnLinkEstablished S P w))"
      "actions_ok P \<Longrightarrow> Driver_inv (drv w) \<Longrightarrow> Driver_inv (drv (srv_OnLinkLost S P w))"

sublocale side_service \<subseteq> node_service S
  by unfold_locales (rule driver; assumption)+

interpretation hopper: side_service Hopper_service
  by unfold_locales
     (simp_all add: Hopper_service_def Hopper_OnLinkEstablished_def Hopper_OnLinkLost_def Let_def link_view_def)

lemma notify_keeps:
  assumes "\<forall>S \<in> set ss. side_service S"
  shows "link_view (services_notify ss P c w) = link_view w"
    and "actions_ok P \<Longrightarrow> Driver_inv (drv w) \<Longrightarrow> Driver_inv (drv (services_notify ss P c w))"
  using assms
  by (induction ss arbitrary: w)
     (simp_all add: services_notify_def side_service.views side_service.driver)

text \<open>The notifications of a node with the given application services.\<close>

abbreviation Lola_notify ::
  "'a LoLaLinkService_scheme service list \<Rightarrow> platform \<Rightarrow> bool \<Rightarrow> 'a LoLaLinkService_scheme \<Rightarrow> 'a LoLaLinkService_scheme" where
  "Lola_notify apps \<equiv> services_notify (Hopper_service # apps)"

lemma notify_table:
  assumes "Manager_table M = Hopper_service # link # apps"
    and "\<And>P w. srv_OnLinkEstablished link P w = w" and "\<And>P w. srv_OnLinkLost link P w = w"
  shows "(\<lambda>P. Manager_NotifyServicesLinkUpdated P M) = Lola_notify apps"
  by (rule ext)+ (simp add: Manager_notify assms services_notify_def)


section \<open>What set-up leaves behind\<close>

abbreviation no_services ::
  "'w LoLaServicesManager \<Rightarrow> 'w \<Rightarrow> (bool \<times> 'w LoLaServicesManager \<times> 'w) option" where
  "no_services M w \<equiv> Some (True, M, w)"

abbreviation link_definitions :: "PacketDefinition list" where
  "link_definitions \<equiv> [PingPacketDefinition, LinkReportPacketDefinition, LinkShortPacketDefinition,
     LinkShortWithAckPacketDefinition, LinkLongPacketDefinition]"

lemma link_packets_register:
  assumes "PacketMap (drv s) = PacketMap_new" and "length (Raw (Packet s)) = LOLA_LINK_SERVICE_PACKET_MAX_SIZE"
  shows "\<exists>m. Link_OnAddPacketMap s = Some (True, s\<lparr>drv := (drv s)\<lparr>PacketMap := m\<rparr>\<rparr>) \<and>
    (\<forall>d \<in> set link_definitions. PacketMap_GetDefinition (Header d) m = Some d) \<and>
    (\<forall>h. h \<notin> Header ` set link_definitions \<longrightarrow> PacketMap_GetDefinition h m = PacketMap_GetDefinition h PacketMap_new) \<and>
    PacketMap_ok m"
proof -
  have "(\<forall>d \<in> set link_definitions. header_fits d \<and> PacketMap_GetDefinition (Header d) PacketMap_new = None) \<and>
      distinct (map Header link_definitions)"
    by (simp add: link_packet_defs lola_consts header_fits_def PacketMap_new_def PacketMap_ClearMapping_def
        PacketMap_AddMapping_def PacketMap_GetDefinition_def AckPacketDefinition_def)
  then obtain m where "register_all PacketMap_AddMapping link_definitions PacketMap_new = Some (True, m)"
    "\<forall>d \<in> set link_definitions. PacketMap_GetDefinition (Header d) m = Some d"
    "\<forall>h. h \<notin> Header ` set link_definitions \<longrightarrow> PacketMap_GetDefinition h m = PacketMap_GetDefinition h PacketMap_new"
    "PacketMap_ok m"
    using ptable.register_all_fresh [of PacketMap_new link_definitions] by auto
  moreover have "\<forall>d \<in> set link_definitions. unat (PacketDefinition_GetTotalSize d) \<le> LOLA_LINK_SERVICE_PACKET_MAX_SIZE"
    by (simp add: link_packet_defs lola_consts PacketDefinition_GetTotalSize_def)
  ultimately show ?thesis
    using assms
    by (intro exI [of _ m]) (simp add: Link_OnAddPacketMap_def Service_AddMappings_def on_drv_def Let_def not_less)
qed

lemma PacketMap_new_ack: "PACKET_DEFINITION_ACK_HEADER \<notin> Header ` set link_definitions"
    "PacketMap_GetDefinition PACKET_DEFINITION_ACK_HEADER PacketMap_new = Some AckPacketDefinition"
  by (simp_all add: link_packet_defs lola_consts PacketMap_new_def PacketMap_ClearMapping_def
        PacketMap_AddMapping_def PacketMap_GetDefinition_def AckPacketDefinition_def)


definition set_up_link :: "'a LoLaLinkService_scheme \<Rightarrow> 'a LoLaLinkService_scheme \<Rightarrow> bool" where
  "set_up_link s s' \<longleftrightarrow> link_view s' = (GetLinkState s, LinkingState s, AllClear, False, True) \<and>
     PacketMap (drv s') = PacketMap (drv s) \<and> HopperSetupOk (TimedHopper s') = HopperSetupOk (TimedHopper s) \<and>
     (Driver_inv (drv s) \<longrightarrow> Driver_inv (drv s'))"

lemma PacketMap_frames [simp]:
  "PacketMap (snd (LinkInfo_Reset i d)) = PacketMap d"
  "PacketMap (snd (HostSyncer_Reset P c d)) = PacketMap d"
  "PacketMap (on_clock f d) = PacketMap d"
  by (simp_all add: LinkInfo_Reset_def HostSyncer_Reset_def Syncer_SetRandom_def on_clock_def Driver_ResetLiveData_def
      Driver_SetLinkStatus_def Driver_ResetStatistics_def Let_def)

lemma HostSyncer_frames [simp]:
  "CryptoEncoder (snd (HostSyncer_Reset P c d)) = CryptoEncoder d"
  "LinkActive (snd (HostSyncer_Reset P c d)) = LinkActive d"
  "Driver_inv (snd (HostSyncer_Reset P c d)) = Driver_inv d"
  by (simp_all add: HostSyncer_Reset_def Syncer_SetRandom_def Let_def)

lemma hopper_frames [simp]:
  "TimedHopper (on_keys k s) = TimedHopper s" "TimedHopper (on_encoder e s) = TimedHopper s"
  "TimedHopper (on_info f s) = TimedHopper s" "TimedHopper (on_info_drv r s) = TimedHopper s"
  "TimedHopper (snd (on_info_result h s)) = TimedHopper s"
  "HopperSetupOk (TimedHopper (on_seed g s)) = HopperSetupOk (TimedHopper s)"
  "TimedHopper (Service_SetNextRunASAP s) = TimedHopper s" "TimedHopper (Link_ResetStateStartTime P s) = TimedHopper s"
  by (simp_all add: on_keys_def on_encoder_def on_drv_def on_info_def on_info_drv_def on_info_result_def on_seed_def
      Service_SetNextRunASAP_def Link_ResetStateStartTime_def case_prod_unfold Let_def)

lemma Host_OnSetup:
  "fst (Link_OnSetup Host_session_hooks P s)" "set_up_link s (snd (Link_OnSetup Host_session_hooks P s))"
  by (simp_all add: Link_OnSetup_def Link_ClearSession_def Host_session_hooks_def set_up_link_def link_view_def
      case_prod_unfold Let_def)

lemma Remote_OnSetup:
  "fst (Link_OnSetup Remote_session_hooks P s)" "set_up_link s (snd (Link_OnSetup Remote_session_hooks P s))"
  by (simp_all add: Link_OnSetup_def Link_ClearSession_def Remote_session_hooks_def set_up_link_def link_view_def
      case_prod_unfold Let_def)


lemma Manager_Add_new:
  assumes "unat (ServicesCount M) < MAX_RADIO_SERVICES_COUNT" and "srv_Init S w = Some (True, w')" and "Manager_ok M"
  shows "\<exists>M'. Manager_Add (Some S) M w = Some (True, M', w') \<and> Manager_ok M' \<and>
    Manager_table M' = Manager_table M @ [S] \<and> unat (ServicesCount M') = Suc (unat (ServicesCount M))"
proof -
  obtain M' where M': "Manager_Add (Some S) M w = Some (True, M', w')"
    using assms(1,2) by (simp add: Manager_Add_def)
  moreover have "unat (ServicesCount M') = Suc (unat (ServicesCount M))"
    using Manager_Add_ok(3) [OF assms(3) M'] assms(1)
    by (simp add: Manager_GetCount_def unat_word_ariths lola_consts)
  ultimately show ?thesis
    using Manager_Add_ok(1,2) [OF assms(3) M'] by blast
qed

text \<open>What the application's own set-up is given: the link service set up, its packets in the map.\<close>

definition link_set_up ::
  "('a LoLaLinkService_scheme \<Rightarrow> bool \<times> 'a LoLaLinkService_scheme) \<Rightarrow> LoLaPacketMap \<Rightarrow>
   'a LoLaLinkService_scheme \<Rightarrow> 'a LoLaLinkService_scheme" where
  "link_set_up onSetup m w = (snd (onSetup (w\<lparr>TimedHopper := (TimedHopper w)\<lparr>HopperSetupOk := True\<rparr>,
     drv := (drv w)\<lparr>PacketMap := m\<rparr>, ServiceState := Loading\<rparr>)))\<lparr>ServiceState := Active\<rparr>"

lemma Lola_SetupServices_eq:
  assumes init: "srv_Init link = Service_Init Link_OnAddPacketMap onSetup" and on_setup: "\<And>s. fst (onSetup s)"
    and w: "PacketMap (drv w) = PacketMap_new" "length (Raw (Packet w)) = LOLA_LINK_SERVICE_PACKET_MAX_SIZE"
      "\<not> HopperFailed (TimedHopper w)" "ServiceState w \<noteq> Failed"
  obtains m M where "PacketMap_ok m" and "Lola_SetupServices link add Manager_new w = add M (link_set_up onSetup m w)"
    and "Manager_ok M" and "Manager_table M = [Hopper_service, link]" and "unat (ServicesCount M) = 2"
    and "\<forall>d \<in> set link_definitions. PacketMap_GetDefinition (Header d) m = Some d"
    and "\<forall>h. h \<notin> Header ` set link_definitions \<longrightarrow> PacketMap_GetDefinition h m = PacketMap_GetDefinition h PacketMap_new"
proof -
  let ?w1 = "w\<lparr>TimedHopper := (TimedHopper w)\<lparr>HopperSetupOk := True\<rparr>\<rparr>"
  have h: "srv_Init Hopper_service w = Some (True, ?w1)"
    using w(3) by (simp add: Hopper_service_def Hopper_Init_def)
  obtain M1 where M1: "Manager_Add (Some Hopper_service) Manager_new w = Some (True, M1, ?w1)" "Manager_ok M1"
      "Manager_table M1 = [Hopper_service]" "unat (ServicesCount M1) = 1"
    using Manager_Add_new [OF _ h Manager_new_ok(1)] by (auto simp: lola_consts Manager_new_def Manager_table_def map_filter_simps)
  obtain m where m: "Link_OnAddPacketMap ?w1 = Some (True, ?w1\<lparr>drv := (drv ?w1)\<lparr>PacketMap := m\<rparr>\<rparr>)"
      "\<forall>d \<in> set link_definitions. PacketMap_GetDefinition (Header d) m = Some d"
      "\<forall>h. h \<notin> Header ` set link_definitions \<longrightarrow> PacketMap_GetDefinition h m = PacketMap_GetDefinition h PacketMap_new" "PacketMap_ok m"
    using link_packets_register [of ?w1] w(1,2) by auto
  have "srv_Init link ?w1 = Some (True, link_set_up onSetup m w)"
    using on_setup w(4) m(1) by (simp add: init Service_Init_def Service_Setup_def link_set_up_def case_prod_unfold Let_def)
  from Manager_Add_new [OF _ this M1(2)] obtain M2 where
    M2: "Manager_Add (Some link) M1 ?w1 = Some (True, M2, link_set_up onSetup m w)" "Manager_table M2 = [Hopper_service, link]"
      "Manager_ok M2" "unat (ServicesCount M2) = 2"
    using M1(3,4) by (auto simp: lola_consts)
  show ?thesis
    by (rule that [OF m(4) _ M2(3,2,4) m(2,3)]) (simp add: Lola_SetupServices_def M1(1) M2(1))
qed

definition fresh_node ::
  "'a LoLaLinkService_scheme service \<Rightarrow> 'a LoLaLinkService_scheme LoLaServicesManager \<Rightarrow>
   'a LoLaLinkService_scheme \<Rightarrow> bool" where
  "fresh_node link M w \<longleftrightarrow> Manager_table M = [Hopper_service, link] \<and>
     (\<forall>d \<in> set link_definitions. PacketMap_GetDefinition (Header d) (PacketMap (drv w)) = Some d) \<and>
     link_view w = (LinkDisabled, 0, AllClear, False, True) \<and> Driver_inv (drv w) \<and>
     HopperSetupOk (TimedHopper w) \<and> Service_IsSetupOk w"

lemma Driver_Setup_frame:
  "fst (Driver_Setup P d) \<longleftrightarrow>
     PacketMap_GetDefinition PACKET_DEFINITION_ACK_HEADER (PacketMap d) \<noteq> None \<and> radio_part P = 17507"
  "PacketMap (snd (Driver_Setup P d)) = PacketMap d" "CryptoEncoder (snd (Driver_Setup P d)) = CryptoEncoder d"
  "LinkActive (snd (Driver_Setup P d)) = LinkActive d" "Driver_inv (snd (Driver_Setup P d)) = Driver_inv d"
  by (simp_all add: Driver_Setup_def Driver_SetupRadio_def Driver_SetRadioPower_def Driver_inv_def action_queue_def Let_def)

lemma Lola_Setup_result:
  assumes init: "srv_Init link = Service_Init Link_OnAddPacketMap onSetup"
    and on_setup: "\<And>s. fst (onSetup s)" "\<And>s. set_up_link s (snd (onSetup s))"
    and w: "PacketMap (drv w) = PacketMap_new" "length (Raw (Packet w)) = LOLA_LINK_SERVICE_PACKET_MAX_SIZE"
      "Driver_inv (drv w)" "\<not> HopperFailed (TimedHopper w)" "ServiceState w \<noteq> Failed"
      "GetLinkState w = LinkDisabled" "LinkingState w = 0"
  shows "\<exists>M w'. Lola_Setup P link no_services Manager_new w = Some (radio_part P = 17507, M, w') \<and>
    fresh_node link M w'"
proof -
  have l: "ServiceState w \<noteq> Failed" "\<not> HopperFailed (TimedHopper w)" using w by simp_all
  obtain m M where ok: "PacketMap_ok m" and M: "Lola_SetupServices link no_services Manager_new w = Some (True, M, link_set_up onSetup m w)"
      "Manager_ok M" "Manager_table M = [Hopper_service, link]" "unat (ServicesCount M) = 2"
    and m: "\<forall>d \<in> set link_definitions. PacketMap_GetDefinition (Header d) m = Some d"
      "\<forall>h. h \<notin> Header ` set link_definitions \<longrightarrow> PacketMap_GetDefinition h m = PacketMap_GetDefinition h PacketMap_new"
    by (rule Lola_SetupServices_eq [OF init on_setup(1) w(1,2) l(2,1)])
  let ?w3 = "link_set_up onSetup m w"
  have ok3: "link_view ?w3 = (LinkDisabled, 0, AllClear, False, True)" "PacketMap (drv ?w3) = m" "Driver_inv (drv ?w3)"
      "HopperSetupOk (TimedHopper ?w3)" "Service_IsSetupOk ?w3"
    using on_setup(2) [of "w\<lparr>TimedHopper := (TimedHopper w)\<lparr>HopperSetupOk := True\<rparr>,
        drv := (drv w)\<lparr>PacketMap := m\<rparr>, ServiceState := Loading\<rparr>"] w(3,6,7)
    unfolding link_set_up_def set_up_link_def link_view_def Service_IsSetupOk_def by simp_all
  obtain d where d: "Driver_Setup P (drv ?w3) = (radio_part P = 17507, d)" "PacketMap d = m"
      "CryptoEncoder d = CryptoEncoder (drv ?w3)" "LinkActive d = LinkActive (drv ?w3)" "Driver_inv d"
  proof (rule that)
    show "Driver_Setup P (drv ?w3) = (radio_part P = 17507, snd (Driver_Setup P (drv ?w3)))"
      using m(2) PacketMap_new_ack by (simp add: prod_eq_iff Driver_Setup_frame(1) ok3)
  qed (simp_all add: Driver_Setup_frame ok3)
  have "Lola_Setup P link no_services Manager_new w = Some (radio_part P = 17507, M, ?w3\<lparr>drv := d\<rparr>)"
    using M(1) d(1) by (simp add: Lola_Setup_def on_drv_result_def)
  then show ?thesis
    using M(3) m(1) d(2-5) ok3 by (simp add: fresh_node_def Service_IsSetupOk_def link_view_def)
qed


lemma Host_setup:
  assumes "drv s = Driver_new"
  shows "\<exists>M w. Lola_Setup P (Host_service N P) no_services Manager_new (Host_construct True s) =
    Some (radio_part P = 17507, M, w) \<and> fresh_node (Host_service N P) M w"
  by (rule Lola_Setup_result [OF _ Host_OnSetup])
     (simp_all add: Host_service_def Host_construct_def Link_construct_def Send_construct_def Service_construct_def
       Service_InitializeState_def assms on_drv_def Driver_SetDuplexSlot_def Driver_inv_def action_queue_def
       Driver_new_def AsyncQueue_new_def LoLaPacket_new_def LoLaPacket_ClearDefinition_def Hopper_new_def LinkInfo_new_def receive_states_def)

lemma Remote_setup:
  assumes "drv s = Driver_new"
  shows "\<exists>M w. Lola_Setup P (Remote_service N P) no_services Manager_new (Remote_construct True s) =
    Some (radio_part P = 17507, M, w) \<and> fresh_node (Remote_service N P) M w"
  by (rule Lola_Setup_result [OF _ Remote_OnSetup])
     (simp_all add: Remote_service_def Remote_construct_def Link_construct_def Send_construct_def Service_construct_def
       Service_InitializeState_def assms on_drv_def Driver_SetDuplexSlot_def Driver_inv_def action_queue_def
       Driver_new_def AsyncQueue_new_def LoLaPacket_new_def LoLaPacket_ClearDefinition_def Hopper_new_def LinkInfo_new_def receive_states_def)


text \<open>Setting a node up from the constructors succeeds exactly when the radio answers with its
  part number, for host and remote alike: the hopper stands before the link service in the table,
  the five packets of the link and the acknowledgement are registered, the link is disabled and not
  encrypted, no link is reported, and both services are active.\<close>
theorem node_set_up:
  assumes "drv s = Driver_new" and "drv t = Driver_new"
  shows "(\<exists>M w. Lola_Setup P (Host_service N P) no_services Manager_new (Host_construct True s) =
      Some (radio_part P = 17507, M, w) \<and> fresh_node (Host_service N P) M w) \<and>
    (\<exists>M w. Lola_Setup P (Remote_service N' P) no_services Manager_new (Remote_construct True t) =
      Some (radio_part P = 17507, M, w) \<and> fresh_node (Remote_service N' P) M w)"
  using Host_setup [OF assms(1)] Remote_setup [OF assms(2)] by blast

definition blank_link :: "LoLaLinkService" where
  "blank_link = Link_construct True \<lparr> drv = Driver_new, ServiceState = Loading, DefaultPeriod = 1,
     ServiceEnabled = False, ServiceNextRun = RunASAP, SendStatus = Done, SendFailures = 0, SendStartMillis = 0,
     SendTimeOutDuration = 0, AckTimeOutDuration = 0, Packet = LoLaPacket_new LOLA_LINK_SERVICE_PACKET_MAX_SIZE,
     LinkStateStart = 0, LastSentMillis = 0, LinkInfo = LinkInfo_new, TimedHopper = Hopper_new,
     PowerBalancer = Balancer_new, ReportPending = False, KeyExchanger = KeyExchanger_new, KeysLastGenerated = 0,
     SubStateStart = 0, LinkingState = 0, InfoSyncStage = 0 \<rparr>"

definition blank_host :: LoLaLinkHostService where
  "blank_host = LoLaLinkService.extend blank_link
     (LoLaLinkHostService.fields Syncer_new Response_new False Meter_new 0)"

definition blank_remote :: LoLaLinkRemoteService where
  "blank_remote = LoLaLinkService.extend blank_link (LoLaLinkRemoteService.fields RemoteSyncer_new Request_new)"

lemma blank_drv [simp]: "drv blank_host = Driver_new" "drv blank_remote = Driver_new"
  by (simp_all add: blank_host_def blank_remote_def blank_link_def Link_construct_def Send_construct_def
      Service_construct_def Service_InitializeState_def LoLaLinkService.defs)

theorem node_set_up_witness:
  "(\<exists>M w. Lola_Setup sample_platform (Host_service (Lola_notify []) sample_platform) no_services Manager_new
      (Host_construct True blank_host) = Some (True, M, w) \<and> GetLinkState w = LinkDisabled) \<and>
   (\<exists>M w. Lola_Setup sample_platform (Remote_service (Lola_notify []) sample_platform) no_services Manager_new
      (Remote_construct True blank_remote) = Some (True, M, w) \<and> GetLinkState w = LinkDisabled)"
  using node_set_up [OF blank_drv, of sample_platform "Lola_notify []" "Lola_notify []"]
  by (fastforce simp: fresh_node_def link_view_def)

end
