(* ===== verification/Link_Node.thy ===== *)
theory Link_Node
  imports LoLa_Manager
begin

text \<open>
  A running node: the driver's action task calls the services through the manager, the link service
  runs on its own task, the radio interrupts, and the applications do what they do.
\<close>

section \<open>The action task and the services\<close>

definition stage_of :: "Driver \<Rightarrow> StageEnum \<times> bool" where
  "stage_of d = (EncoderState (CryptoEncoder d), LinkActive d)"

lemma stage_of_updates [simp]:
  "stage_of (d\<lparr>CallbackHandler := c\<rparr>) = stage_of d" "stage_of (d\<lparr>RejectedCount := n\<rparr>) = stage_of d"
  "stage_of (d\<lparr>DriverActiveState := a\<rparr>) = stage_of d"
  by (simp_all add: stage_of_def)

lemma stage_of_driver [simp]:
  "stage_of (Driver_RestoreToReceiving d) = stage_of d" "stage_of (Driver_Release d) = stage_of d"
  "stage_of (Driver_OnTransmitPowerUpdated P d) = stage_of d" "stage_of (Driver_OnChannelUpdated P d) = stage_of d"
  "stage_of (Driver_OnAsyncRestore d) = stage_of d" "stage_of (snd (Driver_SendPacket P p d)) = stage_of d"
  "stage_of (Driver_EnableInterrupts d) = stage_of d"
  by (simp_all add: stage_of_def Driver_Release_def)
     (simp_all add: Driver_RestoreToReceiving_def Driver_SetToReceiving_def Driver_EnableInterrupts_def
       Driver_OnTransmitPowerUpdated_def Driver_OnChannelUpdated_def Driver_OnAsyncRestore_def Driver_AddAsyncAction_def
       Driver_SetRadioPower_def Let_def)

lemma stage_of_incoming [simp]:
  "stage_of (Driver_ReadReceived P d) = stage_of d" "stage_of (snd (Driver_DecodeIncoming P d)) = stage_of d"
  "stage_of (Driver_CommitReceived P d) = stage_of d" "stage_of (Driver_SendAck P d) = stage_of d"
proof -
  show "stage_of (Driver_ReadReceived P d) = stage_of d" "stage_of (snd (Driver_DecodeIncoming P d)) = stage_of d"
    by (simp_all add: stage_of_def Driver_ReadReceived_def Driver_DecodeIncoming_def fault_if_def case_prod_unfold
        Let_def lola_frame)
  show "stage_of (Driver_CommitReceived P d) = stage_of d"
    by (simp add: stage_of_def Driver_CommitReceived_def Driver_IsReceiveCollision_def Driver_IsInReceiveSlot_def
        case_prod_unfold Let_def)
  show "stage_of (Driver_SendAck P d) = stage_of d"
    by (simp add: Driver_SendAck_def case_prod_unfold Let_def) (simp add: stage_of_def fault_if_def)
qed

lemma stage_of_interrupts [simp]:
  "stage_of (Driver_OnIncoming P r d) = stage_of d" "stage_of (Driver_OnReceiveBegin P n r d) = stage_of d"
  "stage_of (Driver_OnReceivedFail P d) = stage_of d" "stage_of (Driver_OnSentOk P d) = stage_of d"
  "stage_of (Driver_OnBatteryAlarm P d) = stage_of d"
  by (simp_all add: Driver_OnIncoming_def Driver_OnReceiveBegin_def Driver_OnReceivedFail_def Driver_OnSentOk_def
      Driver_OnBatteryAlarm_def Driver_AddAsyncAction_def Driver_DisableInterrupts_def Let_def)
     (simp_all add: stage_of_def)


text \<open>One turn of the action task calls at most one handler; around it only the driver moves.\<close>

inductive serves :: "platform \<Rightarrow> 'a node_scheme handlers \<Rightarrow> 'a node_scheme \<Rightarrow> 'a node_scheme \<Rightarrow> bool" for P H w where
  "serves P H w w"
| "serves P H w (h_ProcessPacket H P p w)"
| "serves P H w (snd (h_ProcessAckedPacket H P p w))"
| "serves P H w (h_ProcessAck H P p w)"
| "serves P H w (h_ProcessSent H P h w)"

definition turn :: "platform \<Rightarrow> 'a node_scheme handlers \<Rightarrow> 'a node_scheme \<Rightarrow> 'a node_scheme \<Rightarrow> bool" where
  "turn P H w w' \<longleftrightarrow> (\<exists>d1 w2 d2. stage_of d1 = stage_of (drv w) \<and> serves P H (w\<lparr>drv := d1\<rparr>) w2 \<and>
     stage_of d2 = stage_of (drv w2) \<and> w' = w2\<lparr>drv := d2\<rparr>)"

lemma turnI:
  "stage_of d1 = stage_of (drv w) \<Longrightarrow> serves P H (w\<lparr>drv := d1\<rparr>) w2 \<Longrightarrow>
    (\<And>d. stage_of (f d) = stage_of d) \<Longrightarrow> turn P H w (on_drv f w2)"
  unfolding turn_def on_drv_def by blast

lemma turn_quiet: "stage_of d = stage_of (drv w) \<Longrightarrow> turn P H w (w\<lparr>drv := d\<rparr>)"
  unfolding turn_def by (rule exI [of _ "drv w"], rule exI [of _ w]) (auto intro: serves.intros)

lemma turn_quiet_drv: "(\<And>d. stage_of (f d) = stage_of d) \<Longrightarrow> turn P H w (on_drv f w)"
  unfolding on_drv_def by (rule turn_quiet)

lemma turn_before:
  assumes "turn P H (w\<lparr>drv := d\<rparr>) w'" and "stage_of d = stage_of (drv w)"
  shows "turn P H w w'"
  using assms unfolding turn_def by auto

lemma turn_after:
  assumes "turn P H w w'" and "\<And>d. stage_of (f d) = stage_of d"
  shows "turn P H w (on_drv f w')"
proof -
  from assms(1) obtain d1 w2 d2 where *: "stage_of d1 = stage_of (drv w)" "serves P H (w\<lparr>drv := d1\<rparr>) w2"
    "stage_of d2 = stage_of (drv w2)" "w' = w2\<lparr>drv := d2\<rparr>"
    by (auto simp: turn_def)
  then show ?thesis
    unfolding turn_def by (intro exI [of _ d1] exI [of _ w2] exI [of _ "f d2"]) (simp add: on_drv_def assms(2))
qed

lemma Dispatch_turn: "turn P H w (Driver_Dispatch P H def w)"
proof -
  have w: "w\<lparr>drv := drv w\<rparr> = w" by simp
  show ?thesis
    unfolding Driver_Dispatch_def Let_def case_prod_unfold
    by (auto intro!: turnI [of "drv w"] serves.intros simp: w)
qed

lemma ProcessIncoming_turn: "turn P H w (Driver_ProcessIncoming P H w)"
proof -
  define d1 where "d1 = Driver_ReadReceived P ((drv w)\<lparr>DriverActiveState := ProcessingIncoming\<rparr>)"
  define d2 where "d2 = snd (Driver_DecodeIncoming P d1)"
  have s: "stage_of d1 = stage_of (drv w)" "stage_of d2 = stage_of (drv w)"
    by (simp_all add: d1_def d2_def)
  have d: "turn P H w (Driver_Dispatch P H def (w\<lparr>drv := Driver_CommitReceived P d2\<rparr>))" for def
    by (rule turn_before [OF Dispatch_turn]) (simp add: s)
  have q: "turn P H w (w\<lparr>drv := Driver_Release d1\<rparr>)"
    "turn P H w (w\<lparr>drv := Driver_Release (d2\<lparr>RejectedCount := RejectedCount d2 + 1\<rparr>)\<rparr>)"
    "turn P H w (on_drv Driver_Release w)"
    by (rule turn_quiet; simp add: s)+ (rule turn_quiet_drv, simp)
  show ?thesis
    unfolding Driver_ProcessIncoming_def Let_def case_prod_unfold d1_def [symmetric] d2_def [symmetric]
    using d q by (auto split: option.split bool.split)
qed

lemma AsyncCallback_turn: "turn P H w (snd (Driver_AsyncCallback P H w))"
proof -
  have sent: "turn P H w (Driver_ProcessSent P H h w)" for h w
  proof -
    have "w\<lparr>drv := drv w\<rparr> = w" by simp
    then show ?thesis
      unfolding Driver_ProcessSent_def by (intro turnI [of "drv w"]) (auto intro: serves.intros)
  qed
  have self: "turn P H w w" for w :: "'a node_scheme"
    using turn_quiet [of "drv w" w] by simp
  have act: "turn P H w (Driver_OnAsyncAction P H a w)" for a w
    by (simp add: Driver_OnAsyncAction_def ProcessIncoming_turn sent turn_quiet_drv self)
  show ?thesis
  proof (cases "ring_pull (ring_actions P) (EventQueue (CallbackHandler (drv w)))")
    case None
    then show ?thesis by (simp add: Driver_AsyncCallback_def turn_quiet_drv)
  next
    case (Some r)
    let ?w1 = "on_drv (\<lambda>d. d\<lparr>CallbackHandler := (CallbackHandler d)\<lparr>EventQueue := snd r\<rparr>\<rparr>) w"
    have "turn P H w (Driver_OnAsyncAction P H (fst r) ?w1)"
      unfolding on_drv_def by (rule turn_before [OF act]) simp
    from turn_after [OF this, of "\<lambda>d. d\<lparr>CallbackHandler := (CallbackHandler d)\<lparr>TaskNextRun := RunASAP\<rparr>\<rparr>"]
    show ?thesis using Some by (simp add: Driver_AsyncCallback_def case_prod_unfold Let_def)
  qed
qed


section \<open>The link as a state machine\<close>

text \<open>The moves a link makes on its own; start and stop are the application's.\<close>

inductive link_moves :: "LinkStateEnum \<Rightarrow> LinkStateEnum \<Rightarrow> bool" where
  set_up: "link_moves LinkSetup AwaitingLink"
| sleep: "link_moves AwaitingLink AwaitingSleeping"
| wake: "link_moves AwaitingSleeping AwaitingLink"
| partner_found: "link_moves AwaitingLink Linking"
| cancelled: "link_moves Linking AwaitingLink"
| established: "link_moves Linking Linked"
| lost: "link_moves Linked AwaitingLink"

inductive_simps link_moves_simps: "link_moves st st'"

definition holds :: "(platform \<Rightarrow> 'a LoLaLinkService_scheme \<Rightarrow> 'a LoLaLinkService_scheme) \<Rightarrow> bool" where
  "holds f \<longleftrightarrow> (\<forall>P s. GetLinkState (f P s) = GetLinkState s)"

definition moves :: "(platform \<Rightarrow> 'a LoLaLinkService_scheme \<Rightarrow> 'a LoLaLinkService_scheme) \<Rightarrow> bool" where
  "moves f \<longleftrightarrow> (\<forall>P s. GetLinkState (f P s) = GetLinkState s \<or> link_moves (GetLinkState s) (GetLinkState (f P s)))"

lemma holds_moves: "holds f \<Longrightarrow> moves f"
  by (simp add: holds_def moves_def)

lemma holds_id: "holds (\<lambda>P s. s)"
  by (simp add: holds_def)

lemma moves_if: "(c \<Longrightarrow> moves f) \<Longrightarrow> (\<not> c \<Longrightarrow> moves g) \<Longrightarrow> moves (\<lambda>P s. if c then f P s else g P s)"
  by (cases c) simp_all

lemma UpdateLinkState_state [simp]: "GetLinkState (Link_UpdateLinkState N SH TH P st s) = st"
  by (simp add: Link_UpdateLinkState_def Link_ChangeState_def Let_def)

lemma Link_Disable_state [simp]: "GetLinkState (Link_Disable (Link_UpdateLinkState N SH TH) P s) = LinkDisabled"
  by (simp add: Link_Disable_def Service_Disable_def Let_def)

lemma Link_Enable_state:
  "GetLinkState (Link_Enable (Link_UpdateLinkState N SH TH) P s) = (if ServiceEnabled s then GetLinkState s else LinkSetup)"
  by (simp add: Link_Enable_def Service_Enable_def)

lemma link_state_send [simp]:
  "GetLinkState (snd (Service_AllowedSend P s)) = GetLinkState s"
  "GetLinkState (snd (Service_SendPacket P p s)) = GetLinkState s"
  "GetLinkState (Send_ClearSendRequest s) = GetLinkState s"
  "GetLinkState (snd (Send_ProcessSent h s)) = GetLinkState s"
  "GetLinkState (snd (Send_ProcessAck h i s)) = GetLinkState s"
  by (simp_all add: Service_AllowedSend_def Service_SendPacket_def on_drv_result_def
      Send_ClearSendRequest_def Send_ProcessSent_def Send_ProcessAck_def case_prod_unfold Let_def)

locale link_role =
  fixes LH :: "'a LoLaLinkService_scheme link_hooks"
  assumes linking_moves: "GetLinkState s = Linking \<Longrightarrow>
      GetLinkState (lk_OnLinking LH P s) = Linking \<or> link_moves Linking (GetLinkState (lk_OnLinking LH P s))"
    and awaiting_moves: "GetLinkState s = AwaitingLink \<Longrightarrow>
      GetLinkState (snd (lk_OnAwaitingLink LH P s)) = AwaitingLink \<or>
      fst (lk_OnAwaitingLink LH P s) \<and> link_moves AwaitingLink (GetLinkState (snd (lk_OnAwaitingLink LH P s)))"
    and keeping_holds: "holds (lk_OnKeepingLink LH)"
    and received_moves: "moves (lk_OnLinkDiscoveryReceived LH)"
      "moves (\<lambda>P. lk_OnPKCRequestReceived LH P i x)"
      "moves (\<lambda>P. lk_OnRemotePublicKeyReceived LH P i bs)"
      "moves (\<lambda>P. lk_OnRemoteInfoSyncReceived LH P i)"
      "moves (lk_OnHostInfoSyncRequestReceived LH)"
      "moves (\<lambda>P. lk_OnClockSyncRequestReceived LH P i x)"
      "moves (\<lambda>P. lk_OnClockSyncTuneRequestReceived LH P i x)"
      "moves (\<lambda>P. lk_OnIdBroadcastReceived LH P i x)"
      "moves (\<lambda>P. lk_OnHostPublicKeyReceived LH P i bs)"
      "moves (\<lambda>P. lk_OnHostInfoSyncReceived LH P i y)"
      "moves (\<lambda>P. lk_OnClockSyncResponseReceived LH P i x)"
      "moves (\<lambda>P. lk_OnClockSyncTuneResponseReceived LH P i x)"
      "moves (\<lambda>P s. snd (lk_OnAckedPacketReceived LH P p s))"
begin

lemma OnService_moves: "moves (Link_OnService (Link_UpdateLinkState N SH TH) LH)"
proof -
  have common: "GetLinkState (Link_OnKeepingLinkCommon (lk_OnKeepingLink LH) P s) = GetLinkState s" for P s
    using keeping_holds
    by (simp add: Link_OnKeepingLinkCommon_def case_prod_unfold Let_def holds_def Balancer_Update_def)
  show ?thesis
    unfolding moves_def
  proof (intro allI)
    fix P s
    show "GetLinkState (Link_OnService (Link_UpdateLinkState N SH TH) LH P s) = GetLinkState s \<or>
        link_moves (GetLinkState s) (GetLinkState (Link_OnService (Link_UpdateLinkState N SH TH) LH P s))"
      using linking_moves [of s P] awaiting_moves [of s P] common [of P s]
      by (cases "GetLinkState s")
         (auto simp: Link_OnService_def case_prod_unfold Let_def link_moves_simps)
  qed
qed

lemma ProcessPacket_moves: "moves (\<lambda>P s. snd (Link_ProcessPacket LH P p s))"
proof -
  have report: "holds (\<lambda>P s. Link_OnLinkInfoReportReceived P r c (f s))"
    if "\<And>s. GetLinkState (f s) = GetLinkState s" for r c f
    using that by (simp add: holds_def Link_OnLinkInfoReportReceived_def)
  have short: "moves (\<lambda>P s. Link_ProcessShort LH P p s)"
    unfolding Link_ProcessShort_def Let_def by (intro moves_if received_moves holds_moves [OF holds_id])
  moreover have "moves (\<lambda>P s. Link_ProcessLong LH P p s)"
    unfolding Link_ProcessLong_def Let_def by (intro moves_if received_moves holds_moves [OF holds_id])
  moreover have "moves (\<lambda>P s. Link_ProcessReport LH P p s)"
    unfolding Link_ProcessReport_def Let_def
    by (intro moves_if received_moves holds_moves [OF holds_id] holds_moves [OF report]) simp_all
  ultimately show ?thesis
    unfolding Link_ProcessPacket_def Let_def if_distrib [of snd] snd_conv
    by (intro moves_if holds_moves [OF holds_id])
qed

lemma ProcessAckedPacket_moves: "moves (\<lambda>P s. snd (Link_ProcessAckedPacket LH P p s))"
  using received_moves(13) [of p] by (simp add: Link_ProcessAckedPacket_def moves_def)

end

text \<open>Sending: only \<open>OnService\<close> moves the link.\<close>

lemma Send_Callback_moves:
  assumes "\<And>h t. holds (\<lambda>P. hk_OnSendOk K P h t)" and "\<And>h i. holds (\<lambda>P. hk_OnAckFailed K P h i)"
    and "\<And>h i. holds (\<lambda>P. hk_OnAckReceived K P h i)" and "holds (hk_OnSendFailed K)" and "holds (hk_OnSendTimedOut K)"
    and "holds (hk_OnSendDelayed K)" and "holds (hk_OnSendRetrying K)" and "holds (hk_OnPreSend K)"
    and "moves (hk_OnService K)"
  shows "moves (\<lambda>P. Send_Callback P K)"
proof -
  have h: "GetLinkState (hk_OnSendOk K P a t s) = GetLinkState s" "GetLinkState (hk_OnAckFailed K P a i s) = GetLinkState s"
    "GetLinkState (hk_OnAckReceived K P a i s) = GetLinkState s" "GetLinkState (hk_OnSendFailed K P s) = GetLinkState s"
    "GetLinkState (hk_OnSendTimedOut K P s) = GetLinkState s" "GetLinkState (hk_OnSendDelayed K P s) = GetLinkState s"
    "GetLinkState (hk_OnSendRetrying K P s) = GetLinkState s" "GetLinkState (hk_OnPreSend K P s) = GetLinkState s"
    for P a t i s
    using assms(1-8) by (simp_all add: holds_def)
  have sub: "GetLinkState (Send_sending P K s) = GetLinkState s" "GetLinkState (Send_sent_ok P K s) = GetLinkState s" for P s
    by (simp_all add: Send_sending_def Send_sent_ok_def case_prod_unfold Let_def h split: option.split)
  show ?thesis
    unfolding moves_def
  proof (intro allI)
    fix P and s :: "'a LoLaLinkService_scheme"
    define t where "t = (if \<not> Send_HasSendPending s \<and> SendStatus s \<noteq> Done
      then Service_SetNextRunASAP (s\<lparr>SendStatus := Done\<rparr>) else s)"
    have "GetLinkState t = GetLinkState s" by (simp add: t_def)
    moreover have "GetLinkState (hk_OnService K P t) = GetLinkState t \<or>
        link_moves (GetLinkState t) (GetLinkState (hk_OnService K P t))"
      using assms(9) by (simp add: moves_def)
    ultimately show "GetLinkState (Send_Callback P K s) = GetLinkState s \<or>
        link_moves (GetLinkState s) (GetLinkState (Send_Callback P K s))"
      unfolding Send_Callback_def Let_def t_def [symmetric]
      by (cases "SendStatus t") (simp_all add: h sub)
  qed
qed


section \<open>Host and remote make only these moves\<close>

lemma resend_state [simp]:
  "GetLinkState (prepare s) = GetLinkState s \<Longrightarrow> GetLinkState (Link_resend period prepare P s) = GetLinkState s"
  by (simp add: Link_resend_def)

lemma Host_state_frames [simp]:
  "GetLinkState (Host_ClearSession P s) = GetLinkState s" "GetLinkState (Host_NewSession P s) = GetLinkState s"
  "GetLinkState (Host_RestartAwaitingLink P s) = GetLinkState s"
  "GetLinkState (Host_PrepareIdBroadcast P s) = GetLinkState s"
  "GetLinkState (Host_PrepareLinkProtocolSwitchOver s) = GetLinkState s"
  "GetLinkState (Host_PrepareCryptoStartRequest P s) = GetLinkState s"
  "GetLinkState (Host_PrepareHostInfoSync s) = GetLinkState s"
  "GetLinkState (Host_PrepareInfoSyncRequest s) = GetLinkState s"
  "GetLinkState (Host_PrepareClockSyncResponse i x s) = GetLinkState s"
  "GetLinkState (Host_PrepareClockSyncTuneResponse i x s) = GetLinkState s"
  "GetLinkState (Host_ValidatePartner P s) = GetLinkState s"
  by (simp_all add: Host_NewSession_def Link_ClearSession_def Host_session_hooks_def Host_RestartAwaitingLink_def
      Host_PrepareIdBroadcast_def Host_PrepareLinkProtocolSwitchOver_def Host_PrepareCryptoStartRequest_def
      Host_PrepareHostInfoSync_def Host_PrepareInfoSyncRequest_def Host_PrepareClockSyncResponse_def
      Host_PrepareClockSyncTuneResponse_def Host_ValidatePartner_def case_prod_unfold Let_def)

lemma Host_state_steps [simp]:
  "GetLinkState (Host_BroadcastSession P s) = GetLinkState s"
  "GetLinkState (Host_OnInfoSync P s) = GetLinkState s" "GetLinkState (Host_OnClockSync P s) = GetLinkState s"
  by (simp_all add: Host_BroadcastSession_def Host_OnInfoSync_def Host_OnClockSync_def Let_def)

lemma Host_role: "link_role (Host_link_hooks N)"
proof
  fix P and s :: "'a LoLaLinkHostService_scheme" and i x bs y p
  show "GetLinkState (lk_OnLinking (Host_link_hooks N) P s) = Linking \<or>
      link_moves Linking (GetLinkState (lk_OnLinking (Host_link_hooks N) P s))" if "GetLinkState s = Linking"
    using that by (simp add: Host_link_hooks_def Host_OnLinking_def link_moves_simps)
  show "GetLinkState (snd (lk_OnAwaitingLink (Host_link_hooks N) P s)) = AwaitingLink \<or>
      fst (lk_OnAwaitingLink (Host_link_hooks N) P s) \<and>
      link_moves AwaitingLink (GetLinkState (snd (lk_OnAwaitingLink (Host_link_hooks N) P s)))" if "GetLinkState s = AwaitingLink"
    using that by (simp add: Host_link_hooks_def Host_OnAwaitingLink_def case_prod_unfold Let_def link_moves_simps)
  show "holds (lk_OnKeepingLink (Host_link_hooks N))"
    by (simp add: holds_def Host_link_hooks_def Host_OnKeepingLink_def case_prod_unfold Let_def)
  show "moves (lk_OnLinkDiscoveryReceived (Host_link_hooks N))"
    "moves (\<lambda>P. lk_OnPKCRequestReceived (Host_link_hooks N) P i x)"
    "moves (\<lambda>P. lk_OnRemotePublicKeyReceived (Host_link_hooks N) P i bs)"
    "moves (\<lambda>P. lk_OnRemoteInfoSyncReceived (Host_link_hooks N) P i)"
    "moves (lk_OnHostInfoSyncRequestReceived (Host_link_hooks N))"
    "moves (\<lambda>P. lk_OnClockSyncRequestReceived (Host_link_hooks N) P i x)"
    "moves (\<lambda>P. lk_OnClockSyncTuneRequestReceived (Host_link_hooks N) P i x)"
    "moves (\<lambda>P. lk_OnIdBroadcastReceived (Host_link_hooks N) P i x)"
    "moves (\<lambda>P. lk_OnHostPublicKeyReceived (Host_link_hooks N) P i bs)"
    "moves (\<lambda>P. lk_OnHostInfoSyncReceived (Host_link_hooks N) P i y)"
    "moves (\<lambda>P. lk_OnClockSyncResponseReceived (Host_link_hooks N) P i x)"
    "moves (\<lambda>P. lk_OnClockSyncTuneResponseReceived (Host_link_hooks N) P i x)"
    "moves (\<lambda>P s. snd (lk_OnAckedPacketReceived (Host_link_hooks N) P p s))"
    by (rule holds_moves, simp add: holds_def Host_link_hooks_def Link_default_hooks_def Host_OnLinkDiscoveryReceived_def
        Host_OnPKCRequestReceived_def Host_OnRemotePublicKeyReceived_def Host_OnRemoteInfoSyncReceived_def
        Host_OnClockSyncRequestReceived_def Host_OnClockSyncTuneRequestReceived_def case_prod_unfold Let_def)+
qed

lemma Host_Callback_moves: "moves (Host_Callback N)"
proof -
  have "moves (\<lambda>P. Send_Callback P (Host_send_hooks N))"
  proof (rule Send_Callback_moves)
    show "moves (hk_OnService (Host_send_hooks N))"
      using link_role.OnService_moves [OF Host_role [of N]] by (simp add: Host_send_hooks_def Host_OnService_def)
  qed (simp_all add: holds_def Host_send_hooks_def Send_default_hooks_def Link_OnSendOk_def Link_OnSendFailed_def
      Host_OnAckReceived_def Host_OnPingAckReceived_def Host_OnLinkAckReceived_def Host_OnPreSend_def case_prod_unfold Let_def)
  then show ?thesis by (simp add: Host_Callback_def moves_def)
qed

lemma Remote_state_frames [simp]:
  "GetLinkState (Remote_ClearSession P s) = GetLinkState s" "GetLinkState (Remote_RestartSearch P s) = GetLinkState s"
  "GetLinkState (Remote_PrepareLinkDiscovery s) = GetLinkState s"
  "GetLinkState (Remote_PreparePKCStartRequest P s) = GetLinkState s"
  "GetLinkState (Remote_PrepareRemoteInfoSync s) = GetLinkState s"
  "GetLinkState (Remote_PrepareClockSyncRequest i s) = GetLinkState s"
  "GetLinkState (Remote_PrepareClockSyncTuneRequest i s) = GetLinkState s"
  "GetLinkState (Remote_ValidatePartner P s) = GetLinkState s" "GetLinkState (Remote_TakeEstimation P s) = GetLinkState s"
  by (simp_all add: Link_ClearSession_def Remote_session_hooks_def Remote_RestartSearch_def
      Remote_PrepareLinkDiscovery_def Remote_PreparePKCStartRequest_def Remote_PrepareRemoteInfoSync_def
      Remote_PrepareClockSyncRequest_def Remote_PrepareClockSyncTuneRequest_def Remote_ValidatePartner_def
      Remote_TakeEstimation_def case_prod_unfold Let_def)

lemma Remote_state_steps [simp]:
  "GetLinkState (snd (Remote_OnInfoSync P s)) = GetLinkState s" "GetLinkState (Remote_OnClockSync P s) = GetLinkState s"
  "GetLinkState (snd (Remote_OnCryptoStartReceived P i bs s)) = GetLinkState s"
  "GetLinkState (snd (Remote_OnLinkProtocolReceived P i x s)) = GetLinkState s"
  by (simp_all add: Remote_OnInfoSync_def Remote_OnClockSync_def Remote_OnCryptoStartReceived_def
      Remote_OnLinkProtocolReceived_def case_prod_unfold Let_def)

lemma Remote_role: "link_role (Remote_link_hooks N)"
proof
  fix P and s :: "'a LoLaLinkRemoteService_scheme" and i x bs y p
  show "GetLinkState (lk_OnLinking (Remote_link_hooks N) P s) = Linking \<or>
      link_moves Linking (GetLinkState (lk_OnLinking (Remote_link_hooks N) P s))" if "GetLinkState s = Linking"
    using that by (simp add: Remote_link_hooks_def Remote_OnLinking_def case_prod_unfold Let_def link_moves_simps)
  show "GetLinkState (snd (lk_OnAwaitingLink (Remote_link_hooks N) P s)) = AwaitingLink \<or>
      fst (lk_OnAwaitingLink (Remote_link_hooks N) P s) \<and>
      link_moves AwaitingLink (GetLinkState (snd (lk_OnAwaitingLink (Remote_link_hooks N) P s)))" if "GetLinkState s = AwaitingLink"
    using that by (simp add: Remote_link_hooks_def Remote_OnAwaitingLink_def case_prod_unfold Let_def link_moves_simps)
  show "holds (lk_OnKeepingLink (Remote_link_hooks N))"
    by (simp add: holds_def Remote_link_hooks_def Remote_OnKeepingLink_def case_prod_unfold Let_def)
  show "moves (\<lambda>P. lk_OnIdBroadcastReceived (Remote_link_hooks N) P i x)"
    by (simp add: moves_def Remote_link_hooks_def Remote_OnIdBroadcastReceived_def case_prod_unfold Let_def link_moves_simps)
  show "moves (lk_OnLinkDiscoveryReceived (Remote_link_hooks N))"
    "moves (\<lambda>P. lk_OnPKCRequestReceived (Remote_link_hooks N) P i x)"
    "moves (\<lambda>P. lk_OnRemotePublicKeyReceived (Remote_link_hooks N) P i bs)"
    "moves (\<lambda>P. lk_OnRemoteInfoSyncReceived (Remote_link_hooks N) P i)"
    "moves (lk_OnHostInfoSyncRequestReceived (Remote_link_hooks N))"
    "moves (\<lambda>P. lk_OnClockSyncRequestReceived (Remote_link_hooks N) P i x)"
    "moves (\<lambda>P. lk_OnClockSyncTuneRequestReceived (Remote_link_hooks N) P i x)"
    "moves (\<lambda>P. lk_OnHostPublicKeyReceived (Remote_link_hooks N) P i bs)"
    "moves (\<lambda>P. lk_OnHostInfoSyncReceived (Remote_link_hooks N) P i y)"
    "moves (\<lambda>P. lk_OnClockSyncResponseReceived (Remote_link_hooks N) P i x)"
    "moves (\<lambda>P. lk_OnClockSyncTuneResponseReceived (Remote_link_hooks N) P i x)"
    "moves (\<lambda>P s. snd (lk_OnAckedPacketReceived (Remote_link_hooks N) P p s))"
    by (rule holds_moves, simp add: holds_def Remote_link_hooks_def Link_default_hooks_def
        Remote_OnHostInfoSyncRequestReceived_def Remote_OnHostPublicKeyReceived_def Remote_OnHostInfoSyncReceived_def
        Remote_OnClockSyncResponseReceived_def Remote_OnClockSyncTuneResponseReceived_def Remote_OnAckedPacketReceived_def
        case_prod_unfold Let_def split: LinkStateEnum.split)+
qed

lemma Remote_Callback_moves: "moves (Remote_Callback N)"
proof -
  have "moves (\<lambda>P. Send_Callback P (Remote_send_hooks N))"
  proof (rule Send_Callback_moves)
    show "moves (hk_OnService (Remote_send_hooks N))"
      using link_role.OnService_moves [OF Remote_role [of N]] by (simp add: Remote_send_hooks_def Remote_OnService_def)
  qed (simp_all add: holds_def Remote_send_hooks_def Send_default_hooks_def Link_OnSendOk_def Link_OnSendFailed_def
      Remote_OnPreSend_def case_prod_unfold Let_def)
  then show ?thesis by (simp add: Remote_Callback_def moves_def)
qed


section \<open>Runs of a node\<close>

inductive radio_interrupt :: "Driver \<Rightarrow> Driver \<Rightarrow> bool" where
  battery: "actions_ok P \<Longrightarrow> radio_interrupt d (Driver_OnBatteryAlarm P d)"
| incoming: "IrqEnabled d \<Longrightarrow> radio_interrupt d (Driver_OnIncoming P r d)"
| receive_begin: "actions_ok P \<Longrightarrow> IrqEnabled d \<Longrightarrow> radio_interrupt d (Driver_OnReceiveBegin P n r d)"
| receive_fail: "actions_ok P \<Longrightarrow> IrqEnabled d \<Longrightarrow> radio_interrupt d (Driver_OnReceivedFail P d)"
| sent_ok: "actions_ok P \<Longrightarrow> IrqEnabled d \<Longrightarrow> radio_interrupt d (Driver_OnSentOk P d)"

lemma radio_interrupt_keeps:
  assumes "radio_interrupt d d'"
  shows "stage_of d' = stage_of d" and "Driver_inv d \<Longrightarrow> Driver_inv d'"
  using assms
  by (cases rule: radio_interrupt.cases; simp add: OnBatteryAlarm_inv OnIncoming_inv OnReceiveBegin_inv
      OnReceivedFail_inv OnSentOk_inv)+

text \<open>
  The handlers are the manager's, \<open>C\<close> is the callback of the link service and \<open>U\<close> its
  \<open>UpdateLinkState\<close>. What the application does is bounded by what side services may do.
\<close>

inductive node_step ::
  "'a LoLaLinkService_scheme handlers \<Rightarrow> (platform \<Rightarrow> 'a LoLaLinkService_scheme \<Rightarrow> 'a LoLaLinkService_scheme) \<Rightarrow>
   (platform \<Rightarrow> LinkStateEnum \<Rightarrow> 'a LoLaLinkService_scheme \<Rightarrow> 'a LoLaLinkService_scheme) \<Rightarrow>
   'a LoLaLinkService_scheme \<Rightarrow> 'a LoLaLinkService_scheme \<Rightarrow> bool" for H C U where
  task: "actions_ok P \<Longrightarrow> node_step H C U w (snd (Driver_AsyncCallback P H w))"
| service: "actions_ok P \<Longrightarrow> node_step H C U w (C P w)"
| radio: "radio_interrupt (drv w) d \<Longrightarrow> node_step H C U w (w\<lparr>drv := d\<rparr>)"
| second: "node_step H C U w (on_drv (on_clock (Clock_OnInterrupt P)) w)"
| hopper: "node_step H C U w (w\<lparr>TimedHopper := snd (Hopper_Callback P (drv w) (TimedHopper w))\<rparr>)"
| start: "actions_ok P \<Longrightarrow> node_step H C U w (Lola_Start U P w)"
| stop: "actions_ok P \<Longrightarrow> node_step H C U w (Lola_Stop U P w)"

inductive link_step ::
  "'a LoLaLinkService_scheme handlers \<Rightarrow> (platform \<Rightarrow> 'a LoLaLinkService_scheme \<Rightarrow> 'a LoLaLinkService_scheme) \<Rightarrow>
   (platform \<Rightarrow> LinkStateEnum \<Rightarrow> 'a LoLaLinkService_scheme \<Rightarrow> 'a LoLaLinkService_scheme) \<Rightarrow>
   'a LoLaLinkService_scheme \<Rightarrow> 'a LoLaLinkService_scheme \<Rightarrow> bool" for H C U where
  node: "node_step H C U w w' \<Longrightarrow> link_step H C U w w'"
| application: "link_view w' = link_view w \<Longrightarrow> (Driver_inv (drv w) \<longrightarrow> Driver_inv (drv w')) \<Longrightarrow> link_step H C U w w'"

text \<open>The table of a node: the hopper, the link service, the application's services.\<close>

definition node_table ::
  "'a LoLaLinkService_scheme service \<Rightarrow> 'a LoLaLinkService_scheme service list \<Rightarrow>
   'a LoLaLinkService_scheme LoLaServicesManager \<Rightarrow> bool" where
  "node_table link apps M \<longleftrightarrow> Manager_table M = Hopper_service # link # apps \<and> (\<forall>S \<in> set apps. side_service S)"

definition service_keeps :: "u8 set \<Rightarrow> 'a LoLaLinkService_scheme service \<Rightarrow> bool" where
  "service_keeps keyed S \<longleftrightarrow> (\<forall>p. keeps_link keyed (\<lambda>P w. snd (srv_ReceivedPacket S P p w))) \<and>
     (\<forall>p. keeps_link keyed (\<lambda>P w. snd (srv_ReceivedAckedPacket S P p w))) \<and>
     (\<forall>h i. keeps_link keyed (\<lambda>P w. snd (srv_ReceivedAck S P h i w))) \<and>
     (\<forall>h. keeps_link keyed (\<lambda>P w. snd (srv_ProcessSent S P h w)))"

definition service_moves :: "'a LoLaLinkService_scheme service \<Rightarrow> bool" where
  "service_moves S \<longleftrightarrow> (\<forall>p. moves (\<lambda>P w. snd (srv_ReceivedPacket S P p w))) \<and>
     (\<forall>p. moves (\<lambda>P w. snd (srv_ReceivedAckedPacket S P p w))) \<and>
     (\<forall>h i. moves (\<lambda>P w. snd (srv_ReceivedAck S P h i w))) \<and>
     (\<forall>h. moves (\<lambda>P w. snd (srv_ProcessSent S P h w)))"

context side_service
begin

lemma keeps: "service_keeps keyed S"
  by (auto simp: service_keeps_def keeps_link_def link_inv_view [OF views(1)] link_inv_view [OF views(2)]
      link_inv_view [OF views(3)] link_inv_view [OF views(4)] driver)

lemma stays:
  "GetLinkState (snd (srv_ReceivedPacket S P p w)) = GetLinkState w"
  "GetLinkState (snd (srv_ReceivedAckedPacket S P p w)) = GetLinkState w"
  "GetLinkState (snd (srv_ReceivedAck S P h i w)) = GetLinkState w"
  "GetLinkState (snd (srv_ProcessSent S P h w)) = GetLinkState w"
  using views(1) [of P p w] views(2) [of P p w] views(3) [of P h i w] views(4) [of P h w]
  by (simp_all add: link_view_def)

end


lemma table_keeps:
  assumes "node_table link apps M" and "service_keeps keyed link"
  shows "\<forall>S \<in> set (Manager_table M). service_keeps keyed S"
  using assms side_service.keeps [OF hopper.side_service_axioms] side_service.keeps
  by (auto simp: node_table_def)

lemma serves_keeps:
  assumes t: "\<forall>S \<in> set (Manager_table M). service_keeps keyed S" and s: "serves P (Manager_handlers M) w w'"
    and inv: "link_inv keyed w"
  shows "link_inv keyed w'"
proof -
  have k: "link_inv keyed (snd (first_taker f (Manager_table M) w))"
    if "\<And>S w. S \<in> set (Manager_table M) \<Longrightarrow> link_inv keyed w \<Longrightarrow> link_inv keyed (snd (f S w))" for f
    by (rule first_taker_keeps [where I = "link_inv keyed"]) (use that inv in auto)
  have S: "link_inv keyed w \<Longrightarrow> link_inv keyed (snd (srv_ReceivedPacket S P p w))"
    "link_inv keyed w \<Longrightarrow> link_inv keyed (snd (srv_ReceivedAckedPacket S P p w))"
    "link_inv keyed w \<Longrightarrow> link_inv keyed (snd (srv_ReceivedAck S P h i w))"
    "link_inv keyed w \<Longrightarrow> link_inv keyed (snd (srv_ProcessSent S P h w))"
    if "S \<in> set (Manager_table M)" for S p h i w
    using t that by (simp_all add: service_keeps_def keeps_link_def)
  from s show ?thesis
    by (cases rule: serves.cases)
       (simp_all add: Manager_handlers_def Manager_ProcessPacket_def Manager_ProcessAckedPacket_def
         Manager_ProcessAck_def Manager_ProcessSent_def inv k S)
qed

lemma serves_moves:
  assumes t: "node_table link apps M" "service_moves link" and s: "serves P (Manager_handlers M) w w'"
  shows "GetLinkState w' = GetLinkState w \<or> link_moves (GetLinkState w) (GetLinkState w')"
proof -
  have apps: "GetLinkState (snd (first_taker f apps w)) = GetLinkState w"
    if "\<And>S w. S \<in> set apps \<Longrightarrow> GetLinkState (snd (f S w)) = GetLinkState w" for f w
    by (rule first_taker_keeps [where I = "\<lambda>x. GetLinkState x = GetLinkState w"]) (use that in auto)
  have k: "GetLinkState (snd (first_taker f (Manager_table M) w)) = GetLinkState w \<or>
      link_moves (GetLinkState w) (GetLinkState (snd (first_taker f (Manager_table M) w)))"
    if "\<And>S w. S \<in> set apps \<Longrightarrow> GetLinkState (snd (f S w)) = GetLinkState w" "f Hopper_service w = (False, w)"
      "GetLinkState (snd (f link w)) = GetLinkState w \<or> link_moves (GetLinkState w) (GetLinkState (snd (f link w)))" for f
    using t(1) that(2,3) apps [of f, OF that(1)] by (simp add: node_table_def case_prod_unfold Let_def)
  have S: "side_service S" if "S \<in> set apps" for S using t(1) that by (simp add: node_table_def)
  note st = side_service.stays [OF S]
  from s t(2) show ?thesis
    by (cases rule: serves.cases)
       (simp_all add: Manager_handlers_def Manager_ProcessPacket_def Manager_ProcessAckedPacket_def
         Manager_ProcessAck_def Manager_ProcessSent_def k st Hopper_service_def service_moves_def moves_def)
qed

lemma link_inv_stage_of:
  "stage_of d = stage_of (drv w) \<Longrightarrow> link_inv keyed (w\<lparr>drv := d\<rparr>) = link_inv keyed w"
  by (simp add: link_inv_def link_view_def stage_of_def)

lemma turn_keeps:
  assumes "\<forall>S \<in> set (Manager_table M). service_keeps keyed S" and "turn P (Manager_handlers M) w w'" and "link_inv keyed w"
  shows "link_inv keyed w'"
proof -
  from assms(2) obtain d1 w2 d2 where *: "stage_of d1 = stage_of (drv w)" "serves P (Manager_handlers M) (w\<lparr>drv := d1\<rparr>) w2"
    "stage_of d2 = stage_of (drv w2)" "w' = w2\<lparr>drv := d2\<rparr>"
    by (auto simp: turn_def)
  have "link_inv keyed (w\<lparr>drv := d1\<rparr>)" using *(1) assms(3) by (simp add: link_inv_stage_of)
  from serves_keeps [OF assms(1) *(2) this] show ?thesis using *(3,4) by (simp add: link_inv_stage_of)
qed

lemma turn_moves:
  assumes "node_table link apps M" and "service_moves link" and "turn P (Manager_handlers M) w w'"
  shows "GetLinkState w' = GetLinkState w \<or> link_moves (GetLinkState w) (GetLinkState w')"
proof -
  from assms(3) obtain d1 w2 d2 where *: "serves P (Manager_handlers M) (w\<lparr>drv := d1\<rparr>) w2" "w' = w2\<lparr>drv := d2\<rparr>"
    by (auto simp: turn_def)
  show ?thesis using serves_moves [OF assms(1,2) *(1)] *(2) by simp
qed


text \<open>The services of both ends on the table.\<close>

lemma gated_keeps:
  "keeps_link keyed (\<lambda>P s. snd (f P p s)) \<Longrightarrow> keeps_link keyed (\<lambda>P s. snd (Service_ReceivedPacket c f P p s))"
  "keeps_link keyed (\<lambda>P s. snd (f P p s)) \<Longrightarrow> keeps_link keyed (\<lambda>P s. snd (Service_ReceivedAckedPacket c f P p s))"
  by (simp_all add: keeps_link_def Service_ReceivedPacket_def Service_ReceivedAckedPacket_def)

lemma sent_keeps:
  "keeps_link keyed (\<lambda>P s. snd (Service_ReceivedAck c (\<lambda>P. Send_ProcessAck) P h i s))"
  "keeps_link keyed (\<lambda>P s. snd (Send_ProcessSent h s))"
  by (rule keeps_link_quiet; simp add: Service_ReceivedAck_def)+

lemma gated_moves:
  "moves (\<lambda>P s. snd (f P p s)) \<Longrightarrow> moves (\<lambda>P s. snd (Service_ReceivedPacket c f P p s))"
  "moves (\<lambda>P s. snd (f P p s)) \<Longrightarrow> moves (\<lambda>P s. snd (Service_ReceivedAckedPacket c f P p s))"
  "moves (\<lambda>P s. snd (Service_ReceivedAck c (\<lambda>P. Send_ProcessAck) P h i s))"
  "moves (\<lambda>P s. snd (Send_ProcessSent h s))"
  by (simp_all add: moves_def Service_ReceivedPacket_def Service_ReceivedAckedPacket_def Service_ReceivedAck_def)

lemma Host_service_keeps:
  assumes "link_state N Host_session_hooks Host_state_hooks host_keyed"
  shows "service_keeps host_keyed (Host_service N P0)"
  using link_end.ProcessPacket_keeps [OF Host_end [OF assms]] link_end.ProcessAckedPacket_keeps [OF Host_end [OF assms]]
  by (simp add: service_keeps_def Host_service_def gated_keeps sent_keeps)

lemma Remote_service_keeps:
  assumes "link_state N Remote_session_hooks Remote_state_hooks remote_keyed"
  shows "service_keeps remote_keyed (Remote_service N P0)"
  using link_end.ProcessPacket_keeps [OF Remote_end [OF assms]] link_end.ProcessAckedPacket_keeps [OF Remote_end [OF assms]]
  by (simp add: service_keeps_def Remote_service_def gated_keeps sent_keeps)

lemma Host_service_moves: "service_moves (Host_service N P0)"
  using link_role.ProcessPacket_moves [OF Host_role [of N]] link_role.ProcessAckedPacket_moves [OF Host_role [of N]]
  by (simp add: service_moves_def Host_service_def gated_moves)

lemma Remote_service_moves: "service_moves (Remote_service N P0)"
  using link_role.ProcessPacket_moves [OF Remote_role [of N]] link_role.ProcessAckedPacket_moves [OF Remote_role [of N]]
  by (simp add: service_moves_def Remote_service_def gated_moves)

section \<open>Every step keeps the invariant and moves the link as allowed\<close>

lemma start_inv:
  assumes "link_state N SH TH keyed" and "link_inv keyed w"
  shows "link_inv keyed (Lola_Start (Link_UpdateLinkState N SH TH) P w)"
  unfolding Lola_Start_def by (rule link_state.Enable_inv [OF assms])

lemma stop_inv:
  assumes "link_state N SH TH keyed" and "link_inv keyed w"
  shows "link_inv keyed (Lola_Stop (Link_UpdateLinkState N SH TH) P w)"
proof -
  have "link_inv keyed (on_drv Driver_Disable w)" using assms(2) by (simp add: link_inv_iff Driver_Disable_def)
  then show ?thesis unfolding Lola_Stop_def by (rule link_state.Disable_inv [OF assms(1)])
qed

lemma node_step_inv:
  assumes N: "link_state N SH TH keyed" and M: "\<forall>S \<in> set (Manager_table M). service_keeps keyed S"
    and C: "keeps_link keyed C" and s: "node_step (Manager_handlers M) C (Link_UpdateLinkState N SH TH) w w'"
    and inv: "link_inv keyed w"
  shows "link_inv keyed w'"
  using s
proof (cases rule: node_step.cases)
  case (task P)
  then show ?thesis using turn_keeps [OF M AsyncCallback_turn inv] by simp
next
  case (service P)
  then show ?thesis using keeps_linkD(1) [OF C inv] by simp
next
  case (radio d)
  then show ?thesis using link_inv_stage_of [OF radio_interrupt_keeps(1)] inv by metis
next
  case (start P)
  then show ?thesis using start_inv [OF N inv] by simp
next
  case (stop P)
  then show ?thesis using stop_inv [OF N inv] by simp
qed (use inv in \<open>simp_all add: link_inv_iff\<close>)

lemma step_inv:
  assumes "link_state N SH TH keyed" and "\<forall>S \<in> set (Manager_table M). service_keeps keyed S" and "keeps_link keyed C"
    and "link_step (Manager_handlers M) C (Link_UpdateLinkState N SH TH) w w'" and "link_inv keyed w"
  shows "link_inv keyed w'"
  using assms(4)
proof (cases rule: link_step.cases)
  case node
  then show ?thesis by (rule node_step_inv [OF assms(1-3) _ assms(5)])
next
  case application
  then show ?thesis using link_inv_view assms(5) by metis
qed

lemma run_inv:
  assumes "link_state N SH TH keyed" and "\<forall>S \<in> set (Manager_table M). service_keeps keyed S" and "keeps_link keyed C"
    and "(link_step (Manager_handlers M) C (Link_UpdateLinkState N SH TH))\<^sup>*\<^sup>* w0 w" and "link_inv keyed w0"
  shows "link_inv keyed w"
  using assms(4,5) by (induction rule: rtranclp_induct) (auto intro: step_inv [OF assms(1-3)])

lemma step_moves:
  assumes M: "node_table link apps M" "service_moves link" and C: "moves C"
    and s: "link_step (Manager_handlers M) C (Link_UpdateLinkState N SH TH) w w'"
  shows "GetLinkState w' = GetLinkState w \<or> link_moves (GetLinkState w) (GetLinkState w') \<or>
    (\<exists>P. w' = Lola_Start (Link_UpdateLinkState N SH TH) P w) \<and> GetLinkState w' = LinkSetup \<or>
    (\<exists>P. w' = Lola_Stop (Link_UpdateLinkState N SH TH) P w) \<and> GetLinkState w' = LinkDisabled"
  using s
proof (cases rule: link_step.cases)
  case application
  then show ?thesis by (simp add: link_view_def)
next
  case node
  then show ?thesis
  proof (cases rule: node_step.cases)
    case (task P)
    then show ?thesis using turn_moves [OF M AsyncCallback_turn] by metis
  next
    case (service P)
    then show ?thesis using C by (auto simp: moves_def)
  next
    case (start P)
    then show ?thesis by (auto simp: Lola_Start_def Link_Enable_state)
  next
    case (stop P)
    then show ?thesis by (auto simp: Lola_Stop_def)
  qed simp_all
qed


section \<open>The nodes of this repository\<close>

abbreviation host_step ::
  "'a LoLaLinkHostService_scheme service list \<Rightarrow> 'a LoLaLinkHostService_scheme LoLaServicesManager \<Rightarrow>
   'a LoLaLinkHostService_scheme \<Rightarrow> 'a LoLaLinkHostService_scheme \<Rightarrow> bool" where
  "host_step apps M \<equiv> link_step (Manager_handlers M) (Host_Callback (Lola_notify apps))
     (Host_UpdateLinkState (Lola_notify apps))"

abbreviation remote_step ::
  "'a LoLaLinkRemoteService_scheme service list \<Rightarrow> 'a LoLaLinkRemoteService_scheme LoLaServicesManager \<Rightarrow>
   'a LoLaLinkRemoteService_scheme \<Rightarrow> 'a LoLaLinkRemoteService_scheme \<Rightarrow> bool" where
  "remote_step apps M \<equiv> link_step (Manager_handlers M) (Remote_Callback (Lola_notify apps))
     (Remote_UpdateLinkState (Lola_notify apps))"

abbreviation host_table where
  "host_table P0 apps M \<equiv> node_table (Host_service (Lola_notify apps) P0) apps M"

abbreviation remote_table where
  "remote_table P0 apps M \<equiv> node_table (Remote_service (Lola_notify apps) P0) apps M"

text \<open>The notifications the model is built with are the ones the manager of the node makes.\<close>

lemma node_notify:
  "host_table P0 apps M \<Longrightarrow> (\<lambda>P. Manager_NotifyServicesLinkUpdated P M) = Lola_notify apps"
  "remote_table P0 apps' M' \<Longrightarrow> (\<lambda>P. Manager_NotifyServicesLinkUpdated P M') = Lola_notify apps'"
  by (rule notify_table [of M "Host_service (Lola_notify apps) P0"],
      simp add: node_table_def, simp_all add: Host_service_def)
     (rule notify_table [of M' "Remote_service (Lola_notify apps') P0"],
      simp add: node_table_def, simp_all add: Remote_service_def)

lemma node_states:
  "host_table P0 apps M \<Longrightarrow> link_state (Lola_notify apps) Host_session_hooks Host_state_hooks host_keyed"
  "remote_table P0 apps' M' \<Longrightarrow> link_state (Lola_notify apps') Remote_session_hooks Remote_state_hooks remote_keyed"
proof -
  assume "host_table P0 apps M"
  then have "\<forall>S \<in> set (Hopper_service # apps). side_service S" by (simp add: node_table_def hopper.side_service_axioms)
  from notify_keeps [OF this] show "link_state (Lola_notify apps) Host_session_hooks Host_state_hooks host_keyed"
    by (rule Host_state)
next
  assume "remote_table P0 apps' M'"
  then have "\<forall>S \<in> set (Hopper_service # apps'). side_service S" by (simp add: node_table_def hopper.side_service_axioms)
  from notify_keeps [OF this] show "link_state (Lola_notify apps') Remote_session_hooks Remote_state_hooks remote_keyed"
    by (rule Remote_state)
qed

text \<open>The locales of the link, on the nodes without an application.\<close>

lemma no_apps_view: "link_view (Lola_notify [] P b s) = link_view s"
  by (rule notify_keeps) (simp add: hopper.side_service_axioms)

lemma no_apps_drv: "actions_ok P \<Longrightarrow> Driver_inv (drv s) \<Longrightarrow> Driver_inv (drv (Lola_notify [] P b s))"
  by (rule notify_keeps) (simp_all add: hopper.side_service_axioms)

interpretation host_link: link_end "Lola_notify []" Host_session_hooks Host_state_hooks host_keyed "Host_link_hooks (Lola_notify [])"
  by (rule Host_end [OF Host_state [OF no_apps_view no_apps_drv]])

interpretation remote_link: link_end "Lola_notify []" Remote_session_hooks Remote_state_hooks remote_keyed
    "Remote_link_hooks (Lola_notify [])"
  by (rule Remote_end [OF Remote_state [OF no_apps_view no_apps_drv]])

interpretation host_role: link_role "Host_link_hooks (Lola_notify [])"
  by (rule Host_role)

interpretation remote_role: link_role "Remote_link_hooks (Lola_notify [])"
  by (rule Remote_role)

interpretation host_send: send_class "Host_send_hooks (Lola_notify [])"
  by unfold_locales
     (simp_all add: Host_send_hooks_def Send_default_hooks_def Link_OnSendOk_def Host_OnPreSend_def on_info_def Let_def,
      simp_all add: send_frame_def)

interpretation remote_send: send_class "Remote_send_hooks (Lola_notify [])"
  by unfold_locales
     (simp_all add: Remote_send_hooks_def Send_default_hooks_def Link_OnSendOk_def Remote_OnPreSend_def on_info_def
       Link_S_ArrayToPayload_def Link_SetPayload_def Let_def,
      simp_all add: send_frame_def LoLaPacket_SetPayload_def)


lemma host_run_inv:
  assumes "host_table P0 apps M" and "link_view w0 = (LinkDisabled, 0, AllClear, False, True)"
    and "(host_step apps M)\<^sup>*\<^sup>* w0 w"
  shows "link_inv host_keyed w"
proof -
  note N = node_states(1) [OF assms(1)]
  have "keeps_link host_keyed (Host_Callback (Lola_notify apps))"
    using Send_Callback_keeps [OF Host_send [OF N]] by (simp add: Host_Callback_def keeps_link_def)
  moreover have "link_inv host_keyed w0" using assms(2) by (simp add: link_inv_def)
  ultimately show ?thesis
    using run_inv [OF N table_keeps [OF assms(1) Host_service_keeps [OF N]]] assms(3) by blast
qed

lemma remote_run_inv:
  assumes "remote_table P0 apps M" and "link_view w0 = (LinkDisabled, 0, AllClear, False, True)"
    and "(remote_step apps M)\<^sup>*\<^sup>* w0 w"
  shows "link_inv remote_keyed w"
proof -
  note N = node_states(2) [OF assms(1)]
  have "keeps_link remote_keyed (Remote_Callback (Lola_notify apps))"
    using Send_Callback_keeps [OF Remote_send [OF N]] by (simp add: Remote_Callback_def keeps_link_def)
  moreover have "link_inv remote_keyed w0" using assms(2) by (simp add: link_inv_def)
  ultimately show ?thesis
    using run_inv [OF N table_keeps [OF assms(1) Remote_service_keeps [OF N]]] assms(3) by blast
qed

definition crypto_follows_link :: "'a LoLaLinkService_scheme \<Rightarrow> bool" where
  "crypto_follows_link w \<longleftrightarrow>
     (GetLinkState w = Linking \<or> GetLinkState w = Linked \<longrightarrow> EncoderState (CryptoEncoder (drv w)) = FullPower) \<and>
     (EncoderState (CryptoEncoder (drv w)) = FullPower \<longrightarrow> GetLinkState w \<in> {Linking, Linked, LinkDisabled}) \<and>
     (Driver_HasLink (drv w) \<longleftrightarrow> GetLinkState w = Linked)"

lemma link_inv_crypto: "link_inv keyed w \<Longrightarrow> crypto_follows_link w"
  by (simp add: link_inv_iff crypto_follows_link_def Driver_HasLink_def)

definition host_manager :: "LoLaLinkHostService LoLaServicesManager" where
  "host_manager = \<lparr> Services = (replicate MAX_RADIO_SERVICES_COUNT None)
     [0 := Some Hopper_service, 1 := Some (Host_service (Lola_notify []) sample_platform)], ServicesCount = 2 \<rparr>"

definition remote_manager :: "LoLaLinkRemoteService LoLaServicesManager" where
  "remote_manager = \<lparr> Services = (replicate MAX_RADIO_SERVICES_COUNT None)
     [0 := Some Hopper_service, 1 := Some (Remote_service (Lola_notify []) sample_platform)], ServicesCount = 2 \<rparr>"

lemma sample_tables:
  "host_table sample_platform [] host_manager" "remote_table sample_platform [] remote_manager"
  by (simp_all add: node_table_def Manager_table_def host_manager_def remote_manager_def lola_consts)
     (simp_all add: numeral_eq_Suc map_filter_simps)

definition sample_host :: LoLaLinkHostService where
  "sample_host = blank_host\<lparr>LinkInfo := LinkInfo_SetDriver LinkInfo_new\<rparr>"

definition sample_remote :: LoLaLinkRemoteService where
  "sample_remote = blank_remote\<lparr>LinkInfo := LinkInfo_SetDriver LinkInfo_new\<rparr>"

lemma sample_views:
  "link_view sample_host = (LinkDisabled, 0, AllClear, False, True)"
  "link_view sample_remote = (LinkDisabled, 0, AllClear, False, True)"
  by (simp_all add: sample_host_def sample_remote_def link_view_def, simp_all add: blank_host_def blank_remote_def
      blank_link_def Link_construct_def Send_construct_def Service_construct_def Service_InitializeState_def
      LoLaLinkService.defs LinkInfo_new_def Driver_new_def Encoder_new_def)

text \<open>C4. A node encrypts while it is linking or linked and at no other time but one: in every run of
  host and remote from set-up, whatever packets arrive, whatever the scheduler, the radio and the
  application services do, the encoder is at full power in the states \<open>Linking\<close> and \<open>Linked\<close>, and
  elsewhere only in \<open>Disabled\<close>; the driver reports a link exactly in the state \<open>Linked\<close>.\<close>
theorem encryption_follows_link:
  assumes "host_table P0 apps M" and "link_view w0 = (LinkDisabled, 0, AllClear, False, True)"
    and "(host_step apps M)\<^sup>*\<^sup>* w0 w"
    and "remote_table P0' apps' M'" and "link_view v0 = (LinkDisabled, 0, AllClear, False, True)"
    and "(remote_step apps' M')\<^sup>*\<^sup>* v0 v"
  shows "crypto_follows_link w \<and> crypto_follows_link v"
  using link_inv_crypto [OF host_run_inv [OF assms(1-3)]] link_inv_crypto [OF remote_run_inv [OF assms(4-6)]] by simp

lemma sample_started:
  "(host_step [] host_manager)\<^sup>*\<^sup>* sample_host
     (Lola_Start (Host_UpdateLinkState (Lola_notify [])) sample_platform sample_host)"
  "(remote_step [] remote_manager)\<^sup>*\<^sup>* sample_remote
     (Lola_Start (Remote_UpdateLinkState (Lola_notify [])) sample_platform sample_remote)"
  by (auto intro!: r_into_rtranclp [of "link_step H C U" for H C U] link_step.node node_step.start)

lemma sample_started_state:
  "GetLinkState (Lola_Start (Host_UpdateLinkState (Lola_notify [])) sample_platform sample_host) = LinkSetup"
  "GetLinkState (Lola_Start (Remote_UpdateLinkState (Lola_notify [])) sample_platform sample_remote) = LinkSetup"
  by (simp_all add: Lola_Start_def Link_Enable_state, simp_all add: sample_host_def sample_remote_def blank_host_def
      blank_remote_def blank_link_def Link_construct_def Send_construct_def Service_construct_def
      Service_InitializeState_def LoLaLinkService.defs)

theorem encryption_follows_link_witness:
  "crypto_follows_link (Lola_Start (Host_UpdateLinkState (Lola_notify [])) sample_platform sample_host) \<and>
   \<not> Driver_HasLink (drv (Lola_Start (Remote_UpdateLinkState (Lola_notify [])) sample_platform sample_remote)) \<and>
   EncoderState (CryptoEncoder (drv (Lola_Start (Remote_UpdateLinkState (Lola_notify [])) sample_platform sample_remote))) \<noteq> FullPower"
  using encryption_follows_link [OF sample_tables(1) sample_views(1) sample_started(1) sample_tables(2) sample_views(2)
      sample_started(2)] sample_started_state
  by (simp add: crypto_follows_link_def)

text \<open>C1. The link service implements the state machine of a link: each step of a host or remote node,
  whichever task runs, packet arrives or interrupt fires, either leaves the state of the link, makes
  one move of \<open>link_moves\<close>, or is a start, which enters \<open>Setup\<close>, or a stop, which enters
  \<open>Disabled\<close>. In particular a link comes up only by way of \<open>Linking\<close> and a lost one goes back to
  \<open>AwaitingLink\<close>.\<close>
theorem node_refines_link_machine:
  assumes "host_table P0 apps M" and "host_step apps M w w'"
    and "remote_table P0' apps' M'" and "remote_step apps' M' v v'"
  shows "(GetLinkState w' = GetLinkState w \<or> link_moves (GetLinkState w) (GetLinkState w') \<or>
      (\<exists>P. w' = Lola_Start (Host_UpdateLinkState (Lola_notify apps)) P w) \<and> GetLinkState w' = LinkSetup \<or>
      (\<exists>P. w' = Lola_Stop (Host_UpdateLinkState (Lola_notify apps)) P w) \<and> GetLinkState w' = LinkDisabled) \<and>
    (GetLinkState v' = GetLinkState v \<or> link_moves (GetLinkState v) (GetLinkState v') \<or>
      (\<exists>P. v' = Lola_Start (Remote_UpdateLinkState (Lola_notify apps')) P v) \<and> GetLinkState v' = LinkSetup \<or>
      (\<exists>P. v' = Lola_Stop (Remote_UpdateLinkState (Lola_notify apps')) P v) \<and> GetLinkState v' = LinkDisabled)"
  using step_moves [OF assms(1) Host_service_moves Host_Callback_moves assms(2)]
    step_moves [OF assms(3) Remote_service_moves Remote_Callback_moves assms(4)] by blast

theorem node_refines_link_machine_witness:
  "GetLinkState (Host_Callback (Lola_notify []) sample_platform sample_host) \<in> {LinkDisabled, LinkSetup} \<and>
   GetLinkState (Remote_Callback (Lola_notify []) sample_platform sample_remote) \<in> {LinkDisabled, LinkSetup}"
proof -
  have "GetLinkState sample_host = LinkDisabled" "GetLinkState sample_remote = LinkDisabled"
    using sample_views by (simp_all add: link_view_def)
  then show ?thesis
    using node_refines_link_machine [OF sample_tables(1) link_step.node [OF node_step.service [OF actions_ok_sample]] sample_tables(2)
        link_step.node [OF node_step.service [OF actions_ok_sample]],
        of sample_host sample_remote]
    by (auto simp: link_moves_simps)
qed

end
