(* ===== verification/Handshake.thy ===== *)
theory Handshake
  imports Link_Node Packet_Delivery
begin

text \<open>
  A complete public key exchange between a host and a remote, from the broadcast of a session to
  the start of encryption, through the handlers of both services.
\<close>

section \<open>Boards\<close>

text \<open>
  The platforms of a board at different moments: the clock and the random numbers differ, the
  cryptographic libraries and the id of the board do not.
\<close>

definition board :: "platform \<Rightarrow> u32 \<Rightarrow> platform \<Rightarrow> bool" where
  "board B ownId P \<longleftrightarrow> local_id P = ownId \<and>
     hash_clear P = hash_clear B \<and> hash_update P = hash_update B \<and> hash_finalize P = hash_finalize B \<and>
     cypher_clear P = cypher_clear B \<and> cypher_set_key P = cypher_set_key B \<and> cypher_set_iv P = cypher_set_iv B \<and>
     cypher_add_auth P = cypher_add_auth B \<and> cypher_encrypt P = cypher_encrypt B \<and> cypher_decrypt P = cypher_decrypt B \<and>
     ecc_compress P = ecc_compress B \<and> ecc_decompress P = ecc_decompress B \<and> ecc_shared_secret P = ecc_shared_secret B"

lemma board_id: "board B i P \<Longrightarrow> local_id P = i"
  by (simp add: board_def)

lemma board_ops:
  assumes "board B i P"
  shows "Encoder_SetIvData P = Encoder_SetIvData B" and "Encoder_SetSecretKey P = Encoder_SetSecretKey B"
    and "Encoder_EncodeDirect P = Encoder_EncodeDirect B" and "Encoder_DecodeDirect P = Encoder_DecodeDirect B"
    and "KeyExchanger_GenerateSharedKey P = KeyExchanger_GenerateSharedKey B"
proof -
  note e = assms [unfolded board_def]
  have r: "Encoder_ResetCypherBlock P = Encoder_ResetCypherBlock B" "Encoder_SetTokenSeed P = Encoder_SetTokenSeed B"
    "Encoder_HashParts P = Encoder_HashParts B"
    by (intro ext, simp add: Encoder_ResetCypherBlock_def cypher_load_def Encoder_SetTokenSeed_def
        Encoder_HashParts_def e)+
  show "Encoder_SetIvData P = Encoder_SetIvData B" "Encoder_SetSecretKey P = Encoder_SetSecretKey B"
    "Encoder_EncodeDirect P = Encoder_EncodeDirect B" "Encoder_DecodeDirect P = Encoder_DecodeDirect B"
    "KeyExchanger_GenerateSharedKey P = KeyExchanger_GenerateSharedKey B"
    by (intro ext, simp add: Encoder_SetIvData_def Encoder_SetSecretKey_def Encoder_EncodeDirect_def
        Encoder_DecodeDirect_def KeyExchanger_GenerateSharedKey_def r e case_prod_unfold Let_def
        split: PairingStageEnum.split option.split)+
qed

section \<open>One turn of each end\<close>

text \<open>The service runs, and neither the time for sleeping nor the time for a new key pair has come.\<close>

definition awake :: "u32 \<Rightarrow> platform \<Rightarrow> 'a LoLaLinkService_scheme \<Rightarrow> bool" where
  "awake bound P s \<longleftrightarrow> GetLinkState s = AwaitingLink \<and>
     elapsed_since (millis_now P) (LinkStateStart s) \<le> bound \<and> KeysLastGenerated s \<noteq> ILOLA_INVALID_MILLIS \<and>
     millis_now P - KeysLastGenerated s \<le> LOLA_LINK_SERVICE_UNLINK_KEY_PAIR_LIFETIME"

lemma awake_OnService:
  assumes "awake bound P s" and "fst (lk_OnAwaitingLink LH P s)"
  shows "Link_OnService U LH P s = snd (lk_OnAwaitingLink LH P s)"
proof -
  have "\<not> (KeysLastGenerated s = ILOLA_INVALID_MILLIS \<or>
      LOLA_LINK_SERVICE_UNLINK_KEY_PAIR_LIFETIME < millis_now P - KeysLastGenerated s)"
    and "GetLinkState s = AwaitingLink" using assms(1) unfolding awake_def by auto
  then show ?thesis using assms(2) unfolding Link_OnService_def by (simp only: LinkStateEnum.case if_False case_prod_unfold Let_def not_True_eq_False)
qed

lemma host_awake:
  assumes "awake LOLA_LINK_SERVICE_UNLINK_HOST_MAX_BEFORE_SLEEP P s"
  shows "Host_OnService N P s = snd (Host_OnAwaitingLink N P s)"
    and "\<not> LOLA_LINK_SERVICE_UNLINK_HOST_MAX_BEFORE_SLEEP < Link_GetElapsedMillisSinceStateStart P s"
proof -
  show *: "\<not> LOLA_LINK_SERVICE_UNLINK_HOST_MAX_BEFORE_SLEEP < Link_GetElapsedMillisSinceStateStart P s"
    using assms unfolding awake_def Link_GetElapsedMillisSinceStateStart_def by (simp add: not_less)
  have h: "lk_OnAwaitingLink (Host_link_hooks N) = Host_OnAwaitingLink N"
    unfolding Host_link_hooks_def by simp
  have "fst (Host_OnAwaitingLink N P s)" unfolding Host_OnAwaitingLink_def using * by (simp only: if_False fst_conv)
  then show "Host_OnService N P s = snd (Host_OnAwaitingLink N P s)"
    unfolding Host_OnService_def using awake_OnService [OF assms, of "Host_link_hooks N"] by (simp only: h)
qed

lemma remote_awake:
  assumes "awake LOLA_LINK_SERVICE_UNLINK_REMOTE_MAX_BEFORE_SLEEP P s"
  shows "Remote_OnService N P s = snd (Remote_OnAwaitingLink N P s)"
    and "\<not> LOLA_LINK_SERVICE_UNLINK_REMOTE_MAX_BEFORE_SLEEP < Link_GetElapsedMillisSinceStateStart P s"
proof -
  show *: "\<not> LOLA_LINK_SERVICE_UNLINK_REMOTE_MAX_BEFORE_SLEEP < Link_GetElapsedMillisSinceStateStart P s"
    using assms unfolding awake_def Link_GetElapsedMillisSinceStateStart_def by (simp add: not_less)
  have h: "lk_OnAwaitingLink (Remote_link_hooks N) = Remote_OnAwaitingLink N"
    unfolding Remote_link_hooks_def by simp
  have "fst (Remote_OnAwaitingLink N P s)" unfolding Remote_OnAwaitingLink_def using * by (simp only: if_False fst_conv)
  then show "Remote_OnService N P s = snd (Remote_OnAwaitingLink N P s)"
    unfolding Remote_OnService_def using awake_OnService [OF assms, of "Remote_link_hooks N"] by (simp only: h)
qed

section \<open>What every turn keeps\<close>

definition known_id :: "u32 \<Rightarrow> 'a LoLaLinkService_scheme \<Rightarrow> bool" where
  "known_id ownId s \<longleftrightarrow> (\<forall>P. local_id P = ownId \<longrightarrow> MAC_ok P (LocalMacGenerator (LinkInfo s)))"

text \<open>
  The state link, own id and key pair of an end, and the parts of the encoder that nothing touches
  before the link is up.
\<close>

definition pairing :: "platform \<Rightarrow> u32 \<Rightarrow> u8 list \<Rightarrow> u8 list \<Rightarrow> 'a LoLaLinkService_scheme \<Rightarrow> bool" where
  "pairing B ownId pub priv s \<longleftrightarrow> GetLinkState s = AwaitingLink \<and> known_id ownId s \<and>
     length (Raw (Packet s)) = LOLA_LINK_SERVICE_PACKET_MAX_SIZE \<and>
     LocalPublicKeyCompressed (KeyExchanger s) = ecc_compress B pub \<and> PrivateKey (KeyExchanger s) = priv \<and>
     Encoder_ok (CryptoEncoder (drv s)) \<and> TokenHolder (CryptoEncoder (drv s)) = replicate TokenSize 0"

definition same_timers :: "'a LoLaLinkService_scheme \<Rightarrow> 'a LoLaLinkService_scheme \<Rightarrow> bool" where
  "same_timers s s' \<longleftrightarrow> GetLinkState s' = GetLinkState s \<and> LinkStateStart s' = LinkStateStart s \<and>
     KeysLastGenerated s' = KeysLastGenerated s"

lemma same_timers_awake: "same_timers s s' \<Longrightarrow> awake b P s' = awake b P s"
  by (simp add: same_timers_def awake_def)

lemma known_id_GetLocalId:
  assumes "known_id i s" and "local_id P = i"
  shows "fst (LinkInfo_GetLocalId P (LinkInfo s)) = i"
    and "known_id i (s\<lparr>LinkInfo := snd (LinkInfo_GetLocalId P (LinkInfo s))\<rparr>)"
proof -
  have m: "MAC_ok P (LocalMacGenerator (LinkInfo s))" using assms by (simp add: known_id_def)
  then show "fst (LinkInfo_GetLocalId P (LinkInfo s)) = i"
    using assms(2) by (simp add: LinkInfo_GetLocalId_def case_prod_unfold Let_def)
  have "MAC_ok P (snd (MAC_GetMACHash P (LocalMacGenerator (LinkInfo s))))" using m by simp
  moreover have "MAC_ok Q x" if "local_id Q = i" "MAC_ok P x" for Q x
    using that assms(2) by (simp add: MAC_ok_def)
  ultimately show "known_id i (s\<lparr>LinkInfo := snd (LinkInfo_GetLocalId P (LinkInfo s))\<rparr>)"
    by (simp add: known_id_def LinkInfo_GetLocalId_def case_prod_unfold Let_def)
qed

lemma handshake_frames [simp]:
  "KeyExchanger (Service_SetNextRunASAP s) = KeyExchanger s" "KeyExchanger (Link_SetLinkingState x s) = KeyExchanger s"
  "KeyExchanger (on_info f s) = KeyExchanger s" "KeyExchanger (snd (on_info_result g s)) = KeyExchanger s"
  "KeyExchanger (on_encoder e s) = KeyExchanger s" "KeyExchanger (Link_ResetLastSentTimeStamp s) = KeyExchanger s"
  "KeyExchanger (Send_RequestSendPacket P t1 t2 s) = KeyExchanger s"
  "LinkStateStart (Service_SetNextRunASAP s) = LinkStateStart s" "LinkStateStart (Link_SetLinkingState x s) = LinkStateStart s"
  "LinkStateStart (on_info f s) = LinkStateStart s" "LinkStateStart (snd (on_info_result g s)) = LinkStateStart s"
  "LinkStateStart (on_encoder e s) = LinkStateStart s" "LinkStateStart (Link_ResetLastSentTimeStamp s) = LinkStateStart s"
  "LinkStateStart (Send_RequestSendPacket P t1 t2 s) = LinkStateStart s"
  "KeysLastGenerated (Service_SetNextRunASAP s) = KeysLastGenerated s" "KeysLastGenerated (Link_SetLinkingState x s) = KeysLastGenerated s"
  "KeysLastGenerated (on_info f s) = KeysLastGenerated s" "KeysLastGenerated (snd (on_info_result g s)) = KeysLastGenerated s"
  "KeysLastGenerated (on_encoder e s) = KeysLastGenerated s" "KeysLastGenerated (Link_ResetLastSentTimeStamp s) = KeysLastGenerated s"
  "KeysLastGenerated (Send_RequestSendPacket P t1 t2 s) = KeysLastGenerated s"
  "Packet (Service_SetNextRunASAP s) = Packet s" "Packet (Link_SetLinkingState x s) = Packet s"
  "Packet (on_info f s) = Packet s" "Packet (snd (on_info_result g s)) = Packet s"
  "Packet (on_encoder e s) = Packet s" "Packet (Link_ResetLastSentTimeStamp s) = Packet s"
  "Packet (Send_RequestSendPacket P t1 t2 s) = Packet s"
  "SubStateStart (Service_SetNextRunASAP s) = SubStateStart s" "SubStateStart (Link_SetLinkingState x s) = SubStateStart s"
  "SubStateStart (Send_RequestSendPacket P t1 t2 s) = SubStateStart s"
  "LastSentMillis (Link_SetLinkingState x s) = ILOLA_INVALID_MILLIS"
  by (simp_all add: link_op_defs on_info_result_def case_prod_unfold Let_def)

lemma known_id_frames [simp]:
  "known_id i (Service_SetNextRunASAP s) = known_id i s" "known_id i (Link_SetLinkingState x s) = known_id i s"
  "known_id i (on_encoder e s) = known_id i s" "known_id i (Link_ResetLastSentTimeStamp s) = known_id i s"
  "known_id i (Send_RequestSendPacket P t1 t2 s) = known_id i s"
  "known_id i (on_info (LinkInfo_SetPartnerId p) s) = known_id i s"
  "known_id i (snd (on_info_result (LinkInfo_SetSessionId y) s)) = known_id i s"
  by (simp_all add: known_id_def LinkInfo_SetPartnerId_def LinkInfo_SetSessionId_def)

lemma known_id_result [simp]:
  "known_id i s \<Longrightarrow> local_id P = i \<Longrightarrow> fst (on_info_result (LinkInfo_GetLocalId P) s) = i"
  "known_id i s \<Longrightarrow> local_id P = i \<Longrightarrow> known_id i (snd (on_info_result (LinkInfo_GetLocalId P) s))"
  using known_id_GetLocalId [of i s P] by (simp_all add: known_id_def)

section \<open>The packets of the exchange\<close>

definition short_packet :: "u8 \<Rightarrow> u8 \<Rightarrow> u32 \<Rightarrow> LoLaPacket \<Rightarrow> LoLaPacket" where
  "short_packet i sub v p = LoLaPacket_SetPayload 1 (le32_bytes v) (LoLaPacket_SetPayload 0 [sub]
     (LoLaPacket_SetId i (snd (LoLaPacket_SetDefinition (Some LinkShortPacketDefinition) p))))"

definition long_packet :: "u8 \<Rightarrow> u8 \<Rightarrow> u8 list \<Rightarrow> LoLaPacket \<Rightarrow> LoLaPacket" where
  "long_packet i sub key p = LoLaPacket_SetPayload 1 key (LoLaPacket_SetPayload 0 [sub]
     (LoLaPacket_SetId i (snd (LoLaPacket_SetDefinition (Some LinkLongPacketDefinition) p))))"

definition acked_packet :: "u8 \<Rightarrow> u8 list \<Rightarrow> LoLaPacket \<Rightarrow> LoLaPacket" where
  "acked_packet i bs p = LoLaPacket_SetPayload 0 bs
     (LoLaPacket_SetId i (snd (LoLaPacket_SetDefinition (Some LinkShortWithAckPacketDefinition) p)))"

lemma explicit_26: "length xs = 26 \<Longrightarrow> \<exists>a b c d e f g h i r. xs = a # b # c # d # e # f # g # h # i # r \<and> length r = 17"
  by (auto simp: numeral_eq_Suc length_Suc_conv)

lemma short_packet_fields:
  assumes "length (Raw p) = LOLA_LINK_SERVICE_PACKET_MAX_SIZE"
  shows "LoLaPacket_GetDataHeader (short_packet i sub v p) = LOLA_LINK_HEADER_SHORT"
    and "LoLaPacket_GetId (short_packet i sub v p) = i"
    and "LoLaPacket_GetPayload (short_packet i sub v p) ! 0 = sub"
    and "Link_ArrayToR_Array (drop 1 (LoLaPacket_GetPayload (short_packet i sub v p))) = v"
    and "length (Raw (short_packet i sub v p)) = LOLA_LINK_SERVICE_PACKET_MAX_SIZE"
proof -
  obtain a b c d e f g h k r where r: "Raw p = a # b # c # d # e # f # g # h # k # r"
    using explicit_26 [of "Raw p"] assms by (auto simp: lola_consts)
  have *: "Raw (short_packet i sub v p) = a # b # LOLA_LINK_HEADER_SHORT # i # sub # le32_bytes v @ r"
    by (simp add: short_packet_def packet_accessor_defs r link_packet_defs lola_consts store_split numeral_eq_Suc)
  show "LoLaPacket_GetDataHeader (short_packet i sub v p) = LOLA_LINK_HEADER_SHORT"
    "LoLaPacket_GetId (short_packet i sub v p) = i" "LoLaPacket_GetPayload (short_packet i sub v p) ! 0 = sub"
    "Link_ArrayToR_Array (drop 1 (LoLaPacket_GetPayload (short_packet i sub v p))) = v"
    by (simp_all add: LoLaPacket_GetDataHeader_def LoLaPacket_GetId_def LoLaPacket_GetPayload_def * lola_consts
        numeral_eq_Suc Link_ArrayToR_Array_def)
  show "length (Raw (short_packet i sub v p)) = LOLA_LINK_SERVICE_PACKET_MAX_SIZE"
    using assms by (simp add: short_packet_def)
qed

lemma long_packet_fields:
  assumes "length (Raw p) = LOLA_LINK_SERVICE_PACKET_MAX_SIZE" and "length key = KEY_CURVE_SIZE + 1"
  shows "LoLaPacket_GetDataHeader (long_packet i sub key p) = LOLA_LINK_HEADER_LONG"
    and "LoLaPacket_GetId (long_packet i sub key p) = i"
    and "LoLaPacket_GetPayload (long_packet i sub key p) ! 0 = sub"
    and "take (KEY_CURVE_SIZE + 1) (drop 1 (LoLaPacket_GetPayload (long_packet i sub key p))) = key"
    and "length (Raw (long_packet i sub key p)) = LOLA_LINK_SERVICE_PACKET_MAX_SIZE"
proof -
  obtain a b c d e r where r: "Raw p = a # b # c # d # e # r" "length r = 21"
    using explicit_26 [of "Raw p"] assms(1) by (auto simp: lola_consts)
  have *: "Raw (long_packet i sub key p) = a # b # LOLA_LINK_HEADER_LONG # i # sub # key"
    using assms(2) by (simp add: long_packet_def packet_accessor_defs r link_packet_defs lola_consts store_split numeral_eq_Suc)
  show "LoLaPacket_GetDataHeader (long_packet i sub key p) = LOLA_LINK_HEADER_LONG"
    "LoLaPacket_GetId (long_packet i sub key p) = i" "LoLaPacket_GetPayload (long_packet i sub key p) ! 0 = sub"
    "take (KEY_CURVE_SIZE + 1) (drop 1 (LoLaPacket_GetPayload (long_packet i sub key p))) = key"
    using assms(2) by (simp_all add: LoLaPacket_GetDataHeader_def LoLaPacket_GetId_def LoLaPacket_GetPayload_def * lola_consts
        numeral_eq_Suc)
  show "length (Raw (long_packet i sub key p)) = LOLA_LINK_SERVICE_PACKET_MAX_SIZE"
    using assms by (simp add: long_packet_def)
qed

lemma acked_packet_fields:
  assumes "length (Raw p) = LOLA_LINK_SERVICE_PACKET_MAX_SIZE" and "length bs \<le> 22"
  shows "LoLaPacket_GetDataHeader (acked_packet i bs p) = LOLA_LINK_HEADER_SHORT_WITH_ACK"
    and "LoLaPacket_GetId (acked_packet i bs p) = i"
    and "take (length bs) (LoLaPacket_GetPayload (acked_packet i bs p)) = bs"
    and "length (Raw (acked_packet i bs p)) = LOLA_LINK_SERVICE_PACKET_MAX_SIZE"
proof -
  obtain a b c d e r where r: "Raw p = a # b # c # d # e # r" "length r = 21"
    using explicit_26 [of "Raw p"] assms(1) by (auto simp: lola_consts)
  have *: "Raw (acked_packet i bs p) = a # b # LOLA_LINK_HEADER_SHORT_WITH_ACK # i # bs @ drop (length bs) (e # r)"
    using assms(2) r(2) by (simp add: acked_packet_def packet_accessor_defs r(1) link_packet_defs lola_consts store_split
        numeral_eq_Suc)
  show "LoLaPacket_GetDataHeader (acked_packet i bs p) = LOLA_LINK_HEADER_SHORT_WITH_ACK"
    "LoLaPacket_GetId (acked_packet i bs p) = i" "take (length bs) (LoLaPacket_GetPayload (acked_packet i bs p)) = bs"
    by (simp_all add: LoLaPacket_GetDataHeader_def LoLaPacket_GetId_def LoLaPacket_GetPayload_def * lola_consts
        numeral_eq_Suc)
  show "length (Raw (acked_packet i bs p)) = LOLA_LINK_SERVICE_PACKET_MAX_SIZE"
    using assms by (simp add: acked_packet_def)
qed

lemma prepared_packets:
  "Packet (Host_PrepareIdBroadcast P h) = short_packet (SessionId (LinkInfo h)) LOLA_LINK_SUBHEADER_HOST_ID_BROADCAST
       (fst (LinkInfo_GetLocalId P (LinkInfo h))) (Packet h)"
  "Packet (Remote_PreparePKCStartRequest P r) = short_packet (SessionId (LinkInfo r))
     LOLA_LINK_SUBHEADER_REMOTE_PKC_START_REQUEST (fst (LinkInfo_GetLocalId P (LinkInfo r))) (Packet r)"
  "PairingStage (KeyExchanger s) \<noteq> StageClear \<Longrightarrow> Packet (Link_PreparePublicKeyPacket sub s) =
     long_packet (SessionId (LinkInfo s)) sub (take (KEY_CURVE_SIZE + 1) (LocalPublicKeyCompressed (KeyExchanger s))) (Packet s)"
  "Packet (Host_PrepareLinkProtocolSwitchOver h) =
     acked_packet (SessionId (LinkInfo h)) (le32_bytes (PartnerId (LinkInfo h))) (Packet h)"
  by (simp_all add: Host_PrepareIdBroadcast_def Remote_PreparePKCStartRequest_def Link_PreparePublicKeyPacket_def
      Host_PrepareLinkProtocolSwitchOver_def short_packet_def long_packet_def acked_packet_def link_op_defs
      on_info_result_def case_prod_unfold Let_def LinkInfo_GetSessionId_def LinkInfo_GetPartnerId_def
      KeyExchanger_GetPublicKeyCompressed_def)

section \<open>Steps of the host\<close>

lemma Host_NewSession_pairing:
  assumes "pairing B i pub priv s" and "PairingStage (KeyExchanger s) = StageLocalKey" and "random_ok P"
  shows "pairing B i pub priv (Host_NewSession P s)" and "same_timers s (Host_NewSession P s)"
    and "LastSentMillis (Host_NewSession P s) = LastSentMillis s"
    and "LinkingState (Host_NewSession P s) = LinkingState s"
    and "KeyExchanger (Host_NewSession P s) = KeyExchanger s"
    and "SessionId (LinkInfo (Host_NewSession P s)) \<noteq> INVALID_SESSION"
proof -
  have k: "KeyExchanger_ClearPartner (KeyExchanger s) = KeyExchanger s"
    using assms(2) by (simp add: KeyExchanger_ClearPartner_def)
  let ?n = "random_between P 1 254"
  have "1 \<le> ?n" "?n < 254" using assms(3) unfolding random_ok_def by simp_all
  then have "uint (of_int ?n :: u8) = ?n" by (intro uint_of_int_u8) simp_all
  then have n: "(of_int ?n :: u8) \<noteq> 0" using \<open>1 \<le> ?n\<close> by (metis unsigned_0 not_one_le_zero)
  have c: "Packet (Host_NewSession P s) = Packet s" "LastSentMillis (Host_NewSession P s) = LastSentMillis s"
    "LinkingState (Host_NewSession P s) = LinkingState s" "KeyExchanger (Host_NewSession P s) = KeyExchanger s"
    "LinkStateStart (Host_NewSession P s) = LinkStateStart s" "KeysLastGenerated (Host_NewSession P s) = KeysLastGenerated s"
    "GetLinkState (Host_NewSession P s) = GetLinkState s"
    "LocalMacGenerator (LinkInfo (Host_NewSession P s)) = LocalMacGenerator (LinkInfo s)"
    "SessionId (LinkInfo (Host_NewSession P s)) = of_int ?n"
    "CryptoEncoder (drv (Host_NewSession P s)) = Encoder_Clear (CryptoEncoder (drv s))"
    by (simp_all add: Host_NewSession_def Link_ClearSession_def Host_session_hooks_def link_op_defs on_info_drv_def
        case_prod_unfold Let_def k LinkInfo_SetSessionId_def)
       (simp_all add: LinkInfo_Reset_def)
  show "pairing B i pub priv (Host_NewSession P s)"
    using assms(1) by (simp add: pairing_def known_id_def c Encoder_Clear_ok) (simp add: Encoder_Clear_def)
  show "same_timers s (Host_NewSession P s)" by (simp add: same_timers_def c)
  show "LastSentMillis (Host_NewSession P s) = LastSentMillis s" "LinkingState (Host_NewSession P s) = LinkingState s"
    "KeyExchanger (Host_NewSession P s) = KeyExchanger s"
    "SessionId (LinkInfo (Host_NewSession P s)) \<noteq> INVALID_SESSION"
    using n by (simp_all add: c INVALID_SESSION_def)
qed

text \<open>Preparing and requesting a packet changes the packet and nothing else of the exchange.\<close>

definition packet_only :: "u32 \<Rightarrow> 'a LoLaLinkService_scheme \<Rightarrow> 'a LoLaLinkService_scheme \<Rightarrow> bool" where
  "packet_only i s s' \<longleftrightarrow> same_timers s s' \<and> LinkingState s' = LinkingState s \<and> KeyExchanger s' = KeyExchanger s \<and>
     SessionId (LinkInfo s') = SessionId (LinkInfo s) \<and> PartnerId (LinkInfo s') = PartnerId (LinkInfo s) \<and>
     SubStateStart s' = SubStateStart s \<and> known_id i s' \<and>
     length (Raw (Packet s')) = length (Raw (Packet s)) \<and>
     (\<exists>c. CryptoEncoder (drv s') = (CryptoEncoder (drv s))\<lparr>Cypher := c\<rparr>)"

lemma packet_only_pairing:
  "packet_only i s s' \<Longrightarrow> pairing B i pub priv s \<Longrightarrow> pairing B i pub priv s'"
  by (auto simp: packet_only_def pairing_def same_timers_def Encoder_ok_def)

lemma packet_only_resend:
  assumes "period < Link_GetElapsedMillisSinceLastSent P s" and "packet_only i s (prepare s)"
  shows "packet_only i s (Link_resend period prepare P s)" and "Packet (Link_resend period prepare P s) = Packet (prepare s)"
  using assms by (simp_all add: Link_resend_def packet_only_def same_timers_def)

lemma same_encoder: "\<exists>c. e = e\<lparr>Cypher := c\<rparr>"
  by (intro exI [of _ "Cypher e"]) simp

lemma prepared_only:
  assumes "known_id i s" and "local_id P = i"
  shows "packet_only i s (Link_PreparePublicKeyPacket sub s)"
  using assms same_encoder
  by (auto simp: packet_only_def same_timers_def known_id_def Link_PreparePublicKeyPacket_def link_op_defs Let_def
      split: option.split)

lemma Host_prepared_only:
  assumes "known_id i s" and "local_id P = i"
  shows "packet_only i s (Host_PrepareIdBroadcast P s)" and "packet_only i s (Host_PrepareCryptoStartRequest P s)"
proof -
  have "known_id i (snd (on_info_result (LinkInfo_GetLocalId P) s))" using assms by simp
  then have k: "known_id i (s\<lparr>LinkInfo := snd (LinkInfo_GetLocalId P (LinkInfo s))\<rparr>)" by (simp add: known_id_def)
  then show "packet_only i s (Host_PrepareIdBroadcast P s)"
    using same_encoder [of "CryptoEncoder (drv s)"]
    by (simp add: packet_only_def same_timers_def Host_PrepareIdBroadcast_def link_op_defs on_info_result_def
        case_prod_unfold Let_def known_id_def)
  show "packet_only i s (Host_PrepareCryptoStartRequest P s)"
    using assms
    by (auto simp: packet_only_def same_timers_def Host_PrepareCryptoStartRequest_def Host_PrepareLinkProtocolSwitchOver_def
        link_op_defs case_prod_unfold Let_def known_id_def Encoder_EncodeDirect_def Encoder_ResetCypherBlock_def)
qed

lemma Remote_prepared_only:
  assumes "known_id i s" and "local_id P = i"
  shows "packet_only i s (Remote_PreparePKCStartRequest P s)"
proof -
  have "known_id i (snd (on_info_result (LinkInfo_GetLocalId P) s))" using assms by simp
  then have k: "known_id i (s\<lparr>LinkInfo := snd (LinkInfo_GetLocalId P (LinkInfo s))\<rparr>)" by (simp add: known_id_def)
  then show ?thesis
    using same_encoder [of "CryptoEncoder (drv s)"]
    by (simp add: packet_only_def same_timers_def Remote_PreparePKCStartRequest_def link_op_defs on_info_result_def
        case_prod_unfold Let_def known_id_def)
qed

text \<open>Sending right after a change of stage: the time of the last packet is invalid then.\<close>

lemma resend_now:
  "LastSentMillis s = ILOLA_INVALID_MILLIS \<Longrightarrow> period < ILOLA_INVALID_MILLIS \<Longrightarrow>
     period < Link_GetElapsedMillisSinceLastSent P s"
  by (simp add: Link_GetElapsedMillisSinceLastSent_def elapsed_since_def)

lemma host_broadcasts:
  assumes "awake LOLA_LINK_SERVICE_UNLINK_HOST_MAX_BEFORE_SLEEP P s" and "pairing B i pub priv s"
    and "LinkingState s = Host_BroadcastingOpenSession" and "PairingStage (KeyExchanger s) = StageLocalKey"
    and "random_ok P" and "local_id P = i"
    and "LOLA_LINK_SERVICE_UNLINK_BROADCAST_PERIOD < Link_GetElapsedMillisSinceLastSent P s"
  shows "pairing B i pub priv (Host_OnService N P s)" and "same_timers s (Host_OnService N P s)"
    and "LinkingState (Host_OnService N P s) = Host_BroadcastingOpenSession"
    and "KeyExchanger (Host_OnService N P s) = KeyExchanger s"
    and "SessionId (LinkInfo (Host_OnService N P s)) \<noteq> INVALID_SESSION"
    and "\<exists>p. length (Raw p) = LOLA_LINK_SERVICE_PACKET_MAX_SIZE \<and> Packet (Host_OnService N P s) =
      short_packet (SessionId (LinkInfo (Host_OnService N P s))) LOLA_LINK_SUBHEADER_HOST_ID_BROADCAST i p"
proof -
  have run: "Host_OnService N P s = Host_BroadcastSession P s"
    using host_awake(1) [OF assms(1), of N] host_awake(2) [OF assms(1)] assms(3) by (simp add: Host_OnAwaitingLink_def)
  define t where "t = (if \<not> LinkInfo_HasSessionId (LinkInfo s) \<or> SessionLastStarted s = ILOLA_INVALID_MILLIS \<or>
      LOLA_LINK_SERVICE_UNLINK_SESSION_LIFETIME < millis_now P - SessionLastStarted s
      then (Host_NewSession P s)\<lparr>SessionLastStarted := millis_now P\<rparr> else s)"
  note n = Host_NewSession_pairing [OF assms(2,4,5)]
  have t: "pairing B i pub priv t" "same_timers s t" "LinkingState t = LinkingState s" "KeyExchanger t = KeyExchanger s"
    "SessionId (LinkInfo t) \<noteq> INVALID_SESSION" "LastSentMillis t = LastSentMillis s"
    using n assms(2) unfolding t_def
    by (simp_all add: LinkInfo_HasSessionId_def pairing_def same_timers_def known_id_def)
  have e: "Host_BroadcastSession P s = Link_resend LOLA_LINK_SERVICE_UNLINK_BROADCAST_PERIOD (Host_PrepareIdBroadcast P) P t"
    unfolding Host_BroadcastSession_def t_def Let_def ..
  have p: "LOLA_LINK_SERVICE_UNLINK_BROADCAST_PERIOD < Link_GetElapsedMillisSinceLastSent P t"
    using assms(7) t(6) by (simp add: Link_GetElapsedMillisSinceLastSent_def)
  have k: "known_id i t" "length (Raw (Packet t)) = LOLA_LINK_SERVICE_PACKET_MAX_SIZE" using t(1) by (simp_all add: pairing_def)
  have pre: "Packet (Host_PrepareIdBroadcast P t) =
      short_packet (SessionId (LinkInfo t)) LOLA_LINK_SUBHEADER_HOST_ID_BROADCAST i (Packet t)"
    using known_id_GetLocalId(1) [OF k(1) assms(6)] by (simp add: prepared_packets)
  note r = packet_only_resend [where prepare = "Host_PrepareIdBroadcast P", OF p Host_prepared_only(1) [OF k(1) assms(6)]]
  show "pairing B i pub priv (Host_OnService N P s)" unfolding run e by (rule packet_only_pairing [OF r(1) t(1)])
  show "same_timers s (Host_OnService N P s)" "LinkingState (Host_OnService N P s) = Host_BroadcastingOpenSession"
    "KeyExchanger (Host_OnService N P s) = KeyExchanger s"
    "SessionId (LinkInfo (Host_OnService N P s)) \<noteq> INVALID_SESSION"
    unfolding run e using r(1) t assms(3) by (simp_all add: packet_only_def same_timers_def)
  show "\<exists>p. length (Raw p) = LOLA_LINK_SERVICE_PACKET_MAX_SIZE \<and> Packet (Host_OnService N P s) =
      short_packet (SessionId (LinkInfo (Host_OnService N P s))) LOLA_LINK_SUBHEADER_HOST_ID_BROADCAST i p"
    unfolding run e using r pre k(2) by (intro exI [of _ "Packet t"]) (simp add: packet_only_def)
qed

text \<open>What an end has after its key derivation.\<close>

definition keyed_for :: "platform \<Rightarrow> u8 \<Rightarrow> u32 \<Rightarrow> u32 \<Rightarrow> u8 list \<Rightarrow> LoLaCryptoEncoder \<Rightarrow> bool" where
  "keyed_for B session hostId remoteId key e \<longleftrightarrow>
     (let iv = iv_of B (ucast session) hostId remoteId; seeded = Encoder_SetTokenSeed B (take 4 iv) Encoder_new
      in EncoderState e = AllReady \<and> KeyHolder e = take KeySize key \<and> IVHolder e = iv \<and>
         TokenHolder e = replicate TokenSize 0 \<and> TokenSeed e = TokenSeed seeded \<and> Hasher e = Hasher seeded)"

lemma keyed_for_Cypher [simp]: "keyed_for B x h r k (e\<lparr>Cypher := c\<rparr>) = keyed_for B x h r k e"
  by (simp add: keyed_for_def Let_def)

text \<open>Ascon128 refuses keys and IVs of the wrong length only.\<close>

definition cypher_accepts :: "platform \<Rightarrow> bool" where
  "cypher_accepts P \<longleftrightarrow> (\<forall>k c. length k = KeySize \<longrightarrow> fst (cypher_set_key P k c) \<and> fst (cypher_set_iv P k c))"

lemma SetSecretKey_keyed:
  assumes "hash_ok B" and "cypher_accepts B" and "length key = KEY_CURVE_SIZE" and "Encoder_ok e"
    and "IVHolder e = iv_of B (ucast session) hostId remoteId" and "TokenHolder e = replicate TokenSize 0"
  shows "\<exists>e'. Encoder_SetSecretKey B key KEY_CURVE_SIZE e = (True, e') \<and> keyed_for B session hostId remoteId key e' \<and> Encoder_ok e'"
proof -
  have k: "length (take KeySize key) = KeySize" "length (IVHolder e) = KeySize"
    using assms(3,4) by (simp_all add: lola_consts KEY_CURVE_SIZE_def Encoder_ok_def)
  have "fst (cypher_set_key B (take KeySize key) c)" "fst (cypher_set_iv B (IVHolder e) c)" for c
    using assms(2) k unfolding cypher_accepts_def by blast+
  then have "fst (Encoder_SetSecretKey B key KEY_CURVE_SIZE e)"
    by (simp add: Encoder_SetSecretKey_def KEY_CURVE_SIZE_def lola_consts case_prod_unfold Let_def)
  then obtain e' where e': "Encoder_SetSecretKey B key KEY_CURVE_SIZE e = (True, e')" by (metis prod.collapse)
  note f = Encoder_SetSecretKey_success [OF e']
  have t: "take (KEY_CURVE_SIZE - KeySize) (bytes_after_KeyHolder e) = take 4 (iv_of B (ucast session) hostId remoteId)"
    using k(2) assms(5) by (simp add: bytes_after_KeyHolder_def lola_consts KEY_CURVE_SIZE_def)
  have "keyed_for B session hostId remoteId key e'"
    using f assms(5,6) SetTokenSeed_result [OF assms(1), of "take 4 (iv_of B (ucast session) hostId remoteId)" e Encoder_new]
    by (simp add: keyed_for_def t Let_def)
  moreover have "Encoder_ok e'" using f k assms(4) by (simp add: Encoder_ok_def)
  ultimately show ?thesis using e' by blast
qed

lemma SetIvData_ready:
  assumes "hash_ok B" and "Encoder_ok e"
  shows "IVHolder (Encoder_SetIvData B x h r e) = iv_of B x h r" and "Encoder_ok (Encoder_SetIvData B x h r e)"
  using Encoder_SetIvData_IV [OF assms] assms by (simp_all add: Encoder_ok_def lola_frame)

lemma SharedSecret_keyed:
  assumes "board B i P" and "hash_ok B" and "cypher_accepts B"
    and "PairingStage (KeyExchanger s) = StagePartnerKey"
    and "ecc_shared_secret B (ecc_decompress B (PartnerPublicKeyCompressed (KeyExchanger s))) (PrivateKey (KeyExchanger s)) = Some key"
    and "length key = KEY_CURVE_SIZE" and "Encoder_ok (CryptoEncoder (drv s))"
    and "IVHolder (CryptoEncoder (drv s)) = iv_of B (ucast session) hostId remoteId"
    and "TokenHolder (CryptoEncoder (drv s)) = replicate TokenSize 0"
  shows "fst (Link_SharedSecret P s)" and "keyed_for B session hostId remoteId key (CryptoEncoder (drv (snd (Link_SharedSecret P s))))"
    and "Encoder_ok (CryptoEncoder (drv (snd (Link_SharedSecret P s))))"
    and "PairingStage (KeyExchanger (snd (Link_SharedSecret P s))) = StageSharedKey"
    and "LocalPublicKeyCompressed (KeyExchanger (snd (Link_SharedSecret P s))) = LocalPublicKeyCompressed (KeyExchanger s)"
    and "PrivateKey (KeyExchanger (snd (Link_SharedSecret P s))) = PrivateKey (KeyExchanger s)"
    and "Packet (snd (Link_SharedSecret P s)) = Packet s"
    and "same_timers s (snd (Link_SharedSecret P s))" and "SubStateStart (snd (Link_SharedSecret P s)) = SubStateStart s"
    and "LastSentMillis (snd (Link_SharedSecret P s)) = LastSentMillis s"
proof -
  obtain e' where e': "Encoder_SetSecretKey B key KEY_CURVE_SIZE (CryptoEncoder (drv s)) = (True, e')"
      "keyed_for B session hostId remoteId key e'" "Encoder_ok e'"
    using SetSecretKey_keyed [OF assms(2,3,6-9)] by blast
  obtain k' where k': "KeyExchanger_GenerateSharedKey B (KeyExchanger s) = (True, k')" "SharedKey k' = key"
      "PairingStage k' = StageSharedKey" "LocalPublicKeyCompressed k' = LocalPublicKeyCompressed (KeyExchanger s)"
      "PrivateKey k' = PrivateKey (KeyExchanger s)"
    using assms(4,5) by (simp add: KeyExchanger_GenerateSharedKey_def)
  have *: "Link_SharedSecret P s = (True, on_encoder (\<lambda>_. e') (s\<lparr>KeyExchanger := k'\<rparr>))"
    using k'(1,2) e'(1) by (simp add: Link_SharedSecret_def board_ops [OF assms(1)] KeyExchanger_GetSharedKeyPointer_def)
  show "fst (Link_SharedSecret P s)" "keyed_for B session hostId remoteId key (CryptoEncoder (drv (snd (Link_SharedSecret P s))))"
    "Encoder_ok (CryptoEncoder (drv (snd (Link_SharedSecret P s))))"
    "PairingStage (KeyExchanger (snd (Link_SharedSecret P s))) = StageSharedKey"
    "LocalPublicKeyCompressed (KeyExchanger (snd (Link_SharedSecret P s))) = LocalPublicKeyCompressed (KeyExchanger s)"
    "PrivateKey (KeyExchanger (snd (Link_SharedSecret P s))) = PrivateKey (KeyExchanger s)"
    "Packet (snd (Link_SharedSecret P s)) = Packet s" "same_timers s (snd (Link_SharedSecret P s))"
    "SubStateStart (snd (Link_SharedSecret P s)) = SubStateStart s"
    "LastSentMillis (snd (Link_SharedSecret P s)) = LastSentMillis s"
    using k'(3-5) e'(2,3) by (simp_all add: * same_timers_def on_encoder_def on_drv_def)
qed

section \<open>The steps\<close>

definition stage_at ::
  "platform \<Rightarrow> u32 \<Rightarrow> u8 list \<Rightarrow> u8 list \<Rightarrow> u8 \<Rightarrow> u8 \<Rightarrow> u32 \<Rightarrow> 'a LoLaLinkService_scheme \<Rightarrow> bool" where
  "stage_at B i pub priv stage session partner s \<longleftrightarrow> pairing B i pub priv s \<and> LinkingState s = stage \<and>
     SessionId (LinkInfo s) = session \<and> PartnerId (LinkInfo s) = partner"

lemma same_timers_refl: "same_timers s s"
  by (simp add: same_timers_def)

lemma same_timers_trans: "same_timers s t \<Longrightarrow> same_timers t u \<Longrightarrow> same_timers s u"
  by (simp add: same_timers_def)

lemma remote_hears_broadcast:
  assumes "pairing B i pub priv s" and "LinkingState s = Remote_SearchingForHost" and "\<not> LinkInfo_HasSession (LinkInfo s)"
    and "session \<noteq> INVALID_SESSION" and "length (Raw p) = LOLA_LINK_SERVICE_PACKET_MAX_SIZE"
    and t_def: "t = snd (Link_ProcessPacket (Remote_link_hooks N) P
      (short_packet session LOLA_LINK_SUBHEADER_HOST_ID_BROADCAST hostId p) s)"
  shows "stage_at B i pub priv Remote_ValidatingPartner session hostId t" and "same_timers s t"
    and "KeyExchanger t = KeyExchanger s" and "CryptoEncoder (drv t) = CryptoEncoder (drv s)"
proof -
  note f = short_packet_fields [OF assms(5), of session LOLA_LINK_SUBHEADER_HOST_ID_BROADCAST hostId]
  have g: "GetLinkState s = AwaitingLink" using assms(1) by (simp add: pairing_def)
  have d: "LOLA_LINK_SUBHEADER_HOST_ID_BROADCAST \<notin> {LOLA_LINK_SUBHEADER_LINK_DISCOVERY, LOLA_LINK_SUBHEADER_REMOTE_PKC_START_REQUEST}"
    by (simp add: lola_consts)
  have "t = Remote_OnIdBroadcastReceived N P session hostId s"
    using d unfolding t_def
    by (simp add: Link_ProcessPacket_def Link_ProcessShort_def f [unfolded One_nat_def] Remote_link_hooks_def Let_def)
  also have "\<dots> = Link_SetLinkingState Remote_ValidatingPartner (on_info (LinkInfo_SetPartnerId hostId)
      (snd (on_info_result (LinkInfo_SetSessionId session) s)))"
    using assms(2-4) g by (simp add: Remote_OnIdBroadcastReceived_def case_prod_unfold Let_def LinkInfo_SetSessionId_def)
  finally have t: "t = \<dots>" .
  show "stage_at B i pub priv Remote_ValidatingPartner session hostId t" "same_timers s t"
    "KeyExchanger t = KeyExchanger s" "CryptoEncoder (drv t) = CryptoEncoder (drv s)"
    using assms(1) by (simp_all add: t stage_at_def pairing_def same_timers_def LinkInfo_SetSessionId_def LinkInfo_SetPartnerId_def known_id_def)
qed

lemma remote_validates:
  assumes "awake LOLA_LINK_SERVICE_UNLINK_REMOTE_MAX_BEFORE_SLEEP P s" and "board B i P" and "hash_ok B"
    and "stage_at B i pub priv Remote_ValidatingPartner session hostId s" and "t = Remote_OnService N P s"
  shows "stage_at B i pub priv Remote_AwaitingHostPublicKey session hostId t" and "same_timers s t"
    and "KeyExchanger t = KeyExchanger s" and "IVHolder (CryptoEncoder (drv t)) = iv_of B (ucast session) hostId i"
    and "LastSentMillis t = ILOLA_INVALID_MILLIS" and "SubStateStart t = millis_now P"
proof -
  have s: "pairing B i pub priv s" "LinkingState s = Remote_ValidatingPartner" "SessionId (LinkInfo s) = session"
    "PartnerId (LinkInfo s) = hostId" using assms(4) by (simp_all add: stage_at_def)
  have t: "t = Remote_ValidatePartner P s"
    using remote_awake(1) [OF assms(1), of N] remote_awake(2) [OF assms(1)] s(2) assms(5)
    by (simp add: Remote_OnAwaitingLink_def lola_consts)
  have k: "known_id i s" "local_id P = i" "Encoder_ok (CryptoEncoder (drv s))"
    using s(1) assms(2) by (simp_all add: pairing_def board_def)
  note iv = SetIvData_ready [OF assms(3) k(3)]
  have l: "fst (LinkInfo_GetLocalId P (LinkInfo s)) = i" "known_id i (s\<lparr>LinkInfo := snd (LinkInfo_GetLocalId P (LinkInfo s))\<rparr>)"
    using known_id_GetLocalId [OF k(1,2)] by simp_all
  show "stage_at B i pub priv Remote_AwaitingHostPublicKey session hostId t" "same_timers s t"
    "KeyExchanger t = KeyExchanger s" "IVHolder (CryptoEncoder (drv t)) = iv_of B (ucast session) hostId i"
    "LastSentMillis t = ILOLA_INVALID_MILLIS" "SubStateStart t = millis_now P"
    using s l iv
    by (simp_all add: t Remote_ValidatePartner_def case_prod_unfold Let_def stage_at_def pairing_def same_timers_def
        board_ops [OF assms(2)] LinkInfo_GetSessionId_def LinkInfo_GetPartnerId_def lola_frame on_info_result_def known_id_def
        Link_SetLinkingState_def Link_ResetLastSentTimeStamp_def on_encoder_def on_drv_def Service_SetNextRunASAP_def)
qed

lemma remote_requests_key:
  assumes "awake LOLA_LINK_SERVICE_UNLINK_REMOTE_MAX_BEFORE_SLEEP P s" and "local_id P = i"
    and "stage_at B i pub priv Remote_AwaitingHostPublicKey session hostId s" and "t = Remote_OnService N P s"
    and "LastSentMillis s = ILOLA_INVALID_MILLIS"
    and "millis_now P - SubStateStart s \<le> LOLA_LINK_SERVICE_UNLINK_MAX_BEFORE_PKC_CANCEL"
  shows "packet_only i s t" and "\<exists>p. length (Raw p) = LOLA_LINK_SERVICE_PACKET_MAX_SIZE \<and>
    Packet t = short_packet session LOLA_LINK_SUBHEADER_REMOTE_PKC_START_REQUEST i p"
proof -
  have s: "pairing B i pub priv s" "LinkingState s = Remote_AwaitingHostPublicKey" "SessionId (LinkInfo s) = session"
    using assms(3) by (simp_all add: stage_at_def)
  have k: "known_id i s" "length (Raw (Packet s)) = LOLA_LINK_SERVICE_PACKET_MAX_SIZE" using s(1) by (simp_all add: pairing_def)
  have c: "\<not> LOLA_LINK_SERVICE_UNLINK_MAX_BEFORE_PKC_CANCEL < millis_now P - SubStateStart s"
    using assms(6) by (simp add: not_less)
  have d: "LinkingState s \<noteq> Remote_SearchingForHost" "LinkingState s \<noteq> Remote_ValidatingPartner"
    by (simp_all add: s(2) lola_consts)
  have t: "t = Link_resend LOLA_LINK_SERVICE_UNLINK_RESEND_PERIOD (Remote_PreparePKCStartRequest P) P s"
    unfolding assms(4) remote_awake(1) [OF assms(1)] Remote_OnAwaitingLink_def
    using remote_awake(2) [OF assms(1)] d s(2) c by (simp only: if_False snd_conv if_True simp_thms)
  have now: "LOLA_LINK_SERVICE_UNLINK_RESEND_PERIOD < Link_GetElapsedMillisSinceLastSent P s"
    by (rule resend_now [OF assms(5)]) (simp add: lola_consts)
  note r = packet_only_resend [where prepare = "Remote_PreparePKCStartRequest P", OF now Remote_prepared_only [OF k(1) assms(2)]]
  show "packet_only i s t" unfolding t by (rule r(1))
  show "\<exists>p. length (Raw p) = LOLA_LINK_SERVICE_PACKET_MAX_SIZE \<and>
    Packet t = short_packet session LOLA_LINK_SUBHEADER_REMOTE_PKC_START_REQUEST i p"
    unfolding t r(2) using k known_id_GetLocalId(1) [OF k(1) assms(2)] s(3)
    by (intro exI [of _ "Packet s"]) (simp add: prepared_packets)
qed

lemma host_hears_request:
  assumes "stage_at B i pub priv Host_BroadcastingOpenSession session x s" and "session \<noteq> INVALID_SESSION"
    and "length (Raw p) = LOLA_LINK_SERVICE_PACKET_MAX_SIZE"
    and "t = snd (Link_ProcessPacket (Host_link_hooks N) P
      (short_packet session LOLA_LINK_SUBHEADER_REMOTE_PKC_START_REQUEST remoteId p) s)"
  shows "stage_at B i pub priv Host_ValidatingPartner session remoteId t" and "same_timers s t"
    and "KeyExchanger t = KeyExchanger s"
proof -
  note f = short_packet_fields [OF assms(3), of session LOLA_LINK_SUBHEADER_REMOTE_PKC_START_REQUEST remoteId]
  have d: "LOLA_LINK_SUBHEADER_REMOTE_PKC_START_REQUEST \<noteq> LOLA_LINK_SUBHEADER_LINK_DISCOVERY" by (simp add: lola_consts)
  have "t = Host_OnPKCRequestReceived P session remoteId s"
    using d by (simp add: assms(4) Link_ProcessPacket_def Link_ProcessShort_def f [unfolded One_nat_def] Host_link_hooks_def Let_def)
  also have "\<dots> = Link_SetLinkingState Host_ValidatingPartner (on_info (LinkInfo_SetPartnerId remoteId) s)"
    using assms(1,2) by (simp add: Host_OnPKCRequestReceived_def stage_at_def pairing_def LinkInfo_HasSessionId_def
        LinkInfo_GetSessionId_def)
  finally have t: "t = \<dots>" .
  show "stage_at B i pub priv Host_ValidatingPartner session remoteId t" "same_timers s t" "KeyExchanger t = KeyExchanger s"
    using assms(1) by (simp_all add: t stage_at_def pairing_def same_timers_def LinkInfo_SetPartnerId_def known_id_def)
qed

lemma host_validates:
  assumes "awake LOLA_LINK_SERVICE_UNLINK_HOST_MAX_BEFORE_SLEEP P s" and "board B i P" and "hash_ok B"
    and "stage_at B i pub priv Host_ValidatingPartner session remoteId s" and "t = Host_OnService N P s"
  shows "stage_at B i pub priv Host_SendingPublicKey session remoteId t" and "same_timers s t"
    and "KeyExchanger t = KeyExchanger s" and "IVHolder (CryptoEncoder (drv t)) = iv_of B (ucast session) i remoteId"
    and "LastSentMillis t = ILOLA_INVALID_MILLIS" and "SubStateStart t = millis_now P"
proof -
  have s: "pairing B i pub priv s" "LinkingState s = Host_ValidatingPartner" "SessionId (LinkInfo s) = session"
    "PartnerId (LinkInfo s) = remoteId" using assms(4) by (simp_all add: stage_at_def)
  have t: "t = Host_ValidatePartner P s"
    using host_awake(1) [OF assms(1), of N] host_awake(2) [OF assms(1)] s(2) assms(5)
    by (simp add: Host_OnAwaitingLink_def lola_consts)
  have k: "known_id i s" "local_id P = i" "Encoder_ok (CryptoEncoder (drv s))"
    using s(1) assms(2) by (simp_all add: pairing_def board_def)
  note iv = SetIvData_ready [OF assms(3) k(3)]
  have l: "fst (LinkInfo_GetLocalId P (LinkInfo s)) = i" "known_id i (s\<lparr>LinkInfo := snd (LinkInfo_GetLocalId P (LinkInfo s))\<rparr>)"
    using known_id_GetLocalId [OF k(1,2)] by simp_all
  show "stage_at B i pub priv Host_SendingPublicKey session remoteId t" "same_timers s t"
    "KeyExchanger t = KeyExchanger s" "IVHolder (CryptoEncoder (drv t)) = iv_of B (ucast session) i remoteId"
    "LastSentMillis t = ILOLA_INVALID_MILLIS" "SubStateStart t = millis_now P"
    using s l iv
    by (simp_all add: t Host_ValidatePartner_def case_prod_unfold Let_def stage_at_def pairing_def same_timers_def
        board_ops [OF assms(2)] LinkInfo_GetSessionId_def LinkInfo_GetPartnerId_def lola_frame on_info_result_def known_id_def
        Link_SetLinkingState_def Link_ResetLastSentTimeStamp_def on_encoder_def on_drv_def Service_SetNextRunASAP_def)
qed

lemma public_key_packet:
  assumes "pairing B i pub priv s" and "SessionId (LinkInfo s) = session" and "LastSentMillis s = ILOLA_INVALID_MILLIS"
    and "PairingStage (KeyExchanger s) \<noteq> StageClear" and "length (ecc_compress B pub) = KEY_CURVE_SIZE + 1"
    and "t = Link_resend LOLA_LINK_SERVICE_UNLINK_RESEND_LONG_PERIOD (Link_PreparePublicKeyPacket sub) P s" and "local_id P = i"
  shows "packet_only i s t" and "\<exists>p. length (Raw p) = LOLA_LINK_SERVICE_PACKET_MAX_SIZE \<and>
    Packet t = long_packet session sub (ecc_compress B pub) p"
proof -
  have now: "LOLA_LINK_SERVICE_UNLINK_RESEND_LONG_PERIOD < Link_GetElapsedMillisSinceLastSent P s"
    by (rule resend_now [OF assms(3)]) (simp add: lola_consts)
  have k: "known_id i s" "length (Raw (Packet s)) = LOLA_LINK_SERVICE_PACKET_MAX_SIZE"
    "LocalPublicKeyCompressed (KeyExchanger s) = ecc_compress B pub" using assms(1) by (simp_all add: pairing_def)
  note r = packet_only_resend [where prepare = "Link_PreparePublicKeyPacket sub", OF now prepared_only [OF k(1) assms(7)]]
  show "packet_only i s t" unfolding assms(6) by (rule r(1))
  show "\<exists>p. length (Raw p) = LOLA_LINK_SERVICE_PACKET_MAX_SIZE \<and> Packet t = long_packet session sub (ecc_compress B pub) p"
    unfolding assms(6) r(2) using k(2,3) assms(2,4,5) by (intro exI [of _ "Packet s"]) (simp add: prepared_packets)
qed

lemma host_sends_key:
  assumes "awake LOLA_LINK_SERVICE_UNLINK_HOST_MAX_BEFORE_SLEEP P s" and "LinkingState s = Host_SendingPublicKey"
    and "millis_now P - SubStateStart s \<le> LOLA_LINK_SERVICE_UNLINK_MAX_BEFORE_PKC_CANCEL"
  shows "Host_OnService N P s = Link_resend LOLA_LINK_SERVICE_UNLINK_RESEND_LONG_PERIOD
      (Link_PreparePublicKeyPacket LOLA_LINK_SUBHEADER_HOST_PUBLIC_KEY) P s"
proof -
  have d: "LinkingState s \<noteq> Host_BroadcastingOpenSession" "LinkingState s \<noteq> Host_ValidatingPartner"
    by (simp_all add: assms(2) lola_consts)
  have c: "\<not> LOLA_LINK_SERVICE_UNLINK_MAX_BEFORE_PKC_CANCEL < millis_now P - SubStateStart s"
    using assms(3) by (simp add: not_less)
  show ?thesis unfolding host_awake(1) [OF assms(1)] Host_OnAwaitingLink_def
    using host_awake(2) [OF assms(1)] d assms(2) c by (simp only: if_False snd_conv if_True simp_thms)
qed

lemma remote_sends_key:
  assumes "awake LOLA_LINK_SERVICE_UNLINK_REMOTE_MAX_BEFORE_SLEEP P s" and "LinkingState s = Remote_SendingPublicKey"
    and "millis_now P - SubStateStart s \<le> LOLA_LINK_SERVICE_UNLINK_MAX_BEFORE_PKC_CANCEL"
  shows "Remote_OnService N P s = Link_resend LOLA_LINK_SERVICE_UNLINK_RESEND_LONG_PERIOD
      (Link_PreparePublicKeyPacket LOLA_LINK_SUBHEADER_REMOTE_PUBLIC_KEY) P s"
proof -
  have d: "LinkingState s \<noteq> Remote_SearchingForHost" "LinkingState s \<noteq> Remote_ValidatingPartner"
    "LinkingState s \<noteq> Remote_AwaitingHostPublicKey" "LinkingState s \<noteq> Remote_ProcessingSharedKey"
    by (simp_all add: assms(2) lola_consts)
  have c: "\<not> LOLA_LINK_SERVICE_UNLINK_MAX_BEFORE_PKC_CANCEL < millis_now P - SubStateStart s"
    using assms(3) by (simp add: not_less)
  show ?thesis unfolding remote_awake(1) [OF assms(1)] Remote_OnAwaitingLink_def
    using remote_awake(2) [OF assms(1)] d assms(2) c by (simp only: if_False snd_conv if_True simp_thms)
qed

text \<open>Taking the partner's key.\<close>

abbreviation partner_key :: "u8 list \<Rightarrow> LoLaCryptoKeyExchanger \<Rightarrow> LoLaCryptoKeyExchanger" where
  "partner_key key k \<equiv> k\<lparr>PartnerPublicKeyCompressed := key, PairingStage := StagePartnerKey\<rparr>"

lemma remote_hears_key:
  assumes "stage_at B i pub priv Remote_AwaitingHostPublicKey session hostId s" and "session \<noteq> INVALID_SESSION" and "hostId \<noteq> 0"
    and "PairingStage (KeyExchanger s) = StageLocalKey" and "length (Raw p) = LOLA_LINK_SERVICE_PACKET_MAX_SIZE"
    and "length key = KEY_CURVE_SIZE + 1"
    and "t = snd (Link_ProcessPacket (Remote_link_hooks N) P (long_packet session LOLA_LINK_SUBHEADER_HOST_PUBLIC_KEY key p) s)"
  shows "stage_at B i pub priv Remote_ProcessingSharedKey session hostId t" and "same_timers s t"
    and "KeyExchanger t = partner_key key (KeyExchanger s)" and "CryptoEncoder (drv t) = CryptoEncoder (drv s)"
    and "SubStateStart t = SubStateStart s"
proof -
  note f = long_packet_fields [OF assms(5,6), of session LOLA_LINK_SUBHEADER_HOST_PUBLIC_KEY]
  have d: "LOLA_LINK_HEADER_LONG \<noteq> LOLA_LINK_HEADER_SHORT"
    "LOLA_LINK_SUBHEADER_HOST_PUBLIC_KEY \<noteq> LOLA_LINK_SUBHEADER_REMOTE_PUBLIC_KEY" by (simp_all add: lola_consts)
  have s: "GetLinkState s = AwaitingLink" "LinkingState s = Remote_AwaitingHostPublicKey"
    "LinkInfo_HasSession (LinkInfo s)" "LinkInfo_GetSessionId (LinkInfo s) = session"
    using assms(1-3) by (simp_all add: stage_at_def pairing_def LinkInfo_HasSession_def LinkInfo_HasSessionId_def
        LinkInfo_HasPartnerId_def LinkInfo_GetSessionId_def)
  have "t = Remote_OnHostPublicKeyReceived P session
      (drop 1 (LoLaPacket_GetPayload (long_packet session LOLA_LINK_SUBHEADER_HOST_PUBLIC_KEY key p))) s"
    using d by (simp add: assms(7) Link_ProcessPacket_def Link_ProcessLong_def f(1-3) Remote_link_hooks_def Let_def)
  also have "\<dots> = Link_SetLinkingState Remote_ProcessingSharedKey (s\<lparr>KeyExchanger := partner_key key (KeyExchanger s)\<rparr>)"
    using s assms(4) by (simp add: Remote_OnHostPublicKeyReceived_def KeyExchanger_SetPartnerPublicKey_def f(4) [simplified])
  finally have t: "t = \<dots>" .
  show "stage_at B i pub priv Remote_ProcessingSharedKey session hostId t" "same_timers s t"
    "KeyExchanger t = partner_key key (KeyExchanger s)" "CryptoEncoder (drv t) = CryptoEncoder (drv s)"
    "SubStateStart t = SubStateStart s"
    using assms(1) by (simp_all add: t stage_at_def pairing_def same_timers_def known_id_def)
qed

lemma host_hears_key:
  assumes "stage_at B i pub priv Host_SendingPublicKey session remoteId s" and "session \<noteq> INVALID_SESSION"
    and "PairingStage (KeyExchanger s) = StageLocalKey" and "length (Raw p) = LOLA_LINK_SERVICE_PACKET_MAX_SIZE"
    and "length key = KEY_CURVE_SIZE + 1"
    and "t = snd (Link_ProcessPacket (Host_link_hooks N) P (long_packet session LOLA_LINK_SUBHEADER_REMOTE_PUBLIC_KEY key p) s)"
  shows "stage_at B i pub priv Host_ProcessingPKC session remoteId t" and "same_timers s t"
    and "KeyExchanger t = partner_key key (KeyExchanger s)" and "CryptoEncoder (drv t) = CryptoEncoder (drv s)"
    and "SubStateStart t = SubStateStart s"
proof -
  note f = long_packet_fields [OF assms(4,5), of session LOLA_LINK_SUBHEADER_REMOTE_PUBLIC_KEY]
  have d: "LOLA_LINK_HEADER_LONG \<noteq> LOLA_LINK_HEADER_SHORT" by (simp add: lola_consts)
  have s: "GetLinkState s = AwaitingLink" "LinkingState s = Host_SendingPublicKey"
    "LinkInfo_HasSessionId (LinkInfo s)" "LinkInfo_GetSessionId (LinkInfo s) = session"
    using assms(1,2) by (simp_all add: stage_at_def pairing_def LinkInfo_HasSessionId_def LinkInfo_GetSessionId_def)
  have "t = Host_OnRemotePublicKeyReceived P session
      (drop 1 (LoLaPacket_GetPayload (long_packet session LOLA_LINK_SUBHEADER_REMOTE_PUBLIC_KEY key p))) s"
    using d by (simp add: assms(6) Link_ProcessPacket_def Link_ProcessLong_def f(1-3) Host_link_hooks_def Let_def)
  also have "\<dots> = Link_SetLinkingState Host_ProcessingPKC (s\<lparr>KeyExchanger := partner_key key (KeyExchanger s)\<rparr>)"
    using s assms(3) by (simp add: Host_OnRemotePublicKeyReceived_def KeyExchanger_SetPartnerPublicKey_def f(4) [simplified])
  finally have t: "t = \<dots>" .
  show "stage_at B i pub priv Host_ProcessingPKC session remoteId t" "same_timers s t"
    "KeyExchanger t = partner_key key (KeyExchanger s)" "CryptoEncoder (drv t) = CryptoEncoder (drv s)"
    "SubStateStart t = SubStateStart s"
    using assms(1) by (simp_all add: t stage_at_def pairing_def same_timers_def known_id_def)
qed

text \<open>Deriving the shared secret.\<close>

lemma remote_derives:
  assumes "awake LOLA_LINK_SERVICE_UNLINK_REMOTE_MAX_BEFORE_SLEEP P s" and "board B i P" and "hash_ok B" and "cypher_accepts B"
    and "stage_at B i pub priv Remote_ProcessingSharedKey session hostId s"
    and "PairingStage (KeyExchanger s) = StagePartnerKey"
    and "ecc_shared_secret B (ecc_decompress B (PartnerPublicKeyCompressed (KeyExchanger s))) priv = Some key"
    and "length key = KEY_CURVE_SIZE" and "IVHolder (CryptoEncoder (drv s)) = iv_of B (ucast session) hostId i"
    and "t = Remote_OnService N P s"
  shows "stage_at B i pub priv Remote_SendingPublicKey session hostId t" and "same_timers s t"
    and "PairingStage (KeyExchanger t) = StageSharedKey" and "keyed_for B session hostId i key (CryptoEncoder (drv t))"
    and "LastSentMillis t = ILOLA_INVALID_MILLIS" and "SubStateStart t = SubStateStart s"
proof -
  have s: "pairing B i pub priv s" "LinkingState s = Remote_ProcessingSharedKey" "SessionId (LinkInfo s) = session"
    "PartnerId (LinkInfo s) = hostId" using assms(5) by (simp_all add: stage_at_def)
  have e: "Encoder_ok (CryptoEncoder (drv s))" "TokenHolder (CryptoEncoder (drv s)) = replicate TokenSize 0"
    "PrivateKey (KeyExchanger s) = priv" using s(1) by (simp_all add: pairing_def)
  note k = SharedSecret_keyed [OF assms(2-4,6) assms(7) [folded e(3)] assms(8) e(1) assms(9) e(2)]
  have d: "LinkingState s \<noteq> Remote_SearchingForHost" "LinkingState s \<noteq> Remote_ValidatingPartner"
    "LinkingState s \<noteq> Remote_AwaitingHostPublicKey" by (simp_all add: s(2) lola_consts)
  have t: "t = Link_SetLinkingState Remote_SendingPublicKey (Link_ResetLastSentTimeStamp (snd (Link_SharedSecret P s)))"
    unfolding assms(10) remote_awake(1) [OF assms(1)] Remote_OnAwaitingLink_def
    using remote_awake(2) [OF assms(1)] d s(2) k(1) by (simp only: if_False snd_conv if_True simp_thms case_prod_unfold Let_def)
  show "stage_at B i pub priv Remote_SendingPublicKey session hostId t" "same_timers s t"
    "PairingStage (KeyExchanger t) = StageSharedKey" "keyed_for B session hostId i key (CryptoEncoder (drv t))"
    "LastSentMillis t = ILOLA_INVALID_MILLIS" "SubStateStart t = SubStateStart s"
    using s k by (simp_all add: t stage_at_def pairing_def same_timers_def known_id_def keyed_for_def Let_def
        Link_ResetLastSentTimeStamp_def)
qed

lemma host_derives:
  assumes "awake LOLA_LINK_SERVICE_UNLINK_HOST_MAX_BEFORE_SLEEP P s" and "board B i P" and "hash_ok B" and "cypher_accepts B"
    and "stage_at B i pub priv Host_ProcessingPKC session remoteId s"
    and "PairingStage (KeyExchanger s) = StagePartnerKey"
    and "ecc_shared_secret B (ecc_decompress B (PartnerPublicKeyCompressed (KeyExchanger s))) priv = Some key"
    and "length key = KEY_CURVE_SIZE" and "IVHolder (CryptoEncoder (drv s)) = iv_of B (ucast session) i remoteId"
    and "t = Host_OnService N P s"
  shows "stage_at B i pub priv Host_GotSharedKey session remoteId t" and "same_timers s t"
    and "keyed_for B session i remoteId key (CryptoEncoder (drv t))"
    and "LastSentMillis t = ILOLA_INVALID_MILLIS" and "SubStateStart t = SubStateStart s"
proof -
  have s: "pairing B i pub priv s" "LinkingState s = Host_ProcessingPKC" "SessionId (LinkInfo s) = session"
    "PartnerId (LinkInfo s) = remoteId" using assms(5) by (simp_all add: stage_at_def)
  have e: "Encoder_ok (CryptoEncoder (drv s))" "TokenHolder (CryptoEncoder (drv s)) = replicate TokenSize 0"
    "PrivateKey (KeyExchanger s) = priv" using s(1) by (simp_all add: pairing_def)
  note k = SharedSecret_keyed [OF assms(2-4,6) assms(7) [folded e(3)] assms(8) e(1) assms(9) e(2)]
  have d: "LinkingState s \<noteq> Host_BroadcastingOpenSession" "LinkingState s \<noteq> Host_ValidatingPartner"
    "LinkingState s \<noteq> Host_SendingPublicKey" by (simp_all add: s(2) lola_consts)
  have t: "t = Link_SetLinkingState Host_GotSharedKey (snd (Link_SharedSecret P s))"
    unfolding assms(10) host_awake(1) [OF assms(1)] Host_OnAwaitingLink_def
    using host_awake(2) [OF assms(1)] d s(2) k(1) by (simp only: if_False snd_conv if_True simp_thms case_prod_unfold Let_def)
  show "stage_at B i pub priv Host_GotSharedKey session remoteId t" "same_timers s t"
    "keyed_for B session i remoteId key (CryptoEncoder (drv t))"
    "LastSentMillis t = ILOLA_INVALID_MILLIS" "SubStateStart t = SubStateStart s"
    using s k by (simp_all add: t stage_at_def pairing_def same_timers_def known_id_def keyed_for_def Let_def)
qed

text \<open>The challenge: the partner's id under the key.\<close>

definition challenge :: "platform \<Rightarrow> u8 \<Rightarrow> u32 \<Rightarrow> u32 \<Rightarrow> u8 list \<Rightarrow> LoLaPacket \<Rightarrow> bool" where
  "challenge B session hostId remoteId key p \<longleftrightarrow> LoLaPacket_GetDataHeader p = LOLA_LINK_HEADER_SHORT_WITH_ACK \<and>
     LoLaPacket_GetId p = session \<and>
     (\<exists>c. take 4 (LoLaPacket_GetPayload p) = fst (cypher_encrypt B (le32_bytes remoteId)
        (cypher_load B (take KeySize key) (iv_of B (ucast session) hostId remoteId) (replicate TokenSize 0) c)))"

lemma host_challenges:
  assumes "awake LOLA_LINK_SERVICE_UNLINK_HOST_MAX_BEFORE_SLEEP P s" and "board B i P" and "cypher_ok B"
    and "stage_at B i pub priv Host_GotSharedKey session remoteId s"
    and "keyed_for B session i remoteId key (CryptoEncoder (drv s))"
    and "LastSentMillis s = ILOLA_INVALID_MILLIS"
    and "millis_now P - SubStateStart s \<le> LOLA_LINK_SERVICE_UNLINK_MAX_BEFORE_PKC_CANCEL"
    and "t = Host_OnService N P s"
  shows "packet_only i s t" and "challenge B session i remoteId key (Packet t)"
proof -
  have s: "pairing B i pub priv s" "LinkingState s = Host_GotSharedKey" "SessionId (LinkInfo s) = session"
    "PartnerId (LinkInfo s) = remoteId" using assms(4) by (simp_all add: stage_at_def)
  have d: "LinkingState s \<noteq> Host_BroadcastingOpenSession" "LinkingState s \<noteq> Host_ValidatingPartner"
    "LinkingState s \<noteq> Host_SendingPublicKey" "LinkingState s \<noteq> Host_ProcessingPKC" by (simp_all add: s(2) lola_consts)
  have c: "\<not> LOLA_LINK_SERVICE_UNLINK_MAX_BEFORE_PKC_CANCEL < millis_now P - SubStateStart s"
    using assms(7) by (simp add: not_less)
  have t: "t = Link_resend LOLA_LINK_SERVICE_UNLINK_RESEND_PERIOD (Host_PrepareCryptoStartRequest P) P s"
    unfolding assms(8) host_awake(1) [OF assms(1)] Host_OnAwaitingLink_def
    using host_awake(2) [OF assms(1)] d s(2) c by (simp only: if_False snd_conv if_True simp_thms)
  have now: "LOLA_LINK_SERVICE_UNLINK_RESEND_PERIOD < Link_GetElapsedMillisSinceLastSent P s"
    by (rule resend_now [OF assms(6)]) (simp add: lola_consts)
  have k: "known_id i s" "length (Raw (Packet s)) = LOLA_LINK_SERVICE_PACKET_MAX_SIZE" "local_id P = i"
    using s(1) assms(2) by (simp_all add: pairing_def board_def)
  note r = packet_only_resend [where prepare = "Host_PrepareCryptoStartRequest P", OF now Host_prepared_only(2) [OF k(1,3)]]
  show "packet_only i s t" unfolding t by (rule r(1))
  let ?q = "acked_packet session (le32_bytes remoteId) (Packet s)"
  let ?e = "CryptoEncoder (drv s)"
  note f = acked_packet_fields [OF k(2), of "le32_bytes remoteId" session]
  have q: "Packet (Host_PrepareLinkProtocolSwitchOver s) = ?q" by (simp add: prepared_packets s(3,4))
  have v: "drv (Host_PrepareLinkProtocolSwitchOver s) = drv s" by (simp add: Host_PrepareLinkProtocolSwitchOver_def)
  let ?out = "fst (cypher_encrypt B (le32_bytes remoteId) (cypher_load B (KeyHolder ?e) (IVHolder ?e) (TokenHolder ?e) (Cypher ?e)))"
  have o: "length ?out = 4" using assms(3) by simp
  have l: "length (LoLaPacket_GetPayload ?q) = 22" using f(4) by (simp add: LoLaPacket_GetPayload_def lola_consts)
  have "Packet t = LoLaPacket_SetPayload 0 (store 0 ?out (LoLaPacket_GetPayload ?q)) ?q"
    unfolding t r(2) using f(3)
    by (simp add: Host_PrepareCryptoStartRequest_def q v board_ops [OF assms(2)] Encoder_EncodeDirect_def case_prod_unfold Let_def
        Link_SetPayload_def)
  moreover have "LoLaPacket_GetPayload (LoLaPacket_SetPayload 0 (store 0 ?out (LoLaPacket_GetPayload ?q)) ?q) =
      store 0 ?out (LoLaPacket_GetPayload ?q)"
    using l f(4) by (simp add: LoLaPacket_GetPayload_def LoLaPacket_SetPayload_def lola_consts)
  moreover have "take 4 (store 0 ?out (LoLaPacket_GetPayload ?q)) = ?out"
    using o l by (simp add: store_split)
  moreover have "LoLaPacket_GetDataHeader (LoLaPacket_SetPayload 0 bs ?q) = LOLA_LINK_HEADER_SHORT_WITH_ACK"
    "LoLaPacket_GetId (LoLaPacket_SetPayload 0 bs ?q) = session" if "length bs = 22" for bs
    using f(1,2,4) that
    by (simp_all add: LoLaPacket_GetDataHeader_def LoLaPacket_GetId_def LoLaPacket_SetPayload_def lola_consts)
  ultimately show "challenge B session i remoteId key (Packet t)"
    using assms(5) l by (auto simp: challenge_def keyed_for_def Let_def)
qed

lemma remote_answers:
  assumes "board B i P" and "cypher_ok B" and "stage_at B i pub priv Remote_SendingPublicKey session hostId s"
    and "session \<noteq> INVALID_SESSION" and "keyed_for B session hostId i key (CryptoEncoder (drv s))"
    and "challenge B session hostId i key p"
    and "(acked, t) = Link_ProcessAckedPacket (Remote_link_hooks N) P p s"
  shows "acked" and "stage_at B i pub priv Remote_LinkingSwitchOver session hostId t" and "same_timers s t"
    and "keyed_for B session hostId i key (CryptoEncoder (drv t))"
proof -
  have s: "pairing B i pub priv s" "LinkingState s = Remote_SendingPublicKey" "SessionId (LinkInfo s) = session"
    "PartnerId (LinkInfo s) = hostId" "GetLinkState s = AwaitingLink" using assms(3) by (simp_all add: stage_at_def pairing_def)
  let ?e = "CryptoEncoder (drv s)"
  obtain c where c: "take 4 (LoLaPacket_GetPayload p) = fst (cypher_encrypt B (le32_bytes i)
      (cypher_load B (KeyHolder ?e) (IVHolder ?e) (TokenHolder ?e) c))"
    using assms(5,6) by (auto simp: challenge_def keyed_for_def Let_def)
  have h: "LoLaPacket_GetDataHeader p = LOLA_LINK_HEADER_SHORT_WITH_ACK" "LoLaPacket_GetId p = session"
    using assms(6) by (simp_all add: challenge_def)
  have ping: "LOLA_LINK_HEADER_SHORT_WITH_ACK \<noteq> Header PingPacketDefinition" by (simp add: link_packet_defs lola_consts)
  define s1 where "s1 = on_encoder (\<lambda>_. snd (Encoder_DecodeDirect B (LoLaPacket_GetPayload p) 4 ?e)) s"
  have plain: "fst (Encoder_DecodeDirect B (LoLaPacket_GetPayload p) 4 ?e) = le32_bytes i"
    using assms(2) by (simp add: Encoder_DecodeDirect_def c case_prod_unfold Let_def)
  have k: "known_id i s1" "local_id P = i" using s(1) assms(1) by (simp_all add: pairing_def board_def s1_def)
  have e1: "\<exists>c. CryptoEncoder (drv s1) = ?e\<lparr>Cypher := c\<rparr>"
    by (auto simp: s1_def Encoder_DecodeDirect_def Encoder_ResetCypherBlock_def case_prod_unfold Let_def)
  have "(acked, t) = Remote_OnCryptoStartReceived P session (LoLaPacket_GetPayload p) s"
    using assms(7) h ping s(5) by (simp add: Link_ProcessAckedPacket_def Remote_link_hooks_def Remote_OnAckedPacketReceived_def)
  also have "\<dots> = (True, Link_SetLinkingState Remote_LinkingSwitchOver (snd (on_info_result (LinkInfo_GetLocalId P) s1)))"
    using s(2,3) assms(4) plain known_id_result(1) [OF k]
    by (simp add: Remote_OnCryptoStartReceived_def LinkInfo_HasSessionId_def LinkInfo_GetSessionId_def
        board_ops [OF assms(1)] case_prod_unfold Let_def s1_def)
  finally have t: "acked" "t = Link_SetLinkingState Remote_LinkingSwitchOver (snd (on_info_result (LinkInfo_GetLocalId P) s1))"
    by simp_all
  show "acked" by (rule t(1))
  show "stage_at B i pub priv Remote_LinkingSwitchOver session hostId t" "same_timers s t"
    "keyed_for B session hostId i key (CryptoEncoder (drv t))"
    using s assms(5) e1 known_id_result(2) [OF k]
    by (auto simp: t stage_at_def pairing_def same_timers_def s1_def Encoder_ok_def)
qed

lemma host_acknowledged:
  assumes "stage_at B i pub priv Host_GotSharedKey session remoteId s"
    and "t = Host_OnAckReceived P LOLA_LINK_HEADER_SHORT_WITH_ACK session s"
  shows "stage_at B i pub priv Host_LinkingSwitchOver session remoteId t" and "same_timers s t"
    and "CryptoEncoder (drv t) = CryptoEncoder (drv s)"
proof -
  have ping: "LOLA_LINK_HEADER_SHORT_WITH_ACK \<noteq> Header PingPacketDefinition"
    "LOLA_LINK_HEADER_SHORT_WITH_ACK = Header LinkShortWithAckPacketDefinition"
    by (simp_all add: link_packet_defs lola_consts)
  have t: "t = Link_SetLinkingState Host_LinkingSwitchOver s"
    using assms ping by (simp add: Host_OnAckReceived_def Host_OnLinkAckReceived_def stage_at_def pairing_def LinkInfo_GetSessionId_def)
  show "stage_at B i pub priv Host_LinkingSwitchOver session remoteId t" "same_timers s t"
    "CryptoEncoder (drv t) = CryptoEncoder (drv s)"
    using assms(1) by (simp_all add: t stage_at_def pairing_def same_timers_def known_id_def)
qed

text \<open>Both ends switch over: the encoder is enabled and the hopper takes its seed.\<close>

definition linking_with :: "u8 \<Rightarrow> u32 \<Rightarrow> LoLaCryptoEncoder \<Rightarrow> 'a LoLaLinkService_scheme \<Rightarrow> bool" where
  "linking_with session partner e s \<longleftrightarrow> GetLinkState s = Linking \<and> LinkingState s = LinkingInfoSyncStage \<and>
     SessionId (LinkInfo s) = session \<and> PartnerId (LinkInfo s) = partner \<and>
     CryptoEncoder (drv s) = e\<lparr>EncoderState := FullPower\<rparr> \<and>
     TOTPSeed (CryptoSeed (TimedHopper s)) = TokenSeed e"

lemma host_switches:
  assumes "awake LOLA_LINK_SERVICE_UNLINK_HOST_MAX_BEFORE_SLEEP P s"
    and "stage_at B i pub priv Host_LinkingSwitchOver session remoteId s"
    and "EncoderState (CryptoEncoder (drv s)) = AllReady"
  shows "linking_with session remoteId (CryptoEncoder (drv s)) (Host_OnService N P s)"
proof -
  have s: "LinkingState s = Host_LinkingSwitchOver" "SessionId (LinkInfo s) = session"
    "PartnerId (LinkInfo s) = remoteId" "GetLinkState s = AwaitingLink" using assms(2) by (simp_all add: stage_at_def pairing_def)
  have d: "LinkingState s \<noteq> Host_BroadcastingOpenSession" "LinkingState s \<noteq> Host_ValidatingPartner"
    "LinkingState s \<noteq> Host_SendingPublicKey" "LinkingState s \<noteq> Host_ProcessingPKC" "LinkingState s \<noteq> Host_GotSharedKey"
    by (simp_all add: s(1) lola_consts)
  have t: "Host_OnService N P s = Host_UpdateLinkState N P Linking s"
    unfolding host_awake(1) [OF assms(1)] Host_OnAwaitingLink_def
    using host_awake(2) [OF assms(1)] d s(1) by (simp only: if_False snd_conv if_True simp_thms)
  have en: "Encoder_SetEnabled (CryptoEncoder (drv s)) = (True, (CryptoEncoder (drv s))\<lparr>EncoderState := FullPower\<rparr>)"
    using assms(3) by (simp add: Encoder_SetEnabled_def)
  show ?thesis unfolding t
    using s en by (simp add: linking_with_def Link_UpdateLinkState_def Link_ChangeState_def Link_EnterState_def Let_def
        Host_state_hooks_def Host_OnLinkStateChanged_def LinkInfo_UpdateState_def Encoder_GetSeed_def TokenSource_SetSeed_def
        link_op_defs lola_consts)
qed

lemma remote_switches:
  assumes "awake LOLA_LINK_SERVICE_UNLINK_REMOTE_MAX_BEFORE_SLEEP P s"
    and "stage_at B i pub priv Remote_LinkingSwitchOver session hostId s"
    and "EncoderState (CryptoEncoder (drv s)) = AllReady"
  shows "linking_with session hostId (CryptoEncoder (drv s)) (Remote_OnService N P s)"
proof -
  have s: "LinkingState s = Remote_LinkingSwitchOver" "SessionId (LinkInfo s) = session"
    "PartnerId (LinkInfo s) = hostId" "GetLinkState s = AwaitingLink" using assms(2) by (simp_all add: stage_at_def pairing_def)
  have d: "LinkingState s \<noteq> Remote_SearchingForHost" "LinkingState s \<noteq> Remote_ValidatingPartner"
    "LinkingState s \<noteq> Remote_AwaitingHostPublicKey" "LinkingState s \<noteq> Remote_ProcessingSharedKey"
    "LinkingState s \<noteq> Remote_SendingPublicKey"
    by (simp_all add: s(1) lola_consts)
  have t: "Remote_OnService N P s = Remote_UpdateLinkState N P Linking s"
    unfolding remote_awake(1) [OF assms(1)] Remote_OnAwaitingLink_def
    using remote_awake(2) [OF assms(1)] d s(1) by (simp only: if_False snd_conv if_True simp_thms)
  have en: "Encoder_SetEnabled (CryptoEncoder (drv s)) = (True, (CryptoEncoder (drv s))\<lparr>EncoderState := FullPower\<rparr>)"
    using assms(3) by (simp add: Encoder_SetEnabled_def)
  show ?thesis unfolding t
    using s en by (simp add: linking_with_def Link_UpdateLinkState_def Link_ChangeState_def Link_EnterState_def Let_def
        Remote_state_hooks_def Remote_OnLinkStateChanged_def LinkInfo_UpdateState_def Encoder_GetSeed_def TokenSource_SetSeed_def
        link_op_defs lola_consts)
qed

section \<open>What the exchange leaves for linking\<close>

text \<open>
  What linking relies on and the key exchange does not touch: no latency or RSSI samples, no good
  estimation of the clock, no request under way.
\<close>

definition host_fresh :: "'a LoLaLinkHostService_scheme \<Rightarrow> bool" where
  "host_fresh h \<longleftrightarrow> InfoHasDriver (LinkInfo h) \<and> PartnerRSSISamples (LinkInfo h) = [] \<and> HopperSetupOk (TimedHopper h) \<and>
     DurationStack (LatencyMeter h) = [] \<and> SyncGoodCount (HostClockSyncer h) = 0"

definition remote_fresh :: "'a LoLaLinkRemoteService_scheme \<Rightarrow> bool" where
  "remote_fresh r \<longleftrightarrow> InfoHasDriver (LinkInfo r) \<and> HopperSetupOk (TimedHopper r) \<and>
     SyncerHasClock (RemoteClockSyncer r) \<and> RequestStage (RemoteClockSyncTransaction r) = 0"

lemma samples_frames [simp]:
  "PartnerRSSISamples (LinkInfo_SetPartnerId x i) = PartnerRSSISamples i"
  "PartnerRSSISamples (snd (LinkInfo_SetSessionId y i)) = PartnerRSSISamples i"
  "PartnerRSSISamples (fst (LinkInfo_Reset i d)) = []"
  "PartnerRSSISamples (LinkInfo_UpdateState st i) = PartnerRSSISamples i"
  by (simp_all add: LinkInfo_SetPartnerId_def LinkInfo_SetSessionId_def LinkInfo_Reset_def LinkInfo_UpdateState_def)

lemmas fresh_op_defs = link_op_defs on_info_drv_def on_info_result_def case_prod_unfold Let_def

lemma host_fresh_clear: "host_fresh s \<Longrightarrow> host_fresh (Host_ClearSession P s)" "host_fresh s \<Longrightarrow> host_fresh (Host_NewSession P s)"
  by (simp_all add: host_fresh_def Host_NewSession_def Link_ClearSession_def Host_session_hooks_def Meter_Reset_def
      HostSyncer_Reset_def Syncer_ResetBase_def fresh_op_defs)

lemma remote_fresh_clear: "remote_fresh s \<Longrightarrow> remote_fresh (Remote_ClearSession P s)"
  by (simp add: remote_fresh_def Link_ClearSession_def Remote_session_hooks_def RemoteSyncer_Reset_def Syncer_ResetBase_def
      Request_Reset_def fresh_op_defs)

lemma fresh_packets:
  "host_fresh s \<Longrightarrow> host_fresh (Host_PrepareIdBroadcast P s)" "host_fresh s \<Longrightarrow> host_fresh (Host_PrepareCryptoStartRequest P s)"
  "host_fresh s \<Longrightarrow> host_fresh (Link_PreparePublicKeyPacket sub s)"
  "remote_fresh r \<Longrightarrow> remote_fresh (Remote_PrepareLinkDiscovery r)" "remote_fresh r \<Longrightarrow> remote_fresh (Remote_PreparePKCStartRequest P r)"
  "remote_fresh r \<Longrightarrow> remote_fresh (Link_PreparePublicKeyPacket sub r)"
  by (simp_all add: host_fresh_def remote_fresh_def Host_PrepareIdBroadcast_def Host_PrepareCryptoStartRequest_def
      Host_PrepareLinkProtocolSwitchOver_def Link_PreparePublicKeyPacket_def Remote_PrepareLinkDiscovery_def
      Remote_PreparePKCStartRequest_def fresh_op_defs split: option.split)

lemma fresh_moves:
  "host_fresh (Link_SetLinkingState x s) = host_fresh s" "host_fresh (s\<lparr>SubStateStart := n\<rparr>) = host_fresh s"
  "host_fresh (s\<lparr>KeyExchanger := k\<rparr>) = host_fresh s" "host_fresh (s\<lparr>SessionLastStarted := n\<rparr>) = host_fresh s"
  "host_fresh (Service_SetNextRunDelay n s) = host_fresh s" "host_fresh (Service_SetNextRunASAP s) = host_fresh s"
  "host_fresh (on_encoder f s) = host_fresh s" "host_fresh (Send_RequestSendPacket P t1 t2 s) = host_fresh s"
  "host_fresh (snd (on_info_result (LinkInfo_GetLocalId P) s)) = host_fresh s"
  "host_fresh (on_info (LinkInfo_SetPartnerId v) s) = host_fresh s"
  "host_fresh (Link_ResetLastSentTimeStamp s) = host_fresh s"
  "remote_fresh (Link_SetLinkingState x r) = remote_fresh r" "remote_fresh (r\<lparr>SubStateStart := n\<rparr>) = remote_fresh r"
  "remote_fresh (r\<lparr>KeyExchanger := k\<rparr>) = remote_fresh r"
  "remote_fresh (Service_SetNextRunDelay n r) = remote_fresh r" "remote_fresh (Service_SetNextRunASAP r) = remote_fresh r"
  "remote_fresh (on_encoder f r) = remote_fresh r" "remote_fresh (Send_RequestSendPacket P t1 t2 r) = remote_fresh r"
  "remote_fresh (snd (on_info_result (LinkInfo_GetLocalId P) r)) = remote_fresh r"
  "remote_fresh (snd (on_info_result (LinkInfo_SetSessionId b) r)) = remote_fresh r"
  "remote_fresh (on_info (LinkInfo_SetPartnerId w) r) = remote_fresh r"
  "remote_fresh (Link_ResetLastSentTimeStamp r) = remote_fresh r"
  by (simp_all add: host_fresh_def remote_fresh_def fresh_op_defs)

lemma fresh_resend:
  "host_fresh s \<Longrightarrow> host_fresh (prepare s) \<Longrightarrow> host_fresh (Link_resend period prepare P s)"
  "remote_fresh r \<Longrightarrow> remote_fresh (prepare' r) \<Longrightarrow> remote_fresh (Link_resend period prepare' P r)"
  by (simp_all add: Link_resend_def fresh_moves)

lemma host_fresh_secret: "host_fresh (snd (Link_SharedSecret P s)) = host_fresh s"
  by (simp add: Link_SharedSecret_def Let_def case_prod_unfold fresh_moves)

lemma remote_fresh_secret: "remote_fresh (snd (Link_SharedSecret P s)) = remote_fresh s"
  by (simp add: Link_SharedSecret_def Let_def case_prod_unfold fresh_moves)

lemma host_fresh_switch:
  assumes "GetLinkState s = AwaitingLink" and "host_fresh s"
  shows "host_fresh (Host_UpdateLinkState N P Linking s)"
  using assms by (simp add: Link_UpdateLinkState_def Link_ChangeState_def Link_EnterState_def Host_state_hooks_def
      Host_OnLinkStateChanged_def host_fresh_def fresh_op_defs)

lemma remote_fresh_switch:
  assumes "GetLinkState s = AwaitingLink" and "remote_fresh s"
  shows "remote_fresh (Remote_UpdateLinkState N P Linking s)"
  using assms by (simp add: Link_UpdateLinkState_def Link_ChangeState_def Link_EnterState_def Remote_state_hooks_def
      Remote_OnLinkStateChanged_def remote_fresh_def fresh_op_defs)

lemma host_fresh_service:
  assumes "awake LOLA_LINK_SERVICE_UNLINK_HOST_MAX_BEFORE_SLEEP P s" and "host_fresh s"
  shows "host_fresh (Host_OnService N P s)"
proof -
  have g: "GetLinkState s = AwaitingLink" using assms(1) by (simp add: awake_def)
  show ?thesis
    unfolding host_awake(1) [OF assms(1)] Host_OnAwaitingLink_def Host_BroadcastSession_def Host_ValidatePartner_def
      Host_RestartAwaitingLink_def Let_def case_prod_unfold
    using assms(2) host_fresh_switch [OF g assms(2)]
    by (simp add: fresh_moves host_fresh_clear fresh_resend fresh_packets host_fresh_secret)
qed

lemma remote_fresh_service:
  assumes "awake LOLA_LINK_SERVICE_UNLINK_REMOTE_MAX_BEFORE_SLEEP P s" and "remote_fresh s"
  shows "remote_fresh (Remote_OnService N P s)"
proof -
  have g: "GetLinkState s = AwaitingLink" using assms(1) by (simp add: awake_def)
  show ?thesis
    unfolding remote_awake(1) [OF assms(1)] Remote_OnAwaitingLink_def Remote_ValidatePartner_def
      Remote_RestartSearch_def Let_def case_prod_unfold
    using assms(2) remote_fresh_switch [OF g assms(2)]
    by (simp add: fresh_moves remote_fresh_clear fresh_resend fresh_packets remote_fresh_secret)
qed

lemma host_awaiting_handlers:
  assumes "GetLinkState s = AwaitingLink"
  shows "Host_OnLinkDiscoveryReceived P s = s" "Host_OnRemoteInfoSyncReceived P rssi s = s"
    "Host_OnClockSyncRequestReceived P i x s = s" "Host_OnClockSyncTuneRequestReceived P i x s = s"
    "Link_OnLinkInfoReportReceived P rssi c s = s" "Link_OnLinkInfoReportReceived P rssi c (s\<lparr>ReportPending := b\<rparr>) = s\<lparr>ReportPending := b\<rparr>"
  using assms by (simp_all add: Host_OnLinkDiscoveryReceived_def Host_OnRemoteInfoSyncReceived_def Host_OnClockSyncRequestReceived_def
      Host_OnClockSyncTuneRequestReceived_def Link_OnLinkInfoReportReceived_def LinkInfo_HasLink_def)

lemma remote_awaiting_handlers:
  assumes "GetLinkState s = AwaitingLink"
  shows "Remote_OnHostInfoSyncRequestReceived P s = s" "Remote_OnHostInfoSyncReceived P rssi rtt s = s"
    "Remote_OnClockSyncResponseReceived P i x s = s" "Remote_OnClockSyncTuneResponseReceived P i x s = s"
    "Link_OnLinkInfoReportReceived P rssi c s = s" "Link_OnLinkInfoReportReceived P rssi c (s\<lparr>ReportPending := b\<rparr>) = s\<lparr>ReportPending := b\<rparr>"
  using assms by (simp_all add: Remote_OnHostInfoSyncRequestReceived_def Remote_OnHostInfoSyncReceived_def
      Remote_OnClockSyncResponseReceived_def Remote_OnClockSyncTuneResponseReceived_def Link_OnLinkInfoReportReceived_def LinkInfo_HasLink_def)

lemma host_fresh_keys:
  assumes "host_fresh s"
  shows "host_fresh (Host_OnPKCRequestReceived P i x s)" "host_fresh (Host_OnRemotePublicKeyReceived P i key s)"
    "host_fresh (s\<lparr>ReportPending := b\<rparr>)"
  using assms by (simp_all add: Host_OnPKCRequestReceived_def Host_OnRemotePublicKeyReceived_def fresh_moves Let_def case_prod_unfold)
    (simp add: host_fresh_def)

lemma remote_fresh_keys:
  assumes "GetLinkState s = AwaitingLink" and "remote_fresh s"
  shows "remote_fresh (Remote_OnIdBroadcastReceived N P i x s)" "remote_fresh (Remote_OnHostPublicKeyReceived P i key s)"
    "remote_fresh (s\<lparr>ReportPending := b\<rparr>)"
  using assms by (simp_all add: Remote_OnIdBroadcastReceived_def Remote_OnHostPublicKeyReceived_def fresh_moves Let_def case_prod_unfold)
    (simp add: remote_fresh_def)

lemma host_fresh_if: "(c \<Longrightarrow> host_fresh a) \<Longrightarrow> (\<not> c \<Longrightarrow> host_fresh b) \<Longrightarrow> host_fresh (if c then a else b)"
  by simp

lemma remote_fresh_if: "(c \<Longrightarrow> remote_fresh a) \<Longrightarrow> (\<not> c \<Longrightarrow> remote_fresh b) \<Longrightarrow> remote_fresh (if c then a else b)"
  by simp

lemma host_fresh_hears:
  assumes "GetLinkState s = AwaitingLink" and "host_fresh s"
  shows "host_fresh (snd (Link_ProcessPacket (Host_link_hooks N) P p s))"
proof -
  note heard = Host_link_hooks_def Link_default_hooks_def host_awaiting_handlers [OF assms(1)] host_fresh_keys [OF assms(2)] assms(2)
  have "host_fresh (Link_ProcessShort (Host_link_hooks N) P p s)"
    unfolding Link_ProcessShort_def Let_def by (intro host_fresh_if) (simp_all add: heard)
  moreover have "host_fresh (Link_ProcessLong (Host_link_hooks N) P p s)"
    unfolding Link_ProcessLong_def Let_def by (intro host_fresh_if) (simp_all add: heard)
  moreover have "host_fresh (Link_ProcessReport (Host_link_hooks N) P p s)"
    unfolding Link_ProcessReport_def Let_def by (intro host_fresh_if) (simp_all add: heard)
  ultimately show ?thesis using assms(2) by (simp add: Link_ProcessPacket_def Let_def)
qed

lemma remote_fresh_hears:
  assumes "GetLinkState s = AwaitingLink" and "remote_fresh s"
  shows "remote_fresh (snd (Link_ProcessPacket (Remote_link_hooks N) P p s))"
proof -
  note heard = Remote_link_hooks_def Link_default_hooks_def remote_awaiting_handlers [OF assms(1)]
    remote_fresh_keys [OF assms] assms(2)
  have "remote_fresh (Link_ProcessShort (Remote_link_hooks N) P p s)"
    unfolding Link_ProcessShort_def Let_def by (intro remote_fresh_if) (simp_all add: heard)
  moreover have "remote_fresh (Link_ProcessLong (Remote_link_hooks N) P p s)"
    unfolding Link_ProcessLong_def Let_def by (intro remote_fresh_if) (simp_all add: heard)
  moreover have "remote_fresh (Link_ProcessReport (Remote_link_hooks N) P p s)"
    unfolding Link_ProcessReport_def Let_def by (intro remote_fresh_if) (simp_all add: heard)
  ultimately show ?thesis using assms(2) by (simp add: Link_ProcessPacket_def Let_def)
qed

lemma fresh_acks:
  "GetLinkState s = AwaitingLink \<Longrightarrow> host_fresh s \<Longrightarrow> host_fresh (Host_OnAckReceived P header i s)"
  "GetLinkState r = AwaitingLink \<Longrightarrow> remote_fresh r \<Longrightarrow> remote_fresh (snd (Link_ProcessAckedPacket (Remote_link_hooks N) P p r))"
  by (simp_all add: Host_OnAckReceived_def Host_OnPingAckReceived_def Host_OnLinkAckReceived_def fresh_moves
      Link_ProcessAckedPacket_def Remote_link_hooks_def Remote_OnAckedPacketReceived_def Remote_OnCryptoStartReceived_def
      Let_def case_prod_unfold)

text \<open>An end in stage \<open>stage\<close> of linking.\<close>

definition linking_at :: "u8 \<Rightarrow> 'a LoLaLinkService_scheme \<Rightarrow> bool" where
  "linking_at stage s \<longleftrightarrow> GetLinkState s = Linking \<and> LinkingState s = stage \<and> InfoHasDriver (LinkInfo s) \<and>
     length (Raw (Packet s)) = LOLA_LINK_SERVICE_PACKET_MAX_SIZE"

definition host_entered :: "platform \<Rightarrow> 'a LoLaLinkHostService_scheme \<Rightarrow> bool" where
  "host_entered P h \<longleftrightarrow> host_fresh h \<and> LinkStateStart h = millis_now P \<and> linking_at LinkingInfoSyncStage h \<and> InfoSyncStage h = Host_AwaitingLatencyMeasurement \<and>
     LastSentMillis h = ILOLA_INVALID_MILLIS"

definition remote_entered :: "platform \<Rightarrow> u32 \<Rightarrow> 'a LoLaLinkRemoteService_scheme \<Rightarrow> bool" where
  "remote_entered P i r \<longleftrightarrow> remote_fresh r \<and> LinkStateStart r = millis_now P \<and> linking_at LinkingInfoSyncStage r \<and> InfoSyncStage r = Remote_AwaitingHostRequest \<and>
     LastSentMillis r = ILOLA_INVALID_MILLIS \<and> known_id i r"

lemma host_enters:
  assumes "awake LOLA_LINK_SERVICE_UNLINK_HOST_MAX_BEFORE_SLEEP P s"
    and "stage_at B i pub priv Host_LinkingSwitchOver session remoteId s"
    and "EncoderState (CryptoEncoder (drv s)) = AllReady" and "host_fresh s"
  shows "host_entered P (Host_OnService N P s)"
proof -
  have s: "LinkingState s = Host_LinkingSwitchOver" "GetLinkState s = AwaitingLink"
    "length (Raw (Packet s)) = LOLA_LINK_SERVICE_PACKET_MAX_SIZE" using assms(2) by (simp_all add: stage_at_def pairing_def)
  note w = host_switches [OF assms(1-3), of N]
  have t: "Host_OnService N P s = Host_UpdateLinkState N P Linking s"
    using host_awake [OF assms(1)] s(1) by (simp add: Host_OnAwaitingLink_def lola_consts)
  have e: "Encoder_SetEnabled (CryptoEncoder (drv s)) = (True, (CryptoEncoder (drv s))\<lparr>EncoderState := FullPower\<rparr>)"
    using assms(3) by (simp add: Encoder_SetEnabled_def)
  have "LinkStateStart (Host_OnService N P s) = millis_now P" "InfoSyncStage (Host_OnService N P s) = Host_AwaitingLatencyMeasurement"
    "LastSentMillis (Host_OnService N P s) = ILOLA_INVALID_MILLIS"
    "length (Raw (Packet (Host_OnService N P s))) = LOLA_LINK_SERVICE_PACKET_MAX_SIZE"
    using s e by (simp_all add: t Link_UpdateLinkState_def Link_ChangeState_def Link_EnterState_def Let_def Host_state_hooks_def
        Host_OnLinkStateChanged_def link_op_defs)
  then show ?thesis
    using host_fresh_service [OF assms(1,4), of N] w by (simp add: host_entered_def linking_at_def linking_with_def host_fresh_def)
qed

lemma remote_enters:
  assumes "awake LOLA_LINK_SERVICE_UNLINK_REMOTE_MAX_BEFORE_SLEEP P s"
    and "stage_at B i pub priv Remote_LinkingSwitchOver session hostId s"
    and "EncoderState (CryptoEncoder (drv s)) = AllReady" and "remote_fresh s"
  shows "remote_entered P i (Remote_OnService N P s)"
proof -
  have s: "LinkingState s = Remote_LinkingSwitchOver" "GetLinkState s = AwaitingLink" "known_id i s"
    "length (Raw (Packet s)) = LOLA_LINK_SERVICE_PACKET_MAX_SIZE" using assms(2) by (simp_all add: stage_at_def pairing_def)
  note w = remote_switches [OF assms(1-3), of N]
  have t: "Remote_OnService N P s = Remote_UpdateLinkState N P Linking s"
    using remote_awake [OF assms(1)] s(1) by (simp add: Remote_OnAwaitingLink_def lola_consts)
  have e: "Encoder_SetEnabled (CryptoEncoder (drv s)) = (True, (CryptoEncoder (drv s))\<lparr>EncoderState := FullPower\<rparr>)"
    using assms(3) by (simp add: Encoder_SetEnabled_def)
  have "LinkStateStart (Remote_OnService N P s) = millis_now P" "InfoSyncStage (Remote_OnService N P s) = Remote_AwaitingHostRequest"
    "LastSentMillis (Remote_OnService N P s) = ILOLA_INVALID_MILLIS" "known_id i (Remote_OnService N P s)"
    "length (Raw (Packet (Remote_OnService N P s))) = LOLA_LINK_SERVICE_PACKET_MAX_SIZE"
    using s e by (simp_all add: t Link_UpdateLinkState_def Link_ChangeState_def Link_EnterState_def Let_def Remote_state_hooks_def
        Remote_OnLinkStateChanged_def link_op_defs known_id_def LinkInfo_UpdateState_def)
  then show ?thesis
    using remote_fresh_service [OF assms(1,4), of N] w
    by (simp add: remote_entered_def linking_at_def linking_with_def remote_fresh_def)
qed

section \<open>The exchange\<close>

text \<open>
  The messages in the order of the protocol: each line is one handler of one end, run on the packet
  the other end has in its output buffer. \<open>ph\<close> and \<open>pr\<close> are the platforms of the two boards at
  the successive steps.
\<close>

definition exchange_open ::
  "(platform \<Rightarrow> bool \<Rightarrow> 'a LoLaLinkHostService_scheme \<Rightarrow> 'a LoLaLinkHostService_scheme) \<Rightarrow>
   (platform \<Rightarrow> bool \<Rightarrow> 'b LoLaLinkRemoteService_scheme \<Rightarrow> 'b LoLaLinkRemoteService_scheme) \<Rightarrow>
   (nat \<Rightarrow> platform) \<Rightarrow> (nat \<Rightarrow> platform) \<Rightarrow> 'a LoLaLinkHostService_scheme \<Rightarrow> 'b LoLaLinkRemoteService_scheme \<Rightarrow>
   'a LoLaLinkHostService_scheme \<times> 'b LoLaLinkRemoteService_scheme" where
  "exchange_open N N' ph pr h0 r0 =
     (let h1 = Host_OnService N (ph 0) h0;
          r1 = snd (Link_ProcessPacket (Remote_link_hooks N') (pr 0) (Packet h1) r0);
          r2 = Remote_OnService N' (pr 1) r1;
          r3 = Remote_OnService N' (pr 2) r2;
          h2 = snd (Link_ProcessPacket (Host_link_hooks N) (ph 1) (Packet r3) h1);
          h3 = Host_OnService N (ph 2) h2
      in (h3, r3))"

definition exchange_derive ::
  "(platform \<Rightarrow> bool \<Rightarrow> 'a LoLaLinkHostService_scheme \<Rightarrow> 'a LoLaLinkHostService_scheme) \<Rightarrow>
   (platform \<Rightarrow> bool \<Rightarrow> 'b LoLaLinkRemoteService_scheme \<Rightarrow> 'b LoLaLinkRemoteService_scheme) \<Rightarrow>
   (nat \<Rightarrow> platform) \<Rightarrow> (nat \<Rightarrow> platform) \<Rightarrow> 'a LoLaLinkHostService_scheme \<Rightarrow> 'b LoLaLinkRemoteService_scheme \<Rightarrow>
   'a LoLaLinkHostService_scheme \<times> 'b LoLaLinkRemoteService_scheme" where
  "exchange_derive N N' ph pr h3 r3 =
     (let h4 = Host_OnService N (ph 3) h3;
          r4 = snd (Link_ProcessPacket (Remote_link_hooks N') (pr 3) (Packet h4) r3);
          r5 = Remote_OnService N' (pr 4) r4;
          r6 = Remote_OnService N' (pr 5) r5;
          h5 = snd (Link_ProcessPacket (Host_link_hooks N) (ph 4) (Packet r6) h4);
          h6 = Host_OnService N (ph 5) h5
      in (h6, r6))"

definition exchange_finish ::
  "(platform \<Rightarrow> bool \<Rightarrow> 'a LoLaLinkHostService_scheme \<Rightarrow> 'a LoLaLinkHostService_scheme) \<Rightarrow>
   (platform \<Rightarrow> bool \<Rightarrow> 'b LoLaLinkRemoteService_scheme \<Rightarrow> 'b LoLaLinkRemoteService_scheme) \<Rightarrow>
   (nat \<Rightarrow> platform) \<Rightarrow> (nat \<Rightarrow> platform) \<Rightarrow> 'a LoLaLinkHostService_scheme \<Rightarrow> 'b LoLaLinkRemoteService_scheme \<Rightarrow>
   bool \<times> 'a LoLaLinkHostService_scheme \<times> 'b LoLaLinkRemoteService_scheme" where
  "exchange_finish N N' ph pr h6 r6 =
     (let h7 = Host_OnService N (ph 6) h6;
          (acked, r7) = Link_ProcessAckedPacket (Remote_link_hooks N') (pr 6) (Packet h7) r6;
          h8 = (if acked then Host_OnAckReceived (ph 7) (LoLaPacket_GetDataHeader (Packet h7)) (LoLaPacket_GetId (Packet h7)) h7
                else h7)
      in (acked, Host_OnService N (ph 8) h8, Remote_OnService N' (pr 7) r7))"

definition handshake ::
  "(platform \<Rightarrow> bool \<Rightarrow> 'a LoLaLinkHostService_scheme \<Rightarrow> 'a LoLaLinkHostService_scheme) \<Rightarrow>
   (platform \<Rightarrow> bool \<Rightarrow> 'b LoLaLinkRemoteService_scheme \<Rightarrow> 'b LoLaLinkRemoteService_scheme) \<Rightarrow>
   (nat \<Rightarrow> platform) \<Rightarrow> (nat \<Rightarrow> platform) \<Rightarrow> 'a LoLaLinkHostService_scheme \<Rightarrow> 'b LoLaLinkRemoteService_scheme \<Rightarrow>
   bool \<times> 'a LoLaLinkHostService_scheme \<times> 'b LoLaLinkRemoteService_scheme" where
  "handshake N N' ph pr h0 r0 =
     (let (h3, r3) = exchange_open N N' ph pr h0 r0; (h6, r6) = exchange_derive N N' ph pr h3 r3
      in exchange_finish N N' ph pr h6 r6)"

definition libraries_ok :: "platform \<Rightarrow> bool" where
  "libraries_ok B \<longleftrightarrow> hash_ok B \<and> cypher_ok B \<and> cypher_accepts B \<and>
     (\<forall>pub priv k. ecc_shared_secret B pub priv = Some k \<longrightarrow> length k = KEY_CURVE_SIZE)"

definition in_time :: "u32 \<Rightarrow> (nat \<Rightarrow> platform) \<Rightarrow> 'a LoLaLinkService_scheme \<Rightarrow> bool" where
  "in_time bound ps s \<longleftrightarrow> (\<forall>n. awake bound (ps n) s) \<and>
     (\<forall>m n. m \<le> n \<longrightarrow> millis_now (ps n) - millis_now (ps m) \<le> LOLA_LINK_SERVICE_UNLINK_MAX_BEFORE_PKC_CANCEL)"

lemma in_time_awake: "in_time b ps s \<Longrightarrow> same_timers s t \<Longrightarrow> awake b (ps n) t"
  by (simp add: in_time_def same_timers_awake)

lemma in_time_cancel: "in_time b ps s \<Longrightarrow> m \<le> n \<Longrightarrow> u = millis_now (ps m) \<Longrightarrow>
    millis_now (ps n) - u \<le> LOLA_LINK_SERVICE_UNLINK_MAX_BEFORE_PKC_CANCEL"
  by (simp add: in_time_def)

lemma packet_only_stage: "packet_only i s t \<Longrightarrow> stage_at B i pub priv st x p s \<Longrightarrow> stage_at B i pub priv st x p t"
  by (simp add: stage_at_def packet_only_pairing) (simp add: packet_only_def)

lemma packet_only_encoder:
  "packet_only i s t \<Longrightarrow> IVHolder (CryptoEncoder (drv t)) = IVHolder (CryptoEncoder (drv s))"
  "packet_only i s t \<Longrightarrow> keyed_for B x h r k (CryptoEncoder (drv s)) \<Longrightarrow> keyed_for B x h r k (CryptoEncoder (drv t))"
  by (auto simp: packet_only_def)

lemma keyed_for_same:
  assumes "keyed_for B x h r k a" and "keyed_for B x h r k b"
  shows "same_crypto (a\<lparr>EncoderState := FullPower\<rparr>) (b\<lparr>EncoderState := FullPower\<rparr>)"
    and "TokenSeed a = TokenSeed b" and "Hasher a = Hasher b" and "KeyHolder a = take KeySize k"
  using assms by (simp_all add: keyed_for_def same_crypto_def Let_def)

definition host_ready :: "platform \<Rightarrow> (nat \<Rightarrow> platform) \<Rightarrow> u32 \<Rightarrow> u8 list \<Rightarrow> u8 list \<Rightarrow> 'a LoLaLinkHostService_scheme \<Rightarrow> bool" where
  "host_ready B ph i pub priv h \<longleftrightarrow> pairing B i pub priv h \<and> LinkingState h = Host_BroadcastingOpenSession \<and>
     PairingStage (KeyExchanger h) = StageLocalKey \<and> in_time LOLA_LINK_SERVICE_UNLINK_HOST_MAX_BEFORE_SLEEP ph h \<and>
     LOLA_LINK_SERVICE_UNLINK_BROADCAST_PERIOD < Link_GetElapsedMillisSinceLastSent (ph 0) h \<and>
     random_ok (ph 0) \<and> (\<forall>n. board B i (ph n))"

definition remote_ready :: "platform \<Rightarrow> (nat \<Rightarrow> platform) \<Rightarrow> u32 \<Rightarrow> u8 list \<Rightarrow> u8 list \<Rightarrow> 'a LoLaLinkRemoteService_scheme \<Rightarrow> bool" where
  "remote_ready B pr i pub priv r \<longleftrightarrow> pairing B i pub priv r \<and> LinkingState r = Remote_SearchingForHost \<and>
     PairingStage (KeyExchanger r) = StageLocalKey \<and> in_time LOLA_LINK_SERVICE_UNLINK_REMOTE_MAX_BEFORE_SLEEP pr r \<and>
     \<not> LinkInfo_HasSession (LinkInfo r) \<and> (\<forall>n. board B i (pr n))"

text \<open>The first half: the remote has answered the broadcast and both ends have the IV of the session.\<close>

lemma exchange_opens:
  assumes "hash_ok B" and H: "host_ready B ph hid pubH privH h0" and R: "remote_ready B pr rid pubR privR r0"
    and e: "exchange_open N N' ph pr h0 r0 = (h3, r3)"
  obtains x where "x \<noteq> INVALID_SESSION"
    and "stage_at B hid pubH privH Host_SendingPublicKey x rid h3" and "same_timers h0 h3"
    and "KeyExchanger h3 = KeyExchanger h0" and "IVHolder (CryptoEncoder (drv h3)) = iv_of B (ucast x) hid rid"
    and "LastSentMillis h3 = ILOLA_INVALID_MILLIS" and "SubStateStart h3 = millis_now (ph 2)"
    and "stage_at B rid pubR privR Remote_AwaitingHostPublicKey x hid r3" and "same_timers r0 r3"
    and "KeyExchanger r3 = KeyExchanger r0" and "IVHolder (CryptoEncoder (drv r3)) = iv_of B (ucast x) hid rid"
    and "SubStateStart r3 = millis_now (pr 1)" and "host_fresh h0 \<longrightarrow> host_fresh h3" and "remote_fresh r0 \<longrightarrow> remote_fresh r3"
proof -
  define h1 where h1: "h1 = Host_OnService N (ph 0) h0"
  define r1 where r1: "r1 = snd (Link_ProcessPacket (Remote_link_hooks N') (pr 0) (Packet h1) r0)"
  define r2 where r2: "r2 = Remote_OnService N' (pr 1) r1"
  define h2 where h2: "h2 = snd (Link_ProcessPacket (Host_link_hooks N) (ph 1) (Packet r3) h1)"
  have r3: "r3 = Remote_OnService N' (pr 2) r2" and h3: "h3 = Host_OnService N (ph 2) h2"
    using e by (auto simp: exchange_open_def Let_def h1 r1 r2 h2)
  note H = H [unfolded host_ready_def] and R = R [unfolded remote_ready_def]
  have bh: "board B hid (ph n)" "local_id (ph n) = hid" and br: "board B rid (pr n)" "local_id (pr n) = rid" for n
    using H R by (simp_all add: board_def)
  have th: "in_time LOLA_LINK_SERVICE_UNLINK_HOST_MAX_BEFORE_SLEEP ph h0"
    and tr: "in_time LOLA_LINK_SERVICE_UNLINK_REMOTE_MAX_BEFORE_SLEEP pr r0" using H R by blast+
  have hh: "pairing B hid pubH privH h0" "LinkingState h0 = Host_BroadcastingOpenSession"
    "PairingStage (KeyExchanger h0) = StageLocalKey" "random_ok (ph 0)"
    "LOLA_LINK_SERVICE_UNLINK_BROADCAST_PERIOD < Link_GetElapsedMillisSinceLastSent (ph 0) h0" using H by blast+
  define x where "x = SessionId (LinkInfo h1)"
  have H1: "pairing B hid pubH privH h1" "same_timers h0 h1" "LinkingState h1 = Host_BroadcastingOpenSession"
      "KeyExchanger h1 = KeyExchanger h0" "x \<noteq> INVALID_SESSION"
      "\<exists>p. length (Raw p) = LOLA_LINK_SERVICE_PACKET_MAX_SIZE \<and> Packet h1 = short_packet x LOLA_LINK_SUBHEADER_HOST_ID_BROADCAST hid p"
    unfolding x_def h1
    by (rule host_broadcasts [where N = N, OF in_time_awake [OF th same_timers_refl] hh(1-4) bh(2) hh(5)])+
  then obtain p where p: "length (Raw p) = LOLA_LINK_SERVICE_PACKET_MAX_SIZE"
      "Packet h1 = short_packet x LOLA_LINK_SUBHEADER_HOST_ID_BROADCAST hid p" by blast
  note R1 = remote_hears_broadcast [OF _ _ _ H1(5) p(1) r1 [unfolded p(2)], of B rid pubR privR]
  have R1: "stage_at B rid pubR privR Remote_ValidatingPartner x hid r1" "same_timers r0 r1" "KeyExchanger r1 = KeyExchanger r0"
    using R1 R by blast+
  note R2 = remote_validates [OF in_time_awake [OF tr R1(2)] br(1) assms(1) R1(1) r2]
  have R2t: "same_timers r0 r2" by (rule same_timers_trans [OF R1(2) R2(2)])
  note R3 = remote_requests_key [OF in_time_awake [OF tr R2t] br(2) R2(1) r3 R2(5) in_time_cancel [OF tr _ R2(6)], simplified]
  have R3k: "same_timers r2 r3" "KeyExchanger r3 = KeyExchanger r2" "SubStateStart r3 = SubStateStart r2"
    using R3(1) by (simp_all add: packet_only_def)
  obtain q where q: "length (Raw q) = LOLA_LINK_SERVICE_PACKET_MAX_SIZE"
      "Packet r3 = short_packet x LOLA_LINK_SUBHEADER_REMOTE_PKC_START_REQUEST rid q" using R3(2) by blast
  have s1: "stage_at B hid pubH privH Host_BroadcastingOpenSession x (PartnerId (LinkInfo h1)) h1"
    using H1 by (simp add: stage_at_def x_def)
  note H2 = host_hears_request [OF s1 H1(5) q(1) h2 [unfolded q(2)]]
  have H2t: "same_timers h0 h2" by (rule same_timers_trans [OF H1(2) H2(2)])
  note H3 = host_validates [OF in_time_awake [OF th H2t] bh(1) assms(1) H2(1) h3]
  have fh: "host_fresh h3" if "host_fresh h0"
    unfolding h3 by (rule host_fresh_service [OF in_time_awake [OF th H2t]])
      (use H1(1) host_fresh_service [OF in_time_awake [OF th same_timers_refl] that] in
        \<open>simp add: h2 h1 host_fresh_hears pairing_def\<close>)
  have fr: "remote_fresh r3" if "remote_fresh r0"
    unfolding r3 by (rule remote_fresh_service [OF in_time_awake [OF tr R2t]])
      (use R that remote_fresh_service [OF in_time_awake [OF tr R1(2)]] in
        \<open>simp add: r2 r1 remote_fresh_hears pairing_def\<close>)
  show ?thesis
    by (rule that [of x])
       (use fh fr H1 H2 H3 H2t R1 R2 R2t R3k packet_only_stage [OF R3(1) R2(1)] packet_only_encoder(1) [OF R3(1)] in
         \<open>simp_all add: same_timers_def\<close>)
qed

text \<open>The second half: the public keys cross and both ends derive the secret.\<close>

lemma ecc_ok_keys:
  assumes "ecc_ok B pubH privH pubR privR" and "ecc_shared_secret B pubR privH = Some key"
  shows "length (ecc_compress B pubH) = KEY_CURVE_SIZE + 1" and "length (ecc_compress B pubR) = KEY_CURVE_SIZE + 1"
    and "ecc_decompress B (ecc_compress B pubH) = pubH" and "ecc_decompress B (ecc_compress B pubR) = pubR"
    and "ecc_shared_secret B pubH privR = Some key"
  using assms by (simp_all add: ecc_ok_def ecc_keypair_def KEY_CURVE_SIZE_def)

lemma host_gives_key:
  assumes "awake LOLA_LINK_SERVICE_UNLINK_HOST_MAX_BEFORE_SLEEP P s" and "local_id P = i"
    and "stage_at B i pub priv Host_SendingPublicKey x partner s" and "PairingStage (KeyExchanger s) = StageLocalKey"
    and "LastSentMillis s = ILOLA_INVALID_MILLIS" and "length (ecc_compress B pub) = KEY_CURVE_SIZE + 1"
    and "millis_now P - SubStateStart s \<le> LOLA_LINK_SERVICE_UNLINK_MAX_BEFORE_PKC_CANCEL"
    and t: "t = Host_OnService N P s"
  shows "packet_only i s t" and "\<exists>p. length (Raw p) = LOLA_LINK_SERVICE_PACKET_MAX_SIZE \<and>
    Packet t = long_packet x LOLA_LINK_SUBHEADER_HOST_PUBLIC_KEY (ecc_compress B pub) p"
proof -
  have s: "pairing B i pub priv s" "SessionId (LinkInfo s) = x" "LinkingState s = Host_SendingPublicKey"
    using assms(3) by (simp_all add: stage_at_def)
  note sends = host_sends_key [OF assms(1) s(3) assms(7)]
  show "packet_only i s t" "\<exists>p. length (Raw p) = LOLA_LINK_SERVICE_PACKET_MAX_SIZE \<and>
      Packet t = long_packet x LOLA_LINK_SUBHEADER_HOST_PUBLIC_KEY (ecc_compress B pub) p"
    using public_key_packet [OF s(1,2) assms(5) _ assms(6) trans [OF t sends] assms(2)] assms(4) by simp_all
qed

lemma remote_takes_key:
  assumes lib: "libraries_ok B" and br: "\<And>n. board B rid (pr n)"
    and tr: "in_time LOLA_LINK_SERVICE_UNLINK_REMOTE_MAX_BEFORE_SLEEP pr r0"
    and ecc: "ecc_ok B pubH privH pubR privR" and secret: "ecc_shared_secret B pubR privH = Some key"
    and id: "hid \<noteq> 0" and x: "x \<noteq> INVALID_SESSION"
    and R3: "stage_at B rid pubR privR Remote_AwaitingHostPublicKey x hid r3" "same_timers r0 r3"
      "PairingStage (KeyExchanger r3) = StageLocalKey" "IVHolder (CryptoEncoder (drv r3)) = iv_of B (ucast x) hid rid"
      "SubStateStart r3 = millis_now (pr 1)"
    and p: "length (Raw p) = LOLA_LINK_SERVICE_PACKET_MAX_SIZE"
    and r4: "r4 = snd (Link_ProcessPacket (Remote_link_hooks N') (pr 3)
      (long_packet x LOLA_LINK_SUBHEADER_HOST_PUBLIC_KEY (ecc_compress B pubH) p) r3)"
    and r5: "r5 = Remote_OnService N' (pr 4) r4" and r6: "r6 = Remote_OnService N' (pr 5) r5"
  shows "stage_at B rid pubR privR Remote_SendingPublicKey x hid r6" and "same_timers r0 r6"
    and "keyed_for B x hid rid key (CryptoEncoder (drv r6))"
    and "\<exists>q. length (Raw q) = LOLA_LINK_SERVICE_PACKET_MAX_SIZE \<and>
      Packet r6 = long_packet x LOLA_LINK_SUBHEADER_REMOTE_PUBLIC_KEY (ecc_compress B pubR) q"
    and "remote_fresh r3 \<Longrightarrow> remote_fresh r6"
proof -
  have libs: "hash_ok B" "cypher_accepts B" "length key = KEY_CURVE_SIZE" "local_id (pr 5) = rid"
    using lib secret br by (simp_all add: libraries_ok_def board_def)
  note keys = ecc_ok_keys [OF ecc secret]
  note R4 = remote_hears_key [OF R3(1) x id R3(3) p keys(1) r4]
  have R4t: "same_timers r0 r4" by (rule same_timers_trans [OF R3(2) R4(2)])
  note R5 = remote_derives [OF in_time_awake [OF tr R4t] br libs(1,2) R4(1) _ _ libs(3) _ r5]
  have R5: "stage_at B rid pubR privR Remote_SendingPublicKey x hid r5" "same_timers r4 r5"
      "PairingStage (KeyExchanger r5) = StageSharedKey" "keyed_for B x hid rid key (CryptoEncoder (drv r5))"
      "LastSentMillis r5 = ILOLA_INVALID_MILLIS" "SubStateStart r5 = millis_now (pr 1)"
    using R5 R4(3-5) R3(4,5) keys(3,5) by simp_all
  have R5t: "same_timers r0 r5" by (rule same_timers_trans [OF R4t R5(2)])
  have s: "pairing B rid pubR privR r5" "SessionId (LinkInfo r5) = x" "LinkingState r5 = Remote_SendingPublicKey"
    using R5(1) by (simp_all add: stage_at_def)
  note sends = remote_sends_key [OF in_time_awake [OF tr R5t] s(3) in_time_cancel [OF tr _ R5(6)]]
  note R6 = public_key_packet [OF s(1,2) R5(5) _ keys(2) trans [OF r6 sends] libs(4)]
  show "remote_fresh r6" if "remote_fresh r3"
    unfolding r6 by (rule remote_fresh_service [OF in_time_awake [OF tr R5t]], unfold r5,
      rule remote_fresh_service [OF in_time_awake [OF tr R4t]], unfold r4)
      (use R3(1) that in \<open>simp add: remote_fresh_hears stage_at_def pairing_def\<close>)
  show "stage_at B rid pubR privR Remote_SendingPublicKey x hid r6" "same_timers r0 r6"
    "keyed_for B x hid rid key (CryptoEncoder (drv r6))"
    "\<exists>q. length (Raw q) = LOLA_LINK_SERVICE_PACKET_MAX_SIZE \<and>
      Packet r6 = long_packet x LOLA_LINK_SUBHEADER_REMOTE_PUBLIC_KEY (ecc_compress B pubR) q"
    using R6 R5 R5t packet_only_stage [OF _ R5(1)] packet_only_encoder(2) [OF _ R5(4)]
    by (auto simp: packet_only_def same_timers_def)
qed

lemma exchange_keys:
  assumes lib: "libraries_ok B" and bh: "\<And>n. board B hid (ph n)" and br: "\<And>n. board B rid (pr n)"
    and th: "in_time LOLA_LINK_SERVICE_UNLINK_HOST_MAX_BEFORE_SLEEP ph h0"
    and tr: "in_time LOLA_LINK_SERVICE_UNLINK_REMOTE_MAX_BEFORE_SLEEP pr r0"
    and ecc: "ecc_ok B pubH privH pubR privR" and secret: "ecc_shared_secret B pubR privH = Some key"
    and id: "hid \<noteq> 0" and x: "x \<noteq> INVALID_SESSION"
    and H3: "stage_at B hid pubH privH Host_SendingPublicKey x rid h3" "same_timers h0 h3"
      "PairingStage (KeyExchanger h3) = StageLocalKey" "IVHolder (CryptoEncoder (drv h3)) = iv_of B (ucast x) hid rid"
      "LastSentMillis h3 = ILOLA_INVALID_MILLIS" "SubStateStart h3 = millis_now (ph 2)"
    and R3: "stage_at B rid pubR privR Remote_AwaitingHostPublicKey x hid r3" "same_timers r0 r3"
      "PairingStage (KeyExchanger r3) = StageLocalKey" "IVHolder (CryptoEncoder (drv r3)) = iv_of B (ucast x) hid rid"
      "SubStateStart r3 = millis_now (pr 1)"
    and e: "exchange_derive N N' ph pr h3 r3 = (h6, r6)"
  shows "stage_at B hid pubH privH Host_GotSharedKey x rid h6" and "same_timers h0 h6"
    and "keyed_for B x hid rid key (CryptoEncoder (drv h6))"
    and "LastSentMillis h6 = ILOLA_INVALID_MILLIS" and "SubStateStart h6 = millis_now (ph 2)"
    and "stage_at B rid pubR privR Remote_SendingPublicKey x hid r6" and "same_timers r0 r6"
    and "keyed_for B x hid rid key (CryptoEncoder (drv r6))"
    and "host_fresh h3 \<Longrightarrow> host_fresh h6" and "remote_fresh r3 \<Longrightarrow> remote_fresh r6"
proof -
  define h4 where h4: "h4 = Host_OnService N (ph 3) h3"
  define h5 where h5: "h5 = snd (Link_ProcessPacket (Host_link_hooks N) (ph 4) (Packet r6) h4)"
  have r6: "r6 = Remote_OnService N' (pr 5) (Remote_OnService N' (pr 4)
      (snd (Link_ProcessPacket (Remote_link_hooks N') (pr 3) (Packet h4) r3)))" and h6: "h6 = Host_OnService N (ph 5) h5"
    using e by (auto simp: exchange_derive_def Let_def h4 h5)
  have libs: "hash_ok B" "cypher_accepts B" "length key = KEY_CURVE_SIZE" "local_id (ph 3) = hid"
    using lib secret bh by (simp_all add: libraries_ok_def board_def)
  note keys = ecc_ok_keys [OF ecc secret]
  note H4 = host_gives_key [OF in_time_awake [OF th H3(2)] libs(4) H3(1,3,5) keys(1) in_time_cancel [OF th _ H3(6)] h4, simplified]
  have h4k: "same_timers h0 h4" "KeyExchanger h4 = KeyExchanger h3" "SubStateStart h4 = SubStateStart h3"
    using H4(1) H3(2) by (simp_all add: packet_only_def same_timers_def)
  obtain p where p: "length (Raw p) = LOLA_LINK_SERVICE_PACKET_MAX_SIZE"
      "Packet h4 = long_packet x LOLA_LINK_SUBHEADER_HOST_PUBLIC_KEY (ecc_compress B pubH) p" using H4(2) by blast
  note R6 = remote_takes_key [OF lib br tr ecc secret id x R3 p(1) refl refl r6 [unfolded p(2)]]
  obtain q where q: "length (Raw q) = LOLA_LINK_SERVICE_PACKET_MAX_SIZE"
      "Packet r6 = long_packet x LOLA_LINK_SUBHEADER_REMOTE_PUBLIC_KEY (ecc_compress B pubR) q" using R6(4) by blast
  note H5 = host_hears_key [OF packet_only_stage [OF H4(1) H3(1)] x _ q(1) keys(2) h5 [unfolded q(2)]]
  have H5: "stage_at B hid pubH privH Host_ProcessingPKC x rid h5" "same_timers h4 h5"
      "KeyExchanger h5 = partner_key (ecc_compress B pubR) (KeyExchanger h4)" "CryptoEncoder (drv h5) = CryptoEncoder (drv h4)"
      "SubStateStart h5 = SubStateStart h4"
    using H5 H3(3) h4k(2) by simp_all
  have H5t: "same_timers h0 h5" by (rule same_timers_trans [OF h4k(1) H5(2)])
  note H6 = host_derives [OF in_time_awake [OF th H5t] bh libs(1,2) H5(1) _ _ libs(3) _ h6]
  have H6: "stage_at B hid pubH privH Host_GotSharedKey x rid h6" "same_timers h5 h6"
      "keyed_for B x hid rid key (CryptoEncoder (drv h6))" "LastSentMillis h6 = ILOLA_INVALID_MILLIS"
      "SubStateStart h6 = SubStateStart h5"
    using H6 H5(3,4) packet_only_encoder(1) [OF H4(1)] H3(4) keys(4) secret by simp_all
  show "host_fresh h6" if "host_fresh h3"
    unfolding h6 by (rule host_fresh_service [OF in_time_awake [OF th H5t]], unfold h5, rule host_fresh_hears)
      (use packet_only_stage [OF H4(1) H3(1)] host_fresh_service [OF in_time_awake [OF th H3(2)] that] in
        \<open>simp_all add: h4 stage_at_def pairing_def\<close>)
  show "stage_at B hid pubH privH Host_GotSharedKey x rid h6" "same_timers h0 h6"
    "keyed_for B x hid rid key (CryptoEncoder (drv h6))" "LastSentMillis h6 = ILOLA_INVALID_MILLIS"
    "SubStateStart h6 = millis_now (ph 2)"
    using H6 H5(5) h4k(3) H3(6) same_timers_trans [OF H5t H6(2)] by simp_all
  show "stage_at B rid pubR privR Remote_SendingPublicKey x hid r6" "same_timers r0 r6"
    "keyed_for B x hid rid key (CryptoEncoder (drv r6))" by (rule R6)+
  show "remote_fresh r6" if "remote_fresh r3" by (rule R6(5) [OF that])
qed

definition linking_together :: "u32 \<Rightarrow> u32 \<Rightarrow> 'a LoLaLinkHostService_scheme \<Rightarrow> 'b LoLaLinkRemoteService_scheme \<Rightarrow> bool" where
  "linking_together hostId remoteId h r \<longleftrightarrow> GetLinkState h = Linking \<and> GetLinkState r = Linking \<and>
     SessionId (LinkInfo h) = SessionId (LinkInfo r) \<and> SessionId (LinkInfo h) \<noteq> INVALID_SESSION \<and>
     PartnerId (LinkInfo h) = remoteId \<and> PartnerId (LinkInfo r) = hostId \<and>
     EncoderState (CryptoEncoder (drv h)) = FullPower \<and> same_crypto (CryptoEncoder (drv h)) (CryptoEncoder (drv r)) \<and>
     Hasher (CryptoEncoder (drv h)) = Hasher (CryptoEncoder (drv r)) \<and>
     TOTPSeed (CryptoSeed (TimedHopper h)) = TOTPSeed (CryptoSeed (TimedHopper r))"

lemma linking_with_together:
  assumes "linking_with x rid a h" and "linking_with x hid b r" and "x \<noteq> INVALID_SESSION"
    and "keyed_for B x hid rid k a" and "keyed_for B x hid rid k b"
  shows "linking_together hid rid h r"
  using assms(1-3) keyed_for_same [OF assms(4,5)] by (simp add: linking_with_def linking_together_def)

text \<open>The end: challenge, answer, acknowledgement and switch.\<close>

lemma exchange_ends:
  assumes lib: "cypher_ok B" and bh: "\<And>n. board B hid (ph n)" and br: "\<And>n. board B rid (pr n)"
    and th: "in_time LOLA_LINK_SERVICE_UNLINK_HOST_MAX_BEFORE_SLEEP ph h0"
    and tr: "in_time LOLA_LINK_SERVICE_UNLINK_REMOTE_MAX_BEFORE_SLEEP pr r0" and x: "x \<noteq> INVALID_SESSION"
    and H6: "stage_at B hid pubH privH Host_GotSharedKey x rid h6" "same_timers h0 h6"
      "keyed_for B x hid rid key (CryptoEncoder (drv h6))" "LastSentMillis h6 = ILOLA_INVALID_MILLIS"
      "SubStateStart h6 = millis_now (ph 2)"
    and R6: "stage_at B rid pubR privR Remote_SendingPublicKey x hid r6" "same_timers r0 r6"
      "keyed_for B x hid rid key (CryptoEncoder (drv r6))"
  shows "\<exists>h r. exchange_finish N N' ph pr h6 r6 = (True, h, r) \<and> linking_together hid rid h r \<and>
    (host_fresh h6 \<longrightarrow> host_entered (ph 8) h) \<and> (remote_fresh r6 \<longrightarrow> remote_entered (pr 7) rid r)"
proof -
  define h7 where "h7 = Host_OnService N (ph 6) h6"
  obtain acked r7 where r7: "(acked, r7) = Link_ProcessAckedPacket (Remote_link_hooks N') (pr 6) (Packet h7) r6"
    by (metis surj_pair)
  define h8 where "h8 = Host_OnAckReceived (ph 7) (LoLaPacket_GetDataHeader (Packet h7)) (LoLaPacket_GetId (Packet h7)) h7"
  note C = host_challenges [OF in_time_awake [OF th H6(2)] bh lib H6(1,3,4) in_time_cancel [OF th _ H6(5)] h7_def, simplified]
  have C': "stage_at B hid pubH privH Host_GotSharedKey x rid h7" "same_timers h0 h7"
    "keyed_for B x hid rid key (CryptoEncoder (drv h7))"
    using packet_only_stage [OF C(1) H6(1)] packet_only_encoder(2) [OF C(1) H6(3)] C(1) H6(2)
    by (simp_all add: packet_only_def same_timers_def)
  note A = remote_answers [OF br lib R6(1) x R6(3) C(2) r7]
  have h8: "h8 = Host_OnAckReceived (ph 7) LOLA_LINK_HEADER_SHORT_WITH_ACK x h7"
    using C(2) by (simp add: h8_def challenge_def)
  note G = host_acknowledged [OF C'(1) h8]
  have e: "EncoderState (CryptoEncoder (drv h8)) = AllReady" "EncoderState (CryptoEncoder (drv r7)) = AllReady"
    using A(4) C'(3) G(3) by (simp_all add: keyed_for_def Let_def)
  note S = host_switches [OF in_time_awake [OF th same_timers_trans [OF C'(2) G(2)]] G(1) e(1), of N 8]
    remote_switches [OF in_time_awake [OF tr same_timers_trans [OF R6(2) A(3)]] A(2) e(2), of N' 7]
  have "host_entered (ph 8) (Host_OnService N (ph 8) h8)" if "host_fresh h6"
  proof (rule host_enters [OF in_time_awake [OF th same_timers_trans [OF C'(2) G(2)]] G(1) e(1)])
    have "host_fresh h7" unfolding h7_def by (rule host_fresh_service [OF in_time_awake [OF th H6(2)] that])
    then show "host_fresh h8" using C'(1) by (simp add: h8_def fresh_acks stage_at_def pairing_def)
  qed
  moreover have "remote_entered (pr 7) rid (Remote_OnService N' (pr 7) r7)" if "remote_fresh r6"
    using R6(1) fresh_acks(2) [OF _ that] r7 [symmetric]
    by (intro remote_enters [OF in_time_awake [OF tr same_timers_trans [OF R6(2) A(3)]] A(2) e(2)])
       (metis snd_conv stage_at_def pairing_def)
  moreover have "exchange_finish N N' ph pr h6 r6 = (True, Host_OnService N (ph 8) h8, Remote_OnService N' (pr 7) r7)"
    using A(1) by (simp add: exchange_finish_def h7_def [symmetric] r7 [symmetric] h8_def [symmetric])
  ultimately show ?thesis using linking_with_together [OF S x _ A(4)] C'(3) G(3) by auto
qed

text \<open>The exchange as a whole, with what it leaves for linking.\<close>

lemma handshake_result:
  assumes "libraries_ok B" and "ecc_ok B pubH privH pubR privR"
    and "host_ready B ph hid pubH privH h0" and "remote_ready B pr rid pubR privR r0" and "hid \<noteq> 0"
  shows "\<exists>h r. handshake N N' ph pr h0 r0 = (True, h, r) \<and> linking_together hid rid h r \<and>
    (host_fresh h0 \<longrightarrow> host_entered (ph 8) h) \<and> (remote_fresh r0 \<longrightarrow> remote_entered (pr 7) rid r)"
proof -
  note H = assms(3) [unfolded host_ready_def] and R = assms(4) [unfolded remote_ready_def]
  have bh: "board B hid (ph n)" and br: "board B rid (pr n)" for n using H R by simp_all
  have th: "in_time LOLA_LINK_SERVICE_UNLINK_HOST_MAX_BEFORE_SLEEP ph h0"
    and tr: "in_time LOLA_LINK_SERVICE_UNLINK_REMOTE_MAX_BEFORE_SLEEP pr r0" using H R by blast+
  have libs: "hash_ok B" "cypher_ok B" using assms(1) by (simp_all add: libraries_ok_def)
  obtain key where key: "ecc_shared_secret B pubR privH = Some key"
    using assms(2) unfolding ecc_ok_def by (metis option.exhaust)
  obtain h3 r3 where e3: "exchange_open N N' ph pr h0 r0 = (h3, r3)" by fastforce
  obtain h6 r6 where e6: "exchange_derive N N' ph pr h3 r3 = (h6, r6)" by fastforce
  obtain x where x: "x \<noteq> INVALID_SESSION"
    and O: "stage_at B hid pubH privH Host_SendingPublicKey x rid h3" "same_timers h0 h3"
      "KeyExchanger h3 = KeyExchanger h0" "IVHolder (CryptoEncoder (drv h3)) = iv_of B (ucast x) hid rid"
      "LastSentMillis h3 = ILOLA_INVALID_MILLIS" "SubStateStart h3 = millis_now (ph 2)"
      "stage_at B rid pubR privR Remote_AwaitingHostPublicKey x hid r3" "same_timers r0 r3"
      "KeyExchanger r3 = KeyExchanger r0" "IVHolder (CryptoEncoder (drv r3)) = iv_of B (ucast x) hid rid"
      "SubStateStart r3 = millis_now (pr 1)" "host_fresh h0 \<longrightarrow> host_fresh h3" "remote_fresh r0 \<longrightarrow> remote_fresh r3"
    by (rule exchange_opens [OF libs(1) assms(3,4) e3])
  have l: "PairingStage (KeyExchanger h3) = StageLocalKey" "PairingStage (KeyExchanger r3) = StageLocalKey"
    using H R O(3,9) by simp_all
  note K = exchange_keys [OF assms(1) bh br th tr assms(2) key assms(5) x O(1,2) l(1) O(4-8) l(2) O(10,11)
e6]
  show ?thesis
    using exchange_ends [OF libs(2) bh br th tr x K(1-8), of N N'] K(9,10) O(12,13) by (auto simp: handshake_def e3 e6)
qed

text \<open>C5. The public key exchange works: when a host that offers a session and a remote that looks for
  one hear each other in time, the remote takes the challenge, and both switch to \<open>Linking\<close> with
  the same session, each knowing the other's id, encrypting under the same key, IV and token, with
  the same seed for the hopper.\<close>
theorem handshake_agrees:
  assumes "libraries_ok B" and "ecc_ok B pubH privH pubR privR"
    and "host_ready B ph hid pubH privH h0" and "remote_ready B pr rid pubR privR r0" and "hid \<noteq> 0"
  shows "\<exists>h r. handshake N N' ph pr h0 r0 = (True, h, r) \<and> linking_together hid rid h r"
  using handshake_result [OF assms, of N N'] by blast

text \<open>A host and a remote that have just started to look for each other.\<close>

definition remote_platform :: platform where
  "remote_platform = sample_platform\<lparr>chip_id := replicate 12 9, ecc_make_key := (True, 5 # replicate 39 0, 5 # replicate 20 0)\<rparr>"

definition offering_host :: LoLaLinkHostService where
  "offering_host = sample_host\<lparr>LinkInfo := LinkInfo_UpdateState AwaitingLink (LinkInfo sample_host), LinkStateStart := 0,
     KeysLastGenerated := 0, KeyExchanger := snd (KeyExchanger_GenerateNewKeyPair sample_platform KeyExchanger_new)\<rparr>"

definition searching_remote :: LoLaLinkRemoteService where
  "searching_remote = sample_remote\<lparr>LinkInfo := LinkInfo_UpdateState AwaitingLink (LinkInfo sample_remote), LinkStateStart := 0,
     KeysLastGenerated := 0, KeyExchanger := snd (KeyExchanger_GenerateNewKeyPair remote_platform KeyExchanger_new)\<rparr>"

lemma sample_boards: "board sample_platform (local_id sample_platform) sample_platform"
  "board sample_platform (local_id remote_platform) remote_platform"
  by (simp_all add: board_def remote_platform_def)

lemma sample_libraries: "libraries_ok sample_platform"
  by (auto simp: libraries_ok_def cypher_accepts_def KEY_CURVE_SIZE_def)

lemma sample_id: "local_id sample_platform \<noteq> 0"
proof -
  have "[0..<4] = [0, 1, 2, 3 :: nat]" by (simp add: upt_rec)
  then have "map (\<lambda>i. chip_id sample_platform ! i) [0..<4] = [7, 7, 7, 7]" by simp
  then show ?thesis by (simp add: local_id_chain Let_def)
qed

lemmas sample_ends = offering_host_def searching_remote_def sample_host_def sample_remote_def blank_host_def
  blank_remote_def blank_link_def Link_construct_def Send_construct_def Service_construct_def
  Service_InitializeState_def LoLaLinkService.defs

lemma awake_now:
  assumes "GetLinkState s = AwaitingLink" and "LinkStateStart s = 0" and "KeysLastGenerated s = 0" and "millis_now P = 0"
  shows "in_time bound (\<lambda>_. P) s"
  using assms by (simp add: in_time_def awake_def elapsed_since_def lola_consts)

lemma sample_host_ready: "host_ready sample_platform (\<lambda>_. sample_platform) (local_id sample_platform)
    (3 # replicate 39 0) (3 # replicate 20 0) offering_host"
proof -
  have s: "GetLinkState offering_host = AwaitingLink" "LinkStateStart offering_host = 0" "KeysLastGenerated offering_host = 0"
    "LinkingState offering_host = 0" "LastSentMillis offering_host = ILOLA_INVALID_MILLIS"
    "KeyExchanger offering_host = snd (KeyExchanger_GenerateNewKeyPair sample_platform KeyExchanger_new)"
    "LocalMacGenerator (LinkInfo offering_host) = MAC_new" "CryptoEncoder (drv offering_host) = Encoder_new"
    "Packet offering_host = LoLaPacket_ClearDefinition (LoLaPacket_new LOLA_LINK_SERVICE_PACKET_MAX_SIZE)"
    by (simp_all add: sample_ends LinkInfo_SetDriver_def LinkInfo_new_def Driver_new_def LinkInfo_UpdateState_def)
  have "LOLA_LINK_SERVICE_UNLINK_BROADCAST_PERIOD < Link_GetElapsedMillisSinceLastSent sample_platform offering_host"
    by (rule resend_now [OF s(5)]) (simp add: lola_consts)
  moreover have "pairing sample_platform (local_id sample_platform) (3 # replicate 39 0) (3 # replicate 20 0) offering_host"
    by (simp add: pairing_def known_id_def s KeyExchanger_GenerateNewKeyPair_def LoLaPacket_new_def)
       (simp add: Encoder_new_def)
  ultimately show ?thesis
    using awake_now [OF s(1-3)] sample_boards(1)
    by (simp add: host_ready_def s(4,6) Host_BroadcastingOpenSession_def KeyExchanger_GenerateNewKeyPair_def)
qed

lemma sample_remote_ready: "remote_ready sample_platform (\<lambda>_. remote_platform) (local_id remote_platform)
    (5 # replicate 39 0) (5 # replicate 20 0) searching_remote"
proof -
  have s: "GetLinkState searching_remote = AwaitingLink" "LinkStateStart searching_remote = 0"
    "KeysLastGenerated searching_remote = 0" "LinkingState searching_remote = 0"
    "KeyExchanger searching_remote = snd (KeyExchanger_GenerateNewKeyPair remote_platform KeyExchanger_new)"
    "LocalMacGenerator (LinkInfo searching_remote) = MAC_new" "CryptoEncoder (drv searching_remote) = Encoder_new"
    "Packet searching_remote = LoLaPacket_ClearDefinition (LoLaPacket_new LOLA_LINK_SERVICE_PACKET_MAX_SIZE)"
    "SessionId (LinkInfo searching_remote) = INVALID_SESSION"
    by (simp_all add: sample_ends LinkInfo_SetDriver_def LinkInfo_new_def Driver_new_def LinkInfo_UpdateState_def)
  have r: "ecc_make_key remote_platform = (True, 5 # replicate 39 0, 5 # replicate 20 0)"
    "ecc_compress remote_platform = ecc_compress sample_platform" "millis_now remote_platform = 0"
    by (simp_all add: remote_platform_def)
  have "pairing sample_platform (local_id remote_platform) (5 # replicate 39 0) (5 # replicate 20 0) searching_remote"
    by (simp add: pairing_def known_id_def s KeyExchanger_GenerateNewKeyPair_def LoLaPacket_new_def r)
       (simp add: Encoder_new_def)
  then show ?thesis
    using awake_now [OF s(1-3) r(3)] sample_boards(2)
    by (simp add: remote_ready_def s(4,5,9) Remote_SearchingForHost_def KeyExchanger_GenerateNewKeyPair_def r
        LinkInfo_HasSession_def LinkInfo_HasSessionId_def)
qed

theorem handshake_agrees_witness:
  "\<exists>h r. handshake (\<lambda>P b s. s) (\<lambda>P b s. s) (\<lambda>_. sample_platform) (\<lambda>_. remote_platform) offering_host searching_remote =
     (True, h, r) \<and> GetLinkState h = Linking \<and> GetLinkState r = Linking \<and>
     same_crypto (CryptoEncoder (drv h)) (CryptoEncoder (drv r))"
  using handshake_agrees [OF sample_libraries _ sample_host_ready sample_remote_ready sample_id,
      of "\<lambda>P b s. s" "\<lambda>P b s. s"]
  by (fastforce simp: linking_together_def ecc_ok_def ecc_keypair_def replicate_add [symmetric])

end
