(* ===== verification/Link_Faults.thy ===== *)
theory Link_Faults
  imports Handshake
begin

text \<open>
  What the link service does when something goes wrong: a partner that falls silent, a stop while
  linking, a clock that was synchronised to the wrong reading of the partner's, and a frame that is
  sent again.
\<close>

section \<open>A link that is lost\<close>

text \<open>What is left of a session that ended.\<close>

definition info_forgotten :: "LoLaLinkInfo \<Rightarrow> bool" where
  "info_forgotten i \<longleftrightarrow> \<not> PartnerIdPresent i \<and> PartnerRSSISamples i = [] \<and> PartnerReceivedCount i = 0 \<and>
     \<not> LinkInfo_HasLatency i \<and> LinkStartedSeconds i = 0 \<and> ClockSyncAdjustments i = 0"

definition session_over :: "u8 \<Rightarrow> 'a LoLaLinkService_scheme \<Rightarrow> bool" where
  "session_over newId s \<longleftrightarrow> GetLinkState s = AwaitingLink \<and> LinkingState s = 0 \<and>
     SessionId (LinkInfo s) = newId \<and> info_forgotten (LinkInfo s) \<and>
     EncoderState (CryptoEncoder (drv s)) = AllClear \<and> KeyHolder (CryptoEncoder (drv s)) = replicate KeySize 0 \<and>
     IVHolder (CryptoEncoder (drv s)) = replicate KeySize 0 \<and> TokenHolder (CryptoEncoder (drv s)) = replicate TokenSize 0 \<and>
     Encoder_GetSeed (CryptoEncoder (drv s)) = 0 \<and> TokenSource_GetSeed (CryptoSeed (TimedHopper s)) = 0 \<and>
     \<not> Driver_HasLink (drv s) \<and> \<not> KeyExchanger_IsReadyToUse (KeyExchanger s)"

lemma info_forgotten_simps [simp]:
  "info_forgotten (fst (LinkInfo_Reset i d))" "SessionId (fst (LinkInfo_Reset i d)) = INVALID_SESSION"
  "info_forgotten (LinkInfo_UpdateState st i) = info_forgotten i" "SessionId (LinkInfo_UpdateState st i) = SessionId i"
  "info_forgotten (snd (LinkInfo_SetSessionId x i)) = info_forgotten i" "SessionId (snd (LinkInfo_SetSessionId x i)) = x"
  by (simp_all add: info_forgotten_def LinkInfo_HasLatency_def LinkInfo_Reset_def LinkInfo_UpdateState_def
      LinkInfo_SetSessionId_def)

lemma seed_frames [simp]:
  "TokenSource_GetSeed (TokenSource_SetSeed y t) = y"
  "CryptoSeed (TimedHopper (on_seed g s)) = g (CryptoSeed (TimedHopper s))"
  "TimedHopper (on_drv q s) = TimedHopper s" "TimedHopper (Link_SetLinkingState x s) = TimedHopper s"
  by (simp_all add: link_op_defs TokenSource_GetSeed_def TokenSource_SetSeed_def)

lemma key_frames [simp]:
  "KeyExchanger (on_drv f s) = KeyExchanger s" "KeyExchanger (on_seed g s) = KeyExchanger s"
  "KeyExchanger (on_info_drv r s) = KeyExchanger s" "KeyExchanger (on_keys k s) = k (KeyExchanger s)"
  by (simp_all add: on_drv_def on_seed_def on_info_drv_def on_keys_def case_prod_unfold Let_def)

lemma hopper_enabled_frames [simp]:
  "HopperEnabled (TimedHopper (on_drv f s)) = HopperEnabled (TimedHopper s)"
  "HopperEnabled (TimedHopper (on_seed g s)) = HopperEnabled (TimedHopper s)"
  "HopperEnabled (TimedHopper (on_encoder e s)) = HopperEnabled (TimedHopper s)"
  "HopperEnabled (TimedHopper (on_info_drv r s)) = HopperEnabled (TimedHopper s)"
  "HopperEnabled (TimedHopper (on_info h s)) = HopperEnabled (TimedHopper s)"
  "HopperEnabled (TimedHopper (on_keys k s)) = HopperEnabled (TimedHopper s)"
  "HopperEnabled (TimedHopper (Link_SetLinkingState x s)) = HopperEnabled (TimedHopper s)"
  "HopperEnabled (TimedHopper (Service_SetNextRunASAP s)) = HopperEnabled (TimedHopper s)"
  by (simp_all add: link_op_defs on_info_drv_def case_prod_unfold Let_def)

definition session_cleared :: "'a LoLaLinkService_scheme \<Rightarrow> bool" where
  "session_cleared s \<longleftrightarrow> LinkingState s = 0 \<and>
     (\<exists>e. CryptoEncoder (drv s) = Encoder_Clear e) \<and> InfoHasDriver (LinkInfo s) \<and>
     info_forgotten (LinkInfo s) \<and> SessionId (LinkInfo s) = INVALID_SESSION \<and>
     TokenSource_GetSeed (CryptoSeed (TimedHopper s)) = 0 \<and>
     \<not> LinkActive (drv s) \<and> \<not> KeyExchanger_IsReadyToUse (KeyExchanger s)"

lemma Host_awaiting_cleared:
  "InfoHasDriver (LinkInfo s) \<Longrightarrow> session_cleared (Link_EnterState nested N Host_session_hooks Host_state_hooks P AwaitingLink s)"
  by (auto simp: session_cleared_def Link_EnterState_def Link_ClearSession_def Host_session_hooks_def Balancer_SetMaxPower_def
      case_prod_unfold Let_def KeyExchanger_ClearPartner_not_ready)

lemma Remote_awaiting_cleared:
  "InfoHasDriver (LinkInfo s) \<Longrightarrow> session_cleared (Link_EnterState nested N Remote_session_hooks Remote_state_hooks P AwaitingLink s)"
  by (auto simp: session_cleared_def Link_EnterState_def Link_ClearSession_def Remote_session_hooks_def Balancer_SetMaxPower_def
      case_prod_unfold Let_def KeyExchanger_ClearPartner_not_ready)

lemma awaiting_hopper:
  "HopperEnabled (TimedHopper (Link_EnterState nested N Host_session_hooks Host_state_hooks P AwaitingLink h)) =
     HopperEnabled (TimedHopper h)"
  "HopperEnabled (TimedHopper (Host_OnLinkStateChanged P AwaitingLink h)) = HopperEnabled (TimedHopper h)"
  "HopperEnabled (TimedHopper (Link_EnterState nested' N' Remote_session_hooks Remote_state_hooks P AwaitingLink r)) =
     HopperEnabled (TimedHopper r)"
  "HopperEnabled (TimedHopper (Remote_OnLinkStateChanged P AwaitingLink r)) = HopperEnabled (TimedHopper r)"
  by (simp_all add: Link_EnterState_def Link_ClearSession_def Host_session_hooks_def Remote_session_hooks_def
      Host_OnLinkStateChanged_def Remote_OnLinkStateChanged_def Host_NewSession_def case_prod_unfold Let_def)

lemma Host_changed_over:
  "session_cleared s \<Longrightarrow> session_over (of_int (random_between P 1 254))
     (on_info (LinkInfo_UpdateState AwaitingLink) (Host_OnLinkStateChanged P AwaitingLink s))"
  by (auto simp: session_cleared_def session_over_def Host_OnLinkStateChanged_def Host_NewSession_def Link_ClearSession_def
      Host_session_hooks_def Driver_HasLink_def KeyExchanger_ClearPartner_not_ready case_prod_unfold Let_def)
     (simp_all add: Encoder_Clear_def Encoder_GetSeed_def)

lemma Remote_changed_over:
  "session_cleared s \<Longrightarrow> session_over INVALID_SESSION
     (on_info (LinkInfo_UpdateState AwaitingLink) (Remote_OnLinkStateChanged P AwaitingLink s))"
  by (auto simp: session_cleared_def session_over_def Remote_OnLinkStateChanged_def Driver_HasLink_def
      KeyExchanger_GenerateNewKeyPair_def KeyExchanger_IsReadyToUse_def case_prod_unfold Let_def
      Encoder_Clear_def Encoder_GetSeed_def)

text \<open>The change from \<open>Linked\<close> or \<open>Linking\<close> back to \<open>AwaitingLink\<close>.\<close>

lemma Host_back_to_awaiting:
  assumes "GetLinkState s \<noteq> AwaitingLink" and "InfoHasDriver (LinkInfo s)"
    and N: "\<And>P b s. link_view (N P b s) = link_view s"
  shows "session_over (of_int (random_between P 1 254)) (Host_UpdateLinkState N P AwaitingLink s)"
    and "GetLinkState s = Linked \<Longrightarrow> (\<And>s. \<not> HopperEnabled (TimedHopper (N P False s))) \<Longrightarrow>
      \<not> HopperEnabled (TimedHopper (Host_UpdateLinkState N P AwaitingLink s))"
proof -
  have d: "InfoHasDriver (LinkInfo (N P False t)) = InfoHasDriver (LinkInfo t)" for t
    using N [of P False t] by (simp add: link_view_def)
  define t where "t = (if GetLinkState s = Linked then N P False (on_drv (Driver_OnStart P) (on_drv (Channel_ResetChannel P)
      (Host_ClearSession P (Link_ResetLastSentTimeStamp (Link_ResetStateStartTime P s)))))
    else Link_ResetLastSentTimeStamp (Link_ResetStateStartTime P s))"
  have e: "Host_UpdateLinkState N P AwaitingLink s = on_info (LinkInfo_UpdateState AwaitingLink)
      (Host_OnLinkStateChanged P AwaitingLink (Link_EnterState
        (Link_ChangeState (\<lambda>s. s) N Host_session_hooks Host_state_hooks P AwaitingLink) N
        Host_session_hooks Host_state_hooks P AwaitingLink t))"
    using assms(1) by (simp add: Link_UpdateLinkState_def Link_ChangeState_def Let_def t_def Host_state_hooks_def)
  have "InfoHasDriver (LinkInfo t)"
    using assms(2) by (simp add: t_def d Link_ClearSession_def Host_session_hooks_def case_prod_unfold Let_def)
  then show "session_over (of_int (random_between P 1 254)) (Host_UpdateLinkState N P AwaitingLink s)"
    unfolding e by (intro Host_changed_over Host_awaiting_cleared)
  show "\<not> HopperEnabled (TimedHopper (Host_UpdateLinkState N P AwaitingLink s))"
    if "GetLinkState s = Linked" "\<And>s. \<not> HopperEnabled (TimedHopper (N P False s))"
    unfolding e using that by (simp add: awaiting_hopper t_def)
qed

lemma Remote_back_to_awaiting:
  assumes "GetLinkState s \<noteq> AwaitingLink" and "InfoHasDriver (LinkInfo s)"
    and N: "\<And>P b s. link_view (N P b s) = link_view s"
  shows "session_over INVALID_SESSION (Remote_UpdateLinkState N P AwaitingLink s)"
    and "GetLinkState s = Linked \<Longrightarrow> (\<And>s. \<not> HopperEnabled (TimedHopper (N P False s))) \<Longrightarrow>
      \<not> HopperEnabled (TimedHopper (Remote_UpdateLinkState N P AwaitingLink s))"
proof -
  have d: "InfoHasDriver (LinkInfo (N P False t)) = InfoHasDriver (LinkInfo t)" for t
    using N [of P False t] by (simp add: link_view_def)
  define t where "t = (if GetLinkState s = Linked then N P False (on_drv (Driver_OnStart P) (on_drv (Channel_ResetChannel P)
      (Remote_ClearSession P (Link_ResetLastSentTimeStamp (Link_ResetStateStartTime P s)))))
    else Link_ResetLastSentTimeStamp (Link_ResetStateStartTime P s))"
  have e: "Remote_UpdateLinkState N P AwaitingLink s = on_info (LinkInfo_UpdateState AwaitingLink)
      (Remote_OnLinkStateChanged P AwaitingLink (Link_EnterState
        (Link_ChangeState (\<lambda>s. s) N Remote_session_hooks Remote_state_hooks P AwaitingLink) N
        Remote_session_hooks Remote_state_hooks P AwaitingLink t))"
    using assms(1) by (simp add: Link_UpdateLinkState_def Link_ChangeState_def Let_def t_def Remote_state_hooks_def)
  have "InfoHasDriver (LinkInfo t)"
    using assms(2) by (simp add: t_def d Link_ClearSession_def Remote_session_hooks_def case_prod_unfold Let_def)
  then show "session_over INVALID_SESSION (Remote_UpdateLinkState N P AwaitingLink s)"
    unfolding e by (intro Remote_changed_over Remote_awaiting_cleared)
  show "\<not> HopperEnabled (TimedHopper (Remote_UpdateLinkState N P AwaitingLink s))"
    if "GetLinkState s = Linked" "\<And>s. \<not> HopperEnabled (TimedHopper (N P False s))"
    unfolding e using that by (simp add: awaiting_hopper t_def)
qed

text \<open>The two time-outs of a link: 3 s without a valid packet, 200 ms of linking.\<close>

definition partner_silent :: "platform \<Rightarrow> 'a LoLaLinkService_scheme \<Rightarrow> bool" where
  "partner_silent P s \<longleftrightarrow>
     GetLinkState s = Linked \<and> LOLA_LINK_SERVICE_LINKED_MAX_BEFORE_DISCONNECT < Driver_GetElapsedMillisLastValidReceived P (drv s) \<or>
     GetLinkState s = Linking \<and> LOLA_LINK_SERVICE_UNLINK_MAX_BEFORE_LINKING_CANCEL < Link_GetElapsedMillisSinceStateStart P s"

lemma silent_service:
  assumes "partner_silent P s"
  shows "Link_OnService U LH P s = U P AwaitingLink s" and "GetLinkState s \<noteq> AwaitingLink"
  using assms by (auto simp: partner_silent_def Link_OnService_def)

text \<open>Services that leave the hopper to the link service: it is a private member of it.\<close>

definition hopper_private :: "'a LoLaLinkService_scheme service \<Rightarrow> bool" where
  "hopper_private S \<longleftrightarrow> (\<forall>P w. TimedHopper (srv_OnLinkLost S P w) = TimedHopper w)"

lemma hopper_told:
  assumes "\<forall>S \<in> set apps. hopper_private S"
  shows "\<not> HopperEnabled (TimedHopper (Lola_notify apps P False s))"
proof -
  have "TimedHopper (services_notify apps P False w) = TimedHopper w" for w :: "'a LoLaLinkService_scheme"
    using assms by (induction apps arbitrary: w) (simp_all add: services_notify_def hopper_private_def)
  then show ?thesis by (simp add: services_notify_def Hopper_service_def Hopper_OnLinkLost_def)
qed

text \<open>C9. A link whose partner falls silent for three seconds, and a linking that does not finish in
  200 ms, end at the next run of the service at either end, whatever services the application has: the
  state is \<open>AwaitingLink\<close> again, key, IV, token and both token seeds are wiped, traffic is in clear, no link is
  reported, the shared secret is not usable any more, what was known of the partner and of the link is
  reset and the partner counts as absent; the session id is gone at the remote and a fresh random one at
  the host. When there was a link the hopper is stopped.\<close>
theorem silent_partner_ends_session:
  assumes "\<forall>S \<in> set apps. side_service S \<and> hopper_private S" and "\<forall>S \<in> set apps'. side_service S \<and> hopper_private S"
    and "partner_silent P h" and "InfoHasDriver (LinkInfo h)" and "partner_silent P' r" and "InfoHasDriver (LinkInfo r)"
  shows "session_over (of_int (random_between P 1 254)) (Host_OnService (Lola_notify apps) P h) \<and>
    session_over INVALID_SESSION (Remote_OnService (Lola_notify apps') P' r) \<and>
    (GetLinkState h = Linked \<longrightarrow> \<not> HopperEnabled (TimedHopper (Host_OnService (Lola_notify apps) P h))) \<and>
    (GetLinkState r = Linked \<longrightarrow> \<not> HopperEnabled (TimedHopper (Remote_OnService (Lola_notify apps') P' r)))"
proof -
  have N: "link_view (Lola_notify apps P b s) = link_view s" for P b and s :: "'a LoLaLinkHostService_scheme"
    by (rule notify_keeps) (use assms(1) in \<open>simp add: hopper.side_service_axioms\<close>)
  have N': "link_view (Lola_notify apps' P b s) = link_view s" for P b and s :: "'b LoLaLinkRemoteService_scheme"
    by (rule notify_keeps) (use assms(2) in \<open>simp add: hopper.side_service_axioms\<close>)
  note h = silent_service [OF assms(3)] and r = silent_service [OF assms(5)]
  have "\<not> HopperEnabled (TimedHopper (Host_UpdateLinkState (Lola_notify apps) P AwaitingLink h))"
    if "GetLinkState h = Linked"
    by (rule Host_back_to_awaiting(2) [where N = "Lola_notify apps", OF h(2) assms(4) N that])
       (use assms(1) in \<open>simp add: hopper_told\<close>)
  moreover have "\<not> HopperEnabled (TimedHopper (Remote_UpdateLinkState (Lola_notify apps') P' AwaitingLink r))"
    if "GetLinkState r = Linked"
    by (rule Remote_back_to_awaiting(2) [where N = "Lola_notify apps'", OF r(2) assms(6) N' that])
       (use assms(2) in \<open>simp add: hopper_told\<close>)
  ultimately show ?thesis
    unfolding Host_OnService_def Remote_OnService_def h(1) r(1)
    using Host_back_to_awaiting(1) [where N = "Lola_notify apps", OF h(2) assms(4) N]
      Remote_back_to_awaiting(1) [where N = "Lola_notify apps'", OF r(2) assms(6) N'] by blast
qed

definition silent_host :: LoLaLinkHostService where
  "silent_host = sample_host\<lparr>LinkInfo := LinkInfo_UpdateState Linked (LinkInfo sample_host),
     TimedHopper := (TimedHopper sample_host)\<lparr>HopperEnabled := True\<rparr>\<rparr>"

definition stuck_remote :: LoLaLinkRemoteService where
  "stuck_remote = sample_remote\<lparr>LinkInfo := LinkInfo_UpdateState Linking (LinkInfo sample_remote), LinkStateStart := 0\<rparr>"

theorem silent_partner_ends_session_witness:
  "session_over (of_int (random_between sample_platform 1 254))
     (Host_OnService (Lola_notify []) (sample_platform\<lparr>millis_now := 5000, micros_now := 5000000\<rparr>) silent_host) \<and>
   \<not> HopperEnabled (TimedHopper (Host_OnService (Lola_notify [])
     (sample_platform\<lparr>millis_now := 5000, micros_now := 5000000\<rparr>) silent_host)) \<and>
   session_over INVALID_SESSION (Remote_OnService (Lola_notify []) (sample_platform\<lparr>millis_now := 201\<rparr>) stuck_remote)"
  using silent_partner_ends_session [of "[]" "[]" "sample_platform\<lparr>millis_now := 5000, micros_now := 5000000\<rparr>" silent_host
      "sample_platform\<lparr>millis_now := 201\<rparr>" stuck_remote]
  by (simp add: silent_host_def stuck_remote_def partner_silent_def sample_ends LinkInfo_UpdateState_def
      LinkInfo_SetDriver_def Driver_GetElapsedMillisLastValidReceived_def Link_GetElapsedMillisSinceStateStart_def
      elapsed_since_def Driver_new_def lola_consts)

section \<open>Stopping while linking\<close>

lemma disable_when_disabled:
  "GetLinkState s = LinkDisabled \<Longrightarrow> Link_UpdateLinkState N SH TH P LinkDisabled s = s"
  by (simp add: Link_UpdateLinkState_def Link_ChangeState_def)

lemma Stop_fields:
  "CryptoEncoder (drv (Lola_Stop (Link_UpdateLinkState N SH TH) P s)) =
     CryptoEncoder (drv (Link_UpdateLinkState N SH TH P LinkDisabled (on_drv Driver_Disable s)))"
  "\<not> ServiceEnabled (Lola_Stop (Link_UpdateLinkState N SH TH) P s)"
  "GetLinkState (Lola_Stop (Link_UpdateLinkState N SH TH) P s) = LinkDisabled"
  by (simp_all add: Lola_Stop_def Link_Disable_def Service_Disable_def disable_when_disabled Let_def)

lemma Start_clears:
  assumes "\<not> ServiceEnabled s" and "GetLinkState s = LinkDisabled"
  shows "EncoderState (CryptoEncoder (drv (Lola_Start (Host_UpdateLinkState N) P s))) = AllClear"
  using assms
  by (simp add: Lola_Start_def Link_Enable_def Service_Enable_def Link_UpdateLinkState_def Link_ChangeState_def
      Link_EnterState_def Link_ClearSession_def Host_session_hooks_def Host_state_hooks_def Host_OnLinkStateChanged_def
      case_prod_unfold Let_def)

text \<open>C37. Stopping a node in the middle of linking does not end its session: the state is \<open>Disabled\<close>,
  but the encoder is left as it was, at full power with key, IV and token of the session, so a
  disabled node goes on encrypting what it sends; a start is what wipes it.\<close>
theorem stop_while_linking_keeps_key:
  assumes "GetLinkState h = Linking" and "GetLinkState r = Linking"
  shows "GetLinkState (Lola_Stop (Host_UpdateLinkState N) P h) = LinkDisabled \<and>
    CryptoEncoder (drv (Lola_Stop (Host_UpdateLinkState N) P h)) = CryptoEncoder (drv h) \<and>
    GetLinkState (Lola_Stop (Remote_UpdateLinkState N') P' r) = LinkDisabled \<and>
    CryptoEncoder (drv (Lola_Stop (Remote_UpdateLinkState N') P' r)) = CryptoEncoder (drv r) \<and>
    EncoderState (CryptoEncoder (drv (Lola_Start (Host_UpdateLinkState N) Q (Lola_Stop (Host_UpdateLinkState N) P h)))) = AllClear"
  using assms Start_clears [OF Stop_fields(2,3)]
  by (simp add: Stop_fields(1,3) Link_UpdateLinkState_def Link_ChangeState_def Link_EnterState_def Driver_Disable_def
      Host_state_hooks_def Host_OnLinkStateChanged_def Remote_state_hooks_def Remote_OnLinkStateChanged_def Let_def)

theorem stop_while_linking_keeps_key_witness:
  "EncoderState (CryptoEncoder (drv (Lola_Stop (Host_UpdateLinkState (Lola_notify [])) sample_platform
     (on_encoder (\<lambda>e. e\<lparr>EncoderState := FullPower\<rparr>) (on_info (LinkInfo_UpdateState Linking) sample_host))))) = FullPower"
  using stop_while_linking_keeps_key [of "on_encoder (\<lambda>e. e\<lparr>EncoderState := FullPower\<rparr>)
      (on_info (LinkInfo_UpdateState Linking) sample_host)" stuck_remote "Lola_notify []" sample_platform]
  by (simp add: stuck_remote_def)

section \<open>The clocks after synchronisation\<close>

text \<open>How far the synchronised clock is from what the host answers a clock request with.\<close>

definition clock_gap :: "RTCClockSource \<Rightarrow> u32" where
  "clock_gap c = Clock_GetBaseRTC c - LastTick c"

lemma GetSyncMicros_gap: "Clock_GetSyncMicros u c = Clock_GetSyncMicrosOf u c + clock_gap c"
  by (simp add: Clock_GetSyncMicros_def Clock_GetSyncMicrosOf_def Clock_GetCurrentsMicros_def clock_gap_def algebra_simps)

lemma clock_gap_interrupt:
  assumes "micros_now P = LastTick c + 1000000" and "LastSeconds c AND 0xFFFF \<noteq> 0xFFFF"
  shows "clock_gap (Clock_OnInterrupt P c) = clock_gap c"
proof -
  have "(LastSeconds c + 1) AND 0xFFFF = (LastSeconds c AND 0xFFFF) + 1"
    using assms(2) take_bit_16_Suc by (simp add: seconds_mask)
  then show ?thesis
    using assms(1) by (simp add: clock_gap_def Clock_GetBaseRTC_def Clock_OnInterrupt_def algebra_simps)
qed

text \<open>C35. Synchronisation does not give the remote the host's clock: when a request is estimated to
  the microsecond, the correction the host answers leaves the remote behind the host's
  synchronised clock by \<open>clock_gap\<close>, since the host compares with \<open>micros()\<close> plus offset and not
  with its RTC clock. The gap is one second minus the time of the first RTC interrupt after the
  start, and interrupts on time keep it.\<close>
theorem clock_sync_leaves_gap:
  assumes "SyncerHasClock (RemoteClockSyncer r)"
    and "RemoteSyncer_OnEstimationErrorReceived (Host_estimation_error (Remote_clock_estimate P (drv r)) h)
      (RemoteClockSyncer r) (drv r) = (c, d)"
  shows "Clock_GetSyncMicros (LastValidReceivedMicros (drv h)) (SyncedClock (drv h)) =
      Clock_GetSyncMicros (micros_now P + ETTM (drv r)) (SyncedClock d) + clock_gap (SyncedClock (drv h)) \<and>
    clock_gap (Clock_OnInterrupt Q (Clock_Start Q0 k)) = 1000000 - micros_now Q \<and>
    (micros_now Q' = LastTick k + 1000000 \<and> LastSeconds k AND 0xFFFF \<noteq> 0xFFFF \<longrightarrow>
      clock_gap (Clock_OnInterrupt Q' k) = clock_gap k)"
proof (intro conjI impI)
  let ?err = "Host_estimation_error (Remote_clock_estimate P (drv r)) h"
  have d: "SyncedClock d = Clock_AddOffsetMicros ?err (SyncedClock (drv r))"
    using assms by (auto simp: RemoteSyncer_OnEstimationErrorReceived_def Syncer_AddOffsetMicros_def on_clock_def)
  have "Clock_GetSyncMicros (micros_now P + ETTM (drv r)) (SyncedClock d) =
      Clock_GetSyncMicros (micros_now P) (SyncedClock (drv r)) + ETTM (drv r) + ?err"
    by (simp only: d GetSyncMicros_AddOffset GetSyncMicros_advances)
  also have "\<dots> = Clock_GetSyncMicrosOf (LastValidReceivedMicros (drv h)) (SyncedClock (drv h))"
    by (simp add: Host_estimation_error_def Remote_clock_estimate_def Driver_GetSyncMicros_def Driver_GetETTMMicros_def)
  finally show "Clock_GetSyncMicros (LastValidReceivedMicros (drv h)) (SyncedClock (drv h)) =
      Clock_GetSyncMicros (micros_now P + ETTM (drv r)) (SyncedClock d) + clock_gap (SyncedClock (drv h))"
    by (simp add: GetSyncMicros_gap [of _ "SyncedClock (drv h)"])
  show "clock_gap (Clock_OnInterrupt Q (Clock_Start Q0 k)) = 1000000 - micros_now Q"
    by (simp add: clock_gap_def Clock_GetBaseRTC_def Clock_OnInterrupt_def Clock_Start_def Clock_Attach_def Let_def)
  show "clock_gap (Clock_OnInterrupt Q' k) = clock_gap k"
    if "micros_now Q' = LastTick k + 1000000 \<and> LastSeconds k AND 0xFFFF \<noteq> 0xFFFF"
    using that clock_gap_interrupt by blast
qed

definition gap_host :: LoLaLinkHostService where
  "gap_host = sample_host\<lparr>drv := Driver_new\<lparr>EvenSlot := True, ETTM := 400, LastValidReceivedMicros := 996000,
     SyncedClock := Clock_OnInterrupt (sample_platform\<lparr>micros_now := 995000\<rparr>) (Clock_Start sample_platform Clock_new)\<rparr>\<rparr>"

definition gap_remote :: LoLaLinkRemoteService where
  "gap_remote = sample_remote\<lparr>drv := Driver_new\<lparr>EvenSlot := False, ETTM := 400\<rparr>,
     RemoteClockSyncer := snd (Syncer_Setup RemoteSyncer_new)\<rparr>"

text \<open>After a perfect exchange both ends take the same moment for their own send slot.\<close>

theorem clock_sync_leaves_gap_witness:
  "let d = snd (RemoteSyncer_OnEstimationErrorReceived (Host_estimation_error
       (Remote_clock_estimate (sample_platform\<lparr>micros_now := 995600\<rparr>) (drv gap_remote)) gap_host)
       (RemoteClockSyncer gap_remote) (drv gap_remote)); now = sample_platform\<lparr>micros_now := 996000\<rparr>
   in Driver_GetSyncMicros now (drv gap_host) = Driver_GetSyncMicros now d + 5000 \<and>
     fst (Driver_IsInSendSlot now (drv gap_host)) \<and> fst (Driver_IsInSendSlot now d)"
proof -
  have h: "SyncerHasClock (RemoteClockSyncer gap_remote)"
    by (simp add: gap_remote_def Syncer_Setup_def)
  note w = clock_sync_leaves_gap [where P = "sample_platform\<lparr>micros_now := 995600\<rparr>" and h = gap_host, OF h prod.collapse [symmetric]]
  let ?d = "snd (RemoteSyncer_OnEstimationErrorReceived (Host_estimation_error
       (Remote_clock_estimate (sample_platform\<lparr>micros_now := 995600\<rparr>) (drv gap_remote)) gap_host)
       (RemoteClockSyncer gap_remote) (drv gap_remote))"
  have f: "ETTM (drv gap_remote) = 400" "LastValidReceivedMicros (drv gap_host) = 996000" "EvenSlot (drv gap_host)"
    "ETTM (drv gap_host) = 400" "\<not> EvenSlot ?d" "ETTM ?d = 400"
    "Clock_GetSyncMicros 996000 (SyncedClock (drv gap_host)) = 1001000" "clock_gap (SyncedClock (drv gap_host)) = 5000"
    by (simp_all add: gap_host_def gap_remote_def RemoteSyncer_OnEstimationErrorReceived_def Syncer_AddOffsetMicros_def on_clock_def
        clock_gap_def Clock_GetSyncMicros_def Clock_GetCurrentsMicros_def Clock_GetBaseRTC_def Clock_OnInterrupt_def
        Clock_Start_def Clock_Attach_def Clock_new_def Let_def)
  have "Clock_GetSyncMicros 996000 (SyncedClock ?d) = 996000"
    using w f by (simp add: eq_diff_eq [symmetric])
  then show ?thesis
    using f by (simp add: Driver_IsInSendSlot_def Driver_GetSyncMicros_def lola_consts Let_def)
qed

section \<open>Replay\<close>

text \<open>What an encoder goes through while a link is up: packets received and packets sent.\<close>

datatype traffic = FrameIn "u8 list" nat u16 | FrameOut "u8 list" nat

fun encoder_traffic :: "platform \<Rightarrow> LoLaCryptoEncoder \<Rightarrow> traffic \<Rightarrow> LoLaCryptoEncoder" where
  "encoder_traffic P e (FrameIn m n crc) = snd (snd (Encoder_Decode P m n crc e))"
| "encoder_traffic P e (FrameOut m n) = snd (snd (Encoder_Encode P m n e))"

lemma traffic_same_crypto: "same_crypto a (foldl (encoder_traffic P) b ts) = same_crypto a b"
proof (induction ts arbitrary: b)
  case Nil
  then show ?case by simp
next
  case (Cons t ts)
  have "same_crypto a (encoder_traffic P b t) = same_crypto a b"
    by (cases t) (simp_all add: same_crypto_def lola_frame)
  then show ?case by (simp add: Cons.IH)
qed

text \<open>C38. A frame can be replayed for as long as a link lasts: key, IV and token do not change with
  traffic, so whatever was sent and received in between, the receiver decodes a recorded frame
  again, to the same packet.\<close>
theorem replayed_frame_accepted:
  assumes "cypher_ok P" and "same_crypto sender receiver" and "n \<le> length message"
    and "Encoder_Encode P message n sender = (crc, out, sender')"
  shows "\<exists>receiver'. Encoder_Decode P (out @ rest) n crc (foldl (encoder_traffic P) receiver ts) =
    (True, take n message @ rest, receiver')"
  using Decode_Encode [OF assms(1) _ assms(3,4)] assms(2) by (simp add: traffic_same_crypto)

theorem replayed_frame_accepted_witness:
  "fst (Encoder_Decode sample_platform ([12, 13] @ [99]) 2 (crc16_modbus sample_platform [12, 13])
     (foldl (encoder_traffic sample_platform) (Encoder_new\<lparr>EncoderState := FullPower, KeyHolder := replicate 16 9\<rparr>)
       [FrameIn [12, 13] 2 (crc16_modbus sample_platform [12, 13]), FrameOut [1, 2] 2]))"
  using replayed_frame_accepted [of sample_platform "Encoder_new\<lparr>EncoderState := FullPower, KeyHolder := replicate 16 9\<rparr>"
      "Encoder_new\<lparr>EncoderState := FullPower, KeyHolder := replicate 16 9\<rparr>" 2 "[3, 4, 5]" "crc16_modbus sample_platform [12, 13]"
      "[12, 13]" "Encoder_new\<lparr>EncoderState := FullPower, KeyHolder := replicate 16 9, Cypher := [9]\<rparr>" "[99]"
      "[FrameIn [12, 13] 2 (crc16_modbus sample_platform [12, 13]), FrameOut [1, 2] 2]"]
  by (auto simp: same_crypto_def Encoder_new_def Encoder_Encode_def Encoder_ResetCypherBlock_def cypher_load_def
      simp del: encoder_traffic.simps foldl.simps sample_platform_fields(6))

end
