(* ===== verification/Link_Packets.thy ===== *)
theory Link_Packets
  imports Handshake
begin

text \<open>
  The packets of the link service: whatever it prepares is one of its five registered packets and
  stays in the bytes that packet has.
\<close>

section \<open>Packets of a definition\<close>

text \<open>\<open>q\<close> is what the buffer held before.\<close>

definition packet_of :: "PacketDefinition \<Rightarrow> LoLaPacket \<Rightarrow> LoLaPacket \<Rightarrow> bool" where
  "packet_of def q p \<longleftrightarrow> Definition p = Some def \<and> LoLaPacket_GetDataHeader p = Header def \<and>
     length (Raw p) = LOLA_LINK_SERVICE_PACKET_MAX_SIZE \<and>
     drop (unat (PacketDefinition_GetTotalSize def)) (Raw p) = drop (unat (PacketDefinition_GetTotalSize def)) (Raw q)"

lemma drop_store_before:
  "off + length bs \<le> n \<Longrightarrow> off + length bs \<le> length xs \<Longrightarrow> drop n (store off bs xs) = drop n xs"
  by (simp add: store_split)

lemma packet_of_prepare:
  assumes "def \<in> set link_definitions" and "length (Raw q) = LOLA_LINK_SERVICE_PACKET_MAX_SIZE"
  shows "packet_of def q (LoLaPacket_SetId i (snd (LoLaPacket_SetDefinition (Some def) q)))"
proof -
  have "4 \<le> unat (PacketDefinition_GetTotalSize def)"
    using assms(1) by (auto simp: link_packet_defs lola_consts PacketDefinition_GetTotalSize_def)
  then show ?thesis
    using assms(2) by (simp add: packet_of_def LoLaPacket_GetDataHeader_def LoLaPacket_SetId_def LoLaPacket_SetDefinition_def
        lola_consts drop_update_cancel)
qed

lemma packet_of_payload:
  assumes "packet_of def q p" and "4 + off + length bs \<le> unat (PacketDefinition_GetTotalSize def)"
    and "4 + off + length bs \<le> LOLA_LINK_SERVICE_PACKET_MAX_SIZE"
  shows "packet_of def q (LoLaPacket_SetPayload off bs p)"
  using assms by (simp add: packet_of_def LoLaPacket_GetDataHeader_def LoLaPacket_SetPayload_def lola_consts drop_store_before)

lemma link_total_sizes:
  "unat (PacketDefinition_GetTotalSize PingPacketDefinition) = 4" "unat (PacketDefinition_GetTotalSize LinkReportPacketDefinition) = 7"
  "unat (PacketDefinition_GetTotalSize LinkShortPacketDefinition) = 9"
  "unat (PacketDefinition_GetTotalSize LinkShortWithAckPacketDefinition) = 8"
  "unat (PacketDefinition_GetTotalSize LinkLongPacketDefinition) = 26"
  by (simp_all add: link_packet_defs lola_consts PacketDefinition_GetTotalSize_def)

text \<open>The builders, with the payload they write.\<close>

lemma Prepare_of:
  assumes "def \<in> set link_definitions" and "length (Raw (Packet s)) = LOLA_LINK_SERVICE_PACKET_MAX_SIZE"
  shows "packet_of def (Packet s) (Packet (Link_Prepare def i s))"
  using packet_of_prepare [OF assms] by (simp add: Link_Prepare_def)

lemma SetPayload_of:
  assumes "packet_of def q (Packet s)" and "4 + off + length bs \<le> unat (PacketDefinition_GetTotalSize def)"
    and "unat (PacketDefinition_GetTotalSize def) \<le> LOLA_LINK_SERVICE_PACKET_MAX_SIZE"
  shows "packet_of def q (Packet (Link_SetPayload off bs s))"
  using packet_of_payload [OF assms(1,2)] assms(2,3) by (simp add: Link_SetPayload_def)

lemma Packet_info_result [simp]: "Packet (snd (on_info_result g s)) = Packet s"
  by (simp add: on_info_result_def case_prod_unfold Let_def)

lemma short_of:
  "length (Raw (Packet s)) = LOLA_LINK_SERVICE_PACKET_MAX_SIZE \<Longrightarrow>
    packet_of LinkShortPacketDefinition (Packet s) (Packet (Link_PrepareShortPacket i sub s))"
  "packet_of LinkShortPacketDefinition q (Packet s) \<Longrightarrow>
    packet_of LinkShortPacketDefinition q (Packet (Link_S_ArrayToPayload x s))"
  by (simp_all add: Link_PrepareShortPacket_def Link_S_ArrayToPayload_def SetPayload_of Prepare_of link_total_sizes
      LOLA_LINK_SERVICE_PACKET_MAX_SIZE_def lola_consts)

lemma report_of:
  assumes "length (Raw (Packet s)) = LOLA_LINK_SERVICE_PACKET_MAX_SIZE" and "length bs \<le> 3"
  shows "packet_of LinkReportPacketDefinition (Packet s) (Packet (Link_SetPayload 0 bs (Link_PrepareReportPacket sub s)))"
  using assms by (simp add: Link_PrepareReportPacket_def SetPayload_of Prepare_of link_total_sizes lola_consts)

lemma long_of:
  assumes "length (Raw (Packet s)) = LOLA_LINK_SERVICE_PACKET_MAX_SIZE"
  shows "packet_of LinkLongPacketDefinition (Packet s) (Packet (Link_PreparePublicKeyPacket sub s))"
  using assms by (simp add: Link_PreparePublicKeyPacket_def Link_PrepareLongPacket_def SetPayload_of Prepare_of
      link_total_sizes lola_consts KEY_CURVE_SIZE_def Let_def KeyExchanger_GetPublicKeyCompressed_def split: option.split)

lemma acked_of:
  assumes "length (Raw (Packet s)) = LOLA_LINK_SERVICE_PACKET_MAX_SIZE"
  shows "packet_of LinkShortWithAckPacketDefinition (Packet s) (Packet (Host_PrepareLinkProtocolSwitchOver s))"
  using assms by (simp add: Host_PrepareLinkProtocolSwitchOver_def Link_PrepareShortPacketWithAck_def SetPayload_of Prepare_of
      link_total_sizes lola_consts)

text \<open>The challenge is encrypted in a copy of the payload, which is then stored back as a whole.\<close>

lemma store_store_back:
  "off \<le> length xs \<Longrightarrow> length out \<le> length (drop off xs) \<Longrightarrow> store off (store 0 out (drop off xs)) xs = store off out xs"
  by (simp add: store_split add.commute)

lemma challenge_of:
  assumes "cypher_ok P" and "length (Raw (Packet s)) = LOLA_LINK_SERVICE_PACKET_MAX_SIZE"
  shows "packet_of LinkShortWithAckPacketDefinition (Packet s) (Packet (Host_PrepareCryptoStartRequest P s))"
proof -
  let ?s = "Host_PrepareLinkProtocolSwitchOver s"
  let ?e = "Encoder_ResetCypherBlock P (CryptoEncoder (drv ?s))"
  let ?out = "fst (cypher_encrypt P (take 4 (LoLaPacket_GetPayload (Packet ?s))) (Cypher ?e))"
  note a = acked_of [OF assms(2)]
  have l: "length (Raw (Packet ?s)) = LOLA_LINK_SERVICE_PACKET_MAX_SIZE" using a by (simp add: packet_of_def)
  have o: "length ?out = 4" using assms(1) l by (simp add: LoLaPacket_GetPayload_def lola_consts)
  have "Packet (Host_PrepareCryptoStartRequest P s) =
      LoLaPacket_SetPayload 0 (store 0 ?out (LoLaPacket_GetPayload (Packet ?s))) (Packet ?s)"
    by (simp add: Host_PrepareCryptoStartRequest_def Encoder_EncodeDirect_def case_prod_unfold Let_def Link_SetPayload_def
        on_encoder_def on_drv_def)
  also have "\<dots> = LoLaPacket_SetPayload 0 ?out (Packet ?s)"
    using l o by (simp add: LoLaPacket_SetPayload_def LoLaPacket_GetPayload_def store_store_back lola_consts)
  finally have e: "Packet (Host_PrepareCryptoStartRequest P s) = LoLaPacket_SetPayload 0 ?out (Packet ?s)" .
  show ?thesis unfolding e by (rule packet_of_payload [OF a]) (simp_all only: o link_total_sizes, simp_all add: lola_consts)
qed

text \<open>C34. Every packet the link service builds is well formed: it carries one of the five registered
  definitions and its header, and only bytes of that packet are written, in the buffer of the
  service, whose length stays 26; this holds of the fifteen builders of host and remote.\<close>
theorem link_packets_well_formed:
  assumes "cypher_ok P" and "length (Raw (Packet h)) = LOLA_LINK_SERVICE_PACKET_MAX_SIZE"
    and "length (Raw (Packet r)) = LOLA_LINK_SERVICE_PACKET_MAX_SIZE"
  shows "packet_of PingPacketDefinition (Packet h) (Packet (Link_PreparePing P h)) \<and>
    packet_of LinkReportPacketDefinition (Packet h) (Packet (Link_PrepareLinkReport reply h)) \<and>
    packet_of LinkLongPacketDefinition (Packet h) (Packet (Link_PreparePublicKeyPacket sub h)) \<and>
    packet_of LinkShortPacketDefinition (Packet h) (Packet (Host_PrepareIdBroadcast P h)) \<and>
    packet_of LinkShortWithAckPacketDefinition (Packet h) (Packet (Host_PrepareLinkProtocolSwitchOver h)) \<and>
    packet_of LinkShortWithAckPacketDefinition (Packet h) (Packet (Host_PrepareCryptoStartRequest P h)) \<and>
    packet_of LinkReportPacketDefinition (Packet h) (Packet (Host_PrepareHostInfoSync h)) \<and>
    packet_of LinkReportPacketDefinition (Packet h) (Packet (Host_PrepareInfoSyncRequest h)) \<and>
    packet_of LinkShortPacketDefinition (Packet h) (Packet (Host_PrepareClockSyncResponse i x h)) \<and>
    packet_of LinkShortPacketDefinition (Packet h) (Packet (Host_PrepareClockSyncTuneResponse i x h)) \<and>
    packet_of LinkShortPacketDefinition (Packet r) (Packet (Remote_PrepareLinkDiscovery r)) \<and>
    packet_of LinkShortPacketDefinition (Packet r) (Packet (Remote_PreparePKCStartRequest P r)) \<and>
    packet_of LinkReportPacketDefinition (Packet r) (Packet (Remote_PrepareRemoteInfoSync r)) \<and>
    packet_of LinkShortPacketDefinition (Packet r) (Packet (Remote_PrepareClockSyncRequest i r)) \<and>
    packet_of LinkShortPacketDefinition (Packet r) (Packet (Remote_PrepareClockSyncTuneRequest i r))"
proof (intro conjI)
  show "packet_of LinkShortPacketDefinition (Packet r) (Packet (Remote_PrepareLinkDiscovery r))"
    unfolding Remote_PrepareLinkDiscovery_def
    by (rule SetPayload_of [OF short_of(1) [OF assms(3)]]) (simp_all add: link_total_sizes lola_consts)
qed (use assms in \<open>simp_all add: Link_PreparePing_def Link_PrepareLinkReport_def Host_PrepareIdBroadcast_def
    Host_PrepareHostInfoSync_def Host_PrepareInfoSyncRequest_def Host_PrepareClockSyncResponse_def
    Host_PrepareClockSyncTuneResponse_def Remote_PreparePKCStartRequest_def Remote_PrepareRemoteInfoSync_def
    Remote_PrepareClockSyncRequest_def Remote_PrepareClockSyncTuneRequest_def case_prod_unfold Let_def
    Prepare_of short_of report_of long_of acked_of challenge_of LOLA_LINK_SERVICE_PAYLOAD_SIZE_REPORT_def\<close>)

theorem link_packets_well_formed_witness:
  "packet_of LinkShortWithAckPacketDefinition (Packet offering_host)
     (Packet (Host_PrepareCryptoStartRequest sample_platform offering_host)) \<and>
   packet_of LinkShortPacketDefinition (Packet searching_remote) (Packet (Remote_PrepareClockSyncRequest 3 searching_remote))"
  using link_packets_well_formed [of sample_platform offering_host searching_remote]
  by (simp add: sample_ends LoLaPacket_ClearDefinition_def LoLaPacket_new_def)

end
