(* ===== verification/Tracked_Stream.thy ===== *)
theory Tracked_Stream
  imports Platform
begin

text \<open>
  \<open>src/src/Services/Stream/ITrackedStream.h\<close>: the buffer of a stream, a ring of the last values added.
  The services on top of it (\<open>AbstractStreamBuffer.h\<close>) are unfinished. The ring is the library's
  (\<open>RingBufCPP\<close>), as in the driver; its content is the list of its elements, oldest first. The signal
  is a count of how often it was fired, and the pointer \<open>PullOldest\<close> returns is to \<open>Grunt\<close>.
\<close>

record 'd TemplateTrackedStreamBuffer =
  CircularBuffer :: "'d list"
  StreamGrunt :: 'd
  NewDataEvents :: nat

definition Stream_new :: "'d \<Rightarrow> 'd TemplateTrackedStreamBuffer" where
  "Stream_new x = \<lparr> CircularBuffer = [], StreamGrunt = x, NewDataEvents = 0 \<rparr>"

definition Stream_OnNewDataAvailable :: "'d TemplateTrackedStreamBuffer \<Rightarrow> 'd TemplateTrackedStreamBuffer" where
  "Stream_OnNewDataAvailable s = s\<lparr>NewDataEvents := NewDataEvents s + 1\<rparr>"

definition Stream_NotifyDataChanged :: "'d TemplateTrackedStreamBuffer \<Rightarrow> 'd TemplateTrackedStreamBuffer" where
  "Stream_NotifyDataChanged s = Stream_OnNewDataAvailable s"

definition Stream_PullOldest ::
  "'d ring_ops \<Rightarrow> 'd TemplateTrackedStreamBuffer \<Rightarrow> 'd option \<times> 'd TemplateTrackedStreamBuffer" where
  "Stream_PullOldest R s =
     (if CircularBuffer s \<noteq> [] then
        (case ring_pull R (CircularBuffer s) of
           Some (x, q) \<Rightarrow> (Some x, s\<lparr>CircularBuffer := q, StreamGrunt := x\<rparr>)
         | None \<Rightarrow> (Some (StreamGrunt s), s))
      else (None, s))"

definition Stream_AddNew ::
  "'d ring_ops \<Rightarrow> 'd TemplateTrackedStreamBuffer \<Rightarrow> 'd \<Rightarrow> 'd TemplateTrackedStreamBuffer" where
  "Stream_AddNew R s newValue =
     Stream_OnNewDataAvailable (s\<lparr>CircularBuffer := ring_add_force R newValue (CircularBuffer s)\<rparr>)"

definition Stream_GetCount :: "'d TemplateTrackedStreamBuffer \<Rightarrow> u8" where
  "Stream_GetCount s = of_nat (length (CircularBuffer s))"

definition Stream_HasData :: "'d TemplateTrackedStreamBuffer \<Rightarrow> bool" where
  "Stream_HasData s \<longleftrightarrow> CircularBuffer s \<noteq> []"

text \<open>The loop of \<open>Clear\<close> ends only if the ring really gives up an element each time.\<close>

partial_function (option) Stream_Clear ::
  "'d ring_ops \<Rightarrow> 'd TemplateTrackedStreamBuffer \<Rightarrow> 'd TemplateTrackedStreamBuffer option" where
  "Stream_Clear R s =
     (if CircularBuffer s \<noteq> []
      then Stream_Clear R (s\<lparr>CircularBuffer := (case ring_pull R (CircularBuffer s) of
             Some (x, q) \<Rightarrow> q | None \<Rightarrow> CircularBuffer s)\<rparr>)
      else Some s)"

text \<open>Reading until there is nothing left, at most \<open>k\<close> times.\<close>

fun drain :: "'d ring_ops \<Rightarrow> nat \<Rightarrow> 'd TemplateTrackedStreamBuffer \<Rightarrow> 'd list" where
  "drain R 0 s = []"
| "drain R (Suc k) s = (case Stream_PullOldest R s of
     (None, s') \<Rightarrow> []
   | (Some x, s') \<Rightarrow> x # drain R k s')"

lemma AddNew_content:
  assumes "ring_ok n R" and "0 < n" and "length (CircularBuffer s) \<le> n"
  shows "CircularBuffer (foldl (Stream_AddNew R) s xs) =
      drop (length (CircularBuffer s) + length xs - n) (CircularBuffer s @ xs)"
    and "NewDataEvents (foldl (Stream_AddNew R) s xs) = NewDataEvents s + length xs"
proof -
  have "CircularBuffer (foldl (Stream_AddNew R) s xs) =
      drop (length (CircularBuffer s) + length xs - n) (CircularBuffer s @ xs) \<and>
    NewDataEvents (foldl (Stream_AddNew R) s xs) = NewDataEvents s + length xs"
    using assms(3)
  proof (induction xs arbitrary: s)
    case Nil
    then show ?case by simp
  next
    case (Cons x xs)
    let ?q = "CircularBuffer s" and ?t = "Stream_AddNew R s x"
    have q: "CircularBuffer ?t = (if length ?q < n then ?q @ [x] else tl ?q @ [x])" "NewDataEvents ?t = NewDataEvents s + 1"
      using ring_add_force_ok [OF assms(1) Cons.prems] by (simp_all add: Stream_AddNew_def Stream_OnNewDataAvailable_def)
    have l: "length (CircularBuffer ?t) \<le> n" using q(1) Cons.prems assms(2) by auto
    note IH = Cons.IH [OF l]
    show ?case
    proof (cases "length ?q < n")
      case True
      then show ?thesis using IH q by simp
    next
      case False
      then have n: "length ?q = n" using Cons.prems by simp
      then have "CircularBuffer (foldl (Stream_AddNew R) ?t xs) = drop (length xs) (tl ?q @ [x] @ xs)"
        using IH q assms(2) by simp
      also have "\<dots> = drop (Suc (length xs)) (?q @ x # xs)"
        using n assms(2) by (cases ?q) simp_all
      finally show ?thesis using IH q n by simp
    qed
  qed
  then show "CircularBuffer (foldl (Stream_AddNew R) s xs) =
      drop (length (CircularBuffer s) + length xs - n) (CircularBuffer s @ xs)"
    "NewDataEvents (foldl (Stream_AddNew R) s xs) = NewDataEvents s + length xs" by simp_all
qed

lemma drain_content:
  assumes "ring_ok n R" and "length (CircularBuffer s) \<le> n" and "length (CircularBuffer s) \<le> k"
  shows "drain R k s = CircularBuffer s"
  using assms(2,3)
proof (induction k arbitrary: s)
  case 0
  then show ?case by simp
next
  case (Suc k)
  show ?case
  proof (cases "CircularBuffer s")
    case Nil
    then show ?thesis by (simp add: Stream_PullOldest_def)
  next
    case (Cons x q)
    then have p: "Stream_PullOldest R s = (Some x, s\<lparr>CircularBuffer := q, StreamGrunt := x\<rparr>)"
      using ring_pull_ok [OF assms(1) Suc.prems(1)] by (simp add: Stream_PullOldest_def)
    have "drain R k (s\<lparr>CircularBuffer := q, StreamGrunt := x\<rparr>) = q"
      using Suc.IH [of "s\<lparr>CircularBuffer := q, StreamGrunt := x\<rparr>"] Suc.prems Cons by simp
    then show ?thesis by (simp add: p Cons)
  qed
qed

lemma Clear_content:
  assumes "ring_ok n R" and "length (CircularBuffer s) \<le> n"
  shows "Stream_Clear R s = Some (s\<lparr>CircularBuffer := []\<rparr>)"
  using assms(2)
proof (induction "CircularBuffer s" arbitrary: s)
  case Nil
  then show ?case by (subst Stream_Clear.simps) simp
next
  case (Cons x q)
  have "ring_pull R (CircularBuffer s) = Some (x, q)"
    using ring_pull_ok [OF assms(1) Cons.prems] Cons.hyps(2) [symmetric] by simp
  then have "Stream_Clear R s = Stream_Clear R (s\<lparr>CircularBuffer := q\<rparr>)"
    using Cons.hyps(2) by (subst Stream_Clear.simps) (simp, metis list.distinct(1))
  also have "\<dots> = Some (s\<lparr>CircularBuffer := []\<rparr>)"
    using Cons.hyps(1) [of "s\<lparr>CircularBuffer := q\<rparr>"] Cons.prems Cons.hyps(2) [symmetric] by simp
  finally show ?case .
qed

text \<open>C40. The stream buffer is a bounded queue: after adding a sequence of values, reading gives the last
  \<open>n\<close> of them in their order and then nothing, the count is right, every value fired one
  event, and \<open>Clear\<close> comes to an end with an empty buffer.\<close>
theorem stream_keeps_latest:
  assumes "ring_ok n R" and "0 < n" and "n < 256"
  shows "let s = foldl (Stream_AddNew R) (Stream_new x) xs in
    (\<forall>k. drain R (n + k) s = drop (length xs - n) xs) \<and> unat (Stream_GetCount s) = min n (length xs) \<and>
    NewDataEvents s = length xs \<and> (Stream_HasData s \<longleftrightarrow> xs \<noteq> []) \<and>
    (\<exists>t. Stream_Clear R s = Some t \<and> \<not> Stream_HasData t \<and> Stream_PullOldest R t = (None, t))"
proof -
  let ?s = "foldl (Stream_AddNew R) (Stream_new x) xs"
  have c: "CircularBuffer ?s = drop (length xs - n) xs" "NewDataEvents ?s = length xs"
    using AddNew_content [OF assms(1,2), of "Stream_new x" xs] by (simp_all add: Stream_new_def)
  have l: "length (CircularBuffer ?s) = min n (length xs)" using c(1) by auto
  have d: "drain R (n + k) ?s = CircularBuffer ?s" for k by (rule drain_content [OF assms(1)]) (simp_all add: l)
  have "Stream_Clear R ?s = Some (?s\<lparr>CircularBuffer := []\<rparr>)" by (rule Clear_content [OF assms(1)]) (simp add: l)
  moreover have "Stream_HasData ?s \<longleftrightarrow> xs \<noteq> []"
    using l assms(2) unfolding Stream_HasData_def by (metis length_0_conv min_0R min_def not_gr_zero)
  moreover have "min n (length xs) mod 256 = min n (length xs)" using assms(3) by simp
  ultimately show ?thesis using c l d
    by (simp add: Let_def Stream_GetCount_def unat_of_nat_mod Stream_HasData_def Stream_PullOldest_def)
qed

theorem stream_keeps_latest_witness:
  "drain (sample_ring 3) 3 (foldl (Stream_AddNew (sample_ring 3)) (Stream_new (0 :: u8)) [1, 2, 3, 4, 5]) = [3, 4, 5]"
  using stream_keeps_latest [of 3 "sample_ring 3" "0 :: u8" "[1, 2, 3, 4, 5]"]
  by (simp add: Let_def del: drain.simps foldl.simps) (metis add_0_right)

end
