(* ===== verification/Key_Entropy.thy ===== *)
theory Key_Entropy
  imports Key_Exchange "HOL-Library.Monad_Syntax"
begin

text \<open>
  The random numbers behind the keys: \<open>RNG\<close> of \<open>src/src/LoLaCrypto/LoLaCryptoKeyExchange.h\<close>, which \<open>Setup\<close>
  hands to micro-ecc. It reads an unconnected analog pin until the reading changes, so whether it
  returns depends on the noise. The readings are a sequence \<open>pin\<close>, the position in it is the state; the
  counter of equal readings does not overflow in the model.
\<close>

section \<open>The generator\<close>

partial_function (option) RNG_count :: "(nat \<Rightarrow> int) \<Rightarrow> int \<Rightarrow> nat \<Rightarrow> nat \<Rightarrow> (nat \<times> nat) option" where
  "RNG_count pin init count n = (if pin n = init then RNG_count pin init (Suc count) (Suc n) else Some (count, Suc n))"

definition RNG_bit :: "(nat \<Rightarrow> int) \<Rightarrow> nat \<Rightarrow> (bool \<times> nat) option" where
  "RNG_bit pin n = do {
     (count, m) \<leftarrow> RNG_count pin (pin n) 0 (Suc n);
     Some (if count = 0 then odd (pin n) else odd count, m) }"

fun RNG_bits :: "(nat \<Rightarrow> int) \<Rightarrow> nat \<Rightarrow> u8 \<Rightarrow> nat \<Rightarrow> (u8 \<times> nat) option" where
  "RNG_bits pin 0 val n = Some (val, n)"
| "RNG_bits pin (Suc i) val n = do {
     (b, m) \<leftarrow> RNG_bit pin n;
     RNG_bits pin i (push_bit 1 val OR of_bool b) m }"

fun RNG :: "(nat \<Rightarrow> int) \<Rightarrow> nat \<Rightarrow> nat \<Rightarrow> (u8 list \<times> nat) option" where
  "RNG pin 0 n = Some ([], n)"
| "RNG pin (Suc len) n = do {
     (val, m) \<leftarrow> RNG_bits pin 8 0 n;
     (dest, k) \<leftarrow> RNG pin len m;
     Some (val # dest, k) }"

section \<open>When it returns, and with what\<close>

text \<open>The noise changes again and again.\<close>

definition noisy :: "(nat \<Rightarrow> int) \<Rightarrow> bool" where
  "noisy pin \<longleftrightarrow> (\<forall>n. \<exists>m > n. pin m \<noteq> pin n)"

text \<open>The bit is a parity: of the reading itself if the next one differs, of the length of the run after it otherwise.\<close>

definition run_length :: "(nat \<Rightarrow> int) \<Rightarrow> nat \<Rightarrow> nat" where
  "run_length pin n = (LEAST k. pin (Suc n + k) \<noteq> pin n)"

definition run_bit :: "(nat \<Rightarrow> int) \<Rightarrow> nat \<Rightarrow> bool" where
  "run_bit pin n = (if run_length pin n = 0 then odd (pin n) else odd (run_length pin n))"

lemma RNG_count_run:
  assumes "\<forall>j < k. pin (n + j) = init" and "pin (n + k) \<noteq> init"
  shows "RNG_count pin init c n = Some (c + k, Suc (n + k))"
  using assms
proof (induction k arbitrary: c n)
  case 0
  then show ?case by (subst RNG_count.simps) simp
next
  case (Suc k)
  have "pin n = init" using Suc.prems(1) by force
  moreover have "\<forall>j < k. pin (Suc n + j) = init" using Suc.prems(1) by force
  then have "RNG_count pin init (Suc c) (Suc n) = Some (Suc c + k, Suc (Suc n + k))"
    using Suc.prems(2) by (intro Suc.IH) simp_all
  ultimately show ?case by (subst RNG_count.simps) simp
qed

lemma RNG_count_changed:
  assumes "RNG_count pin init c n = Some r"
  shows "n < snd r \<and> pin (snd r - 1) \<noteq> init"
proof (rule RNG_count.raw_induct [where P = "\<lambda>pin init c n r. n < snd r \<and> pin (snd r - 1) \<noteq> init", OF _ assms])
  fix f :: "(nat \<Rightarrow> int) \<Rightarrow> int \<Rightarrow> nat \<Rightarrow> nat \<Rightarrow> (nat \<times> nat) option" and pin init c n r
  assume step: "\<And>pin init c n r. f pin init c n = Some r \<Longrightarrow> n < snd r \<and> pin (snd r - 1) \<noteq> init"
    and r: "(if pin n = init then f pin init (Suc c) (Suc n) else Some (c, Suc n)) = Some r"
  show "n < snd r \<and> pin (snd r - 1) \<noteq> init"
    using step [of pin init "Suc c" "Suc n" r] r by (auto split: if_splits)
qed

lemma run_length_noisy:
  assumes "noisy pin"
  shows "pin (Suc n + run_length pin n) \<noteq> pin n" and "\<forall>j < run_length pin n. pin (Suc n + j) = pin n"
proof -
  obtain m where "n < m" "pin m \<noteq> pin n" using assms by (auto simp: noisy_def)
  then have "pin (Suc n + (m - Suc n)) \<noteq> pin n" by simp
  then show "pin (Suc n + run_length pin n) \<noteq> pin n" unfolding run_length_def by (rule LeastI)
  show "\<forall>j < run_length pin n. pin (Suc n + j) = pin n"
    unfolding run_length_def using not_less_Least by blast
qed

definition bit_end :: "(nat \<Rightarrow> int) \<Rightarrow> nat \<Rightarrow> nat" where
  "bit_end pin n = Suc (Suc n + run_length pin n)"

lemma RNG_bit_noisy:
  assumes "noisy pin"
  shows "RNG_bit pin n = Some (run_bit pin n, bit_end pin n)"
proof -
  have "RNG_count pin (pin n) 0 (Suc n) = Some (0 + run_length pin n, Suc (Suc n + run_length pin n))"
    by (rule RNG_count_run [OF run_length_noisy(2,1)]) (rule assms)+
  then show ?thesis by (simp add: RNG_bit_def run_bit_def bit_end_def)
qed

text \<open>Where the reading for bit number \<open>i\<close> is taken.\<close>

definition draw :: "(nat \<Rightarrow> int) \<Rightarrow> nat \<Rightarrow> nat \<Rightarrow> nat" where
  "draw pin n i = (bit_end pin ^^ i) n"

lemma draw_0 [simp]: "draw pin n 0 = n"
  by (simp add: draw_def)

lemma draw_Suc: "draw pin (bit_end pin n) i = draw pin n (Suc i)"
  by (simp add: draw_def funpow_swap1)

lemma draw_add: "draw pin (draw pin n i) j = draw pin n (i + j)"
  by (simp add: draw_def funpow_add add.commute [of i j])

lemma draw_moves: "n + 2 * i \<le> draw pin n i"
proof (induction i)
  case (Suc i)
  have "draw pin n (Suc i) = bit_end pin (draw pin n i)" by (simp add: draw_def)
  then show ?case using Suc.IH by (simp add: bit_end_def)
qed simp

lemma shifted_bit: "k < 8 \<Longrightarrow> bit (push_bit 1 (v :: u8) OR of_bool b) k = (if k = 0 then b else bit v (k - 1))"
  unfolding bit_or_iff bit_push_bit_iff by (cases k) (auto simp: bit_0 elim: oddE)

lemma RNG_bits_noisy:
  assumes "noisy pin" and "i \<le> 8"
  shows "\<exists>w. RNG_bits pin i v n = Some (w, draw pin n i) \<and>
    (\<forall>j < 8. bit w j = (if j < i then run_bit pin (draw pin n (i - 1 - j)) else bit v (j - i)))"
  using assms(2)
proof (induction i arbitrary: v n)
  case (Suc i)
  let ?m = "bit_end pin n" and ?v = "push_bit 1 v OR of_bool (run_bit pin n)"
  obtain w where w: "RNG_bits pin i ?v ?m = Some (w, draw pin ?m i)"
    "\<forall>j < 8. bit w j = (if j < i then run_bit pin (draw pin ?m (i - 1 - j)) else bit ?v (j - i))"
    using Suc.IH [of ?v ?m] Suc.prems by auto
  have "bit w j = (if j < Suc i then run_bit pin (draw pin n (Suc i - 1 - j)) else bit v (j - Suc i))" if "j < 8" for j
  proof (cases "j < i")
    case True
    then have "Suc (i - 1 - j) = Suc i - 1 - j" by simp
    then show ?thesis using True w(2) that by (simp add: draw_Suc)
  next
    case False
    then have "bit w j = bit ?v (j - i)" using w(2) that by simp
    also have "\<dots> = (if j - i = 0 then run_bit pin n else bit v (j - i - 1))" by (rule shifted_bit) (use that in simp)
    finally show ?thesis using False by (cases "j = i") simp_all
  qed
  then show ?case using w(1) by (simp add: RNG_bit_noisy [OF assms(1)] draw_Suc)
qed simp

lemma RNG_noisy:
  assumes "noisy pin"
  shows "\<exists>bytes. RNG pin len n = Some (bytes, draw pin n (8 * len)) \<and> length bytes = len \<and>
    (\<forall>b < len. \<forall>j < 8. bit (bytes ! b) j = run_bit pin (draw pin n (8 * b + (7 - j))))"
proof (induction len arbitrary: n)
  case (Suc len)
  obtain w where w: "RNG_bits pin 8 0 n = Some (w, draw pin n 8)"
    "\<forall>j < 8. bit w j = run_bit pin (draw pin n (7 - j))"
    using RNG_bits_noisy [OF assms, of 8 0 n] by auto
  obtain bytes where b: "RNG pin len (draw pin n 8) = Some (bytes, draw pin (draw pin n 8) (8 * len))" "length bytes = len"
    "\<forall>b < len. \<forall>j < 8. bit (bytes ! b) j = run_bit pin (draw pin (draw pin n 8) (8 * b + (7 - j)))"
    using Suc.IH by blast
  have "bit ((w # bytes) ! b) j = run_bit pin (draw pin n (8 * b + (7 - j)))" if "b < Suc len" "j < 8" for b j
    using that w(2) b(3) by (cases b) (simp_all add: draw_add)
  moreover have "RNG pin (Suc len) n = Some (w # bytes, draw pin n (8 * Suc len))"
    using w(1) b(1) by (simp add: draw_add)
  ultimately show ?case using b(2) by (intro exI [of _ "w # bytes"]) simp
qed simp

lemma RNG_dead:
  assumes "\<forall>m \<ge> n. pin m = pin n" and "0 < len"
  shows "RNG pin len n = None"
proof -
  have "RNG_count pin (pin n) 0 (Suc n) = None"
  proof (rule ccontr)
    assume "RNG_count pin (pin n) 0 (Suc n) \<noteq> None"
    then obtain r where "RNG_count pin (pin n) 0 (Suc n) = Some r" by blast
    from RNG_count_changed [OF this] have "Suc n < snd r" "pin (snd r - 1) \<noteq> pin n" by simp_all
    moreover have "n \<le> snd r - 1" using \<open>Suc n < snd r\<close> by simp
    ultimately show False using assms(1) by blast
  qed
  then have "RNG_bits pin 8 0 n = None" by (simp add: eval_nat_numeral RNG_bit_def)
  then show ?thesis using assms(2) by (cases len) simp_all
qed

text \<open>C26. Random numbers for keys need noise: if the reading of the pin changes again and again, \<open>RNG\<close> returns the bytes
  asked for, each bit the parity of a reading or of the length of the run of equal readings after it, most
  significant first, from at least two readings a bit. On a pin whose reading no longer changes it
  never returns.\<close>
theorem key_entropy_needs_noise:
  "(noisy pin \<longrightarrow> (\<exists>bytes. RNG pin len n = Some (bytes, draw pin n (8 * len)) \<and> length bytes = len \<and> n + 16 * len \<le> draw pin n (8 * len) \<and>
      (\<forall>b < len. \<forall>j < 8. bit (bytes ! b) j = run_bit pin (draw pin n (8 * b + (7 - j)))))) \<and>
   ((\<forall>m \<ge> n. pin m = pin n) \<and> 0 < len \<longrightarrow> RNG pin len n = None)"
proof (intro conjI impI)
  have "n + 16 * len \<le> draw pin n (8 * len)" using draw_moves [of n "8 * len" pin] by simp
  moreover assume "noisy pin"
  ultimately show "\<exists>bytes. RNG pin len n = Some (bytes, draw pin n (8 * len)) \<and> length bytes = len \<and> n + 16 * len \<le> draw pin n (8 * len) \<and>
      (\<forall>b < len. \<forall>j < 8. bit (bytes ! b) j = run_bit pin (draw pin n (8 * b + (7 - j))))"
    using RNG_noisy [of pin len n] by blast
next
  assume "(\<forall>m \<ge> n. pin m = pin n) \<and> 0 < len"
  then show "RNG pin len n = None" using RNG_dead by blast
qed

lemma alternating_noisy: "noisy (\<lambda>n. int (n mod 2))"
proof -
  have "\<exists>m > n. int (m mod 2) \<noteq> int (n mod 2)" for n :: nat
    by (rule exI [of _ "Suc n"]) (simp add: mod_Suc)
  then show ?thesis by (simp add: noisy_def)
qed

theorem key_entropy_needs_noise_witness:
  "(\<exists>bytes m. RNG (\<lambda>n. int (n mod 2)) 20 0 = Some (bytes, m) \<and> length bytes = 20) \<and> RNG (\<lambda>_. 512) 20 0 = None"
proof -
  have "\<exists>bytes. RNG (\<lambda>n. int (n mod 2)) 20 0 = Some (bytes, draw (\<lambda>n. int (n mod 2)) 0 (8 * 20)) \<and> length bytes = 20"
    using key_entropy_needs_noise [of "\<lambda>n. int (n mod 2)" 20 0] alternating_noisy by blast
  moreover have "RNG (\<lambda>_. 512) 20 0 = None"
    by (rule key_entropy_needs_noise [THEN conjunct2, THEN mp]) simp
  ultimately show ?thesis by blast
qed

end
