(* ===== verification/Timed_Hop.thy ===== *)
theory Timed_Hop
  imports Link_Helpers
begin

text \<open>
  The timed hopper of \<open>src/src/Services/Link/LoLaLinkTimedHopper.h\<close> with its two build options,
  \<open>LOLA_LINK_USE_TOKEN_HOP\<close> and \<open>LOLA_LINK_USE_FREQUENCY_HOP\<close>. The repository has both commented out; the
  operations of \<open>Link_Helpers\<close> are those of that build, as the first lemmas say.
\<close>

section \<open>The operations\<close>

record hop_options =
  USE_TOKEN_HOP :: bool
  USE_FREQUENCY_HOP :: bool

definition Hop_OnLinkEstablished ::
  "hop_options \<Rightarrow> platform \<Rightarrow> LoLaLinkTimedHopper \<Rightarrow> Driver \<Rightarrow> LoLaLinkTimedHopper \<times> Driver" where
  "Hop_OnLinkEstablished B P h d =
     (if HopperSetupOk h then
        (h\<lparr>HopperEnabled := True, HopperNextRun := RunASAP\<rparr>,
         if USE_TOKEN_HOP B then d
         else d\<lparr>CryptoEncoder := Encoder_SetToken P (TokenSource_GetSeed (CryptoSeed h)) (CryptoEncoder d)\<rparr>)
      else (h, d))"

definition Hop_SetCurrent :: "hop_options \<Rightarrow> platform \<Rightarrow> u32 \<Rightarrow> Driver \<Rightarrow> Driver" where
  "Hop_SetCurrent B P token d =
     (let d1 = (if USE_TOKEN_HOP B then d\<lparr>CryptoEncoder := Encoder_SetToken P token (CryptoEncoder d)\<rparr> else d)
      in if USE_FREQUENCY_HOP B then Channel_SetNextHop P (ucast (token AND 0xFF)) d1 else d1)"

definition Hop_Callback :: "hop_options \<Rightarrow> platform \<Rightarrow> LoLaLinkTimedHopper \<Rightarrow> Driver \<Rightarrow> bool \<times> LoLaLinkTimedHopper \<times> Driver" where
  "Hop_Callback B P h d =
     (let d1 = Hop_SetCurrent B P (TokenSource_GetToken (Hopper_GetSyncMillis P d) (CryptoSeed h)) d;
          period = LOLA_LINK_SERVICE_LINKED_TIMED_HOP_PERIOD_MILLIS
      in (True, h\<lparr>HopperNextRun := RunAfter (period - Hopper_GetSyncMillis P d1 mod period)\<rparr>, d1))"

abbreviation no_hop :: hop_options where
  "no_hop \<equiv> \<lparr> USE_TOKEN_HOP = False, USE_FREQUENCY_HOP = False \<rparr>"

lemma no_hop_is_default:
  "Hop_OnLinkEstablished no_hop P h d = Hopper_OnLinkEstablished P h d"
  "Hop_Callback no_hop P h d = (fst (Hopper_Callback P d h), snd (Hopper_Callback P d h), d)"
  by (simp_all add: Hop_OnLinkEstablished_def Hopper_OnLinkEstablished_def Hop_Callback_def Hop_SetCurrent_def Hopper_Callback_def Let_def)

section \<open>Two ends hop together\<close>

text \<open>A node's hopper with its driver, and its ticks at the moments given.\<close>

fun hops :: "hop_options \<Rightarrow> platform list \<Rightarrow> LoLaLinkTimedHopper \<times> Driver \<Rightarrow> LoLaLinkTimedHopper \<times> Driver" where
  "hops B [] x = x"
| "hops B (P # ps) (h, d) = hops B ps (snd (Hop_Callback B P h d))"

definition hop_number :: "platform \<Rightarrow> Driver \<Rightarrow> u32" where
  "hop_number P d = Hopper_GetSyncMillis P d div LOLA_LINK_SERVICE_LINKED_TIMED_HOP_PERIOD_MILLIS"

definition same_hash :: "platform \<Rightarrow> platform \<Rightarrow> bool" where
  "same_hash P Q \<longleftrightarrow> hash_update P = hash_update Q \<and> hash_finalize P = hash_finalize Q"

text \<open>What both ends must have in common: the token, the state of the hash and the channel.\<close>

definition hop_together :: "LoLaLinkTimedHopper \<times> Driver \<Rightarrow> LoLaLinkTimedHopper \<times> Driver \<Rightarrow> bool" where
  "hop_together x y \<longleftrightarrow> CryptoSeed (fst x) = CryptoSeed (fst y) \<and>
     TOTPPeriodMillis (CryptoSeed (fst x)) = LOLA_LINK_SERVICE_LINKED_TIMED_HOP_PERIOD_MILLIS \<and>
     TokenHolder (CryptoEncoder (snd x)) = TokenHolder (CryptoEncoder (snd y)) \<and>
     Hasher (CryptoEncoder (snd x)) = Hasher (CryptoEncoder (snd y)) \<and> CurrentChannel (snd x) = CurrentChannel (snd y)"

lemma SetChannel_current [simp]: "CurrentChannel (Driver_SetChannel P c d) = c"
  by (simp add: Driver_SetChannel_def Driver_OnChannelUpdated_def Driver_RestoreToReceiving_def Driver_SetToReceiving_def
      Driver_AddAsyncAction_def)

lemma Hop_SetCurrent_fields [simp]:
  "SyncedClock (Hop_SetCurrent B P t d) = SyncedClock d"
  "CurrentChannel (Hop_SetCurrent B P t d) = (if USE_FREQUENCY_HOP B then Channel_hop (ucast (t AND 0xFF)) else CurrentChannel d)"
  "CryptoEncoder (Hop_SetCurrent B P t d) = (if USE_TOKEN_HOP B then Encoder_SetToken P t (CryptoEncoder d) else CryptoEncoder d)"
  by (simp_all add: Hop_SetCurrent_def Channel_SetNextHop_def Let_def)

lemma sync_millis_same: "SyncedClock d = SyncedClock e \<Longrightarrow> Hopper_GetSyncMillis P d = Hopper_GetSyncMillis P e"
  by (simp add: Hopper_GetSyncMillis_def Driver_GetSyncMicros_def)

lemma Callback_together:
  assumes "hop_together (h, d) (k, e)" and "same_hash P Q" and "hop_number P d = hop_number Q e"
  shows "hop_together (snd (Hop_Callback B P h d)) (snd (Hop_Callback B Q k e))"
proof -
  have c: "CryptoSeed h = CryptoSeed k" "TOTPPeriodMillis (CryptoSeed k) = LOLA_LINK_SERVICE_LINKED_TIMED_HOP_PERIOD_MILLIS"
    using assms(1) by (auto simp: hop_together_def)
  have t: "TokenSource_GetToken (Hopper_GetSyncMillis P d) (CryptoSeed h) = TokenSource_GetToken (Hopper_GetSyncMillis Q e) (CryptoSeed k)"
    using assms(3) c by (simp add: hop_number_def TokenSource_GetToken_def)
  show ?thesis
    using assms(1,2) t c by (auto simp: hop_together_def Hop_Callback_def Let_def Encoder_SetToken_def same_hash_def case_prod_unfold)
qed

lemma to_next_multiple:
  assumes "0 < (m :: nat)"
  shows "(x + (m - x mod m)) mod m = 0"
proof -
  define q r where "q = x div m" and "r = x mod m"
  have "x = m * q + r" "r < m" using assms by (simp_all add: q_def r_def)
  then have "x + (m - r) = m * (q + 1)" by (simp add: distrib_left)
  then show ?thesis unfolding r_def by simp
qed

text \<open>The next tick is due at the start of the next period.\<close>

lemma next_hop:
  assumes "Hop_Callback B P h d = (ok, h', d')"
  obtains r where "HopperNextRun h' = RunAfter r" and "0 < r" and "r \<le> LOLA_LINK_SERVICE_LINKED_TIMED_HOP_PERIOD_MILLIS"
    and "(unat (Hopper_GetSyncMillis P d) + unat r) mod 10000 = 0"
proof -
  let ?t = "Hopper_GetSyncMillis P d"
  have t: "Hopper_GetSyncMillis P (Hop_SetCurrent B P x d) = ?t" for x by (rule sync_millis_same) simp
  have m: "unat (?t mod 10000) = unat ?t mod 10000" by (simp add: unat_mod_distrib)
  have "unat ?t mod 10000 < 10000" by simp
  then have l: "?t mod 10000 \<le> 10000" using m by (simp add: word_le_nat_alt)
  have u: "unat (10000 - ?t mod 10000) = 10000 - unat ?t mod 10000" using l m by (simp add: unat_sub)
  have "HopperNextRun h' = RunAfter (10000 - ?t mod 10000)"
    using assms t by (auto simp: Hop_Callback_def Let_def lola_consts)
  moreover have "0 < 10000 - ?t mod 10000" using u by (simp add: word_less_nat_alt)
  moreover have "10000 - ?t mod 10000 \<le> 10000" using u by (simp add: word_le_nat_alt)
  moreover have "(unat ?t + (10000 - unat ?t mod 10000)) mod 10000 = 0"
    by (rule to_next_multiple) simp
  ultimately show ?thesis using u by (intro that [of "10000 - ?t mod 10000"]) (simp_all add: lola_consts)
qed

lemma hops_clock: "SyncedClock (snd (hops B ps (h, d))) = SyncedClock d"
  by (induction ps arbitrary: h d) (simp_all add: Hop_Callback_def Let_def)

lemma hops_together:
  assumes "hop_together (h, d) (k, e)" and "list_all2 same_hash ps qs"
    and "list_all2 (\<lambda>P Q. hop_number P d = hop_number Q e) ps qs"
  shows "hop_together (hops B ps (h, d)) (hops B qs (k, e))"
  using assms(2,1,3)
proof (induction arbitrary: h d k e rule: list_all2_induct)
  case (Cons P ps Q qs)
  obtain h' d' k' e' where n: "snd (Hop_Callback B P h d) = (h', d')" "snd (Hop_Callback B Q k e) = (k', e')" by (metis surj_pair)
  have "SyncedClock d' = SyncedClock d" "SyncedClock e' = SyncedClock e"
    using n by (auto simp: Hop_Callback_def Let_def)
  then have c: "hop_number P d' = hop_number P d" "hop_number P e' = hop_number P e" for P
    by (simp_all add: hop_number_def Hopper_GetSyncMillis_def Driver_GetSyncMicros_def)
  have "hop_together (h', d') (k', e')"
    using Callback_together [OF Cons.prems(1) Cons.hyps(1), of B] Cons.prems(2) n by simp
  then have "hop_together (hops B ps (h', d')) (hops B qs (k', e'))"
    using Cons.prems(2) by (intro Cons.IH) (simp_all add: c)
  then show ?case using n by simp
qed simp

text \<open>C27. With token and frequency hopping built in, two ends that start a link with the same seed, token, hash and channel
  have the same token and the same channel after every number of ticks, as long as each pair of
  ticks falls into the same period of their clocks; and each tick asks for the next one at the start of
  the next period.\<close>
theorem timed_hop_agrees:
  assumes "hop_together (h, d) (k, e)" and "list_all2 same_hash ps qs"
    and "list_all2 (\<lambda>P Q. hop_number P d = hop_number Q e) ps qs"
  shows "hop_together (hops B ps (h, d)) (hops B qs (k, e)) \<and>
    (\<exists>r. HopperNextRun (fst (snd (Hop_Callback B P h d))) = RunAfter r \<and> 0 < r \<and>
      r \<le> LOLA_LINK_SERVICE_LINKED_TIMED_HOP_PERIOD_MILLIS \<and> (unat (Hopper_GetSyncMillis P d) + unat r) mod 10000 = 0)"
proof -
  obtain ok h' d' where c: "Hop_Callback B P h d = (ok, h', d')" by (metis surj_pair)
  obtain r where "HopperNextRun h' = RunAfter r" "0 < r" "r \<le> LOLA_LINK_SERVICE_LINKED_TIMED_HOP_PERIOD_MILLIS"
    "(unat (Hopper_GetSyncMillis P d) + unat r) mod 10000 = 0" by (rule next_hop [OF c])
  then show ?thesis using hops_together [OF assms, of B] c by auto
qed

abbreviation full_hop :: hop_options where
  "full_hop \<equiv> \<lparr> USE_TOKEN_HOP = True, USE_FREQUENCY_HOP = True \<rparr>"

theorem timed_hop_agrees_witness:
  "CurrentChannel (snd (hops full_hop [sample_platform, sample_platform] (snd (Hopper_Setup Hopper_new), Driver_new))) =
   CurrentChannel (snd (hops full_hop [sample_platform, sample_platform] (snd (Hopper_Setup Hopper_new), Driver_new\<lparr>EvenSlot := True\<rparr>)))"
proof -
  let ?h = "snd (Hopper_Setup Hopper_new)" and ?ps = "[sample_platform, sample_platform]"
  have t: "hop_together (?h, Driver_new) (?h, Driver_new\<lparr>EvenSlot := True\<rparr>)"
    by (simp add: hop_together_def Hopper_Setup_def TokenSource_SetTOTPPeriod_def)
  have "list_all2 same_hash ?ps ?ps" by (simp add: same_hash_def)
  moreover have "list_all2 (\<lambda>P Q. hop_number P Driver_new = hop_number Q (Driver_new\<lparr>EvenSlot := True\<rparr>)) ?ps ?ps"
    by (simp add: hop_number_def Hopper_GetSyncMillis_def Driver_GetSyncMicros_def)
  ultimately have "hop_together (hops full_hop ?ps (?h, Driver_new)) (hops full_hop ?ps (?h, Driver_new\<lparr>EvenSlot := True\<rparr>))"
    by (rule timed_hop_agrees [OF t, THEN conjunct1])
  then show ?thesis unfolding hop_together_def by blast
qed

section \<open>The tokens come back\<close>

text \<open>A session knows at most 430 time based tokens, whatever its clock reads: the clock behind the period counter is a
  32 bit count of microseconds, so the counter starts again after 72 minutes.\<close>
theorem hop_tokens_few:
  "card {TokenSource_GetToken (Hopper_GetSyncMillis P d) (CryptoSeed (snd (Hopper_Setup h))) | P d. True} \<le> 430"
proof -
  let ?S = "{TokenSource_GetToken (Hopper_GetSyncMillis P d) (CryptoSeed (snd (Hopper_Setup h))) | P d. True}"
  let ?f = "\<lambda>k. (of_nat k :: u32) XOR TOTPSeed (CryptoSeed h)"
  have "TokenSource_GetToken (Hopper_GetSyncMillis P d) (CryptoSeed (snd (Hopper_Setup h))) \<in> ?f ` {..<430}" for P d
  proof (rule image_eqI)
    let ?k = "unat (Hopper_GetSyncMillis P d div 10000)"
    show "TokenSource_GetToken (Hopper_GetSyncMillis P d) (CryptoSeed (snd (Hopper_Setup h))) = ?f ?k"
      by (simp add: TokenSource_GetToken_def Hopper_Setup_def TokenSource_SetTOTPPeriod_def lola_consts)
    have "unat (Driver_GetSyncMicros P d) < 2 ^ 32" using unsigned_less [of "Driver_GetSyncMicros P d"] by simp
    then show "?k \<in> {..<430}" by (simp add: Hopper_GetSyncMillis_def unat_div)
  qed
  then have "?S \<subseteq> ?f ` {..<430}" by auto
  then have "card ?S \<le> card (?f ` {..<430})" by (rule card_mono [rotated]) simp
  also have "\<dots> \<le> card {..<430 :: nat}" by (rule card_image_le) simp
  finally show ?thesis by simp
qed

end
