(* ===== verification/Radio_Scanner.thy ===== *)
theory Radio_Scanner
  imports LoLa_Prelude
begin

text \<open>
  \<open>src/src/Diagnostics/RadioScanner.h\<close>: one pass over the channels, 20 readings of the signal strength
  each, for the channel with the strongest and the one with the weakest reading. The readings, which
  the radio library gives, are a function of channel and number; the time the pass takes is only printed.
  The code keeps its result in local variables that nothing reads.
\<close>

record candidate =
  Rssi :: int
  Channel :: nat

definition Scan_peak_reading :: "nat \<Rightarrow> candidate \<Rightarrow> int \<Rightarrow> candidate" where
  "Scan_peak_reading i c rssi = (if rssi > Rssi c then \<lparr> Rssi = rssi, Channel = i \<rparr> else c)"

definition Scan_valley_reading :: "nat \<Rightarrow> candidate \<Rightarrow> int \<Rightarrow> candidate" where
  "Scan_valley_reading i c rssi = (if rssi < Rssi c then \<lparr> Rssi = rssi, Channel = i \<rparr> else c)"

definition no_peak :: candidate where
  "no_peak = \<lparr> Rssi = - 999, Channel = 0 \<rparr>"

definition no_valley :: candidate where
  "no_valley = \<lparr> Rssi = 0, Channel = 0 \<rparr>"

definition Scan_channel :: "nat \<Rightarrow> int list \<Rightarrow> candidate \<times> candidate" where
  "Scan_channel i readings =
     foldl (\<lambda>(p, v) rssi. (Scan_peak_reading i p rssi, Scan_valley_reading i v rssi)) (no_peak, no_valley) readings"

definition Scan_step :: "(nat \<Rightarrow> nat \<Rightarrow> int) \<Rightarrow> candidate \<times> candidate \<Rightarrow> nat \<Rightarrow> candidate \<times> candidate" where
  "Scan_step r s i =
     (let (peak, valley) = s; (p, v) = Scan_channel i (map (r i) [0..<20])
      in (if Rssi p > Rssi peak then p else peak, if Rssi v < Rssi valley then v else valley))"

definition Scan :: "(nat \<Rightarrow> nat \<Rightarrow> int) \<Rightarrow> candidate \<times> candidate" where
  "Scan r = foldl (Scan_step r) (no_peak, no_valley) [0..<255]"

section \<open>The first best\<close>

text \<open>Peak and valley are the same search, with the order turned round.\<close>

definition first_best :: "int \<Rightarrow> (nat \<Rightarrow> nat \<Rightarrow> int) \<Rightarrow> nat \<Rightarrow> candidate \<Rightarrow> candidate \<Rightarrow> bool" where
  "first_best g r n c0 c \<longleftrightarrow>
     (c = c0 \<and> (\<forall>i < n. \<forall>j < 20. g * r i j \<le> g * Rssi c0)) \<or>
     (Channel c < n \<and> (\<exists>j < 20. r (Channel c) j = Rssi c) \<and> g * Rssi c0 < g * Rssi c \<and>
       (\<forall>i < n. \<forall>j < 20. g * r i j \<le> g * Rssi c) \<and> (\<forall>i < Channel c. \<forall>j < 20. g * r i j < g * Rssi c))"

lemma channel_best:
  assumes "\<And>c x. f c x = (if g * Rssi c < g * x then \<lparr> Rssi = x, Channel = i \<rparr> else c)"
  shows "(foldl f c0 xs = c0 \<and> (\<forall>x \<in> set xs. g * x \<le> g * Rssi c0)) \<or>
    (Channel (foldl f c0 xs) = i \<and> Rssi (foldl f c0 xs) \<in> set xs \<and> g * Rssi c0 < g * Rssi (foldl f c0 xs) \<and>
      (\<forall>x \<in> set xs. g * x \<le> g * Rssi (foldl f c0 xs)))"
proof (induction xs rule: rev_induct)
  case (snoc x xs)
  then show ?case by (auto simp: assms)
qed simp

lemma best_step:
  assumes s: "first_best g r n c0 s"
    and p: "(p = c0 \<and> (\<forall>x \<in> set (map (r n) [0..<20]). g * x \<le> g * Rssi c0)) \<or>
      (Channel p = n \<and> Rssi p \<in> set (map (r n) [0..<20]) \<and> g * Rssi c0 < g * Rssi p \<and>
        (\<forall>x \<in> set (map (r n) [0..<20]). g * x \<le> g * Rssi p))"
  shows "first_best g r (Suc n) c0 (if g * Rssi s < g * Rssi p then p else s)"
proof -
  have all: "(\<forall>x \<in> set (map (r n) [0..<20]). P x) \<longleftrightarrow> (\<forall>j < 20. P (r n j))" for P by auto
  have mem: "y \<in> set (map (r n) [0..<20]) \<longleftrightarrow> (\<exists>j < 20. r n j = y)" for y by auto
  have le: "g * Rssi c0 \<le> g * Rssi s" using s by (auto simp: first_best_def)
  have up: "(\<forall>i < Suc n. \<forall>j < 20. Q i j) \<longleftrightarrow> (\<forall>i < n. \<forall>j < 20. Q i j) \<and> (\<forall>j < 20. Q n j)" for Q :: "nat \<Rightarrow> nat \<Rightarrow> bool"
    by (auto simp: less_Suc_eq)
  show ?thesis
  proof (cases "g * Rssi s < g * Rssi p")
    case True
    then have P: "Channel p = n" "\<exists>j < 20. r n j = Rssi p" "\<forall>j < 20. g * r n j \<le> g * Rssi p"
      using p le unfolding all mem by auto
    have "\<forall>i < n. \<forall>j < 20. g * r i j \<le> g * Rssi s" using s by (auto simp: first_best_def)
    then have "\<forall>i < n. \<forall>j < 20. g * r i j < g * Rssi p" using True by (meson le_less_trans)
    then show ?thesis using True P le by (simp add: first_best_def up) (meson less_imp_le)
  next
    case False
    have "\<forall>j < 20. g * r n j \<le> g * Rssi s" using p False le unfolding all by (auto intro: order_trans)
    then show ?thesis using False s by (auto simp: first_best_def up)
  qed
qed

lemma foldl_pair: "foldl (\<lambda>(a, b) x. (f a x, g b x)) (a, b) xs = (foldl f a xs, foldl g b xs)"
  by (induction xs arbitrary: a b) simp_all

lemma Scan_channel_eq: "Scan_channel i xs = (foldl (Scan_peak_reading i) no_peak xs, foldl (Scan_valley_reading i) no_valley xs)"
  by (simp only: Scan_channel_def foldl_pair)

lemma Scan_best: "first_best 1 r n no_peak (fst (foldl (Scan_step r) (no_peak, no_valley) [0..<n])) \<and>
  first_best (- 1) r n no_valley (snd (foldl (Scan_step r) (no_peak, no_valley) [0..<n]))"
proof (induction n)
  case 0
  then show ?case by (simp add: first_best_def)
next
  case (Suc n)
  let ?s = "foldl (Scan_step r) (no_peak, no_valley) [0..<n]" and ?xs = "map (r n) [0..<20]"
  let ?p = "foldl (Scan_peak_reading n) no_peak ?xs" and ?v = "foldl (Scan_valley_reading n) no_valley ?xs"
  have "Scan_step r ?s n = (if 1 * Rssi (fst ?s) < 1 * Rssi ?p then ?p else fst ?s,
      if - 1 * Rssi (snd ?s) < - 1 * Rssi ?v then ?v else snd ?s)"
    by (simp add: Scan_step_def Scan_channel_eq case_prod_unfold Let_def)
  moreover have "first_best 1 r (Suc n) no_peak (if 1 * Rssi (fst ?s) < 1 * Rssi ?p then ?p else fst ?s)"
    by (rule best_step [OF Suc.IH [THEN conjunct1] channel_best]) (simp add: Scan_peak_reading_def)
  moreover have "first_best (- 1) r (Suc n) no_valley (if - 1 * Rssi (snd ?s) < - 1 * Rssi ?v then ?v else snd ?s)"
    by (rule best_step [OF Suc.IH [THEN conjunct2] channel_best]) (simp add: Scan_valley_reading_def)
  ultimately show ?case by simp
qed

text \<open>C29. A scan finds the extremes: for readings between -999 and 0 its peak is the greatest reading of all channels and the
  first channel that has it, its valley the least reading and the first channel that has that one.\<close>
theorem scan_finds_extremes:
  assumes "\<forall>i < 255. \<forall>j < 20. - 999 < r i j \<and> r i j < 0" and "Scan r = (p, v)"
  shows "Rssi p = Max {r i j | i j. i < 255 \<and> j < 20} \<and> Channel p = (LEAST i. i < 255 \<and> (\<exists>j < 20. r i j = Rssi p)) \<and>
    Rssi v = Min {r i j | i j. i < 255 \<and> j < 20} \<and> Channel v = (LEAST i. i < 255 \<and> (\<exists>j < 20. r i j = Rssi v))"
proof -
  let ?S = "{r i j | i j. i < (255 :: nat) \<and> j < (20 :: nat)}"
  have "?S = (\<lambda>(i, j). r i j) ` ({..<255} \<times> {..<20})" by auto
  then have fin: "finite ?S" by simp
  have b: "first_best 1 r 255 no_peak p" "first_best (- 1) r 255 no_valley v"
    using Scan_best [of r 255] assms(2) by (simp_all add: Scan_def)
  have "r 0 0 \<le> - 999" if "\<forall>i < 255. \<forall>j < 20. 1 * r i j \<le> 1 * Rssi no_peak"
    using that [rule_format, of 0 0] by (simp add: no_peak_def)
  moreover have "0 \<le> r 0 0" if "\<forall>i < 255. \<forall>j < 20. - 1 * r i j \<le> - 1 * Rssi no_valley"
    using that [rule_format, of 0 0] by (simp add: no_valley_def)
  moreover have "- 999 < r 0 0" "r 0 0 < 0" using assms(1) by simp_all
  ultimately have P: "Channel p < 255" "\<exists>j < 20. r (Channel p) j = Rssi p" "\<forall>i < 255. \<forall>j < 20. r i j \<le> Rssi p"
      "\<forall>i < Channel p. \<forall>j < 20. r i j < Rssi p"
    and V: "Channel v < 255" "\<exists>j < 20. r (Channel v) j = Rssi v" "\<forall>i < 255. \<forall>j < 20. Rssi v \<le> r i j"
      "\<forall>i < Channel v. \<forall>j < 20. Rssi v < r i j"
    using b unfolding first_best_def by auto
  have m: "Rssi p \<in> ?S" "Rssi v \<in> ?S" using P(1,2) V(1,2) unfolding mem_Collect_eq by metis+
  have le: "y \<le> Rssi p" "Rssi v \<le> y" if "y \<in> ?S" for y using that P(3) V(3) by auto
  have "Rssi p = Max ?S" by (rule Max_eqI [OF fin le(1) m(1), symmetric])
  moreover have "Rssi v = Min ?S" by (rule Min_eqI [OF fin le(2) m(2), symmetric])
  moreover have "Channel p = (LEAST i. i < 255 \<and> (\<exists>j < 20. r i j = Rssi p))"
  proof (rule Least_equality [symmetric])
    show "Channel p \<le> i" if "i < 255 \<and> (\<exists>j < 20. r i j = Rssi p)" for i using that P(4) by (metis less_irrefl not_less)
  qed (use P in blast)
  moreover have "Channel v = (LEAST i. i < 255 \<and> (\<exists>j < 20. r i j = Rssi v))"
  proof (rule Least_equality [symmetric])
    show "Channel v \<le> i" if "i < 255 \<and> (\<exists>j < 20. r i j = Rssi v)" for i using that V(4) by (metis less_irrefl not_less)
  qed (use V in blast)
  ultimately show ?thesis by blast
qed

definition sample_readings :: "nat \<Rightarrow> nat \<Rightarrow> int" where
  "sample_readings i j = (if i = 7 then - 20 else - 90)"

theorem scan_finds_extremes_witness:
  "\<exists>p v. Scan sample_readings = (p, v) \<and> Rssi p = Max {sample_readings i j | i j. i < 255 \<and> j < 20} \<and>
     Rssi v = Min {sample_readings i j | i j. i < 255 \<and> j < 20}"
proof -
  obtain p v where s: "Scan sample_readings = (p, v)" by fastforce
  have "\<forall>i < 255. \<forall>j < 20. - 999 < sample_readings i j \<and> sample_readings i j < 0" by (simp add: sample_readings_def)
  from scan_finds_extremes [OF this s] s show ?thesis by blast
qed

end
