(* ===== verification/Link_Apps.thy ===== *)
theory Link_Apps
  imports Link_Node
begin

text \<open>
  The link service and the services beside it: no operation of the link service touches what belongs
  to the application, except that entering \<open>Linked\<close> and leaving it notifies the other services. So
  whatever the notifications establish (\<open>I True\<close> when the link comes up, \<open>I False\<close> when it is lost)
  holds in every state of a node according to whether it is linked.
\<close>

section \<open>What follows the link\<close>

definition follows :: "(bool \<Rightarrow> 'a LoLaLinkService_scheme \<Rightarrow> bool) \<Rightarrow> 'a LoLaLinkService_scheme \<Rightarrow> bool" where
  "follows I s \<longleftrightarrow> I (GetLinkState s = Linked) s"

lemma more_frames [simp]:
  "LoLaLinkService.more (Service_SetNextRunASAP s) = LoLaLinkService.more s"
  "LoLaLinkService.more (Service_SetNextRunDelay n s) = LoLaLinkService.more s"
  "LoLaLinkService.more (Link_ResetLastSentTimeStamp s) = LoLaLinkService.more s"
  "LoLaLinkService.more (Link_ResetStateStartTime P s) = LoLaLinkService.more s"
  "LoLaLinkService.more (Link_SetLinkingState x s) = LoLaLinkService.more s"
  "LoLaLinkService.more (on_info f s) = LoLaLinkService.more s"
  "LoLaLinkService.more (on_keys k s) = LoLaLinkService.more s"
  "LoLaLinkService.more (on_seed g s) = LoLaLinkService.more s"
  "LoLaLinkService.more (on_drv q s) = LoLaLinkService.more s"
  "LoLaLinkService.more (on_encoder e s) = LoLaLinkService.more s"
  "LoLaLinkService.more (on_info_drv r s) = LoLaLinkService.more s"
  "LoLaLinkService.more (snd (on_info_result h s)) = LoLaLinkService.more s"
  "LoLaLinkService.more (snd (on_drv_result q' s)) = LoLaLinkService.more s"
  "LoLaLinkService.more (Link_Prepare def y s) = LoLaLinkService.more s"
  "LoLaLinkService.more (Link_SetPayload m bs s) = LoLaLinkService.more s"
  "LoLaLinkService.more (Link_PreparePing P s) = LoLaLinkService.more s"
  "LoLaLinkService.more (Link_PrepareReportPacket y s) = LoLaLinkService.more s"
  "LoLaLinkService.more (Link_PrepareShortPacket y z s) = LoLaLinkService.more s"
  "LoLaLinkService.more (Link_PrepareLongPacket y z s) = LoLaLinkService.more s"
  "LoLaLinkService.more (Link_PrepareShortPacketWithAck y s) = LoLaLinkService.more s"
  "LoLaLinkService.more (Link_S_ArrayToPayload w s) = LoLaLinkService.more s"
  "LoLaLinkService.more (Send_RequestSendPacket P t1 t2 s) = LoLaLinkService.more s"
  "LoLaLinkService.more (Send_ClearSendRequest s) = LoLaLinkService.more s"
  "LoLaLinkService.more (Link_PrepareLinkReport b s) = LoLaLinkService.more s"
  "LoLaLinkService.more (Link_PreparePublicKeyPacket y s) = LoLaLinkService.more s"
  "LoLaLinkService.more (snd (Link_SharedSecret P s)) = LoLaLinkService.more s"
  "LoLaLinkService.more (Link_OnSendOk P hh t s) = LoLaLinkService.more s"
  "LoLaLinkService.more (Link_OnSendFailed P s) = LoLaLinkService.more s"
  "LoLaLinkService.more (Link_OnLinkInfoReportReceived P rs c s) = LoLaLinkService.more s"
  "LoLaLinkService.more (snd (Send_ProcessSent hh s)) = LoLaLinkService.more s"
  "LoLaLinkService.more (snd (Send_ProcessAck hh i s)) = LoLaLinkService.more s"
  by (simp_all add: link_op_defs on_info_result_def on_info_drv_def on_drv_result_def Link_PrepareLinkReport_def
      Link_PreparePublicKeyPacket_def Link_SharedSecret_def Link_OnSendOk_def Link_OnSendFailed_def
      Link_OnLinkInfoReportReceived_def Send_ProcessSent_def Send_ProcessAck_def
      case_prod_unfold Let_def split: option.split)

lemma more_resend:
  "LoLaLinkService.more (prepare s) = LoLaLinkService.more s \<Longrightarrow>
    LoLaLinkService.more (Link_resend period prepare P s) = LoLaLinkService.more s"
  by (simp add: Link_resend_def)

text \<open>
  The contract: \<open>I\<close> looks at nothing of the link service, the virtual methods of the end leave it
  alone, and a notification establishes it.
\<close>

locale link_apps =
  fixes I :: "bool \<Rightarrow> 'a LoLaLinkService_scheme \<Rightarrow> bool"
    and N :: "platform \<Rightarrow> bool \<Rightarrow> 'a LoLaLinkService_scheme \<Rightarrow> 'a LoLaLinkService_scheme"
    and SH :: "'a LoLaLinkService_scheme session_hooks"
    and TH :: "'a LoLaLinkService_scheme state_hooks"
  assumes frame: "LoLaLinkService.more t = LoLaLinkService.more s \<Longrightarrow> I c t = I c s"
    and session: "I c (sh_SyncerReset SH P s) = I c s" "I c (sh_TransactionReset SH s) = I c s"
      "I c (sh_OnClearSession SH s) = I c s"
    and state: "I c (th_StampSynced TH P s) = I c s" "I c (th_OnLinkStateChanged TH P st s) = I c s"
    and notified: "I b s \<Longrightarrow> I c (N P c s)"
begin

lemma frames:
  "I c (Service_SetNextRunASAP s) = I c s" "I c (Service_SetNextRunDelay n s) = I c s"
  "I c (Link_SetLinkingState x s) = I c s" "I c (on_info f s) = I c s" "I c (on_keys k s) = I c s"
  "I c (on_seed g s) = I c s" "I c (on_drv q s) = I c s" "I c (on_encoder e s) = I c s" "I c (on_info_drv r s) = I c s"
  "I c (Link_ResetLastSentTimeStamp s) = I c s" "I c (Link_ResetStateStartTime P s) = I c s"
  "I c (s\<lparr>ReportPending := b\<rparr>) = I c s" "I c (s\<lparr>InfoSyncStage := y\<rparr>) = I c s"
  "I c (s\<lparr>PowerBalancer := pb\<rparr>) = I c s" "I c (s\<lparr>drv := d\<rparr>) = I c s" "I c (s\<lparr>ServiceEnabled := b\<rparr>) = I c s"
  by (rule frame; simp)+

lemma ClearSession_apps: "I c (Link_ClearSession SH P s) = I c s"
  by (simp add: Link_ClearSession_def Let_def session frames)

lemma EnterState_apps:
  assumes "I False s" and "\<And>t. I False t \<Longrightarrow> I False (nested t)"
  shows "I (st = Linked) (Link_EnterState nested N SH TH P st s)"
proof (cases st)
  case Linked
  let ?t = "on_drv Driver_ResetStatistics (th_StampSynced TH P (on_info_drv LinkInfo_StampLinkStarted s))"
  have "I False ?t" using assms(1) by (simp add: frames state)
  from notified [OF this, of True P] show ?thesis by (simp add: Linked Link_EnterState_def frames)
qed (use assms in \<open>simp_all add: Link_EnterState_def case_prod_unfold Let_def ClearSession_apps frames\<close>)

lemma ChangeState_apps:
  assumes "I b s" and "b \<Longrightarrow> GetLinkState s = Linked" and "\<And>t. I False t \<Longrightarrow> I False (nested t)" and "GetLinkState s \<noteq> st"
  shows "I (st = Linked) (Link_ChangeState nested N SH TH P st s)"
proof -
  define s1 where "s1 = Link_ResetLastSentTimeStamp (Link_ResetStateStartTime P s)"
  let ?t = "on_drv (Driver_OnStart P) (on_drv (Channel_ResetChannel P) (Link_ClearSession SH P s1))"
  have "I b ?t" using assms(1) by (simp only: s1_def frames ClearSession_apps)
  from notified [OF this, of False P] assms(1,2)
  have "I False (if GetLinkState s1 = Linked then N P False ?t else s1)"
    by (cases b) (simp_all add: s1_def frames)
  from EnterState_apps [OF this assms(3), where st = st and P = P] show ?thesis
    using assms(4) by (simp add: Link_ChangeState_def Let_def s1_def [symmetric] frames state)
qed

lemma UpdateLinkState_apps:
  assumes "follows I s"
  shows "follows I (Link_UpdateLinkState N SH TH P st s)"
proof (cases "GetLinkState s = st")
  case True
  then show ?thesis using assms by (simp add: Link_UpdateLinkState_def Link_ChangeState_def)
next
  case False
  have "I False (Link_ChangeState (\<lambda>t. t) N SH TH P AwaitingLink t)" if "I False t" for t
    using ChangeState_apps [OF that, where nested = "\<lambda>t. t" and st = AwaitingLink and P = P] that
    by (cases "GetLinkState t = AwaitingLink") (simp_all add: Link_ChangeState_def)
  from ChangeState_apps [OF assms [unfolded follows_def] _ this False]
  have "I (st = Linked) (Link_UpdateLinkState N SH TH P st s)" by (simp add: Link_UpdateLinkState_def)
  then show ?thesis by (simp only: follows_def UpdateLinkState_state)
qed

lemma follows_same: "LoLaLinkService.more t = LoLaLinkService.more s \<Longrightarrow> GetLinkState t = GetLinkState s \<Longrightarrow>
    follows I t = follows I s"
  using frame [of t s] by (simp add: follows_def)

end

text \<open>The whole link service, given that its role-specific handlers keep to the contract.\<close>

locale link_apps_end = link_apps I N SH TH
  for I :: "bool \<Rightarrow> 'a LoLaLinkService_scheme \<Rightarrow> bool"
    and N :: "platform \<Rightarrow> bool \<Rightarrow> 'a LoLaLinkService_scheme \<Rightarrow> 'a LoLaLinkService_scheme"
    and SH :: "'a LoLaLinkService_scheme session_hooks"
    and TH :: "'a LoLaLinkService_scheme state_hooks" +
  fixes LH :: "'a LoLaLinkService_scheme link_hooks"
  assumes handlers: "follows I s \<Longrightarrow> follows I (lk_OnLinking LH P s)"
      "follows I s \<Longrightarrow> follows I (snd (lk_OnAwaitingLink LH P s))"
      "follows I s \<Longrightarrow> follows I (lk_OnKeepingLink LH P s)"
      "follows I s \<Longrightarrow> follows I (lk_OnLinkDiscoveryReceived LH P s)"
      "follows I s \<Longrightarrow> follows I (lk_OnPKCRequestReceived LH P i x s)"
      "follows I s \<Longrightarrow> follows I (lk_OnRemotePublicKeyReceived LH P i bs s)"
      "follows I s \<Longrightarrow> follows I (lk_OnRemoteInfoSyncReceived LH P i s)"
      "follows I s \<Longrightarrow> follows I (lk_OnHostInfoSyncRequestReceived LH P s)"
      "follows I s \<Longrightarrow> follows I (lk_OnClockSyncRequestReceived LH P i x s)"
      "follows I s \<Longrightarrow> follows I (lk_OnClockSyncTuneRequestReceived LH P i x s)"
      "follows I s \<Longrightarrow> follows I (lk_OnIdBroadcastReceived LH P i x s)"
      "follows I s \<Longrightarrow> follows I (lk_OnHostPublicKeyReceived LH P i bs s)"
      "follows I s \<Longrightarrow> follows I (lk_OnHostInfoSyncReceived LH P i y s)"
      "follows I s \<Longrightarrow> follows I (lk_OnClockSyncResponseReceived LH P i x s)"
      "follows I s \<Longrightarrow> follows I (lk_OnClockSyncTuneResponseReceived LH P i x s)"
      "follows I s \<Longrightarrow> follows I (snd (lk_OnAckedPacketReceived LH P p s))"
begin

lemma follows_fields:
  "follows I (s\<lparr>ReportPending := b\<rparr>) = follows I s" "follows I (Service_SetNextRunASAP s) = follows I s"
  "follows I (Service_SetNextRunDelay n s) = follows I s"
  "follows I (Send_RequestSendPacket P t1 t2 s) = follows I s" "follows I (Link_PrepareLinkReport b s) = follows I s"
  "follows I ((on_keys k s)\<lparr>KeysLastGenerated := m\<rparr>) = follows I s"
  by (rule follows_same; simp)+

lemma ProcessPacket_apps: "follows I s \<Longrightarrow> follows I (snd (Link_ProcessPacket LH P p s))"
proof -
  have report: "follows I (Link_OnLinkInfoReportReceived P r c s) = follows I s" for P r c s
    by (rule follows_same) (simp_all add: Link_OnLinkInfoReportReceived_def)
  show "follows I s \<Longrightarrow> follows I (snd (Link_ProcessPacket LH P p s))"
    by (simp add: Link_ProcessPacket_def Link_ProcessShort_def Link_ProcessLong_def Link_ProcessReport_def Let_def
        handlers report follows_fields)
qed

lemma ProcessAckedPacket_apps: "follows I s \<Longrightarrow> follows I (snd (Link_ProcessAckedPacket LH P p s))"
  by (simp add: Link_ProcessAckedPacket_def handlers)

lemma KeepingLink_apps:
  assumes "follows I s"
  shows "follows I (Link_OnKeepingLinkCommon (lk_OnKeepingLink LH) P s)"
proof -
  have bal: "LinkState (fst (snd (snd (Balancer_Update P b i d)))) = LinkState i" for b i d
    by (simp add: Balancer_Update_def LinkInfo_GetPartnerRSSINormalized_def case_prod_unfold Let_def)
  have "follows I (s\<lparr>PowerBalancer := pb, LinkInfo := i, drv := d\<rparr>) = follows I s"
    if "LinkState i = LinkState (LinkInfo s)" for pb i d
    using that by (intro follows_same) simp_all
  then show ?thesis
    using assms by (simp add: Link_OnKeepingLinkCommon_def case_prod_unfold Let_def handlers bal follows_fields)
qed

lemma OnService_apps:
  assumes "follows I s"
  shows "follows I (Link_OnService (Link_UpdateLinkState N SH TH) LH P s)"
proof -
  have dis: "follows I (t\<lparr>ServiceEnabled := b\<rparr>) = follows I t" for t b by (rule follows_same) simp_all
  have "follows I (Link_Disable (Link_UpdateLinkState N SH TH) P s)"
    using assms by (simp add: Link_Disable_def Service_Disable_def Let_def UpdateLinkState_apps dis)
  then show ?thesis
    using assms by (simp add: Link_OnService_def case_prod_unfold Let_def handlers UpdateLinkState_apps KeepingLink_apps
        follows_fields split: LinkStateEnum.split)
qed

lemma Lola_apps:
  assumes "follows I s"
  shows "follows I (Lola_Start (Link_UpdateLinkState N SH TH) P s)" and "follows I (Lola_Stop (Link_UpdateLinkState N SH TH) P s)"
proof -
  have dis: "follows I (t\<lparr>ServiceEnabled := b\<rparr>) = follows I t" "follows I (on_drv q t) = follows I t" for t b q
    by (rule follows_same; simp)+
  show "follows I (Lola_Start (Link_UpdateLinkState N SH TH) P s)" "follows I (Lola_Stop (Link_UpdateLinkState N SH TH) P s)"
    using assms by (simp_all add: Lola_Start_def Lola_Stop_def Link_Enable_def Link_Disable_def Service_Enable_def
        Service_Disable_def Let_def UpdateLinkState_apps dis)
qed

end

text \<open>The send machine on top.\<close>

lemma Send_Callback_apps:
  assumes same: "\<And>s t. LoLaLinkService.more t = LoLaLinkService.more s \<Longrightarrow> GetLinkState t = GetLinkState s \<Longrightarrow> F t = F s"
    and K: "\<And>s. F s \<Longrightarrow> F (hk_OnSendFailed K P s)" "\<And>s. F s \<Longrightarrow> F (hk_OnService K P s)"
      "\<And>s. F s \<Longrightarrow> F (hk_OnSendTimedOut K P s)" "\<And>s. F s \<Longrightarrow> F (hk_OnSendDelayed K P s)"
      "\<And>s. F s \<Longrightarrow> F (hk_OnSendRetrying K P s)" "\<And>s. F s \<Longrightarrow> F (hk_OnPreSend K P s)"
      "\<And>s h i. F s \<Longrightarrow> F (hk_OnAckFailed K P h i s)" "\<And>s h i. F s \<Longrightarrow> F (hk_OnAckReceived K P h i s)"
      "\<And>s h t. F s \<Longrightarrow> F (hk_OnSendOk K P h t s)"
    and "F s"
  shows "F (Send_Callback P K s)"
proof -
  have f: "F (s\<lparr>SendStatus := st\<rparr>) = F s" "F (s\<lparr>SendFailures := n\<rparr>) = F s" "F (Service_SetNextRunASAP s) = F s"
    "F (Service_SetNextRunDelay d s) = F s" "F (Send_ClearSendRequest s) = F s" "F (on_drv q s) = F s"
    "F (snd (Service_AllowedSend P s)) = F s" "F (snd (Service_SendPacket P p s)) = F s" for st n d q p s
    by (rule same; simp add: Service_AllowedSend_def Service_SendPacket_def on_drv_result_def case_prod_unfold Let_def)+
  have "F (Send_sending P K s)" "F (Send_sent_ok P K s)" if "F s" for s
    using that by (simp_all add: Send_sending_def Send_sent_ok_def case_prod_unfold Let_def f K split: option.split)
  then show ?thesis
    using assms(11) by (simp add: Send_Callback_def Let_def f K split: SendStatusEnum.split)
qed

section \<open>The host\<close>

lemma host_more_eq:
  "LoLaLinkService.more t = LoLaLinkService.more s \<Longrightarrow> LoLaLinkHostService.more t = LoLaLinkHostService.more s"
  by (cases s; cases t; simp)

lemma host_more_frames [simp]:
  "LoLaLinkHostService.more (Link_SetLinkingState x s) = LoLaLinkHostService.more s"
  "LoLaLinkHostService.more (on_info f s) = LoLaLinkHostService.more s"
  "LoLaLinkHostService.more (on_info_drv r s) = LoLaLinkHostService.more s"
  "LoLaLinkHostService.more (on_encoder e s) = LoLaLinkHostService.more s"
  "LoLaLinkHostService.more (snd (on_info_result h s)) = LoLaLinkHostService.more s"
  "LoLaLinkHostService.more (Service_SetNextRunASAP s) = LoLaLinkHostService.more s"
  "LoLaLinkHostService.more (Service_SetNextRunDelay n s) = LoLaLinkHostService.more s"
  "LoLaLinkHostService.more (Link_SetPayload m bs s) = LoLaLinkHostService.more s"
  "LoLaLinkHostService.more (Link_S_ArrayToPayload w s) = LoLaLinkHostService.more s"
  "LoLaLinkHostService.more (Link_PreparePing P s) = LoLaLinkHostService.more s"
  "LoLaLinkHostService.more (Link_PrepareReportPacket y s) = LoLaLinkHostService.more s"
  "LoLaLinkHostService.more (Link_PrepareShortPacket y z s) = LoLaLinkHostService.more s"
  "LoLaLinkHostService.more (Link_PrepareShortPacketWithAck y s) = LoLaLinkHostService.more s"
  "LoLaLinkHostService.more (Link_PreparePublicKeyPacket y s) = LoLaLinkHostService.more s"
  "LoLaLinkHostService.more (snd (Link_SharedSecret P s)) = LoLaLinkHostService.more s"
  "LoLaLinkHostService.more (Send_RequestSendPacket P t1 t2 s) = LoLaLinkHostService.more s"
  by (rule host_more_eq; simp)+

lemma host_more_resend [simp]:
  "LoLaLinkHostService.more (prepare s) = LoLaLinkHostService.more s \<Longrightarrow>
    LoLaLinkHostService.more (Link_resend period prepare P s) = LoLaLinkHostService.more s"
  by (simp add: Link_resend_def)

lemma Host_more [simp]:
  "LoLaLinkHostService.more (Host_ClearSession P s) = LoLaLinkHostService.more s"
  "LoLaLinkHostService.more (Host_NewSession P s) = LoLaLinkHostService.more s"
  "LoLaLinkHostService.more (Host_RestartAwaitingLink P s) = LoLaLinkHostService.more s"
  "LoLaLinkHostService.more (Host_PrepareIdBroadcast P s) = LoLaLinkHostService.more s"
  "LoLaLinkHostService.more (Host_PrepareLinkProtocolSwitchOver s) = LoLaLinkHostService.more s"
  "LoLaLinkHostService.more (Host_PrepareCryptoStartRequest P s) = LoLaLinkHostService.more s"
  "LoLaLinkHostService.more (Host_PrepareHostInfoSync s) = LoLaLinkHostService.more s"
  "LoLaLinkHostService.more (Host_PrepareInfoSyncRequest s) = LoLaLinkHostService.more s"
  "LoLaLinkHostService.more (Host_PrepareClockSyncResponse i z s) = LoLaLinkHostService.more s"
  "LoLaLinkHostService.more (Host_PrepareClockSyncTuneResponse i z s) = LoLaLinkHostService.more s"
  "LoLaLinkHostService.more (Host_ValidatePartner P s) = LoLaLinkHostService.more s"
proof -
  have c: "LoLaLinkHostService.more (on_keys k s) = LoLaLinkHostService.more s"
    "LoLaLinkHostService.more (on_seed g s) = LoLaLinkHostService.more s" for k g and s :: "'a LoLaLinkHostService_scheme"
    by (rule host_more_eq; simp)+
  show "LoLaLinkHostService.more (Host_ClearSession P s) = LoLaLinkHostService.more s"
    "LoLaLinkHostService.more (Host_NewSession P s) = LoLaLinkHostService.more s"
    by (simp_all add: Host_NewSession_def Link_ClearSession_def Host_session_hooks_def case_prod_unfold Let_def c)
qed (simp_all add: Host_RestartAwaitingLink_def Host_PrepareIdBroadcast_def Host_PrepareLinkProtocolSwitchOver_def
    Host_PrepareCryptoStartRequest_def Host_PrepareHostInfoSync_def Host_PrepareInfoSyncRequest_def
    Host_PrepareClockSyncResponse_def Host_PrepareClockSyncTuneResponse_def Host_ValidatePartner_def case_prod_unfold Let_def)

lemma Host_more_steps [simp]:
  "LoLaLinkHostService.more (Host_BroadcastSession P s) = LoLaLinkHostService.more s"
  "LoLaLinkHostService.more (Host_OnInfoSync P s) = LoLaLinkHostService.more s"
  "LoLaLinkHostService.more (Host_OnClockSync P s) = LoLaLinkHostService.more s"
  "LoLaLinkHostService.more (Host_OnKeepingLink P s) = LoLaLinkHostService.more s"
  by (simp_all add: Host_BroadcastSession_def Host_OnInfoSync_def Host_OnClockSync_def Host_OnKeepingLink_def case_prod_unfold Let_def)

text \<open>A predicate of what is beside the link service of a host, with notifications that establish it.\<close>

definition host_apps ::
  "(bool \<Rightarrow> 'a LoLaLinkHostService_scheme \<Rightarrow> bool) \<Rightarrow>
   (platform \<Rightarrow> bool \<Rightarrow> 'a LoLaLinkHostService_scheme \<Rightarrow> 'a LoLaLinkHostService_scheme) \<Rightarrow> bool" where
  "host_apps I N \<longleftrightarrow> (\<forall>s t c. LoLaLinkHostService.more t = LoLaLinkHostService.more s \<longrightarrow> I c t = I c s) \<and>
     (\<forall>P b c s. I b s \<longrightarrow> I c (N P c s))"

lemma host_appsD:
  assumes "host_apps I N"
  shows "LoLaLinkHostService.more t = LoLaLinkHostService.more s \<Longrightarrow> I c t = I c s"
    and "LoLaLinkHostService.more t = LoLaLinkHostService.more s \<Longrightarrow> GetLinkState t = GetLinkState s \<Longrightarrow>
      follows I t = follows I s"
  using assms unfolding host_apps_def follows_def by metis+

lemma Host_apps:
  assumes "host_apps I N"
  shows "link_apps I N Host_session_hooks Host_state_hooks"
proof
  note same = host_appsD(1) [OF assms]
  show "I c t = I c s" if "LoLaLinkService.more t = LoLaLinkService.more s" for c t s
    by (rule same [OF host_more_eq [OF that]])
  show "I c (N P c s)" if "I b s" for b c P s using assms that unfolding host_apps_def by blast
  show "I c (sh_SyncerReset Host_session_hooks P s) = I c s" "I c (sh_TransactionReset Host_session_hooks s) = I c s"
    "I c (sh_OnClearSession Host_session_hooks s) = I c s" "I c (th_StampSynced Host_state_hooks P s) = I c s"
    "I c (th_OnLinkStateChanged Host_state_hooks P st s) = I c s" for c P st s
    by (rule same; simp add: Host_session_hooks_def Host_state_hooks_def Host_OnLinkStateChanged_def case_prod_unfold Let_def
        split: LinkStateEnum.split)+
qed

lemma Host_apps_end:
  assumes "host_apps I N"
  shows "link_apps_end I N Host_session_hooks Host_state_hooks (Host_link_hooks N)"
proof (rule link_apps_end.intro [OF Host_apps [OF assms]], unfold_locales)
  note same = host_appsD(2) [OF assms]
  fix P s i x bs y p
  assume s: "follows I s"
  have u: "follows I (Host_UpdateLinkState N P st t)" if "follows I t" for st t
    by (rule link_apps.UpdateLinkState_apps [OF Host_apps [OF assms] that])
  have f: "follows I t" if "LoLaLinkHostService.more t = LoLaLinkHostService.more s" "GetLinkState t = GetLinkState s" for t
    using same [OF that] s by simp
  show "follows I (lk_OnLinking (Host_link_hooks N) P s)"
    by (simp add: Host_link_hooks_def Host_OnLinking_def u s f)
  show "follows I (snd (lk_OnAwaitingLink (Host_link_hooks N) P s))"
    by (simp add: Host_link_hooks_def Host_OnAwaitingLink_def case_prod_unfold Let_def u s f)
  show "follows I (lk_OnKeepingLink (Host_link_hooks N) P s)"
    by (rule f) (simp_all add: Host_link_hooks_def, simp add: Host_OnKeepingLink_def case_prod_unfold Let_def)
  show "follows I (lk_OnLinkDiscoveryReceived (Host_link_hooks N) P s)"
    "follows I (lk_OnPKCRequestReceived (Host_link_hooks N) P i x s)"
    "follows I (lk_OnRemotePublicKeyReceived (Host_link_hooks N) P i bs s)"
    "follows I (lk_OnRemoteInfoSyncReceived (Host_link_hooks N) P i s)"
    "follows I (lk_OnClockSyncRequestReceived (Host_link_hooks N) P i x s)"
    "follows I (lk_OnClockSyncTuneRequestReceived (Host_link_hooks N) P i x s)"
    by (rule f; simp add: Host_link_hooks_def Host_OnLinkDiscoveryReceived_def Host_OnPKCRequestReceived_def
        Host_OnRemotePublicKeyReceived_def Host_OnRemoteInfoSyncReceived_def Host_OnClockSyncRequestReceived_def
        Host_OnClockSyncTuneRequestReceived_def case_prod_unfold Let_def)+
qed (simp_all add: Host_link_hooks_def Link_default_hooks_def)

lemma Host_Callback_apps:
  assumes "host_apps I N" and "follows I s"
  shows "follows I (Host_Callback N P s)"
proof -
  note same = host_appsD(2) [OF assms(1)]
  have pre: "follows I (Host_OnPreSend P t) = follows I t" "follows I (Host_OnAckReceived P h i t) = follows I t" for h i t
    by (rule same; simp add: Host_OnPreSend_def Host_OnAckReceived_def Host_OnPingAckReceived_def
        Host_OnLinkAckReceived_def case_prod_unfold Let_def)+
  have sent: "follows I (Link_OnSendOk P h d t) = follows I t" "follows I (Link_OnSendFailed P t) = follows I t"
    "follows I (Service_SetNextRunASAP t) = follows I t" for h d t
    by (rule same, rule host_more_eq; simp add: Link_OnSendOk_def Link_OnSendFailed_def Let_def)+
  show ?thesis
    unfolding Host_Callback_def
    by (rule Send_Callback_apps [where F = "follows I", OF same [OF host_more_eq]])
       (use assms(2) link_apps_end.OnService_apps [OF Host_apps_end [OF assms(1)]] in
         \<open>simp_all add: Host_send_hooks_def Send_default_hooks_def Host_OnService_def pre sent\<close>)
qed

section \<open>The remote\<close>

lemma remote_more_eq:
  "LoLaLinkService.more t = LoLaLinkService.more s \<Longrightarrow> LoLaLinkRemoteService.more t = LoLaLinkRemoteService.more s"
  by (cases s; cases t; simp)

lemma remote_more_frames [simp]:
  "LoLaLinkRemoteService.more (Link_SetLinkingState x s) = LoLaLinkRemoteService.more s"
  "LoLaLinkRemoteService.more (on_info f s) = LoLaLinkRemoteService.more s"
  "LoLaLinkRemoteService.more (on_info_drv r s) = LoLaLinkRemoteService.more s"
  "LoLaLinkRemoteService.more (Link_ResetLastSentTimeStamp s) = LoLaLinkRemoteService.more s"
  "LoLaLinkRemoteService.more (on_encoder e s) = LoLaLinkRemoteService.more s"
  "LoLaLinkRemoteService.more (snd (on_info_result h s)) = LoLaLinkRemoteService.more s"
  "LoLaLinkRemoteService.more (Service_SetNextRunASAP s) = LoLaLinkRemoteService.more s"
  "LoLaLinkRemoteService.more (Service_SetNextRunDelay n s) = LoLaLinkRemoteService.more s"
  "LoLaLinkRemoteService.more (Link_SetPayload m bs s) = LoLaLinkRemoteService.more s"
  "LoLaLinkRemoteService.more (Link_S_ArrayToPayload w s) = LoLaLinkRemoteService.more s"
  "LoLaLinkRemoteService.more (on_keys k s) = LoLaLinkRemoteService.more s"
  "LoLaLinkRemoteService.more (Link_PrepareReportPacket y s) = LoLaLinkRemoteService.more s"
  "LoLaLinkRemoteService.more (Link_PrepareShortPacket y z s) = LoLaLinkRemoteService.more s"
  "LoLaLinkRemoteService.more (Link_PrepareShortPacketWithAck y s) = LoLaLinkRemoteService.more s"
  "LoLaLinkRemoteService.more (Link_PreparePublicKeyPacket y s) = LoLaLinkRemoteService.more s"
  "LoLaLinkRemoteService.more (snd (Link_SharedSecret P s)) = LoLaLinkRemoteService.more s"
  "LoLaLinkRemoteService.more (Send_RequestSendPacket P t1 t2 s) = LoLaLinkRemoteService.more s"
  by (rule remote_more_eq; simp)+

lemma remote_more_resend [simp]:
  "LoLaLinkRemoteService.more (prepare s) = LoLaLinkRemoteService.more s \<Longrightarrow>
    LoLaLinkRemoteService.more (Link_resend period prepare P s) = LoLaLinkRemoteService.more s"
  by (simp add: Link_resend_def)

lemma Remote_more [simp]:
  "LoLaLinkRemoteService.more (Remote_ClearSession P s) = LoLaLinkRemoteService.more s"
  "LoLaLinkRemoteService.more (Remote_RestartSearch P s) = LoLaLinkRemoteService.more s"
  "LoLaLinkRemoteService.more (Remote_PrepareLinkDiscovery s) = LoLaLinkRemoteService.more s"
  "LoLaLinkRemoteService.more (Remote_PreparePKCStartRequest P s) = LoLaLinkRemoteService.more s"
  "LoLaLinkRemoteService.more (Remote_PrepareRemoteInfoSync s) = LoLaLinkRemoteService.more s"
  "LoLaLinkRemoteService.more (Remote_PrepareClockSyncRequest i s) = LoLaLinkRemoteService.more s"
  "LoLaLinkRemoteService.more (Remote_PrepareClockSyncTuneRequest i s) = LoLaLinkRemoteService.more s"
  "LoLaLinkRemoteService.more (Remote_ValidatePartner P s) = LoLaLinkRemoteService.more s"
proof -
  have c: "LoLaLinkRemoteService.more (on_seed g s) = LoLaLinkRemoteService.more s" for g and s :: "'a LoLaLinkRemoteService_scheme"
    by (rule remote_more_eq; simp)
  show "LoLaLinkRemoteService.more (Remote_ClearSession P s) = LoLaLinkRemoteService.more s"
    "LoLaLinkRemoteService.more (Remote_RestartSearch P s) = LoLaLinkRemoteService.more s"
    by (simp_all add: Remote_RestartSearch_def Link_ClearSession_def Remote_session_hooks_def case_prod_unfold Let_def c)
qed (simp_all add: Remote_PrepareLinkDiscovery_def Remote_PreparePKCStartRequest_def Remote_PrepareRemoteInfoSync_def
    Remote_PrepareClockSyncRequest_def Remote_PrepareClockSyncTuneRequest_def Remote_ValidatePartner_def case_prod_unfold Let_def)

lemma Remote_TakeEstimation_frame [simp]:
  "LoLaLinkRemoteService.more (Remote_TakeEstimation P s) = LoLaLinkRemoteService.more s"
  "GetLinkState (Remote_TakeEstimation P s) = GetLinkState s"
  by (simp_all add: Remote_TakeEstimation_def case_prod_unfold Let_def)

lemma Remote_more_steps [simp]:
  "LoLaLinkRemoteService.more (snd (Remote_OnInfoSync P s)) = LoLaLinkRemoteService.more s"
  "LoLaLinkRemoteService.more (Remote_OnClockSync P s) = LoLaLinkRemoteService.more s"
  "LoLaLinkRemoteService.more (Remote_OnKeepingLink P s) = LoLaLinkRemoteService.more s"
  "LoLaLinkRemoteService.more (snd (Remote_OnCryptoStartReceived P i bs s)) = LoLaLinkRemoteService.more s"
  "LoLaLinkRemoteService.more (snd (Remote_OnLinkProtocolReceived P i x s)) = LoLaLinkRemoteService.more s"
  by (simp_all add: Remote_OnInfoSync_def Remote_OnClockSync_def Remote_OnKeepingLink_def Remote_OnCryptoStartReceived_def
      Remote_OnLinkProtocolReceived_def case_prod_unfold Let_def)

text \<open>A predicate of what is beside the link service of a remote, with notifications that establish it.\<close>

definition remote_apps ::
  "(bool \<Rightarrow> 'a LoLaLinkRemoteService_scheme \<Rightarrow> bool) \<Rightarrow>
   (platform \<Rightarrow> bool \<Rightarrow> 'a LoLaLinkRemoteService_scheme \<Rightarrow> 'a LoLaLinkRemoteService_scheme) \<Rightarrow> bool" where
  "remote_apps I N \<longleftrightarrow> (\<forall>s t c. LoLaLinkRemoteService.more t = LoLaLinkRemoteService.more s \<longrightarrow> I c t = I c s) \<and>
     (\<forall>P b c s. I b s \<longrightarrow> I c (N P c s))"

lemma remote_appsD:
  assumes "remote_apps I N"
  shows "LoLaLinkRemoteService.more t = LoLaLinkRemoteService.more s \<Longrightarrow> I c t = I c s"
    and "LoLaLinkRemoteService.more t = LoLaLinkRemoteService.more s \<Longrightarrow> GetLinkState t = GetLinkState s \<Longrightarrow>
      follows I t = follows I s"
  using assms unfolding remote_apps_def follows_def by metis+

lemma Remote_apps:
  assumes "remote_apps I N"
  shows "link_apps I N Remote_session_hooks Remote_state_hooks"
proof
  note same = remote_appsD(1) [OF assms]
  show "I c t = I c s" if "LoLaLinkService.more t = LoLaLinkService.more s" for c t s
    by (rule same [OF remote_more_eq [OF that]])
  show "I c (N P c s)" if "I b s" for b c P s using assms that unfolding remote_apps_def by blast
  show "I c (sh_SyncerReset Remote_session_hooks P s) = I c s" "I c (sh_TransactionReset Remote_session_hooks s) = I c s"
    "I c (sh_OnClearSession Remote_session_hooks s) = I c s" "I c (th_StampSynced Remote_state_hooks P s) = I c s"
    "I c (th_OnLinkStateChanged Remote_state_hooks P st s) = I c s" for c P st s
    by (rule same; simp add: Remote_session_hooks_def Remote_state_hooks_def Remote_OnLinkStateChanged_def case_prod_unfold Let_def
        split: LinkStateEnum.split)+
qed

lemma Remote_apps_end:
  assumes "remote_apps I N"
  shows "link_apps_end I N Remote_session_hooks Remote_state_hooks (Remote_link_hooks N)"
proof (rule link_apps_end.intro [OF Remote_apps [OF assms]], unfold_locales)
  note same = remote_appsD(2) [OF assms]
  fix P s i x bs y p
  assume s: "follows I s"
  have u: "follows I (Remote_UpdateLinkState N P st t)" if "follows I t" for st t
    by (rule link_apps.UpdateLinkState_apps [OF Remote_apps [OF assms] that])
  have eq: "follows I t = follows I v" if "LoLaLinkRemoteService.more t = LoLaLinkRemoteService.more v" "GetLinkState t = GetLinkState v" for t v
    by (rule same [OF that])
  have f: "follows I t" if "LoLaLinkRemoteService.more t = LoLaLinkRemoteService.more s" "GetLinkState t = GetLinkState s" for t
    using same [OF that] s by simp
  show "follows I (lk_OnLinking (Remote_link_hooks N) P s)"
    by (simp add: Remote_link_hooks_def Remote_OnLinking_def case_prod_unfold Let_def u s f)
  show "follows I (snd (lk_OnAwaitingLink (Remote_link_hooks N) P s))"
    by (simp add: Remote_link_hooks_def Remote_OnAwaitingLink_def case_prod_unfold Let_def u s f)
  show "follows I (lk_OnKeepingLink (Remote_link_hooks N) P s)"
    by (rule f) (simp_all add: Remote_link_hooks_def, simp add: Remote_OnKeepingLink_def case_prod_unfold Let_def)
  show "follows I (lk_OnHostInfoSyncRequestReceived (Remote_link_hooks N) P s)"
    "follows I (lk_OnHostPublicKeyReceived (Remote_link_hooks N) P i bs s)"
    "follows I (lk_OnHostInfoSyncReceived (Remote_link_hooks N) P i y s)"
    "follows I (lk_OnClockSyncResponseReceived (Remote_link_hooks N) P i x s)"
    "follows I (lk_OnClockSyncTuneResponseReceived (Remote_link_hooks N) P i x s)"
    by (rule f; simp add: Remote_link_hooks_def Remote_OnHostInfoSyncRequestReceived_def Remote_OnHostPublicKeyReceived_def
        Remote_OnHostInfoSyncReceived_def Remote_OnClockSyncResponseReceived_def
        Remote_OnClockSyncTuneResponseReceived_def case_prod_unfold Let_def)+
  show "follows I (snd (lk_OnAckedPacketReceived (Remote_link_hooks N) P p s))"
    by (rule f; simp add: Remote_link_hooks_def Remote_OnAckedPacketReceived_def Remote_OnCryptoStartReceived_def
        Remote_OnLinkProtocolReceived_def case_prod_unfold Let_def split: LinkStateEnum.split)
  define v where "v = (if GetLinkState s = AwaitingSleeping then Remote_UpdateLinkState N P AwaitingLink s else s)"
  have v: "follows I v" using s u by (simp add: v_def)
  have "follows I (Remote_OnIdBroadcastReceived N P i x s) = (if GetLinkState s = AwaitingSleeping \<or> GetLinkState s = AwaitingLink
      then follows I v else follows I s)"
    unfolding Remote_OnIdBroadcastReceived_def Let_def v_def [symmetric] case_prod_unfold
    by (auto intro!: eq split: if_splits)
  then show "follows I (lk_OnIdBroadcastReceived (Remote_link_hooks N) P i x s)" using s v by (simp add: Remote_link_hooks_def)
qed (simp_all add: Remote_link_hooks_def Link_default_hooks_def)

lemma Remote_Callback_apps:
  assumes "remote_apps I N" and "follows I s"
  shows "follows I (Remote_Callback N P s)"
proof -
  note same = remote_appsD(2) [OF assms(1)]
  have sent: "follows I (Link_OnSendOk P h d t) = follows I t" "follows I (Link_OnSendFailed P t) = follows I t"
    "follows I (Service_SetNextRunASAP t) = follows I t" "follows I (Remote_OnPreSend P t) = follows I t" for h d t
    by (rule same, rule remote_more_eq; simp add: Link_OnSendOk_def Link_OnSendFailed_def Remote_OnPreSend_def Let_def)+
  show ?thesis
    unfolding Remote_Callback_def
    by (rule Send_Callback_apps [where F = "follows I", OF same [OF remote_more_eq]])
       (use assms(2) link_apps_end.OnService_apps [OF Remote_apps_end [OF assms(1)]] in
         \<open>simp_all add: Remote_send_hooks_def Send_default_hooks_def Remote_OnService_def sent\<close>)
qed

section \<open>The node\<close>

definition app_service :: "('w \<Rightarrow> bool) \<Rightarrow> 'w service \<Rightarrow> bool" where
  "app_service F S \<longleftrightarrow> (\<forall>P p w. F w \<longrightarrow> F (snd (srv_ReceivedPacket S P p w))) \<and>
     (\<forall>P p w. F w \<longrightarrow> F (snd (srv_ReceivedAckedPacket S P p w))) \<and>
     (\<forall>P h i w. F w \<longrightarrow> F (snd (srv_ReceivedAck S P h i w))) \<and> (\<forall>P h w. F w \<longrightarrow> F (snd (srv_ProcessSent S P h w)))"

lemma serves_apps:
  assumes "\<forall>S \<in> set (Manager_table M). app_service F S" and "serves P (Manager_handlers M) w w'" and "F w"
  shows "F w'"
proof -
  have k: "F (snd (first_taker f (Manager_table M) w))"
    if "\<And>S w. S \<in> set (Manager_table M) \<Longrightarrow> F w \<Longrightarrow> F (snd (f S w))" for f
    by (rule first_taker_keeps [where I = F]) (use that assms(3) in auto)
  have S: "F w \<Longrightarrow> F (snd (srv_ReceivedPacket S P p w))" "F w \<Longrightarrow> F (snd (srv_ReceivedAckedPacket S P p w))"
    "F w \<Longrightarrow> F (snd (srv_ReceivedAck S P h i w))" "F w \<Longrightarrow> F (snd (srv_ProcessSent S P h w))"
    if "S \<in> set (Manager_table M)" for S p h i w
    using assms(1) that by (simp_all add: app_service_def)
  from assms(2) show ?thesis
    by (cases rule: serves.cases)
       (simp_all add: Manager_handlers_def Manager_ProcessPacket_def Manager_ProcessAckedPacket_def
         Manager_ProcessAck_def Manager_ProcessSent_def assms(3) k S)
qed

lemma node_step_apps:
  assumes same: "\<And>s t. LoLaLinkService.more t = LoLaLinkService.more s \<Longrightarrow> GetLinkState t = GetLinkState s \<Longrightarrow> F t = F s"
    and M: "\<forall>S \<in> set (Manager_table M). app_service F S"
    and C: "\<And>P w. F w \<Longrightarrow> F (C P w)" "\<And>P w. F w \<Longrightarrow> F (Lola_Start U P w)" "\<And>P w. F w \<Longrightarrow> F (Lola_Stop U P w)"
    and s: "node_step (Manager_handlers M) C U w w'" and w: "F w"
  shows "F w'"
proof -
  have d: "F (w\<lparr>drv := d\<rparr>) = F w" "F (w\<lparr>TimedHopper := x\<rparr>) = F w" for d x w by (rule same; simp)+
  from s show ?thesis
  proof (cases rule: node_step.cases)
    case (task P)
    from AsyncCallback_turn [of P "Manager_handlers M" w] obtain d1 w2 d2 where
      "serves P (Manager_handlers M) (w\<lparr>drv := d1\<rparr>) w2" "w' = w2\<lparr>drv := d2\<rparr>"
      using task(1) by (auto simp: turn_def)
    then show ?thesis using serves_apps [OF M] w by (simp add: d)
  qed (use w C in \<open>simp_all add: d on_drv_def\<close>)
qed

lemma Hopper_app_service: "app_service F Hopper_service"
  by (simp add: app_service_def Hopper_service_def)

lemma send_apps:
  assumes "\<And>s t. LoLaLinkService.more t = LoLaLinkService.more s \<Longrightarrow> GetLinkState t = GetLinkState s \<Longrightarrow> F t = F s"
  shows "F (snd (Send_ProcessSent h s)) = F s" and "F (snd (Send_ProcessAck h i s)) = F s"
  by (rule assms; simp)+

lemma Host_app_service:
  assumes "host_apps I N"
  shows "app_service (follows I) (Host_service N P0)"
  using link_apps_end.ProcessPacket_apps [OF Host_apps_end [OF assms]] link_apps_end.ProcessAckedPacket_apps [OF Host_apps_end [OF assms]]
    send_apps [where F = "follows I", OF host_appsD(2) [OF assms host_more_eq]]
  by (simp add: app_service_def Host_service_def Service_ReceivedPacket_def Service_ReceivedAckedPacket_def Service_ReceivedAck_def)

lemma Remote_app_service:
  assumes "remote_apps I N"
  shows "app_service (follows I) (Remote_service N P0)"
  using link_apps_end.ProcessPacket_apps [OF Remote_apps_end [OF assms]] link_apps_end.ProcessAckedPacket_apps [OF Remote_apps_end [OF assms]]
    send_apps [where F = "follows I", OF remote_appsD(2) [OF assms remote_more_eq]]
  by (simp add: app_service_def Remote_service_def Service_ReceivedPacket_def Service_ReceivedAckedPacket_def Service_ReceivedAck_def)

text \<open>
  Whatever a node with these services does, its link service, the driver, the radio and the
  scheduler included, keeps the predicate in step with the link.
\<close>

lemma host_node_apps:
  assumes I: "host_apps I (Lola_notify apps)" and M: "Manager_table M = Hopper_service # Host_service (Lola_notify apps) P0 # apps"
    and apps: "\<forall>S \<in> set apps. app_service (follows I) S" and w: "follows I w"
    and s: "node_step (Manager_handlers M) (Host_Callback (Lola_notify apps)) (Host_UpdateLinkState (Lola_notify apps)) w w'"
  shows "follows I w'"
proof (rule node_step_apps [where F = "follows I", OF _ _ _ _ _ s w])
  show "\<forall>S \<in> set (Manager_table M). app_service (follows I) S"
    using apps Hopper_app_service Host_app_service [OF I] by (simp add: M)
qed (use host_appsD(2) [OF I host_more_eq] Host_Callback_apps [OF I] link_apps_end.Lola_apps [OF Host_apps_end [OF I]] in blast)+

lemma remote_node_apps:
  assumes I: "remote_apps I (Lola_notify apps)" and M: "Manager_table M = Hopper_service # Remote_service (Lola_notify apps) P0 # apps"
    and apps: "\<forall>S \<in> set apps. app_service (follows I) S" and w: "follows I w"
    and s: "node_step (Manager_handlers M) (Remote_Callback (Lola_notify apps)) (Remote_UpdateLinkState (Lola_notify apps)) w w'"
  shows "follows I w'"
proof (rule node_step_apps [where F = "follows I", OF _ _ _ _ _ s w])
  show "\<forall>S \<in> set (Manager_table M). app_service (follows I) S"
    using apps Hopper_app_service Remote_app_service [OF I] by (simp add: M)
qed (use remote_appsD(2) [OF I remote_more_eq] Remote_Callback_apps [OF I] link_apps_end.Lola_apps [OF Remote_apps_end [OF I]] in blast)+

end
