(* ===== verification/Linking_Run.thy ===== *)
theory Linking_Run
  imports Handshake
begin

text \<open>
  The second half of linking, from the switch after the key exchange to the link: latency pings,
  exchange of link information, clock synchronisation and protocol switch over, through the handlers
  of both services.
\<close>

section \<open>Fields of a prepared packet\<close>

lemma drop_store_at: "drop n (store (n + off) bs xs) = store off bs (drop n xs)"
  by (induction bs arbitrary: off xs) (simp_all add: drop_update_swap flip: add_Suc_right)

lemma nth_store_below: "i < off \<Longrightarrow> store off bs xs ! i = xs ! i"
  by (induction bs arbitrary: off xs) simp_all

lemma packet_fields [simp]:
  "LoLaPacket_GetDataHeader (LoLaPacket_SetId i p) = LoLaPacket_GetDataHeader p"
  "LoLaPacket_GetDataHeader (LoLaPacket_SetPayload off bs p) = LoLaPacket_GetDataHeader p"
  "2 < length (Raw p) \<Longrightarrow> LoLaPacket_GetDataHeader (snd (LoLaPacket_SetDefinition (Some d) p)) = Header d"
  "3 < length (Raw p) \<Longrightarrow> LoLaPacket_GetId (LoLaPacket_SetId i p) = i"
  "LoLaPacket_GetId (LoLaPacket_SetPayload off bs p) = LoLaPacket_GetId p"
  "length (LoLaPacket_GetPayload p) = length (Raw p) - 4"
  by (simp_all add: packet_accessor_defs lola_consts nth_store_below)

lemma GetPayload_SetPayload [simp]:
  "LoLaPacket_GetPayload (LoLaPacket_SetPayload off bs p) = store off bs (LoLaPacket_GetPayload p)"
  using drop_store_at by (simp add: LoLaPacket_GetPayload_def LoLaPacket_SetPayload_def)

section \<open>The schedule\<close>

text \<open>
  One turn of an end that has something to send: the service prepares and requests the packet, the
  send machinery gives \<open>OnPreSend\<close> its last word, and the driver reports the packet as sent.
\<close>

definition Host_sends ::
  "(platform \<Rightarrow> bool \<Rightarrow> 'a LoLaLinkHostService_scheme \<Rightarrow> 'a LoLaLinkHostService_scheme) \<Rightarrow> platform \<Rightarrow> platform \<Rightarrow> platform \<Rightarrow>
   'a LoLaLinkHostService_scheme \<Rightarrow> 'a LoLaLinkHostService_scheme" where
  "Host_sends N P Q R h =
     (let h1 = Host_OnPreSend Q (Host_OnService N P h)
      in Link_OnSendOk R (LoLaPacket_GetDataHeader (Packet h1)) 0 h1)"

definition Remote_sends ::
  "(platform \<Rightarrow> bool \<Rightarrow> 'b LoLaLinkRemoteService_scheme \<Rightarrow> 'b LoLaLinkRemoteService_scheme) \<Rightarrow> platform \<Rightarrow> platform \<Rightarrow> platform \<Rightarrow>
   'b LoLaLinkRemoteService_scheme \<Rightarrow> 'b LoLaLinkRemoteService_scheme" where
  "Remote_sends N P Q R r =
     (let r1 = Remote_OnPreSend Q (Remote_OnService N P r)
      in Link_OnSendOk R (LoLaPacket_GetDataHeader (Packet r1)) 0 r1)"

text \<open>A packet that reaches the other end; \<open>stamp\<close> is the driver's \<open>micros()\<close> at its reception.\<close>

definition stamped :: "u32 \<Rightarrow> 'a IPacketSendService_scheme \<Rightarrow> 'a IPacketSendService_scheme" where
  "stamped stamp s = on_drv (\<lambda>d. d\<lparr>LastValidReceivedMicros := stamp\<rparr>) s"

definition Host_hears ::
  "(platform \<Rightarrow> bool \<Rightarrow> 'a LoLaLinkHostService_scheme \<Rightarrow> 'a LoLaLinkHostService_scheme) \<Rightarrow> platform \<Rightarrow> LoLaPacket \<Rightarrow>
   'a LoLaLinkHostService_scheme \<Rightarrow> 'a LoLaLinkHostService_scheme" where
  "Host_hears N P p h = snd (Link_ProcessPacket (Host_link_hooks N) P p h)"

definition Remote_hears ::
  "(platform \<Rightarrow> bool \<Rightarrow> 'b LoLaLinkRemoteService_scheme \<Rightarrow> 'b LoLaLinkRemoteService_scheme) \<Rightarrow> platform \<Rightarrow> LoLaPacket \<Rightarrow>
   'b LoLaLinkRemoteService_scheme \<Rightarrow> 'b LoLaLinkRemoteService_scheme" where
  "Remote_hears N P p r = snd (Link_ProcessPacket (Remote_link_hooks N) P p r)"

text \<open>A packet with acknowledgement from the host, and its acknowledgement if the remote takes it.\<close>

definition host_acked_exchange ::
  "(platform \<Rightarrow> bool \<Rightarrow> 'b LoLaLinkRemoteService_scheme \<Rightarrow> 'b LoLaLinkRemoteService_scheme) \<Rightarrow> platform \<Rightarrow> platform \<Rightarrow>
   'a LoLaLinkHostService_scheme \<Rightarrow> 'b LoLaLinkRemoteService_scheme \<Rightarrow> bool \<times> 'a LoLaLinkHostService_scheme \<times> 'b LoLaLinkRemoteService_scheme" where
  "host_acked_exchange N' P Q h r =
     (let (acked, r1) = Link_ProcessAckedPacket (Remote_link_hooks N') Q (Packet h) r
      in (acked, if acked then Host_OnAckReceived P (LoLaPacket_GetDataHeader (Packet h)) (LoLaPacket_GetId (Packet h)) h
                 else h, r1))"

text \<open>\<open>p\<close> and \<open>q\<close> are the platforms of host and remote at the moments of one exchange, in order.\<close>

definition ping_exchange ::
  "(platform \<Rightarrow> bool \<Rightarrow> 'a LoLaLinkHostService_scheme \<Rightarrow> 'a LoLaLinkHostService_scheme) \<Rightarrow>
   (platform \<Rightarrow> bool \<Rightarrow> 'b LoLaLinkRemoteService_scheme \<Rightarrow> 'b LoLaLinkRemoteService_scheme) \<Rightarrow>
   (nat \<Rightarrow> platform) \<Rightarrow> (nat \<Rightarrow> platform) \<Rightarrow> 'a LoLaLinkHostService_scheme \<Rightarrow> 'b LoLaLinkRemoteService_scheme \<Rightarrow>
   'a LoLaLinkHostService_scheme \<times> 'b LoLaLinkRemoteService_scheme" where
  "ping_exchange N N' p q h r =
     snd (host_acked_exchange N' (p 3) (q 0) (Host_sends N (p 0) (p 1) (p 2) h) r)"

definition info_exchange ::
  "(platform \<Rightarrow> bool \<Rightarrow> 'a LoLaLinkHostService_scheme \<Rightarrow> 'a LoLaLinkHostService_scheme) \<Rightarrow>
   (platform \<Rightarrow> bool \<Rightarrow> 'b LoLaLinkRemoteService_scheme \<Rightarrow> 'b LoLaLinkRemoteService_scheme) \<Rightarrow>
   (nat \<Rightarrow> platform) \<Rightarrow> (nat \<Rightarrow> platform) \<Rightarrow> 'a LoLaLinkHostService_scheme \<Rightarrow> 'b LoLaLinkRemoteService_scheme \<Rightarrow>
   'a LoLaLinkHostService_scheme \<times> 'b LoLaLinkRemoteService_scheme" where
  "info_exchange N N' p q h r =
     (let h1 = Host_sends N (p 1) (p 2) (p 3) (Host_OnService N (p 0) h);
          r1 = Remote_sends N' (q 1) (q 2) (q 3) (Remote_hears N' (q 0) (Packet h1) r);
          h2 = Host_OnService N (p 5) (Host_hears N (p 4) (Packet r1) h1);
          h3 = Host_sends N (p 6) (p 7) (p 8) h2;
          r2 = Remote_OnService N' (q 5) (Remote_hears N' (q 4) (Packet h3) r1)
      in (h3, r2))"

definition clock_exchange ::
  "(platform \<Rightarrow> bool \<Rightarrow> 'a LoLaLinkHostService_scheme \<Rightarrow> 'a LoLaLinkHostService_scheme) \<Rightarrow>
   (platform \<Rightarrow> bool \<Rightarrow> 'b LoLaLinkRemoteService_scheme \<Rightarrow> 'b LoLaLinkRemoteService_scheme) \<Rightarrow> u32 \<Rightarrow>
   (nat \<Rightarrow> platform) \<Rightarrow> (nat \<Rightarrow> platform) \<Rightarrow> 'a LoLaLinkHostService_scheme \<Rightarrow> 'b LoLaLinkRemoteService_scheme \<Rightarrow>
   'a LoLaLinkHostService_scheme \<times> 'b LoLaLinkRemoteService_scheme" where
  "clock_exchange N N' stamp p q h r =
     (let r1 = Remote_sends N' (q 0) (q 1) (q 2) r;
          h1 = Host_sends N (p 1) (p 2) (p 3) (Host_hears N (p 0) (Packet r1) (stamped stamp h))
      in (h1, Remote_hears N' (q 3) (Packet h1) r1))"

lemmas turn_defs = Host_sends_def Remote_sends_def Host_hears_def Remote_hears_def host_acked_exchange_def

definition linking_in_time :: "(nat \<Rightarrow> platform) \<Rightarrow> u32 \<Rightarrow> bool" where
  "linking_in_time p start \<longleftrightarrow>
     (\<forall>n. elapsed_since (millis_now (p n)) start \<le> LOLA_LINK_SERVICE_UNLINK_MAX_BEFORE_LINKING_CANCEL)"

lemma host_linking_service:
  assumes "linking_at stage h" and "linking_in_time p (LinkStateStart h)"
  shows "Host_OnService N (p n) h = Host_OnLinking N (p n) h"
proof -
  have "\<not> LOLA_LINK_SERVICE_UNLINK_MAX_BEFORE_LINKING_CANCEL < Link_GetElapsedMillisSinceStateStart (p n) h"
    using assms(2) by (simp add: linking_in_time_def Link_GetElapsedMillisSinceStateStart_def not_less)
  then show ?thesis
    using assms(1) by (simp add: Host_OnService_def Link_OnService_def linking_at_def Host_link_hooks_def)
qed

lemma remote_linking_service:
  assumes "linking_at stage r" and "linking_in_time p (LinkStateStart r)"
  shows "Remote_OnService N (p n) r = Remote_OnLinking N (p n) r"
proof -
  have "\<not> LOLA_LINK_SERVICE_UNLINK_MAX_BEFORE_LINKING_CANCEL < Link_GetElapsedMillisSinceStateStart (p n) r"
    using assms(2) by (simp add: linking_in_time_def Link_GetElapsedMillisSinceStateStart_def not_less)
  then show ?thesis
    using assms(1) by (simp add: Remote_OnService_def Link_OnService_def linking_at_def Remote_link_hooks_def)
qed

section \<open>Latency\<close>

text \<open>Everything of an end that the first two exchanges leave alone.\<close>

definition same_session :: "'a LoLaLinkService_scheme \<Rightarrow> 'a LoLaLinkService_scheme \<Rightarrow> bool" where
  "same_session s s' \<longleftrightarrow> LinkStateStart s' = LinkStateStart s \<and> TimedHopper s' = TimedHopper s \<and>
     SessionId (LinkInfo s') = SessionId (LinkInfo s) \<and> PartnerId (LinkInfo s') = PartnerId (LinkInfo s) \<and>
     LocalMacGenerator (LinkInfo s') = LocalMacGenerator (LinkInfo s) \<and>
     CryptoEncoder (drv s') = CryptoEncoder (drv s) \<and> SyncedClock (drv s') = SyncedClock (drv s)"

lemma ping_step:
  assumes h: "linking_at LinkingInfoSyncStage h" "InfoSyncStage h = Host_AwaitingLatencyMeasurement"
    and t: "linking_in_time p (LinkStateStart h)"
    and n: "length (DurationStack (LatencyMeter h)) < 2" "latency_ring_ok (p 3)"
    and go: "PingAcked h \<or> LastSentMillis h = ILOLA_INVALID_MILLIS"
    and r: "GetLinkState r = Linking"
    and l: "latency = micros_now (p 3) - micros_now (p 1)" "latency < LOLA_LATENCY_SERVICE_PING_TIMEOUT_MICROS"
      "micros_now (p 1) \<noteq> ILOLA_INVALID_MICROS"
    and e: "ping_exchange N N' p q h r = (h', r')"
  shows "r' = r" and "linking_at LinkingInfoSyncStage h'" and "InfoSyncStage h' = Host_AwaitingLatencyMeasurement"
    and "DurationStack (LatencyMeter h') = DurationStack (LatencyMeter h) @ [ucast latency]" and "PingAcked h'"
    and "LastSentMillis h' = millis_now (p 2)" and "same_session h h'" and "HostClockSyncer h' = HostClockSyncer h"
    and "PartnerRSSISamples (LinkInfo h') = PartnerRSSISamples (LinkInfo h)" and "drv h' = drv h"
proof -
  have c: "\<not> LOLA_LINK_SERVICE_UNLINK_MIN_LATENCY_SAMPLES \<le> Meter_GetSampleCount (LatencyMeter h)"
    using n(1) by (auto simp: Meter_GetSampleCount_def lola_consts less_2_cases_iff word_le_nat_alt)
  have s: "LOLA_LINK_SERVICE_UNLINK_PING_RESEND_PERIOD_MAX < Link_GetElapsedMillisSinceLastSent (p 0) h \<or> PingAcked h"
    using go by (auto intro: resend_now simp: lola_consts)
  define h1 where "h1 = Send_RequestSendPacketDefault (p 0) (Link_PreparePing (p 0) (h\<lparr>PingAcked := False\<rparr>))"
  have h1: "Host_OnService N (p 0) h = h1"
    using h c s by (auto simp: host_linking_service [OF h(1) t] Host_OnLinking_def Host_OnInfoSync_def linking_at_def h1_def)
  let ?id = "of_int (random_between (p 0) 0 255) :: u8"
  have f: "LoLaPacket_GetDataHeader (Packet h1) = LOLA_LINK_HEADER_PING_WITH_ACK" "LoLaPacket_GetId (Packet h1) = ?id"
    "GetLinkState h1 = Linking" "LinkingState h1 = LinkingInfoSyncStage" "LatencyMeter h1 = LatencyMeter h"
    "length (Raw (Packet h1)) = LOLA_LINK_SERVICE_PACKET_MAX_SIZE"
    using h(1) by (simp_all add: h1_def link_op_defs linking_at_def PingPacketDefinition_def lola_consts)
  define m where "m = Meter_OnAckPacketSent (p 1) ?id (LatencyMeter h)"
  define h2 where h2: "h2 = Host_sends N (p 0) (p 1) (p 2) h"
  have k: "h2 = Service_SetNextRunASAP (h1\<lparr>
      LatencyMeter := m, LastSentMillis := millis_now (p 2)\<rparr>)"
    using f by (simp add: h2 m_def Host_sends_def h1 Host_OnPreSend_def Link_OnSendOk_def Let_def LinkReportPacketDefinition_def lola_consts)
  have m: "Meter_OnAckReceived (p 3) ?id m = (True, m\<lparr>DurationStack := DurationStack (LatencyMeter h) @ [ucast latency]\<rparr>)"
    using l n by (simp add: Meter_OnAckReceived_def Meter_OnAckPacketSent_def m_def latency_ring_ok_def lola_consts)
  have "(h', r') = (Service_SetNextRunASAP (h2\<lparr>
      LatencyMeter := m\<lparr>DurationStack := DurationStack (LatencyMeter h) @ [ucast latency]\<rparr>, PingAcked := True\<rparr>), r)"
    unfolding e [symmetric] ping_exchange_def h2 [symmetric]
    using f r m by (simp add: host_acked_exchange_def k link_op_defs Link_ProcessAckedPacket_def
        PingPacketDefinition_def Host_OnAckReceived_def Host_OnPingAckReceived_def Let_def)
  then show "r' = r" "linking_at LinkingInfoSyncStage h'" "InfoSyncStage h' = Host_AwaitingLatencyMeasurement"
    "DurationStack (LatencyMeter h') = DurationStack (LatencyMeter h) @ [ucast latency]" "PingAcked h'"
    "LastSentMillis h' = millis_now (p 2)" "same_session h h'" "HostClockSyncer h' = HostClockSyncer h"
    "PartnerRSSISamples (LinkInfo h') = PartnerRSSISamples (LinkInfo h)" "drv h' = drv h"
    using h f(6) by (simp_all add: k h1_def link_op_defs linking_at_def same_session_def)
qed

section \<open>Link information\<close>

lemma Host_sends_eq:
  assumes "Host_OnService N P h = Send_RequestSendPacketDefault P g" and "GetLinkState g = Linking"
    and "LoLaPacket_GetDataHeader (Packet g) \<noteq> LOLA_LINK_HEADER_PING_WITH_ACK"
  shows "Host_sends N P Q R h = Service_SetNextRunASAP ((Send_RequestSendPacketDefault P g)\<lparr>LastSentMillis := millis_now R\<rparr>)"
  using assms by (simp add: Host_sends_def Host_OnPreSend_def Link_OnSendOk_def link_op_defs LinkInfo_HasLink_def)

lemma Remote_sends_eq:
  assumes "Remote_OnService N P r = Send_RequestSendPacketDefault P g" and "GetLinkState g = Linking"
    and "LoLaPacket_GetDataHeader (Packet g) \<noteq> LOLA_LINK_HEADER_SHORT"
  shows "Remote_sends N P Q R r = Service_SetNextRunASAP ((Send_RequestSendPacketDefault P g)\<lparr>LastSentMillis := millis_now R\<rparr>)"
  using assms by (simp add: Remote_sends_def Remote_OnPreSend_def Link_OnSendOk_def link_op_defs LinkInfo_HasLink_def
      LinkShortPacketDefinition_def)

lemma resend_eq:
  "period < Link_GetElapsedMillisSinceLastSent P s \<Longrightarrow> Link_resend period prepare P s = Send_RequestSendPacketDefault P (prepare s)"
  by (simp add: Link_resend_def)

text \<open>The host measures, asks for the remote's report and gets it, and gives its own.\<close>

lemma host_measures:
  assumes h: "linking_at LinkingInfoSyncStage h" "InfoSyncStage h = Host_AwaitingLatencyMeasurement"
    and t: "linking_in_time p (LinkStateStart h)" and d: "DurationStack (LatencyMeter h) = [l1, l2]"
    and rtt: "rtt = ucast ((ucast l1 + ucast l2 :: u32) div 2)"
    and k: "k = Host_OnService N (p n) h"
  shows "linking_at LinkingInfoSyncStage k" and "InfoSyncStage k = Host_SendingInfoRequest"
    and "RTT (LinkInfo k) = ucast (rtt :: u16)" and "ETTM (drv k) = ucast rtt * 8 div 20" and "LastSentMillis k = LastSentMillis h"
    and "same_session h k" and "HostClockSyncer k = HostClockSyncer h" and "LatencyMeter k = LatencyMeter h"
    and "PartnerRSSISamples (LinkInfo k) = PartnerRSSISamples (LinkInfo h)"
proof -
  have "Host_OnService N (p n) h = Service_SetNextRunASAP ((on_info_drv (LinkInfo_SetRTT (ucast rtt)) h)
                  \<lparr>InfoSyncStage := Host_SendingInfoRequest\<rparr>)"
    using h d by (simp add: host_linking_service [OF h(1) t] Host_OnLinking_def Host_OnInfoSync_def linking_at_def
        Meter_GetSampleCount_def Meter_GetAverageLatency_def rtt lola_consts)
  then show "linking_at LinkingInfoSyncStage k" "InfoSyncStage k = Host_SendingInfoRequest"
    "RTT (LinkInfo k) = ucast rtt" "ETTM (drv k) = ucast rtt * 8 div 20" "LastSentMillis k = LastSentMillis h"
    "same_session h k" "HostClockSyncer k = HostClockSyncer h" "LatencyMeter k = LatencyMeter h"
    "PartnerRSSISamples (LinkInfo k) = PartnerRSSISamples (LinkInfo h)"
    using h by (simp_all add: k link_op_defs on_info_drv_def case_prod_unfold Let_def linking_at_def same_session_def
        LinkInfo_SetRTT_def Driver_SetETTM_def)
qed

lemma host_asks:
  assumes h: "linking_at LinkingInfoSyncStage h" "InfoSyncStage h = Host_SendingInfoRequest"
    and t: "linking_in_time p (LinkStateStart h)" and r: "PartnerRSSISamples (LinkInfo h) = []"
    and s: "LOLA_LINK_SERVICE_UNLINK_RESEND_PERIOD < Link_GetElapsedMillisSinceLastSent (p n) h"
    and k: "k = Host_sends N (p n) Q R h"
  shows "linking_at LinkingInfoSyncStage k" and "InfoSyncStage k = Host_SendingInfoRequest"
    and "LoLaPacket_GetDataHeader (Packet k) = LOLA_LINK_HEADER_REPORT"
    and "LoLaPacket_GetId (Packet k) = LOLA_LINK_SUBHEADER_INFO_SYNC_REQUEST"
    and "LastSentMillis k = millis_now R" and "same_session h k" and "LinkInfo k = LinkInfo h" and "drv k = drv h"
    and "HostClockSyncer k = HostClockSyncer h" and "LatencyMeter k = LatencyMeter h"
proof -
  have "Host_OnService N (p n) h = Send_RequestSendPacketDefault (p n) (Host_PrepareInfoSyncRequest h)"
    using h r s by (simp add: host_linking_service [OF h(1) t] Host_OnLinking_def Host_OnInfoSync_def linking_at_def
        LinkInfo_HasPartnerRSSI_def resend_eq lola_consts)
  note e = Host_sends_eq [OF this]
  have k: "k = Service_SetNextRunASAP ((Send_RequestSendPacketDefault (p n) (Host_PrepareInfoSyncRequest h))
      \<lparr>LastSentMillis := millis_now R\<rparr>)"
    unfolding k using h(1)
    by (intro e) (simp_all add: Host_PrepareInfoSyncRequest_def link_op_defs linking_at_def link_packet_defs lola_consts)
  show "linking_at LinkingInfoSyncStage k" "InfoSyncStage k = Host_SendingInfoRequest"
    "LoLaPacket_GetDataHeader (Packet k) = LOLA_LINK_HEADER_REPORT"
    "LoLaPacket_GetId (Packet k) = LOLA_LINK_SUBHEADER_INFO_SYNC_REQUEST"
    "LastSentMillis k = millis_now R" "same_session h k" "LinkInfo k = LinkInfo h" "drv k = drv h"
    "HostClockSyncer k = HostClockSyncer h" "LatencyMeter k = LatencyMeter h"
    using h by (simp_all add: k Host_PrepareInfoSyncRequest_def link_op_defs linking_at_def same_session_def link_packet_defs lola_consts)
qed

lemma remote_asked:
  assumes r: "linking_at LinkingInfoSyncStage r" "InfoSyncStage r = Remote_AwaitingHostRequest"
    and p: "LoLaPacket_GetDataHeader p = LOLA_LINK_HEADER_REPORT" "LoLaPacket_GetId p = LOLA_LINK_SUBHEADER_INFO_SYNC_REQUEST"
    and k: "k = Remote_hears N Q p r"
  shows "linking_at LinkingInfoSyncStage k" and "InfoSyncStage k = Remote_SendingRemoteInfo"
    and "LastSentMillis k = LastSentMillis r" and "same_session r k" and "LinkInfo k = LinkInfo r" and "drv k = drv r"
    and "RemoteClockSyncer k = RemoteClockSyncer r" and "RemoteClockSyncTransaction k = RemoteClockSyncTransaction r"
proof -
  have "k = Service_SetNextRunASAP (r\<lparr>InfoSyncStage := Remote_SendingRemoteInfo\<rparr>)"
    using r p by (simp add: k Remote_hears_def Link_ProcessPacket_def Link_ProcessReport_def linking_at_def Remote_link_hooks_def
        Remote_OnHostInfoSyncRequestReceived_def lola_consts Let_def)
  then show "linking_at LinkingInfoSyncStage k" "InfoSyncStage k = Remote_SendingRemoteInfo"
    "LastSentMillis k = LastSentMillis r" "same_session r k" "LinkInfo k = LinkInfo r" "drv k = drv r"
    "RemoteClockSyncer k = RemoteClockSyncer r" "RemoteClockSyncTransaction k = RemoteClockSyncTransaction r"
    using r by (simp_all add: link_op_defs linking_at_def same_session_def)
qed

lemma remote_reports:
  assumes r: "linking_at LinkingInfoSyncStage r" "InfoSyncStage r = Remote_SendingRemoteInfo"
    and t: "linking_in_time p (LinkStateStart r)"
    and s: "LOLA_LINK_SERVICE_UNLINK_RESEND_PERIOD < Link_GetElapsedMillisSinceLastSent (p n) r"
    and k: "k = Remote_sends N (p n) Q R r"
  shows "linking_at LinkingInfoSyncStage k" and "InfoSyncStage k = Remote_SendingRemoteInfo"
    and "LoLaPacket_GetDataHeader (Packet k) = LOLA_LINK_HEADER_REPORT"
    and "LoLaPacket_GetId (Packet k) = LOLA_LINK_SUBHEADER_INFO_SYNC_REMOTE"
    and "LastSentMillis k = millis_now R" and "same_session r k" and "LinkInfo k = LinkInfo r" and "drv k = drv r"
    and "RemoteClockSyncer k = RemoteClockSyncer r" and "RemoteClockSyncTransaction k = RemoteClockSyncTransaction r"
proof -
  have "Remote_OnService N (p n) r = Send_RequestSendPacketDefault (p n) (Remote_PrepareRemoteInfoSync r)"
    using r s by (simp add: remote_linking_service [OF r(1) t] Remote_OnLinking_def Remote_OnInfoSync_def linking_at_def
        resend_eq lola_consts)
  note e = Remote_sends_eq [OF this]
  have k: "k = Service_SetNextRunASAP ((Send_RequestSendPacketDefault (p n) (Remote_PrepareRemoteInfoSync r))
      \<lparr>LastSentMillis := millis_now R\<rparr>)"
    unfolding k using r(1)
    by (intro e) (simp_all add: Remote_PrepareRemoteInfoSync_def link_op_defs linking_at_def link_packet_defs lola_consts)
  show "linking_at LinkingInfoSyncStage k" "InfoSyncStage k = Remote_SendingRemoteInfo"
    "LoLaPacket_GetDataHeader (Packet k) = LOLA_LINK_HEADER_REPORT"
    "LoLaPacket_GetId (Packet k) = LOLA_LINK_SUBHEADER_INFO_SYNC_REMOTE"
    "LastSentMillis k = millis_now R" "same_session r k" "LinkInfo k = LinkInfo r" "drv k = drv r"
    "RemoteClockSyncer k = RemoteClockSyncer r" "RemoteClockSyncTransaction k = RemoteClockSyncTransaction r"
    using r by (simp_all add: k Remote_PrepareRemoteInfoSync_def link_op_defs linking_at_def same_session_def link_packet_defs lola_consts)
qed

lemma host_told:
  assumes h: "linking_at LinkingInfoSyncStage h" "InfoSyncStage h = Host_SendingInfoRequest"
    and t: "linking_in_time p (LinkStateStart h)" and ring: "ring_ok 3 (ring_rssi P)" "PartnerRSSISamples (LinkInfo h) = []"
    and x: "LoLaPacket_GetDataHeader x = LOLA_LINK_HEADER_REPORT" "LoLaPacket_GetId x = LOLA_LINK_SUBHEADER_INFO_SYNC_REMOTE"
    and k: "k = Host_OnService N (p n) (Host_hears N P x h)"
  shows "linking_at LinkingInfoSyncStage k" and "InfoSyncStage k = Host_SendingHostInfo"
    and "PartnerRSSISamples (LinkInfo k) = [LoLaPacket_GetPayload x ! 0]"
    and "LastSentMillis k = LastSentMillis h" and "same_session h k" and "RTT (LinkInfo k) = RTT (LinkInfo h)" and "drv k = drv h"
    and "HostClockSyncer k = HostClockSyncer h" and "LatencyMeter k = LatencyMeter h"
proof -
  let ?r = "LoLaPacket_GetPayload x ! 0"
  define h1 where "h1 = Service_SetNextRunASAP (on_info (LinkInfo_SetPartnerRSSINormalized P ?r) h)"
  have h1: "Host_hears N P x h = h1"
    using h x by (simp add: h1_def Host_hears_def Link_ProcessPacket_def Link_ProcessReport_def linking_at_def Host_link_hooks_def
        Host_OnRemoteInfoSyncReceived_def lola_consts Let_def)
  have p: "PartnerRSSISamples (LinkInfo h1) = [?r]"
    using ring by (simp add: h1_def link_op_defs LinkInfo_SetPartnerRSSINormalized_def)
  have at: "linking_at LinkingInfoSyncStage h1" "linking_in_time p (LinkStateStart h1)"
    using h t by (simp_all add: h1_def link_op_defs linking_at_def)
  have f: "InfoSyncStage h1 = Host_SendingInfoRequest" "LinkingState h1 = LinkingInfoSyncStage" "LinkInfo_HasPartnerRSSI (LinkInfo h1)"
    "Host_SendingInfoRequest \<noteq> Host_AwaitingLatencyMeasurement"
    using h p at by (simp_all add: linking_at_def LinkInfo_HasPartnerRSSI_def) (simp_all add: h1_def link_op_defs lola_consts)
  have k: "k = Service_SetNextRunASAP (h1\<lparr>InfoSyncStage := Host_SendingHostInfo\<rparr>)"
    unfolding k h1 host_linking_service [OF at] Host_OnLinking_def Host_OnInfoSync_def f(1,2)
    using f(3,4) by (simp only: if_True if_False simp_thms)
  show "linking_at LinkingInfoSyncStage k" "InfoSyncStage k = Host_SendingHostInfo"
    "PartnerRSSISamples (LinkInfo k) = [?r]"
    "LastSentMillis k = LastSentMillis h" "same_session h k" "RTT (LinkInfo k) = RTT (LinkInfo h)" "drv k = drv h"
    "HostClockSyncer k = HostClockSyncer h" "LatencyMeter k = LatencyMeter h"
    using h p by (simp_all add: k) (simp_all add: h1_def link_op_defs linking_at_def same_session_def LinkInfo_SetPartnerRSSINormalized_def)
qed

text \<open>The three bytes of the host's report: its RSSI and the round trip, low byte first.\<close>

definition host_report :: "u16 \<Rightarrow> LoLaPacket \<Rightarrow> bool" where
  "host_report rtt p \<longleftrightarrow> LoLaPacket_GetDataHeader p = LOLA_LINK_HEADER_REPORT \<and>
     LoLaPacket_GetId p = LOLA_LINK_SUBHEADER_INFO_SYNC_HOST \<and>
     ucast (LoLaPacket_GetPayload p ! 1) + push_bit 8 (ucast (LoLaPacket_GetPayload p ! 2)) = rtt"

lemma u16_bytes: "ucast (ucast (x AND 0xFF) :: u8) + push_bit 8 (ucast (ucast (drop_bit 8 x AND 0xFF) :: u8)) = (x :: u16)"
proof -
  let ?a = "ucast (ucast (x AND 0xFF) :: u8) :: u16" and ?b = "push_bit 8 (ucast (ucast (drop_bit 8 x AND 0xFF) :: u8)) :: u16"
  have m: "(0xFF :: u16) = mask 8" by (simp add: mask_eq_exp_minus_1)
  have "?a + ?b = ?a OR ?b"
    by (intro disjunctive_add_eq_or bit_eqI) (auto simp: m bit_simps)
  also have "\<dots> = x" by (intro bit_eqI) (auto simp: m bit_simps)
  finally show ?thesis .
qed

lemma u16_u32: "ucast (ucast (x :: u16) :: u32) = x"
  by (rule bit_word_eqI) (simp add: bit_simps)

lemma host_reports:
  assumes h: "linking_at LinkingInfoSyncStage h" "InfoSyncStage h = Host_SendingHostInfo"
    and t: "linking_in_time p (LinkStateStart h)" and rtt: "RTT (LinkInfo h) = ucast (rtt :: u16)"
    and s: "LOLA_LINK_SERVICE_UNLINK_RESEND_PERIOD < Link_GetElapsedMillisSinceLastSent (p n) h"
    and k: "k = Host_sends N (p n) Q R h"
  shows "linking_at LinkingInfoSyncStage k" and "host_report rtt (Packet k)"
    and "same_session h k" and "LinkInfo k = LinkInfo h" and "drv k = drv h"
    and "HostClockSyncer k = HostClockSyncer h" and "LatencyMeter k = LatencyMeter h"
proof -
  have "Host_OnService N (p n) h = Send_RequestSendPacketDefault (p n) (Host_PrepareHostInfoSync h)"
    using h s by (simp add: host_linking_service [OF h(1) t] Host_OnLinking_def Host_OnInfoSync_def linking_at_def
        resend_eq lola_consts)
  note e = Host_sends_eq [OF this]
  have k: "k = Service_SetNextRunASAP ((Send_RequestSendPacketDefault (p n) (Host_PrepareHostInfoSync h))
      \<lparr>LastSentMillis := millis_now R\<rparr>)"
    unfolding k using h(1)
    by (intro e) (simp_all add: Host_PrepareHostInfoSync_def link_op_defs linking_at_def link_packet_defs lola_consts Let_def)
  show "linking_at LinkingInfoSyncStage k" "same_session h k" "LinkInfo k = LinkInfo h" "drv k = drv h"
    "HostClockSyncer k = HostClockSyncer h" "LatencyMeter k = LatencyMeter h"
    using h by (simp_all add: k Host_PrepareHostInfoSync_def link_op_defs linking_at_def same_session_def Let_def)
  have l: "length (Raw (Packet h)) = 26" using h(1) by (simp add: linking_at_def lola_consts)
  have g: "LinkInfo_GetRTT (LinkInfo h) = rtt" using rtt by (simp add: LinkInfo_GetRTT_def u16_u32)
  define a where "a = (ucast (rtt AND 0xFF) :: u8)"
  define b where "b = (ucast (drop_bit 8 rtt AND 0xFF) :: u8)"
  have f: "LoLaPacket_GetPayload (Packet k) ! 1 = a" "LoLaPacket_GetPayload (Packet k) ! 2 = b"
    "LoLaPacket_GetDataHeader (Packet k) = LOLA_LINK_HEADER_REPORT" "LoLaPacket_GetId (Packet k) = LOLA_LINK_SUBHEADER_INFO_SYNC_HOST"
    using l by (simp_all add: k Host_PrepareHostInfoSync_def link_op_defs link_packet_defs Let_def g a_def [symmetric] b_def [symmetric])
      (simp_all add: lola_consts numeral_2_eq_2)
  show "host_report rtt (Packet k)"
    unfolding host_report_def f a_def b_def by (intro conjI refl u16_bytes)
qed

lemma remote_told:
  assumes r: "linking_at LinkingInfoSyncStage r" "InfoSyncStage r = Remote_SendingRemoteInfo"
    and t: "linking_in_time q (LinkStateStart r)" and p: "host_report rtt p"
    and k: "k = Remote_OnService N (q n) (Remote_hears N Q p r)"
  shows "linking_at LinkingClockSyncStage k" and "RTT (LinkInfo k) = ucast rtt" and "ETTM (drv k) = ucast rtt * 8 div 20"
    and "LastSentMillis k = ILOLA_INVALID_MILLIS" and "same_session r k"
    and "RemoteClockSyncer k = RemoteClockSyncer r" and "RemoteClockSyncTransaction k = RemoteClockSyncTransaction r"
proof -
  define r1 where "r1 = Service_SetNextRunASAP ((on_info (LinkInfo_SetPartnerRSSINormalized Q (LoLaPacket_GetPayload p ! 0))
      (on_info_drv (LinkInfo_SetRTT (ucast rtt)) r))\<lparr>InfoSyncStage := Remote_InfoSyncDone\<rparr>)"
  have r1: "Remote_hears N Q p r = r1"
    using r p by (simp add: r1_def Remote_hears_def Link_ProcessPacket_def Link_ProcessReport_def linking_at_def Remote_link_hooks_def
        Remote_OnHostInfoSyncReceived_def host_report_def lola_consts Let_def)
  have f: "InfoSyncStage r1 = Remote_InfoSyncDone" "LinkingState r1 = LinkingInfoSyncStage" "linking_at LinkingInfoSyncStage r1"
    "linking_in_time q (LinkStateStart r1)" "Remote_InfoSyncDone \<noteq> Remote_AwaitingHostRequest" 
    "Remote_InfoSyncDone \<noteq> Remote_SendingRemoteInfo"
    using r t by (simp_all add: r1_def link_op_defs linking_at_def on_info_drv_def case_prod_unfold Let_def lola_consts)
  have k: "k = Link_SetLinkingState LinkingClockSyncStage r1"
    unfolding k r1 remote_linking_service [OF f(3,4)] Remote_OnLinking_def Remote_OnInfoSync_def f(1,2)
    using f(5,6) by (simp only: if_True if_False simp_thms case_prod_unfold Let_def fst_conv snd_conv)
  show "linking_at LinkingClockSyncStage k" "RTT (LinkInfo k) = ucast rtt" "ETTM (drv k) = ucast rtt * 8 div 20"
    "LastSentMillis k = ILOLA_INVALID_MILLIS" "same_session r k" "RemoteClockSyncer k = RemoteClockSyncer r"
    "RemoteClockSyncTransaction k = RemoteClockSyncTransaction r"
    using r by (simp_all add: k r1_def link_op_defs on_info_drv_def case_prod_unfold Let_def linking_at_def same_session_def
        LinkInfo_SetRTT_def Driver_SetETTM_def LinkInfo_SetPartnerRSSINormalized_def)
qed

lemma same_session_refl: "same_session s s"
  by (simp add: same_session_def)

lemma same_session_trans: "same_session s t \<Longrightarrow> same_session t u \<Longrightarrow> same_session s u"
  by (simp add: same_session_def)

lemma same_session_start: "same_session s t \<Longrightarrow> linking_in_time p (LinkStateStart t) = linking_in_time p (LinkStateStart s)"
  by (simp add: same_session_def)

lemma resend_after:
  assumes "LastSentMillis s = u" and "period < millis_now P - u" and "period < ILOLA_INVALID_MILLIS"
  shows "period < Link_GetElapsedMillisSinceLastSent P s"
  using assms by (simp add: Link_GetElapsedMillisSinceLastSent_def elapsed_since_def)

text \<open>When the ends are ready for the clocks, after latency and information.\<close>

definition informed :: "u16 \<Rightarrow> 'a LoLaLinkHostService_scheme \<Rightarrow> 'b LoLaLinkRemoteService_scheme \<Rightarrow> bool" where
  "informed rtt h r \<longleftrightarrow> linking_at LinkingInfoSyncStage h \<and> linking_at LinkingClockSyncStage r \<and>
     length (DurationStack (LatencyMeter h)) = 2 \<and> PartnerRSSISamples (LinkInfo h) \<noteq> [] \<and>
     RTT (LinkInfo h) = ucast rtt \<and> RTT (LinkInfo r) = ucast rtt \<and>
     ETTM (drv h) = ucast rtt * 8 div 20 \<and> ETTM (drv r) = ucast rtt * 8 div 20 \<and> LastSentMillis r = ILOLA_INVALID_MILLIS"

lemma info_step:
  assumes h: "linking_at LinkingInfoSyncStage h" "InfoSyncStage h = Host_AwaitingLatencyMeasurement"
    and r: "linking_at LinkingInfoSyncStage r" "InfoSyncStage r = Remote_AwaitingHostRequest" "LastSentMillis r = ILOLA_INVALID_MILLIS"
    and t: "linking_in_time p (LinkStateStart h)" "linking_in_time q (LinkStateStart r)"
    and d: "DurationStack (LatencyMeter h) = [l1, l2]" and rtt: "rtt = ucast ((ucast l1 + ucast l2 :: u32) div 2)"
    and ring: "ring_ok 3 (ring_rssi (p 4))" "PartnerRSSISamples (LinkInfo h) = []"
    and pace: "LastSentMillis h = u" "LOLA_LINK_SERVICE_UNLINK_RESEND_PERIOD < millis_now (p 1) - u"
      "LOLA_LINK_SERVICE_UNLINK_RESEND_PERIOD < millis_now (p 6) - millis_now (p 3)"
    and e: "info_exchange N N' p q h r = (h', r')"
  shows "informed rtt h' r'" and "same_session h h'" and "same_session r r'" and "HostClockSyncer h' = HostClockSyncer h"
    and "RemoteClockSyncer r' = RemoteClockSyncer r" and "RemoteClockSyncTransaction r' = RemoteClockSyncTransaction r"
proof -
  define h1 where "h1 = Host_OnService N (p 0) h"
  define h2 where "h2 = Host_sends N (p 1) (p 2) (p 3) h1"
  define r1 where "r1 = Remote_hears N' (q 0) (Packet h2) r"
  define r2 where "r2 = Remote_sends N' (q 1) (q 2) (q 3) r1"
  define h3 where "h3 = Host_OnService N (p 5) (Host_hears N (p 4) (Packet r2) h2)"
  have h': "h' = Host_sends N (p 6) (p 7) (p 8) h3" and r': "r' = Remote_OnService N' (q 5) (Remote_hears N' (q 4) (Packet h') r2)"
    using e by (auto simp: info_exchange_def Let_def h1_def h2_def r1_def r2_def h3_def)
  have period: "LOLA_LINK_SERVICE_UNLINK_RESEND_PERIOD < ILOLA_INVALID_MILLIS" by (simp add: lola_consts)
  note H1 = host_measures [OF h t(1) d rtt h1_def]
  have H1k: "linking_in_time p (LinkStateStart h1)" "PartnerRSSISamples (LinkInfo h1) = []" "LastSentMillis h1 = u"
    using t(1) H1(5,9) ring(2) pace(1) same_session_start [OF H1(6)] by simp_all
  note H2 = host_asks [OF H1(1,2) H1k(1,2) resend_after [OF H1k(3) pace(2) period] h2_def]
  note R1 = remote_asked [OF r(1,2) H2(3,4) r1_def]
  have R1k: "linking_in_time q (LinkStateStart r1)" "LastSentMillis r1 = ILOLA_INVALID_MILLIS"
    using t(2) R1(3) r(3) same_session_start [OF R1(4)] by simp_all
  note R2 = remote_reports [OF R1(1,2) R1k(1) resend_now [OF R1k(2) period] r2_def]
  have S2: "same_session h h2" by (rule same_session_trans [OF H1(6) H2(6)])
  have H2k: "linking_in_time p (LinkStateStart h2)" "PartnerRSSISamples (LinkInfo h2) = []"
    using t(1) H2(7) H1k(2) same_session_start [OF S2] by simp_all
  note H3 = host_told [OF H2(1,2) H2k(1) ring(1) H2k(2) R2(3,4) h3_def]
  have S3: "same_session h h3" by (rule same_session_trans [OF S2 H3(5)])
  have H3k: "linking_in_time p (LinkStateStart h3)" "RTT (LinkInfo h3) = ucast rtt" "LastSentMillis h3 = millis_now (p 3)"
    using t(1) H3(4,6) H2(5,7) H1(3) same_session_start [OF S3] by simp_all
  note H4 = host_reports [OF H3(1,2) H3k(1,2) resend_after [OF H3k(3) pace(3) period] h']
  have T2: "same_session r r2" by (rule same_session_trans [OF R1(4) R2(6)])
  have R2k: "linking_in_time q (LinkStateStart r2)" using t(2) same_session_start [OF T2] by simp
  note R3 = remote_told [OF R2(1,2) R2k H4(2) r']
  show "same_session h h'" "same_session r r'" "HostClockSyncer h' = HostClockSyncer h"
    "RemoteClockSyncer r' = RemoteClockSyncer r" "RemoteClockSyncTransaction r' = RemoteClockSyncTransaction r"
    using same_session_trans [OF S3 H4(3)] same_session_trans [OF T2 R3(5)] H4(6) H3(8) H2(9) H1(7) R3(6,7) R2(9,10) R1(7,8)
    by simp_all
  show "informed rtt h' r'"
    using H4 R3 H3 H2 H1 d by (simp add: informed_def)
qed

section \<open>Clocks\<close>

text \<open>The remote's clock once it has taken the estimation that waits, if one does.\<close>

definition taken_clock :: "'b LoLaLinkRemoteService_scheme \<Rightarrow> RTCClockSource" where
  "taken_clock r = (let t = RemoteClockSyncTransaction r
     in if Request_IsResultWaiting t then Clock_AddOffsetMicros (RequestResult t) (SyncedClock (drv r)) else SyncedClock (drv r))"

text \<open>What clock synchronisation leaves alone.\<close>

definition same_link :: "'a LoLaLinkService_scheme \<Rightarrow> 'a LoLaLinkService_scheme \<Rightarrow> bool" where
  "same_link s s' \<longleftrightarrow> LinkStateStart s' = LinkStateStart s \<and> TimedHopper s' = TimedHopper s \<and> LinkInfo s' = LinkInfo s \<and>
     CryptoEncoder (drv s') = CryptoEncoder (drv s) \<and> ETTM (drv s') = ETTM (drv s)"

lemma same_link_refl: "same_link s s"
  by (simp add: same_link_def)

lemma same_link_trans: "same_link s t \<Longrightarrow> same_link t u \<Longrightarrow> same_link s u"
  by (simp add: same_link_def)

lemma same_link_start: "same_link s t \<Longrightarrow> linking_in_time p (LinkStateStart t) = linking_in_time p (LinkStateStart s)"
  by (simp add: same_link_def)

lemma remote_takes:
  assumes "SyncerHasClock (RemoteClockSyncer r)"
  shows "drv (Remote_TakeEstimation P r) = (drv r)\<lparr>SyncedClock := taken_clock r\<rparr>"
    and "SyncerHasClock (RemoteClockSyncer (Remote_TakeEstimation P r))"
    and "RequestStage (RemoteClockSyncTransaction (Remote_TakeEstimation P r)) =
      (if Request_IsResultWaiting (RemoteClockSyncTransaction r) then 0 else RequestStage (RemoteClockSyncTransaction r))"
    and "LastSentMillis (Remote_TakeEstimation P r) = LastSentMillis r" and "same_link r (Remote_TakeEstimation P r)"
    and "Packet (Remote_TakeEstimation P r) = Packet r" and "LinkingState (Remote_TakeEstimation P r) = LinkingState r"
  using assms
  by (simp_all add: Remote_TakeEstimation_def RemoteSyncer_OnEstimationErrorReceived_def Syncer_AddOffsetMicros_def on_clock_def
      taken_clock_def Request_Reset_def Syncer_StampSyncGood_def same_link_def link_op_defs Let_def)

lemma remote_requests_clock:
  assumes r: "linking_at LinkingClockSyncStage r" "SyncerHasClock (RemoteClockSyncer r)"
      "RequestStage (RemoteClockSyncTransaction r) \<noteq> StageRequested"
    and t: "linking_in_time q (LinkStateStart r)"
    and s: "LOLA_LINK_SERVICE_UNLINK_RESEND_PERIOD < Link_GetElapsedMillisSinceLastSent (q n) r"
    and k: "k = Remote_sends N (q n) Q R r"
  shows "linking_at LinkingClockSyncStage k" and "SyncerHasClock (RemoteClockSyncer k)" and "same_link r k"
    and "SyncedClock (drv k) = taken_clock r" and "LastSentMillis k = millis_now R"
    and "RequestStage (RemoteClockSyncTransaction k) = StageRequested"
    and "LastRequested (RemoteClockSyncTransaction k) = millis_now (q n)"
    and "\<exists>p. length (Raw p) = LOLA_LINK_SERVICE_PACKET_MAX_SIZE \<and>
      Packet k = short_packet (RequestId (RemoteClockSyncTransaction k)) LOLA_LINK_SUBHEADER_NTP_REQUEST
        (Clock_GetSyncMicros (micros_now Q) (taken_clock r) + ETTM (drv r)) p"
proof -
  define g where "g = Remote_TakeEstimation (q n) r"
  define t1 where "t1 = Request_SetRequested (q n) (Request_Reset (RemoteClockSyncTransaction g))"
  note T = remote_takes [OF r(2), of "q n", folded g_def]
  have e: "Link_GetElapsedMillisSinceLastSent (q n) g = Link_GetElapsedMillisSinceLastSent (q n) r"
    using T(4) by (simp add: Link_GetElapsedMillisSinceLastSent_def)
  have nr: "\<not> Request_IsRequested (RemoteClockSyncTransaction g)"
    using T(3) r(3) by (simp add: Request_IsRequested_def lola_consts)
  have l: "LinkingState r = LinkingClockSyncStage" "LinkingClockSyncStage \<noteq> LinkingInfoSyncStage"
    using r(1) by (simp_all add: linking_at_def lola_consts)
  define k1 where "k1 = Send_RequestSendPacketDefault (q n) (Remote_PrepareClockSyncRequest (RequestId t1)
      (g\<lparr>RemoteClockSyncTransaction := t1\<rparr>))"
  have k1: "Remote_OnService N (q n) r = k1"
    unfolding remote_linking_service [OF r(1) t] Remote_OnLinking_def l(1) Remote_OnClockSync_def Let_def g_def [symmetric] e
    using l(2) nr s by (simp only: if_False if_True simp_thms t1_def k1_def)
  have w: "length (Raw (Packet g)) = 26" "GetLinkState g = Linking" "LinkingState g = LinkingClockSyncStage" "InfoHasDriver (LinkInfo g)"
    using r(1) T(5,6,7) by (simp_all add: linking_at_def same_link_def lola_consts)
  define est where "est = Remote_clock_estimate Q (drv g)"
  have p1: "Packet k1 = LoLaPacket_SetPayload 0 [LOLA_LINK_SUBHEADER_NTP_REQUEST] (LoLaPacket_SetId (RequestId t1)
      (snd (LoLaPacket_SetDefinition (Some LinkShortPacketDefinition) (Packet g))))" "drv k1 = drv g"
    by (simp_all add: k1_def Remote_PrepareClockSyncRequest_def link_op_defs)
  have p2: "LoLaPacket_GetDataHeader (Packet k1) = LOLA_LINK_HEADER_SHORT"
    "LoLaPacket_GetPayload (Packet k1) ! 0 = LOLA_LINK_SUBHEADER_NTP_REQUEST"
    using w(1) by (simp_all add: p1 link_packet_defs)
  define k2 where "k2 = Link_S_ArrayToPayload est k1"
  have k2: "Remote_OnPreSend Q k1 = k2" "Packet k2 = short_packet (RequestId t1) LOLA_LINK_SUBHEADER_NTP_REQUEST est (Packet g)"
    using p2 by (simp_all add: Remote_OnPreSend_def LinkShortPacketDefinition_def k2_def est_def p1(2))
      (simp add: short_packet_def p1(1) link_op_defs)
  have h2: "LoLaPacket_GetDataHeader (Packet k2) \<noteq> LOLA_LINK_HEADER_REPORT"
    using w(1) short_packet_fields(1) [of "Packet g"] by (simp add: k2(2) lola_consts)
  have k: "k = Service_SetNextRunASAP (k2\<lparr>LastSentMillis := millis_now R\<rparr>)"
    using h2 by (simp add: k Remote_sends_def k1 k2(1) Link_OnSendOk_def LinkReportPacketDefinition_def)
  show "linking_at LinkingClockSyncStage k" "SyncerHasClock (RemoteClockSyncer k)" "same_link r k"
    "SyncedClock (drv k) = taken_clock r" "LastSentMillis k = millis_now R"
    "RequestStage (RemoteClockSyncTransaction k) = StageRequested"
    "LastRequested (RemoteClockSyncTransaction k) = millis_now (q n)"
    using w T by (simp_all add: k k2_def k1_def t1_def Remote_PrepareClockSyncRequest_def Request_SetRequested_def link_op_defs
        linking_at_def same_link_def lola_consts)
  have i: "RequestId (RemoteClockSyncTransaction k) = RequestId t1" "Packet k = Packet k2"
    by (simp_all add: k k2_def k1_def Remote_PrepareClockSyncRequest_def link_op_defs)
  have "est = Clock_GetSyncMicros (micros_now Q) (taken_clock r) + ETTM (drv r)"
    by (simp add: est_def Remote_clock_estimate_def T(1) Driver_GetSyncMicros_def Driver_GetETTMMicros_def)
  then show "\<exists>p. length (Raw p) = LOLA_LINK_SERVICE_PACKET_MAX_SIZE \<and>
      Packet k = short_packet (RequestId (RemoteClockSyncTransaction k)) LOLA_LINK_SUBHEADER_NTP_REQUEST
        (Clock_GetSyncMicros (micros_now Q) (taken_clock r) + ETTM (drv r)) p"
    using w(1) by (intro exI [of _ "Packet g"]) (simp add: i k2(2) lola_consts)
qed

text \<open>The host can take a clock request: it is in the stage, or done with what comes before.\<close>

definition takes_clocks :: "'a LoLaLinkHostService_scheme \<Rightarrow> bool" where
  "takes_clocks h \<longleftrightarrow> linking_at LinkingClockSyncStage h \<or> linking_at LinkingInfoSyncStage h \<and>
     length (DurationStack (LatencyMeter h)) = 2 \<and> PartnerRSSISamples (LinkInfo h) \<noteq> []"

lemma host_answers_clock:
  assumes h: "takes_clocks h" "\<not> HostSyncer_IsSynced (HostClockSyncer h)"
    and t: "linking_in_time p (LinkStateStart h)" and x: "length (Raw x) = LOLA_LINK_SERVICE_PACKET_MAX_SIZE"
    and e: "err = stamp + OffsetMicros (SyncedClock (drv h)) - est"
    and k: "k = Host_sends N (p n) Q R (Host_hears N P (short_packet i LOLA_LINK_SUBHEADER_NTP_REQUEST est x) (stamped stamp h))"
  shows "linking_at LinkingClockSyncStage k" and "same_link h k" and "SyncedClock (drv k) = SyncedClock (drv h)"
    and "HostClockSyncer k = snd (HostSyncer_OnEstimationReceived err (HostClockSyncer h))"
    and "\<exists>y. length (Raw y) = LOLA_LINK_SERVICE_PACKET_MAX_SIZE \<and> Packet k = short_packet i LOLA_LINK_SUBHEADER_NTP_REPLY err y"
proof -
  let ?x = "short_packet i LOLA_LINK_SUBHEADER_NTP_REQUEST est x"
  note f = short_packet_fields [OF x, of i LOLA_LINK_SUBHEADER_NTP_REQUEST est]
  define h1 where "h1 = Host_OnClockSyncRequestReceived P i est (stamped stamp h)"
  have h1: "Host_hears N P ?x (stamped stamp h) = h1"
    using f by (simp add: Host_hears_def Link_ProcessPacket_def Link_ProcessShort_def Host_link_hooks_def h1_def lola_consts Let_def)
  have err: "Host_estimation_error est (stamped stamp h) = err"
    by (simp add: Host_estimation_error_def stamped_def on_drv_def e Clock_GetSyncMicrosOf_def)
  have g: "linking_at LinkingClockSyncStage h1" "same_link h h1" "SyncedClock (drv h1) = SyncedClock (drv h)"
    "HostClockSyncer h1 = HostClockSyncer h" "ResponseStage (HostClockSyncTransaction h1) = StageResponseResultIn"
    "ResponseId (HostClockSyncTransaction h1) = i" "ResponseResult (HostClockSyncTransaction h1) = err"
  proof -
    define s1 where "s1 = (stamped stamp h)\<lparr>HostClockSyncTransaction := Response_SetResult i err
        (HostClockSyncTransaction (stamped stamp h))\<rparr>"
    have l: "GetLinkState (stamped stamp h) = Linking" using h(1) by (auto simp: takes_clocks_def linking_at_def stamped_def on_drv_def)
    consider (sync) "linking_at LinkingClockSyncStage h" | (info) "linking_at LinkingInfoSyncStage h"
      "length (DurationStack (LatencyMeter h)) = 2" "PartnerRSSISamples (LinkInfo h) \<noteq> []"
      using h(1) unfolding takes_clocks_def by blast
    then have "h1 = Service_SetNextRunASAP s1 \<and> LinkingState h = LinkingClockSyncStage \<or>
        h1 = Link_SetLinkingState LinkingClockSyncStage s1"
    proof cases
      case sync
      then have "LinkingState s1 = LinkingClockSyncStage" "LinkingClockSyncStage \<noteq> LinkingInfoSyncStage"
        by (simp_all add: s1_def stamped_def on_drv_def linking_at_def lola_consts)
      then show ?thesis
        using sync unfolding h1_def Host_OnClockSyncRequestReceived_def err Let_def s1_def [symmetric]
        by (simp add: l linking_at_def)
    next
      case info
      then have "LinkingState s1 = LinkingInfoSyncStage" "LinkInfo_HasPartnerRSSI (LinkInfo s1)"
        "LOLA_LINK_SERVICE_UNLINK_MIN_LATENCY_SAMPLES \<le> Meter_GetSampleCount (LatencyMeter s1)"
        by (simp_all add: s1_def stamped_def on_drv_def linking_at_def LinkInfo_HasPartnerRSSI_def Meter_GetSampleCount_def lola_consts)
      then show ?thesis
        unfolding h1_def Host_OnClockSyncRequestReceived_def err Let_def s1_def [symmetric] by (simp add: l)
    qed
    moreover have "GetLinkState h = Linking" "InfoHasDriver (LinkInfo h)" "length (Raw (Packet h)) = LOLA_LINK_SERVICE_PACKET_MAX_SIZE"
      using h(1) by (auto simp: takes_clocks_def linking_at_def)
    ultimately show "linking_at LinkingClockSyncStage h1" "same_link h h1" "SyncedClock (drv h1) = SyncedClock (drv h)"
      "HostClockSyncer h1 = HostClockSyncer h" "ResponseStage (HostClockSyncTransaction h1) = StageResponseResultIn"
      "ResponseId (HostClockSyncTransaction h1) = i" "ResponseResult (HostClockSyncTransaction h1) = err"
      by (auto simp: s1_def stamped_def link_op_defs linking_at_def same_link_def Response_SetResult_def)
  qed
  define c where "c = snd (HostSyncer_OnEstimationReceived err (HostClockSyncer h))"
  define g1 where "g1 = (Host_PrepareClockSyncResponse i err (h1\<lparr>HostClockSyncer := c\<rparr>))
      \<lparr>HostClockSyncTransaction := Response_Reset (HostClockSyncTransaction h1)\<rparr>"
  have t1: "linking_in_time p (LinkStateStart h1)" using t same_link_start [OF g(2)] by simp
  have l: "LinkingState h1 = LinkingClockSyncStage" "LinkingClockSyncStage \<noteq> LinkingInfoSyncStage"
    "\<not> HostSyncer_IsSynced (HostClockSyncer h1)" "Response_IsResultReady (HostClockSyncTransaction h1)"
    using g h(2) by (simp_all add: linking_at_def Response_IsResultReady_def lola_consts)
  have s: "Host_OnService N (p n) h1 = Send_RequestSendPacketDefault (p n) g1"
    unfolding host_linking_service [OF g(1) t1] Host_OnLinking_def Host_OnClockSync_def Let_def l(1)
    using l(2-4) g(4,6,7) by (simp only: if_True if_False simp_thms g1_def c_def)
  have w: "length (Raw (Packet h1)) = 26" "GetLinkState h1 = Linking" using g(1) by (simp_all add: linking_at_def lola_consts)
  have pk: "Packet g1 = short_packet i LOLA_LINK_SUBHEADER_NTP_REPLY err (Packet h1)"
    by (simp add: g1_def Host_PrepareClockSyncResponse_def short_packet_def link_op_defs)
  have k: "k = Service_SetNextRunASAP ((Send_RequestSendPacketDefault (p n) g1)\<lparr>LastSentMillis := millis_now R\<rparr>)"
    unfolding k h1 using w short_packet_fields(1) [of "Packet h1"]
    by (intro Host_sends_eq [OF s]) (simp_all add: pk, simp_all add: g1_def Host_PrepareClockSyncResponse_def link_op_defs lola_consts)
  show "linking_at LinkingClockSyncStage k" "same_link h k" "SyncedClock (drv k) = SyncedClock (drv h)"
    "HostClockSyncer k = snd (HostSyncer_OnEstimationReceived err (HostClockSyncer h))"
    using g by (simp_all add: k g1_def c_def Host_PrepareClockSyncResponse_def link_op_defs linking_at_def same_link_def)
  show "\<exists>y. length (Raw y) = LOLA_LINK_SERVICE_PACKET_MAX_SIZE \<and> Packet k = short_packet i LOLA_LINK_SUBHEADER_NTP_REPLY err y"
    using w(1) by (intro exI [of _ "Packet h1"]) (simp add: k pk link_op_defs lola_consts)
qed

lemma remote_hears_clock:
  assumes r: "linking_at LinkingClockSyncStage r" "RequestStage (RemoteClockSyncTransaction r) = StageRequested"
    and f: "millis_now P - LastRequested (RemoteClockSyncTransaction r) < LOLA_LINK_SERVICE_UNLINK_TRANSACTION_LIFETIME"
    and y: "length (Raw y) = LOLA_LINK_SERVICE_PACKET_MAX_SIZE"
    and k: "k = Remote_hears N P (short_packet (RequestId (RemoteClockSyncTransaction r)) LOLA_LINK_SUBHEADER_NTP_REPLY err y) r"
  shows "linking_at LinkingClockSyncStage k" and "same_link r k" and "SyncedClock (drv k) = SyncedClock (drv r)"
    and "RemoteClockSyncer k = RemoteClockSyncer r" and "LastSentMillis k = LastSentMillis r"
    and "Request_IsResultWaiting (RemoteClockSyncTransaction k)" and "RequestResult (RemoteClockSyncTransaction k) = err"
proof -
  let ?t = "RemoteClockSyncTransaction r"
  note x = short_packet_fields [OF y, of "RequestId ?t" LOLA_LINK_SUBHEADER_NTP_REPLY err]
  have "k = Remote_OnClockSyncResponseReceived P (RequestId ?t) err r"
    using x by (simp add: k Remote_hears_def Link_ProcessPacket_def Link_ProcessShort_def Remote_link_hooks_def lola_consts Let_def)
  also have "\<dots> = Service_SetNextRunASAP (r\<lparr>RemoteClockSyncTransaction :=
      ?t\<lparr>RequestResult := err, RequestStage := StageRequestResultIn\<rparr>\<rparr>)"
    using r f by (simp add: Remote_OnClockSyncResponseReceived_def linking_at_def Request_IsRequested_def Request_IsFresh_def
        Request_SetResult_def)
  finally have k: "k = \<dots>" .
  show "linking_at LinkingClockSyncStage k" "same_link r k" "SyncedClock (drv k) = SyncedClock (drv r)"
    "RemoteClockSyncer k = RemoteClockSyncer r" "LastSentMillis k = LastSentMillis r"
    "Request_IsResultWaiting (RemoteClockSyncTransaction k)" "RequestResult (RemoteClockSyncTransaction k) = err"
    using r by (simp_all add: k link_op_defs linking_at_def same_link_def Request_IsResultWaiting_def)
qed

text \<open>
  The error the host finds when the remote asks at its \<open>micros()\<close> reading \<open>m\<close> and the host stamps
  the packet with its reading \<open>stamp\<close>. The ends are calibrated to a time of flight when
  every later error is the change of the time of flight.
\<close>

definition clock_error :: "u32 \<Rightarrow> u32 \<Rightarrow> 'a LoLaLinkHostService_scheme \<Rightarrow> 'b LoLaLinkRemoteService_scheme \<Rightarrow> u32" where
  "clock_error stamp m h r =
     stamp + OffsetMicros (SyncedClock (drv h)) - (Clock_GetSyncMicros m (taken_clock r) + ETTM (drv r))"

definition calibrated :: "u32 \<Rightarrow> 'a LoLaLinkHostService_scheme \<Rightarrow> 'b LoLaLinkRemoteService_scheme \<Rightarrow> bool" where
  "calibrated flight h r \<longleftrightarrow> (\<forall>m. clock_error (m + flight) m h r = 0)"

lemma calibrated_error:
  assumes "calibrated flight h r" shows "clock_error stamp m h r = (stamp - m) - flight"
proof -
  have "m + flight + OffsetMicros (SyncedClock (drv h)) = Clock_GetSyncMicros m (taken_clock r) + ETTM (drv r)"
    using assms by (simp add: calibrated_def clock_error_def)
  then show ?thesis by (simp add: clock_error_def algebra_simps)
qed

definition clocking :: "'a LoLaLinkHostService_scheme \<Rightarrow> 'b LoLaLinkRemoteService_scheme \<Rightarrow> bool" where
  "clocking h r \<longleftrightarrow> takes_clocks h \<and> linking_at LinkingClockSyncStage r \<and> SyncerHasClock (RemoteClockSyncer r) \<and>
     RequestStage (RemoteClockSyncTransaction r) \<noteq> StageRequested"

lemma clock_step:
  assumes c: "clocking h r" "\<not> HostSyncer_IsSynced (HostClockSyncer h)"
    and t: "linking_in_time p (LinkStateStart h)" "linking_in_time q (LinkStateStart r)"
    and s: "LOLA_LINK_SERVICE_UNLINK_RESEND_PERIOD < Link_GetElapsedMillisSinceLastSent (q 0) r"
    and f: "millis_now (q 3) - millis_now (q 0) < LOLA_LINK_SERVICE_UNLINK_TRANSACTION_LIFETIME"
    and e: "clock_exchange N N' stamp p q h r = (h', r')"
  shows "clocking h' r'" and "same_link h h'" and "same_link r r'" and "LastSentMillis r' = millis_now (q 2)"
    and "HostClockSyncer h' = snd (HostSyncer_OnEstimationReceived (clock_error stamp (micros_now (q 1)) h r) (HostClockSyncer h))"
    and "calibrated (stamp - micros_now (q 1)) h' r'" and "linking_at LinkingClockSyncStage h'"
proof -
  define r1 where "r1 = Remote_sends N' (q 0) (q 1) (q 2) r"
  have h': "h' = Host_sends N (p 1) (p 2) (p 3) (Host_hears N (p 0) (Packet r1) (stamped stamp h))"
    and r': "r' = Remote_hears N' (q 3) (Packet h') r1"
    using e by (auto simp: clock_exchange_def Let_def r1_def)
  have r: "linking_at LinkingClockSyncStage r" "SyncerHasClock (RemoteClockSyncer r)"
      "RequestStage (RemoteClockSyncTransaction r) \<noteq> StageRequested" and h: "takes_clocks h" using c(1) by (simp_all add: clocking_def)
  note R1 = remote_requests_clock [OF r t(2) s r1_def]
  let ?est = "Clock_GetSyncMicros (micros_now (q 1)) (taken_clock r) + ETTM (drv r)"
  let ?err = "clock_error stamp (micros_now (q 1)) h r"
  obtain x where x: "length (Raw x) = LOLA_LINK_SERVICE_PACKET_MAX_SIZE"
    "Packet r1 = short_packet (RequestId (RemoteClockSyncTransaction r1)) LOLA_LINK_SUBHEADER_NTP_REQUEST ?est x" using R1(8) by blast
  have err: "?err = stamp + OffsetMicros (SyncedClock (drv h)) - ?est" by (simp add: clock_error_def)
  note H = host_answers_clock [OF h c(2) t(1) x(1) err h' [unfolded x(2)]]
  obtain y where y: "length (Raw y) = LOLA_LINK_SERVICE_PACKET_MAX_SIZE"
    "Packet h' = short_packet (RequestId (RemoteClockSyncTransaction r1)) LOLA_LINK_SUBHEADER_NTP_REPLY ?err y" using H(5) by blast
  have f1: "millis_now (q 3) - LastRequested (RemoteClockSyncTransaction r1) < LOLA_LINK_SERVICE_UNLINK_TRANSACTION_LIFETIME"
    using f R1(7) by simp
  note R2 = remote_hears_clock [OF R1(1,6) f1 y(1) r' [unfolded y(2)]]
  show "clocking h' r'" "same_link h h'" "same_link r r'" "LastSentMillis r' = millis_now (q 2)"
    "HostClockSyncer h' = snd (HostSyncer_OnEstimationReceived ?err (HostClockSyncer h))"
    "linking_at LinkingClockSyncStage h'"
    using H R1 R2 same_link_trans [OF R1(3) R2(2)]
    by (simp_all add: clocking_def takes_clocks_def Request_IsResultWaiting_def lola_consts)
  have k: "taken_clock r' = Clock_AddOffsetMicros ?err (taken_clock r)" "SyncedClock (drv h') = SyncedClock (drv h)"
    "ETTM (drv r') = ETTM (drv r)"
    using R2 R1 H by (simp_all add: taken_clock_def [of r'] same_link_def)
  have "Clock_GetSyncMicros m (taken_clock r) = Clock_GetSyncMicros (micros_now (q 1)) (taken_clock r) + (m - micros_now (q 1))" for m
    using GetSyncMicros_advances [of "micros_now (q 1)" "m - micros_now (q 1)"] by simp
  then show "calibrated (stamp - micros_now (q 1)) h' r'"
    by (simp add: calibrated_def clock_error_def k GetSyncMicros_AddOffset algebra_simps)
qed

text \<open>The rounds of clock synchronisation, until the host is satisfied.\<close>

primrec clock_rounds ::
  "(platform \<Rightarrow> bool \<Rightarrow> 'a LoLaLinkHostService_scheme \<Rightarrow> 'a LoLaLinkHostService_scheme) \<Rightarrow>
   (platform \<Rightarrow> bool \<Rightarrow> 'b LoLaLinkRemoteService_scheme \<Rightarrow> 'b LoLaLinkRemoteService_scheme) \<Rightarrow> (nat \<Rightarrow> u32) \<Rightarrow>
   (nat \<Rightarrow> nat \<Rightarrow> platform) \<Rightarrow> (nat \<Rightarrow> nat \<Rightarrow> platform) \<Rightarrow> nat \<Rightarrow> nat \<Rightarrow>
   'a LoLaLinkHostService_scheme \<Rightarrow> 'b LoLaLinkRemoteService_scheme \<Rightarrow> 'a LoLaLinkHostService_scheme \<times> 'b LoLaLinkRemoteService_scheme" where
  "clock_rounds N N' stamp p q 0 k h r = (h, r)"
| "clock_rounds N N' stamp p q (Suc n) k h r =
     (if HostSyncer_IsSynced (HostClockSyncer h) then (h, r)
      else let (h', r') = clock_exchange N N' (stamp k) (p k) (q k) h r in clock_rounds N N' stamp p q n (Suc k) h' r')"

text \<open>
  The rounds \<open>a\<close> up to \<open>b\<close> are paced when each answer comes within the life of its request and
  the next request after the resend period; their times of flight are steady when each differs from
  the one before by less than the 100 us that count as a good estimation.
\<close>

definition rounds_paced :: "nat \<Rightarrow> nat \<Rightarrow> (nat \<Rightarrow> nat \<Rightarrow> platform) \<Rightarrow> bool" where
  "rounds_paced a b q \<longleftrightarrow> (\<forall>k. a \<le> k \<and> k < b \<longrightarrow>
     millis_now (q k 3) - millis_now (q k 0) < LOLA_LINK_SERVICE_UNLINK_TRANSACTION_LIFETIME) \<and>
     (\<forall>k. a \<le> k \<and> Suc k < b \<longrightarrow> LOLA_LINK_SERVICE_UNLINK_RESEND_PERIOD < millis_now (q (Suc k) 0) - millis_now (q k 2))"

definition steady :: "nat \<Rightarrow> nat \<Rightarrow> (nat \<Rightarrow> u32) \<Rightarrow> bool" where
  "steady a b flight \<longleftrightarrow> (\<forall>k. a \<le> k \<and> Suc k < b \<longrightarrow> abs32 (flight (Suc k) - flight k) < MAX_TUNE_ERROR_MICROS)"

lemma clock_rounds_sync:
  assumes "clocking h r" and "calibrated (flight k) h r" and "3 \<le> unat (SyncGoodCount (HostClockSyncer h)) + n"
    and "\<And>k. linking_in_time (p k) (LinkStateStart h)" and "\<And>k. linking_in_time (q k) (LinkStateStart r)"
    and "LastSentMillis r = millis_now (q k 2)" and q: "rounds_paced a b q" and st: "steady a b flight"
    and "a \<le> k" and "k + n < b"
    and fl: "\<And>k. flight k = stamp k - micros_now (q k 1)" and at: "linking_at LinkingClockSyncStage h"
    and "clock_rounds N N' stamp p q n (Suc k) h r = (h', r')"
  shows "clocking h' r' \<and> HostSyncer_IsSynced (HostClockSyncer h') \<and> same_link h h' \<and> same_link r r' \<and>
    linking_at LinkingClockSyncStage h' \<and> (\<exists>j. k \<le> j \<and> j \<le> k + n \<and> calibrated (flight j) h' r')"
  using assms(1-6,9,10,12,13)
proof (induction n arbitrary: k h r)
  case 0
  then have "HostSyncer_IsSynced (HostClockSyncer h)"
    by (simp add: HostSyncer_IsSynced_def lola_consts word_less_nat_alt)
  then show ?case using 0 by (auto simp: same_link_refl)
next
  case (Suc n)
  show ?case
  proof (cases "HostSyncer_IsSynced (HostClockSyncer h)")
    case True
    then show ?thesis using Suc.prems by (auto simp: same_link_refl)
  next
    case False
    obtain h1 r1 where e: "clock_exchange N N' (stamp (Suc k)) (p (Suc k)) (q (Suc k)) h r = (h1, r1)" by fastforce
    have "LOLA_LINK_SERVICE_UNLINK_RESEND_PERIOD < ILOLA_INVALID_MILLIS" by (simp add: lola_consts)
    then have s: "LOLA_LINK_SERVICE_UNLINK_RESEND_PERIOD < Link_GetElapsedMillisSinceLastSent (q (Suc k) 0) r"
      using q Suc.prems(7,8) by (intro resend_after [OF Suc.prems(6)]) (simp_all add: rounds_paced_def)
    have f: "millis_now (q (Suc k) 3) - millis_now (q (Suc k) 0) < LOLA_LINK_SERVICE_UNLINK_TRANSACTION_LIFETIME"
      using q Suc.prems(7,8) by (simp add: rounds_paced_def)
    note C = clock_step [OF Suc.prems(1) False Suc.prems(4,5) s f e]
    let ?c = "SyncGoodCount (HostClockSyncer h)"
    have good: "abs32 (clock_error (stamp (Suc k)) (micros_now (q (Suc k) 1)) h r) < MAX_TUNE_ERROR_MICROS"
      unfolding calibrated_error [OF Suc.prems(2)] fl [symmetric] using st Suc.prems(7,8) by (simp add: steady_def)
    have "?c \<le> 2" using False by (simp add: HostSyncer_IsSynced_def lola_consts not_less)
    then have "unat ?c \<le> 2" by (simp add: word_le_nat_alt)
    then have "SyncGoodCount (HostClockSyncer h1) = ?c + 1" "unat (?c + 1) = Suc (unat ?c)"
      using good by (simp_all add: C(5) HostSyncer_OnEstimationReceived_def Syncer_StampSyncGood_def word_less_nat_alt unat_word_ariths)
    then have n: "3 \<le> unat (SyncGoodCount (HostClockSyncer h1)) + n" using Suc.prems(3) by simp
    have "clock_rounds N N' stamp p q n (Suc (Suc k)) h1 r1 = (h', r')"
      using Suc.prems(10) False e by simp
    then have "clocking h' r' \<and> HostSyncer_IsSynced (HostClockSyncer h') \<and> same_link h1 h' \<and> same_link r1 r' \<and>
        linking_at LinkingClockSyncStage h' \<and> (\<exists>j. Suc k \<le> j \<and> j \<le> Suc k + n \<and> calibrated (flight j) h' r')"
      using C Suc.prems(4,5,7,8) n
      by (intro Suc.IH) (simp_all add: fl same_link_start)
    then show ?thesis using same_link_trans [OF C(2)] same_link_trans [OF C(3)]
      by (metis Suc_leD add_Suc_shift)
  qed
qed

section \<open>Switch over to the link\<close>

definition switch_lead ::
  "(platform \<Rightarrow> bool \<Rightarrow> 'a LoLaLinkHostService_scheme \<Rightarrow> 'a LoLaLinkHostService_scheme) \<Rightarrow>
   (platform \<Rightarrow> bool \<Rightarrow> 'b LoLaLinkRemoteService_scheme \<Rightarrow> 'b LoLaLinkRemoteService_scheme) \<Rightarrow>
   (nat \<Rightarrow> platform) \<Rightarrow> (nat \<Rightarrow> platform) \<Rightarrow> 'a LoLaLinkHostService_scheme \<Rightarrow> 'b LoLaLinkRemoteService_scheme \<Rightarrow>
   bool \<times> 'a LoLaLinkHostService_scheme \<times> 'b LoLaLinkRemoteService_scheme" where
  "switch_lead N N' p q h r =
     (let r1 = Remote_OnService N' (q 0) r;
          h1 = Host_sends N (p 1) (p 2) (p 3) (Host_OnService N (p 0) h);
          (acked, h2, r2) = host_acked_exchange N' (p 4) (q 1) h1 r1
      in (acked, h2, Remote_OnService N' (q 2) r2))"

text \<open>The last run of the task at either end, which enters \<open>Linked\<close>.\<close>

definition last_turn ::
  "(platform \<Rightarrow> bool \<Rightarrow> 'a LoLaLinkHostService_scheme \<Rightarrow> 'a LoLaLinkHostService_scheme) \<Rightarrow>
   (platform \<Rightarrow> bool \<Rightarrow> 'b LoLaLinkRemoteService_scheme \<Rightarrow> 'b LoLaLinkRemoteService_scheme) \<Rightarrow>
   platform \<Rightarrow> platform \<Rightarrow> bool \<times> 'a LoLaLinkHostService_scheme \<times> 'b LoLaLinkRemoteService_scheme \<Rightarrow>
   bool \<times> 'a LoLaLinkHostService_scheme \<times> 'b LoLaLinkRemoteService_scheme" where
  "last_turn N N' P Q x = (case x of (acked, h, r) \<Rightarrow> (acked, Host_OnService N P h, Remote_OnService N' Q r))"

definition switch_exchange ::
  "(platform \<Rightarrow> bool \<Rightarrow> 'a LoLaLinkHostService_scheme \<Rightarrow> 'a LoLaLinkHostService_scheme) \<Rightarrow>
   (platform \<Rightarrow> bool \<Rightarrow> 'b LoLaLinkRemoteService_scheme \<Rightarrow> 'b LoLaLinkRemoteService_scheme) \<Rightarrow>
   (nat \<Rightarrow> platform) \<Rightarrow> (nat \<Rightarrow> platform) \<Rightarrow> 'a LoLaLinkHostService_scheme \<Rightarrow> 'b LoLaLinkRemoteService_scheme \<Rightarrow>
   bool \<times> 'a LoLaLinkHostService_scheme \<times> 'b LoLaLinkRemoteService_scheme" where
  "switch_exchange N N' p q h r = last_turn N N' (p 5) (q 3) (switch_lead N N' p q h r)"

lemma remote_takes_last:
  assumes r: "linking_at LinkingClockSyncStage r" "SyncerHasClock (RemoteClockSyncer r)"
    and t: "linking_in_time q (LinkStateStart r)" and k: "k = Remote_OnService N (q n) r"
  shows "linking_at LinkingClockSyncStage k" and "same_link r k" and "SyncedClock (drv k) = taken_clock r"
proof -
  note T = remote_takes [OF r(2), of "q n"]
  have l: "LinkingState r = LinkingClockSyncStage" "LinkingClockSyncStage \<noteq> LinkingInfoSyncStage"
    using r(1) by (simp_all add: linking_at_def lola_consts)
  have "k = Remote_OnClockSync (q n) r"
    unfolding k remote_linking_service [OF r(1) t] Remote_OnLinking_def l(1) using l(2) by (simp only: if_False if_True simp_thms)
  then show "linking_at LinkingClockSyncStage k" "same_link r k" "SyncedClock (drv k) = taken_clock r"
    using r T by (simp_all add: Remote_OnClockSync_def Remote_PrepareClockSyncRequest_def link_op_defs linking_at_def same_link_def Let_def)
qed

lemma host_switches_protocol:
  assumes h: "linking_at LinkingClockSyncStage h" "HostSyncer_IsSynced (HostClockSyncer h)"
    and t: "linking_in_time p (LinkStateStart h)" and k: "k = Host_sends N (p 1) Q R (Host_OnService N (p 0) h)"
  shows "linking_at LinkProtocolSwitchOver k" and "same_link h k" and "drv k = drv h"
    and "\<exists>x. length (Raw x) = LOLA_LINK_SERVICE_PACKET_MAX_SIZE \<and>
      Packet k = acked_packet (SessionId (LinkInfo h)) (le32_bytes (PartnerId (LinkInfo h))) x"
proof -
  define h1 where "h1 = Link_SetLinkingState LinkProtocolSwitchOver h"
  have l: "LinkingState h = LinkingClockSyncStage" "LinkingClockSyncStage \<noteq> LinkingInfoSyncStage"
    using h(1) by (simp_all add: linking_at_def lola_consts)
  have h1: "Host_OnService N (p 0) h = h1"
    unfolding host_linking_service [OF h(1) t] Host_OnLinking_def l(1) using l(2) h(2) by (simp only: if_False if_True simp_thms h1_def)
  have at: "linking_at LinkProtocolSwitchOver h1" "linking_in_time p (LinkStateStart h1)" "LastSentMillis h1 = ILOLA_INVALID_MILLIS"
    using h(1) t by (simp_all add: h1_def link_op_defs linking_at_def)
  have l1: "LinkingState h1 = LinkProtocolSwitchOver" "LinkProtocolSwitchOver \<noteq> LinkingInfoSyncStage"
    "LinkProtocolSwitchOver \<noteq> LinkingClockSyncStage" by (simp_all add: h1_def lola_consts)
  have now: "LOLA_LINK_SERVICE_UNLINK_RESEND_PERIOD < Link_GetElapsedMillisSinceLastSent (p 1) h1"
    by (rule resend_now [OF at(3)]) (simp add: lola_consts)
  have s: "Host_OnService N (p 1) h1 = Send_RequestSendPacketDefault (p 1) (Host_PrepareLinkProtocolSwitchOver h1)"
    unfolding host_linking_service [OF at(1,2)] Host_OnLinking_def l1(1) using l1(2,3)
    by (simp only: if_False if_True simp_thms resend_eq [OF now, of Host_PrepareLinkProtocolSwitchOver])
  have w: "length (Raw (Packet h1)) = 26" "GetLinkState h1 = Linking" using at(1) by (simp_all add: linking_at_def lola_consts)
  have k: "k = Service_SetNextRunASAP ((Send_RequestSendPacketDefault (p 1) (Host_PrepareLinkProtocolSwitchOver h1))
      \<lparr>LastSentMillis := millis_now R\<rparr>)"
    unfolding k h1 using w by (intro Host_sends_eq [OF s])
      (simp_all add: Host_PrepareLinkProtocolSwitchOver_def link_op_defs link_packet_defs lola_consts)
  show "linking_at LinkProtocolSwitchOver k" "same_link h k" "drv k = drv h"
    using h(1) by (simp_all add: k h1_def Host_PrepareLinkProtocolSwitchOver_def link_op_defs linking_at_def same_link_def)
  show "\<exists>x. length (Raw x) = LOLA_LINK_SERVICE_PACKET_MAX_SIZE \<and>
      Packet k = acked_packet (SessionId (LinkInfo h)) (le32_bytes (PartnerId (LinkInfo h))) x"
    using w(1) by (intro exI [of _ "Packet h1"]) (simp add: k prepared_packets(4) h1_def lola_consts)
qed

lemma switch_acknowledged:
  assumes h: "linking_at LinkProtocolSwitchOver h" and r: "linking_at LinkingClockSyncStage r" "known_id rid r" "local_id Q = rid"
    and x: "Packet h = acked_packet session (le32_bytes rid) x" "length (Raw x) = LOLA_LINK_SERVICE_PACKET_MAX_SIZE"
    and s: "SessionId (LinkInfo h) = session" "SessionId (LinkInfo r) = session"
    and e: "host_acked_exchange N' P Q h r = (acked, h', r')"
  shows "acked" and "h' = Link_SetLinkingState LinkingDone h" and "linking_at LinkProtocolSwitchOver r'"
    and "LinkStateStart r' = LinkStateStart r" and "TimedHopper r' = TimedHopper r" and "drv r' = drv r"
    and "SessionId (LinkInfo r') = session" and "PartnerId (LinkInfo r') = PartnerId (LinkInfo r)"
    and "RTT (LinkInfo r') = RTT (LinkInfo r)"
proof -
  let ?x = "acked_packet session (le32_bytes rid) x"
  have l: "length (le32_bytes rid) \<le> 22" by simp
  note f = acked_packet_fields [OF x(2) l, of session]
  have v: "Link_ArrayToR_Array (LoLaPacket_GetPayload ?x) = rid"
    using f(3) by (simp add: Link_ArrayToR_Array_def)
  define r1 where "r1 = Link_SetLinkingState LinkProtocolSwitchOver (snd (on_info_result (LinkInfo_GetLocalId Q) r))"
  have a: "Link_ProcessAckedPacket (Remote_link_hooks N') Q ?x r = (True, r1)"
    using r(1) s f(1,2) v known_id_GetLocalId(1) [OF r(2,3)] by (simp add: Link_ProcessAckedPacket_def Remote_link_hooks_def Remote_OnAckedPacketReceived_def linking_at_def
        Remote_OnLinkProtocolReceived_def PingPacketDefinition_def LinkInfo_GetSessionId_def case_prod_unfold Let_def r1_def)
      (simp add: lola_consts)
  have b: "Host_OnAckReceived P (LoLaPacket_GetDataHeader ?x) (LoLaPacket_GetId ?x) h = Link_SetLinkingState LinkingDone h"
    using h s f(1,2) by (simp add: Host_OnAckReceived_def Host_OnLinkAckReceived_def linking_at_def link_packet_defs lola_consts
        LinkInfo_GetSessionId_def)
  have e': "acked" "h' = Link_SetLinkingState LinkingDone h" "r' = r1"
    using e a b by (simp_all add: host_acked_exchange_def x(1))
  show "acked" "h' = Link_SetLinkingState LinkingDone h" by (fact e')+
  show "linking_at LinkProtocolSwitchOver r'" "LinkStateStart r' = LinkStateStart r" "TimedHopper r' = TimedHopper r" "drv r' = drv r"
    "SessionId (LinkInfo r') = session" "PartnerId (LinkInfo r') = PartnerId (LinkInfo r)" "RTT (LinkInfo r') = RTT (LinkInfo r)"
    using r(1) s(2) by (simp_all add: e'(3) r1_def link_op_defs on_info_result_def case_prod_unfold Let_def linking_at_def)
qed

text \<open>
  What the services of a node may do when the link is established: the hopper writes the token of
  its seed; a service that keeps the link leaves the link's state and the driver alone.
\<close>

definition quiet_app :: "'a LoLaLinkService_scheme service \<Rightarrow> bool" where
  "quiet_app S \<longleftrightarrow> (\<forall>P w. LinkInfo (srv_OnLinkEstablished S P w) = LinkInfo w \<and> drv (srv_OnLinkEstablished S P w) = drv w)"

lemma quiet_apps_fold:
  assumes "\<forall>S \<in> set apps. quiet_app S"
  shows "LinkInfo (fold (\<lambda>S. srv_OnLinkEstablished S P) apps w) = LinkInfo w \<and>
    drv (fold (\<lambda>S. srv_OnLinkEstablished S P) apps w) = drv w"
  using assms by (induction apps arbitrary: w) (simp_all add: quiet_app_def)

lemma notify_established:
  assumes "\<forall>S \<in> set apps. quiet_app S" and "HopperSetupOk (TimedHopper w)"
  shows "LinkInfo (Lola_notify apps P True w) = LinkInfo w"
    and "drv (Lola_notify apps P True w) = (drv w)\<lparr>CryptoEncoder :=
      Encoder_SetToken P (TOTPSeed (CryptoSeed (TimedHopper w))) (CryptoEncoder (drv w))\<rparr>"
  using assms quiet_apps_fold [OF assms(1)]
  by (simp_all add: services_notify_def Hopper_service_def Hopper_OnLinkEstablished_def TokenSource_GetSeed_def)

text \<open>An end that has just entered \<open>Linked\<close>.\<close>

definition linked_from :: "platform \<Rightarrow> 'a LoLaLinkService_scheme \<Rightarrow> 'a LoLaLinkService_scheme \<Rightarrow> bool" where
  "linked_from P s s' \<longleftrightarrow> GetLinkState s' = Linked \<and> LinkActive (drv s') \<and>
     SessionId (LinkInfo s') = SessionId (LinkInfo s) \<and> PartnerId (LinkInfo s') = PartnerId (LinkInfo s) \<and>
     RTT (LinkInfo s') = RTT (LinkInfo s) \<and> ETTM (drv s') = ETTM (drv s) \<and> SyncedClock (drv s') = SyncedClock (drv s) \<and>
     CryptoEncoder (drv s') = Encoder_SetToken P (TOTPSeed (CryptoSeed (TimedHopper s))) (CryptoEncoder (drv s))"

lemma host_links:
  assumes h: "linking_at LinkingDone h" and t: "linking_in_time p (LinkStateStart h)"
    and a: "\<forall>S \<in> set apps. quiet_app S" "HopperSetupOk (TimedHopper h)"
  shows "linked_from (p n) h (Host_OnService (Lola_notify apps) (p n) h)"
proof -
  have l: "LinkingState h = LinkingDone" "LinkingDone \<noteq> LinkingInfoSyncStage" "LinkingDone \<noteq> LinkingClockSyncStage"
    "LinkingDone \<noteq> LinkProtocolSwitchOver" "GetLinkState h = Linking"
    using h by (simp_all add: linking_at_def lola_consts)
  have s: "Host_OnService (Lola_notify apps) (p n) h = Host_UpdateLinkState (Lola_notify apps) (p n) Linked h"
    unfolding host_linking_service [OF h t] Host_OnLinking_def l(1) using l(2-4) by (simp only: if_False if_True simp_thms)
  define w where "w = on_drv Driver_ResetStatistics (th_StampSynced Host_state_hooks (p n) (on_info_drv LinkInfo_StampLinkStarted
      (Link_ResetLastSentTimeStamp (Link_ResetStateStartTime (p n) h))))"
  have w: "TimedHopper w = TimedHopper h" "SessionId (LinkInfo w) = SessionId (LinkInfo h)" "PartnerId (LinkInfo w) = PartnerId (LinkInfo h)"
    "RTT (LinkInfo w) = RTT (LinkInfo h)" "ETTM (drv w) = ETTM (drv h)" "SyncedClock (drv w) = SyncedClock (drv h)"
    "CryptoEncoder (drv w) = CryptoEncoder (drv h)" "LinkActive (drv w)"
    by (simp_all add: w_def Host_state_hooks_def link_op_defs on_info_drv_def LinkInfo_StampLinkStarted_def Driver_ResetStatistics_def
        Driver_SetLinkStatus_def)
  note e = notify_established [OF a(1), of w "p n"]
  have "Host_UpdateLinkState (Lola_notify apps) (p n) Linked h = on_info (LinkInfo_UpdateState Linked)
      (Host_OnLinkStateChanged (p n) Linked (Service_SetNextRunASAP (Lola_notify apps (p n) True w)))"
    using l(5) by (simp add: Link_UpdateLinkState_def Link_ChangeState_def Link_EnterState_def Let_def w_def)
      (simp add: Host_state_hooks_def)
  then show ?thesis
    using a(2) w e unfolding s linked_from_def
    by (simp add: Host_OnLinkStateChanged_def LinkInfo_UpdateState_def)
qed

lemma remote_links:
  assumes r: "linking_at LinkingDone r" and t: "linking_in_time q (LinkStateStart r)"
    and a: "\<forall>S \<in> set apps. quiet_app S" "HopperSetupOk (TimedHopper r)"
  shows "linked_from (q n) r (Remote_OnService (Lola_notify apps) (q n) r)"
proof -
  have l: "LinkingState r = LinkingDone" "LinkingDone \<noteq> LinkingInfoSyncStage" "LinkingDone \<noteq> LinkingClockSyncStage"
    "LinkingDone \<noteq> LinkProtocolSwitchOver" "GetLinkState r = Linking"
    using r by (simp_all add: linking_at_def lola_consts)
  have s: "Remote_OnService (Lola_notify apps) (q n) r = Remote_UpdateLinkState (Lola_notify apps) (q n) Linked r"
    unfolding remote_linking_service [OF r t] Remote_OnLinking_def l(1) using l(2-4) by (simp only: if_False if_True simp_thms)
  define w where "w = on_drv Driver_ResetStatistics (th_StampSynced Remote_state_hooks (q n) (on_info_drv LinkInfo_StampLinkStarted
      (Link_ResetLastSentTimeStamp (Link_ResetStateStartTime (q n) r))))"
  have w: "TimedHopper w = TimedHopper r" "SessionId (LinkInfo w) = SessionId (LinkInfo r)" "PartnerId (LinkInfo w) = PartnerId (LinkInfo r)"
    "RTT (LinkInfo w) = RTT (LinkInfo r)" "ETTM (drv w) = ETTM (drv r)" "SyncedClock (drv w) = SyncedClock (drv r)"
    "CryptoEncoder (drv w) = CryptoEncoder (drv r)" "LinkActive (drv w)"
    by (simp_all add: w_def Remote_state_hooks_def link_op_defs on_info_drv_def LinkInfo_StampLinkStarted_def Driver_ResetStatistics_def
        Driver_SetLinkStatus_def)
  note e = notify_established [OF a(1), of w "q n"]
  have "Remote_UpdateLinkState (Lola_notify apps) (q n) Linked r = on_info (LinkInfo_UpdateState Linked)
      (Remote_OnLinkStateChanged (q n) Linked (Service_SetNextRunASAP (Lola_notify apps (q n) True w)))"
    using l(5) by (simp add: Link_UpdateLinkState_def Link_ChangeState_def Link_EnterState_def Let_def w_def)
      (simp add: Remote_state_hooks_def)
  then show ?thesis
    using a(2) w e unfolding s linked_from_def
    by (simp add: Remote_OnLinkStateChanged_def LinkInfo_UpdateState_def)
qed

lemma remote_completes:
  assumes r: "linking_at LinkProtocolSwitchOver r" and t: "linking_in_time q (LinkStateStart r)"
    and a: "\<forall>S \<in> set apps. quiet_app S" "HopperSetupOk (TimedHopper r)"
  shows "GetLinkState (Remote_OnService (Lola_notify apps) (q n) r) = Linking"
    and "linked_from (q m) r (Remote_OnService (Lola_notify apps) (q m) (Remote_OnService (Lola_notify apps) (q n) r))"
proof -
  define r1 where "r1 = Service_SetNextRunDelay (Driver_GetETTMMicros (drv r) div 1000) (Link_SetLinkingState LinkingDone
      (r\<lparr>RemoteClockSyncer := RemoteSyncer_SetSynced (q n) (RemoteClockSyncer r)\<rparr>))"
  have l: "LinkingState r = LinkProtocolSwitchOver" "LinkProtocolSwitchOver \<noteq> LinkingInfoSyncStage"
    "LinkProtocolSwitchOver \<noteq> LinkingClockSyncStage" using r by (simp_all add: linking_at_def lola_consts)
  have e: "Remote_OnService (Lola_notify apps) (q n) r = r1"
    unfolding remote_linking_service [OF r t] Remote_OnLinking_def l(1) using l(2,3)
    by (simp only: if_False if_True simp_thms Let_def link_fields_drv) (simp add: r1_def)
  have d: "linking_at LinkingDone r1" "linking_in_time q (LinkStateStart r1)" "HopperSetupOk (TimedHopper r1)"
    using r t a(2) by (simp_all add: r1_def link_op_defs linking_at_def)
  show "GetLinkState (Remote_OnService (Lola_notify apps) (q n) r) = Linking" using d(1) by (simp add: e linking_at_def)
  have "TimedHopper r1 = TimedHopper r" "LinkInfo r1 = LinkInfo r" "drv r1 = drv r"
    by (simp_all add: r1_def link_op_defs)
  then show "linked_from (q m) r (Remote_OnService (Lola_notify apps) (q m) (Remote_OnService (Lola_notify apps) (q n) r))"
    using remote_links [OF d(1,2) a(1) d(3), of m] by (simp add: e linked_from_def)
qed

lemma switch_step:
  assumes c: "clocking h r" "HostSyncer_IsSynced (HostClockSyncer h)" "linking_at LinkingClockSyncStage h"
    and t: "linking_in_time p (LinkStateStart h)" "linking_in_time q (LinkStateStart r)"
    and id: "known_id rid r" "local_id (q 1) = rid" "PartnerId (LinkInfo h) = rid"
    and s: "SessionId (LinkInfo r) = SessionId (LinkInfo h)"
    and a: "\<forall>S \<in> set apps. quiet_app S" "\<forall>S \<in> set apps'. quiet_app S" "HopperSetupOk (TimedHopper h)" "HopperSetupOk (TimedHopper r)"
    and e: "switch_lead (Lola_notify apps) (Lola_notify apps') p q h r = (acked, h'', r'')"
    and e2: "h' = Host_OnService (Lola_notify apps) (p 5) h''" "r' = Remote_OnService (Lola_notify apps') (q 3) r''"
  shows "acked" and "GetLinkState h'' = Linking" and "GetLinkState r'' = Linking" and "linked_from (p 5) h h'" and "linked_from (q 3) (r\<lparr>drv := (drv r)\<lparr>SyncedClock := taken_clock r\<rparr>\<rparr>) r'"
proof -
  let ?N = "Lola_notify apps" and ?N' = "Lola_notify apps'"
  define r1 where "r1 = Remote_OnService ?N' (q 0) r"
  define h1 where "h1 = Host_sends ?N (p 1) (p 2) (p 3) (Host_OnService ?N (p 0) h)"
  obtain ack h2 r2 where x: "host_acked_exchange ?N' (p 4) (q 1) h1 r1 = (ack, h2, r2)" by (metis surj_pair)
  have e': "acked = ack" "h'' = h2" "r'' = Remote_OnService ?N' (q 2) r2"
      "h' = Host_OnService ?N (p 5) h2" "r' = Remote_OnService ?N' (q 3) (Remote_OnService ?N' (q 2) r2)"
    using e x by (auto simp: switch_lead_def Let_def r1_def h1_def e2)
  have r: "linking_at LinkingClockSyncStage r" "SyncerHasClock (RemoteClockSyncer r)" using c(1) by (simp_all add: clocking_def)
  note R1 = remote_takes_last [OF r t(2) r1_def]
  note H1 = host_switches_protocol [OF c(3,2) t(1) h1_def]
  have k1: "SessionId (LinkInfo h1) = SessionId (LinkInfo h)" "SessionId (LinkInfo r1) = SessionId (LinkInfo h)" "known_id rid r1"
    using H1(2) R1(2) s id(1) by (simp_all add: same_link_def known_id_def)
  obtain y where y: "length (Raw y) = LOLA_LINK_SERVICE_PACKET_MAX_SIZE"
    "Packet h1 = acked_packet (SessionId (LinkInfo h)) (le32_bytes rid) y" using H1(4) id(3) by blast
  note A = switch_acknowledged [OF H1(1) R1(1) k1(3) id(2) y(2,1) k1(1,2) x]
  have h2: "linking_at LinkingDone h2" "linking_in_time p (LinkStateStart h2)" "TimedHopper h2 = TimedHopper h" "LinkInfo h2 = LinkInfo h" "drv h2 = drv h"
    using A(2) H1 t(1) by (simp_all add: linking_at_def link_op_defs same_link_def)
  have r2: "linking_in_time q (LinkStateStart r2)" "HopperSetupOk (TimedHopper r2)"
    using A(4,5) R1(2) t(2) a(4) by (simp_all add: same_link_def)
  show "acked" using A(1) by (simp add: e')
  show "GetLinkState h'' = Linking" using h2(1) by (simp add: e' linking_at_def)
  show "GetLinkState r'' = Linking" using remote_completes(1) [OF A(3) r2(1) a(2) r2(2), of 2] by (simp add: e')
  show "linked_from (p 5) h h'"
    using host_links [OF h2(1,2) a(1), of 5] a(3) h2(3-5) by (simp add: e' linked_from_def)
  show "linked_from (q 3) (r\<lparr>drv := (drv r)\<lparr>SyncedClock := taken_clock r\<rparr>\<rparr>) r'"
    using remote_completes(2) [OF A(3) r2(1) a(2) r2(2), of 3 2] A R1 k1(2) s
    by (simp add: e' linked_from_def same_link_def)
qed

section \<open>The whole run\<close>

definition linking_lead ::
  "(platform \<Rightarrow> bool \<Rightarrow> 'a LoLaLinkHostService_scheme \<Rightarrow> 'a LoLaLinkHostService_scheme) \<Rightarrow>
   (platform \<Rightarrow> bool \<Rightarrow> 'b LoLaLinkRemoteService_scheme \<Rightarrow> 'b LoLaLinkRemoteService_scheme) \<Rightarrow> (nat \<Rightarrow> u32) \<Rightarrow>
   (nat \<Rightarrow> nat \<Rightarrow> platform) \<Rightarrow> (nat \<Rightarrow> nat \<Rightarrow> platform) \<Rightarrow> 'a LoLaLinkHostService_scheme \<Rightarrow> 'b LoLaLinkRemoteService_scheme \<Rightarrow>
   bool \<times> 'a LoLaLinkHostService_scheme \<times> 'b LoLaLinkRemoteService_scheme" where
  "linking_lead N N' stamp p q h r =
     (let (h1, r1) = ping_exchange N N' (p 0) (q 0) h r;
          (h2, r2) = ping_exchange N N' (p 1) (q 1) h1 r1;
          (h3, r3) = info_exchange N N' (p 2) (q 2) h2 r2;
          (h4, r4) = clock_rounds N N' stamp p q 4 3 h3 r3
      in switch_lead N N' (p 7) (q 7) h4 r4)"

definition linking_run ::
  "(platform \<Rightarrow> bool \<Rightarrow> 'a LoLaLinkHostService_scheme \<Rightarrow> 'a LoLaLinkHostService_scheme) \<Rightarrow>
   (platform \<Rightarrow> bool \<Rightarrow> 'b LoLaLinkRemoteService_scheme \<Rightarrow> 'b LoLaLinkRemoteService_scheme) \<Rightarrow> (nat \<Rightarrow> u32) \<Rightarrow>
   (nat \<Rightarrow> nat \<Rightarrow> platform) \<Rightarrow> (nat \<Rightarrow> nat \<Rightarrow> platform) \<Rightarrow> 'a LoLaLinkHostService_scheme \<Rightarrow> 'b LoLaLinkRemoteService_scheme \<Rightarrow>
   bool \<times> 'a LoLaLinkHostService_scheme \<times> 'b LoLaLinkRemoteService_scheme" where
  "linking_run N N' stamp p q h r = last_turn N N' (p 7 5) (q 7 3) (linking_lead N N' stamp p q h r)"

text \<open>Both ends right after the switch to \<open>Linking\<close>.\<close>

definition linking_start :: "u32 \<Rightarrow> u32 \<Rightarrow> 'a LoLaLinkHostService_scheme \<Rightarrow> 'b LoLaLinkRemoteService_scheme \<Rightarrow> bool" where
  "linking_start hostId remoteId h r \<longleftrightarrow> linking_together hostId remoteId h r \<and>
     linking_at LinkingInfoSyncStage h \<and> linking_at LinkingInfoSyncStage r \<and>
     InfoSyncStage h = Host_AwaitingLatencyMeasurement \<and> InfoSyncStage r = Remote_AwaitingHostRequest \<and>
     LastSentMillis h = ILOLA_INVALID_MILLIS \<and> LastSentMillis r = ILOLA_INVALID_MILLIS \<and>
     DurationStack (LatencyMeter h) = [] \<and> PartnerRSSISamples (LinkInfo h) = [] \<and> SyncGoodCount (HostClockSyncer h) = 0 \<and>
     SyncerHasClock (RemoteClockSyncer r) \<and> RequestStage (RemoteClockSyncTransaction r) \<noteq> StageRequested \<and>
     known_id remoteId r \<and> HopperSetupOk (TimedHopper h) \<and> HopperSetupOk (TimedHopper r)"

text \<open>
  The moments of the run: exchanges 0 and 1 are the pings, 2 the information, 3 to 6 the rounds of the
  clocks and 7 the switch over.
\<close>

definition ping_latency :: "(nat \<Rightarrow> nat \<Rightarrow> platform) \<Rightarrow> nat \<Rightarrow> u32" where
  "ping_latency p i = micros_now (p i 3) - micros_now (p i 1)"

definition linking_moments ::
  "u32 \<Rightarrow> u32 \<Rightarrow> (nat \<Rightarrow> nat \<Rightarrow> platform) \<Rightarrow> (nat \<Rightarrow> nat \<Rightarrow> platform) \<Rightarrow> bool" where
  "linking_moments startH startR p q \<longleftrightarrow>
     (\<forall>k. linking_in_time (p k) startH) \<and> (\<forall>k. linking_in_time (q k) startR) \<and>
     (\<forall>k n. latency_ring_ok (p k n) \<and> ring_ok 3 (ring_rssi (p k n))) \<and>
     (\<forall>i < 2. 3 \<le> ping_latency p i \<and> ping_latency p i < LOLA_LATENCY_SERVICE_PING_TIMEOUT_MICROS \<and>
        micros_now (p i 1) \<noteq> ILOLA_INVALID_MICROS) \<and>
     LOLA_LINK_SERVICE_UNLINK_RESEND_PERIOD < millis_now (p 2 1) - millis_now (p 1 2) \<and>
     LOLA_LINK_SERVICE_UNLINK_RESEND_PERIOD < millis_now (p 2 6) - millis_now (p 2 3) \<and> rounds_paced 3 7 q"

text \<open>
  Two linked ends. The clocks agree up to the time of flight: what the remote reads, plus its
  estimate of the transmission, is what the host adds up for the moment of arrival.
\<close>

definition linked_together :: "u32 \<Rightarrow> u32 \<Rightarrow> u32 \<Rightarrow> 'a LoLaLinkHostService_scheme \<Rightarrow> 'b LoLaLinkRemoteService_scheme \<Rightarrow> bool" where
  "linked_together hostId remoteId flight h r \<longleftrightarrow> GetLinkState h = Linked \<and> GetLinkState r = Linked \<and>
     LinkActive (drv h) \<and> LinkActive (drv r) \<and>
     SessionId (LinkInfo h) = SessionId (LinkInfo r) \<and> SessionId (LinkInfo h) \<noteq> INVALID_SESSION \<and>
     PartnerId (LinkInfo h) = remoteId \<and> PartnerId (LinkInfo r) = hostId \<and>
     EncoderState (CryptoEncoder (drv h)) = FullPower \<and> same_crypto (CryptoEncoder (drv h)) (CryptoEncoder (drv r)) \<and>
     RTT (LinkInfo h) = RTT (LinkInfo r) \<and> ETTM (drv h) = ETTM (drv r) \<and>
     0 < ETTM (drv h) \<and> ETTM (drv h) < 4000 \<and>
     (\<forall>m. Clock_GetSyncMicros m (SyncedClock (drv r)) + ETTM (drv r) = Clock_GetSyncMicrosOf (m + flight) (SyncedClock (drv h)))"

lemma average_guard:
  assumes "3 \<le> x" "x < (10000 :: u32)" "3 \<le> y" "y < (10000 :: u32)"
    and "rtt = (ucast ((ucast (ucast x :: u16) + ucast (ucast y :: u16) :: u32) div 2) :: u16)"
  shows "0 < (ucast rtt * 8 div 20 :: u32)" and "(ucast rtt * 8 div 20 :: u32) < 4000"
proof -
  have n: "3 \<le> unat x" "unat x < 10000" "3 \<le> unat y" "unat y < 10000"
    using assms(1-4) by (simp_all add: word_le_nat_alt word_less_nat_alt)
  have u: "(ucast (ucast x :: u16) :: u32) = x" "(ucast (ucast y :: u16) :: u32) = y"
    using n by (simp_all add: word_unat_eq_iff unat_ucast_mod)
  have s: "unat ((x + y) div 2) = (unat x + unat y) div 2"
    using n by (simp add: unat_div_distrib unat_word_ariths)
  then have b: "3 \<le> unat ((x + y) div 2)" "unat ((x + y) div 2) < 10000" using n by simp_all
  then have "(ucast rtt :: u32) = (x + y) div 2"
    unfolding assms(5) u by (simp add: word_unat_eq_iff unat_ucast_mod)
  then have r: "3 \<le> (ucast rtt :: u32)" "(ucast rtt :: u32) < DuplexPeriodMicros"
    using b by (simp_all add: word_le_nat_alt word_less_nat_alt lola_consts)
  have d: "InfoHasDriver (LinkInfo_new\<lparr>InfoHasDriver := True\<rparr>)" by simp
  have e: "ETTM (snd (LinkInfo_SetRTT (ucast rtt) (LinkInfo_new\<lparr>InfoHasDriver := True\<rparr>) Driver_new)) = ucast rtt * 8 div 20"
    by (simp add: LinkInfo_SetRTT_def Driver_SetETTM_def)
  show "0 < (ucast rtt * 8 div 20 :: u32)" "(ucast rtt * 8 div 20 :: u32) < 4000"
    using SetRTT_ETTM(1,2) [OF d r, of Driver_new] by (simp_all only: e)
qed

text \<open>The first half of the run: pings and information.\<close>

lemma linking_opens:
  assumes s: "linking_start hid rid h r" and m: "linking_moments (LinkStateStart h) (LinkStateStart r) p q"
    and e1: "ping_exchange N N' (p 0) (q 0) h r = (h1, r1)" and e2: "ping_exchange N N' (p 1) (q 1) h1 r1 = (h2, r2)"
    and e3: "info_exchange N N' (p 2) (q 2) h2 r2 = (h3, r3)"
  shows "\<exists>rtt. informed rtt h3 r3 \<and> 0 < (ucast rtt * 8 div 20 :: u32) \<and> (ucast rtt * 8 div 20 :: u32) < 4000"
    and "same_session h h3" and "same_session r r3" and "HostClockSyncer h3 = HostClockSyncer h"
    and "RemoteClockSyncer r3 = RemoteClockSyncer r" and "RemoteClockSyncTransaction r3 = RemoteClockSyncTransaction r"
proof -
  note S = s [unfolded linking_start_def] and M = m [unfolded linking_moments_def]
  let ?l = "ping_latency p"
  have th: "linking_in_time (p k) (LinkStateStart h)" and tr: "linking_in_time (q k) (LinkStateStart r)"
    and lring: "latency_ring_ok (p k n)" and rring: "ring_ok 3 (ring_rssi (p k n))" for k n using M by blast+
  have l: "?l 0 < LOLA_LATENCY_SERVICE_PING_TIMEOUT_MICROS" "?l 1 < LOLA_LATENCY_SERVICE_PING_TIMEOUT_MICROS"
    "3 \<le> ?l 0" "3 \<le> ?l 1" "micros_now (p 0 1) \<noteq> ILOLA_INVALID_MICROS" "micros_now (p 1 1) \<noteq> ILOLA_INVALID_MICROS"
    using M by (simp_all only: less_2_cases_iff, simp_all)
  have r: "linking_at LinkingInfoSyncStage r" "InfoSyncStage r = Remote_AwaitingHostRequest" "LastSentMillis r = ILOLA_INVALID_MILLIS"
    "GetLinkState r = Linking" using S by (simp_all add: linking_at_def)
  have h: "linking_at LinkingInfoSyncStage h" "InfoSyncStage h = Host_AwaitingLatencyMeasurement"
    "length (DurationStack (LatencyMeter h)) < 2" "PingAcked h \<or> LastSentMillis h = ILOLA_INVALID_MILLIS"
    "PartnerRSSISamples (LinkInfo h) = []" using S by simp_all
  note P1 = ping_step [OF h(1,2) th h(3) lring h(4) r(4) ping_latency_def l(1,5) e1]
  have d1: "length (DurationStack (LatencyMeter h1)) < 2" using S P1(4) by simp
  have g1: "GetLinkState r1 = Linking" "PingAcked h1 \<or> LastSentMillis h1 = ILOLA_INVALID_MILLIS"
    "linking_in_time (p 1) (LinkStateStart h1)" using r(4) P1(1,5,7) th by (simp_all add: same_session_def)
  note P2 = ping_step [OF P1(2,3) g1(3) d1 lring g1(2,1) ping_latency_def l(2,6) e2]
  have s2: "same_session h h2" by (rule same_session_trans [OF P1(7) P2(7)])
  have d2: "DurationStack (LatencyMeter h2) = [ucast (?l 0), ucast (?l 1)]" using S P1(4) P2(4) by simp
  have k2: "PartnerRSSISamples (LinkInfo h2) = []" "linking_in_time (p 2) (LinkStateStart h2)" "r2 = r"
    using P1(1,9) P2(1,9) h(5) s2 th by (simp_all add: same_session_start)
  obtain rtt :: u16 where rtt: "rtt = ucast ((ucast (ucast (?l 0) :: u16) + ucast (ucast (?l 1) :: u16) :: u32) div 2)" by simp
  have pace: "LOLA_LINK_SERVICE_UNLINK_RESEND_PERIOD < millis_now (p 2 1) - millis_now (p 1 2)"
    "LOLA_LINK_SERVICE_UNLINK_RESEND_PERIOD < millis_now (p 2 6) - millis_now (p 2 3)" using M by blast+
  note I = info_step [OF P2(2,3) r(1-3) k2(2) tr d2 rtt rring k2(1) P2(6) pace e3 [unfolded k2(3)]]
  have "0 < (ucast rtt * 8 div 20 :: u32)" "(ucast rtt * 8 div 20 :: u32) < 4000"
    using l(1,2) by (intro average_guard [OF l(3) _ l(4) _ rtt]; simp add: lola_consts)+
  then show "\<exists>rtt. informed rtt h3 r3 \<and> 0 < (ucast rtt * 8 div 20 :: u32) \<and> (ucast rtt * 8 div 20 :: u32) < 4000"
    using I(1) by blast
  show "same_session h h3" "same_session r r3" "HostClockSyncer h3 = HostClockSyncer h"
    "RemoteClockSyncer r3 = RemoteClockSyncer r" "RemoteClockSyncTransaction r3 = RemoteClockSyncTransaction r"
    using same_session_trans [OF s2 I(2)] I(3-6) P1(8) P2(8) by simp_all
qed

lemma clock_first_good:
  assumes "SyncGoodCount c = 0"
  shows "\<not> HostSyncer_IsSynced c"
  using assms by (simp add: HostSyncer_IsSynced_def)

text \<open>The clocks, from the moment the ends have informed each other.\<close>

lemma linking_clocks:
  assumes i: "informed rtt h r" and c: "SyncGoodCount (HostClockSyncer h) = 0"
    and rc: "SyncerHasClock (RemoteClockSyncer r)" "RequestStage (RemoteClockSyncTransaction r) \<noteq> StageRequested"
    and t: "\<And>k. linking_in_time (p k) (LinkStateStart h)" "\<And>k. linking_in_time (q k) (LinkStateStart r)"
    and q: "rounds_paced 3 7 q" and st: "steady 3 7 flight" and fl: "\<And>k. flight k = stamp k - micros_now (q k 1)"
    and e: "clock_rounds N N' stamp p q 4 3 h r = (h', r')"
  shows "clocking h' r' \<and> HostSyncer_IsSynced (HostClockSyncer h') \<and> same_link h h' \<and> same_link r r' \<and>
    linking_at LinkingClockSyncStage h' \<and> (\<exists>j. 3 \<le> j \<and> j < 7 \<and> calibrated (flight j) h' r')"
proof -
  have ready: "clocking h r" using i rc by (simp add: clocking_def informed_def takes_clocks_def)
  note ns = clock_first_good [OF c]
  obtain h1 r1 where e1: "clock_exchange N N' (stamp 3) (p 3) (q 3) h r = (h1, r1)" by fastforce
  have now: "LOLA_LINK_SERVICE_UNLINK_RESEND_PERIOD < Link_GetElapsedMillisSinceLastSent (q 3 0) r"
    using i by (intro resend_now) (simp_all add: informed_def lola_consts)
  have fresh: "millis_now (q 3 3) - millis_now (q 3 0) < LOLA_LINK_SERVICE_UNLINK_TRANSACTION_LIFETIME"
    using q by (simp add: rounds_paced_def)
  note C = clock_step [OF ready ns t now fresh e1]
  have "clock_rounds N N' stamp p q 3 (Suc 3) h1 r1 = (h', r')"
    using e ns e1 by (simp add: eval_nat_numeral)
  moreover have "3 \<le> unat (SyncGoodCount (HostClockSyncer h1)) + 3" by simp
  moreover have "calibrated (flight 3) h1 r1" using C(6) fl by simp
  ultimately have "clocking h' r' \<and> HostSyncer_IsSynced (HostClockSyncer h') \<and> same_link h1 h' \<and> same_link r1 r' \<and>
      linking_at LinkingClockSyncStage h' \<and> (\<exists>j. 3 \<le> j \<and> j \<le> 3 + 3 \<and> calibrated (flight j) h' r')"
    using C(1-4,7) t
    by (intro clock_rounds_sync [where stamp = stamp and p = p and q = q, OF _ _ _ _ _ _ q st _ _ fl])
       (simp_all add: same_link_start)
  then obtain j where "3 \<le> j" "j \<le> 6" "calibrated (flight j) h' r'" "clocking h' r'" "HostSyncer_IsSynced (HostClockSyncer h')"
    "same_link h1 h'" "same_link r1 r'" "linking_at LinkingClockSyncStage h'" by auto
  then show ?thesis using same_link_trans [OF C(2)] same_link_trans [OF C(3)] by (auto intro: exI [of _ j])
qed

lemma SetToken_same:
  assumes "same_crypto a b" and "Hasher a = Hasher b" and "board B i P" and "board B j Q"
  shows "same_crypto (Encoder_SetToken P t a) (Encoder_SetToken Q t b)" and "EncoderState (Encoder_SetToken P t a) = EncoderState a"
  using assms(1,2) assms(3,4) [unfolded board_def]
  by (simp_all add: same_crypto_def Encoder_SetToken_def case_prod_unfold Let_def)

text \<open>
  When a host and a remote that have just switched to \<open>Linking\<close> hear each other in time, two pings,
  the exchange of information, at most four rounds of clock synchronisation and the protocol switch
  over lead both to \<open>Linked\<close>.
\<close>

lemma linking_completes:
  assumes "linking_start hid rid h r" and "linking_moments (LinkStateStart h) (LinkStateStart r) p q"
    and "\<forall>k n. board B hid (p k n) \<and> board B rid (q k n)" and "\<forall>k. flight k = stamp k - micros_now (q k 1)"
    and "steady 3 7 flight" and "\<forall>S \<in> set apps. quiet_app S" and "\<forall>S \<in> set apps'. quiet_app S"
  shows "\<exists>h'' r'' h' r' k. linking_lead (Lola_notify apps) (Lola_notify apps') stamp p q h r = (True, h'', r'') \<and>
    GetLinkState h'' = Linking \<and> GetLinkState r'' = Linking \<and>
    h' = Host_OnService (Lola_notify apps) (p 7 5) h'' \<and> r' = Remote_OnService (Lola_notify apps') (q 7 3) r'' \<and>
    3 \<le> k \<and> k < 7 \<and> linked_together hid rid (flight k) h' r'"
proof -
  let ?N = "Lola_notify apps" and ?N' = "Lola_notify apps'"
  note S = assms(1) [unfolded linking_start_def] and M = assms(2) [unfolded linking_moments_def]
  obtain h1 r1 where e1: "ping_exchange ?N ?N' (p 0) (q 0) h r = (h1, r1)" by fastforce
  obtain h2 r2 where e2: "ping_exchange ?N ?N' (p 1) (q 1) h1 r1 = (h2, r2)" by fastforce
  obtain h3 r3 where e3: "info_exchange ?N ?N' (p 2) (q 2) h2 r2 = (h3, r3)" by fastforce
  obtain h4 r4 where e4: "clock_rounds ?N ?N' stamp p q 4 3 h3 r3 = (h4, r4)" by fastforce
  obtain acked h5' r5' where e5: "switch_lead ?N ?N' (p 7) (q 7) h4 r4 = (acked, h5', r5')" by (metis surj_pair)
  define h5 where "h5 = Host_OnService ?N (p 7 5) h5'"
  define r5 where "r5 = Remote_OnService ?N' (q 7 3) r5'"
  have run: "linking_lead ?N ?N' stamp p q h r = (acked, h5', r5')"
    by (simp only: linking_lead_def e1 e2 e3 e4 e5 Let_def case_prod_conv)
  note O = linking_opens [OF assms(1,2) e1 e2 e3]
  obtain rtt where i: "informed rtt h3 r3" "0 < (ucast rtt * 8 div 20 :: u32)" "(ucast rtt * 8 div 20 :: u32) < 4000"
    using O(1) by blast
  have t: "linking_in_time (p k) (LinkStateStart h3)" "linking_in_time (q k) (LinkStateStart r3)" for k
    using M O(2,3) by (simp_all add: same_session_def)
  have c: "SyncGoodCount (HostClockSyncer h3) = 0" "SyncerHasClock (RemoteClockSyncer r3)"
    "RequestStage (RemoteClockSyncTransaction r3) \<noteq> StageRequested" "rounds_paced 3 7 q" using S M O(4-6) by simp_all
  have fl: "flight k = stamp k - micros_now (q k 1)" for k using assms(4) by blast
  from linking_clocks [OF i(1) c(1-3) t c(4) assms(5) fl e4]
  obtain k where K: "clocking h4 r4" "HostSyncer_IsSynced (HostClockSyncer h4)" "same_link h3 h4" "same_link r3 r4"
    "linking_at LinkingClockSyncStage h4" "3 \<le> k" "k < 7" "calibrated (flight k) h4 r4" by blast
  have T: "SessionId (LinkInfo h) = SessionId (LinkInfo r)" "SessionId (LinkInfo h) \<noteq> INVALID_SESSION"
    "PartnerId (LinkInfo h) = rid" "PartnerId (LinkInfo r) = hid" "EncoderState (CryptoEncoder (drv h)) = FullPower"
    "same_crypto (CryptoEncoder (drv h)) (CryptoEncoder (drv r))" "Hasher (CryptoEncoder (drv h)) = Hasher (CryptoEncoder (drv r))"
    "TOTPSeed (CryptoSeed (TimedHopper h)) = TOTPSeed (CryptoSeed (TimedHopper r))"
    using S unfolding linking_together_def by blast+
  have id: "known_id rid r4" "local_id (q 7 1) = rid" "PartnerId (LinkInfo h4) = rid"
    "SessionId (LinkInfo r4) = SessionId (LinkInfo h4)" "HopperSetupOk (TimedHopper h4)" "HopperSetupOk (TimedHopper r4)"
    using S T assms(3) O(2,3) K(3,4) by (simp_all add: board_def same_session_def same_link_def known_id_def)
  have t4: "linking_in_time (p 7) (LinkStateStart h4)" "linking_in_time (q 7) (LinkStateStart r4)"
    using t K(3,4) by (simp_all add: same_link_def)
  note W = switch_step [OF K(1,2,5) t4 id(1-4) assms(6,7) id(5,6) e5 h5_def r5_def]
  have b: "board B hid (p 7 5)" "board B rid (q 7 3)" using assms(3) by blast+
  note tok = SetToken_same [OF T(6,7) b, of "TOTPSeed (CryptoSeed (TimedHopper h))"]
  have "calibrated (flight k) h4 r4 \<longleftrightarrow> (\<forall>m. Clock_GetSyncMicros m (SyncedClock (drv r5)) + ETTM (drv r5) =
      Clock_GetSyncMicrosOf (m + flight k) (SyncedClock (drv h5)))"
    using W by (auto simp: calibrated_def clock_error_def linked_from_def Clock_GetSyncMicrosOf_def)
  then have "linked_together hid rid (flight k) h5 r5"
    using W K O(2,3) i T tok
    by (simp add: linked_together_def linked_from_def same_session_def same_link_def informed_def)
  then show ?thesis using run W(1-3) K(6,7)
    by (intro exI [of _ h5'] exI [of _ r5'] exI [of _ h5] exI [of _ r5] exI [of _ k]) (simp add: h5_def r5_def)
qed


lemma entered_start:
  assumes "linking_together hid rid h r" and "host_entered P h" and "remote_entered Q rid r"
  shows "linking_start hid rid h r" and "LinkStateStart h = millis_now P" and "LinkStateStart r = millis_now Q"
  using assms by (simp_all add: linking_start_def host_entered_def remote_entered_def host_fresh_def remote_fresh_def lola_consts)

lemma session_leads:
  assumes "libraries_ok B" and "ecc_ok B pubH privH pubR privR" and "hid \<noteq> 0"
    and "host_ready B ph hid pubH privH h0" and "host_fresh h0"
    and "remote_ready B pr rid pubR privR r0" and "remote_fresh r0"
    and "linking_moments (millis_now (ph 8)) (millis_now (pr 7)) p q"
    and "\<forall>k n. board B hid (p k n) \<and> board B rid (q k n)" and "\<forall>k. flight k = stamp k - micros_now (q k 1)"
    and "steady 3 7 flight" and "\<forall>S \<in> set apps. quiet_app S" and "\<forall>S \<in> set apps'. quiet_app S"
  obtains h r h'' r'' k where "handshake (Lola_notify apps) (Lola_notify apps') ph pr h0 r0 = (True, h, r)"
    and "linking_lead (Lola_notify apps) (Lola_notify apps') stamp p q h r = (True, h'', r'')"
    and "GetLinkState h'' = Linking" and "GetLinkState r'' = Linking" and "3 \<le> k" and "k < 7"
    and "linked_together hid rid (flight k) (Host_OnService (Lola_notify apps) (p 7 5) h'') (Remote_OnService (Lola_notify apps') (q 7 3) r'')"
proof -
  obtain h r where e: "handshake (Lola_notify apps) (Lola_notify apps') ph pr h0 r0 = (True, h, r)"
    "linking_together hid rid h r" "host_entered (ph 8) h" "remote_entered (pr 7) rid r"
    using handshake_result [OF assms(1,2,4,6,3), of "Lola_notify apps" "Lola_notify apps'"] assms(5,7) by blast
  note s = entered_start [OF e(2-4)]
  obtain h'' r'' k where L: "linking_lead (Lola_notify apps) (Lola_notify apps') stamp p q h r = (True, h'', r'')"
    "GetLinkState h'' = Linking" "GetLinkState r'' = Linking" "3 \<le> k" "k < 7"
    "linked_together hid rid (flight k) (Host_OnService (Lola_notify apps) (p 7 5) h'') (Remote_OnService (Lola_notify apps') (q 7 3) r'')"
    using linking_completes [OF s(1) assms(8) [folded s(2,3)] assms(9-13)] by blast
  show ?thesis by (rule that [OF e(1) L])
qed

text \<open>C3. A session is established: from a host that offers a session and a remote that looks for one,
  the public key exchange and the linking after it lead both ends to \<open>Linked\<close> whenever they hear
  each other in time. They then share session, key, IV and token, know each other's id, use the same
  guard time, within the range the duplex slots need, and the remote's clock plus that guard is what
  the host adds up for the moment of arrival, for the time of flight of one of the rounds.\<close>
theorem session_established:
  assumes "libraries_ok B" and "ecc_ok B pubH privH pubR privR" and "hid \<noteq> 0"
    and "host_ready B ph hid pubH privH h0" and "host_fresh h0"
    and "remote_ready B pr rid pubR privR r0" and "remote_fresh r0"
    and "linking_moments (millis_now (ph 8)) (millis_now (pr 7)) p q"
    and "\<forall>k n. board B hid (p k n) \<and> board B rid (q k n)" and "\<forall>k. flight k = stamp k - micros_now (q k 1)"
    and "steady 3 7 flight" and "\<forall>S \<in> set apps. quiet_app S" and "\<forall>S \<in> set apps'. quiet_app S"
  shows "\<exists>h r h' r' k. handshake (Lola_notify apps) (Lola_notify apps') ph pr h0 r0 = (True, h, r) \<and>
    linking_run (Lola_notify apps) (Lola_notify apps') stamp p q h r = (True, h', r') \<and>
    3 \<le> k \<and> k < 7 \<and> linked_together hid rid (flight k) h' r'"
proof -
  obtain h r h'' r'' k where "handshake (Lola_notify apps) (Lola_notify apps') ph pr h0 r0 = (True, h, r)"
    "linking_lead (Lola_notify apps) (Lola_notify apps') stamp p q h r = (True, h'', r'')"
    "GetLinkState h'' = Linking" "GetLinkState r'' = Linking" "3 \<le> k" "k < 7"
    "linked_together hid rid (flight k) (Host_OnService (Lola_notify apps) (p 7 5) h'') (Remote_OnService (Lola_notify apps') (q 7 3) r'')"
    by (rule session_leads [OF assms])
  then show ?thesis by (simp add: linking_run_def last_turn_def) blast
qed

text \<open>
  A board that takes a step every 2 ms, 20 ms from one exchange to the next, and a link on which
  a packet takes half a millisecond.
\<close>

definition step_millis :: "nat \<Rightarrow> nat \<Rightarrow> u32" where
  "step_millis k n = of_nat (20 * min k 7 + 2 * min n 9)"

definition at_step :: "platform \<Rightarrow> nat \<Rightarrow> nat \<Rightarrow> platform" where
  "at_step P k n = P\<lparr>millis_now := step_millis k n, micros_now := step_millis k n * 1000\<rparr>"

definition ready_host :: LoLaLinkHostService where
  "ready_host = offering_host\<lparr>TimedHopper := Hopper_new\<lparr>HopperSetupOk := True\<rparr>\<rparr>"

definition ready_remote :: LoLaLinkRemoteService where
  "ready_remote = searching_remote\<lparr>TimedHopper := Hopper_new\<lparr>HopperSetupOk := True\<rparr>,
     RemoteClockSyncer := snd (Syncer_Setup RemoteSyncer_new)\<rparr>"

lemma ready_ends:
  "host_ready sample_platform (\<lambda>_. sample_platform) (local_id sample_platform) (3 # replicate 39 0) (3 # replicate 20 0) ready_host"
  "remote_ready sample_platform (\<lambda>_. remote_platform) (local_id remote_platform) (5 # replicate 39 0) (5 # replicate 20 0) ready_remote"
  using sample_host_ready sample_remote_ready
  by (simp_all add: ready_host_def ready_remote_def host_ready_def remote_ready_def pairing_def known_id_def in_time_def awake_def
      Link_GetElapsedMillisSinceLastSent_def)

lemma fresh_ends: "host_fresh ready_host" "remote_fresh ready_remote"
  by (simp_all add: host_fresh_def remote_fresh_def ready_host_def ready_remote_def Syncer_Setup_def)
     (simp_all add: sample_ends LinkInfo_SetDriver_def LinkInfo_new_def LinkInfo_UpdateState_def Meter_new_def Meter_Reset_def
       Syncer_new_def Request_new_def LoLaLinkHostService.defs LoLaLinkRemoteService.defs)

lemma step_id: "local_id (at_step P k n) = local_id P"
proof -
  have u: "crc_upd_chain (at_step P k n) c bs = crc_upd_chain P c bs" for c bs
    by (induction bs arbitrary: c) (simp_all add: at_step_def)
  have "crc_chain (at_step P k n) bs = crc_chain P bs" for bs
    by (cases bs) (simp_all add: u, simp add: at_step_def)
  then show ?thesis by (simp add: local_id_chain) (simp add: at_step_def)
qed

lemma step_boards: "board B i P \<Longrightarrow> board B i (at_step P k n)"
  by (simp add: board_def step_id) (simp add: at_step_def)

lemma step_millis_at: "step_millis k n = of_nat (20 * min k 7 + 2 * min n 9)" "unat (step_millis k n) \<le> 158"
proof -
  have "20 * min k 7 + 2 * min n 9 \<le> 158" by simp
  then show "unat (step_millis k n) \<le> 158"
    unfolding step_millis_def unat_of_nat by (rule le_trans [OF mod_less_eq_dividend])
qed (simp add: step_millis_def)

lemma sample_moments: "linking_moments 0 0 (at_step sample_platform) (at_step remote_platform)"
proof -
  have "step_millis k n \<le> 200" for k n
    using step_millis_at(2) [of k n] by (simp add: word_le_nat_alt)
  then have "linking_in_time (at_step P k) 0" for P k
    by (simp add: linking_in_time_def at_step_def elapsed_since_def lola_consts)
  moreover have "latency_ring_ok (at_step sample_platform k n)" "ring_ok 3 (ring_rssi (at_step sample_platform k n))" for k n
    by (simp_all add: at_step_def latency_ring_ok_def lola_consts)
  moreover have "ping_latency (at_step sample_platform) i = 4000" "micros_now (at_step sample_platform i 1) \<noteq> ILOLA_INVALID_MICROS"
    if "i < 2" for i
    using that by (auto simp: less_2_cases_iff ping_latency_def at_step_def step_millis_def lola_consts)
  moreover have "rounds_paced 3 7 (at_step remote_platform)"
  proof -
    have "step_millis k 3 - step_millis k 0 = 6" for k by (simp add: step_millis_def)
    moreover have "step_millis (Suc k) 0 - step_millis k 2 = 16" if "k < 7" for k
      using that by (simp add: step_millis_def algebra_simps)
    ultimately show ?thesis by (simp add: rounds_paced_def at_step_def lola_consts)
  qed
  ultimately show ?thesis
    by (simp add: linking_moments_def lola_consts) (simp add: at_step_def step_millis_def)
qed

theorem session_established_witness:
  "\<exists>h r h' r'. handshake (Lola_notify []) (Lola_notify []) (\<lambda>_. sample_platform) (\<lambda>_. remote_platform) ready_host ready_remote =
     (True, h, r) \<and>
   linking_run (Lola_notify []) (Lola_notify []) (\<lambda>k. step_millis k 1 * 1000 + 500) (at_step sample_platform)
     (at_step remote_platform) h r = (True, h', r') \<and>
   linked_together (local_id sample_platform) (local_id remote_platform) 500 h' r'"
proof -
  have ecc: "ecc_ok sample_platform (3 # replicate 39 0) (3 # replicate 20 0) (5 # replicate 39 0) (5 # replicate 20 0)"
    by (simp add: ecc_ok_def ecc_keypair_def replicate_add [symmetric])
  have z: "millis_now sample_platform = 0" "millis_now remote_platform = 0" by (simp_all add: remote_platform_def)
  have m: "linking_moments (millis_now sample_platform) (millis_now remote_platform) (at_step sample_platform) (at_step remote_platform)"
    unfolding z by (rule sample_moments)
  have st: "steady 3 7 (\<lambda>_. 500)" by (simp add: steady_def abs32_def lola_consts)
  have b: "\<forall>k n. board sample_platform (local_id sample_platform) (at_step sample_platform k n) \<and>
      board sample_platform (local_id remote_platform) (at_step remote_platform k n)"
    using sample_boards step_boards by blast
  have fl: "\<forall>k. 500 = step_millis k 1 * 1000 + 500 - micros_now (at_step remote_platform k 1)"
    by (simp add: at_step_def)
  show ?thesis
    using session_established [where apps = "[]" and apps' = "[]", OF sample_libraries ecc sample_id ready_ends(1) fresh_ends(1)
        ready_ends(2) fresh_ends(2) m b fl st]
    by auto
qed

end
