(* ===== verification/Example_Node.thy ===== *)
theory Example_Node
  imports Link_Apps Linking_Run Controller_Surface
begin

text \<open>
  The nodes of the example sketches (\<open>src/examples\<close>): \<open>HostManager.h\<close> puts a surface reader beside the
  link service of a host, \<open>RemoteManager.h\<close> a surface writer beside that of a remote; the sketches
  set them up and start them. The state of a node is the record of its link service extended by the
  application's members. Every service has a pointer to the one driver: a service is taken out of the
  node with the node's driver, and put back with what it did to it.
\<close>

section \<open>A service as a part of a node\<close>

definition lift_service :: "('w \<Rightarrow> 's) \<Rightarrow> ('s \<Rightarrow> 'w \<Rightarrow> 'w) \<Rightarrow> 's service \<Rightarrow> 'w service" where
  "lift_service get put S = \<lparr>
     srv_Init = \<lambda>w. map_option (\<lambda>(ok, s). (ok, put s w)) (srv_Init S (get w)),
     srv_ReceivedPacket = \<lambda>P p w. (let (taken, s) = srv_ReceivedPacket S P p (get w) in (taken, put s w)),
     srv_ReceivedAckedPacket = \<lambda>P p w. (let (taken, s) = srv_ReceivedAckedPacket S P p (get w) in (taken, put s w)),
     srv_ReceivedAck = \<lambda>P h i w. (let (taken, s) = srv_ReceivedAck S P h i (get w) in (taken, put s w)),
     srv_ProcessSent = \<lambda>P h w. (let (taken, s) = srv_ProcessSent S P h (get w) in (taken, put s w)),
     srv_OnLinkEstablished = \<lambda>P w. put (srv_OnLinkEstablished S P (get w)) w,
     srv_OnLinkLost = \<lambda>P w. put (srv_OnLinkLost S P (get w)) w \<rparr>"

text \<open>A service that leaves all sending to its own task.\<close>

definition quiet_service :: "'s node_scheme service \<Rightarrow> bool" where
  "quiet_service S \<longleftrightarrow> (\<forall>P p s. drv (snd (srv_ReceivedPacket S P p s)) = drv s \<and>
       drv (snd (srv_ReceivedAckedPacket S P p s)) = drv s) \<and>
     (\<forall>P h i s. drv (snd (srv_ReceivedAck S P h i s)) = drv s \<and> drv (snd (srv_ProcessSent S P h s)) = drv s) \<and>
     (\<forall>P s. drv (srv_OnLinkEstablished S P s) = drv s \<and> drv (srv_OnLinkLost S P s) = drv s)"

locale part_of_node =
  fixes get :: "'a LoLaLinkService_scheme \<Rightarrow> 's node_scheme"
    and put :: "'s node_scheme \<Rightarrow> 'a LoLaLinkService_scheme \<Rightarrow> 'a LoLaLinkService_scheme"
  assumes get_drv: "drv (get w) = drv w" and put_drv: "drv (put s w) = drv s"
    and put_link: "LinkInfo (put s w) = LinkInfo w" "LinkingState (put s w) = LinkingState w"
begin

lemma put_view: "drv s = drv (get w) \<Longrightarrow> link_view (put s w) = link_view w"
  by (simp add: link_view_def put_drv put_link get_drv)

lemma lifted_side:
  assumes "quiet_service S"
  shows "side_service (lift_service get put S)"
  using assms
  by unfold_locales
     (simp_all add: quiet_service_def lift_service_def case_prod_unfold Let_def put_view put_drv get_drv)

lemma lifted_quiet: "quiet_service S \<Longrightarrow> quiet_app (lift_service get put S)"
  by (simp add: quiet_service_def quiet_app_def lift_service_def put_drv put_link get_drv)

end

lemma Reader_quiet_service: "quiet_service Reader_service"
  by (simp add: quiet_service_def Reader_service_def Service_ReceivedPacket_def Service_ReceivedAckedPacket_def
      Service_ReceivedAck_def drv_Sync_ProcessPacket [OF Reader_quiet] Sync_OnLinkEstablished_def Sync_OnLinkLost_def)
     (simp add: Reader_sync_hooks_def)

lemma Writer_quiet_service: "quiet_service Writer_service"
  by (simp add: quiet_service_def Writer_service_def Service_ReceivedPacket_def Service_ReceivedAckedPacket_def
      Service_ReceivedAck_def drv_Sync_ProcessPacket [OF Writer_quiet] Sync_OnLinkEstablished_def Sync_OnLinkLost_def)
     (simp add: Writer_sync_hooks_def)

section \<open>The managers\<close>

text \<open>
  \<open>ControllerSurface\<close> is a surface with a cache of its own: the surface is the one of the service it is
  given to, the cache is a field of the node. A member that is a service object is boxed, being a node
  itself.
\<close>

definition CONTROLLER_SURFACE_BASE_HEADER :: u8 where
  [lola_consts]: "CONTROLLER_SURFACE_BASE_HEADER = PACKET_DEFINITION_USER_HEADERS_START"

datatype 'a member = Member (object: 'a)

record HostManager = LoLaLinkHostService +
  HostController :: ControllerSurface
  HostReader :: "AbstractSync member"

record RemoteManager = LoLaLinkRemoteService +
  RemoteController :: ControllerSurface
  RemoteWriter :: "SyncSurfaceWriter member"

definition host_reader :: "HostManager \<Rightarrow> AbstractSync" where
  "host_reader w = (object (HostReader w))\<lparr>drv := drv w\<rparr>"

definition set_host_reader :: "AbstractSync \<Rightarrow> HostManager \<Rightarrow> HostManager" where
  "set_host_reader r w = w\<lparr>HostReader := Member r, drv := drv r\<rparr>"

definition remote_writer :: "RemoteManager \<Rightarrow> SyncSurfaceWriter" where
  "remote_writer w = (object (RemoteWriter w))\<lparr>drv := drv w\<rparr>"

definition set_remote_writer :: "SyncSurfaceWriter \<Rightarrow> RemoteManager \<Rightarrow> RemoteManager" where
  "set_remote_writer s w = w\<lparr>RemoteWriter := Member s, drv := drv s\<rparr>"

definition host_surface_service :: "HostManager service" where
  "host_surface_service = lift_service host_reader set_host_reader Reader_service"

definition remote_surface_service :: "RemoteManager service" where
  "remote_surface_service = lift_service remote_writer set_remote_writer Writer_service"

interpretation host_part: part_of_node host_reader set_host_reader
  by unfold_locales (simp_all add: host_reader_def set_host_reader_def)

interpretation remote_part: part_of_node remote_writer set_remote_writer
  by unfold_locales (simp_all add: remote_writer_def set_remote_writer_def)

lemma surface_services:
  "side_service host_surface_service" "quiet_app host_surface_service"
  "side_service remote_surface_service" "quiet_app remote_surface_service"
  unfolding host_surface_service_def remote_surface_service_def
  using host_part.lifted_side [OF Reader_quiet_service] host_part.lifted_quiet [OF Reader_quiet_service]
    remote_part.lifted_side [OF Writer_quiet_service] remote_part.lifted_quiet [OF Writer_quiet_service] by simp_all

section \<open>The tasks of the surface services\<close>

text \<open>A predicate that survives what the send machine and the notifications of a service do.\<close>

lemma Send_Callback_rule:
  assumes same: "\<And>s t. IPacketSendService.more t = IPacketSendService.more s \<Longrightarrow> drv t = drv s \<Longrightarrow> F t = F s"
    and D: "\<And>s. F s \<Longrightarrow> F (on_drv (fault_if True NullDefinition) s)" "\<And>s. F s \<Longrightarrow> F (snd (Service_AllowedSend P s))"
      "\<And>s p. F s \<Longrightarrow> F (snd (Service_SendPacket P p s))"
    and K: "\<And>s. F s \<Longrightarrow> F (hk_OnSendFailed K P s)" "\<And>s. F s \<Longrightarrow> F (hk_OnService K P s)"
      "\<And>s. F s \<Longrightarrow> F (hk_OnSendTimedOut K P s)" "\<And>s. F s \<Longrightarrow> F (hk_OnSendDelayed K P s)"
      "\<And>s. F s \<Longrightarrow> F (hk_OnSendRetrying K P s)" "\<And>s. F s \<Longrightarrow> F (hk_OnPreSend K P s)"
      "\<And>s h i. F s \<Longrightarrow> F (hk_OnAckFailed K P h i s)" "\<And>s h i. F s \<Longrightarrow> F (hk_OnAckReceived K P h i s)"
      "\<And>s h t. F s \<Longrightarrow> F (hk_OnSendOk K P h t s)"
    and "F s"
  shows "F (Send_Callback P K s)"
proof -
  have f: "F (s\<lparr>SendStatus := st\<rparr>) = F s" "F (s\<lparr>SendFailures := n\<rparr>) = F s" "F (Service_SetNextRunASAP s) = F s"
    "F (Service_SetNextRunDelay d s) = F s" "F (Send_ClearSendRequest s) = F s" for st n d s
    by (rule same; simp add: Service_SetNextRunASAP_def Service_SetNextRunDelay_def Send_ClearSendRequest_def)+
  have "F (Send_sending P K s)" "F (Send_sent_ok P K s)" if "F s" for s
    using that by (simp_all add: Send_sending_def Send_sent_ok_def case_prod_unfold Let_def f K D split: option.split)
  then show ?thesis
    using assms(14) by (simp add: Send_Callback_def Let_def f K split: SendStatusEnum.split)
qed

text \<open>What no task of a surface service changes: its state, and the driver's stage and invariant.\<close>

definition same_side :: "'a AbstractSync_scheme \<Rightarrow> 'a AbstractSync_scheme \<Rightarrow> bool" where
  "same_side s t \<longleftrightarrow> SyncState t = SyncState s \<and> stage_of (drv t) = stage_of (drv s) \<and>
     (Driver_inv (drv s) \<longrightarrow> Driver_inv (drv t))"

lemma same_sideI: "SyncState t = SyncState u \<Longrightarrow> drv t = drv u \<Longrightarrow> same_side s u \<Longrightarrow> same_side s t"
  by (simp add: same_side_def)

lemma sync_state_frames [simp]:
  "SyncState (Service_SetNextRunASAP s) = SyncState s" "SyncState (Service_SetNextRunDelay n s) = SyncState s"
  "SyncState (Service_SetNextRunLong s) = SyncState s" "SyncState (on_surface f s) = SyncState s"
  "SyncState (Sync_UpdateLocalHash P s) = SyncState s" "SyncState (Sync_Disable s) = SyncState s"
  "SyncState (Send_RequestSendPacket P t1 t2 s) = SyncState s" "SyncState (Sync_PrepareMetaPacket P i s) = SyncState s"
  "SyncState (Sync_ResetLastSentTimeStamp s) = SyncState s" "SyncState (Sync_InvalidateLocalHash s) = SyncState s"
  "SyncState (Sync_InvalidateRemoteHash s) = SyncState s" "SyncState (Sync_SetRemoteHash x s) = SyncState s"
  "SyncState (Sync_UpdateBlockData i' bs s) = SyncState s" "SyncState (Sync_PrepareBlockPacketPayload i' s) = SyncState s"
  "SyncState (snd (Sync_PrepareBlockPacketHeader i' s)) = SyncState s"
  "SyncState (snd (Send_ProcessSent h s)) = SyncState s" "SyncState (snd (Send_ProcessAck h i s)) = SyncState s"
  by (simp_all add: sync_steps Service_SetNextRunLong_def Sync_Disable_def Service_Disable_def Sync_PrepareMetaPacket_def
      Sync_InvalidateLocalHash_def Sync_SetRemoteHash_def Sync_UpdateBlockData_def Sync_PrepareBlockPacketPayload_def
      Sync_PrepareBlockPacketHeader_def Send_ProcessSent_def Send_ProcessAck_def Let_def)

lemma surface_callback_rule:
  assumes P: "actions_ok P"
    and K: "\<And>s. SyncState (hk_OnSendFailed K P s) = SyncState s \<and> drv (hk_OnSendFailed K P s) = drv s"
      "\<And>s. SyncState (hk_OnService K P s) = SyncState s \<and> drv (hk_OnService K P s) = drv s"
      "\<And>s. SyncState (hk_OnSendDelayed K P s) = SyncState s \<and> drv (hk_OnSendDelayed K P s) = drv s"
      "\<And>s. SyncState (hk_OnSendRetrying K P s) = SyncState s \<and> drv (hk_OnSendRetrying K P s) = drv s"
      "\<And>s h t. SyncState (hk_OnSendOk K P h t s) = SyncState s \<and> drv (hk_OnSendOk K P h t s) = drv s"
    and default: "hk_OnSendTimedOut K = hk_OnSendTimedOut Send_default_hooks" "hk_OnPreSend K = hk_OnPreSend Send_default_hooks"
      "hk_OnAckFailed K = hk_OnAckFailed Send_default_hooks" "hk_OnAckReceived K = hk_OnAckReceived Send_default_hooks"
  shows "same_side s (Send_Callback P K s)"
proof (rule Send_Callback_rule [where F = "same_side s"])
  show "same_side s u = same_side s v" if "IPacketSendService.more u = IPacketSendService.more v" "drv u = drv v" for u v
    using that by (cases u; cases v; simp add: same_side_def)
  show "same_side s (snd (Service_SendPacket P p t))" if "same_side s t" for t p
    using that P by (simp add: same_side_def)
      (simp add: Service_SendPacket_def on_drv_result_def case_prod_unfold Let_def stage_of_driver)
  show "same_side s (snd (Service_AllowedSend P t))" if "same_side s t" for t
    using that by (simp add: same_side_def stage_of_def) (simp add: Service_AllowedSend_def on_drv_result_def case_prod_unfold Let_def)
  show "same_side s (on_drv (fault_if True NullDefinition) t)" if "same_side s t" for t
    using that by (simp add: same_side_def on_drv_def) (simp add: stage_of_def fault_if_def)
  fix t h i d
  assume t: "same_side s t"
  show "same_side s (hk_OnSendFailed K P t)" "same_side s (hk_OnService K P t)" "same_side s (hk_OnSendDelayed K P t)"
    "same_side s (hk_OnSendRetrying K P t)" "same_side s (hk_OnSendOk K P h d t)"
    using K by (auto intro: same_sideI [OF _ _ t])
  show "same_side s (hk_OnSendTimedOut K P t)" "same_side s (hk_OnPreSend K P t)" "same_side s (hk_OnAckFailed K P h i t)"
    "same_side s (hk_OnAckReceived K P h i t)"
    by (simp_all add: default Send_default_hooks_def; rule same_sideI [OF _ _ t]; simp)+
qed (simp add: same_side_def)

lemma Reader_Callback_side: "actions_ok P \<Longrightarrow> same_side s (Reader_Callback P s)"
  unfolding Reader_Callback_def
  by (rule surface_callback_rule)
     (auto simp: Reader_send_hooks_def Send_default_hooks_def Sync_OnSendFailed_def Sync_OnService_def Let_def
       Reader_sync_hooks_def Reader_OnWaitingForServiceDiscovery_def Reader_OnSyncActive_def
       Sync_PrepareServiceDiscoveryPacket_def split: SyncStateEnum.split)

lemma Writer_moves_side [simp]:
  "SyncState (Writer_UpdateSyncingState ws s) = SyncState s"
  "SyncState (Writer_PrepareNextPendingBlockPacket P s) = SyncState s"
  "drv (Writer_PrepareNextPendingBlockPacket P s) = drv s"
  "SyncState (Writer_UpdatePendingBlockPacketPayload s) = SyncState s"
  "drv (Writer_UpdatePendingBlockPacketPayload s) = drv s"
  by (simp_all add: Writer_UpdateSyncingState_def Writer_PrepareNextPendingBlockPacket_def
      Writer_UpdatePendingBlockPacketPayload_def Let_def)

lemma Writer_Callback_side: "actions_ok P \<Longrightarrow> same_side s (Writer_Callback P s)"
  unfolding Writer_Callback_def
  by (rule surface_callback_rule)
     (auto simp: Writer_send_hooks_def Send_default_hooks_def Sync_OnSendFailed_def Sync_OnService_def Let_def
       Writer_sync_hooks_def Writer_OnWaitingForServiceDiscovery_def Writer_OnSyncActive_def Writer_OnSendOk_def
       Writer_OnSendDelayed_def Writer_OnSendRetrying_def Sync_PrepareUpdateFinishedPacket_def
       split: SyncStateEnum.split SyncWriterState.split)

section \<open>A surface service is disabled exactly while there is no link\<close>

lemma UpdateSyncState_disabled:
  assumes "\<And>st s. SyncState (f P st s) = Disabled \<longleftrightarrow> SyncState s = Disabled"
  shows "SyncState (Sync_UpdateSyncState f P st s) = Disabled \<longleftrightarrow> st = Disabled"
  by (auto simp: Sync_UpdateSyncState_def Let_def assms)

lemma Notify_disabled:
  assumes "\<And>st s. SyncState (f P st s) = Disabled \<longleftrightarrow> SyncState s = Disabled"
  shows "SyncState (Sync_NotifyDataChanged f P s) = Disabled \<longleftrightarrow> SyncState s = Disabled"
  using UpdateSyncState_disabled [where f = f, OF assms]
  by (auto simp: Sync_NotifyDataChanged_def Sync_SurfaceDataChangedEvent_def Let_def)

lemma Reader_disabled [simp]:
  "SyncState (Reader_OnStateUpdated P st s) = Disabled \<longleftrightarrow> SyncState s = Disabled"
  "SyncState (Reader_UpdateSyncState P st s) = Disabled \<longleftrightarrow> st = Disabled"
  "SyncState (Sync_NotifyDataChanged Reader_OnStateUpdated P s) = Disabled \<longleftrightarrow> SyncState s = Disabled"
proof -
  have act: "SyncState (Reader_StateActions f P st s) = Disabled \<longleftrightarrow> SyncState s = Disabled"
    if "\<And>s. SyncState (f P s) = Disabled \<longleftrightarrow> SyncState s = Disabled" for f st and s :: "'a AbstractSync_scheme"
    by (simp add: Reader_StateActions_def that Let_def split: SyncStateEnum.split)
  have n: "SyncState (Reader_OnStateUpdated_nested P st s) = Disabled \<longleftrightarrow> SyncState s = Disabled" for st and s :: "'a AbstractSync_scheme"
    unfolding Reader_OnStateUpdated_nested_def by (rule act) simp
  have u: "SyncState (Reader_OnStateUpdated P st s) = Disabled \<longleftrightarrow> SyncState s = Disabled" for st and s :: "'a AbstractSync_scheme"
    unfolding Reader_OnStateUpdated_def by (rule act) (rule Notify_disabled, rule n)
  show "SyncState (Reader_OnStateUpdated P st s) = Disabled \<longleftrightarrow> SyncState s = Disabled"
    "SyncState (Reader_UpdateSyncState P st s) = Disabled \<longleftrightarrow> st = Disabled"
    "SyncState (Sync_NotifyDataChanged Reader_OnStateUpdated P s) = Disabled \<longleftrightarrow> SyncState s = Disabled"
    by (rule u, rule UpdateSyncState_disabled, rule u, rule Notify_disabled, rule u)
qed

lemma Writer_disabled [simp]:
  "SyncState (Writer_OnStateUpdated P st s) = SyncState s"
  "SyncState (Writer_UpdateSyncState P st s) = Disabled \<longleftrightarrow> st = Disabled"
  "SyncState (Sync_NotifyDataChanged Writer_OnStateUpdated P s) = Disabled \<longleftrightarrow> SyncState s = Disabled"
proof -
  show u: "SyncState (Writer_OnStateUpdated P st s) = SyncState s" for st and s :: "'a SyncSurfaceWriter_scheme"
    by (simp add: Writer_OnStateUpdated_def split: SyncStateEnum.split)
  show "SyncState (Writer_UpdateSyncState P st s) = Disabled \<longleftrightarrow> st = Disabled"
    "SyncState (Sync_NotifyDataChanged Writer_OnStateUpdated P s) = Disabled \<longleftrightarrow> SyncState s = Disabled"
    by (rule UpdateSyncState_disabled, simp add: u, rule Notify_disabled, simp add: u)
qed

text \<open>What a surface service does about its packets and its task leaves it on or off.\<close>

definition steady_service :: "'a AbstractSync_scheme service \<Rightarrow> bool" where
  "steady_service S \<longleftrightarrow> (\<forall>P p s. (SyncState (snd (srv_ReceivedPacket S P p s)) = Disabled \<longleftrightarrow> SyncState s = Disabled) \<and>
       (SyncState (snd (srv_ReceivedAckedPacket S P p s)) = Disabled \<longleftrightarrow> SyncState s = Disabled)) \<and>
     (\<forall>P h i s. (SyncState (snd (srv_ReceivedAck S P h i s)) = Disabled \<longleftrightarrow> SyncState s = Disabled) \<and>
       (SyncState (snd (srv_ProcessSent S P h s)) = Disabled \<longleftrightarrow> SyncState s = Disabled)) \<and>
     (\<forall>P s. SyncState (srv_OnLinkEstablished S P s) \<noteq> Disabled \<and> SyncState (srv_OnLinkLost S P s) = Disabled)"

lemma steady_serviceD:
  assumes "steady_service S"
  shows "SyncState (snd (srv_ReceivedPacket S P p s)) = Disabled \<longleftrightarrow> SyncState s = Disabled"
    "SyncState (snd (srv_ReceivedAckedPacket S P p s)) = Disabled \<longleftrightarrow> SyncState s = Disabled"
    "SyncState (snd (srv_ReceivedAck S P h i s)) = Disabled \<longleftrightarrow> SyncState s = Disabled"
    "SyncState (snd (srv_ProcessSent S P h s)) = Disabled \<longleftrightarrow> SyncState s = Disabled"
    "SyncState (srv_OnLinkEstablished S P s) \<noteq> Disabled" "SyncState (srv_OnLinkLost S P s) = Disabled"
  using assms by (simp_all add: steady_service_def)

lemma Reader_steady: "steady_service Reader_service"
proof -
  have block: "SyncState (Reader_OnBlockReceived P i bs s) = Disabled \<longleftrightarrow> SyncState s = Disabled" for P i bs and s :: "'a AbstractSync_scheme"
  proof -
    define t where "t = Sync_NotifyDataChanged Reader_OnStateUpdated P (on_surface (Surface_ClearBit P (unat i))
      (Sync_InvalidateLocalHash (Sync_UpdateBlockData i bs s)))"
    have "SyncState t = Disabled \<longleftrightarrow> SyncState s = Disabled" by (simp add: t_def)
    then show ?thesis
      unfolding Reader_OnBlockReceived_def t_def [symmetric] Let_def by (cases "SyncState t") auto
  qed
  have finished: "SyncState (Reader_OnUpdateFinishedReceived P s) = Disabled \<longleftrightarrow> SyncState s = Disabled"
    for P and s :: "'a AbstractSync_scheme"
    by (cases "SyncState s") (simp_all add: Reader_OnUpdateFinishedReceived_def Sync_PrepareUpdateFinishedReplyPacket_def
      Sync_PrepareInvalidateRequestPacket_def Let_def)
  have "SyncState (snd (Sync_ProcessPacket Reader_sync_hooks P p s)) = Disabled \<longleftrightarrow> SyncState s = Disabled"
    for P p and s :: "'a AbstractSync_scheme"
    by (simp add: Sync_ProcessPacket_def Reader_sync_hooks_def Let_def block finished)
  moreover have "SyncState (Sync_OnLinkEstablished Reader_sync_hooks P s) \<noteq> Disabled" "SyncState (Sync_OnLinkLost Reader_sync_hooks P s) = Disabled"
    for P and s :: "'a AbstractSync_scheme"
    by (simp_all add: Sync_OnLinkEstablished_def Sync_OnLinkLost_def Reader_sync_hooks_def)
  ultimately show ?thesis
    by (simp add: steady_service_def Reader_service_def Service_ReceivedPacket_def Service_ReceivedAckedPacket_def Service_ReceivedAck_def)
qed

lemma Writer_steady: "steady_service Writer_service"
proof -
  have "SyncState (snd (Sync_ProcessPacket Writer_sync_hooks P p s)) = Disabled \<longleftrightarrow> SyncState s = Disabled"
    for P p and s :: "'a SyncSurfaceWriter_scheme"
    by (cases "SyncState s")
       (simp_all add: Sync_ProcessPacket_def Writer_sync_hooks_def Writer_OnServiceDiscoveryReceived_def
         Writer_OnUpdateFinishedReplyReceived_def Writer_OnInvalidateRequestReceived_def Let_def)
  moreover have "SyncState (Sync_OnLinkEstablished Writer_sync_hooks P s) \<noteq> Disabled" "SyncState (Sync_OnLinkLost Writer_sync_hooks P s) = Disabled"
    for P and s :: "'a SyncSurfaceWriter_scheme"
    by (simp_all add: Sync_OnLinkEstablished_def Sync_OnLinkLost_def Writer_sync_hooks_def)
  ultimately show ?thesis
    by (simp add: steady_service_def Writer_service_def Service_ReceivedPacket_def Service_ReceivedAckedPacket_def Service_ReceivedAck_def)
qed

text \<open>The steps of the nodes: those of the link and the driver, the surface's task, and the application's.\<close>

abbreviation host_notify :: "platform \<Rightarrow> bool \<Rightarrow> HostManager \<Rightarrow> HostManager" where
  "host_notify \<equiv> Lola_notify [host_surface_service]"

abbreviation remote_notify :: "platform \<Rightarrow> bool \<Rightarrow> RemoteManager \<Rightarrow> RemoteManager" where
  "remote_notify \<equiv> Lola_notify [remote_surface_service]"

definition remote_operate :: "platform \<Rightarrow> control \<Rightarrow> RemoteManager \<Rightarrow> RemoteManager" where
  "remote_operate P x w =
     (let (c, s) = operate P (RemoteController w, remote_writer w) x
      in (set_remote_writer s w)\<lparr>RemoteController := c\<rparr>)"

inductive example_host_step :: "HostManager LoLaServicesManager \<Rightarrow> HostManager \<Rightarrow> HostManager \<Rightarrow> bool" for M where
  node: "node_step (Manager_handlers M) (Host_Callback host_notify) (Host_UpdateLinkState host_notify) w w' \<Longrightarrow>
    example_host_step M w w'"
| surface: "actions_ok P \<Longrightarrow> example_host_step M w (set_host_reader (Reader_Callback P (host_reader w)) w)"

inductive example_remote_step :: "RemoteManager LoLaServicesManager \<Rightarrow> RemoteManager \<Rightarrow> RemoteManager \<Rightarrow> bool" for M where
  node: "node_step (Manager_handlers M) (Remote_Callback remote_notify) (Remote_UpdateLinkState remote_notify) w w' \<Longrightarrow>
    example_remote_step M w w'"
| surface: "actions_ok P \<Longrightarrow> example_remote_step M w (set_remote_writer (Writer_Callback P (remote_writer w)) w)"
| control: "example_remote_step M w (remote_operate P x w)"

lemma side_view:
  assumes "same_side (get w) s" and "drv (get w) = drv w" and "drv w' = drv s" and "LinkInfo w' = LinkInfo w"
    and "LinkingState w' = LinkingState w"
  shows "link_view w' = link_view w" and "Driver_inv (drv w) \<longrightarrow> Driver_inv (drv w')"
  using assms by (simp_all add: same_side_def link_view_def stage_of_def)

text \<open>They are steps of a node with side services, so all that holds of these holds of the examples.\<close>

lemma example_host_is_node:
  assumes "example_host_step M w w'"
  shows "host_step [host_surface_service] M w w'"
  using assms
proof (cases rule: example_host_step.cases)
  case (surface P)
  show ?thesis
    unfolding surface(1)
    by (rule link_step.application; rule side_view [OF Reader_Callback_side [OF surface(2)]])
       (simp_all add: host_part.get_drv host_part.put_drv host_part.put_link)
qed (rule link_step.node)

lemma operate_side: "operate P (c, s) x = (c', s') \<Longrightarrow> drv s' = drv s \<and> (SyncState s' = Disabled \<longleftrightarrow> SyncState s = Disabled)"
proof -
  have "drv (Sync_SurfaceChanged Writer_OnStateUpdated P u s) = drv s"
    "SyncState (Sync_SurfaceChanged Writer_OnStateUpdated P u s) = Disabled \<longleftrightarrow> SyncState s = Disabled" for u
    using drv_NotifyDataChanged [of Writer_OnStateUpdated P "s\<lparr>TrackedSurface := u\<rparr>"] Writer_disabled(3) [of P "s\<lparr>TrackedSurface := u\<rparr>"]
    by (simp_all add: Sync_SurfaceChanged_def Sync_NotifyDataChanged_def)
  then show "operate P (c, s) x = (c', s') \<Longrightarrow> drv s' = drv s \<and> (SyncState s' = Disabled \<longleftrightarrow> SyncState s = Disabled)"
    by (auto simp: operate_def split: prod.splits option.splits)
qed

lemma remote_operate_frame:
  "link_view (remote_operate P x w) = link_view w" "drv (remote_operate P x w) = drv w"
  "SyncState (remote_writer (remote_operate P x w)) = Disabled \<longleftrightarrow> SyncState (remote_writer w) = Disabled"
  using operate_side [OF prod.collapse [symmetric], of P "RemoteController w" "remote_writer w" x]
  by (simp_all add: remote_operate_def case_prod_unfold Let_def link_view_def set_remote_writer_def remote_writer_def)

lemma example_remote_is_node:
  assumes "example_remote_step M w w'"
  shows "remote_step [remote_surface_service] M w w'"
  using assms
proof (cases rule: example_remote_step.cases)
  case (surface P)
  show ?thesis
    unfolding surface(1)
    by (rule link_step.application; rule side_view [OF Writer_Callback_side [OF surface(2)]])
       (simp_all add: remote_part.get_drv remote_part.put_drv remote_part.put_link)
next
  case (control P x)
  then show ?thesis using remote_operate_frame [of P x w] by (intro link_step.application) simp_all
qed (rule link_step.node)

definition host_tracks :: "bool \<Rightarrow> HostManager \<Rightarrow> bool" where
  "host_tracks c w \<longleftrightarrow> (SyncState (host_reader w) = Disabled \<longleftrightarrow> \<not> c)"

definition remote_tracks :: "bool \<Rightarrow> RemoteManager \<Rightarrow> bool" where
  "remote_tracks c w \<longleftrightarrow> (SyncState (remote_writer w) = Disabled \<longleftrightarrow> \<not> c)"

lemma host_reader_more: "LoLaLinkHostService.more t = LoLaLinkHostService.more s \<Longrightarrow> HostReader t = HostReader s"
  by (cases s; cases t; simp)

lemma remote_writer_more: "LoLaLinkRemoteService.more t = LoLaLinkRemoteService.more s \<Longrightarrow> RemoteWriter t = RemoteWriter s"
  by (cases s; cases t; simp)

lemma notify_surface:
  "object (HostReader (host_notify P c w)) = (let r = (object (HostReader w))\<lparr>drv := drv (services_notify [Hopper_service] P c w)\<rparr>
     in if c then srv_OnLinkEstablished Reader_service P r else srv_OnLinkLost Reader_service P r)"
  "object (RemoteWriter (remote_notify P c v)) = (let r = (object (RemoteWriter v))\<lparr>drv := drv (services_notify [Hopper_service] P c v)\<rparr>
     in if c then srv_OnLinkEstablished Writer_service P r else srv_OnLinkLost Writer_service P r)"
  by (simp_all add: services_notify_def host_surface_service_def remote_surface_service_def lift_service_def
      set_host_reader_def host_reader_def set_remote_writer_def remote_writer_def Hopper_service_def case_prod_unfold Let_def)

lemma tracks_iff:
  "host_tracks c w \<longleftrightarrow> (SyncState (object (HostReader w)) = Disabled \<longleftrightarrow> \<not> c)"
  "remote_tracks c v \<longleftrightarrow> (SyncState (object (RemoteWriter v)) = Disabled \<longleftrightarrow> \<not> c)"
  by (simp_all add: host_tracks_def remote_tracks_def host_reader_def remote_writer_def)

lemma tracks_apps: "host_apps host_tracks host_notify" "remote_apps remote_tracks remote_notify"
proof -
  have "host_tracks c t = host_tracks c s" if "LoLaLinkHostService.more t = LoLaLinkHostService.more s" for c t s
    using host_reader_more [OF that] by (simp add: tracks_iff)
  moreover have "host_tracks c (host_notify P c s)" for P c s
    by (cases c) (simp_all only: tracks_iff(1) notify_surface(1) Let_def steady_serviceD(5,6) [OF Reader_steady] if_True if_False simp_thms)
  ultimately show "host_apps host_tracks host_notify" unfolding host_apps_def by blast
  have "remote_tracks c t = remote_tracks c s" if "LoLaLinkRemoteService.more t = LoLaLinkRemoteService.more s" for c t s
    using remote_writer_more [OF that] by (simp add: tracks_iff)
  moreover have "remote_tracks c (remote_notify P c s)" for P c s
    by (cases c) (simp_all only: tracks_iff(2) notify_surface(2) Let_def steady_serviceD(5,6) [OF Writer_steady] if_True if_False simp_thms)
  ultimately show "remote_apps remote_tracks remote_notify" unfolding remote_apps_def by blast
qed

interpretation host_app: link_apps_end host_tracks host_notify Host_session_hooks Host_state_hooks "Host_link_hooks host_notify"
  by (rule Host_apps_end [OF tracks_apps(1)])

interpretation remote_app: link_apps_end remote_tracks remote_notify Remote_session_hooks Remote_state_hooks "Remote_link_hooks remote_notify"
  by (rule Remote_apps_end [OF tracks_apps(2)])

lemma lifted_app_service:
  assumes step: "\<And>r w. SyncState r = Disabled \<longleftrightarrow> SyncState (get w) = Disabled \<Longrightarrow> follows I w \<Longrightarrow> follows I (put r w)"
    and S: "steady_service S"
  shows "app_service (follows I) (lift_service get put S)"
proof -
  note S = steady_serviceD [OF S]
  have "follows I (snd (srv_ReceivedPacket (lift_service get put S) P p w))"
    "follows I (snd (srv_ReceivedAckedPacket (lift_service get put S) P p w))"
    "follows I (snd (srv_ReceivedAck (lift_service get put S) P h i w))"
    "follows I (snd (srv_ProcessSent (lift_service get put S) P h w))" if "follows I w" for P p w h i
    using step [OF S(1) that] step [OF S(2) that] step [OF S(3) that] step [OF S(4) that]
    by (simp_all only: lift_service_def service.select_convs case_prod_unfold Let_def snd_conv)
  then show ?thesis unfolding app_service_def by blast
qed

lemma surface_app_services:
  "app_service (follows host_tracks) host_surface_service" "app_service (follows remote_tracks) remote_surface_service"
proof -
  have "follows host_tracks (set_host_reader r w)"
    if "SyncState r = Disabled \<longleftrightarrow> SyncState (host_reader w) = Disabled" and "follows host_tracks w" for r w
    using that by (simp add: follows_def host_tracks_def host_part.put_link) (simp add: host_reader_def set_host_reader_def)
  then show "app_service (follows host_tracks) host_surface_service"
    unfolding host_surface_service_def by (rule lifted_app_service [OF _ Reader_steady])
  have "follows remote_tracks (set_remote_writer r w)"
    if "SyncState r = Disabled \<longleftrightarrow> SyncState (remote_writer w) = Disabled" and "follows remote_tracks w" for r w
    using that by (simp add: follows_def remote_tracks_def remote_part.put_link) (simp add: remote_writer_def set_remote_writer_def)
  then show "app_service (follows remote_tracks) remote_surface_service"
    unfolding remote_surface_service_def by (rule lifted_app_service [OF _ Writer_steady])
qed

abbreviation example_host_table :: "platform \<Rightarrow> HostManager LoLaServicesManager \<Rightarrow> bool" where
  "example_host_table P0 M \<equiv> Manager_table M = [Hopper_service, Host_service host_notify P0, host_surface_service]"

abbreviation example_remote_table :: "platform \<Rightarrow> RemoteManager LoLaServicesManager \<Rightarrow> bool" where
  "example_remote_table P0 M \<equiv> Manager_table M = [Hopper_service, Remote_service remote_notify P0, remote_surface_service]"

lemma example_host_tracks:
  assumes "example_host_table P0 M" and "example_host_step M w w'" and "follows host_tracks w"
  shows "follows host_tracks w'"
  using assms(2)
proof (cases rule: example_host_step.cases)
  case node
  then show ?thesis
    using host_node_apps [OF tracks_apps(1) _ _ assms(3)] assms(1) surface_app_services(1) by simp
next
  case (surface P)
  then show ?thesis
    using assms(3) Reader_Callback_side [OF surface(2), of "host_reader w"]
    by (simp add: follows_def host_tracks_def host_part.put_link same_side_def) (simp add: host_reader_def set_host_reader_def)
qed

lemma example_remote_tracks:
  assumes "example_remote_table P0 M" and "example_remote_step M w w'" and "follows remote_tracks w"
  shows "follows remote_tracks w'"
  using assms(2)
proof (cases rule: example_remote_step.cases)
  case node
  then show ?thesis
    using remote_node_apps [OF tracks_apps(2) _ _ assms(3)] assms(1) surface_app_services(2) by simp
next
  case (surface P)
  then show ?thesis
    using assms(3) Writer_Callback_side [OF surface(2), of "remote_writer w"]
    by (simp add: follows_def remote_tracks_def remote_part.put_link same_side_def) (simp add: remote_writer_def set_remote_writer_def)
next
  case (control P x)
  have "GetLinkState w' = GetLinkState w" using remote_operate_frame(1) [of P x w] by (simp add: control link_view_def)
  then show ?thesis using assms(3) remote_operate_frame(3) [of P x w] by (simp add: follows_def remote_tracks_def control)
qed

end
