(* ===== verification/Link_Boot.thy ===== *)
theory Link_Boot
  imports Linking_Run
begin

text \<open>
  From power-up to the key exchange: what set-up leaves in the link service, what \<open>Start\<close> and the
  first two runs of its task make of it, and that the ends are then ready to establish a session.
\<close>

section \<open>What set-up leaves\<close>

definition prepared :: "u32 \<Rightarrow> 'a LoLaLinkService_scheme \<Rightarrow> bool" where
  "prepared i s \<longleftrightarrow> known_id i s \<and> InfoHasDriver (LinkInfo s) \<and> HopperSetupOk (TimedHopper s) \<and>
     length (Raw (Packet s)) = LOLA_LINK_SERVICE_PACKET_MAX_SIZE \<and> Encoder_ok (CryptoEncoder (drv s)) \<and>
     TokenHolder (CryptoEncoder (drv s)) = replicate TokenSize 0 \<and> KeysLastGenerated s = ILOLA_INVALID_MILLIS"

lemma prepared_same:
  assumes "prepared i s" and "LinkInfo t = LinkInfo s" and "TimedHopper t = TimedHopper s" and "Packet t = Packet s"
    and "CryptoEncoder (drv t) = CryptoEncoder (drv s)" and "KeysLastGenerated t = KeysLastGenerated s"
  shows "prepared i t"
  using assms by (simp add: prepared_def known_id_def)

lemma known_id_Reset: "known_id i (s\<lparr>LinkInfo := fst (LinkInfo_Reset j d)\<rparr>) = known_id i (s\<lparr>LinkInfo := j\<rparr>)"
  by (simp add: known_id_def LinkInfo_Reset_def)

lemma Clear_fields:
  "Encoder_ok e \<Longrightarrow> Encoder_ok (Encoder_Clear e)" "TokenHolder (Encoder_Clear e) = replicate TokenSize 0"
  by (simp_all add: Encoder_Clear_def Encoder_ok_def)

text \<open>The set-up of the link service itself, from its constructor.\<close>

definition constructed :: "'a LoLaLinkService_scheme \<Rightarrow> bool" where
  "constructed s \<longleftrightarrow> LocalMacGenerator (LinkInfo s) = MAC_new \<and> HopperSetupOk (TimedHopper s) \<and>
     length (Raw (Packet s)) = LOLA_LINK_SERVICE_PACKET_MAX_SIZE \<and> Encoder_ok (CryptoEncoder (drv s)) \<and>
     TokenHolder (CryptoEncoder (drv s)) = replicate TokenSize 0"

lemma constructed_known:
  assumes "constructed s"
  shows "\<forall>Q. local_id Q = local_id P \<longrightarrow> MAC_ok Q (snd (MAC_GetMACHash P (LocalMacGenerator (LinkInfo s))))"
proof -
  have "known_id (local_id P) s" using assms by (simp add: constructed_def known_id_def)
  from known_id_GetLocalId(2) [OF this refl] show ?thesis
    by (simp add: known_id_def LinkInfo_GetLocalId_def case_prod_unfold Let_def)
qed

lemmas boot_defs = Link_ClearSession_def Host_session_hooks_def Remote_session_hooks_def fresh_op_defs LinkInfo_Reset_def
  LinkInfo_SetDriver_def HostSyncer_Reset_def Syncer_SetRandom_def Driver_ResetLiveData_def Driver_SetLinkStatus_def
  Driver_ResetStatistics_def on_clock_def

lemma OnSetup_prepared:
  "constructed s \<Longrightarrow> prepared (local_id P) (snd (Link_OnSetup Host_session_hooks P s))"
  "constructed r \<Longrightarrow> prepared (local_id P) (snd (Link_OnSetup Remote_session_hooks P r))"
  using constructed_known [of s P] constructed_known [of r P]
  by (simp_all add: prepared_def Link_OnSetup_def known_id_def constructed_def LinkInfo_GetLocalId_def Clear_fields boot_defs)

section \<open>Start, and the first runs of the task\<close>

lemma ClearSession_prepared:
  "prepared i s \<Longrightarrow> prepared i (Host_ClearSession P s)" "prepared i r \<Longrightarrow> prepared i (Remote_ClearSession P r)"
  by (simp_all add: prepared_def known_id_def Clear_fields boot_defs)

lemma prepared_frames:
  "prepared i (Link_SetLinkingState x s) = prepared i s" "prepared i (Service_SetNextRunASAP s) = prepared i s"
  "prepared i (Link_ResetLastSentTimeStamp s) = prepared i s" "prepared i (Link_ResetStateStartTime P s) = prepared i s"
  "prepared i (on_info (LinkInfo_UpdateState st) s) = prepared i s"
  "prepared i (s\<lparr>ServiceEnabled := b\<rparr>) = prepared i s"
  by (simp_all add: prepared_def known_id_def link_op_defs LinkInfo_UpdateState_def)

lemma prepared_drv: "CryptoEncoder (q (drv s)) = CryptoEncoder (drv s) \<Longrightarrow> prepared i (on_drv q s) = prepared i s"
  by (simp add: prepared_def known_id_def on_drv_def)

lemmas state_change_defs = Link_UpdateLinkState_def Link_ChangeState_def Link_EnterState_def Host_state_hooks_def
  Host_OnLinkStateChanged_def Remote_state_hooks_def Remote_OnLinkStateChanged_def

lemma Start_prepared:
  assumes "GetLinkState s = LinkDisabled" and "\<not> ServiceEnabled s"
  shows "prepared i s \<Longrightarrow> prepared i (Lola_Start (Host_UpdateLinkState N) P s)"
    and "GetLinkState (Lola_Start (Host_UpdateLinkState N) P s) = LinkSetup"
  using assms
  by (simp_all add: Lola_Start_def Link_Enable_def Service_Enable_def state_change_defs prepared_frames ClearSession_prepared
      prepared_drv Let_def)

lemma Remote_Start_prepared:
  assumes "GetLinkState s = LinkDisabled" and "\<not> ServiceEnabled s"
  shows "prepared i s \<Longrightarrow> prepared i (Lola_Start (Remote_UpdateLinkState N) P s)"
    and "GetLinkState (Lola_Start (Remote_UpdateLinkState N) P s) = LinkSetup"
    and "SyncerHasClock (RemoteClockSyncer s) \<Longrightarrow> SyncerHasClock (RemoteClockSyncer (Lola_Start (Remote_UpdateLinkState N) P s))"
  using assms
  by (simp_all add: Lola_Start_def Link_Enable_def Service_Enable_def state_change_defs prepared_frames ClearSession_prepared
      prepared_drv Let_def)
    (simp add: boot_defs RemoteSyncer_Reset_def Syncer_ResetBase_def)

text \<open>The first run opens the link: the host has its session, the remote its first key pair.\<close>

lemma prepared_power:
  "prepared i (s\<lparr>PowerBalancer := b, drv := d\<rparr>) = prepared i s" if "CryptoEncoder d = CryptoEncoder (drv s)"
  using that by (simp add: prepared_def known_id_def)

lemma SetMaxPower_encoder: "CryptoEncoder (snd (Balancer_SetMaxPower P b d)) = CryptoEncoder d"
  by (simp add: Balancer_SetMaxPower_def)

lemma host_session_opens:
  assumes "prepared i s"
  shows "prepared i (Host_NewSession P s)" and "host_fresh (Host_NewSession P s)"
  using assms ClearSession_prepared(1) [of i s P]
  by (simp_all add: Host_NewSession_def prepared_def known_id_def LinkInfo_SetSessionId_def)
     (simp add: host_fresh_def boot_defs Meter_Reset_def Syncer_ResetBase_def)

lemma host_times:
  "LastSentMillis (Host_NewSession P s) = LastSentMillis s" "LinkStateStart (Host_NewSession P s) = LinkStateStart s"
  "LinkingState (Host_NewSession P s) = LinkingState s"
  "LinkStateStart (Host_ClearSession P s) = LinkStateStart s"
  by (simp_all add: Host_NewSession_def boot_defs)

lemma host_opens:
  assumes "prepared i h" and "GetLinkState h = LinkSetup" and t: "t = Host_OnService N P h"
  shows "prepared i t" and "host_fresh t" and "GetLinkState t = AwaitingLink" and "LinkingState t = 0"
    and "LastSentMillis t = ILOLA_INVALID_MILLIS" and "LinkStateStart t = millis_now P"
proof -
  let ?s = "Link_SetLinkingState 0 (Host_ClearSession P (Link_ResetLastSentTimeStamp (Link_ResetStateStartTime P h)))"
  define bd where "bd = Balancer_SetMaxPower P (PowerBalancer ?s) (drv ?s)"
  define u where "u = Service_SetNextRunASAP (on_drv (Channel_ResetChannel P) (?s\<lparr>PowerBalancer := fst bd, drv := snd bd\<rparr>))"
  have "t = Host_UpdateLinkState N P AwaitingLink h" using assms(2) by (simp add: t Host_OnService_def Link_OnService_def)
  also have "\<dots> = on_info (LinkInfo_UpdateState AwaitingLink) (Host_NewSession P u)"
    using assms(2) by (simp add: state_change_defs u_def bd_def case_prod_unfold Let_def)
  finally have e: "t = on_info (LinkInfo_UpdateState AwaitingLink) (Host_NewSession P u)" .
  have u: "prepared i u"
    using assms(1) by (simp add: u_def bd_def prepared_frames prepared_drv prepared_power ClearSession_prepared SetMaxPower_encoder)
  show "prepared i t" using host_session_opens(1) [OF u] by (simp add: e prepared_frames)
  show "host_fresh t" using host_session_opens(2) [OF u] by (simp add: e) (simp add: host_fresh_def on_info_def)
  show "GetLinkState t = AwaitingLink" by (simp add: e LinkInfo_UpdateState_def)
  show "LinkingState t = 0" "LastSentMillis t = ILOLA_INVALID_MILLIS" "LinkStateStart t = millis_now P"
    by (simp_all add: e host_times u_def link_op_defs)
qed

lemma remote_times:
  "LinkStateStart (Remote_ClearSession P s) = LinkStateStart s"
  by (simp add: boot_defs)

lemma remote_clears:
  assumes "prepared i s" and "SyncerHasClock (RemoteClockSyncer s)"
  shows "remote_fresh (Remote_ClearSession P s)" and "\<not> LinkInfo_HasSession (LinkInfo (Remote_ClearSession P s))"
  using assms by (simp_all add: remote_fresh_def prepared_def boot_defs RemoteSyncer_Reset_def Syncer_ResetBase_def Request_Reset_def
      LinkInfo_HasSession_def LinkInfo_HasSessionId_def)

lemma remote_opens:
  assumes "prepared i r" and "GetLinkState r = LinkSetup" and "SyncerHasClock (RemoteClockSyncer r)"
    and t: "t = Remote_OnService N P r"
  shows "prepared i t" and "remote_fresh t" and "GetLinkState t = AwaitingLink" and "LinkingState t = 0"
    and "\<not> LinkInfo_HasSession (LinkInfo t)" and "LinkStateStart t = millis_now P"
proof -
  let ?s = "Remote_ClearSession P (Link_ResetLastSentTimeStamp (Link_ResetStateStartTime P r))"
  let ?l = "Link_SetLinkingState 0 ?s"
  define bd where "bd = Balancer_SetMaxPower P (PowerBalancer ?l) (drv ?l)"
  define u where "u = Service_SetNextRunASAP (on_drv (Channel_ResetChannel P) (?l\<lparr>PowerBalancer := fst bd, drv := snd bd\<rparr>))"
  let ?k = "\<lambda>k. snd (KeyExchanger_GenerateNewKeyPair P k)"
  have "t = Remote_UpdateLinkState N P AwaitingLink r" using assms(2) by (simp add: t Remote_OnService_def Link_OnService_def)
  also have "\<dots> = on_info (LinkInfo_UpdateState AwaitingLink) (on_keys ?k u)"
    using assms(2) by (simp add: state_change_defs u_def bd_def case_prod_unfold Let_def)
  finally have e: "t = on_info (LinkInfo_UpdateState AwaitingLink) (on_keys ?k u)" .
  have "SyncerHasClock (RemoteClockSyncer (Link_ResetLastSentTimeStamp (Link_ResetStateStartTime P r)))"
    using assms(3) by (simp add: link_op_defs)
  note c = remote_clears [OF _ this, of i P]
  have u: "prepared i u"
    using assms(1) by (simp add: u_def bd_def prepared_frames prepared_drv prepared_power ClearSession_prepared SetMaxPower_encoder)
  then show "prepared i t" by (simp add: e prepared_frames) (simp add: prepared_def known_id_def on_keys_def)
  have "remote_fresh ?s" "\<not> LinkInfo_HasSession (LinkInfo ?s)" using c assms(1) by (simp_all add: prepared_frames)
  then show "remote_fresh t" "\<not> LinkInfo_HasSession (LinkInfo t)"
    by (simp_all add: e u_def remote_fresh_def link_op_defs LinkInfo_UpdateState_def LinkInfo_HasSession_def
        LinkInfo_HasSessionId_def LinkInfo_HasPartnerId_def)
  show "GetLinkState t = AwaitingLink" by (simp add: e LinkInfo_UpdateState_def)
  show "LinkingState t = 0" "LinkStateStart t = millis_now P"
    by (simp_all add: e remote_times u_def link_op_defs)
qed

text \<open>The second run makes the keys; from then on the ends wait for each other.\<close>

definition boot_times :: "u32 \<Rightarrow> platform \<Rightarrow> platform \<Rightarrow> (nat \<Rightarrow> platform) \<Rightarrow> bool" where
  "boot_times bound P1 P2 ph \<longleftrightarrow> millis_now P2 \<noteq> ILOLA_INVALID_MILLIS \<and>
     (\<forall>n. elapsed_since (millis_now (ph n)) (millis_now P1) \<le> bound \<and>
        millis_now (ph n) - millis_now P2 \<le> LOLA_LINK_SERVICE_UNLINK_KEY_PAIR_LIFETIME) \<and>
     (\<forall>m n. m \<le> n \<longrightarrow> millis_now (ph n) - millis_now (ph m) \<le> LOLA_LINK_SERVICE_UNLINK_MAX_BEFORE_PKC_CANCEL)"

lemma keys_made:
  assumes "prepared i s" and "GetLinkState s = AwaitingLink" and "ecc_make_key P = (True, pub, priv)"
  shows "Link_OnService U LH P s = Service_SetNextRunASAP (s\<lparr>KeyExchanger := (KeyExchanger s)\<lparr>UncompressedKey := pub,
    PrivateKey := priv, LocalPublicKeyCompressed := ecc_compress P pub, PairingStage := StageLocalKey\<rparr>,
    KeysLastGenerated := millis_now P\<rparr>)"
  using assms by (simp add: Link_OnService_def prepared_def KeyExchanger_GenerateNewKeyPair_def on_keys_def)

lemma keys_ready:
  assumes "prepared i s" and "GetLinkState s = AwaitingLink" and "ecc_make_key P2 = (True, pub, priv)" and "board B i P2"
    and "boot_times bound P1 P2 ph" and "LinkStateStart s = millis_now P1"
    and t: "t = Link_OnService U LH P2 s"
  shows "pairing B i pub priv t" and "PairingStage (KeyExchanger t) = StageLocalKey" and "in_time bound ph t"
    and "LinkingState t = LinkingState s" and "LinkInfo t = LinkInfo s" and "LastSentMillis t = LastSentMillis s"
  using assms(1-6)
  by (simp_all add: t keys_made pairing_def in_time_def awake_def boot_times_def)
     (simp_all add: prepared_def known_id_def link_op_defs board_def)

lemma host_boots:
  assumes "prepared i h" and "GetLinkState h = LinkSetup" and "ecc_make_key P2 = (True, pub, priv)" and "board B i P2"
    and "boot_times LOLA_LINK_SERVICE_UNLINK_HOST_MAX_BEFORE_SLEEP P1 P2 ph" and "random_ok (ph 0)" and "\<forall>n. board B i (ph n)"
  shows "host_ready B ph i pub priv (Host_OnService N P2 (Host_OnService N P1 h)) \<and>
    host_fresh (Host_OnService N P2 (Host_OnService N P1 h))"
proof -
  note O = host_opens [OF assms(1,2) refl, of N P1]
  note K = keys_ready [OF O(1,3) assms(3-5) O(6) refl, of "Host_UpdateLinkState N" "Host_link_hooks N", folded Host_OnService_def]
  have "LOLA_LINK_SERVICE_UNLINK_BROADCAST_PERIOD < Link_GetElapsedMillisSinceLastSent (ph 0) (Host_OnService N P2 (Host_OnService N P1 h))"
    using K(6) O(5) by (simp add: Link_GetElapsedMillisSinceLastSent_def elapsed_since_def lola_consts)
  moreover have "host_fresh (Host_OnService N P2 (Host_OnService N P1 h))"
    using O(2) unfolding keys_made [OF O(1,3) assms(3), of "Host_UpdateLinkState N" "Host_link_hooks N", folded Host_OnService_def] by (simp add: host_fresh_def link_op_defs)
  ultimately show ?thesis using K O(4) assms(6,7) by (simp add: host_ready_def lola_consts)
qed

lemma remote_boots:
  assumes "prepared i r" and "GetLinkState r = LinkSetup" and "SyncerHasClock (RemoteClockSyncer r)"
    and "ecc_make_key P2 = (True, pub, priv)" and "board B i P2"
    and "boot_times LOLA_LINK_SERVICE_UNLINK_REMOTE_MAX_BEFORE_SLEEP P1 P2 ph" and "\<forall>n. board B i (ph n)"
  shows "remote_ready B ph i pub priv (Remote_OnService N P2 (Remote_OnService N P1 r)) \<and>
    remote_fresh (Remote_OnService N P2 (Remote_OnService N P1 r))"
proof -
  note O = remote_opens [OF assms(1-3) refl, of N P1]
  note K = keys_ready [OF O(1,3) assms(4-6) O(6) refl, of "Remote_UpdateLinkState N" "Remote_link_hooks N", folded Remote_OnService_def]
  have "remote_fresh (Remote_OnService N P2 (Remote_OnService N P1 r))"
    using O(2) unfolding keys_made [OF O(1,3) assms(4), of "Remote_UpdateLinkState N" "Remote_link_hooks N", folded Remote_OnService_def] by (simp add: remote_fresh_def link_op_defs)
  then show ?thesis using K O(4,5) assms(7) by (simp add: remote_ready_def lola_consts)
qed

end
