(* ===== verification/Example_Setup.thy ===== *)
theory Example_Setup
  imports Example_Node Link_Boot
begin

text \<open>
  How the two sketches start (\<open>ExampleHost.ino\<close>, \<open>ExampleRemote.ino\<close>): the members of a manager are
  constructed, \<open>setup\<close> registers the services and starts the radio, sets the four controls at the
  remote, and starts the link.
\<close>

section \<open>The constructors\<close>

definition HostManager_construct :: "bool \<Rightarrow> HostManager \<Rightarrow> HostManager" where
  "HostManager_construct hasDriver w =
     (let w1 = (Host_construct hasDriver w)\<lparr>HostController := Controller_new\<rparr>
      in set_host_reader (Sync_construct hasDriver (Surface_new CONTROLLER_SURFACE_BLOCK_COUNT)
           CONTROLLER_SURFACE_BASE_HEADER (host_reader w1)) w1)"

definition RemoteManager_construct :: "bool \<Rightarrow> RemoteManager \<Rightarrow> RemoteManager" where
  "RemoteManager_construct hasDriver w =
     (let w1 = (Remote_construct hasDriver w)\<lparr>RemoteController := Controller_new\<rparr>
      in set_remote_writer (Writer_construct hasDriver (Surface_new CONTROLLER_SURFACE_BLOCK_COUNT)
           CONTROLLER_SURFACE_BASE_HEADER (remote_writer w1)) w1)"

section \<open>Set-up\<close>

definition HostManager_OnSetupServices ::
  "HostManager LoLaServicesManager \<Rightarrow> HostManager \<Rightarrow> (bool \<times> HostManager LoLaServicesManager \<times> HostManager) option" where
  "HostManager_OnSetupServices = Manager_Add (Some host_surface_service)"

definition RemoteManager_OnSetupServices ::
  "RemoteManager LoLaServicesManager \<Rightarrow> RemoteManager \<Rightarrow> (bool \<times> RemoteManager LoLaServicesManager \<times> RemoteManager) option" where
  "RemoteManager_OnSetupServices = Manager_Add (Some remote_surface_service)"

text \<open>
  A sketch whose manager cannot be set up calls \<open>Halt\<close>, which never returns; \<open>Undefined\<close> stands for
  what \<open>Manager_Add\<close> and the packet map leave undefined. The pointer to the surface is that of a
  member and never null; the two slots attached in between only print.
\<close>

datatype 'w sketch = Halted | Undefined | Running "'w LoLaServicesManager" 'w

definition ExampleHost_setup :: "platform \<Rightarrow> platform \<Rightarrow> HostManager \<Rightarrow> HostManager sketch" where
  "ExampleHost_setup P Q w0 =
     (case Lola_Setup P (Host_service host_notify P) HostManager_OnSetupServices Manager_new w0 of
        None \<Rightarrow> Undefined
      | Some (False, M, w) \<Rightarrow> Halted
      | Some (True, M, w) \<Rightarrow> Running M (Lola_Start (Host_UpdateLinkState host_notify) Q w))"

definition sketch_controls :: "control list" where
  "sketch_controls = [SetDirection 30000, SetDirectionTrim 120, SetPropulsion 31999, SetPropulsionTrim (- 99)]"

definition ExampleRemote_setup :: "platform \<Rightarrow> platform \<Rightarrow> RemoteManager \<Rightarrow> RemoteManager sketch" where
  "ExampleRemote_setup P Q w0 =
     (case Lola_Setup P (Remote_service remote_notify P) RemoteManager_OnSetupServices Manager_new w0 of
        None \<Rightarrow> Undefined
      | Some (False, M, w) \<Rightarrow> Halted
      | Some (True, M, w) \<Rightarrow> Running M
          (Lola_Start (Remote_UpdateLinkState remote_notify) Q (fold (remote_operate Q) sketch_controls w)))"

section \<open>The three services are registered\<close>

text \<open>A surface service registers its two packets.\<close>

definition surface_definitions :: "u8 \<Rightarrow> PacketDefinition list" where
  "surface_definitions base = [SyncMetaPacketDefinition base, SyncDataPacketDefinition base]"

definition surface_set_up :: "LoLaPacketMap \<Rightarrow> 'a AbstractSync_scheme \<Rightarrow> 'a AbstractSync_scheme" where
  "surface_set_up m s = s\<lparr>drv := (drv s)\<lparr>PacketMap := m\<rparr>, ServiceState := Active\<rparr>"

lemma surface_init:
  assumes "PacketMap_ok (PacketMap (drv s))" and "SyncMetaDefinition s = SyncMetaPacketDefinition CONTROLLER_SURFACE_BASE_HEADER"
    and "DataPacketDefinition s = SyncDataPacketDefinition CONTROLLER_SURFACE_BASE_HEADER" and "ServiceState s \<noteq> Failed"
    and map: "\<forall>h. h \<notin> Header ` set link_definitions \<longrightarrow> PacketMap_GetDefinition h (PacketMap (drv s)) = PacketMap_GetDefinition h PacketMap_new"
  obtains m where "Service_Init Sync_OnAddPacketMap Sync_OnSetup s = Some (True, surface_set_up m s)"
    and "\<forall>d \<in> set (surface_definitions CONTROLLER_SURFACE_BASE_HEADER). PacketMap_GetDefinition (Header d) m = Some d"
    and "\<forall>h. h \<notin> Header ` set (surface_definitions CONTROLLER_SURFACE_BASE_HEADER) \<longrightarrow>
      PacketMap_GetDefinition h m = PacketMap_GetDefinition h (PacketMap (drv s))"
proof -
  let ?ds = "surface_definitions CONTROLLER_SURFACE_BASE_HEADER"
  have "\<forall>d \<in> set ?ds. header_fits d \<and> Header d \<notin> Header ` set link_definitions \<and> PacketMap_GetDefinition (Header d) PacketMap_new = None"
    "distinct (map Header ?ds)"
    by (simp_all add: surface_definitions_def SyncMetaPacketDefinition_def SyncDataPacketDefinition_def link_packet_defs lola_consts
        header_fits_def PacketMap_new_def PacketMap_ClearMapping_def PacketMap_AddMapping_def PacketMap_GetDefinition_def AckPacketDefinition_def)
  then obtain m where m: "register_all PacketMap_AddMapping ?ds (PacketMap (drv s)) = Some (True, m)"
    "\<forall>d \<in> set ?ds. PacketMap_GetDefinition (Header d) m = Some d"
    "\<forall>h. h \<notin> Header ` set ?ds \<longrightarrow> PacketMap_GetDefinition h m = PacketMap_GetDefinition h (PacketMap (drv s))"
    using ptable.register_all_fresh [of "PacketMap (drv s)" ?ds] map assms(1) by auto
  have "Service_AddMappings [SyncMetaDefinition s, DataPacketDefinition s] s = Some (True, s\<lparr>drv := (drv s)\<lparr>PacketMap := m\<rparr>\<rparr>)"
    using m(1) assms(2,3) by (simp add: Service_AddMappings_def surface_definitions_def on_drv_def)
  then have "Service_Init Sync_OnAddPacketMap Sync_OnSetup s = Some (True, surface_set_up m s)"
    using assms(4) by (simp add: Service_Init_def Sync_OnAddPacketMap_def Service_Setup_def Sync_OnSetup_def surface_set_up_def)
  then show ?thesis using m(2,3) by (rule that)
qed

text \<open>The link service: as its constructor leaves it, and set up.\<close>

definition fresh_link :: "'a LoLaLinkService_scheme \<Rightarrow> bool" where
  "fresh_link s \<longleftrightarrow> PacketMap (drv s) = PacketMap_new \<and> length (Raw (Packet s)) = LOLA_LINK_SERVICE_PACKET_MAX_SIZE \<and>
     \<not> HopperFailed (TimedHopper s) \<and> ServiceState s \<noteq> Failed \<and> GetLinkState s = LinkDisabled \<and> LinkingState s = 0 \<and>
     \<not> ServiceEnabled s \<and> LocalMacGenerator (LinkInfo s) = MAC_new \<and> Encoder_ok (CryptoEncoder (drv s)) \<and>
     TokenHolder (CryptoEncoder (drv s)) = replicate TokenSize 0 \<and> Driver_inv (drv s)"

definition node_up :: "u32 \<Rightarrow> 'a LoLaLinkService_scheme \<Rightarrow> bool" where
  "node_up i s \<longleftrightarrow> prepared i s \<and> link_view s = (LinkDisabled, 0, AllClear, False, True) \<and> Driver_inv (drv s) \<and>
     \<not> ServiceEnabled s \<and> Service_IsSetupOk s"

lemma Host_construct_fresh: "drv s = Driver_new \<Longrightarrow> fresh_link (Host_construct True s)"
  by (simp add: fresh_link_def Host_construct_def Link_construct_def Send_construct_def Service_construct_def
       Service_InitializeState_def on_drv_def Driver_SetDuplexSlot_def Driver_inv_def action_queue_def
       Driver_new_def AsyncQueue_new_def LoLaPacket_new_def LoLaPacket_ClearDefinition_def Hopper_new_def LinkInfo_new_def
       receive_states_def Encoder_new_def Encoder_ok_def)

lemma Remote_construct_fresh: "drv s = Driver_new \<Longrightarrow> fresh_link (Remote_construct True s)"
  by (simp add: fresh_link_def Remote_construct_def Link_construct_def Send_construct_def Service_construct_def
       Service_InitializeState_def on_drv_def Driver_SetDuplexSlot_def Driver_inv_def action_queue_def
       Driver_new_def AsyncQueue_new_def LoLaPacket_new_def LoLaPacket_ClearDefinition_def Hopper_new_def LinkInfo_new_def
       receive_states_def Encoder_new_def Encoder_ok_def)

lemma OnSetup_enabled:
  "ServiceEnabled (snd (Link_OnSetup Host_session_hooks P s)) = ServiceEnabled s"
  "ServiceEnabled (snd (Link_OnSetup Remote_session_hooks P r)) = ServiceEnabled r"
  by (simp_all add: Link_OnSetup_def boot_defs)

lemma OnSetup_host_more:
  "LoLaLinkHostService.more (snd (Link_OnSetup Host_session_hooks P s)) = LoLaLinkHostService.more s"
  by (simp add: Link_OnSetup_def boot_defs)

lemma OnSetup_remote_more:
  "LoLaLinkRemoteService.more (snd (Link_OnSetup Remote_session_hooks P s)) = LoLaLinkRemoteService.more s"
  "SyncerHasClock (RemoteClockSyncer (snd (Link_OnSetup Remote_session_hooks P s)))"
  by (simp_all add: Link_OnSetup_def boot_defs RemoteSyncer_Reset_def Syncer_ResetBase_def Syncer_Setup_def)

lemma link_up:
  assumes s: "fresh_link s" and view: "\<And>s. set_up_link s (snd (onSetup s))"
    and prep: "\<And>s. constructed s \<Longrightarrow> prepared i (snd (onSetup s))" and en: "\<And>s. ServiceEnabled (snd (onSetup s)) = ServiceEnabled s"
  shows "node_up i (link_set_up onSetup m s)" and "PacketMap (drv (link_set_up onSetup m s)) = m"
proof -
  define l where "l = s\<lparr>TimedHopper := (TimedHopper s)\<lparr>HopperSetupOk := True\<rparr>, drv := (drv s)\<lparr>PacketMap := m\<rparr>, ServiceState := Loading\<rparr>"
  define t where "t = snd (onSetup l)"
  have l: "constructed l" "\<not> ServiceEnabled l" "GetLinkState l = LinkDisabled" "LinkingState l = 0" "Driver_inv (drv l)"
      "PacketMap (drv l) = m"
    using s by (simp_all add: fresh_link_def l_def constructed_def)
  have t: "prepared i t" "\<not> ServiceEnabled t" using prep [OF l(1)] en l(2) by (simp_all add: t_def)
  have v: "link_view t = (LinkDisabled, 0, AllClear, False, True)" "PacketMap (drv t) = m" "Driver_inv (drv t)"
    using view [of l, folded t_def, unfolded set_up_link_def] l(3-6) by simp_all
  have e: "link_set_up onSetup m s = t\<lparr>ServiceState := Active\<rparr>" by (simp add: link_set_up_def t_def l_def)
  have "prepared i (t\<lparr>ServiceState := Active\<rparr>)" by (rule prepared_same [OF t(1)]) simp_all
  then show "node_up i (link_set_up onSetup m s)"
    using t(2) v by (simp add: e node_up_def Service_IsSetupOk_def link_view_def)
  show "PacketMap (drv (link_set_up onSetup m s)) = m" using v(2) by (simp add: e)
qed

text \<open>The driver's own set-up.\<close>

lemma Driver_Setup_up:
  assumes "node_up i s" and "PacketMap_GetDefinition PACKET_DEFINITION_ACK_HEADER (PacketMap (drv s)) \<noteq> None"
  obtains d where "on_drv_result (Driver_Setup P) s = (radio_part P = 17507, s\<lparr>drv := d\<rparr>)" and "node_up i (s\<lparr>drv := d\<rparr>)"
    and "PacketMap d = PacketMap (drv s)"
proof (rule that)
  let ?d = "snd (Driver_Setup P (drv s))"
  show "on_drv_result (Driver_Setup P) s = (radio_part P = 17507, s\<lparr>drv := ?d\<rparr>)"
    using assms(2) by (simp add: on_drv_result_def case_prod_unfold Let_def Driver_Setup_frame)
  have "prepared i (s\<lparr>drv := ?d\<rparr>)"
    by (rule prepared_same [of i s]) (use assms(1) in \<open>simp_all add: node_up_def Driver_Setup_frame\<close>)
  then show "node_up i (s\<lparr>drv := ?d\<rparr>)"
    using assms(1) by (simp add: node_up_def link_view_def Driver_Setup_frame Service_IsSetupOk_def)
qed (simp add: Driver_Setup_frame)

section \<open>The managers are set up\<close>

definition surface_off :: "'a AbstractSync_scheme \<Rightarrow> bool" where
  "surface_off s \<longleftrightarrow> (\<forall>crc. sync_wf crc CONTROLLER_SURFACE_BASE_HEADER s) \<and> SyncState s = Disabled \<and> SendStatus s = Done \<and>
     TrackedSurface s = Surface_new CONTROLLER_SURFACE_BLOCK_COUNT"

lemma Sync_constructed:
  assumes "s = Sync_construct True (Surface_new CONTROLLER_SURFACE_BLOCK_COUNT) CONTROLLER_SURFACE_BASE_HEADER s0"
  shows "surface_off s" and "SyncMetaDefinition s = SyncMetaPacketDefinition CONTROLLER_SURFACE_BASE_HEADER"
    and "DataPacketDefinition s = SyncDataPacketDefinition CONTROLLER_SURFACE_BASE_HEADER" and "ServiceState s = Loading"
    and "drv s = drv s0"
proof -
  have "Surface_ok (Surface_new CONTROLLER_SURFACE_BLOCK_COUNT)" by (rule Surface_new_ok) (simp add: lola_consts)
  moreover have "hash_current crc (Surface_new n)" for crc n by (simp add: hash_current_def Surface_new_def)
  ultimately show "surface_off s" "SyncMetaDefinition s = SyncMetaPacketDefinition CONTROLLER_SURFACE_BASE_HEADER"
    "DataPacketDefinition s = SyncDataPacketDefinition CONTROLLER_SURFACE_BASE_HEADER" "ServiceState s = Loading" "drv s = drv s0"
    by (simp_all add: assms surface_off_def sync_wf_def Sync_construct_def Send_construct_def Service_construct_def
        Service_InitializeState_def LoLaPacket_new_def LoLaPacket_ClearDefinition_def lola_consts)
qed

lemma HostManager_constructed:
  assumes "drv w = Driver_new"
  shows "fresh_link (HostManager_construct True w)"
    and "object (HostReader (HostManager_construct True w)) = Sync_construct True (Surface_new CONTROLLER_SURFACE_BLOCK_COUNT)
      CONTROLLER_SURFACE_BASE_HEADER (host_reader ((Host_construct True w)\<lparr>HostController := Controller_new\<rparr>))"
proof -
  define w1 where "w1 = (Host_construct True w)\<lparr>HostController := Controller_new\<rparr>"
  define r where "r = Sync_construct True (Surface_new CONTROLLER_SURFACE_BLOCK_COUNT) CONTROLLER_SURFACE_BASE_HEADER (host_reader w1)"
  have d: "drv r = drv w1" using Sync_constructed(5) [OF r_def] by (simp add: host_part.get_drv)
  have e: "HostManager_construct True w = set_host_reader r w1"
    by (simp add: HostManager_construct_def Let_def w1_def r_def)
  have "fresh_link w1" using Host_construct_fresh [OF assms] by (simp add: w1_def fresh_link_def)
  then show "fresh_link (HostManager_construct True w)" using d by (simp add: e set_host_reader_def fresh_link_def)
  show "object (HostReader (HostManager_construct True w)) = Sync_construct True (Surface_new CONTROLLER_SURFACE_BLOCK_COUNT)
      CONTROLLER_SURFACE_BASE_HEADER (host_reader ((Host_construct True w)\<lparr>HostController := Controller_new\<rparr>))"
    by (simp add: e set_host_reader_def r_def w1_def)
qed

lemma RemoteManager_constructed:
  assumes "drv w = Driver_new"
  shows "fresh_link (RemoteManager_construct True w)" and "RemoteController (RemoteManager_construct True w) = Controller_new"
    and "object (RemoteWriter (RemoteManager_construct True w)) = Writer_construct True (Surface_new CONTROLLER_SURFACE_BLOCK_COUNT)
      CONTROLLER_SURFACE_BASE_HEADER (remote_writer ((Remote_construct True w)\<lparr>RemoteController := Controller_new\<rparr>))"
proof -
  define w1 where "w1 = (Remote_construct True w)\<lparr>RemoteController := Controller_new\<rparr>"
  define r where "r = Writer_construct True (Surface_new CONTROLLER_SURFACE_BLOCK_COUNT) CONTROLLER_SURFACE_BASE_HEADER (remote_writer w1)"
  have d: "drv r = drv w1" using Sync_constructed(5) [OF r_def [unfolded Writer_construct_def]] by (simp add: remote_part.get_drv)
  have e: "RemoteManager_construct True w = set_remote_writer r w1"
    by (simp add: RemoteManager_construct_def Let_def w1_def r_def)
  have "fresh_link w1" using Remote_construct_fresh [OF assms] by (simp add: w1_def fresh_link_def)
  then show "fresh_link (RemoteManager_construct True w)" using d by (simp add: e set_remote_writer_def fresh_link_def)
  show "RemoteController (RemoteManager_construct True w) = Controller_new" by (simp add: e set_remote_writer_def w1_def)
  show "object (RemoteWriter (RemoteManager_construct True w)) = Writer_construct True (Surface_new CONTROLLER_SURFACE_BLOCK_COUNT)
      CONTROLLER_SURFACE_BASE_HEADER (remote_writer ((Remote_construct True w)\<lparr>RemoteController := Controller_new\<rparr>))"
    by (simp add: e set_remote_writer_def r_def w1_def)
qed

text \<open>The packets of both services are in the map.\<close>

definition example_registered :: "'a LoLaLinkService_scheme \<Rightarrow> bool" where
  "example_registered w \<longleftrightarrow> (\<forall>d \<in> set (link_definitions @ surface_definitions CONTROLLER_SURFACE_BASE_HEADER).
     PacketMap_GetDefinition (Header d) (PacketMap (drv w)) = Some d)"

lemma definitions_apart:
  "set (map Header link_definitions) \<inter> set (map Header (surface_definitions CONTROLLER_SURFACE_BASE_HEADER)) = {}"
  "PACKET_DEFINITION_ACK_HEADER \<notin> Header ` set (surface_definitions CONTROLLER_SURFACE_BASE_HEADER)"
  by (simp_all add: surface_definitions_def SyncMetaPacketDefinition_def SyncDataPacketDefinition_def link_packet_defs lola_consts)

lemma map_registered:
  assumes "\<forall>d \<in> set link_definitions. PacketMap_GetDefinition (Header d) m = Some d"
    and "\<forall>h. h \<notin> Header ` set link_definitions \<longrightarrow> PacketMap_GetDefinition h m = PacketMap_GetDefinition h PacketMap_new"
    and "\<forall>d \<in> set (surface_definitions CONTROLLER_SURFACE_BASE_HEADER). PacketMap_GetDefinition (Header d) m' = Some d"
    and "\<forall>h. h \<notin> Header ` set (surface_definitions CONTROLLER_SURFACE_BASE_HEADER) \<longrightarrow>
      PacketMap_GetDefinition h m' = PacketMap_GetDefinition h m"
  shows "\<forall>d \<in> set (link_definitions @ surface_definitions CONTROLLER_SURFACE_BASE_HEADER). PacketMap_GetDefinition (Header d) m' = Some d"
    and "PacketMap_GetDefinition PACKET_DEFINITION_ACK_HEADER m' \<noteq> None"
proof -
  have "Header d \<notin> Header ` set (surface_definitions CONTROLLER_SURFACE_BASE_HEADER)" if "d \<in> set link_definitions" for d
    using definitions_apart(1) that by (simp only: set_map disjoint_iff) blast
  then show "\<forall>d \<in> set (link_definitions @ surface_definitions CONTROLLER_SURFACE_BASE_HEADER). PacketMap_GetDefinition (Header d) m' = Some d"
    using assms(1,3,4) unfolding set_append by (metis Un_iff)
  show "PacketMap_GetDefinition PACKET_DEFINITION_ACK_HEADER m' \<noteq> None"
    using assms(2,4) definitions_apart(2) PacketMap_new_ack by simp
qed

lemma surface_off_drv: "surface_off (r\<lparr>drv := d\<rparr>) = surface_off r"
  by (simp add: surface_off_def sync_wf_def)

lemma surface_off_set_up: "surface_off (surface_set_up m (r\<lparr>drv := d\<rparr>)) = surface_off r"
  by (simp add: surface_off_def surface_set_up_def sync_wf_def)

text \<open>A node whose one application service is a surface service that is a member of it.\<close>

definition keeps_node :: "('s \<Rightarrow> 'a LoLaLinkService_scheme \<Rightarrow> 'a LoLaLinkService_scheme) \<Rightarrow> bool" where
  "keeps_node put \<longleftrightarrow> (\<forall>s w. LinkInfo (put s w) = LinkInfo w \<and> TimedHopper (put s w) = TimedHopper w \<and>
     Packet (put s w) = Packet w \<and> KeysLastGenerated (put s w) = KeysLastGenerated w \<and> LinkingState (put s w) = LinkingState w \<and>
     ServiceEnabled (put s w) = ServiceEnabled w \<and> ServiceState (put s w) = ServiceState w)"

lemma node_up_put:
  assumes "keeps_node put" and "drv (put s w) = (drv w)\<lparr>PacketMap := m\<rparr>" and "node_up i w"
  shows "node_up i (put s w)"
proof -
  have f: "LinkInfo (put s w) = LinkInfo w" "TimedHopper (put s w) = TimedHopper w" "Packet (put s w) = Packet w"
    "KeysLastGenerated (put s w) = KeysLastGenerated w" "LinkingState (put s w) = LinkingState w"
    "ServiceEnabled (put s w) = ServiceEnabled w" "ServiceState (put s w) = ServiceState w"
    using assms(1) by (simp_all add: keeps_node_def)
  have "prepared i (put s w)"
    by (rule prepared_same [of i w]) (use assms(2,3) f in \<open>simp_all add: node_up_def\<close>)
  then show ?thesis using assms(2,3) f by (simp add: node_up_def link_view_def Service_IsSetupOk_def)
qed

lemma surface_node_set_up:
  fixes get :: "'a LoLaLinkService_scheme \<Rightarrow> 's AbstractSync_scheme"
  assumes part: "part_of_node get put" and keep: "keeps_node put"
    and link: "srv_Init link = Service_Init Link_OnAddPacketMap onSetup" "\<And>s. fst (onSetup s)" "\<And>s. set_up_link s (snd (onSetup s))"
      "\<And>s. constructed s \<Longrightarrow> prepared i (snd (onSetup s))" "\<And>s. ServiceEnabled (snd (onSetup s)) = ServiceEnabled s"
    and S: "srv_Init S = Service_Init Sync_OnAddPacketMap Sync_OnSetup"
    and w: "fresh_link w" and member: "\<And>m. SyncMetaDefinition (get (link_set_up onSetup m w)) = SyncMetaPacketDefinition CONTROLLER_SURFACE_BASE_HEADER"
      "\<And>m. DataPacketDefinition (get (link_set_up onSetup m w)) = SyncDataPacketDefinition CONTROLLER_SURFACE_BASE_HEADER"
      "\<And>m. ServiceState (get (link_set_up onSetup m w)) \<noteq> Failed"
  obtains M m m' d where "Lola_Setup P link (Manager_Add (Some (lift_service get put S))) Manager_new w =
      Some (radio_part P = 17507, M, (put (surface_set_up m' (get (link_set_up onSetup m w))) (link_set_up onSetup m w))\<lparr>drv := d\<rparr>)"
    and "Manager_table M = [Hopper_service, link, lift_service get put S]"
    and "example_registered ((put (surface_set_up m' (get (link_set_up onSetup m w))) (link_set_up onSetup m w))\<lparr>drv := d\<rparr>)"
    and "node_up i ((put (surface_set_up m' (get (link_set_up onSetup m w))) (link_set_up onSetup m w))\<lparr>drv := d\<rparr>)"
proof -
  have f: "PacketMap (drv w) = PacketMap_new" "length (Raw (Packet w)) = LOLA_LINK_SERVICE_PACKET_MAX_SIZE"
    "\<not> HopperFailed (TimedHopper w)" "ServiceState w \<noteq> Failed"
    using w unfolding fresh_link_def by blast+
  let ?add = "Manager_Add (Some (lift_service get put S))"
  obtain m M where ok: "PacketMap_ok m" and M: "Lola_SetupServices link ?add Manager_new w = ?add M (link_set_up onSetup m w)"
      "Manager_ok M" "Manager_table M = [Hopper_service, link]" "unat (ServicesCount M) = 2"
    and m: "\<forall>d \<in> set link_definitions. PacketMap_GetDefinition (Header d) m = Some d"
      "\<forall>h. h \<notin> Header ` set link_definitions \<longrightarrow> PacketMap_GetDefinition h m = PacketMap_GetDefinition h PacketMap_new"
    by (rule Lola_SetupServices_eq [OF link(1,2) f])
  define u where "u = link_set_up onSetup m w"
  note U = link_up [OF w link(3-5), of m, folded u_def]
  have h: "PacketMap (drv (get u)) = m" using U(2) by (simp add: part_of_node.get_drv [OF part])
  obtain m' where m': "Service_Init Sync_OnAddPacketMap Sync_OnSetup (get u) = Some (True, surface_set_up m' (get u))"
    "\<forall>d \<in> set (surface_definitions CONTROLLER_SURFACE_BASE_HEADER). PacketMap_GetDefinition (Header d) m' = Some d"
    "\<forall>h. h \<notin> Header ` set (surface_definitions CONTROLLER_SURFACE_BASE_HEADER) \<longrightarrow>
      PacketMap_GetDefinition h m' = PacketMap_GetDefinition h (PacketMap (drv (get u)))"
    by (rule surface_init [OF _ member [of m, folded u_def]]; (unfold h)?) (rule ok m(2))+
  note reg = map_registered [OF m m'(2,3) [unfolded h]]
  define v where "v = put (surface_set_up m' (get u)) u"
  have "srv_Init (lift_service get put S) u = Some (True, v)" using m'(1) by (simp add: lift_service_def S v_def)
  from Manager_Add_new [OF _ this M(2)] obtain M' where
    M': "?add M u = Some (True, M', v)" "Manager_table M' = [Hopper_service, link, lift_service get put S]"
    using M(3,4) by (auto simp: lola_consts)
  have v: "drv v = (drv u)\<lparr>PacketMap := m'\<rparr>"
    by (simp add: v_def part_of_node.put_drv [OF part] surface_set_up_def part_of_node.get_drv [OF part])
  have up: "node_up i v" using node_up_put [OF keep v [unfolded v_def] U(1)] by (simp add: v_def)
  have ack: "PacketMap_GetDefinition PACKET_DEFINITION_ACK_HEADER (PacketMap (drv v)) \<noteq> None" using reg(2) v by simp
  obtain d where d: "on_drv_result (Driver_Setup P) v = (radio_part P = 17507, v\<lparr>drv := d\<rparr>)"
    "node_up i (v\<lparr>drv := d\<rparr>)" "PacketMap d = PacketMap (drv v)"
    by (rule Driver_Setup_up [OF up ack])
  show ?thesis
  proof (rule that [of M' d m' m, folded u_def, folded v_def, OF _ M'(2) _ d(2)])
    show "Lola_Setup P link ?add Manager_new w = Some (radio_part P = 17507, M', v\<lparr>drv := d\<rparr>)"
      using M'(1) d(1) by (simp add: Lola_Setup_def M(1) u_def [symmetric])
    show "example_registered (v\<lparr>drv := d\<rparr>)" using reg(1) d(3) v by (simp add: example_registered_def)
  qed
qed

lemma parts_keep: "keeps_node set_host_reader" "keeps_node set_remote_writer"
  by (simp_all add: keeps_node_def set_host_reader_def set_remote_writer_def)

lemma HostManager_Setup:
  assumes "drv w = Driver_new"
  obtains M t where "Lola_Setup P (Host_service N P) HostManager_OnSetupServices Manager_new (HostManager_construct True w) =
      Some (radio_part P = 17507, M, t)"
    and "Manager_table M = [Hopper_service, Host_service N P, host_surface_service]" and "example_registered t"
    and "node_up (local_id P) t" and "surface_off (object (HostReader t))" and "ServiceState (object (HostReader t)) = Active"
proof -
  note F = HostManager_constructed [OF assms]
  let ?u = "\<lambda>m. link_set_up (Link_OnSetup Host_session_hooks P) m (HostManager_construct True w)"
  have "HostReader (?u m) = HostReader (HostManager_construct True w)" for m
    by (rule host_reader_more) (simp add: link_set_up_def OnSetup_host_more)
  then have r: "object (HostReader (?u m)) = Sync_construct True (Surface_new CONTROLLER_SURFACE_BLOCK_COUNT)
      CONTROLLER_SURFACE_BASE_HEADER (host_reader ((Host_construct True w)\<lparr>HostController := Controller_new\<rparr>))" for m
    by (simp add: F(2))
  note R = Sync_constructed [OF r]
  have member: "SyncMetaDefinition (host_reader (?u m)) = SyncMetaPacketDefinition CONTROLLER_SURFACE_BASE_HEADER"
    "DataPacketDefinition (host_reader (?u m)) = SyncDataPacketDefinition CONTROLLER_SURFACE_BASE_HEADER"
    "ServiceState (host_reader (?u m)) \<noteq> Failed" for m
    using R(2-4) [of m] by (simp_all add: host_reader_def)
  have i: "srv_Init (Host_service N P) = Service_Init Link_OnAddPacketMap (Link_OnSetup Host_session_hooks P)"
    "srv_Init Reader_service = Service_Init Sync_OnAddPacketMap Sync_OnSetup"
    by (simp_all add: Host_service_def Reader_service_def)
  let ?t = "\<lambda>m m' d. (set_host_reader (surface_set_up m' (host_reader (?u m))) (?u m))\<lparr>drv := d\<rparr>"
  have off: "surface_off (object (HostReader (?t m m' d)))" "ServiceState (object (HostReader (?t m m' d))) = Active" for m m' d
    using R(1) [of m] by (simp_all add: set_host_reader_def host_reader_def surface_off_set_up) (simp add: surface_set_up_def)
  show ?thesis
    by (rule surface_node_set_up [where P = P, OF host_part.part_of_node_axioms parts_keep(1) i(1) Host_OnSetup OnSetup_prepared(1) OnSetup_enabled(1)
          i(2) F(1) member, folded host_surface_service_def HostManager_OnSetupServices_def], assumption)
      (rule that [OF _ _ _ _ off])
qed

lemma RemoteManager_Setup:
  assumes "drv w = Driver_new"
  obtains M t where "Lola_Setup P (Remote_service N P) RemoteManager_OnSetupServices Manager_new (RemoteManager_construct True w) =
      Some (radio_part P = 17507, M, t)"
    and "Manager_table M = [Hopper_service, Remote_service N P, remote_surface_service]" and "example_registered t"
    and "node_up (local_id P) t" and "surface_off (object (RemoteWriter t))" and "RemoteController t = Controller_new"
    and "SyncerHasClock (RemoteClockSyncer t)" and "ServiceState (object (RemoteWriter t)) = Active"
proof -
  note F = RemoteManager_constructed [OF assms]
  let ?u = "\<lambda>m. link_set_up (Link_OnSetup Remote_session_hooks P) m (RemoteManager_construct True w)"
  have more: "LoLaLinkRemoteService.more (?u m) = LoLaLinkRemoteService.more (RemoteManager_construct True w)" for m
    by (simp add: link_set_up_def OnSetup_remote_more)
  have e: "RemoteWriter (?u m) = RemoteWriter (RemoteManager_construct True w)" for m by (rule remote_writer_more [OF more])
  have c: "RemoteController (?u m) = Controller_new" for m
    using more [of m] F(2) by (cases "?u m"; cases "RemoteManager_construct True w"; simp)
  have k: "SyncerHasClock (RemoteClockSyncer (?u m))" for m by (simp add: link_set_up_def OnSetup_remote_more)
  have r: "object (RemoteWriter (?u m)) = Writer_construct True (Surface_new CONTROLLER_SURFACE_BLOCK_COUNT)
      CONTROLLER_SURFACE_BASE_HEADER (remote_writer ((Remote_construct True w)\<lparr>RemoteController := Controller_new\<rparr>))" for m
    by (simp add: e F(3))
  note R = Sync_constructed [OF r [unfolded Writer_construct_def]]
  have member: "SyncMetaDefinition (remote_writer (?u m)) = SyncMetaPacketDefinition CONTROLLER_SURFACE_BASE_HEADER"
    "DataPacketDefinition (remote_writer (?u m)) = SyncDataPacketDefinition CONTROLLER_SURFACE_BASE_HEADER"
    "ServiceState (remote_writer (?u m)) \<noteq> Failed" for m
    using R(2-4) [of m] by (simp_all add: remote_writer_def)
  have i: "srv_Init (Remote_service N P) = Service_Init Link_OnAddPacketMap (Link_OnSetup Remote_session_hooks P)"
    "srv_Init Writer_service = Service_Init Sync_OnAddPacketMap Sync_OnSetup"
    by (simp_all add: Remote_service_def Writer_service_def)
  let ?t = "\<lambda>m m' d. (set_remote_writer (surface_set_up m' (remote_writer (?u m))) (?u m))\<lparr>drv := d\<rparr>"
  have off: "surface_off (object (RemoteWriter (?t m m' d)))" "RemoteController (?t m m' d) = Controller_new"
    "SyncerHasClock (RemoteClockSyncer (?t m m' d))" "ServiceState (object (RemoteWriter (?t m m' d))) = Active" for m m' d
    using R(1) [of m] c [of m] k [of m] by (simp_all add: set_remote_writer_def remote_writer_def surface_off_set_up)
      (simp add: surface_set_up_def)
  show ?thesis
    by (rule surface_node_set_up [where P = P, OF remote_part.part_of_node_axioms parts_keep(2) i(1) Remote_OnSetup OnSetup_prepared(2) OnSetup_enabled(2)
          i(2) F(1) member, folded remote_surface_service_def RemoteManager_OnSetupServices_def], assumption)
      (rule that [OF _ _ _ _ off])
qed

section \<open>The sketches run\<close>

lemma remote_operate_pair:
  "(RemoteController (remote_operate P x w), remote_writer (remote_operate P x w)) = operate P (RemoteController w, remote_writer w) x"
proof -
  obtain c s where o: "operate P (RemoteController w, remote_writer w) x = (c, s)" by fastforce
  have "remote_writer ((set_remote_writer s w)\<lparr>RemoteController := c\<rparr>) = s" by (simp add: remote_writer_def set_remote_writer_def)
  then show ?thesis by (simp add: remote_operate_def o)
qed

lemma remote_operates_pair:
  "(RemoteController (fold (remote_operate P) xs w), remote_writer (fold (remote_operate P) xs w)) =
    foldl (operate P) (RemoteController w, remote_writer w) xs"
  by (induction xs arbitrary: w) (simp_all add: remote_operate_pair [symmetric])

lemma remote_operate_up:
  "node_up i w \<Longrightarrow> node_up i (remote_operate P x w)" "SyncerHasClock (RemoteClockSyncer (remote_operate P x w)) = SyncerHasClock (RemoteClockSyncer w)"
proof -
  have f: "LinkInfo (remote_operate P x w) = LinkInfo w" "TimedHopper (remote_operate P x w) = TimedHopper w"
    "Packet (remote_operate P x w) = Packet w" "KeysLastGenerated (remote_operate P x w) = KeysLastGenerated w"
    "ServiceEnabled (remote_operate P x w) = ServiceEnabled w" "ServiceState (remote_operate P x w) = ServiceState w"
    "RemoteClockSyncer (remote_operate P x w) = RemoteClockSyncer w"
    by (simp_all add: remote_operate_def case_prod_unfold Let_def set_remote_writer_def)
  note g = f remote_operate_frame(1,2) [of P x w]
  have "prepared i w \<Longrightarrow> prepared i (remote_operate P x w)" by (rule prepared_same [of i w]) (simp_all add: g)
  then show "node_up i w \<Longrightarrow> node_up i (remote_operate P x w)" by (simp add: node_up_def g Service_IsSetupOk_def)
  show "SyncerHasClock (RemoteClockSyncer (remote_operate P x w)) = SyncerHasClock (RemoteClockSyncer w)" by (simp add: g)
qed

lemma remote_operates_up:
  assumes "node_up i w"
  shows "node_up i (fold (remote_operate P) xs w)" and "drv (fold (remote_operate P) xs w) = drv w"
    and "SyncerHasClock (RemoteClockSyncer (fold (remote_operate P) xs w)) = SyncerHasClock (RemoteClockSyncer w)"
  using assms by (induction xs arbitrary: w) (simp_all add: remote_operate_up remote_operate_frame(2))

text \<open>The controls are stored while the surface service is still disabled.\<close>

abbreviation no_controls :: controls where
  "no_controls \<equiv> \<lparr> Direction = 0, Propulsion = 0, DirectionTrim = 0, PropulsionTrim = 0 \<rparr>"

abbreviation sketch_values :: controls where
  "sketch_values \<equiv> \<lparr> Direction = 30000, Propulsion = 31999, DirectionTrim = 120, PropulsionTrim = - 99 \<rparr>"

lemma new_controls: "read_controls (Surface_new CONTROLLER_SURFACE_BLOCK_COUNT) = no_controls"
proof -
  have i: "Surface_index 0 0 2 = 0" "Surface_index 0 1 2 = 2" "Surface_index 1 0 2 = 4" "Surface_index 1 1 2 = 6"
    by (simp_all add: Surface_index_def lola_consts)
  show ?thesis
    by (simp add: read_controls_def Controller_GetDirection_def Controller_GetPropulsion_def
        Controller_GetDirectionTrim_def Controller_GetPropulsionTrim_def Surface_Get16_def i CONTROLLER_SURFACE_BLOCK_COUNT_def sample_new)
qed

lemma off_control_end:
  assumes "surface_off w"
  shows "control_end crc CONTROLLER_SURFACE_BASE_HEADER Controller_new w (Surface_new CONTROLLER_SURFACE_BLOCK_COUNT)"
proof -
  have "cache_ok Controller_new (Surface_new CONTROLLER_SURFACE_BLOCK_COUNT)"
    using new_controls by (simp add: cache_ok_def Controller_new_def read_controls_def)
  moreover have "BlockCount (Surface_new CONTROLLER_SURFACE_BLOCK_COUNT) = CONTROLLER_SURFACE_BLOCK_COUNT" by (simp add: Surface_new_def)
  moreover have "in_step u u" for u by (simp add: in_step_def)
  ultimately show ?thesis using assms by (simp add: surface_off_def control_end_def)
qed

lemma sketch_controls_set:
  assumes "surface_off (remote_writer w)" and "RemoteController w = Controller_new" and "tracker_ok (tracker P)"
  defines "w' \<equiv> fold (remote_operate P) sketch_controls w"
  shows "control_end crc CONTROLLER_SURFACE_BASE_HEADER (RemoteController w') (remote_writer w') (Surface_new CONTROLLER_SURFACE_BLOCK_COUNT)"
    and "surface_only (remote_writer w) (remote_writer w')" and "read_controls (TrackedSurface (remote_writer w')) = sketch_values"
proof -
  have fits: "list_all control_fits sketch_controls" by (simp add: sketch_controls_def)
  note S = operate_steps [OF off_control_end [OF assms(1)] assms(3) fits
      remote_operates_pair [of P sketch_controls w, folded w'_def, unfolded assms(2), symmetric]]
  show "control_end crc CONTROLLER_SURFACE_BASE_HEADER (RemoteController w') (remote_writer w') (Surface_new CONTROLLER_SURFACE_BLOCK_COUNT)"
    "surface_only (remote_writer w) (remote_writer w')" using S by blast+
  have "TrackedSurface (remote_writer w) = Surface_new CONTROLLER_SURFACE_BLOCK_COUNT" using assms(1) by (simp add: surface_off_def)
  then show "read_controls (TrackedSurface (remote_writer w')) = sketch_values"
    using S by (simp add: new_controls) (simp add: sketch_controls_def)
qed

lemma surface_only_service:
  assumes "surface_only w w'"
  shows "ServiceState w' = ServiceState w"
proof -
  define u where "u = TrackedSurface w'"
  have "w' = w\<lparr>TrackedSurface := u\<rparr>" using assms by (simp only: surface_only_def u_def)
  then show ?thesis by simp
qed

lemma map_frames:
  "PacketMap (Driver_OnStart P d) = PacketMap d" "PacketMap (Driver_Enable P d) = PacketMap d"
  "PacketMap (Channel_ResetChannel P d) = PacketMap d"
  "PacketMap (drv (Host_ClearSession P s)) = PacketMap (drv s)" "PacketMap (drv (Remote_ClearSession P r)) = PacketMap (drv r)"
  by (simp_all add: Driver_Enable_def Driver_OnStart_def Driver_RestoreToReceiving_def Driver_SetToReceiving_def
      Channel_ResetChannel_def Driver_SetChannel_def Driver_OnChannelUpdated_def Driver_AddAsyncAction_def)
     (simp_all add: Link_ClearSession_def Host_session_hooks_def Remote_session_hooks_def case_prod_unfold Let_def)

lemma start_frames:
  assumes "GetLinkState s = LinkDisabled" and "\<not> ServiceEnabled s"
  shows "LoLaLinkHostService.more (Lola_Start (Host_UpdateLinkState N) P s) = LoLaLinkHostService.more s"
    and "PacketMap (drv (Lola_Start (Host_UpdateLinkState N) P s)) = PacketMap (drv s)"
proof -
  have d: "LoLaLinkHostService.more (on_drv q t) = LoLaLinkHostService.more t"
    "LoLaLinkHostService.more (Link_ResetLastSentTimeStamp t) = LoLaLinkHostService.more t"
    "LoLaLinkHostService.more (Link_ResetStateStartTime P t) = LoLaLinkHostService.more t"
    for q and t :: "'a LoLaLinkHostService_scheme" by (simp_all add: link_op_defs)
  show "LoLaLinkHostService.more (Lola_Start (Host_UpdateLinkState N) P s) = LoLaLinkHostService.more s"
    "PacketMap (drv (Lola_Start (Host_UpdateLinkState N) P s)) = PacketMap (drv s)"
    using assms by (simp_all add: Lola_Start_def Link_Enable_def Service_Enable_def state_change_defs Let_def d map_frames)
qed

lemma remote_start_frames:
  assumes "GetLinkState s = LinkDisabled" and "\<not> ServiceEnabled s"
  shows "LoLaLinkRemoteService.more (Lola_Start (Remote_UpdateLinkState N) P s) = LoLaLinkRemoteService.more s"
    and "PacketMap (drv (Lola_Start (Remote_UpdateLinkState N) P s)) = PacketMap (drv s)"
proof -
  have d: "LoLaLinkRemoteService.more (on_drv q t) = LoLaLinkRemoteService.more t"
    "LoLaLinkRemoteService.more (Link_ResetLastSentTimeStamp t) = LoLaLinkRemoteService.more t"
    "LoLaLinkRemoteService.more (Link_ResetStateStartTime P t) = LoLaLinkRemoteService.more t"
    for q and t :: "'a LoLaLinkRemoteService_scheme" by (simp_all add: link_op_defs)
  show "LoLaLinkRemoteService.more (Lola_Start (Remote_UpdateLinkState N) P s) = LoLaLinkRemoteService.more s"
    "PacketMap (drv (Lola_Start (Remote_UpdateLinkState N) P s)) = PacketMap (drv s)"
    using assms by (simp_all add: Lola_Start_def Link_Enable_def Service_Enable_def state_change_defs Let_def d map_frames)
qed

lemma node_upD:
  assumes "node_up i s"
  shows "prepared i s" "GetLinkState s = LinkDisabled" "\<not> ServiceEnabled s"
  using assms by (simp_all add: node_up_def link_view_def)

lemma ExampleHost_runs:
  assumes "drv w = Driver_new"
  obtains M t where "ExampleHost_setup P Q (HostManager_construct True w) = (if radio_part P = 17507 then Running M t else Halted)"
    and "example_host_table P M" and "example_registered t" and "prepared (local_id P) t" and "GetLinkState t = LinkSetup"
    and "surface_off (host_reader t)" and "ServiceState (host_reader t) = Active"
proof -
  obtain M t where S: "Lola_Setup P (Host_service host_notify P) HostManager_OnSetupServices Manager_new (HostManager_construct True w) =
      Some (radio_part P = 17507, M, t)"
    "example_host_table P M" "example_registered t" "node_up (local_id P) t" "surface_off (object (HostReader t))" "ServiceState (object (HostReader t)) = Active"
    by (rule HostManager_Setup [OF assms])
  note n = node_upD [OF S(4)]
  let ?t = "Lola_Start (Host_UpdateLinkState host_notify) Q t"
  have "HostReader ?t = HostReader t" by (rule host_reader_more [OF start_frames(1) [OF n(2,3)]])
  then have "surface_off (host_reader ?t)" "ServiceState (host_reader ?t) = Active"
    using S(5,6) by (simp_all add: host_reader_def surface_off_drv)
  moreover have "example_registered ?t" using S(3) start_frames(2) [OF n(2,3)] by (simp add: example_registered_def)
  ultimately show ?thesis
    using Start_prepared [OF n(2,3)] n(1) S(1,2) by (intro that [of M ?t]) (simp_all add: ExampleHost_setup_def)
qed

lemma ExampleRemote_runs:
  assumes "drv w = Driver_new" and "tracker_ok (tracker Q)"
  obtains M t where "ExampleRemote_setup P Q (RemoteManager_construct True w) = (if radio_part P = 17507 then Running M t else Halted)"
    and "example_remote_table P M" and "example_registered t" and "prepared (local_id P) t" and "GetLinkState t = LinkSetup"
    and "SyncerHasClock (RemoteClockSyncer t)" and "SyncState (remote_writer t) = Disabled" and "SendStatus (remote_writer t) = Done"
    and "control_end crc CONTROLLER_SURFACE_BASE_HEADER (RemoteController t) (remote_writer t) (Surface_new CONTROLLER_SURFACE_BLOCK_COUNT)"
    and "read_controls (TrackedSurface (remote_writer t)) = sketch_values" and "ServiceState (remote_writer t) = Active"
proof -
  obtain M t where S: "Lola_Setup P (Remote_service remote_notify P) RemoteManager_OnSetupServices Manager_new (RemoteManager_construct True w) =
      Some (radio_part P = 17507, M, t)"
    "example_remote_table P M" "example_registered t" "node_up (local_id P) t" "surface_off (object (RemoteWriter t))"
    "RemoteController t = Controller_new" "SyncerHasClock (RemoteClockSyncer t)" "ServiceState (object (RemoteWriter t)) = Active"
    by (rule RemoteManager_Setup [OF assms(1)])
  define u where "u = fold (remote_operate Q) sketch_controls t"
  let ?t = "Lola_Start (Remote_UpdateLinkState remote_notify) Q u"
  note U = remote_operates_up [OF S(4), of Q sketch_controls, folded u_def]
  note n = node_upD [OF U(1)]
  have off: "surface_off (remote_writer t)" using S(5) by (simp add: remote_writer_def surface_off_drv)
  note C = sketch_controls_set [OF off S(6) assms(2), folded u_def]
  note more = remote_start_frames(1) [OF n(2,3), of remote_notify Q]
  have w: "RemoteWriter ?t = RemoteWriter u" by (rule remote_writer_more [OF more])
  have c: "RemoteController ?t = RemoteController u" using more by (cases ?t; cases u; simp)
  have f: "SyncState (remote_writer ?t) = SyncState (remote_writer u)" "SendStatus (remote_writer ?t) = SendStatus (remote_writer u)"
    "TrackedSurface (remote_writer ?t) = TrackedSurface (remote_writer u)" "Packet (remote_writer ?t) = Packet (remote_writer u)"
    "SyncMetaDefinition (remote_writer ?t) = SyncMetaDefinition (remote_writer u)"
    "DataPacketDefinition (remote_writer ?t) = DataPacketDefinition (remote_writer u)"
    by (simp_all add: remote_writer_def w)
  show ?thesis
  proof (rule that [of M ?t])
    show "ExampleRemote_setup P Q (RemoteManager_construct True w) = (if radio_part P = 17507 then Running M ?t else Halted)"
      by (simp add: ExampleRemote_setup_def S(1) u_def)
    show "example_registered ?t" using S(3) U(2) remote_start_frames(2) [OF n(2,3)] by (simp add: example_registered_def)
    show "prepared (local_id P) ?t" "GetLinkState ?t = LinkSetup" "SyncerHasClock (RemoteClockSyncer ?t)"
      using Remote_Start_prepared [OF n(2,3)] n(1) U(3) S(7) by simp_all
    show "SyncState (remote_writer ?t) = Disabled" "SendStatus (remote_writer ?t) = Done"
      using off surface_only_fields [OF C(2)] by (simp_all add: f surface_off_def)
    show "control_end crc CONTROLLER_SURFACE_BASE_HEADER (RemoteController ?t) (remote_writer ?t) (Surface_new CONTROLLER_SURFACE_BLOCK_COUNT)"
      using C(1) [of crc] by (simp add: control_end_def sync_wf_def f c)
    show "read_controls (TrackedSurface (remote_writer ?t)) = sketch_values" using C(3) by (simp add: f)
    have "ServiceState (remote_writer u) = Active"
      using surface_only_service [OF C(2)] S(8) by (simp add: remote_writer_def)
    then show "ServiceState (remote_writer ?t) = Active" by (simp add: remote_writer_def w)
  qed (rule S(2))
qed

text \<open>C12. The sketches start: \<open>setup\<close> of either sketch halts exactly when the radio does not answer with its
  part number. Otherwise hopper, link service and surface service are registered in that order
  with all their packets, the link is set up and started, and the surface service is still disabled: the
  host's controls are all 0, the remote's hold the four values the sketch sets.\<close>
theorem examples_set_up:
  assumes "drv w = Driver_new" and "drv v = Driver_new" and "tracker_ok (tracker Q)"
  shows "(\<exists>M t. ExampleHost_setup P Q (HostManager_construct True w) = (if radio_part P = 17507 then Running M t else Halted) \<and>
      example_host_table P M \<and> example_registered t \<and> GetLinkState t = LinkSetup \<and>
      SyncState (host_reader t) = Disabled \<and> read_controls (TrackedSurface (host_reader t)) = no_controls) \<and>
    (\<exists>M t. ExampleRemote_setup P Q (RemoteManager_construct True v) = (if radio_part P = 17507 then Running M t else Halted) \<and>
      example_remote_table P M \<and> example_registered t \<and> GetLinkState t = LinkSetup \<and>
      SyncState (remote_writer t) = Disabled \<and> read_controls (TrackedSurface (remote_writer t)) = sketch_values)"
proof -
  obtain M t where H: "ExampleHost_setup P Q (HostManager_construct True w) = (if radio_part P = 17507 then Running M t else Halted)"
    "example_host_table P M" "example_registered t" "prepared (local_id P) t" "GetLinkState t = LinkSetup" "surface_off (host_reader t)"
    "ServiceState (host_reader t) = Active"
    by (rule ExampleHost_runs [OF assms(1)])
  have "\<exists>M t. ExampleHost_setup P Q (HostManager_construct True w) = (if radio_part P = 17507 then Running M t else Halted) \<and>
      example_host_table P M \<and> example_registered t \<and> GetLinkState t = LinkSetup \<and>
      SyncState (host_reader t) = Disabled \<and> read_controls (TrackedSurface (host_reader t)) = no_controls"
    using H new_controls by (intro exI [of _ M] exI [of _ t]) (simp add: surface_off_def)
  moreover have "\<exists>M t. ExampleRemote_setup P Q (RemoteManager_construct True v) = (if radio_part P = 17507 then Running M t else Halted) \<and>
      example_remote_table P M \<and> example_registered t \<and> GetLinkState t = LinkSetup \<and>
      SyncState (remote_writer t) = Disabled \<and> read_controls (TrackedSurface (remote_writer t)) = sketch_values"
    by (rule ExampleRemote_runs [OF assms(2,3), of P]) blast
  ultimately show ?thesis by blast
qed

definition blank_host_manager :: HostManager where
  "blank_host_manager = LoLaLinkHostService.extend blank_host
     (HostManager.fields Controller_new (Member sample_reader))"

definition blank_remote_manager :: RemoteManager where
  "blank_remote_manager = LoLaLinkRemoteService.extend blank_remote
     (RemoteManager.fields Controller_new (Member sample_writer))"

lemma extend_drv: "drv (LoLaLinkHostService.extend h x) = drv h" "drv (LoLaLinkRemoteService.extend r y) = drv r"
  by (simp_all add: LoLaLinkHostService.defs LoLaLinkRemoteService.defs)

lemma blank_managers: "drv blank_host_manager = Driver_new" "drv blank_remote_manager = Driver_new"
  by (simp_all add: blank_host_manager_def blank_remote_manager_def extend_drv)

theorem examples_set_up_witness:
  "(\<exists>M t. ExampleHost_setup sample_platform sample_platform (HostManager_construct True blank_host_manager) = Running M t) \<and>
   (\<exists>M t. ExampleRemote_setup sample_platform sample_platform (RemoteManager_construct True blank_remote_manager) = Running M t \<and>
      Controller_GetDirection (TrackedSurface (remote_writer t)) = 30000)"
  using examples_set_up [OF blank_managers tracker_ok_sample, of sample_platform]
  by (auto simp: read_controls_def)

text \<open>C11. The surface follows the link: in every run of a node of the examples, from \<open>setup\<close> on, whatever
  order its tasks, its interrupts, the frames of the air and the application's calls come in, the
  surface service is disabled exactly while its node is not linked.\<close>
theorem surface_follows_link:
  assumes "drv w = Driver_new" and "drv v = Driver_new" and "tracker_ok (tracker Q)"
    and "ExampleHost_setup P Q (HostManager_construct True w) = Running M h" and "(example_host_step M)\<^sup>*\<^sup>* h h'"
    and "ExampleRemote_setup P Q (RemoteManager_construct True v) = Running L r" and "(example_remote_step L)\<^sup>*\<^sup>* r r'"
  shows "(SyncState (host_reader h') = Disabled \<longleftrightarrow> GetLinkState h' \<noteq> Linked) \<and>
    (SyncState (remote_writer r') = Disabled \<longleftrightarrow> GetLinkState r' \<noteq> Linked)"
proof -
  obtain M1 t where H: "ExampleHost_setup P Q (HostManager_construct True w) = (if radio_part P = 17507 then Running M1 t else Halted)"
    "example_host_table P M1" "example_registered t" "prepared (local_id P) t" "GetLinkState t = LinkSetup" "surface_off (host_reader t)"
    "ServiceState (host_reader t) = Active"
    by (rule ExampleHost_runs [OF assms(1)])
  then have h: "M1 = M" "t = h" using assms(4) by (simp_all split: if_splits)
  have "follows host_tracks h" using H(5,6) by (simp add: h follows_def host_tracks_def surface_off_def)
  with assms(5) have "follows host_tracks h'"
    by (induction rule: rtranclp_induct) (use example_host_tracks [OF H(2) [unfolded h]] in blast)+
  moreover have "follows remote_tracks r'"
  proof (rule ExampleRemote_runs [OF assms(2,3), of P])
    fix M2 t
    assume R: "ExampleRemote_setup P Q (RemoteManager_construct True v) = (if radio_part P = 17507 then Running M2 t else Halted)"
      "example_remote_table P M2" "GetLinkState t = LinkSetup" "SyncState (remote_writer t) = Disabled"
    then have r: "M2 = L" "t = r" using assms(6) by (simp_all split: if_splits)
    have "follows remote_tracks r" using R(3,4) by (simp add: r follows_def remote_tracks_def)
    with assms(7) show "follows remote_tracks r'"
      by (induction rule: rtranclp_induct) (use example_remote_tracks [OF R(2) [unfolded r]] in blast)+
  qed
  ultimately show ?thesis by (simp add: follows_def host_tracks_def remote_tracks_def)
qed

lemma sketches_run:
  "\<exists>M h. ExampleHost_setup sample_platform Q (HostManager_construct True blank_host_manager) = Running M h"
  "tracker_ok (tracker Q) \<Longrightarrow> \<exists>L r. ExampleRemote_setup sample_platform Q (RemoteManager_construct True blank_remote_manager) = Running L r"
proof -
  show "\<exists>M h. ExampleHost_setup sample_platform Q (HostManager_construct True blank_host_manager) = Running M h"
    by (rule ExampleHost_runs [OF blank_managers(1), of sample_platform Q]) simp
  assume "tracker_ok (tracker Q)"
  then show "\<exists>L r. ExampleRemote_setup sample_platform Q (RemoteManager_construct True blank_remote_manager) = Running L r"
    by (rule ExampleRemote_runs [OF blank_managers(2), of Q sample_platform]) simp
qed

theorem surface_follows_link_witness:
  "\<exists>M h h'. ExampleHost_setup sample_platform sample_platform (HostManager_construct True blank_host_manager) = Running M h \<and>
     example_host_step M h h' \<and> (SyncState (host_reader h') = Disabled \<longleftrightarrow> GetLinkState h' \<noteq> Linked)"
proof -
  obtain M h where H: "ExampleHost_setup sample_platform sample_platform (HostManager_construct True blank_host_manager) = Running M h"
    using sketches_run(1) by blast
  obtain L r where R: "ExampleRemote_setup sample_platform sample_platform (RemoteManager_construct True blank_remote_manager) = Running L r"
    using sketches_run(2) [OF tracker_ok_sample] by blast
  have s: "example_host_step M h (set_host_reader (Reader_Callback sample_platform (host_reader h)) h)"
    by (rule example_host_step.surface) (rule actions_ok_sample)
  then have run: "(example_host_step M)\<^sup>*\<^sup>* h (set_host_reader (Reader_Callback sample_platform (host_reader h)) h)" by blast
  show ?thesis
    using surface_follows_link [OF blank_managers tracker_ok_sample H run R rtranclp.rtrancl_refl] H s by blast
qed

end
