(* ===== verification/Session_Frames.thy ===== *)
theory Session_Frames
  imports Link_Apps Linking_Run
begin

text \<open>
  What the establishment of a session leaves of the services beside the link: a predicate that
  follows the link is kept by the key exchange and by linking, and the turn that enters \<open>Linked\<close> is the
  one that tells the services.
\<close>

section \<open>The turns of the host\<close>

lemma host_turns:
  assumes N: "host_apps I N" and h: "follows I h"
  shows "follows I (Host_OnService N P h)" and "follows I (Host_sends N P Q R h)" and "follows I (Host_hears N P p h)"
    and "follows I (Host_OnAckReceived P header i h)" and "follows I (stamped t h)" and "follows I (snd (Link_ProcessPacket (Host_link_hooks N) P p h))"
proof -
  note same = host_appsD(2) [OF N]
  note E = Host_apps_end [OF N]
  show s: "follows I (Host_OnService N P h)"
    unfolding Host_OnService_def by (rule link_apps_end.OnService_apps [OF E h])
  show p: "follows I (snd (Link_ProcessPacket (Host_link_hooks N) P p h))" by (rule link_apps_end.ProcessPacket_apps [OF E h])
  have pre: "follows I (Host_OnPreSend P t) = follows I t" "follows I (Host_OnAckReceived P header i t) = follows I t"
    "follows I (Link_OnSendOk P header d t) = follows I t" "follows I (stamped d t) = follows I t" for P header i d t
    by (rule same; simp add: Host_OnPreSend_def Host_OnAckReceived_def Host_OnPingAckReceived_def stamped_def on_drv_def
        Host_OnLinkAckReceived_def Link_OnSendOk_def case_prod_unfold Let_def)+
  show "follows I (Host_sends N P Q R h)" using s by (simp add: Host_sends_def Let_def pre)
  show "follows I (Host_hears N P p h)" using p by (simp add: Host_hears_def)
  show "follows I (Host_OnAckReceived P header i h)" "follows I (stamped t h)" using h by (simp_all add: pre)
qed

lemma remote_turns:
  assumes N: "remote_apps I N" and r: "follows I r"
  shows "follows I (Remote_OnService N P r)" and "follows I (Remote_sends N P Q R r)" and "follows I (Remote_hears N P p r)"
    and "follows I (snd (Link_ProcessPacket (Remote_link_hooks N) P p r))"
    and "follows I (snd (Link_ProcessAckedPacket (Remote_link_hooks N) P p r))"
proof -
  note same = remote_appsD(2) [OF N]
  note E = Remote_apps_end [OF N]
  show s: "follows I (Remote_OnService N P r)"
    unfolding Remote_OnService_def by (rule link_apps_end.OnService_apps [OF E r])
  show p: "follows I (snd (Link_ProcessPacket (Remote_link_hooks N) P p r))" by (rule link_apps_end.ProcessPacket_apps [OF E r])
  show "follows I (snd (Link_ProcessAckedPacket (Remote_link_hooks N) P p r))" by (rule link_apps_end.ProcessAckedPacket_apps [OF E r])
  have pre: "follows I (Remote_OnPreSend P t) = follows I t" "follows I (Link_OnSendOk P header d t) = follows I t" for P header d t
    by (rule same, rule remote_more_eq; simp add: Remote_OnPreSend_def Link_OnSendOk_def Let_def)+
  show "follows I (Remote_sends N P Q R r)" using s by (simp add: Remote_sends_def Let_def pre)
  show "follows I (Remote_hears N P p r)" using p by (simp add: Remote_hears_def)
qed

section \<open>The whole exchange\<close>

locale session_apps =
  fixes I :: "bool \<Rightarrow> 'a LoLaLinkHostService_scheme \<Rightarrow> bool" and J :: "bool \<Rightarrow> 'b LoLaLinkRemoteService_scheme \<Rightarrow> bool"
    and N :: "platform \<Rightarrow> bool \<Rightarrow> 'a LoLaLinkHostService_scheme \<Rightarrow> 'a LoLaLinkHostService_scheme"
    and N' :: "platform \<Rightarrow> bool \<Rightarrow> 'b LoLaLinkRemoteService_scheme \<Rightarrow> 'b LoLaLinkRemoteService_scheme"
  assumes host: "host_apps I N" and remote: "remote_apps J N'"
begin

lemmas turns = host_turns [OF host] remote_turns [OF remote]

lemma handshake_apps:
  assumes "follows I h" and "follows J r" and "handshake N N' ph pr h r = (acked, h', r')"
  shows "follows I h' \<and> follows J r'"
proof -
  have 1: "follows I (fst (exchange_open N N' ph pr h r)) \<and> follows J (snd (exchange_open N N' ph pr h r))"
    if "follows I h" "follows J r" for h r
    using that by (simp add: exchange_open_def Let_def turns)
  have 2: "follows I (fst (exchange_derive N N' ph pr h r)) \<and> follows J (snd (exchange_derive N N' ph pr h r))"
    if "follows I h" "follows J r" for h r
    using that by (simp add: exchange_derive_def Let_def turns)
  have 3: "follows I (fst (snd (exchange_finish N N' ph pr h r))) \<and> follows J (snd (snd (exchange_finish N N' ph pr h r)))"
    if "follows I h" "follows J r" for h r
    using that by (simp add: exchange_finish_def Let_def case_prod_unfold turns)
  obtain a b where o: "exchange_open N N' ph pr h r = (a, b)" by fastforce
  obtain c d where e: "exchange_derive N N' ph pr a b = (c, d)" by fastforce
  have "exchange_finish N N' ph pr c d = (acked, h', r')" using assms(3) by (simp add: handshake_def o e)
  then show ?thesis using 1 [OF assms(1,2)] 2 [of a b] 3 [of c d] o e by simp
qed

lemma exchange_apps:
  assumes "follows I h" and "follows J r"
  shows "follows I (fst (snd (host_acked_exchange N' P Q h r))) \<and> follows J (snd (snd (host_acked_exchange N' P Q h r)))"
    and "follows I (fst (ping_exchange N N' p q h r)) \<and> follows J (snd (ping_exchange N N' p q h r))"
    and "follows I (fst (info_exchange N N' p q h r)) \<and> follows J (snd (info_exchange N N' p q h r))"
    and "follows I (fst (clock_exchange N N' stamp p q h r)) \<and> follows J (snd (clock_exchange N N' stamp p q h r))"
    and "follows I (fst (snd (switch_lead N N' p q h r))) \<and> follows J (snd (snd (switch_lead N N' p q h r)))"
proof -
  have a: "follows I (fst (snd (host_acked_exchange N' P Q h r))) \<and> follows J (snd (snd (host_acked_exchange N' P Q h r)))"
    if "follows I h" "follows J r" for P Q h r
    using that by (simp add: host_acked_exchange_def Let_def case_prod_unfold turns)
  show "follows I (fst (snd (host_acked_exchange N' P Q h r))) \<and> follows J (snd (snd (host_acked_exchange N' P Q h r)))"
    by (rule a [OF assms])
  show "follows I (fst (ping_exchange N N' p q h r)) \<and> follows J (snd (ping_exchange N N' p q h r))"
    "follows I (fst (info_exchange N N' p q h r)) \<and> follows J (snd (info_exchange N N' p q h r))"
    "follows I (fst (clock_exchange N N' stamp p q h r)) \<and> follows J (snd (clock_exchange N N' stamp p q h r))"
    "follows I (fst (snd (switch_lead N N' p q h r))) \<and> follows J (snd (snd (switch_lead N N' p q h r)))"
    using assms by (simp_all add: ping_exchange_def info_exchange_def clock_exchange_def switch_lead_def Let_def case_prod_unfold turns a)
qed

lemma rounds_apps:
  "follows I h \<Longrightarrow> follows J r \<Longrightarrow> follows I (fst (clock_rounds N N' stamp p q n k h r)) \<and> follows J (snd (clock_rounds N N' stamp p q n k h r))"
proof (induction n arbitrary: k h r)
  case 0
  then show ?case by simp
next
  case (Suc n)
  show ?case using Suc.IH exchange_apps(4) [OF Suc.prems] Suc.prems by (simp add: Let_def case_prod_unfold)
qed

lemma lead_apps:
  assumes "follows I h" and "follows J r" and "linking_lead N N' stamp p q h r = (acked, h', r')"
  shows "follows I h' \<and> follows J r'"
proof -
  obtain h1 r1 where 1: "ping_exchange N N' (p 0) (q 0) h r = (h1, r1)" by fastforce
  obtain h2 r2 where 2: "ping_exchange N N' (p 1) (q 1) h1 r1 = (h2, r2)" by fastforce
  obtain h3 r3 where 3: "info_exchange N N' (p 2) (q 2) h2 r2 = (h3, r3)" by fastforce
  obtain h4 r4 where 4: "clock_rounds N N' stamp p q 4 3 h3 r3 = (h4, r4)" by fastforce
  have 5: "switch_lead N N' (p 7) (q 7) h4 r4 = (acked, h', r')"
    using assms(3) by (simp only: linking_lead_def 1 2 3 4 Let_def case_prod_conv)
  have a: "follows I h1 \<and> follows J r1" using exchange_apps(2) [OF assms(1,2), of "p 0" "q 0"] 1 by simp
  have b: "follows I h2 \<and> follows J r2" using exchange_apps(2) [of h1 r1 "p 1" "q 1"] a 2 by simp
  have c: "follows I h3 \<and> follows J r3" using exchange_apps(3) [of h2 r2 "p 2" "q 2"] b 3 by simp
  have d: "follows I h4 \<and> follows J r4" using rounds_apps [of h3 r3 stamp p q 4 3] c 4 by simp
  show ?thesis using exchange_apps(5) [of h4 r4 "p 7" "q 7"] d 5 by simp
qed

end

section \<open>The turn that tells the services\<close>

lemma host_enters_linked:
  assumes "GetLinkState s = Linking" and "GetLinkState (Host_OnService N P s) = Linked"
  obtains t where "LoLaLinkHostService.more t = LoLaLinkHostService.more s"
    and "LoLaLinkHostService.more (Host_OnService N P s) = LoLaLinkHostService.more (N P True t)"
proof -
  have l: "LinkingState s = LinkingDone \<and> Host_OnService N P s = Host_UpdateLinkState N P Linked s"
  proof (cases "LOLA_LINK_SERVICE_UNLINK_MAX_BEFORE_LINKING_CANCEL < Link_GetElapsedMillisSinceStateStart P s")
    case True
    then have "Host_OnService N P s = Host_UpdateLinkState N P AwaitingLink s"
      using assms(1) by (simp add: Host_OnService_def Link_OnService_def)
    then show ?thesis using assms(2) by simp
  next
    case False
    then have e: "Host_OnService N P s = Host_OnLinking N P s"
      using assms(1) by (simp add: Host_OnService_def Link_OnService_def Host_link_hooks_def)
    show ?thesis using assms unfolding e Host_OnLinking_def by (auto split: if_splits)
  qed
  let ?t = "on_drv Driver_ResetStatistics (th_StampSynced Host_state_hooks P (on_info_drv LinkInfo_StampLinkStarted
      (Link_ResetLastSentTimeStamp (Link_ResetStateStartTime P s))))"
  show ?thesis
  proof (rule that [of ?t])
    show "LoLaLinkHostService.more ?t = LoLaLinkHostService.more s"
      by (simp add: Host_state_hooks_def link_op_defs on_info_drv_def case_prod_unfold Let_def)
    show "LoLaLinkHostService.more (Host_OnService N P s) = LoLaLinkHostService.more (N P True ?t)"
      using assms(1) l
      by (simp add: Link_UpdateLinkState_def Link_ChangeState_def Link_EnterState_def Let_def)
         (simp add: Host_state_hooks_def Host_OnLinkStateChanged_def)
  qed
qed

lemma remote_enters_linked:
  assumes "GetLinkState s = Linking" and "GetLinkState (Remote_OnService N P s) = Linked"
  obtains t where "LoLaLinkRemoteService.more t = LoLaLinkRemoteService.more s"
    and "LoLaLinkRemoteService.more (Remote_OnService N P s) = LoLaLinkRemoteService.more (N P True t)"
proof -
  have l: "LinkingState s = LinkingDone \<and> Remote_OnService N P s = Remote_UpdateLinkState N P Linked s"
  proof (cases "LOLA_LINK_SERVICE_UNLINK_MAX_BEFORE_LINKING_CANCEL < Link_GetElapsedMillisSinceStateStart P s")
    case True
    then have "Remote_OnService N P s = Remote_UpdateLinkState N P AwaitingLink s"
      using assms(1) by (simp add: Remote_OnService_def Link_OnService_def)
    then show ?thesis using assms(2) by simp
  next
    case False
    then have e: "Remote_OnService N P s = Remote_OnLinking N P s"
      using assms(1) by (simp add: Remote_OnService_def Link_OnService_def Remote_link_hooks_def)
    show ?thesis using assms unfolding e Remote_OnLinking_def by (auto simp: case_prod_unfold Let_def split: if_splits)
  qed
  let ?t = "on_drv Driver_ResetStatistics (th_StampSynced Remote_state_hooks P (on_info_drv LinkInfo_StampLinkStarted
      (Link_ResetLastSentTimeStamp (Link_ResetStateStartTime P s))))"
  show ?thesis
  proof (rule that [of ?t])
    show "LoLaLinkRemoteService.more ?t = LoLaLinkRemoteService.more s"
      by (simp add: Remote_state_hooks_def link_op_defs on_info_drv_def case_prod_unfold Let_def)
    show "LoLaLinkRemoteService.more (Remote_OnService N P s) = LoLaLinkRemoteService.more (N P True ?t)"
      using assms(1) l
      by (simp add: Link_UpdateLinkState_def Link_ChangeState_def Link_EnterState_def Let_def)
         (simp add: Remote_state_hooks_def Remote_OnLinkStateChanged_def)
  qed
qed

end
