(* ===== verification/Sync_Discovery.thy ===== *)
theory Sync_Discovery
  imports Sync_Session
begin

text \<open>
  How a synchronisation begins: a link that comes up leaves both ends waiting for each other; the
  reader asks, and the packet it asks with starts the writer.
\<close>

definition sync_discovery ::
  "platform \<Rightarrow> platform \<Rightarrow> 'a SyncSurfaceWriter_scheme \<Rightarrow> 'b AbstractSync_scheme \<Rightarrow>
   'a SyncSurfaceWriter_scheme \<times> 'b AbstractSync_scheme" where
  "sync_discovery P Q w r =
     (let r1 = Reader_Callback Q r
      in (snd (Sync_ProcessPacket Writer_sync_hooks P (Packet r1) w), Reader_Callback Q (on_air r1)))"

definition reader_waits :: "(u8 list \<Rightarrow> u8) \<Rightarrow> u8 \<Rightarrow> 'a AbstractSync_scheme \<Rightarrow> bool" where
  "reader_waits crc base r \<longleftrightarrow> sync_wf crc base r \<and> SyncState r = WaitingForServiceDiscovery \<and> SendStatus r = Done \<and>
     LastSent r = ILOLA_INVALID_MILLIS \<and> \<not> Surface_IsDataGood (TrackedSurface r)"

definition writer_waits :: "(u8 list \<Rightarrow> u8) \<Rightarrow> u8 \<Rightarrow> 'a SyncSurfaceWriter_scheme \<Rightarrow> bool" where
  "writer_waits crc base w \<longleftrightarrow> sync_wf crc base w \<and> SyncState w = WaitingForServiceDiscovery \<and> SendStatus w = Done \<and>
     WriterState w = UpdatingBlocks"

lemma reader_asks:
  assumes r: "reader_waits crc base r" and Q: "surface_board crc Q"
    and t: "Sync_GetElapsedSinceStateStart Q r \<le> ABSTRACT_SURFACE_MAX_ELAPSED_NO_DISCOVERY_MILLIS"
  shows "Reader_Callback Q r = Send_RequestSendPacketDefault Q (Sync_PrepareMetaPacket Q SYNC_META_SUB_HEADER_SERVICE_DISCOVERY
    (Sync_UpdateLocalHash Q r))"
proof -
  have "ABSTRACT_SURFACE_SERVICE_DISCOVERY_SEND_PERIOD < Sync_GetElapsedSinceLastSent Q (Sync_UpdateLocalHash Q r)"
    using r by (simp add: reader_waits_def Sync_GetElapsedSinceLastSent_def Sync_UpdateLocalHash_def on_surface_def lola_consts)
  moreover have "\<not> ABSTRACT_SURFACE_MAX_ELAPSED_NO_DISCOVERY_MILLIS < Sync_GetElapsedSinceStateStart Q (Sync_UpdateLocalHash Q r)"
    using t by (simp add: Sync_GetElapsedSinceStateStart_def Sync_UpdateLocalHash_def on_surface_def not_less split: if_splits)
  ultimately have "Reader_OnWaitingForServiceDiscovery Q (Sync_UpdateLocalHash Q r) =
      Send_RequestSendPacketDefault Q (Sync_PrepareServiceDiscoveryPacket Q (Sync_UpdateLocalHash Q r))"
    by (simp add: Reader_OnWaitingForServiceDiscovery_def)
  moreover have "SendStatus r = Done" "SyncState r = WaitingForServiceDiscovery" using r by (simp_all add: reader_waits_def)
  then have "Reader_Callback Q r = Reader_OnWaitingForServiceDiscovery Q (Sync_UpdateLocalHash Q r)"
    by (simp add: Reader_Callback_def Send_Callback_def Reader_send_hooks_def Sync_OnService_def Reader_sync_hooks_def
        Sync_UpdateLocalHash_def on_surface_def Let_def)
  ultimately show ?thesis by (simp add: Sync_PrepareServiceDiscoveryPacket_def)
qed

lemma writer_starts:
  fixes P :: platform
  assumes w: "writer_waits crc base w" and p: "meta_packet base SYNC_META_SUB_HEADER_SERVICE_DISCOVERY x p"
  defines "t \<equiv> snd (Sync_ProcessPacket Writer_sync_hooks P p w)"
  shows "writer_updating crc base t" and "TrackedSurface t = Surface_InvalidateHash (TrackedSurface w)"
proof -
  have wf: "sync_wf crc base w" "SyncState w = WaitingForServiceDiscovery" "SendStatus w = Done" "WriterState w = UpdatingBlocks"
      "SyncMetaDefinition w = SyncMetaPacketDefinition base" "DataPacketDefinition w = SyncDataPacketDefinition base"
    using w by (simp_all add: writer_waits_def sync_wf_def)
  have "t = Writer_UpdateSyncState P Syncing (Sync_SetRemoteHash x w)"
    using p wf meta_headers [of base]
    by (simp add: t_def Sync_ProcessPacket_def meta_packet_def Let_def)
       (simp add: Writer_sync_hooks_def Writer_OnServiceDiscoveryReceived_def Sync_SetRemoteHash_def lola_consts)
  then have f: "TrackedSurface t = Surface_InvalidateHash (TrackedSurface w)" "SyncState t = Syncing" "SendStatus t = Done"
      "WriterState t = UpdatingBlocks" "Packet t = Packet w" "SyncMetaDefinition t = SyncMetaDefinition w"
      "DataPacketDefinition t = DataPacketDefinition w"
    using wf by (simp_all add: Sync_UpdateSyncState_def Writer_OnStateUpdated_def Sync_SetRemoteHash_def sync_steps
        Sync_InvalidateLocalHash_def Sync_Enable_def Service_Enable_def Let_def)
  show "TrackedSurface t = Surface_InvalidateHash (TrackedSurface w)" by (rule f)
  show "writer_updating crc base t"
    using wf(1) by (simp add: writer_updating_def f sync_wf_def Surface_ok_def hash_current_def Surface_InvalidateHash_def)
qed

lemma reader_confirms_meta:
  assumes "Definition (Packet r) = Some (SyncMetaPacketDefinition base)"
  shows "Reader_Callback Q (on_air r) = Send_ClearSendRequest (Service_SetNextRunASAP (on_air r))"
proof -
  have "\<not> PacketDefinition_HasACK (SyncMetaPacketDefinition base)"
    by (simp add: PacketDefinition_HasACK_def SyncMetaPacketDefinition_def lola_consts)
  then show ?thesis
    using assms(1) by (simp add: Reader_Callback_def Send_Callback_def on_air_def Send_HasSendPending_def
        Send_sent_ok_def Reader_send_hooks_def Send_default_hooks_def Let_def)
qed

lemma discovery_starts:
  assumes w: "writer_waits crc base w" and r: "reader_waits crc base r" and Q: "surface_board crc Q"
    and t: "Sync_GetElapsedSinceStateStart Q r \<le> ABSTRACT_SURFACE_MAX_ELAPSED_NO_DISCOVERY_MILLIS"
    and e: "sync_discovery P Q w r = (w', r')"
  shows "writer_updating crc base w'" and "reader_ready crc base r'"
    and "TrackedSurface w' = Surface_InvalidateHash (TrackedSurface w)"
    and "TrackedSurface r' = Surface_UpdateHash Q (TrackedSurface r)"
proof -
  let ?v = "Surface_UpdateHash Q (TrackedSurface r)"
  have R: "Surface_ok (TrackedSurface r)" "hash_current crc (TrackedSurface r)" "length (Raw (Packet r)) = 8"
      "SyncMetaDefinition r = SyncMetaPacketDefinition base" "DataPacketDefinition r = SyncDataPacketDefinition base"
      "SyncState r = WaitingForServiceDiscovery" "\<not> DataGood (TrackedSurface r)"
    using r by (simp_all add: reader_waits_def sync_wf_def Surface_IsDataGood_def)
  have v: "LastCRC ?v = crc (Data (TrackedSurface r))" "Surface_UpdateHash Q ?v = ?v" "Surface_ok ?v" "hash_current crc ?v"
    "DataGood ?v = DataGood (TrackedSurface r)"
    using UpdateHash_current [OF R(1,2) Q] UpdateHash_wf [OF R(1,2) Q] by (simp_all add: Surface_UpdateHash_def)
  define r1 where "r1 = Reader_Callback Q r"
  have f: "TrackedSurface r1 = ?v" "SyncState r1 = SyncState r" "SyncMetaDefinition r1 = SyncMetaDefinition r"
      "DataPacketDefinition r1 = DataPacketDefinition r" "length (Raw (Packet r1)) = 8"
      "Definition (Packet r1) = Some (SyncMetaPacketDefinition base)"
      "meta_packet base SYNC_META_SUB_HEADER_SERVICE_DISCOVERY (crc (Data (TrackedSurface r))) (Packet r1)"
    unfolding r1_def reader_asks [OF r Q t] PrepareMetaPacket_eq using R v
    by (simp_all add: sync_steps meta_packet_def meta_packet_fields)
  have w': "w' = snd (Sync_ProcessPacket Writer_sync_hooks P (Packet r1) w)" and r': "r' = Send_ClearSendRequest (Service_SetNextRunASAP (on_air r1))"
    using e reader_confirms_meta [OF f(6), of Q] by (simp_all add: sync_discovery_def r1_def Let_def)
  show "writer_updating crc base w'" "TrackedSurface w' = Surface_InvalidateHash (TrackedSurface w)"
    unfolding w' by (rule writer_starts [OF w f(7)])+
  show "TrackedSurface r' = ?v" by (simp add: r' sync_steps on_air_def f)
  show "reader_ready crc base r'"
    using R v f by (simp add: r' reader_ready_def sync_wf_def sync_steps on_air_def Surface_IsDataGood_def)
qed

end
