(* ===== verification/Example_Session.thy ===== *)
theory Example_Session
  imports Example_Setup Session_Frames Sync_Discovery
begin

text \<open>
  The two sketches together: from \<open>setup\<close> of both through key exchange, linking and discovery to
  the controls of the remote at the host.
\<close>

section \<open>The surface services wait for the link\<close>

definition surface_idle :: "(u8 list \<Rightarrow> u8) \<Rightarrow> ITrackedSurface \<Rightarrow> bool \<Rightarrow> 'a AbstractSync_scheme \<Rightarrow> bool" where
  "surface_idle crc u c s \<longleftrightarrow> sync_wf crc CONTROLLER_SURFACE_BASE_HEADER s \<and> TrackedSurface s = u \<and> SendStatus s = Done \<and>
     ServiceState s = Active \<and> SyncState s = (if c then WaitingForServiceDiscovery else Disabled) \<and>
     (c \<longrightarrow> LastSent s = ILOLA_INVALID_MILLIS)"

lemma surface_idle_drv: "surface_idle crc u c (s\<lparr>drv := d\<rparr>) = surface_idle crc u c s"
  by (simp add: surface_idle_def sync_wf_def)

lemmas surface_notified = Sync_OnLinkEstablished_def Sync_OnLinkLost_def Sync_UpdateSyncState_def Sync_Enable_def Service_Enable_def
  Sync_Disable_def Service_Disable_def surface_idle_def sync_wf_def sync_steps Let_def

lemma reader_notified:
  assumes "surface_idle crc u b s" and "\<not> DataGood u"
  shows "surface_idle crc u True (srv_OnLinkEstablished Reader_service P s)"
    and "surface_idle crc u False (srv_OnLinkLost Reader_service P s)"
    and "\<not> b \<Longrightarrow> StateStartTime (srv_OnLinkEstablished Reader_service P s) = millis_now P"
proof -
  have u: "Surface_SetDataGood False u = u" using assms(2) by (simp add: Surface_SetDataGood_def)
  show "surface_idle crc u True (srv_OnLinkEstablished Reader_service P s)"
    "surface_idle crc u False (srv_OnLinkLost Reader_service P s)"
    "\<not> b \<Longrightarrow> StateStartTime (srv_OnLinkEstablished Reader_service P s) = millis_now P"
    using assms(1) u by (auto simp: Reader_service_def Reader_sync_hooks_def Reader_OnStateUpdated_def Reader_StateActions_def
        surface_notified split: if_splits)
qed

lemma writer_notified:
  assumes "surface_idle crc u b s" and "b \<longrightarrow> WriterState s = UpdatingBlocks"
  shows "surface_idle crc u True (srv_OnLinkEstablished Writer_service P s)"
    and "surface_idle crc u False (srv_OnLinkLost Writer_service P s)"
    and "WriterState (srv_OnLinkEstablished Writer_service P s) = UpdatingBlocks"
  using assms by (auto simp: Writer_service_def Writer_sync_hooks_def Writer_OnStateUpdated_def surface_notified split: if_splits)

definition host_waits :: "(u8 list \<Rightarrow> u8) \<Rightarrow> bool \<Rightarrow> HostManager \<Rightarrow> bool" where
  "host_waits crc c w \<longleftrightarrow> surface_idle crc (Surface_new CONTROLLER_SURFACE_BLOCK_COUNT) c (object (HostReader w))"

definition remote_waits :: "(u8 list \<Rightarrow> u8) \<Rightarrow> ITrackedSurface \<Rightarrow> bool \<Rightarrow> RemoteManager \<Rightarrow> bool" where
  "remote_waits crc u c w \<longleftrightarrow> surface_idle crc u c (object (RemoteWriter w)) \<and>
     (c \<longrightarrow> WriterState (object (RemoteWriter w)) = UpdatingBlocks)"

lemma new_not_good: "\<not> DataGood (Surface_new n)"
  by (simp add: Surface_new_def)

lemma waits_notified:
  assumes "host_waits crc b w"
  shows "host_waits crc c (host_notify P c w)"
    and "\<not> b \<Longrightarrow> StateStartTime (object (HostReader (host_notify P True w))) = millis_now P"
proof -
  let ?r = "\<lambda>c. (object (HostReader w))\<lparr>drv := drv (services_notify [Hopper_service] P c w)\<rparr>"
  have r: "surface_idle crc (Surface_new CONTROLLER_SURFACE_BLOCK_COUNT) b (?r c)" for c
    using assms by (simp add: host_waits_def surface_idle_drv)
  note n = reader_notified [OF r new_not_good, of P]
  show "host_waits crc c (host_notify P c w)"
    by (cases c) (simp_all only: host_waits_def notify_surface(1) Let_def if_True if_False n(1,2))
  show "\<not> b \<Longrightarrow> StateStartTime (object (HostReader (host_notify P True w))) = millis_now P"
    unfolding notify_surface(1) Let_def if_True by (rule n(3))
qed

lemma remote_waits_notified:
  assumes "remote_waits crc u b w"
  shows "remote_waits crc u c (remote_notify P c w)"
proof -
  let ?r = "\<lambda>c. (object (RemoteWriter w))\<lparr>drv := drv (services_notify [Hopper_service] P c w)\<rparr>"
  have r: "surface_idle crc u b (?r c)" "b \<longrightarrow> WriterState (?r c) = UpdatingBlocks" for c
    using assms by (simp_all add: remote_waits_def surface_idle_drv)
  note n = writer_notified [OF r, of P]
  show ?thesis
    by (cases c) (simp_all only: remote_waits_def notify_surface(2) Let_def if_True if_False n simp_thms)
qed

lemma waits_apps: "host_apps (host_waits crc) host_notify" "remote_apps (remote_waits crc u) remote_notify"
proof -
  have "host_waits crc c t = host_waits crc c s" if "LoLaLinkHostService.more t = LoLaLinkHostService.more s" for c t s
    using host_reader_more [OF that] by (simp add: host_waits_def)
  then show "host_apps (host_waits crc) host_notify" using waits_notified(1) unfolding host_apps_def by blast
  have "remote_waits crc u c t = remote_waits crc u c s" if "LoLaLinkRemoteService.more t = LoLaLinkRemoteService.more s" for c t s
    using remote_writer_more [OF that] by (simp add: remote_waits_def)
  then show "remote_apps (remote_waits crc u) remote_notify" using remote_waits_notified unfolding remote_apps_def by blast
qed

interpretation sketches: session_apps "host_waits crc" "remote_waits crc u" host_notify remote_notify for crc u
  by unfold_locales (rule waits_apps)+

section \<open>The session\<close>

text \<open>The moments of a session: two turns of either link service after \<open>setup\<close>, the key exchange, linking.\<close>

record session_times =
  host_boot :: "platform \<times> platform"
  remote_boot :: "platform \<times> platform"
  host_keys :: "nat \<Rightarrow> platform"
  remote_keys :: "nat \<Rightarrow> platform"
  host_links :: "nat \<Rightarrow> nat \<Rightarrow> platform"
  remote_links :: "nat \<Rightarrow> nat \<Rightarrow> platform"
  arrivals :: "nat \<Rightarrow> u32"

definition host_booted :: "session_times \<Rightarrow> HostManager \<Rightarrow> HostManager" where
  "host_booted T h = Host_OnService host_notify (snd (host_boot T)) (Host_OnService host_notify (fst (host_boot T)) h)"

definition remote_booted :: "session_times \<Rightarrow> RemoteManager \<Rightarrow> RemoteManager" where
  "remote_booted T r = Remote_OnService remote_notify (snd (remote_boot T)) (Remote_OnService remote_notify (fst (remote_boot T)) r)"

definition sketches_link :: "session_times \<Rightarrow> HostManager \<Rightarrow> RemoteManager \<Rightarrow> bool \<times> bool \<times> HostManager \<times> RemoteManager" where
  "sketches_link T h r =
     (let (keyed, h1, r1) = handshake host_notify remote_notify (host_keys T) (remote_keys T) (host_booted T h) (remote_booted T r);
          (switched, h2, r2) = linking_run host_notify remote_notify (arrivals T) (host_links T) (remote_links T) h1 r1
      in (keyed, switched, h2, r2))"

definition sketches_sync ::
  "(platform \<times> platform) list \<Rightarrow> platform \<Rightarrow> platform \<Rightarrow> HostManager \<Rightarrow> RemoteManager \<Rightarrow> SyncSurfaceWriter \<times> AbstractSync" where
  "sketches_sync rounds P Q h r =
     (let (w, s) = sync_discovery P Q (remote_writer r) (host_reader h) in sync_session rounds P Q w s)"

text \<open>Boards of the two ids with the same libraries, that hear each other in time.\<close>

definition session_paced :: "platform \<Rightarrow> u32 \<Rightarrow> u32 \<Rightarrow> session_times \<Rightarrow> bool" where
  "session_paced B hid rid T \<longleftrightarrow> libraries_ok B \<and>
     (\<exists>pubH privH pubR privR. ecc_make_key (snd (host_boot T)) = (True, pubH, privH) \<and>
        ecc_make_key (snd (remote_boot T)) = (True, pubR, privR) \<and> ecc_ok B pubH privH pubR privR) \<and>
     board B hid (snd (host_boot T)) \<and> board B rid (snd (remote_boot T)) \<and>
     (\<forall>n. board B hid (host_keys T n) \<and> board B rid (remote_keys T n)) \<and>
     (\<forall>k n. board B hid (host_links T k n) \<and> board B rid (remote_links T k n)) \<and> random_ok (host_keys T 0) \<and>
     boot_times LOLA_LINK_SERVICE_UNLINK_HOST_MAX_BEFORE_SLEEP (fst (host_boot T)) (snd (host_boot T)) (host_keys T) \<and>
     boot_times LOLA_LINK_SERVICE_UNLINK_REMOTE_MAX_BEFORE_SLEEP (fst (remote_boot T)) (snd (remote_boot T)) (remote_keys T) \<and>
     linking_moments (millis_now (host_keys T 8)) (millis_now (remote_keys T 7)) (host_links T) (remote_links T) \<and>
     steady 3 7 (\<lambda>k. arrivals T k - micros_now (remote_links T k 1))"

lemma sketches_boot:
  assumes T: "session_paced B hid rid T" and h: "prepared hid h" "GetLinkState h = LinkSetup"
    and r: "prepared rid r" "GetLinkState r = LinkSetup" "SyncerHasClock (RemoteClockSyncer r)"
  obtains pubH privH pubR privR where "ecc_ok B pubH privH pubR privR"
    and "host_ready B (host_keys T) hid pubH privH (host_booted T h)" and "host_fresh (host_booted T h)"
    and "remote_ready B (remote_keys T) rid pubR privR (remote_booted T r)" and "remote_fresh (remote_booted T r)"
proof -
  note t = T [unfolded session_paced_def]
  obtain pubH privH pubR privR where k: "ecc_make_key (snd (host_boot T)) = (True, pubH, privH)"
    "ecc_make_key (snd (remote_boot T)) = (True, pubR, privR)" "ecc_ok B pubH privH pubR privR" using t by blast
  have b: "board B hid (snd (host_boot T))" "board B rid (snd (remote_boot T))"
    "\<forall>n. board B hid (host_keys T n)" "\<forall>n. board B rid (remote_keys T n)" "random_ok (host_keys T 0)"
    "boot_times LOLA_LINK_SERVICE_UNLINK_HOST_MAX_BEFORE_SLEEP (fst (host_boot T)) (snd (host_boot T)) (host_keys T)"
    "boot_times LOLA_LINK_SERVICE_UNLINK_REMOTE_MAX_BEFORE_SLEEP (fst (remote_boot T)) (snd (remote_boot T)) (remote_keys T)"
    using t by blast+
  note H = host_boots [OF h k(1) b(1) b(6) b(5) b(3), of host_notify]
  note R = remote_boots [OF r k(2) b(2) b(7) b(4), of remote_notify]
  show ?thesis
    by (rule that [OF k(3) H [folded host_booted_def, THEN conjunct1] H [folded host_booted_def, THEN conjunct2]
          R [folded remote_booted_def, THEN conjunct1] R [folded remote_booted_def, THEN conjunct2]])
qed

lemma host_links_up:
  assumes w: "host_waits crc False s" and st: "GetLinkState s = Linking" "GetLinkState (Host_OnService host_notify P s) = Linked"
  shows "reader_waits crc CONTROLLER_SURFACE_BASE_HEADER (host_reader (Host_OnService host_notify P s))"
    and "StateStartTime (host_reader (Host_OnService host_notify P s)) = millis_now P"
    and "TrackedSurface (host_reader (Host_OnService host_notify P s)) = Surface_new CONTROLLER_SURFACE_BLOCK_COUNT"
    and "ServiceState (host_reader (Host_OnService host_notify P s)) = Active"
proof -
  obtain t where t: "LoLaLinkHostService.more t = LoLaLinkHostService.more s"
    "LoLaLinkHostService.more (Host_OnService host_notify P s) = LoLaLinkHostService.more (host_notify P True t)"
    by (rule host_enters_linked [OF st])
  have "host_waits crc False t" using w host_reader_more [OF t(1)] by (simp only: host_waits_def)
  note n = waits_notified(1) [OF this, of True P] waits_notified(2) [OF this not_False_eq_True [THEN iffD2, OF TrueI], of P]
  show "reader_waits crc CONTROLLER_SURFACE_BASE_HEADER (host_reader (Host_OnService host_notify P s))"
    "StateStartTime (host_reader (Host_OnService host_notify P s)) = millis_now P"
    "TrackedSurface (host_reader (Host_OnService host_notify P s)) = Surface_new CONTROLLER_SURFACE_BLOCK_COUNT"
    "ServiceState (host_reader (Host_OnService host_notify P s)) = Active"
    using n host_reader_more [OF t(2)]
    by (auto simp: host_waits_def surface_idle_def reader_waits_def host_reader_def sync_wf_def Surface_IsDataGood_def new_not_good)
qed

lemma remote_links_up:
  assumes w: "remote_waits crc u False s" and st: "GetLinkState s = Linking" "GetLinkState (Remote_OnService remote_notify P s) = Linked"
  shows "writer_waits crc CONTROLLER_SURFACE_BASE_HEADER (remote_writer (Remote_OnService remote_notify P s))"
    and "TrackedSurface (remote_writer (Remote_OnService remote_notify P s)) = u"
    and "ServiceState (remote_writer (Remote_OnService remote_notify P s)) = Active"
proof -
  obtain t where t: "LoLaLinkRemoteService.more t = LoLaLinkRemoteService.more s"
    "LoLaLinkRemoteService.more (Remote_OnService remote_notify P s) = LoLaLinkRemoteService.more (remote_notify P True t)"
    by (rule remote_enters_linked [OF st])
  have "remote_waits crc u False t" using w remote_writer_more [OF t(1)] by (simp only: remote_waits_def simp_thms)
  note n = remote_waits_notified [OF this, of True P]
  show "writer_waits crc CONTROLLER_SURFACE_BASE_HEADER (remote_writer (Remote_OnService remote_notify P s))"
    "TrackedSurface (remote_writer (Remote_OnService remote_notify P s)) = u"
    "ServiceState (remote_writer (Remote_OnService remote_notify P s)) = Active"
    using n remote_writer_more [OF t(2)]
    by (auto simp: remote_waits_def surface_idle_def writer_waits_def remote_writer_def sync_wf_def)
qed

lemma sketches_linked:
  assumes T: "session_paced B hid rid T" and id: "hid \<noteq> 0" and h: "prepared hid h" "GetLinkState h = LinkSetup" "host_waits crc False h"
    and r: "prepared rid r" "GetLinkState r = LinkSetup" "SyncerHasClock (RemoteClockSyncer r)" "remote_waits crc u False r"
  obtains h' r' flight where "sketches_link T h r = (True, True, h', r')" and "linked_together hid rid flight h' r'"
    and "reader_waits crc CONTROLLER_SURFACE_BASE_HEADER (host_reader h')"
    and "StateStartTime (host_reader h') = millis_now (host_links T 7 5)"
    and "TrackedSurface (host_reader h') = Surface_new CONTROLLER_SURFACE_BLOCK_COUNT"
    and "ServiceState (host_reader h') = Active"
    and "writer_waits crc CONTROLLER_SURFACE_BASE_HEADER (remote_writer r')" and "TrackedSurface (remote_writer r') = u"
    and "ServiceState (remote_writer r') = Active"
proof -
  obtain pubH privH pubR privR where b: "ecc_ok B pubH privH pubR privR"
    "host_ready B (host_keys T) hid pubH privH (host_booted T h)" "host_fresh (host_booted T h)"
    "remote_ready B (remote_keys T) rid pubR privR (remote_booted T r)" "remote_fresh (remote_booted T r)"
    by (rule sketches_boot [OF T h(1,2) r(1-3)])
  note t = T [unfolded session_paced_def]
  have c: "libraries_ok B" "\<forall>k n. board B hid (host_links T k n) \<and> board B rid (remote_links T k n)"
    "linking_moments (millis_now (host_keys T 8)) (millis_now (remote_keys T 7)) (host_links T) (remote_links T)"
    "steady 3 7 (\<lambda>k. arrivals T k - micros_now (remote_links T k 1))"
    using t by blast+
  have quiet: "\<forall>S \<in> set [host_surface_service]. quiet_app S" "\<forall>S \<in> set [remote_surface_service]. quiet_app S"
    using surface_services by simp_all
  have fl: "\<forall>k. arrivals T k - micros_now (remote_links T k 1) = arrivals T k - micros_now (remote_links T k 1)" by simp
  obtain h1 r1 h2 r2 k where L: "handshake host_notify remote_notify (host_keys T) (remote_keys T) (host_booted T h) (remote_booted T r) = (True, h1, r1)"
    "linking_lead host_notify remote_notify (arrivals T) (host_links T) (remote_links T) h1 r1 = (True, h2, r2)"
    "GetLinkState h2 = Linking" "GetLinkState r2 = Linking" "3 \<le> k" "k < 7"
    "linked_together hid rid (arrivals T k - micros_now (remote_links T k 1)) (Host_OnService host_notify (host_links T 7 5) h2)
      (Remote_OnService remote_notify (remote_links T 7 3) r2)"
    by (rule session_leads [OF c(1) b(1) id b(2-5) c(3) c(2) fl c(4) quiet])
  have f0: "follows (host_waits crc) h" "follows (remote_waits crc u) r" using h(2,3) r(2,4) by (simp_all add: follows_def)
  have f1: "follows (host_waits crc) (host_booted T h)" "follows (remote_waits crc u) (remote_booted T r)"
    unfolding host_booted_def remote_booted_def by (rule sketches.turns(1) sketches.turns(7) f0)+
  have f2: "follows (host_waits crc) h1 \<and> follows (remote_waits crc u) r1" by (rule sketches.handshake_apps [OF f1 L(1)])
  have f3: "follows (host_waits crc) h2 \<and> follows (remote_waits crc u) r2"
    by (rule sketches.lead_apps [OF f2 [THEN conjunct1] f2 [THEN conjunct2] L(2)])
  have w: "host_waits crc False h2" "remote_waits crc u False r2" using f3 L(3,4) by (simp_all add: follows_def)
  have st: "GetLinkState (Host_OnService host_notify (host_links T 7 5) h2) = Linked"
    "GetLinkState (Remote_OnService remote_notify (remote_links T 7 3) r2) = Linked" using L(7) by (simp_all add: linked_together_def)
  have e: "sketches_link T h r = (True, True, Host_OnService host_notify (host_links T 7 5) h2, Remote_OnService remote_notify (remote_links T 7 3) r2)"
    by (simp only: sketches_link_def L(1,2) linking_run_def last_turn_def Let_def case_prod_conv)
  show ?thesis
    by (rule that [OF e L(7) host_links_up [OF w(1) L(3) st(1)] remote_links_up [OF w(2) L(4) st(2)]])
qed

section \<open>The controls arrive\<close>

lemma in_step_hashes: "in_step (Surface_InvalidateHash u) (Surface_UpdateHash P v) = in_step u v"
  by (simp add: in_step_def block_def Surface_InvalidateHash_def Surface_UpdateHash_def)

lemma sketches_synced:
  assumes w: "writer_waits crc CONTROLLER_SURFACE_BASE_HEADER (remote_writer r)" "TrackedSurface (remote_writer r) = u"
    and s: "reader_waits crc CONTROLLER_SURFACE_BASE_HEADER (host_reader h)" "TrackedSurface (host_reader h) = v" "in_step u v"
    and b: "boards crc ((P, Q) # rounds)" "length rounds = pending u"
    and t: "Sync_GetElapsedSinceStateStart Q (host_reader h) \<le> ABSTRACT_SURFACE_MAX_ELAPSED_NO_DISCOVERY_MILLIS"
    and e: "sketches_sync rounds P Q h r = (w', s')"
  shows "in_sync w' s'" and "read_controls (TrackedSurface s') = read_controls u"
proof -
  obtain w1 s1 where d: "sync_discovery P Q (remote_writer r) (host_reader h) = (w1, s1)" by fastforce
  have Q: "surface_board crc Q" using b(1) by (simp add: boards_def)
  note D = discovery_starts [OF w(1) s(1) Q t d, unfolded w(2) s(2)]
  have f: "in_step (TrackedSurface w1) (TrackedSurface s1)" "length rounds = pending (TrackedSurface w1)"
    "Data (TrackedSurface w1) = Data u"
    using s(3) b(2) by (simp_all add: D(3,4) in_step_hashes) (simp_all add: pending_def Surface_InvalidateHash_def)
  have "sync_session rounds P Q w1 s1 = (w', s')" using e by (simp add: sketches_sync_def d)
  note S = sync_session_converges [OF D(1,2) f(1) b(1) f(2) this]
  show "in_sync w' s'" by (rule S)
  have "Data (TrackedSurface s') = Data u" using S(1,2) f(3) by (simp add: in_sync_def)
  then show "read_controls (TrackedSurface s') = read_controls u" by (rule read_controls_cong)
qed

lemma host_started:
  assumes "drv w = Driver_new" and "ExampleHost_setup P P' (HostManager_construct True w) = Running M h"
  shows "prepared (local_id P) h" and "GetLinkState h = LinkSetup" and "host_waits crc False h"
proof -
  obtain M1 h1 where H1: "ExampleHost_setup P P' (HostManager_construct True w) = (if radio_part P = 17507 then Running M1 h1 else Halted)"
    "example_host_table P M1" "example_registered h1" "prepared (local_id P) h1" "GetLinkState h1 = LinkSetup" "surface_off (host_reader h1)"
    "ServiceState (host_reader h1) = Active"
    by (rule ExampleHost_runs [OF assms(1)])
  then have "h1 = h" using assms(2) by (simp split: if_splits)
  note H = H1(4-7) [unfolded this]
  show "prepared (local_id P) h" "GetLinkState h = LinkSetup" by (rule H)+
  show "host_waits crc False h"
    using H(3,4) by (auto simp: host_waits_def surface_idle_def surface_off_def host_reader_def sync_wf_def)
qed

lemma remote_started:
  assumes "drv v = Driver_new" and "tracker_ok (tracker Q)" and "ExampleRemote_setup R Q (RemoteManager_construct True v) = Running L r"
  shows "prepared (local_id R) r" and "GetLinkState r = LinkSetup" and "SyncerHasClock (RemoteClockSyncer r)"
    and "remote_waits crc (TrackedSurface (remote_writer r)) False r"
    and "in_step (TrackedSurface (remote_writer r)) (Surface_new CONTROLLER_SURFACE_BLOCK_COUNT)"
    and "read_controls (TrackedSurface (remote_writer r)) = sketch_values"
proof -
  obtain M1 r1 where R1: "ExampleRemote_setup R Q (RemoteManager_construct True v) = (if radio_part R = 17507 then Running M1 r1 else Halted)"
    "example_remote_table R M1" "example_registered r1" "prepared (local_id R) r1" "GetLinkState r1 = LinkSetup" "SyncerHasClock (RemoteClockSyncer r1)"
    "SyncState (remote_writer r1) = Disabled" "SendStatus (remote_writer r1) = Done"
    "control_end crc CONTROLLER_SURFACE_BASE_HEADER (RemoteController r1) (remote_writer r1) (Surface_new CONTROLLER_SURFACE_BLOCK_COUNT)"
    "read_controls (TrackedSurface (remote_writer r1)) = sketch_values" "ServiceState (remote_writer r1) = Active"
    by (rule ExampleRemote_runs [OF assms(1,2), of R crc])
  then have "r1 = r" using assms(3) by (simp split: if_splits)
  note R = R1(4-11) [unfolded this]
  show "prepared (local_id R) r" "GetLinkState r = LinkSetup" "SyncerHasClock (RemoteClockSyncer r)"
    "read_controls (TrackedSurface (remote_writer r)) = sketch_values" by (rule R)+
  show "in_step (TrackedSurface (remote_writer r)) (Surface_new CONTROLLER_SURFACE_BLOCK_COUNT)"
    using R(6) by (simp add: control_end_def)
  show "remote_waits crc (TrackedSurface (remote_writer r)) False r"
    using R(4-6,8) by (auto simp: remote_waits_def surface_idle_def control_end_def remote_writer_def sync_wf_def)
qed

text \<open>C2. What the remote sketch stores at its start is what the host reads: both sketches run through \<open>setup\<close>,
  make their keys, exchange them, link and synchronise, with no frame lost and each turn in time. Both
  ends are then linked with the same session and key, either surface service was let through to its packets, the
  writer is synced with nothing left to send, and the host's four controls are the values of the
  remote's \<open>setup\<close>. The synchronisation takes as many rounds as the setters have marked blocks.\<close>
theorem sketches_bring_controls:
  assumes "drv w = Driver_new" and "drv v = Driver_new" and "tracker_ok (tracker Q)"
    and "ExampleHost_setup P P' (HostManager_construct True w) = Running M h"
    and "ExampleRemote_setup R Q (RemoteManager_construct True v) = Running L r"
    and "session_paced B (local_id P) (local_id R) T" and "local_id P \<noteq> 0"
    and "boards crc ((D, E) # rounds)" and "length rounds = pending (TrackedSurface (remote_writer r))"
    and "millis_now (host_links T 7 5) \<noteq> ILOLA_INVALID_MILLIS"
    and "millis_now E - millis_now (host_links T 7 5) \<le> ABSTRACT_SURFACE_MAX_ELAPSED_NO_DISCOVERY_MILLIS"
  shows "\<exists>h' r' flight w' s'. sketches_link T h r = (True, True, h', r') \<and>
    linked_together (local_id P) (local_id R) flight h' r' \<and>
    Service_ShouldProcessReceived (host_reader h') \<and> Service_ShouldProcessReceived (remote_writer r') \<and>
    sketches_sync rounds D E h' r' = (w', s') \<and> in_sync w' s' \<and> read_controls (TrackedSurface s') = sketch_values"
proof -
  let ?u = "TrackedSurface (remote_writer r)"
  note H = host_started [OF assms(1,4)] and R = remote_started [OF assms(2,3,5)]
  obtain h' r' flight where L: "sketches_link T h r = (True, True, h', r')" "linked_together (local_id P) (local_id R) flight h' r'"
    "reader_waits crc CONTROLLER_SURFACE_BASE_HEADER (host_reader h')" "StateStartTime (host_reader h') = millis_now (host_links T 7 5)"
    "TrackedSurface (host_reader h') = Surface_new CONTROLLER_SURFACE_BLOCK_COUNT" "ServiceState (host_reader h') = Active"
    "writer_waits crc CONTROLLER_SURFACE_BASE_HEADER (remote_writer r')" "TrackedSurface (remote_writer r') = ?u"
    "ServiceState (remote_writer r') = Active"
    by (rule sketches_linked [OF assms(6,7) H R(1-4)])
  obtain w' s' where e: "sketches_sync rounds D E h' r' = (w', s')" by fastforce
  have t: "Sync_GetElapsedSinceStateStart E (host_reader h') \<le> ABSTRACT_SURFACE_MAX_ELAPSED_NO_DISCOVERY_MILLIS"
    using assms(10,11) L(4) by (simp add: Sync_GetElapsedSinceStateStart_def)
  note S = sketches_synced [OF L(7,8) L(3,5) R(5) assms(8,9) t e]
  have "Driver_HasLink (drv h')" "Driver_HasLink (drv r')" using L(2) by (simp_all add: linked_together_def Driver_HasLink_def)
  then have "Service_ShouldProcessReceived (host_reader h')" "Service_ShouldProcessReceived (remote_writer r')"
    using L(6,9) by (simp_all add: Service_ShouldProcessReceived_def Service_IsSetupOk_def host_part.get_drv remote_part.get_drv)
  then show ?thesis using L(1,2) e S R(6) by (intro exI conjI) simp_all
qed

definition sample_times :: session_times where
  "sample_times = \<lparr> host_boot = (sample_platform, sample_platform), remote_boot = (remote_platform, remote_platform),
     host_keys = (\<lambda>_. sample_platform), remote_keys = (\<lambda>_. remote_platform), host_links = at_step sample_platform,
     remote_links = at_step remote_platform, arrivals = (\<lambda>k. step_millis k 1 * 1000 + 500) \<rparr>"

lemma sample_times_paced: "session_paced sample_platform (local_id sample_platform) (local_id remote_platform) sample_times"
proof -
  have z: "millis_now sample_platform = 0" "millis_now remote_platform = 0" by (simp_all add: remote_platform_def)
  have k: "ecc_make_key sample_platform = (True, 3 # replicate 39 0, 3 # replicate 20 0)"
    "ecc_make_key remote_platform = (True, 5 # replicate 39 0, 5 # replicate 20 0)" by (simp_all add: remote_platform_def)
  have ecc: "ecc_ok sample_platform (3 # replicate 39 0) (3 # replicate 20 0) (5 # replicate 39 0) (5 # replicate 20 0)"
    by (simp add: ecc_ok_def ecc_keypair_def replicate_add [symmetric])
  have m: "linking_moments (millis_now sample_platform) (millis_now remote_platform) (at_step sample_platform) (at_step remote_platform)"
    unfolding z by (rule sample_moments)
  have st: "steady 3 7 (\<lambda>k. step_millis k 1 * 1000 + 500 - micros_now (at_step remote_platform k 1))"
    by (simp add: steady_def abs32_def at_step_def lola_consts)
  have bt: "boot_times b sample_platform sample_platform (\<lambda>_. sample_platform)" "boot_times b remote_platform remote_platform (\<lambda>_. remote_platform)" for b
    by (simp_all add: boot_times_def z elapsed_since_def lola_consts)
  show ?thesis
    unfolding session_paced_def sample_times_def session_times.select_convs fst_conv snd_conv
    using sample_libraries k ecc sample_boards step_boards random_ok_sample bt m st by blast
qed

theorem sketches_bring_controls_witness:
  "\<exists>M h L r h' r' w s. ExampleHost_setup sample_platform sample_platform (HostManager_construct True blank_host_manager) = Running M h \<and>
     ExampleRemote_setup remote_platform sample_platform (RemoteManager_construct True blank_remote_manager) = Running L r \<and>
     sketches_link sample_times h r = (True, True, h', r') \<and>
     sketches_sync (replicate (pending (TrackedSurface (remote_writer r))) (sample_platform, sample_platform))
       sample_platform (at_step sample_platform 7 5) h' r' = (w, s) \<and>
     Controller_GetDirection (TrackedSurface s) = 30000 \<and> Controller_GetPropulsionTrim (TrackedSurface s) = - 99"
proof -
  obtain M h where H: "ExampleHost_setup sample_platform sample_platform (HostManager_construct True blank_host_manager) = Running M h"
    using sketches_run(1) by blast
  have "\<exists>L r. ExampleRemote_setup remote_platform sample_platform (RemoteManager_construct True blank_remote_manager) = Running L r"
    by (rule ExampleRemote_runs [OF blank_managers(2) tracker_ok_sample, of remote_platform]) (simp add: remote_platform_def)
  then obtain L r where R: "ExampleRemote_setup remote_platform sample_platform (RemoteManager_construct True blank_remote_manager) = Running L r"
    by blast
  let ?n = "pending (TrackedSurface (remote_writer r))" and ?E = "at_step sample_platform 7 5"
  have E: "surface_board sample_crc ?E" using sample_board by (simp add: surface_board_def at_step_def)
  have b: "boards sample_crc ((sample_platform, ?E) # replicate ?n (sample_platform, sample_platform))"
    using E sample_board by (simp add: boards_def)
  have l: "length (replicate ?n (sample_platform, sample_platform)) = ?n" by simp
  have m: "millis_now (host_links sample_times 7 5) \<noteq> ILOLA_INVALID_MILLIS"
    "millis_now ?E - millis_now (host_links sample_times 7 5) \<le> ABSTRACT_SURFACE_MAX_ELAPSED_NO_DISCOVERY_MILLIS"
    by (simp_all add: sample_times_def at_step_def step_millis_def lola_consts)
  obtain h' r' w' s' where "sketches_link sample_times h r = (True, True, h', r')"
    "sketches_sync (replicate ?n (sample_platform, sample_platform)) sample_platform ?E h' r' = (w', s')"
    "read_controls (TrackedSurface s') = sketch_values"
    using sketches_bring_controls [OF blank_managers tracker_ok_sample H R sample_times_paced sample_id b l m] by blast
  with H R show ?thesis by (fastforce simp: read_controls_def)
qed

end
