(* ===== verification/Discovery_Window.thy ===== *)
theory Discovery_Window
  imports Sync_Discovery
begin

section \<open>A discovery that is not heard in time\<close>

text \<open>What can happen at two ends that wait: their tasks run, and the applications change the surfaces.\<close>

datatype waiting_event = ReaderTask platform | WriterTask platform | ReaderChange platform ITrackedSurface |
  WriterChange platform ITrackedSurface

fun waiting_step ::
  "waiting_event \<Rightarrow> 'a SyncSurfaceWriter_scheme \<times> 'b AbstractSync_scheme \<Rightarrow> 'a SyncSurfaceWriter_scheme \<times> 'b AbstractSync_scheme" where
  "waiting_step (ReaderTask Q) (w, r) = (w, Reader_Callback Q r)"
| "waiting_step (WriterTask P) (w, r) = (Writer_Callback P w, r)"
| "waiting_step (ReaderChange Q u) (w, r) = (w, Sync_SurfaceChanged Reader_OnStateUpdated Q u r)"
| "waiting_step (WriterChange P u) (w, r) = (Sync_SurfaceChanged Writer_OnStateUpdated P u w, r)"

definition silent_wait :: "'a AbstractSync_scheme \<Rightarrow> bool" where
  "silent_wait s \<longleftrightarrow> SyncState s = WaitingForServiceDiscovery \<and> SendStatus s = Done"

lemma change_stays_silent:
  assumes "silent_wait s"
  shows "silent_wait (Sync_SurfaceChanged f P u s)" and "Packet (Sync_SurfaceChanged f P u s) = Packet s"
    and "StateStartTime (Sync_SurfaceChanged f P u s) = StateStartTime s"
    and "ServiceEnabled (Sync_SurfaceChanged f P u s) = ServiceEnabled s"
  using assms by (simp_all add: silent_wait_def Sync_SurfaceChanged_def Sync_SurfaceDataChangedEvent_def
      Sync_InvalidateLocalHash_def on_surface_def Let_def)

lemma writer_stays_silent:
  assumes "silent_wait w"
  shows "silent_wait (Writer_Callback P w)" and "Packet (Writer_Callback P w) = Packet w" and "\<not> ServiceEnabled (Writer_Callback P w)"
proof -
  have "Writer_Callback P w = Sync_Disable (Sync_UpdateLocalHash P w)"
    using assms by (simp add: silent_wait_def Writer_Callback_def Send_Callback_def Writer_send_hooks_def Sync_OnService_def
        Writer_sync_hooks_def Writer_OnWaitingForServiceDiscovery_def Sync_UpdateLocalHash_def on_surface_def Let_def)
  then show "silent_wait (Writer_Callback P w)" "Packet (Writer_Callback P w) = Packet w" "\<not> ServiceEnabled (Writer_Callback P w)"
    using assms by (simp_all add: silent_wait_def Sync_Disable_def Service_Disable_def Sync_UpdateLocalHash_def on_surface_def Let_def)
qed

lemma reader_gives_up:
  assumes "silent_wait r" and "ABSTRACT_SURFACE_MAX_ELAPSED_NO_DISCOVERY_MILLIS < Sync_GetElapsedSinceStateStart Q r"
  shows "silent_wait (Reader_Callback Q r)" and "Packet (Reader_Callback Q r) = Packet r"
    and "\<not> ServiceEnabled (Reader_Callback Q r)" and "StateStartTime (Reader_Callback Q r) = StateStartTime r"
proof -
  have "ABSTRACT_SURFACE_MAX_ELAPSED_NO_DISCOVERY_MILLIS < Sync_GetElapsedSinceStateStart Q (Sync_UpdateLocalHash Q r)"
    using assms(2) by (simp add: Sync_GetElapsedSinceStateStart_def Sync_UpdateLocalHash_def on_surface_def split: if_splits)
  moreover have "SyncState (Sync_UpdateLocalHash Q r) = WaitingForServiceDiscovery"
    using assms(1) by (simp add: silent_wait_def Sync_UpdateLocalHash_def on_surface_def)
  ultimately have "Reader_Callback Q r = Sync_Disable (Sync_UpdateLocalHash Q r)"
    using assms(1) by (simp add: silent_wait_def Reader_Callback_def Send_Callback_def Reader_send_hooks_def Sync_OnService_def
        Reader_sync_hooks_def Reader_OnWaitingForServiceDiscovery_def Let_def)
  then show "silent_wait (Reader_Callback Q r)" "Packet (Reader_Callback Q r) = Packet r"
    "\<not> ServiceEnabled (Reader_Callback Q r)" "StateStartTime (Reader_Callback Q r) = StateStartTime r"
    using assms(1) by (simp_all add: silent_wait_def Sync_Disable_def Service_Disable_def Sync_UpdateLocalHash_def on_surface_def Let_def)
qed

lemma waiting_run:
  assumes w: "silent_wait w" and r: "silent_wait r"
    and "\<forall>Q. ReaderTask Q \<in> set es \<longrightarrow> ABSTRACT_SURFACE_MAX_ELAPSED_NO_DISCOVERY_MILLIS < Sync_GetElapsedSinceStateStart Q r"
    and "fold waiting_step es (w, r) = (w', r')"
  shows "silent_wait w' \<and> silent_wait r' \<and> Packet w' = Packet w \<and> Packet r' = Packet r \<and> StateStartTime r' = StateStartTime r \<and>
    (ServiceEnabled r' \<longrightarrow> (\<forall>Q. ReaderTask Q \<notin> set es)) \<and> (ServiceEnabled w' \<longrightarrow> (\<forall>P. WriterTask P \<notin> set es))"
  using assms(3,4)
proof (induction es arbitrary: w' r' rule: rev_induct)
  case Nil
  then show ?case using w r by simp
next
  case (snoc e es)
  obtain w1 r1 where f: "fold waiting_step es (w, r) = (w1, r1)" by fastforce
  have IH: "silent_wait w1" "silent_wait r1" "Packet w1 = Packet w" "Packet r1 = Packet r" "StateStartTime r1 = StateStartTime r"
    "ServiceEnabled r1 \<longrightarrow> (\<forall>Q. ReaderTask Q \<notin> set es)" "ServiceEnabled w1 \<longrightarrow> (\<forall>P. WriterTask P \<notin> set es)"
    using snoc.IH [OF _ f] snoc.prems(1) by simp_all
  have e: "waiting_step e (w1, r1) = (w', r')" using snoc.prems(2) f by simp
  show ?case
  proof (cases e)
    case (ReaderTask Q)
    then have "ABSTRACT_SURFACE_MAX_ELAPSED_NO_DISCOVERY_MILLIS < Sync_GetElapsedSinceStateStart Q r1"
      using snoc.prems(1) IH(5) by (auto simp: Sync_GetElapsedSinceStateStart_def)
    note R = reader_gives_up [OF IH(2) this]
    show ?thesis using e IH R ReaderTask by auto
  next
    case (WriterTask P)
    show ?thesis using e IH writer_stays_silent(1-3) [OF IH(1), of P] WriterTask by auto
  next
    case (WriterChange P u)
    show ?thesis using e IH change_stays_silent [OF IH(1), of Writer_OnStateUpdated P u] WriterChange by auto
  next
    case (ReaderChange Q u)
    show ?thesis using e IH change_stays_silent [OF IH(2), of Reader_OnStateUpdated Q u] ReaderChange by auto
  qed
qed

text \<open>C28. A discovery window closes for good: two ends that still wait for each other half a second after the link came up
  never send a packet again, whatever their tasks and the changes of the application do and in whatever
  order. Both stay waiting with nothing requested, and a turn of its task disables either of them, so the surface is
  not mirrored until the link is lost and found again.\<close>
theorem discovery_window_closes:
  assumes "silent_wait w" and "silent_wait r"
    and "\<forall>Q. ReaderTask Q \<in> set es \<longrightarrow> ABSTRACT_SURFACE_MAX_ELAPSED_NO_DISCOVERY_MILLIS < Sync_GetElapsedSinceStateStart Q r"
    and "fold waiting_step es (w, r) = (w', r')"
  shows "silent_wait w' \<and> silent_wait r' \<and> Packet w' = Packet w \<and> Packet r' = Packet r \<and>
    (ServiceEnabled r' \<longrightarrow> (\<forall>Q. ReaderTask Q \<notin> set es)) \<and> (ServiceEnabled w' \<longrightarrow> (\<forall>P. WriterTask P \<notin> set es))"
  using waiting_run [OF assms] by blast

definition waiting_writer :: SyncSurfaceWriter where
  "waiting_writer = sample_writer\<lparr>SyncState := WaitingForServiceDiscovery, SendStatus := Done\<rparr>"

definition waiting_reader :: AbstractSync where
  "waiting_reader = sample_reader\<lparr>SyncState := WaitingForServiceDiscovery, SendStatus := Done, StateStartTime := 0\<rparr>"

theorem discovery_window_closes_witness:
  "\<exists>w r. fold waiting_step [ReaderTask (sample_platform\<lparr>millis_now := 501\<rparr>), WriterTask sample_platform] (waiting_writer, waiting_reader) = (w, r) \<and>
     silent_wait w \<and> silent_wait r \<and> \<not> ServiceEnabled r \<and> \<not> ServiceEnabled w"
proof -
  let ?es = "[ReaderTask (sample_platform\<lparr>millis_now := 501\<rparr>), WriterTask sample_platform]"
  obtain w r where f: "fold waiting_step ?es (waiting_writer, waiting_reader) = (w, r)" by fastforce
  have "silent_wait waiting_writer" "silent_wait waiting_reader"
    by (simp_all add: silent_wait_def waiting_writer_def waiting_reader_def)
  moreover have "\<forall>Q. ReaderTask Q \<in> set ?es \<longrightarrow>
      ABSTRACT_SURFACE_MAX_ELAPSED_NO_DISCOVERY_MILLIS < Sync_GetElapsedSinceStateStart Q waiting_reader"
    by (simp add: Sync_GetElapsedSinceStateStart_def waiting_reader_def lola_consts)
  ultimately show ?thesis using discovery_window_closes [OF _ _ _ f] f by auto
qed

end
