(* ===== verification/Node_Turns.thy ===== *)
theory Node_Turns
  imports Link_Node
begin

text \<open>
  What a property of a node has to do with one turn of the action task, one callback of a send service
  and a whole run. A property that the driver cannot change is kept by a turn whose packet the services
  do not answer in a special way.
\<close>

section \<open>The synchronised clock is not the driver's to move\<close>

definition clock_offset :: "Driver \<Rightarrow> u32" where
  "clock_offset d = OffsetMicros (SyncedClock d)"

lemma clock_offset_updates [simp]:
  "clock_offset (d\<lparr>CallbackHandler := c\<rparr>) = clock_offset d" "clock_offset (d\<lparr>RejectedCount := n\<rparr>) = clock_offset d"
  "clock_offset (d\<lparr>DriverActiveState := a\<rparr>) = clock_offset d"
  by (simp_all add: clock_offset_def)

lemma clock_offset_driver [simp]:
  "clock_offset (Driver_RestoreToReceiving d) = clock_offset d" "clock_offset (Driver_Release d) = clock_offset d"
  "clock_offset (Driver_OnTransmitPowerUpdated P d) = clock_offset d" "clock_offset (Driver_OnChannelUpdated P d) = clock_offset d"
  "clock_offset (Driver_OnAsyncRestore d) = clock_offset d" "clock_offset (Driver_EnableInterrupts d) = clock_offset d"
  "clock_offset (snd (Driver_SendPacket P p d)) = clock_offset d"
  "clock_offset (snd (Driver_AllowedSend P d)) = clock_offset d"
  by (simp_all add: clock_offset_def Driver_Release_def)
     (simp_all add: Driver_RestoreToReceiving_def Driver_SetToReceiving_def Driver_EnableInterrupts_def
       Driver_OnTransmitPowerUpdated_def Driver_OnChannelUpdated_def Driver_OnAsyncRestore_def Driver_AddAsyncAction_def
       Driver_SetRadioPower_def Driver_SendPacket_def Driver_EncodeOutgoing_def Driver_Transmit_def Driver_OnTransmitted_def
       Driver_AllowedSend_def Driver_IsInSendSlot_def fault_if_def case_prod_unfold Let_def split: option.split)

lemma clock_offset_incoming [simp]:
  "clock_offset (Driver_ReadReceived P d) = clock_offset d" "clock_offset (snd (Driver_DecodeIncoming P d)) = clock_offset d"
  "clock_offset (Driver_CommitReceived P d) = clock_offset d" "clock_offset (Driver_SendAck P d) = clock_offset d"
proof -
  show "clock_offset (Driver_ReadReceived P d) = clock_offset d" "clock_offset (snd (Driver_DecodeIncoming P d)) = clock_offset d"
    by (simp_all add: clock_offset_def Driver_ReadReceived_def Driver_DecodeIncoming_def fault_if_def case_prod_unfold Let_def)
  show "clock_offset (Driver_CommitReceived P d) = clock_offset d"
    by (simp add: clock_offset_def Driver_CommitReceived_def Driver_IsReceiveCollision_def Driver_IsInReceiveSlot_def
        case_prod_unfold Let_def)
  show "clock_offset (Driver_SendAck P d) = clock_offset d"
    by (simp add: Driver_SendAck_def case_prod_unfold Let_def) (simp add: clock_offset_def fault_if_def)
qed

lemma clock_offset_interrupt:
  assumes "radio_interrupt d d'"
  shows "clock_offset d' = clock_offset d"
  using assms
  by (cases rule: radio_interrupt.cases)
     (simp_all add: clock_offset_def Driver_OnIncoming_def Driver_OnReceiveBegin_def Driver_OnReceivedFail_def Driver_OnSentOk_def
       Driver_OnBatteryAlarm_def Driver_AddAsyncAction_def Driver_DisableInterrupts_def Let_def)

lemma clock_offset_second [simp]: "clock_offset (on_clock (Clock_OnInterrupt P) d) = clock_offset d"
  by (simp add: clock_offset_def on_clock_def Clock_OnInterrupt_def)

section \<open>The packet of a turn\<close>

text \<open>The driver as it stands when it hands the packet on that the next turn of the action task takes in.\<close>

definition receiving_driver :: "platform \<Rightarrow> Driver \<Rightarrow> (u8 \<times> u8) list \<Rightarrow> bool \<times> Driver" where
  "receiving_driver P d rest =
     (let d1 = Driver_ReadReceived P (d\<lparr>CallbackHandler := (CallbackHandler d)\<lparr>EventQueue := rest\<rparr>,
                 DriverActiveState := ProcessingIncoming\<rparr>);
          (ok, d2) = Driver_DecodeIncoming P d1
      in (ok, Driver_CommitReceived P d2))"

text \<open>The next turn hands a packet to the services of which \<open>Q\<close> holds.\<close>

definition arrives :: "platform \<Rightarrow> (LoLaPacket \<Rightarrow> 'a node_scheme \<Rightarrow> bool) \<Rightarrow> 'a node_scheme \<Rightarrow> bool" where
  "arrives P Q w \<longleftrightarrow> (case ring_pull (ring_actions P) (EventQueue (CallbackHandler (drv w))) of
      None \<Rightarrow> False
    | Some (action, rest) \<Rightarrow> fst action = ActionProcessIncomingPacket \<and> DriverActiveState (drv w) = AwaitingProcessing \<and>
        (let (ok, d) = receiving_driver P (drv w) rest in ok \<and> Q (IncomingPacket d) (w\<lparr>drv := d\<rparr>)))"

lemma IncomingPacket_Commit [simp]: "IncomingPacket (Driver_CommitReceived P d) = IncomingPacket d"
  by (simp add: Driver_CommitReceived_def Driver_IsReceiveCollision_def Driver_IsInReceiveSlot_def case_prod_unfold Let_def)

section \<open>Properties a node keeps\<close>

text \<open>What a property must allow for the driver and the sends of the service to be of no concern to it.\<close>

locale node_watch =
  fixes I :: "'a LoLaLinkService_scheme \<Rightarrow> bool"
  assumes on_driver: "clock_offset d = clock_offset (drv w) \<Longrightarrow> I w \<Longrightarrow> I (w\<lparr>drv := d\<rparr>)"
    and on_send: "I w \<Longrightarrow> I (w\<lparr>SendStatus := x\<rparr>)" "I w \<Longrightarrow> I (w\<lparr>SendFailures := n\<rparr>)"
      "I w \<Longrightarrow> I (w\<lparr>ServiceNextRun := r\<rparr>)" "I w \<Longrightarrow> I (Send_ClearSendRequest w)"
begin

lemma driver_op:
  assumes "\<And>d. clock_offset (f d) = clock_offset d" and "I w"
  shows "I (on_drv f w)"
  using assms by (simp add: on_drv_def on_driver)

lemma schedule: "I w \<Longrightarrow> I (Service_SetNextRunASAP w)" "I w \<Longrightarrow> I (Service_SetNextRunDelay t w)"
  by (simp_all add: Service_SetNextRunASAP_def Service_SetNextRunDelay_def on_send)

lemma send_ops: "I w \<Longrightarrow> I (snd (Service_AllowedSend P w))" "I w \<Longrightarrow> I (snd (Service_SendPacket P p w))"
  by (simp_all add: Service_AllowedSend_def Service_SendPacket_def on_drv_result_def case_prod_unfold Let_def on_driver)

lemma process_sent: "I w \<Longrightarrow> I (snd (Send_ProcessSent h w))" "I w \<Longrightarrow> I (snd (Send_ProcessAck h i w))"
  by (simp_all add: Send_ProcessSent_def Send_ProcessAck_def schedule on_send)

text \<open>A callback runs at most the service itself or the notifications of a send.\<close>

lemma callback_stays:
  assumes hooks: "\<And>h i w. I w \<Longrightarrow> I (hk_OnAckFailed K P h i w)" "\<And>h i w. I w \<Longrightarrow> I (hk_OnAckReceived K P h i w)"
      "\<And>h t w. I w \<Longrightarrow> I (hk_OnSendOk K P h t w)" "\<And>w. I w \<Longrightarrow> I (hk_OnSendFailed K P w)"
      "\<And>w. I w \<Longrightarrow> I (hk_OnSendTimedOut K P w)" "\<And>w. I w \<Longrightarrow> I (hk_OnSendDelayed K P w)"
      "\<And>w. I w \<Longrightarrow> I (hk_OnSendRetrying K P w)" "\<And>w. I w \<Longrightarrow> I (hk_OnPreSend K P w)"
    and service: "\<And>w. I w \<Longrightarrow> I (hk_OnService K P w) \<or> E (hk_OnService K P w)" and w: "I w"
  shows "I (Send_Callback P K w) \<or> E (Send_Callback P K w)"
proof -
  note keep = hooks on_send schedule send_ops
  have s: "I (Send_sending P K v)" if "I v" for v
  proof -
    have "I (snd (Service_SendPacket P p (hk_OnPreSend K P (snd (Service_AllowedSend P v)))))" for p
      using that by (simp add: keep)
    then show ?thesis using that by (simp add: Send_sending_def case_prod_unfold Let_def keep)
  qed
  have o: "I (Send_sent_ok P K v)" if "I v" for v
    using that
    by (simp add: Send_sent_ok_def Let_def keep driver_op fault_if_def clock_offset_def split: option.split)
  define v where "v = (if \<not> Send_HasSendPending w \<and> SendStatus w \<noteq> Done
    then Service_SetNextRunASAP (w\<lparr>SendStatus := Done\<rparr>) else w)"
  have "I v" using w by (simp add: v_def keep)
  then show ?thesis
    unfolding Send_Callback_def Let_def v_def [symmetric]
    by (cases "SendStatus v") (simp_all add: keep s o service)
qed

text \<open>A turn of the action task.\<close>

lemma AsyncCallback_keeps:
  assumes packet: "\<And>p w. I w \<Longrightarrow> \<not> Q p w \<Longrightarrow> I (h_ProcessPacket H P p w)"
    and acked: "\<And>p w. I w \<Longrightarrow> \<not> Q p w \<Longrightarrow> I (snd (h_ProcessAckedPacket H P p w))"
    and ack: "\<And>p w. I w \<Longrightarrow> I (h_ProcessAck H P p w)" and sent: "\<And>h w. I w \<Longrightarrow> I (h_ProcessSent H P h w)"
    and w: "I w" and no: "\<not> arrives P Q w"
  shows "I (snd (Driver_AsyncCallback P H w))"
proof (cases "ring_pull (ring_actions P) (EventQueue (CallbackHandler (drv w)))")
  case None
  then show ?thesis using w by (simp add: Driver_AsyncCallback_def driver_op)
next
  case (Some r)
  obtain action rest where r: "r = (action, rest)" by (cases r)
  define w1 where "w1 = on_drv (\<lambda>d. d\<lparr>CallbackHandler := (CallbackHandler d)\<lparr>EventQueue := rest\<rparr>\<rparr>) w"
  have w1: "I w1" using w by (simp add: w1_def driver_op)
  have incoming: "I (Driver_ProcessIncoming P H w1)" if a: "fst action = ActionProcessIncomingPacket"
  proof (cases "DriverActiveState (drv w1) = AwaitingProcessing")
    case False
    then show ?thesis using w1 by (simp add: Driver_ProcessIncoming_def driver_op)
  next
    case True
    define d1 where "d1 = Driver_ReadReceived P ((drv w1)\<lparr>DriverActiveState := ProcessingIncoming\<rparr>)"
    define d2 where "d2 = Driver_DecodeIncoming P d1"
    define v where "v = w1\<lparr>drv := Driver_CommitReceived P (snd d2)\<rparr>"
    have o: "clock_offset d1 = clock_offset (drv w1)" "clock_offset (snd d2) = clock_offset (drv w1)"
      by (simp_all add: d1_def d2_def)
    have v: "I v" using w1 o by (simp add: v_def on_driver)
    have q: "\<not> Q (IncomingPacket (drv v)) v" if "fst d2"
      using no True a that
      by (simp add: arrives_def Some r receiving_driver_def w1_def v_def d1_def d2_def on_drv_def case_prod_unfold Let_def)
    have "I (Driver_Dispatch P H def v)" if "fst d2" for def
      using v q [OF that]
      by (simp add: Driver_Dispatch_def case_prod_unfold Let_def driver_op packet acked ack)
    then show ?thesis
      unfolding Driver_ProcessIncoming_def Let_def d1_def [symmetric] d2_def [symmetric] case_prod_unfold v_def [symmetric]
      using True w1 o by (auto simp: on_driver split: option.split bool.split)
  qed
  have "I (Driver_OnAsyncAction P H action w1)"
    using w1 incoming
    by (simp add: Driver_OnAsyncAction_def Driver_ProcessSent_def driver_op sent)
  then show ?thesis
    using Some by (simp add: Driver_AsyncCallback_def r w1_def [symmetric] driver_op Let_def)
qed

text \<open>The table of a node: the hopper takes nothing, so the link service is asked first.\<close>

lemma first_taker_table:
  assumes "Manager_table M = Hopper_service # link # apps" and "f Hopper_service w = (False, w)"
    and "I (snd (f link w))" and "\<And>S v. S \<in> set apps \<Longrightarrow> I v \<Longrightarrow> I (snd (f S v))"
  shows "I (snd (first_taker f (Manager_table M) w))"
  using assms(1-3) first_taker_keeps [where I = I, of apps f] assms(4) by (auto simp: case_prod_unfold Let_def)

end

section \<open>Runs\<close>

text \<open>A run keeps a property up to the first step that does not.\<close>

lemma first_exit:
  assumes "R\<^sup>*\<^sup>* s t" and "I s" and "\<And>u u'. R u u' \<Longrightarrow> I u \<Longrightarrow> I u' \<or> E u u'"
  shows "I t \<or> (\<exists>u u'. R\<^sup>*\<^sup>* s u \<and> I u \<and> R u u' \<and> E u u' \<and> R\<^sup>*\<^sup>* u' t)"
  using assms(1,2)
proof (induction rule: converse_rtranclp_induct)
  case base
  then show ?case by simp
next
  case (step s u)
  from assms(3) [OF step.hyps(1) step.prems] show ?case
  proof
    assume "I u"
    from step.IH [OF this] show ?thesis
      using step.hyps(1) by (meson converse_rtranclp_into_rtranclp)
  next
    assume "E s u"
    then show ?thesis using step.hyps step.prems by blast
  qed
qed

end
