(* ===== verification/Remote_Challenge.thy ===== *)
theory Remote_Challenge
  imports Node_Turns Handshake Packet_Delivery
begin

text \<open>
  The remote authenticates the host: no run of a remote node gets to \<open>Linking\<close> but through a packet that
  decrypts, under the key of the exchange, to the remote's own id.
\<close>

section \<open>The challenge\<close>

definition challenge_ok :: "platform \<Rightarrow> LoLaPacket \<Rightarrow> 'a LoLaLinkRemoteService_scheme \<Rightarrow> bool" where
  "challenge_ok P p s \<longleftrightarrow> GetLinkState s = AwaitingLink \<and> LinkingState s = Remote_SendingPublicKey \<and>
     LoLaPacket_GetDataHeader p = LOLA_LINK_HEADER_SHORT_WITH_ACK \<and>
     LinkInfo_HasSessionId (LinkInfo s) \<and> SessionId (LinkInfo s) = LoLaPacket_GetId p \<and>
     bytes_le32 (fst (Encoder_DecodeDirect P (LoLaPacket_GetPayload p) 4 (CryptoEncoder (drv s)))) =
       fst (LinkInfo_GetLocalId P (LinkInfo s))"

text \<open>No challenge has been accepted: neither linking nor linked, nor about to go on to linking.\<close>

definition unauthenticated :: "'a LoLaLinkRemoteService_scheme \<Rightarrow> bool" where
  "unauthenticated s \<longleftrightarrow> GetLinkState s \<noteq> Linking \<and> GetLinkState s \<noteq> Linked \<and>
     (GetLinkState s = AwaitingLink \<longrightarrow> LinkingState s \<noteq> Remote_LinkingSwitchOver)"

lemma unauthenticated_view: "link_view s' = link_view s \<Longrightarrow> unauthenticated s' = unauthenticated s"
  by (simp add: link_view_def unauthenticated_def)

lemma unauthenticated_stage:
  "GetLinkState s' = GetLinkState s \<Longrightarrow> LinkingState s' = LinkingState s \<Longrightarrow> unauthenticated s' = unauthenticated s"
  by (simp add: unauthenticated_def)

lemma unauthenticated_if:
  "(c \<Longrightarrow> unauthenticated a) \<Longrightarrow> (\<not> c \<Longrightarrow> unauthenticated b) \<Longrightarrow> unauthenticated (if c then a else b)"
  by simp

interpretation unauth: node_watch "unauthenticated :: 'a LoLaLinkRemoteService_scheme \<Rightarrow> bool"
  by unfold_locales (simp_all add: unauthenticated_def Send_ClearSendRequest_def)

lemma other_stages:
  "Remote_SearchingForHost \<noteq> Remote_LinkingSwitchOver" "Remote_ValidatingPartner \<noteq> Remote_LinkingSwitchOver"
  "Remote_AwaitingHostPublicKey \<noteq> Remote_LinkingSwitchOver" "Remote_ProcessingSharedKey \<noteq> Remote_LinkingSwitchOver"
  "Remote_SendingPublicKey \<noteq> Remote_LinkingSwitchOver"
  by (simp_all add: lola_consts)

section \<open>The service\<close>

lemma Remote_Update_unauthenticated:
  assumes "GetLinkState s \<noteq> st" and "st \<noteq> Linking" and "st \<noteq> Linked"
  shows "unauthenticated (Remote_UpdateLinkState N P st s)"
  using assms
  by (cases st)
     (simp_all add: unauthenticated_def, simp add: Link_UpdateLinkState_def Link_ChangeState_def Link_EnterState_def
       Remote_state_hooks_def Remote_OnLinkStateChanged_def Balancer_SetMaxPower_def lola_consts case_prod_unfold Let_def)

lemma resend_unauthenticated:
  "unauthenticated s \<Longrightarrow> GetLinkState (prepare s) = GetLinkState s \<Longrightarrow> LinkingState (prepare s) = LinkingState s \<Longrightarrow>
    unauthenticated (Link_resend period prepare P s)"
  by (simp add: Link_resend_def unauthenticated_def)

lemma Remote_restart_stage [simp]: "LinkingState (Remote_RestartSearch P s) = Remote_SearchingForHost"
  by (simp add: Remote_RestartSearch_def)

lemma Remote_validate_stage [simp]: "LinkingState (Remote_ValidatePartner P s) = Remote_AwaitingHostPublicKey"
  by (simp add: Remote_ValidatePartner_def case_prod_unfold Let_def)

lemma Remote_prepare_stage [simp]:
  "LinkingState (Remote_PrepareLinkDiscovery s) = LinkingState s" "LinkingState (Remote_PreparePKCStartRequest P s) = LinkingState s"
  by (simp_all add: Remote_PrepareLinkDiscovery_def Remote_PreparePKCStartRequest_def case_prod_unfold Let_def)

lemma Remote_awaiting_unauthenticated:
  assumes "GetLinkState s = AwaitingLink" and "unauthenticated s"
  shows "unauthenticated (snd (Remote_OnAwaitingLink N P s))" and "GetLinkState (snd (Remote_OnAwaitingLink N P s)) = AwaitingLink"
proof -
  have n: "LinkingState s \<noteq> Remote_LinkingSwitchOver" using assms by (simp add: unauthenticated_def)
  have r: "unauthenticated (Link_resend LOLA_LINK_SERVICE_UNLINK_REMOTE_SEARCH_PERIOD Remote_PrepareLinkDiscovery P s)"
    "unauthenticated (Link_resend LOLA_LINK_SERVICE_UNLINK_RESEND_PERIOD (Remote_PreparePKCStartRequest P) P s)"
    "unauthenticated (Link_resend LOLA_LINK_SERVICE_UNLINK_RESEND_LONG_PERIOD
      (Link_PreparePublicKeyPacket LOLA_LINK_SUBHEADER_REMOTE_PUBLIC_KEY) P s)"
    by (rule resend_unauthenticated [OF assms(2)]; simp)+
  show "GetLinkState (snd (Remote_OnAwaitingLink N P s)) = AwaitingLink"
    using assms n by (simp add: Remote_OnAwaitingLink_def case_prod_unfold Let_def)
  show "unauthenticated (snd (Remote_OnAwaitingLink N P s))"
    using assms n r other_stages by (simp add: Remote_OnAwaitingLink_def case_prod_unfold Let_def, simp add: unauthenticated_def)
qed

lemma Remote_OnService_unauthenticated:
  assumes "unauthenticated s"
  shows "unauthenticated (Remote_OnService N P s)"
proof (cases "GetLinkState s")
  case AwaitingLink
  note a = Remote_awaiting_unauthenticated [OF this assms, of N P]
  have "unauthenticated (Remote_UpdateLinkState N P AwaitingSleeping (snd (Remote_OnAwaitingLink N P s)))"
    using a(2) by (simp add: Remote_Update_unauthenticated)
  moreover have "unauthenticated (Service_SetNextRunASAP
      ((on_keys (\<lambda>k. snd (KeyExchanger_GenerateNewKeyPair P k)) s)\<lparr>KeysLastGenerated := millis_now P\<rparr>))"
    using assms by (simp add: unauthenticated_def)
  ultimately show ?thesis
    using a(1) AwaitingLink
    by (simp add: Remote_OnService_def Link_OnService_def Remote_link_hooks_def case_prod_unfold Let_def)
next
  case LinkDisabled
  then show ?thesis
    by (simp add: Remote_OnService_def Link_OnService_def unauthenticated_def)
qed (use assms in \<open>simp_all add: Remote_OnService_def Link_OnService_def Remote_Update_unauthenticated, simp_all add: unauthenticated_def\<close>)

lemma Remote_Callback_unauthenticated:
  assumes "unauthenticated s"
  shows "unauthenticated (Remote_Callback N P s)"
proof -
  have "unauthenticated (Send_Callback P (Remote_send_hooks N) s) \<or> False"
    by (rule unauth.callback_stays [where E = "\<lambda>_. False"])
       (simp_all add: Remote_send_hooks_def Send_default_hooks_def assms Remote_OnService_unauthenticated unauth.schedule,
        simp_all add: unauthenticated_def Link_OnSendOk_def Link_OnSendFailed_def Remote_OnPreSend_def Let_def)
  then show ?thesis by (simp add: Remote_Callback_def)
qed

section \<open>Packets\<close>

lemma Remote_IdBroadcast_unauthenticated:
  assumes "unauthenticated s"
  shows "unauthenticated (Remote_OnIdBroadcastReceived N P i x s)"
proof -
  define t where "t = (if GetLinkState s = AwaitingSleeping then Remote_UpdateLinkState N P AwaitingLink s else s)"
  have t: "unauthenticated t" using assms by (simp add: t_def Remote_Update_unauthenticated)
  show ?thesis
    unfolding Remote_OnIdBroadcastReceived_def Let_def t_def [symmetric] case_prod_unfold
    using assms t other_stages by (simp add: unauthenticated_def)
qed

lemma Remote_packet_unauthenticated:
  assumes "unauthenticated s"
  shows "unauthenticated (snd (Link_ProcessPacket (Remote_link_hooks N) P p s))"
proof -
  have h: "unauthenticated (Remote_OnHostPublicKeyReceived P i bs s)" "unauthenticated (Remote_OnHostInfoSyncRequestReceived P s)"
    "unauthenticated (Remote_OnHostInfoSyncReceived P r y s)" "unauthenticated (Remote_OnClockSyncResponseReceived P i x s)"
    "unauthenticated (Remote_OnClockSyncTuneResponseReceived P i x s)"
    "unauthenticated (Link_OnLinkInfoReportReceived P r c s)"
    "unauthenticated (Link_OnLinkInfoReportReceived P r c (s\<lparr>ReportPending := True\<rparr>))" for i bs r y x c
    using assms other_stages
    by (simp_all add: unauthenticated_def Remote_OnHostPublicKeyReceived_def Remote_OnHostInfoSyncRequestReceived_def
        Remote_OnHostInfoSyncReceived_def Remote_OnClockSyncResponseReceived_def Remote_OnClockSyncTuneResponseReceived_def
        Link_OnLinkInfoReportReceived_def case_prod_unfold Let_def)
  note hooks = Remote_link_hooks_def Link_default_hooks_def
  have "unauthenticated (Link_ProcessShort (Remote_link_hooks N) P p s)"
    unfolding Link_ProcessShort_def Let_def
    by (intro unauthenticated_if) (simp_all add: hooks h assms Remote_IdBroadcast_unauthenticated)
  moreover have "unauthenticated (Link_ProcessLong (Remote_link_hooks N) P p s)"
    unfolding Link_ProcessLong_def Let_def by (intro unauthenticated_if) (simp_all add: hooks h assms)
  moreover have "unauthenticated (Link_ProcessReport (Remote_link_hooks N) P p s)"
    unfolding Link_ProcessReport_def Let_def by (intro unauthenticated_if) (simp_all add: hooks h assms)
  ultimately show ?thesis by (simp add: Link_ProcessPacket_def Let_def assms)
qed

lemma Remote_acked_unauthenticated:
  assumes "unauthenticated s" and "\<not> challenge_ok P p s"
  shows "unauthenticated (snd (Link_ProcessAckedPacket (Remote_link_hooks N) P p s))"
  using assms
  by (cases "GetLinkState s")
     (auto simp: unauthenticated_def challenge_ok_def Link_ProcessAckedPacket_def Remote_link_hooks_def
       Remote_OnAckedPacketReceived_def Remote_OnCryptoStartReceived_def LinkInfo_GetSessionId_def case_prod_unfold Let_def)

section \<open>The node\<close>

lemma remote_turn_unauthenticated:
  assumes M: "remote_table P0 apps M" and s: "unauthenticated s" and no: "\<not> arrives P (challenge_ok P) s"
  shows "unauthenticated (snd (Driver_AsyncCallback P (Manager_handlers M) s))"
proof -
  have T: "Manager_table M = Hopper_service # Remote_service (Lola_notify apps) P0 # apps"
    and S: "\<And>S. S \<in> set apps \<Longrightarrow> side_service S"
    using M by (simp_all add: node_table_def)
  note view = side_service.views(1-4) [OF S, THEN unauthenticated_view]
  note taker = unauth.first_taker_table [OF T]
  note link = Remote_service_def Service_ReceivedPacket_def Service_ReceivedAckedPacket_def Service_ReceivedAck_def
  show ?thesis
  proof (rule unauth.AsyncCallback_keeps [where Q = "challenge_ok P", OF _ _ _ _ s no])
    fix p h and w :: "'a LoLaLinkRemoteService_scheme"
    assume w: "unauthenticated w"
    show "unauthenticated (h_ProcessPacket (Manager_handlers M) P p w)"
      unfolding Manager_handlers_def Manager_ProcessPacket_def handlers.simps
      by (rule taker) (simp_all add: Hopper_service_def link w view Remote_packet_unauthenticated)
    show "unauthenticated (snd (h_ProcessAckedPacket (Manager_handlers M) P p w))" if "\<not> challenge_ok P p w"
      unfolding Manager_handlers_def Manager_ProcessAckedPacket_def handlers.simps
      by (rule taker) (simp_all add: Hopper_service_def link w that view Remote_acked_unauthenticated)
    show "unauthenticated (h_ProcessAck (Manager_handlers M) P p w)"
      unfolding Manager_handlers_def Manager_ProcessAck_def handlers.simps
      by (rule taker) (simp_all add: Hopper_service_def link w view unauth.process_sent)
    have "unauthenticated (snd (first_taker (\<lambda>s. srv_ProcessSent s P h) (Manager_table M) w))"
      by (rule taker) (simp_all add: Hopper_service_def link w view unauth.process_sent)
    then show "unauthenticated (h_ProcessSent (Manager_handlers M) P h w)"
      by (simp add: Manager_handlers_def Manager_ProcessSent_def w)
  qed
qed

text \<open>The step of a remote that takes a challenge.\<close>

definition challenge_step ::
  "'a LoLaLinkRemoteService_scheme LoLaServicesManager \<Rightarrow> 'a LoLaLinkRemoteService_scheme \<Rightarrow>
   'a LoLaLinkRemoteService_scheme \<Rightarrow> bool" where
  "challenge_step M s s' \<longleftrightarrow> (\<exists>P. arrives P (challenge_ok P) s \<and> s' = snd (Driver_AsyncCallback P (Manager_handlers M) s))"

lemma remote_step_unauthenticated:
  assumes M: "remote_table P0 apps M" and step: "remote_step apps M s s'" and s: "unauthenticated s"
  shows "unauthenticated s' \<or> challenge_step M s s'"
  using step
proof (cases rule: link_step.cases)
  case application
  from unauthenticated_view [OF this(1)] show ?thesis using s by blast
next
  case node
  then show ?thesis
  proof (cases rule: node_step.cases)
    case (task P)
    then show ?thesis
      using remote_turn_unauthenticated [OF M s] by (auto simp: challenge_step_def)
  next
    case (service P)
    then show ?thesis using Remote_Callback_unauthenticated [OF s] by simp
  next
    case (start P)
    then show ?thesis
      using s by (cases "ServiceEnabled s") (simp_all add: unauthenticated_def Lola_Start_def Link_Enable_def Service_Enable_def)
  next
    case (stop P)
    then show ?thesis by (simp add: unauthenticated_def Lola_Stop_def)
  qed (use s in \<open>simp_all add: unauthenticated_def\<close>)
qed

text \<open>C10. The remote authenticates the host by its challenge. In \<open>AwaitingLink\<close> it acknowledges a packet
  exactly when it is a short packet with acknowledgement of the current session, its public key is out,
  and the payload decrypts under the shared key to the remote's own id; a packet it refuses leaves its
  stage, session, keys and link state as they were. And no run of a remote node, whatever its tasks, the
  radio, the applications, starts and stops do, gets from a state without an accepted challenge to
  \<open>Linking\<close> or \<open>Linked\<close> unless in one of its steps the action task takes such a packet from the radio.\<close>
theorem remote_takes_only_its_challenge:
  assumes "GetLinkState s = AwaitingLink" and "Link_ProcessAckedPacket (Remote_link_hooks N) P p s = (acked, t)"
    and "LinkingState s \<noteq> Remote_LinkingSwitchOver"
    and "remote_table P0 apps M" and "(remote_step apps M)\<^sup>*\<^sup>* v0 v" and "unauthenticated v0"
  shows "(acked \<longleftrightarrow> challenge_ok P p s) \<and> (acked \<longleftrightarrow> LinkingState t = Remote_LinkingSwitchOver) \<and>
    (\<not> acked \<longrightarrow> LinkingState t = LinkingState s \<and> GetLinkState t = AwaitingLink \<and>
      SessionId (LinkInfo t) = SessionId (LinkInfo s) \<and> KeyExchanger t = KeyExchanger s \<and>
      EncoderState (CryptoEncoder (drv t)) = EncoderState (CryptoEncoder (drv s)) \<and>
      KeyHolder (CryptoEncoder (drv t)) = KeyHolder (CryptoEncoder (drv s))) \<and>
    (GetLinkState v \<in> {Linking, Linked} \<longrightarrow>
      (\<exists>u u'. (remote_step apps M)\<^sup>*\<^sup>* v0 u \<and> unauthenticated u \<and> challenge_step M u u' \<and> (remote_step apps M)\<^sup>*\<^sup>* u' v))"
proof (intro conjI)
  have ping: "LOLA_LINK_HEADER_SHORT_WITH_ACK \<noteq> Header PingPacketDefinition" by (simp add: link_packet_defs lola_consts)
  have st: "Remote_LinkingSwitchOver \<noteq> Remote_SendingPublicKey" by (simp add: lola_consts)
  have k: "KeyHolder (snd (Encoder_DecodeDirect P m n e)) = KeyHolder e" for m n e
    by (simp add: Encoder_DecodeDirect_def case_prod_unfold Let_def)
  note defs = challenge_ok_def Link_ProcessAckedPacket_def Remote_link_hooks_def Remote_OnAckedPacketReceived_def
    Remote_OnCryptoStartReceived_def LinkInfo_GetSessionId_def case_prod_unfold Let_def
  show "acked \<longleftrightarrow> challenge_ok P p s" "acked \<longleftrightarrow> LinkingState t = Remote_LinkingSwitchOver"
    "\<not> acked \<longrightarrow> LinkingState t = LinkingState s \<and> GetLinkState t = AwaitingLink \<and>
      SessionId (LinkInfo t) = SessionId (LinkInfo s) \<and> KeyExchanger t = KeyExchanger s \<and>
      EncoderState (CryptoEncoder (drv t)) = EncoderState (CryptoEncoder (drv s)) \<and>
      KeyHolder (CryptoEncoder (drv t)) = KeyHolder (CryptoEncoder (drv s))"
    using assms(1-3) ping st by (auto simp: defs k split: if_splits)
  have "unauthenticated v \<or> (\<exists>u u'. (remote_step apps M)\<^sup>*\<^sup>* v0 u \<and> unauthenticated u \<and> remote_step apps M u u' \<and>
      challenge_step M u u' \<and> (remote_step apps M)\<^sup>*\<^sup>* u' v)"
    by (rule first_exit [where I = unauthenticated, OF assms(5,6)]) (rule remote_step_unauthenticated [OF assms(4)])
  then show "GetLinkState v \<in> {Linking, Linked} \<longrightarrow>
      (\<exists>u u'. (remote_step apps M)\<^sup>*\<^sup>* v0 u \<and> unauthenticated u \<and> challenge_step M u u' \<and> (remote_step apps M)\<^sup>*\<^sup>* u' v)"
    by (auto simp: unauthenticated_def)
qed

section \<open>A remote that is challenged\<close>

definition challenge_content :: "u8 list" where
  "challenge_content = [LOLA_LINK_HEADER_SHORT_WITH_ACK, 7] @ map (\<lambda>x. x + 9) (le32_bytes (local_id sample_platform))"

definition challenge_platform :: platform where
  "challenge_platform = sample_platform\<lparr>radio_rx_bytes :=
     \<lambda>n. le16_bytes (crc16_modbus sample_platform challenge_content) @ challenge_content\<rparr>"

definition challenged_driver :: Driver where
  "challenged_driver = Driver_new\<lparr>DriverActiveState := AwaitingProcessing, IncomingPacketSize := 8,
     PacketMap := \<lparr> MappingSize = 1,
       Mapping = (replicate 20 None)[unat LOLA_LINK_HEADER_SHORT_WITH_ACK := Some LinkShortWithAckPacketDefinition] \<rparr>,
     CallbackHandler := AsyncQueue_new\<lparr>EventQueue := [(ActionProcessIncomingPacket, 0)]\<rparr>,
     CryptoEncoder := Encoder_new\<lparr>EncoderState := AllReady, KeyHolder := replicate 16 9\<rparr>\<rparr>"

definition challenged_remote :: LoLaLinkRemoteService where
  "challenged_remote = searching_remote\<lparr>ServiceState := Active, LinkingState := Remote_SendingPublicKey,
     LinkInfo := (LinkInfo searching_remote)\<lparr>SessionId := 7\<rparr>, drv := challenged_driver\<rparr>"

lemma challenged_fields:
  "GetLinkState challenged_remote = AwaitingLink" "LinkingState challenged_remote = Remote_SendingPublicKey"
  "SessionId (LinkInfo challenged_remote) = 7" "ServiceState challenged_remote = Active"
  "KeysLastGenerated challenged_remote = 0" "LinkStateStart challenged_remote = 0"
  "SendStatus challenged_remote = Done" "Definition (Packet challenged_remote) = None"
  "drv challenged_remote = challenged_driver" "LocalMacGenerator (LinkInfo challenged_remote) = MAC_new"
  by (simp_all add: challenged_remote_def sample_ends LinkInfo_UpdateState_def LinkInfo_SetDriver_def LinkInfo_new_def)

lemma challenge_platform_fields:
  "radio_rx_bytes challenge_platform n = le16_bytes (crc16_modbus sample_platform challenge_content) @ challenge_content"
  "crc16_modbus challenge_platform = crc16_modbus sample_platform"
  "ring_actions challenge_platform = sample_ring 4" "cypher_ok challenge_platform" "actions_ok challenge_platform"
  by (simp_all add: challenge_platform_def, simp_all add: cypher_ok_def cypher_load_def comp_def actions_ok_def)

lemma challenge_platform_id: "local_id challenge_platform = local_id sample_platform"
proof -
  have "crc_upd_chain challenge_platform c bs = crc_upd_chain sample_platform c bs" for c bs
    by (induction bs arbitrary: c) (simp_all add: challenge_platform_def)
  then have "crc_chain challenge_platform bs = crc_chain sample_platform bs" for bs
    by (cases bs) (simp_all add: challenge_platform_def)
  then show ?thesis by (simp add: local_id_chain) (simp add: challenge_platform_def)
qed

lemma DecodeIncoming_key:
  "KeyHolder (CryptoEncoder (snd (Driver_DecodeIncoming P d))) = KeyHolder (CryptoEncoder d)"
  by (simp add: Driver_DecodeIncoming_def case_prod_unfold Let_def lola_frame)

lemma CommitReceived_encoder: "CryptoEncoder (Driver_CommitReceived P d) = CryptoEncoder d"
  by (simp add: Driver_CommitReceived_def Driver_IsReceiveCollision_def Driver_IsInReceiveSlot_def case_prod_unfold Let_def)

text \<open>The frame is read, checked and looked up.\<close>

lemma challenge_received:
  fixes d
  defines "d \<equiv> Driver_ReadReceived challenge_platform (challenged_driver\<lparr>CallbackHandler :=
    (CallbackHandler challenged_driver)\<lparr>EventQueue := []\<rparr>, DriverActiveState := ProcessingIncoming\<rparr>)"
  obtains b where "Driver_DecodeIncoming challenge_platform d = (True, b)"
    and "Definition (IncomingPacket b) = Some LinkShortWithAckPacketDefinition"
    and "LoLaPacket_GetDataHeader (IncomingPacket b) = LOLA_LINK_HEADER_SHORT_WITH_ACK"
    and "LoLaPacket_GetId (IncomingPacket b) = 7"
    and "take 4 (LoLaPacket_GetPayload (IncomingPacket b)) = map (\<lambda>x. x + 9) (le32_bytes (local_id sample_platform))"
    and "KeyHolder (CryptoEncoder b) = replicate 16 9"
proof -
  let ?c = "crc16_modbus sample_platform challenge_content"
  let ?f = "le16_bytes ?c @ challenge_content"
  have l: "length challenge_content = 6" by (simp add: challenge_content_def)
  have d: "IncomingPacketSize d = 8" "PacketMap d = PacketMap challenged_driver" "CryptoEncoder d = CryptoEncoder challenged_driver"
    by (simp_all add: d_def ReadReceived_counts, simp add: challenged_driver_def)
  have raw: "Raw (IncomingPacket d) = le16_bytes ?c @ challenge_content @ drop 8 (Raw (LoLaPacket_new LOLA_PACKET_MAX_PACKET_SIZE))"
    using ReadReceived_raw [of "challenged_driver\<lparr>CallbackHandler :=
        (CallbackHandler challenged_driver)\<lparr>EventQueue := []\<rparr>, DriverActiveState := ProcessingIncoming\<rparr>" ?f challenge_platform] l
    by (simp add: d_def challenge_platform_fields challenged_driver_def Driver_new_def LoLaPacket_new_def lola_consts)
  have enc: "Encoder_Encode challenge_platform challenge_content 6 (CryptoEncoder d) = (?c, challenge_content, CryptoEncoder d)"
    using l by (simp add: Encoder_Encode_def d challenged_driver_def challenge_platform_fields)
  have known: "PacketMap_GetDefinition (challenge_content ! 0) (PacketMap d) = Some LinkShortWithAckPacketDefinition"
    by (simp add: d challenged_driver_def PacketMap_GetDefinition_def challenge_content_def lola_consts)
  obtain b where b: "Driver_DecodeIncoming challenge_platform d = (True, b)"
    "Definition (IncomingPacket b) = Some LinkShortWithAckPacketDefinition"
    "Raw (IncomingPacket b) = le16_bytes ?c @ challenge_content @ drop 8 (Raw (LoLaPacket_new LOLA_PACKET_MAX_PACKET_SIZE))"
    using DecodeIncoming_frame_ok [OF _ challenge_platform_fields(4) _ enc _ _ _ raw _ _ known] l
    by (auto simp: same_library_def same_crypto_def d LoLaPacket_new_def lola_consts challenge_content_def
        LinkShortWithAckPacketDefinition_def)
  show thesis
  proof (rule that [OF b(1,2)])
    show "LoLaPacket_GetDataHeader (IncomingPacket b) = LOLA_LINK_HEADER_SHORT_WITH_ACK"
      "LoLaPacket_GetId (IncomingPacket b) = 7"
      "take 4 (LoLaPacket_GetPayload (IncomingPacket b)) = map (\<lambda>x. x + 9) (le32_bytes (local_id sample_platform))"
      by (simp_all add: LoLaPacket_GetDataHeader_def LoLaPacket_GetId_def LoLaPacket_GetPayload_def b(3)
          challenge_content_def le16_bytes_def lola_consts numeral_eq_Suc)
    show "KeyHolder (CryptoEncoder b) = replicate 16 9"
      using DecodeIncoming_key [of challenge_platform d] by (simp add: b(1) d challenged_driver_def)
  qed
qed

text \<open>It passes the test of the challenge.\<close>

lemma challenge_met:
  assumes "LoLaPacket_GetDataHeader p = LOLA_LINK_HEADER_SHORT_WITH_ACK" and "LoLaPacket_GetId p = 7"
    and "take 4 (LoLaPacket_GetPayload p) = map (\<lambda>x. x + 9) (le32_bytes (local_id sample_platform))"
    and "KeyHolder (CryptoEncoder d) = replicate 16 9"
  shows "challenge_ok challenge_platform p (challenged_remote\<lparr>drv := d\<rparr>)"
proof -
  have "known_id (local_id sample_platform) (challenged_remote\<lparr>drv := d\<rparr>)" by (simp add: known_id_def challenged_fields)
  from known_id_GetLocalId(1) [OF this challenge_platform_id]
  have "fst (LinkInfo_GetLocalId challenge_platform (LinkInfo challenged_remote)) = local_id sample_platform" by simp
  then show ?thesis
    using assms
    by (simp add: challenge_ok_def challenged_fields LinkInfo_HasSessionId_def Encoder_DecodeDirect_def cypher_load_def
        challenge_platform_def comp_def case_prod_unfold Let_def lola_consts)
qed

definition challenge_turn :: LoLaLinkRemoteService where
  "challenge_turn = snd (Driver_AsyncCallback challenge_platform (Manager_handlers remote_manager) challenged_remote)"

lemma challenge_taken: "arrives challenge_platform (challenge_ok challenge_platform) challenged_remote"
  and challenge_turn_fields: "GetLinkState challenge_turn = AwaitingLink" "LinkingState challenge_turn = Remote_LinkingSwitchOver"
    "KeysLastGenerated challenge_turn = 0" "LinkStateStart challenge_turn = 0" "SendStatus challenge_turn = Done"
    "Definition (Packet challenge_turn) = None"
proof -
  let ?P = "challenge_platform"
  obtain b where b: "Driver_DecodeIncoming ?P (Driver_ReadReceived ?P (challenged_driver\<lparr>CallbackHandler :=
      (CallbackHandler challenged_driver)\<lparr>EventQueue := []\<rparr>, DriverActiveState := ProcessingIncoming\<rparr>)) = (True, b)"
    "Definition (IncomingPacket b) = Some LinkShortWithAckPacketDefinition"
    "LoLaPacket_GetDataHeader (IncomingPacket b) = LOLA_LINK_HEADER_SHORT_WITH_ACK" "LoLaPacket_GetId (IncomingPacket b) = 7"
    "take 4 (LoLaPacket_GetPayload (IncomingPacket b)) = map (\<lambda>x. x + 9) (le32_bytes (local_id sample_platform))"
    "KeyHolder (CryptoEncoder b) = replicate 16 9"
    by (rule challenge_received)
  define d where "d = Driver_CommitReceived ?P b"
  let ?v = "challenged_remote\<lparr>drv := d\<rparr>"
  have ok: "challenge_ok ?P (IncomingPacket d) ?v"
    by (rule challenge_met) (simp_all add: d_def CommitReceived_encoder b)
  have q: "EventQueue (CallbackHandler challenged_driver) = [(ActionProcessIncomingPacket, 0)]"
    "DriverActiveState challenged_driver = AwaitingProcessing" "IncomingPacketSize challenged_driver = 8"
    by (simp_all add: challenged_driver_def)
  have pull: "ring_pull (ring_actions ?P) [x] = Some (x, [])" for x
    by (simp add: challenge_platform_fields sample_ring_def)
  show "arrives ?P (challenge_ok ?P) challenged_remote"
    using ok by (simp add: arrives_def challenged_fields q pull receiving_driver_def b d_def)
  define r where "r = Link_ProcessAckedPacket (Remote_link_hooks (Lola_notify [])) ?P (IncomingPacket d) ?v"
  have fst: "fst r" and r: "snd r = Link_SetLinkingState Remote_LinkingSwitchOver (snd (on_info_result (LinkInfo_GetLocalId ?P)
      (on_encoder (\<lambda>_. snd (Encoder_DecodeDirect ?P (LoLaPacket_GetPayload (IncomingPacket d)) 4 (CryptoEncoder d))) ?v)))"
    using ok
    by (simp_all add: r_def challenge_ok_def Link_ProcessAckedPacket_def link_packet_defs Remote_link_hooks_def
        Remote_OnAckedPacketReceived_def Remote_OnCryptoStartReceived_def LinkInfo_GetSessionId_def case_prod_unfold Let_def)
      (simp_all add: lola_consts)
  have "srv_ReceivedAckedPacket Hopper_service ?P p w = (False, w)" for p and w :: LoLaLinkRemoteService
    by (simp add: Hopper_service_def)
  moreover have "srv_ReceivedAckedPacket (Remote_service (Lola_notify []) sample_platform) ?P (IncomingPacket d) ?v = r"
    by (simp add: Remote_service_def Service_ReceivedAckedPacket_def Link_ShouldProcessReceived_def Service_IsSetupOk_def
        challenged_fields r_def)
  moreover have "Manager_table remote_manager = [Hopper_service, Remote_service (Lola_notify []) sample_platform]"
    using sample_tables(2) by (simp add: node_table_def)
  ultimately have h: "h_ProcessAckedPacket (Manager_handlers remote_manager) ?P (IncomingPacket d) ?v = (True, snd r)"
    using fst by (simp add: Manager_handlers_def Manager_ProcessAckedPacket_def case_prod_unfold Let_def)
  have i: "IncomingPacket (drv ?v) = IncomingPacket d" by simp
  have dispatch: "Driver_Dispatch ?P (Manager_handlers remote_manager) LinkShortWithAckPacketDefinition ?v =
      on_drv (Driver_SendAck ?P) (snd r)"
    unfolding Driver_Dispatch_def Let_def i h
    by (simp add: link_packet_defs PacketDefinition_IsAck_def PacketDefinition_HasACK_def lola_consts)
  define w1 where "w1 = on_drv (\<lambda>d. d\<lparr>CallbackHandler := (CallbackHandler d)\<lparr>EventQueue := []\<rparr>\<rparr>) challenged_remote"
  have w1: "drv w1 = challenged_driver\<lparr>CallbackHandler := (CallbackHandler challenged_driver)\<lparr>EventQueue := []\<rparr>\<rparr>"
    "w1\<lparr>drv := x\<rparr> = challenged_remote\<lparr>drv := x\<rparr>" for x
    by (simp_all add: w1_def on_drv_def challenged_fields)
  have "Driver_ProcessIncoming ?P (Manager_handlers remote_manager) w1 = on_drv (Driver_SendAck ?P) (snd r)"
    unfolding Driver_ProcessIncoming_def Let_def
    by (simp add: w1 q ReadReceived_counts lola_consts b d_def [symmetric] dispatch)
  then have t: "\<exists>f. challenge_turn = on_drv f (on_drv (Driver_SendAck ?P) (snd r))"
    by (auto simp: challenge_turn_def Driver_AsyncCallback_def challenged_fields q pull w1_def [symmetric]
        Driver_OnAsyncAction_def Let_def)
  then obtain f where t: "challenge_turn = on_drv f (on_drv (Driver_SendAck ?P) (snd r))" by blast
  show "GetLinkState challenge_turn = AwaitingLink" "LinkingState challenge_turn = Remote_LinkingSwitchOver"
    "KeysLastGenerated challenge_turn = 0" "LinkStateStart challenge_turn = 0" "SendStatus challenge_turn = Done"
    "Definition (Packet challenge_turn) = None"
    by (simp_all add: t r challenged_fields, simp_all add: link_op_defs on_info_result_def case_prod_unfold Let_def challenged_fields)
qed

definition challenge_run_end :: LoLaLinkRemoteService where
  "challenge_run_end = Remote_Callback (Lola_notify []) sample_platform challenge_turn"

lemma challenge_run:
  "(remote_step [] remote_manager)\<^sup>*\<^sup>* challenged_remote challenge_run_end" "GetLinkState challenge_run_end = Linking"
proof -
  have "remote_step [] remote_manager challenged_remote challenge_turn"
    unfolding challenge_turn_def by (intro link_step.node node_step.task challenge_platform_fields(5))
  moreover have "remote_step [] remote_manager challenge_turn challenge_run_end"
    unfolding challenge_run_end_def by (intro link_step.node node_step.service) simp
  ultimately show "(remote_step [] remote_manager)\<^sup>*\<^sup>* challenged_remote challenge_run_end" by simp
  have "\<not> LOLA_LINK_SERVICE_UNLINK_REMOTE_MAX_BEFORE_SLEEP < Link_GetElapsedMillisSinceStateStart sample_platform challenge_turn"
    by (simp add: Link_GetElapsedMillisSinceStateStart_def elapsed_since_def challenge_turn_fields lola_consts)
  then have "Remote_OnAwaitingLink N sample_platform challenge_turn =
      (True, Remote_UpdateLinkState N sample_platform Linking challenge_turn)" for N
    by (simp add: Remote_OnAwaitingLink_def challenge_turn_fields) (simp add: lola_consts)
  then have "challenge_run_end = Remote_UpdateLinkState (Lola_notify []) sample_platform Linking challenge_turn"
    by (simp add: challenge_run_end_def Remote_Callback_def Send_Callback_def Send_HasSendPending_def challenge_turn_fields
        Remote_send_hooks_def Remote_OnService_def Link_OnService_def Remote_link_hooks_def)
      (simp add: lola_consts)
  then show "GetLinkState challenge_run_end = Linking" by (rule ssubst) (rule UpdateLinkState_state)
qed

theorem remote_takes_only_its_challenge_witness:
  "(\<exists>u u'. (remote_step [] remote_manager)\<^sup>*\<^sup>* challenged_remote u \<and> unauthenticated u \<and>
     challenge_step remote_manager u u' \<and> (remote_step [] remote_manager)\<^sup>*\<^sup>* u' challenge_run_end) \<and>
   \<not> fst (Link_ProcessAckedPacket (Remote_link_hooks (\<lambda>P b s. s)) sample_platform
       (LoLaPacket_new LOLA_LINK_SERVICE_PACKET_MAX_SIZE) challenged_remote)"
proof -
  have u: "unauthenticated challenged_remote" by (simp add: unauthenticated_def challenged_fields lola_consts)
  have n: "LinkingState challenged_remote \<noteq> Remote_LinkingSwitchOver" by (simp add: challenged_fields lola_consts)
  have "\<not> challenge_ok sample_platform (LoLaPacket_new LOLA_LINK_SERVICE_PACKET_MAX_SIZE) challenged_remote"
    by (simp add: challenge_ok_def LoLaPacket_GetDataHeader_def LoLaPacket_new_def lola_consts)
  then show ?thesis
    using remote_takes_only_its_challenge [OF challenged_fields(1) prod.collapse [symmetric] n sample_tables(2) challenge_run(1) u,
        of "\<lambda>P b s. s" sample_platform "LoLaPacket_new LOLA_LINK_SERVICE_PACKET_MAX_SIZE"] challenge_run(2)
    by simp
qed

end
