(* ===== verification/Lost_Tune.thy ===== *)
theory Lost_Tune
  imports Node_Turns Handshake
begin

text \<open>
  A remote whose request for a tuning of its clock is not answered: what the whole node does about its
  clock for the rest of the link.
\<close>

section \<open>The tuning of the clock\<close>

text \<open>The members the tuning uses. They are the link service's own.\<close>

definition tune_view :: "'a LoLaLinkRemoteService_scheme \<Rightarrow>
    ClockSyncRequestTransaction \<times> LinkRemoteClockSyncer \<times> u32 \<times> LoLaPacket" where
  "tune_view s = (RemoteClockSyncTransaction s, RemoteClockSyncer s, clock_offset (drv s), Packet s)"

definition requests_tuning :: "LoLaPacket \<Rightarrow> bool" where
  "requests_tuning p \<longleftrightarrow> Definition p = Some LinkShortPacketDefinition \<and>
     LoLaPacket_GetPayload p ! 0 = LOLA_LINK_SUBHEADER_NTP_TUNE_REQUEST"

text \<open>Still linked, still waiting for the same reply, with the clock as it was and no further request.\<close>

definition stalled :: "'a LoLaLinkRemoteService_scheme \<Rightarrow> 'a LoLaLinkRemoteService_scheme \<Rightarrow> bool" where
  "stalled s t \<longleftrightarrow> GetLinkState t = Linked \<and> Request_IsRequested (RemoteClockSyncTransaction s) \<and>
     RemoteClockSyncTransaction t = RemoteClockSyncTransaction s \<and> RemoteClockSyncer t = RemoteClockSyncer s \<and>
     clock_offset (drv t) = clock_offset (drv s) \<and> (requests_tuning (Packet t) \<longrightarrow> requests_tuning (Packet s))"

text \<open>The packet that would end the wait.\<close>

definition tune_answer :: "LoLaPacket \<Rightarrow> 'a LoLaLinkRemoteService_scheme \<Rightarrow> bool" where
  "tune_answer p s \<longleftrightarrow> LoLaPacket_GetDataHeader p = LOLA_LINK_HEADER_SHORT \<and>
     LoLaPacket_GetPayload p ! 0 = LOLA_LINK_SUBHEADER_NTP_TUNE_REPLY \<and>
     LoLaPacket_GetId p = RequestId (RemoteClockSyncTransaction s)"

lemma scheduled_tuning [simp]:
  "RemoteClockSyncTransaction (Service_SetNextRunASAP w) = RemoteClockSyncTransaction w"
  "RemoteClockSyncer (Service_SetNextRunASAP w) = RemoteClockSyncer w"
  "RemoteClockSyncTransaction (Service_SetNextRunDelay x w) = RemoteClockSyncTransaction w"
  "RemoteClockSyncer (Service_SetNextRunDelay x w) = RemoteClockSyncer w"
  by (simp_all add: Service_SetNextRunASAP_def Service_SetNextRunDelay_def)

interpretation stalled: node_watch "stalled s" for s :: "'a LoLaLinkRemoteService_scheme"
  by unfold_locales
     (simp_all add: stalled_def Send_ClearSendRequest_def requests_tuning_def LoLaPacket_ClearDefinition_def)

lemma stalled_views:
  "link_view t' = link_view t \<Longrightarrow> tune_view t' = tune_view t \<Longrightarrow> stalled s t' = stalled s t"
  by (simp add: link_view_def tune_view_def stalled_def)

lemma stalled_frame:
  "stalled s t \<Longrightarrow> GetLinkState t' = GetLinkState t \<Longrightarrow> RemoteClockSyncTransaction t' = RemoteClockSyncTransaction t \<Longrightarrow>
    RemoteClockSyncer t' = RemoteClockSyncer t \<Longrightarrow> clock_offset (drv t') = clock_offset (drv t) \<Longrightarrow>
    (requests_tuning (Packet t') \<longrightarrow> requests_tuning (Packet t)) \<Longrightarrow> stalled s t'"
  by (simp add: stalled_def)

lemma stalled_if: "(c \<Longrightarrow> stalled s a) \<Longrightarrow> (\<not> c \<Longrightarrow> stalled s b) \<Longrightarrow> stalled s (if c then a else b)"
  by simp

section \<open>The service\<close>

lemma store_keeps_before: "i < off \<Longrightarrow> store off src dst ! i = dst ! i"
  by (induction off src dst rule: store.induct) simp_all

lemma requests_tuning_filled: "requests_tuning (LoLaPacket_SetPayload (Suc n) bs p) = requests_tuning p"
proof -
  have "drop k (store (k + Suc n) bs r) ! 0 = drop k r ! 0" for k and r :: "u8 list"
    by (cases "k < length r") (simp_all add: store_keeps_before)
  then show ?thesis by (simp add: requests_tuning_def LoLaPacket_SetPayload_def LoLaPacket_GetPayload_def)
qed

lemma report_no_request: "\<not> requests_tuning (Packet (Link_PrepareLinkReport b w))"
  by (simp add: Link_PrepareLinkReport_def Link_PrepareReportPacket_def Link_Prepare_def Link_SetPayload_def
      LoLaPacket_SetPayload_def LoLaPacket_SetId_def LoLaPacket_SetDefinition_def requests_tuning_def Let_def)
     (simp add: link_packet_defs lola_consts)

lemma SetTransmitPower_offset [simp]: "clock_offset (Driver_SetTransmitPower P x d) = clock_offset d"
  by (simp add: Driver_SetTransmitPower_def Let_def) (simp add: clock_offset_def)

lemma Balancer_offset [simp]: "clock_offset (snd (snd (snd (Balancer_Update P b i d)))) = clock_offset d"
  by (simp add: Balancer_Update_def Balancer_SetMaxPower_def case_prod_unfold Let_def)

lemma Balancer_state [simp]: "LinkState (fst (snd (snd (Balancer_Update P b i d)))) = LinkState i"
  by (simp add: Balancer_Update_def case_prod_unfold Let_def)

lemma Remote_keeping_waits:
  assumes "stalled s t"
  shows "Remote_OnKeepingLink P t = Service_SetNextRunDelay LOLA_LINK_SERVICE_IDLE_PERIOD t"
proof -
  have "Request_IsRequested (RemoteClockSyncTransaction t)" using assms by (simp add: stalled_def)
  moreover from this have "\<not> Request_IsResultWaiting (RemoteClockSyncTransaction t)"
    by (simp add: Request_IsRequested_def Request_IsResultWaiting_def lola_consts)
  ultimately show ?thesis by (simp add: Remote_OnKeepingLink_def Let_def)
qed

lemma request_stalls:
  "stalled s t \<Longrightarrow> stalled s (Send_RequestSendPacket P x y t)"
  by (simp add: Send_RequestSendPacket_def stalled_def)

lemma Remote_OnKeepingLinkCommon_stalled:
  assumes "stalled s t"
  shows "stalled s (Link_OnKeepingLinkCommon Remote_OnKeepingLink P t)"
proof -
  obtain c b i d where u: "Balancer_Update P (PowerBalancer t) (LinkInfo t) (drv t) = (c, b, i, d)"
    by (metis prod.collapse)
  let ?t = "t\<lparr>PowerBalancer := b, LinkInfo := i, drv := d\<rparr>"
  have "clock_offset d = clock_offset (drv t)" "LinkState i = GetLinkState t"
    using Balancer_offset [of P "PowerBalancer t" "LinkInfo t" "drv t"] Balancer_state [of P "PowerBalancer t" "LinkInfo t" "drv t"]
    by (simp_all add: u)
  then have t: "stalled s ?t" using assms by (simp add: stalled_def)
  have r: "stalled s (Link_PrepareLinkReport f ?t)" for f
    by (rule stalled_frame [OF t])
       (simp_all add: report_no_request, simp_all add: Link_PrepareLinkReport_def Link_PrepareReportPacket_def Link_Prepare_def
         Link_SetPayload_def Let_def)
  have p: "stalled s (?t\<lparr>ReportPending := True\<rparr>)" by (rule stalled_frame [OF t]) simp_all
  show ?thesis
    unfolding Link_OnKeepingLinkCommon_def u Let_def case_prod_conv
    by (intro stalled_if) (simp_all add: stalled.schedule t r p request_stalls Remote_keeping_waits [OF t])
qed

lemma Remote_OnService_stalled:
  assumes "stalled s t"
  shows "stalled s (Remote_OnService N P t) \<or> GetLinkState (Remote_OnService N P t) \<noteq> Linked"
proof -
  have "GetLinkState t = Linked" using assms by (simp add: stalled_def)
  then show ?thesis
    using Remote_OnKeepingLinkCommon_stalled [OF assms, of P]
    by (simp add: Remote_OnService_def Link_OnService_def Remote_link_hooks_def)
qed

lemma Remote_Callback_stalled:
  assumes "stalled s t"
  shows "stalled s (Remote_Callback N P t) \<or> GetLinkState (Remote_Callback N P t) \<noteq> Linked"
proof -
  have pre: "stalled s (Remote_OnPreSend P w)" if "stalled s w" for w
    by (rule stalled_frame [OF that])
       (simp_all add: Remote_OnPreSend_def Link_S_ArrayToPayload_def Link_SetPayload_def requests_tuning_filled
         [of 0, simplified])
  have ok: "stalled s (Link_OnSendOk P h x w)" if "stalled s w" for h x w
    by (rule stalled_frame [OF that]) (simp_all add: Link_OnSendOk_def Let_def on_info_def)
  show ?thesis
    unfolding Remote_Callback_def
    by (rule stalled.callback_stays [where E = "\<lambda>w. GetLinkState w \<noteq> Linked"])
       (simp_all add: Remote_send_hooks_def Send_default_hooks_def assms Remote_OnService_stalled pre ok
         Link_OnSendFailed_def stalled.schedule)
qed

section \<open>Packets\<close>

lemma Remote_packet_stalled:
  assumes t: "stalled s t" and no: "\<not> tune_answer p t"
  shows "stalled s (snd (Link_ProcessPacket (Remote_link_hooks N) P p t))"
proof -
  have l: "GetLinkState t = Linked" using t by (simp add: stalled_def)
  have h: "Remote_OnIdBroadcastReceived N P i x t = t" "Remote_OnHostPublicKeyReceived P i bs t = t"
    "Remote_OnHostInfoSyncRequestReceived P t = t" "Remote_OnHostInfoSyncReceived P r y t = t"
    "Remote_OnClockSyncResponseReceived P i x t = t" for i x bs r y
    using l by (simp_all add: Remote_OnIdBroadcastReceived_def Remote_OnHostPublicKeyReceived_def
        Remote_OnHostInfoSyncRequestReceived_def Remote_OnHostInfoSyncReceived_def Remote_OnClockSyncResponseReceived_def)
  have r: "stalled s (Link_OnLinkInfoReportReceived P r c t)"
    "stalled s (Link_OnLinkInfoReportReceived P r c (t\<lparr>ReportPending := True\<rparr>))" for r c
    by (rule stalled_frame [OF t]; simp add: Link_OnLinkInfoReportReceived_def on_info_def)+
  have tune: "stalled s (Remote_OnClockSyncTuneResponseReceived P i x t)"
    if "i \<noteq> RequestId (RemoteClockSyncTransaction t)" for i x
    using that t by (simp add: Remote_OnClockSyncTuneResponseReceived_def Request_SetResult_def stalled.schedule)
  note hooks = Remote_link_hooks_def Link_default_hooks_def
  have "stalled s (Link_ProcessShort (Remote_link_hooks N) P p t)" if "LoLaPacket_GetDataHeader p = LOLA_LINK_HEADER_SHORT"
    unfolding Link_ProcessShort_def Let_def
    by (intro stalled_if) (use that no in \<open>simp_all add: hooks h t tune tune_answer_def\<close>)
  moreover have "stalled s (Link_ProcessLong (Remote_link_hooks N) P p t)"
    unfolding Link_ProcessLong_def Let_def by (intro stalled_if) (simp_all add: hooks h t)
  moreover have "stalled s (Link_ProcessReport (Remote_link_hooks N) P p t)"
    unfolding Link_ProcessReport_def Let_def by (intro stalled_if) (simp_all add: hooks h r t)
  ultimately show ?thesis by (simp add: Link_ProcessPacket_def Let_def t)
qed

lemma Remote_acked_stalled:
  assumes "stalled s t"
  shows "stalled s (snd (Link_ProcessAckedPacket (Remote_link_hooks N) P p t))"
proof -
  have "GetLinkState t = Linked" using assms by (simp add: stalled_def)
  then show ?thesis
    using assms by (simp add: Link_ProcessAckedPacket_def Remote_link_hooks_def Remote_OnAckedPacketReceived_def)
qed

section \<open>The node\<close>

text \<open>Applications that leave the link service's members alone.\<close>

definition tune_private :: "'a LoLaLinkRemoteService_scheme service \<Rightarrow> bool" where
  "tune_private S \<longleftrightarrow> (\<forall>P p h i w. tune_view (snd (srv_ReceivedPacket S P p w)) = tune_view w \<and>
     tune_view (snd (srv_ReceivedAckedPacket S P p w)) = tune_view w \<and>
     tune_view (snd (srv_ReceivedAck S P h i w)) = tune_view w \<and> tune_view (snd (srv_ProcessSent S P h w)) = tune_view w)"

lemma remote_turn_stalled:
  assumes M: "remote_table P0 apps M" and A: "\<forall>S \<in> set apps. tune_private S"
    and t: "stalled s t" and no: "\<not> arrives P tune_answer t"
  shows "stalled s (snd (Driver_AsyncCallback P (Manager_handlers M) t))"
proof -
  have T: "Manager_table M = Hopper_service # Remote_service (Lola_notify apps) P0 # apps"
    and S: "\<And>S. S \<in> set apps \<Longrightarrow> side_service S"
    using M by (simp_all add: node_table_def)
  have view: "stalled s (snd (srv_ReceivedPacket S P p w)) = stalled s w"
    "stalled s (snd (srv_ReceivedAckedPacket S P p w)) = stalled s w"
    "stalled s (snd (srv_ReceivedAck S P h i w)) = stalled s w"
    "stalled s (snd (srv_ProcessSent S P h w)) = stalled s w" if "S \<in> set apps" for S p h i w
    using A that by (auto intro!: stalled_views side_service.views(1-4) [OF S [OF that]] simp: tune_private_def)
  note taker = stalled.first_taker_table [OF T]
  note link = Remote_service_def Service_ReceivedPacket_def Service_ReceivedAckedPacket_def Service_ReceivedAck_def
  show ?thesis
  proof (rule stalled.AsyncCallback_keeps [where Q = tune_answer, OF _ _ _ _ t no])
    fix p h and w :: "'a LoLaLinkRemoteService_scheme"
    assume w: "stalled s w"
    show "stalled s (h_ProcessPacket (Manager_handlers M) P p w)" if "\<not> tune_answer p w"
      unfolding Manager_handlers_def Manager_ProcessPacket_def handlers.simps
      by (rule taker) (simp_all add: Hopper_service_def link w that view Remote_packet_stalled)
    show "stalled s (snd (h_ProcessAckedPacket (Manager_handlers M) P p w))"
      unfolding Manager_handlers_def Manager_ProcessAckedPacket_def handlers.simps
      by (rule taker) (simp_all add: Hopper_service_def link w view Remote_acked_stalled)
    show "stalled s (h_ProcessAck (Manager_handlers M) P p w)"
      unfolding Manager_handlers_def Manager_ProcessAck_def handlers.simps
      by (rule taker) (simp_all add: Hopper_service_def link w view stalled.process_sent)
    have "stalled s (snd (first_taker (\<lambda>s. srv_ProcessSent s P h) (Manager_table M) w))"
      by (rule taker) (simp_all add: Hopper_service_def link w view stalled.process_sent)
    then show "stalled s (h_ProcessSent (Manager_handlers M) P h w)"
      by (simp add: Manager_handlers_def Manager_ProcessSent_def w)
  qed
qed

text \<open>
  A step of a remote that stays linked and takes no reply to its request: of one of its tasks, the
  radio, the second's interrupt, the hopper or the application, which may do anything but to the
  members of the link service.
\<close>

inductive unanswered_step ::
  "'a LoLaLinkRemoteService_scheme service list \<Rightarrow> 'a LoLaLinkRemoteService_scheme LoLaServicesManager \<Rightarrow>
   'a LoLaLinkRemoteService_scheme \<Rightarrow> 'a LoLaLinkRemoteService_scheme \<Rightarrow> bool" for apps M where
  node: "node_step (Manager_handlers M) (Remote_Callback (Lola_notify apps)) (Remote_UpdateLinkState (Lola_notify apps)) w w' \<Longrightarrow>
    (\<And>P. w' = snd (Driver_AsyncCallback P (Manager_handlers M) w) \<Longrightarrow> \<not> arrives P tune_answer w) \<Longrightarrow>
    GetLinkState w' = Linked \<Longrightarrow> unanswered_step apps M w w'"
| application: "link_view w' = link_view w \<Longrightarrow> tune_view w' = tune_view w \<Longrightarrow> unanswered_step apps M w w'"

lemma unanswered_step_stalled:
  assumes M: "remote_table P0 apps M" and A: "\<forall>S \<in> set apps. tune_private S"
    and "unanswered_step apps M t t'" and t: "stalled s t"
  shows "stalled s t'"
  using assms(3)
proof (cases rule: unanswered_step.cases)
  case application
  then show ?thesis using stalled_views t by blast
next
  case node
  note linked = node(3)
  from node(1) show ?thesis
  proof (cases rule: node_step.cases)
    case (task P)
    then show ?thesis using remote_turn_stalled [OF M A t] node(2) by blast
  next
    case (service P)
    then show ?thesis using Remote_Callback_stalled [OF t] linked by blast
  next
    case (radio d)
    then show ?thesis using stalled.on_driver [OF clock_offset_interrupt t] by blast
  next
    case (second P)
    then show ?thesis by (simp add: stalled.driver_op t)
  next
    case (hopper P)
    then show ?thesis by (simp add: stalled_frame [OF t])
  next
    case (start P)
    then show ?thesis
      using t linked by (cases "ServiceEnabled t") (simp_all add: Lola_Start_def Link_Enable_def Service_Enable_def)
  next
    case (stop P)
    then show ?thesis using linked by (simp add: Lola_Stop_def)
  qed
qed

text \<open>C36. The clock is tuned until one reply is lost: once a linked remote has asked for a tuning, no run
  of the node in which the link lasts and the reply to this very request does not come in asks again,
  however long it goes on and whatever the tasks, the radio, other packets, the seconds and the
  applications do: the transaction, the state of the synchroniser and the offset of the clock are not
  touched any more, and no further tuning request is put into the packet to be sent. That the tuning is
  due, and that the request is long out of date, does not matter.\<close>
theorem lost_tune_reply_stalls:
  assumes "remote_table P0 apps M" and "\<forall>S \<in> set apps. tune_private S"
    and "GetLinkState s = Linked" and "Request_IsRequested (RemoteClockSyncTransaction s)"
    and "(unanswered_step apps M)\<^sup>*\<^sup>* s t"
  shows "GetLinkState t = Linked \<and> RemoteClockSyncTransaction t = RemoteClockSyncTransaction s \<and>
    RemoteClockSyncer t = RemoteClockSyncer s \<and>
    OffsetMicros (SyncedClock (drv t)) = OffsetMicros (SyncedClock (drv s)) \<and>
    (requests_tuning (Packet t) \<longrightarrow> requests_tuning (Packet s))"
proof -
  have "stalled s s" using assms(3,4) by (simp add: stalled_def)
  with assms(5) have "stalled s t"
    by (induction rule: rtranclp_induct) (auto intro: unanswered_step_stalled [OF assms(1,2)])
  then show ?thesis by (simp add: stalled_def clock_offset_def)
qed

section \<open>A remote that waits\<close>

text \<open>Ten minutes after its request, the partner being heard a second ago.\<close>

definition waiting_remote :: LoLaLinkRemoteService where
  "waiting_remote = sample_remote\<lparr>LinkInfo := LinkInfo_UpdateState Linked (LinkInfo sample_remote),
     RemoteClockSyncer := RemoteSyncer_SetSynced sample_platform RemoteSyncer_new,
     RemoteClockSyncTransaction := Request_SetRequested sample_platform Request_new,
     drv := Driver_new\<lparr>LastValidReceivedMicros := 599000000\<rparr>\<rparr>"

definition late_platform :: platform where
  "late_platform = sample_platform\<lparr>millis_now := 600000, micros_now := 600000000\<rparr>"

lemma waiting_fields:
  "GetLinkState waiting_remote = Linked" "Request_IsRequested (RemoteClockSyncTransaction waiting_remote)"
  "DriverActiveState (drv waiting_remote) = DriverDisabled" "LastValidReceivedMicros (drv waiting_remote) = 599000000"
  "SendStatus waiting_remote = Done" "Definition (Packet waiting_remote) = None"
  "RemoteClockSyncTransaction waiting_remote = Request_SetRequested sample_platform Request_new"
  "RemoteClockSyncer waiting_remote = RemoteSyncer_SetSynced sample_platform RemoteSyncer_new"
  by (simp_all add: waiting_remote_def sample_ends Request_IsRequested_def Request_SetRequested_def Driver_new_def
      LinkInfo_UpdateState_def)

definition waited_remote :: LoLaLinkRemoteService where
  "waited_remote = Remote_Callback (Lola_notify []) late_platform
     (on_drv (on_clock (Clock_OnInterrupt late_platform)) waiting_remote)"

lemma unanswered_run: "(unanswered_step [] remote_manager)\<^sup>*\<^sup>* waiting_remote waited_remote"
proof -
  define w where "w = on_drv (on_clock (Clock_OnInterrupt late_platform)) waiting_remote"
  have w: "GetLinkState w = Linked" "DriverActiveState (drv w) = DriverDisabled" "SendStatus w = Done"
    "Definition (Packet w) = None" "LastValidReceivedMicros (drv w) = 599000000"
    by (simp_all add: w_def waiting_fields, simp_all add: on_drv_def on_clock_def waiting_fields)
  have "stalled waiting_remote w"
    unfolding w_def by (rule stalled.driver_op) (simp_all add: stalled_def waiting_fields(1,2))
  from Remote_OnKeepingLinkCommon_stalled [OF this, of late_platform]
  have k: "GetLinkState (Link_OnKeepingLinkCommon Remote_OnKeepingLink late_platform w) = Linked" by (simp add: stalled_def)
  have e: "waited_remote = Remote_Callback (Lola_notify []) late_platform w" by (simp only: waited_remote_def w_def)
  have "GetLinkState (Remote_Callback (Lola_notify []) late_platform w) = Linked"
    using k
    by (simp add: Remote_Callback_def Send_Callback_def Send_HasSendPending_def w
        Remote_send_hooks_def Remote_OnService_def Link_OnService_def Remote_link_hooks_def
        Driver_GetElapsedMillisLastValidReceived_def late_platform_def lola_consts)
  then have "unanswered_step [] remote_manager w waited_remote"
    unfolding e
    by (intro unanswered_step.node node_step.service)
       (simp_all add: arrives_def w Let_def late_platform_def actions_ok_def split: option.split)
  moreover have "unanswered_step [] remote_manager waiting_remote w"
    unfolding w_def
    by (intro unanswered_step.node node_step.second)
       (simp_all add: arrives_def waiting_fields Let_def split: option.split)
  ultimately show ?thesis by simp
qed

theorem lost_tune_reply_stalls_witness:
  "RemoteSyncer_IsTimeToTune late_platform (RemoteClockSyncer waited_remote) \<and>
   RemoteClockSyncTransaction waited_remote = Request_SetRequested sample_platform Request_new \<and>
   \<not> requests_tuning (Packet waited_remote)"
  using lost_tune_reply_stalls [OF sample_tables(2) _ waiting_fields(1,2) unanswered_run]
  by (simp add: waiting_fields requests_tuning_def)
     (simp add: RemoteSyncer_IsTimeToTune_def RemoteSyncer_SetSynced_def Syncer_StampSynced_def late_platform_def lola_consts)

end
