(* ===== verification/Spec2Isabelle.thy ===== *)
theory Spec2Isabelle
  imports Key_Exchange Driver_Duplex Controller_Surface Packet_Delivery Node_Safety Serial_Id Link_Faults
    Link_Packets Tracked_Stream Key_Entropy Timed_Hop Radio_Scanner Example_Session
    Discovery_Window Remote_Challenge Lost_Tune
begin

text \<open>
  A verification library for LoLa, a low latency radio link for microcontrollers.

  Two boards share a Si446x radio channel. One is the host, the other the remote. The packet driver
  (\<open>src/src/PacketDriver\<close>) sends and receives frames, each with a 16 bit CRC and, once a link is up,
  encrypted; deferred actions keep its interrupt handlers short. Services
  (\<open>src/src/Services\<close>) are tasks that get the packets whose headers they registered. One of them, the
  link service, finds the partner, exchanges public keys, starts the encryption, synchronises the
  clocks and keeps the link; the others run on top of it, above all the synchronised surface, a block
  of memory mirrored from one board to the other. A manager puts a node together.

  \<^bold>\<open>How the code is modelled.\<close> A class is a record, a derived class an extension of the record of
  its base; a method is a function on the record that takes and returns the object. The driver is a
  field of every service (\<open>drv\<close>, theory \<open>Driver_Node\<close>), since every service holds a pointer to it.
  Virtual methods are the fields of a record of functions (\<open>send_hooks\<close>, \<open>sync_hooks\<close>, \<open>link_hooks\<close>,
  \<open>service\<close>), one value of it per class, in the place of the virtual table. Integers keep their width
  (\<open>u8\<close>, \<open>u16\<close>, \<open>u32\<close>), so differences of time stamps wrap as they do in C. A method that
  may fail returns a \<open>bool\<close> or an option with its state. A read or write outside an array, a null
  definition and a missing return are recorded as faults or as parameters, never invented. What is not in
  the repository (the clock, \<open>random\<close>, Ascon128, SHA256, FastCRC, micro-ecc, RingBufCPP, BitTracker, the
  radio chip) is a field of the record \<open>platform\<close>, the first argument of what uses it;
  \<open>cypher_ok\<close>, \<open>hash_ok\<close>, \<open>ecc_ok\<close>, \<open>ring_ok\<close> and \<open>tracker_ok\<close> state the documented behaviour the
  theorems rely on, and \<open>sample_platform\<close> has it. Time passes because each step takes the platform of
  its moment.

  \<^bold>\<open>Theories and sources\<close>, below \<open>src/src\<close>, in the order of the layers.
  \<^item> \<open>LoLa_Prelude\<close>, \<open>LoLa_Constants\<close> (\<open>LoLaDefinitions.h\<close>), \<open>Platform\<close>: words and bytes, stores into
    arrays, Arduino arithmetic, the collections \<open>lola_consts\<close>, \<open>lola_frame\<close> and \<open>lola_defs\<close>.
  \<^item> \<open>Packet\<close> (\<open>Packet\<close>): definitions, packets as raw arrays, the header table; the locale
    \<open>header_table\<close> is what registration promises to lookup.
  \<^item> \<open>Crypto_Encoder\<close>, \<open>Key_Exchange\<close>, \<open>Key_Entropy\<close>, \<open>Identity\<close>, \<open>Serial_Id\<close> (\<open>LoLaCrypto\<close>): encoder with
    key, IV, token and the stages of its use; the ECDH stages and the random numbers behind them; the id of
    a board, on STM32 and on AVR.
  \<^item> \<open>Clock\<close> (\<open>LoLaClock\<close>): the synchronised clock over the RTC.
  \<^item> \<open>Driver\<close>, \<open>Driver_Node\<close>, \<open>Driver_Machine\<close>, \<open>Driver_Duplex\<close> (\<open>PacketDriver\<close>, \<open>ILoLaDriver.h\<close>): the
    state and operations of the driver; its actions, which call the services; the machine of all steps
    a node can make (\<open>env_step\<close>, \<open>node_reach\<close>) with its invariants; the send slots.
  \<^item> \<open>Service\<close>, \<open>Services_Manager\<close>, \<open>Send_Service\<close> (\<open>ILoLaService.h\<close>, \<open>LoLaServicesManager.h\<close>,
    \<open>IPacketSendService.h\<close>): the life cycle of a service, the dispatch, the sending of one packet.
  \<^item> \<open>Packet_Delivery\<close>, \<open>Node_Safety\<close>: a frame from one driver to the services of another; the driver
    invariants for nodes with real services.
  \<^item> \<open>Tracked_Surface\<close>, \<open>Sync_Base\<close>, \<open>Sync_Writer\<close>, \<open>Sync_Reader\<close> (\<open>Services/SyncSurface\<close>): the surface and
    the two ends that mirror it; \<open>Sync_Protocol\<close> and \<open>Sync_Session\<close> let the ends talk;
    \<open>Controller_Surface\<close> (\<open>src/examples\<close>) is the surface of the example sketches.
  \<^item> \<open>Link_Info\<close>, \<open>Link_Helpers\<close>, \<open>Link_Service\<close>, \<open>Link_Host\<close>, \<open>Link_Remote\<close> (\<open>LoLaLinkInfo.h\<close>,
    \<open>Services/Link\<close>): what is known of the link; clock transactions and syncers, latency meter, power
    balancer, hopper, channel manager; the link service, its state changes and packets; host and remote.
  \<^item> \<open>Link_Frames\<close>, \<open>Link_Safety\<close>, \<open>Link_Ends\<close>, \<open>LoLa_Manager\<close> (\<open>Manager\<close>), \<open>Link_Node\<close>: what the operations
    leave alone, when a node encrypts, set-up, and the running node with the abstract link machine
    \<open>link_moves\<close>; \<open>Handshake\<close>, \<open>Link_Faults\<close>, \<open>Link_Packets\<close>: the key exchange between two nodes, what goes
    wrong, and the packets.
  \<^item> \<open>Node_Turns\<close>, \<open>Remote_Challenge\<close>, \<open>Lost_Tune\<close>: properties of the link service that a whole node keeps,
    through every turn of the action task, callback and interrupt: what a remote does not do before it
    is challenged, nor while it waits for the reply to a tuning request.
  \<^item> \<open>Linking_Run\<close>: the linking that follows the key exchange, as one run of both nodes up to \<open>Linked\<close>.
  \<^item> \<open>Link_Apps\<close>, \<open>Link_Boot\<close>, \<open>Example_Node\<close>, \<open>Example_Setup\<close> (\<open>Manager\<close>, \<open>src/examples\<close>): what a node's own
    services see of the link, the turns from \<open>Lola_Start\<close> to the search for a partner, the two managers
    of the examples with their surface service and the runs of their nodes, and \<open>setup\<close> of the sketches.
  \<^item> \<open>Session_Frames\<close>, \<open>Sync_Discovery\<close>, \<open>Discovery_Window\<close>, \<open>Example_Session\<close>: what a session leaves of the
    services beside the link, how a synchronisation begins and when it no longer can, and the two sketches together from \<open>setup\<close> to the arrival of the controls.
  \<^item> \<open>Timed_Hop\<close> (\<open>LoLaLinkTimedHopper.h\<close>): the hopper with its build options for token and frequency.
  \<^item> \<open>Tracked_Stream\<close> (\<open>Services/Stream/ITrackedStream.h\<close>), \<open>Radio_Scanner\<close> (\<open>Diagnostics\<close>): the buffer of a stream
    and the scan over the channels.
\<close>

text \<open>
  \<^bold>\<open>What the theorems show.\<close>
  \<^item> The link: every step of a node is a move of the abstract link machine; the encoder is in use
    exactly in \<open>Linking\<close> and \<open>Linked\<close>; two nodes that hear each other agree on session, key, IV, token
    and seed and go on to \<open>Linked\<close>; only a challenge that decrypts to the remote's id is acknowledged, and
    no run of a remote node gets to \<open>Linking\<close> without one; silence ends a session and leaves nothing of
    it, neither ids, keys and token seeds nor what was known of the partner.
  \<^item> The examples: \<open>setup\<close> registers every service or halts, and in every run from there the surface
    service is disabled exactly while its node is not linked; the values the remote sketch stores before
    there is a link are what the host reads after key exchange, linking and synchronisation.
  \<^item> The driver: a sent packet arrives unchanged; a ready driver listens on its channel; radio interrupts
    are masked only while a packet waits for processing; which distances of the two clocks and which guard
    times keep the two ends from owning the air together, and which let every packet arrive in the
    receiver's slot.
  \<^item> Services: every send ends within eight callbacks of its time-out; a surface is mirrored in as many
    packets as it has marked blocks, a divergence is found by the CRC and repaired, and what an
    application sets at one end is what it reads at the other.
  \<^item> Cryptography and identity: decoding undoes encoding, both ends derive the same secret, the random numbers of
    the keys come from a noisy pin and never from a dead one, ids are stable; with the hops built in, both ends
    keep the same token and channel as long as their ticks fall into the same periods.
  \<^item> Faults of the code, proved as theorems of the model: full action queues deafen a node, the
    clock jumps at the 16 bit roll-over, a synchronised remote keeps a gap to the host, tuning stops
    with the first lost reply, whatever the node goes on to do, stopping while linking keeps the key, frames can be replayed, the token
    seed does not depend on the key, the time based tokens are few, the reader of a surface bounces off its first
    synchronisation, a discovery not heard in half a second ends the surface for the rest of the link, an EEPROM failure is lost.

  \<^bold>\<open>Interfaces.\<close> \<open>driver_services\<close> is what the driver asks of the handlers it calls,
  \<open>node_service\<close> what the manager asks of a service, and the first is interpreted on the manager's
  dispatch over a table of the second; \<open>send_class\<close> is what the send machine asks of the virtual methods
  of a derived class, interpreted for the surface services and for host and remote; \<open>link_state\<close>,
  \<open>link_end\<close> and \<open>link_role\<close> are what the link service asks of the two classes derived from
  it, \<open>side_service\<close> what it asks of the services it notifies, interpreted for the hopper;
  \<open>link_apps\<close> and \<open>link_apps_end\<close> are what a predicate on the state of the services must
  keep for the link service to carry it, \<open>session_apps\<close> says it of both nodes through a whole session,
  \<open>node_watch\<close> is what a property must allow for the driver and the sends of the service to be of no
  concern to it, interpreted for a remote without a challenge and for one that waits for a reply,
  and \<open>part_of_node\<close> is how a service that is a member of a manager is read from and put back into its
  node. All are interpreted on the model's own definitions.

  \<^bold>\<open>Bounds and fuel.\<close> Loops over arrays are structural recursions. The two loops that depend on
  what is outside are partial functions: \<open>Stream_Clear\<close> returns for every ring that gives up its
  elements, \<open>RNG_count\<close> for every pin whose reading changes again, and only then. Runs of a node are
  inductive relations without a bound. The rounds of a surface synchronisation are a list of as many entries as blocks
  are marked, which is what the theorems prove to be enough.

  \<^bold>\<open>Not modelled.\<close> The build options are those of the repository: STM32 with RTC clock (and the
  AVR serial), \<open>LOLA_LINK_USE_TOKEN_HOP\<close> and \<open>LOLA_LINK_USE_FREQUENCY_HOP\<close> off outside
  \<open>Timed_Hop\<close>. Debug printing, the activity LED, \<open>LoLaTimeDebugTask\<close> (it toggles a pin) and
  the observers of the link state (they belong to the application) are left out. The task scheduler is reduced to what
  a task last asked of it: any order of turns is allowed. The stream services (\<open>AbstractStreamBuffer.h\<close>,
  \<open>Codec2StreamWriter.h\<close>) are unfinished, refer to members that do not exist and are included nowhere.
  The generated configuration of the radio chip is glue. Radio propagation is modelled as delivery or loss of a frame
  (the runs from \<open>setup\<close> to a synchronised surface lose none), collisions only as far as the code counts
  them.
\<close>

text \<open>
  The services of the example nodes leave the members of the link service alone, as the theorems
  on lost links and lost replies ask of an application.
\<close>

lemma surface_services_private:
  "hopper_private host_surface_service" "hopper_private remote_surface_service" "tune_private remote_surface_service"
proof -
  note q = Writer_quiet_service [unfolded quiet_service_def]
  show "hopper_private host_surface_service" "hopper_private remote_surface_service"
    by (simp_all add: hopper_private_def host_surface_service_def remote_surface_service_def lift_service_def
        set_host_reader_def set_remote_writer_def)
  show "tune_private remote_surface_service"
    by (simp add: tune_private_def tune_view_def remote_surface_service_def lift_service_def set_remote_writer_def q
        case_prod_unfold Let_def)
       (simp add: remote_writer_def)
qed

end
